(* ===== verification/PyFloat.thy ===== *)
theory PyFloat
  imports Complex_Main "HOL-Library.Log_Nat"
begin

text \<open>
  Python's \<^verbatim>\<open>float\<close>, the type of every price, notional and average of the program.

  A finite float is the rational number it denotes, and every arithmetic operation is the exact
  operation followed by the rounding \<open>fl\<close> to 53 significant bits, ties to even, which is what
  IEEE 754 binary64 prescribes.  The built-in \<^verbatim>\<open>round(x, 8)\<close> is \<open>pyround8\<close> (nearest
  multiple of 1e-8 of the exact value, ties to even, then the nearest float), and the built-in
  \<^verbatim>\<open>sum\<close> of a list of floats is \<open>pysum\<close>, CPython's compensated summation (3.12 and later; the
  Dockerfile pins 3.13).  The exponent is not bounded: overflow to infinity, subnormal numbers,
  NaN and the sign of zero are not modelled.

  The interface of rounding is the locale \<open>rounding\<close>, an extension of \<open>monotone_rounding\<close>; its
  laws are proved for \<open>fl\<close> at the end of the section, and every later theory uses only them.
\<close>

section \<open>Rounding to a float\<close>

type_synonym pyfloat = rat

definition round_half_even :: "rat \<Rightarrow> int" where
  "round_half_even x =
     (let f = \<lfloor>x\<rfloor>; r = x - of_int f in
      if r < 1 / 2 then f else if 1 / 2 < r then f + 1
      else if even f then f else f + 1)"

text \<open>The exponent of a positive number: \<open>2 ^ fexp x \<le> x < 2 ^ (fexp x + 1)\<close>.\<close>

definition fexp :: "rat \<Rightarrow> int" where
  "fexp x =
     (let q = quotient_of x; k = bitlen (fst q) - bitlen (snd q) in
      if power_int 2 k \<le> x then k else k - 1)"

definition fl_pos :: "rat \<Rightarrow> rat" where
  "fl_pos x = (let u = power_int 2 (fexp x - 52) in of_int (round_half_even (x / u)) * u)"

definition fl :: "rat \<Rightarrow> pyfloat" where
  "fl x = (if x = 0 then 0 else if 0 < x then fl_pos x else - fl_pos (- x))"

section \<open>The interface of rounding\<close>

locale monotone_rounding =
  fixes rnd :: "rat \<Rightarrow> rat"
  assumes mono: "x \<le> y \<Longrightarrow> rnd x \<le> rnd y"
    and minus: "rnd (- x) = - rnd x"
begin

lemma zero [simp]: "rnd 0 = 0"
  using minus [of 0] by simp

lemma nonneg: "0 \<le> x \<Longrightarrow> 0 \<le> rnd x"
  using mono [of 0 x] by simp

lemma nonpos: "x \<le> 0 \<Longrightarrow> rnd x \<le> 0"
  using mono [of x 0] by simp

lemma below_fixed: "x \<le> y \<Longrightarrow> rnd y = y \<Longrightarrow> rnd x \<le> y"
  using mono [of x y] by simp

lemma above_fixed: "y \<le> x \<Longrightarrow> rnd y = y \<Longrightarrow> y \<le> rnd x"
  using mono [of y x] by simp

end

locale rounding = monotone_rounding +
  assumes idem: "rnd (rnd x) = rnd x"
    and ints: "\<bar>n\<bar> \<le> 2 ^ 53 \<Longrightarrow> rnd (of_int n) = of_int n"
    and near: "\<bar>rnd x - x\<bar> \<le> \<bar>x\<bar> / 2 ^ 53"
begin

lemma one [simp]: "rnd 1 = 1"
  using ints [of 1] by simp

lemma lower: "0 \<le> x \<Longrightarrow> x * (1 - 1 / 2 ^ 53) \<le> rnd x"
proof -
  assume "0 \<le> x"
  with near [of x] have "x - x / 2 ^ 53 \<le> rnd x" by linarith
  then show ?thesis by (simp add: algebra_simps)
qed

lemma upper: "0 \<le> x \<Longrightarrow> rnd x \<le> x * (1 + 1 / 2 ^ 53)"
proof -
  assume "0 \<le> x"
  with near [of x] have "rnd x \<le> x + x / 2 ^ 53" by linarith
  then show ?thesis by (simp add: algebra_simps)
qed

lemma pos: "0 < x \<Longrightarrow> 0 < rnd x"
proof -
  assume x: "0 < x"
  then have "0 < x * (1 - 1 / 2 ^ 53)" by simp
  also have "\<dots> \<le> rnd x" using x by (intro lower) simp
  finally show ?thesis .
qed

lemma neg: "x < 0 \<Longrightarrow> rnd x < 0"
  using pos [of "- x"] by (simp add: minus)

lemma eq_0_iff [simp]: "rnd x = 0 \<longleftrightarrow> x = 0"
  using pos [of x] neg [of x] by (cases x "0 :: rat" rule: linorder_cases) auto

lemma pos_iff: "0 < rnd x \<longleftrightarrow> 0 < x"
  using pos [of x] nonpos [of x] by linarith

end

section \<open>The float rounding satisfies the interface\<close>

lemma rhe_bounds:
  "of_int (round_half_even x) - 1 / 2 \<le> x" "x \<le> of_int (round_half_even x) + 1 / 2"
  unfolding round_half_even_def Let_def by (auto split: if_splits) linarith+

lemma rhe_near: "\<bar>of_int (round_half_even x) - x\<bar> \<le> 1 / 2"
  using rhe_bounds [of x] by linarith

lemma rhe_of_int [simp]: "round_half_even (of_int n) = n"
  by (simp add: round_half_even_def)

lemma rhe_mono:
  assumes "x \<le> y"
  shows "round_half_even x \<le> round_half_even y"
proof (cases "\<lfloor>x\<rfloor> = \<lfloor>y\<rfloor>")
  case True
  then show ?thesis using assms by (auto simp: round_half_even_def Let_def)
next
  case False
  with assms have "\<lfloor>x\<rfloor> + 1 \<le> \<lfloor>y\<rfloor>" using floor_mono [of x y] by linarith
  then show ?thesis by (auto simp: round_half_even_def Let_def)
qed

lemma rhe_minus: "round_half_even (- x) = - round_half_even x"
proof (cases "x = of_int \<lfloor>x\<rfloor>")
  case True
  then show ?thesis by (metis of_int_minus rhe_of_int)
next
  case False
  then have "\<lfloor>- x\<rfloor> = - \<lfloor>x\<rfloor> - 1" by (intro floor_unique) (auto, linarith+)
  then show ?thesis by (auto simp: round_half_even_def Let_def)
qed

lemma bitlen_powi:
  assumes "0 < n"
  shows "power_int 2 (bitlen n - 1) \<le> rat_of_int n" "rat_of_int n < power_int 2 (bitlen n)"
proof -
  have b: "2 ^ nat (bitlen n - 1) \<le> n" "n < 2 ^ nat (bitlen n)"
    using bitlen_bounds [OF assms] by auto
  have "1 \<le> bitlen n"
    using assms bitlen_eq_zero_iff [of n] bitlen_nonneg [of n] by linarith
  then have p: "power_int 2 (bitlen n - 1) = (2 :: rat) ^ nat (bitlen n - 1)"
    "power_int 2 (bitlen n) = (2 :: rat) ^ nat (bitlen n)"
    by (simp_all add: power_int_def)
  have "rat_of_int (2 ^ nat (bitlen n - 1)) \<le> rat_of_int n" "rat_of_int n < rat_of_int (2 ^ nat (bitlen n))"
    using b by (simp_all only: of_int_le_iff of_int_less_iff)
  then show "power_int 2 (bitlen n - 1) \<le> rat_of_int n" "rat_of_int n < power_int 2 (bitlen n)"
    unfolding p by simp_all
qed

lemma powi_less_cancel: "power_int (2 :: rat) a < power_int 2 b \<Longrightarrow> a < b"
  using power_int_increasing [of b a "2 :: rat"] by (meson leD leI one_le_numeral)

lemma powi_less_mono: "a < b \<Longrightarrow> power_int (2 :: rat) a < power_int 2 b"
  by (rule power_int_strict_increasing) simp_all

lemma fexp_bounds:
  assumes "0 < x"
  shows "power_int 2 (fexp x) \<le> x" "x < power_int 2 (fexp x + 1)"
proof -
  obtain n d where q: "quotient_of x = (n, d)" by force
  have d: "0 < d" using quotient_of_denom_pos [OF q] .
  have x: "x = of_int n / of_int d" using quotient_of_div [OF q] .
  have n: "0 < n" using assms d x by (simp add: zero_less_divide_iff)
  define k where "k = bitlen n - bitlen d"
  note nb = bitlen_powi [OF n] and db = bitlen_powi [OF d]
  have up: "x < power_int 2 (k + 1)"
  proof -
    have "x * power_int 2 (bitlen d - 1) \<le> x * of_int d"
      using db assms by (intro mult_left_mono) auto
    also have "\<dots> = of_int n" using d x by simp
    also have "\<dots> < power_int 2 (bitlen n)" by (rule nb)
    also have "\<dots> = power_int 2 (k + 1) * power_int 2 (bitlen d - 1)"
      by (simp add: k_def flip: power_int_add)
    finally show ?thesis by simp
  qed
  have low: "power_int 2 (k - 1) < x"
  proof -
    have "power_int 2 (k - 1) * power_int 2 (bitlen d) = power_int (2 :: rat) (bitlen n - 1)"
      by (simp add: k_def flip: power_int_add)
    also have "\<dots> \<le> of_int n" by (rule nb)
    also have "\<dots> = x * of_int d" using d x by simp
    also have "\<dots> < x * power_int 2 (bitlen d)" using db assms by simp
    finally show ?thesis by simp
  qed
  have "fexp x = (if power_int 2 k \<le> x then k else k - 1)"
    by (simp add: fexp_def q k_def Let_def)
  then show "power_int 2 (fexp x) \<le> x" "x < power_int 2 (fexp x + 1)"
    using up low by auto
qed

lemma fexp_mono:
  assumes "0 < x" "x \<le> y"
  shows "fexp x \<le> fexp y"
proof (rule ccontr)
  assume "\<not> fexp x \<le> fexp y"
  then have "power_int 2 (fexp y + 1) \<le> (power_int 2 (fexp x) :: rat)"
    by (intro power_int_increasing) auto
  with fexp_bounds [of x] fexp_bounds [of y] assms show False by linarith
qed

lemma fexp_unique:
  assumes "power_int 2 e \<le> x" "x < power_int 2 (e + 1)"
  shows "fexp x = e"
proof -
  have x: "0 < x" using assms(1) by (meson less_le_trans zero_less_numeral zero_less_power_int)
  note b = fexp_bounds [OF x]
  have "(power_int 2 e :: rat) < power_int 2 (fexp x + 1)" using assms(1) b(2) by linarith
  moreover have "(power_int 2 (fexp x) :: rat) < power_int 2 (e + 1)" using assms(2) b(1) by linarith
  ultimately show ?thesis by (auto dest!: powi_less_cancel)
qed

lemma fl_pos_cases:
  assumes "0 < x"
  obtains m where "fl_pos x = of_int m * power_int 2 (fexp x - 52)"
    "m = round_half_even (x / power_int 2 (fexp x - 52))"
    "2 ^ 52 \<le> m" "m \<le> 2 ^ 53"
proof
  let ?u = "power_int 2 (fexp x - 52) :: rat"
  let ?m = "round_half_even (x / ?u)"
  note b = fexp_bounds [OF assms]
  have p: "power_int 2 (fexp x) = of_int (2 ^ 52) * ?u" "power_int 2 (fexp x + 1) = of_int (2 ^ 53) * ?u"
    using power_int_add [of "2 :: rat" 52 "fexp x - 52"] power_int_add [of "2 :: rat" 53 "fexp x - 52"]
    by (simp_all add: algebra_simps)
  have u: "0 < ?u" by simp
  show "fl_pos x = of_int ?m * ?u" by (simp add: fl_pos_def Let_def)
  show "?m = round_half_even (x / ?u)" ..
  have "of_int (2 ^ 52) \<le> x / ?u" using b(1) u unfolding p by (simp only: pos_le_divide_eq)
  from rhe_mono [OF this] show "2 ^ 52 \<le> ?m" by (simp only: rhe_of_int)
  have "x / ?u \<le> of_int (2 ^ 53)"
    using b(2) u unfolding p by (simp only: pos_divide_le_eq less_imp_le)
  from rhe_mono [OF this] show "?m \<le> 2 ^ 53" by (simp only: rhe_of_int)
qed

text \<open>A number with at most 53 significant bits is fixed by the rounding.\<close>

lemma fl_pos_fixed:
  assumes "0 < x" "x = of_int m * power_int 2 (fexp x - 52)"
  shows "fl_pos x = x"
proof -
  have "x / power_int 2 (fexp x - 52) = of_int m"
    by (subst assms(2)) simp
  then show ?thesis using assms(2) by (simp add: fl_pos_def Let_def)
qed

lemma fl_pos_bounds:
  assumes "0 < x"
  shows "power_int 2 (fexp x) \<le> fl_pos x" "fl_pos x \<le> power_int 2 (fexp x + 1)"
proof -
  let ?u = "power_int 2 (fexp x - 52) :: rat"
  obtain m where m: "fl_pos x = of_int m * ?u" "2 ^ 52 \<le> m" "m \<le> 2 ^ 53"
    using fl_pos_cases [OF assms] by metis
  have p: "power_int 2 (fexp x) = of_int (2 ^ 52) * ?u" "power_int 2 (fexp x + 1) = of_int (2 ^ 53) * ?u"
    using power_int_add [of "2 :: rat" 52 "fexp x - 52"] power_int_add [of "2 :: rat" 53 "fexp x - 52"]
    by (simp_all add: algebra_simps)
  show "power_int 2 (fexp x) \<le> fl_pos x" unfolding m(1) p
    using m(2) by (intro mult_right_mono) (simp_all only: of_int_le_iff, simp)
  show "fl_pos x \<le> power_int 2 (fexp x + 1)" unfolding m(1) p
    using m(3) by (intro mult_right_mono) (simp_all only: of_int_le_iff, simp)
qed

lemma fl_pos_pos: "0 < x \<Longrightarrow> 0 < fl_pos x"
  using fl_pos_bounds(1) [of x] by (meson less_le_trans zero_less_numeral zero_less_power_int)

lemma fl_pos_mono:
  assumes "0 < x" "x \<le> y"
  shows "fl_pos x \<le> fl_pos y"
proof (cases "fexp x = fexp y")
  case True
  then show ?thesis using assms
    by (simp add: fl_pos_def Let_def rhe_mono divide_right_mono)
next
  case False
  with fexp_mono [OF assms] have "fexp x + 1 \<le> fexp y" by simp
  then have "power_int 2 (fexp x + 1) \<le> (power_int 2 (fexp y) :: rat)"
    by (intro power_int_increasing) auto
  then show ?thesis
    using fl_pos_bounds(2) [of x] fl_pos_bounds(1) [of y] assms by linarith
qed

lemma fl_pos_idem:
  assumes "0 < x"
  shows "fl_pos (fl_pos x) = fl_pos x"
proof -
  let ?u = "power_int 2 (fexp x - 52) :: rat"
  obtain m where m: "fl_pos x = of_int m * ?u" "2 ^ 52 \<le> m" "m \<le> 2 ^ 53"
    using fl_pos_cases [OF assms] by metis
  note b = fl_pos_bounds [OF assms]
  show ?thesis
  proof (cases "fl_pos x < power_int 2 (fexp x + 1)")
    case True
    then have "fexp (fl_pos x) = fexp x" by (intro fexp_unique b(1))
    with m(1) show ?thesis by (intro fl_pos_fixed fl_pos_pos assms) auto
  next
    case False
    then have top: "fl_pos x = power_int 2 (fexp x + 1)" using b(2) by simp
    have e: "fexp (fl_pos x) = fexp x + 1"
      unfolding top by (rule fexp_unique) (simp, rule powi_less_mono, simp)
    have "power_int 2 (fexp x + 1) = of_int (2 ^ 52) * (power_int 2 (fexp x + 1 - 52) :: rat)"
      using power_int_add [of "2 :: rat" 52 "fexp x + 1 - 52"] by (simp add: add.commute)
    then show ?thesis
      by (intro fl_pos_fixed fl_pos_pos assms) (simp add: e, simp add: top)
  qed
qed

lemma fl_pos_near:
  assumes "0 < x"
  shows "\<bar>fl_pos x - x\<bar> \<le> x / 2 ^ 53"
proof -
  let ?u = "power_int 2 (fexp x - 52) :: rat"
  let ?r = "of_int (round_half_even (x / ?u)) :: rat"
  have u: "0 < ?u" by simp
  have "power_int 2 (fexp x) = 2 ^ 52 * ?u"
    using power_int_add [of "2 :: rat" 52 "fexp x - 52"] by (simp add: algebra_simps)
  then have "2 ^ 52 * ?u \<le> x" using fexp_bounds(1) [OF assms] by simp
  then have ub: "?u / 2 \<le> x / 2 ^ 53" by simp
  have "\<bar>?r - x / ?u\<bar> * ?u \<le> 1 / 2 * ?u"
    using u by (intro mult_right_mono rhe_near) simp
  also have "\<bar>?r - x / ?u\<bar> * ?u = \<bar>(?r - x / ?u) * ?u\<bar>"
    using u by (simp add: abs_mult)
  also have "(?r - x / ?u) * ?u = fl_pos x - x"
    by (simp add: fl_pos_def Let_def left_diff_distrib)
  finally show ?thesis using ub by linarith
qed

lemma fl_pos_ints:
  assumes "0 < n" "n \<le> 2 ^ 53"
  shows "fl_pos (of_int n) = of_int n"
proof -
  let ?x = "of_int n :: rat"
  have x: "0 < ?x" using assms by simp
  note b = fexp_bounds [OF x]
  have "(power_int 2 0 :: rat) < power_int 2 (fexp ?x + 1)" using b(2) assms by simp
  from powi_less_cancel [OF this] have lo: "0 \<le> fexp ?x" by simp
  have "?x \<le> of_int (2 ^ 53)" using assms(2) by (simp only: of_int_le_iff)
  also have "of_int (2 ^ 53) < (power_int 2 54 :: rat)" by simp
  finally have "?x < power_int 2 54" .
  with b(1) have "(power_int 2 (fexp ?x) :: rat) < power_int 2 54" by linarith
  from powi_less_cancel [OF this] have hi: "fexp ?x \<le> 53" by simp
  show ?thesis
  proof (cases "fexp ?x \<le> 52")
    case True
    have "?x = of_int (n * 2 ^ nat (52 - fexp ?x)) * power_int 2 (fexp ?x - 52)"
    proof -
      have "(2 :: rat) ^ nat (52 - fexp ?x) = power_int 2 (52 - fexp ?x)"
        using True by (simp add: power_int_def)
      moreover have "power_int 2 (52 - fexp ?x) * (power_int 2 (fexp ?x - 52) :: rat) = 1"
        by (simp flip: power_int_add)
      ultimately show ?thesis by (simp add: mult.assoc)
    qed
    then show ?thesis by (intro fl_pos_fixed x)
  next
    case False
    with hi have e: "fexp ?x = 53" by simp
    have "of_int (2 ^ 53) \<le> ?x" using b(1) by (simp add: e)
    then have "2 ^ 53 \<le> n" by (simp only: of_int_le_iff)
    with assms(2) have "n = 2 ^ 53" by simp
    then show ?thesis using e by (intro fl_pos_fixed [where m = "2 ^ 52"] x) simp
  qed
qed

interpretation fl: rounding fl
proof
  fix x y :: rat
  show minus: "fl (- x) = - fl x" for x by (auto simp: fl_def)
  show "x \<le> y \<Longrightarrow> fl x \<le> fl y"
    using fl_pos_mono [of x y] fl_pos_mono [of "- y" "- x"] fl_pos_pos [of y] fl_pos_pos [of "- x"]
    by (auto simp: fl_def)
  show "fl (fl x) = fl x"
    using fl_pos_idem [of x] fl_pos_idem [of "- x"] fl_pos_pos [of x] fl_pos_pos [of "- x"]
    by (auto simp: fl_def)
  show "\<bar>fl x - x\<bar> \<le> \<bar>x\<bar> / 2 ^ 53"
  proof (cases x "0 :: rat" rule: linorder_cases)
    case less
    with fl_pos_near [of "- x"] have "\<bar>- (fl_pos (- x) + x)\<bar> \<le> - x / 2 ^ 53" by simp
    with less show ?thesis by (simp add: fl_def)
  qed (use fl_pos_near [of x] in \<open>auto simp: fl_def\<close>)
  fix n :: int
  show "\<bar>n\<bar> \<le> 2 ^ 53 \<Longrightarrow> fl (of_int n) = of_int n"
    using fl_pos_ints [of n] fl_pos_ints [of "- n"] by (auto simp: fl_def)
qed

text \<open>To evaluate: an integer of at most 53 bits is its own rounding.\<close>

lemma fl_code [code]:
  "fl x =
     (let q = quotient_of x in
      if snd q = 1 \<and> \<bar>fst q\<bar> \<le> 2 ^ 53 then x
      else if 0 < x then fl_pos x else - fl_pos (- x))"
proof -
  obtain a b where q: "quotient_of x = (a, b)" by (cases "quotient_of x")
  have "fl x = x" if "b = 1" "\<bar>a\<bar> \<le> 2 ^ 53"
    using quotient_of_div [OF q] fl.ints [OF that(2)] that(1) by simp
  moreover have "b = 1 \<and> \<bar>a\<bar> \<le> 2 ^ 53" if "x = 0" using q that by (simp add: rat_zero_code)
  ultimately show ?thesis by (auto simp: q fl_def)
qed

section \<open>Python's operations on floats\<close>

definition fadd :: "pyfloat \<Rightarrow> pyfloat \<Rightarrow> pyfloat" where "fadd x y = fl (x + y)"
definition fsub :: "pyfloat \<Rightarrow> pyfloat \<Rightarrow> pyfloat" where "fsub x y = fl (x - y)"
definition fmul :: "pyfloat \<Rightarrow> pyfloat \<Rightarrow> pyfloat" where "fmul x y = fl (x * y)"
definition fdiv :: "pyfloat \<Rightarrow> pyfloat \<Rightarrow> pyfloat" where "fdiv x y = fl (x / y)"

text \<open>An \<^verbatim>\<open>int\<close> operand of a float operation is converted first; \<open>int / int\<close> rounds once.\<close>

definition float_of_int :: "int \<Rightarrow> pyfloat" where "float_of_int n = fl (of_int n)"

definition int_div :: "int \<Rightarrow> int \<Rightarrow> pyfloat" where "int_div a b = fl (of_int a / of_int b)"

lemma int_div_code [code]:
  "int_div a b = (if b \<noteq> 0 \<and> a mod b = 0 then fl (of_int (a div b)) else fl (of_int a / of_int b))"
proof -
  have "(of_int a :: rat) / of_int b = of_int (a div b)" if "b \<noteq> 0" "a mod b = 0"
  proof -
    have "a = a div b * b" using that(2) by (metis add.right_neutral div_mult_mod_eq)
    then have "(of_int a :: rat) = of_int (a div b) * of_int b" by (metis of_int_mult)
    with that(1) show ?thesis by (simp add: field_simps)
  qed
  then show ?thesis by (simp add: int_div_def)
qed

text \<open>\<^verbatim>\<open>round(x, 8)\<close>: the nearest multiple of 1e-8 of the exact value, as a float.\<close>

definition dec8 :: "rat \<Rightarrow> rat" where
  "dec8 x = of_int (round_half_even (x * 10 ^ 8)) / 10 ^ 8"

lemma dec8_code [code]:
  "dec8 x = (if snd (quotient_of x) = 1 then x else of_int (round_half_even (x * 10 ^ 8)) / 10 ^ 8)"
proof -
  have "dec8 x = x" if "snd (quotient_of x) = 1"
  proof -
    have q: "quotient_of x = (fst (quotient_of x), 1)" using that by (simp add: prod_eq_iff)
    define a where "a = fst (quotient_of x)"
    have x: "x = of_int a" using quotient_of_div [OF q] by (simp add: a_def)
    then have "x * 10 ^ 8 = of_int (a * 10 ^ 8)" by simp
    then have "round_half_even (x * 10 ^ 8) = a * 10 ^ 8" by (simp only: rhe_of_int)
    then show ?thesis by (simp add: dec8_def x)
  qed
  then show ?thesis by (simp add: dec8_def)
qed

definition pyround8 :: "pyfloat \<Rightarrow> pyfloat" where
  "pyround8 x = fl (dec8 x)"

text \<open>
  \<^verbatim>\<open>sum(xs)\<close> of floats: the running total, and the compensation \<open>c\<close> that collects the rounding
  error of each addition and is added at the end when it is not zero.
\<close>

fun pysum_loop :: "pyfloat \<Rightarrow> pyfloat \<Rightarrow> pyfloat list \<Rightarrow> pyfloat" where
  "pysum_loop f c [] = (if c = 0 then f else fadd f c)"
| "pysum_loop f c (x # xs) =
     (let t = fadd f x;
          e = (if \<bar>x\<bar> \<le> \<bar>f\<bar> then fadd (fsub f t) x else fadd (fsub x t) f)
      in pysum_loop t (fadd c e) xs)"

definition pysum :: "pyfloat list \<Rightarrow> pyfloat" where
  "pysum xs = (case xs of [] \<Rightarrow> 0 | x # ys \<Rightarrow> pysum_loop (fadd 0 x) 0 ys)"

text \<open>A float field is a value that the rounding fixes.\<close>

definition is_float :: "rat \<Rightarrow> bool" where
  "is_float x \<longleftrightarrow> fl x = x"

text \<open>\<^verbatim>\<open>a or b\<close> on an optional float: \<^verbatim>\<open>None\<close> and \<^verbatim>\<open>0\<close> are falsy.\<close>

definition float_or :: "pyfloat option \<Rightarrow> pyfloat \<Rightarrow> pyfloat" where
  "float_or a b = (case a of None \<Rightarrow> b | Some x \<Rightarrow> if x = 0 then b else x)"

lemma is_float_fl [simp, intro]: "is_float (fl x)"
  by (simp add: is_float_def fl.idem)

lemma is_float_ints [simp, intro]: "\<bar>n\<bar> \<le> 2 ^ 53 \<Longrightarrow> is_float (of_int n)"
  by (simp add: is_float_def fl.ints)

lemma is_float_const [simp]: "is_float 0" "is_float 1"
  by (simp_all add: is_float_def)

lemma is_float_ops [simp, intro]:
  "is_float (fadd x y)" "is_float (fsub x y)" "is_float (fmul x y)" "is_float (fdiv x y)"
  "is_float (float_of_int n)" "is_float (int_div a b)" "is_float (pyround8 x)"
  by (simp_all add: fadd_def fsub_def fmul_def fdiv_def float_of_int_def int_div_def pyround8_def)

lemma float_of_int_exact [simp]: "\<bar>n\<bar> \<le> 2 ^ 53 \<Longrightarrow> float_of_int n = of_int n"
  by (simp add: float_of_int_def fl.ints)

lemma float_of_int_pos [simp]: "0 < float_of_int n \<longleftrightarrow> 0 < n"
  by (simp add: float_of_int_def fl.pos_iff)

lemma float_of_int_mono: "m \<le> n \<Longrightarrow> float_of_int m \<le> float_of_int n"
  by (simp add: float_of_int_def fl.mono)

lemma fmul_pos: "0 < x \<Longrightarrow> 0 < y \<Longrightarrow> 0 < fmul x y"
  by (simp add: fmul_def fl.pos)

lemma fadd_pos: "0 \<le> x \<Longrightarrow> 0 < y \<Longrightarrow> 0 < fadd x y"
  by (simp add: fadd_def fl.pos)

lemma fdiv_pos: "0 < x \<Longrightarrow> 0 < y \<Longrightarrow> 0 < fdiv x y"
  by (simp add: fdiv_def fl.pos)

lemma float_or_pos: "0 < b \<Longrightarrow> (\<And>x. a = Some x \<Longrightarrow> 0 \<le> x) \<Longrightarrow> 0 < float_or a b"
  by (fastforce simp: float_or_def less_le split: option.splits)

section \<open>Decimal rounding is a monotone rounding\<close>

lemma dec8_mono: "x \<le> y \<Longrightarrow> dec8 x \<le> dec8 y"
  by (simp add: dec8_def divide_right_mono rhe_mono)

lemma dec8_minus: "dec8 (- x) = - dec8 x"
  by (simp add: dec8_def rhe_minus)

interpretation round8: monotone_rounding pyround8
  by unfold_locales (auto simp: pyround8_def fl.mono fl.minus dec8_mono dec8_minus)

text \<open>\<open>round(x, 8)\<close> moves a value by half a unit of the eighth decimal and one float rounding.\<close>

lemma dec8_near: "\<bar>dec8 x - x\<bar> \<le> 1 / (2 * 10 ^ 8)"
proof -
  have "\<bar>of_int (round_half_even (x * 10 ^ 8)) - x * 10 ^ 8\<bar> / 10 ^ 8 \<le> (1 / 2) / (10 ^ 8 :: rat)"
    by (intro divide_right_mono rhe_near) simp
  moreover have "\<bar>dec8 x - x\<bar> = \<bar>of_int (round_half_even (x * 10 ^ 8)) - x * 10 ^ 8\<bar> / 10 ^ 8"
  proof -
    have "dec8 x - x = (of_int (round_half_even (x * 10 ^ 8)) - x * 10 ^ 8) / 10 ^ 8"
      by (simp add: dec8_def diff_divide_distrib)
    then show ?thesis by (simp only: abs_divide) simp
  qed
  ultimately show ?thesis by simp
qed

end
