(* ===== verification/Prelude.thy ===== *)
theory Prelude
  imports PyFloat
begin

text \<open>
  What every component shares: Python exceptions as values of the sum type \<open>exn + 'a\<close> (\<open>Inl\<close> is a
  raise), instants of time, the collections of simplification rules the component theories extend,
  and the lemmas about replacing one element of a list that carry the ledger proofs.
\<close>

named_theorems store_simps \<open>the session and its tables\<close>
named_theorems row_defs \<open>definitions that build or update one row\<close>

section \<open>Exceptions as values\<close>

text \<open>
  The exception classes of the program, with the fields its handlers read:
  \<^verbatim>\<open>TradingError(code, status_code)\<close>, \<^verbatim>\<open>DhanOrderError(code, ambiguous)\<close>, \<^verbatim>\<open>StrategyError(code, status_code)\<close>,
  \<^verbatim>\<open>DhanProtocolError\<close>, \<^verbatim>\<open>DhanDisconnectError(code)\<close>, FastAPI's \<^verbatim>\<open>HTTPException\<close>, SQLAlchemy's
  \<^verbatim>\<open>IntegrityError\<close>, \<^verbatim>\<open>BrokerError(code)\<close>, and by its class name any exception the interpreter or a library raises.
\<close>

datatype exn =
    TradingError string int
  | DhanOrderError string bool
  | StrategyError string int
  | DhanProtocolError string
  | DhanDisconnectError int
  | HTTPException int string
  | IntegrityError
  | BrokerError string
  | PyError string

text \<open>\<^verbatim>\<open>type(exc).__name__\<close>.\<close>

fun exn_name :: "exn \<Rightarrow> string" where
  "exn_name (TradingError _ _) = ''TradingError''"
| "exn_name (DhanOrderError _ _) = ''DhanOrderError''"
| "exn_name (StrategyError _ _) = ''StrategyError''"
| "exn_name (DhanProtocolError _) = ''DhanProtocolError''"
| "exn_name (DhanDisconnectError _) = ''DhanDisconnectError''"
| "exn_name (HTTPException _ _) = ''HTTPException''"
| "exn_name IntegrityError = ''IntegrityError''"
| "exn_name (BrokerError _) = ''BrokerError''"
| "exn_name (PyError name) = name"

abbreviation trading_error :: "string \<Rightarrow> exn" where
  "trading_error code \<equiv> TradingError code 409"

text \<open>A call that may raise, and what follows when it does not.\<close>

definition and_then :: "exn + 'a \<Rightarrow> ('a \<Rightarrow> exn + 'b) \<Rightarrow> exn + 'b" where
  "and_then r f = (case r of Inl e \<Rightarrow> Inl e | Inr x \<Rightarrow> f x)"

lemma and_then_simps [simp]: "and_then (Inr x) f = f x" "and_then (Inl e) f = Inl e"
  by (simp_all add: and_then_def)

text \<open>An instant, in microseconds since the epoch (the resolution of \<^verbatim>\<open>datetime\<close>).\<close>

type_synonym instant = int

text \<open>\<^verbatim>\<open>(a - b).total_seconds()\<close>: a float number of seconds.\<close>

definition seconds_between :: "instant \<Rightarrow> instant \<Rightarrow> pyfloat" where
  "seconds_between a b = int_div (a - b) 1000000"

definition or_else :: "'a option \<Rightarrow> 'a \<Rightarrow> 'a" where
  "or_else a b = (case a of None \<Rightarrow> b | Some x \<Rightarrow> x)"

lemma or_else_simps [simp]: "or_else None b = b" "or_else (Some x) b = x"
  by (simp_all add: or_else_def)

lemma seconds_between_mono: "a \<le> a' \<Longrightarrow> seconds_between a b \<le> seconds_between a' b"
  by (simp add: seconds_between_def int_div_def fl.mono divide_right_mono)

section \<open>Strings\<close>

text \<open>
  Python's \<^verbatim>\<open>str\<close> is modelled by the ASCII strings of HOL: \<^verbatim>\<open>upper\<close> and \<^verbatim>\<open>lower\<close> act on letters, \<^verbatim>\<open>strip\<close>
  removes the six ASCII white-space characters, \<open>str_of_int\<close> is \<^verbatim>\<open>str(n)\<close> of an \<^verbatim>\<open>int\<close>.
\<close>

definition code_of :: "char \<Rightarrow> nat" where "code_of c = of_char c"

definition is_upper_char :: "char \<Rightarrow> bool" where
  "is_upper_char c \<longleftrightarrow> 65 \<le> code_of c \<and> code_of c \<le> 90"

definition is_lower_char :: "char \<Rightarrow> bool" where
  "is_lower_char c \<longleftrightarrow> 97 \<le> code_of c \<and> code_of c \<le> 122"

definition is_digit_char :: "char \<Rightarrow> bool" where
  "is_digit_char c \<longleftrightarrow> 48 \<le> code_of c \<and> code_of c \<le> 57"

definition is_space_char :: "char \<Rightarrow> bool" where
  "is_space_char c \<longleftrightarrow> code_of c = 32 \<or> 9 \<le> code_of c \<and> code_of c \<le> 13"

definition py_upper :: "string \<Rightarrow> string" where
  "py_upper s = map (\<lambda>c. if is_lower_char c then char_of (code_of c - 32) else c) s"

definition py_lower :: "string \<Rightarrow> string" where
  "py_lower s = map (\<lambda>c. if is_upper_char c then char_of (code_of c + 32) else c) s"

definition py_strip :: "string \<Rightarrow> string" where
  "py_strip s = rev (dropWhile is_space_char (rev (dropWhile is_space_char s)))"

fun digits_of_nat :: "nat \<Rightarrow> string" where
  "digits_of_nat n =
     (if n < 10 then [char_of (48 + n)]
      else digits_of_nat (n div 10) @ [char_of (48 + n mod 10)])"

declare digits_of_nat.simps [simp del]

definition str_of_int :: "int \<Rightarrow> string" where
  "str_of_int i = (if i < 0 then CHR ''-'' # digits_of_nat (nat (- i)) else digits_of_nat (nat i))"

section \<open>Replacing the element with a given key\<close>

definition upd_by :: "('r \<Rightarrow> 'k) \<Rightarrow> 'r \<Rightarrow> 'r list \<Rightarrow> 'r list" where
  "upd_by key r xs = map (\<lambda>x. if key x = key r then r else x) xs"

lemma upd_by_simps [simp]:
  "upd_by key r [] = []"
  "upd_by key r (x # xs) = (if key x = key r then r else x) # upd_by key r xs"
  "upd_by key r (xs @ ys) = upd_by key r xs @ upd_by key r ys"
  "length (upd_by key r xs) = length xs"
  by (simp_all add: upd_by_def)

lemma map_key_upd_by [simp]: "map key (upd_by key r xs) = map key xs"
  by (induction xs) auto

lemma map_upd_by_cong:
  "(\<And>x. x \<in> set xs \<Longrightarrow> key x = key r \<Longrightarrow> f r = f x) \<Longrightarrow> map f (upd_by key r xs) = map f xs"
  by (induction xs) auto

lemma upd_by_other: "key r \<notin> key ` set xs \<Longrightarrow> upd_by key r xs = xs"
  by (induction xs) auto

lemma set_upd_by:
  "r0 \<in> set xs \<Longrightarrow> key r0 = key r \<Longrightarrow>
   set (upd_by key r xs) = insert r {x \<in> set xs. key x \<noteq> key r}"
  by (auto simp: upd_by_def)

lemma in_upd_byD: "x \<in> set (upd_by key r xs) \<Longrightarrow> x = r \<or> x \<in> set xs \<and> key x \<noteq> key r"
  by (auto simp: upd_by_def split: if_splits)

lemma in_upd_by_other: "x \<in> set xs \<Longrightarrow> key x \<noteq> key r \<Longrightarrow> x \<in> set (upd_by key r xs)"
  by (auto simp: upd_by_def)

lemma in_upd_by_self: "r0 \<in> set xs \<Longrightarrow> key r0 = key r \<Longrightarrow> r \<in> set (upd_by key r xs)"
  by (auto simp: upd_by_def)

lemma distinct_map_eqD: "distinct (map key xs) \<Longrightarrow> x \<in> set xs \<Longrightarrow> y \<in> set xs \<Longrightarrow> key x = key y \<Longrightarrow> x = y"
  by (induction xs) (auto simp: rev_image_eqI)

text \<open>A sum over a table changes by the difference of the replaced row.\<close>

lemma sum_upd_by:
  fixes g :: "'r \<Rightarrow> 'n::ab_group_add"
  assumes "distinct (map key xs)" "r0 \<in> set xs" "key r0 = key r"
  shows "(\<Sum>x\<leftarrow>upd_by key r xs. g x) = (\<Sum>x\<leftarrow>xs. g x) - g r0 + g r"
  using assms
proof (induction xs)
  case (Cons x xs)
  show ?case
  proof (cases "key x = key r")
    case True
    with Cons.prems have "x = r0" by (metis distinct_map_eqD list.set_intros(1))
    moreover from True Cons.prems(1) have "upd_by key r xs = xs" by (intro upd_by_other) auto
    ultimately show ?thesis using True by simp
  next
    case False
    with Cons.prems have "r0 \<in> set xs" by auto
    with Cons False show ?thesis by (simp add: algebra_simps)
  qed
qed simp

lemma find_SomeD: "List.find P xs = Some x \<Longrightarrow> x \<in> set xs \<and> P x"
  by (induction xs) (auto split: if_splits)

lemma find_NoneD: "List.find P xs = None \<Longrightarrow> x \<in> set xs \<Longrightarrow> \<not> P x"
  by (auto simp: find_None_iff)

lemma find_upd_by:
  assumes "\<And>x. x \<in> set xs \<Longrightarrow> key x = key r \<Longrightarrow> P x = P r"
  shows "List.find P (upd_by key r xs) =
    map_option (\<lambda>x. if key x = key r then r else x) (List.find P xs)"
  using assms by (induction xs) auto

section \<open>Runs of a transition function\<close>

text \<open>
  A component whose operations all keep one invariant is an instance of \<open>preserving\<close>: the invariant
  then holds after every sequence of operations, whatever each of them returns.
\<close>

fun run_ops :: "('o \<Rightarrow> 's \<Rightarrow> 's) \<Rightarrow> 'o list \<Rightarrow> 's \<Rightarrow> 's" where
  "run_ops step [] s = s"
| "run_ops step (p # ps) s = run_ops step ps (step p s)"

locale preserving =
  fixes step :: "'o \<Rightarrow> 's \<Rightarrow> 's" and inv :: "'s \<Rightarrow> bool"
  assumes keep: "inv s \<Longrightarrow> inv (step p s)"
begin

lemma run_keeps: "inv s \<Longrightarrow> inv (run_ops step ps s)"
  by (induction ps arbitrary: s) (auto intro: keep)

end

end
