(* ===== verification/Models.thy ===== *)
theory Models
  imports Prelude
begin

text \<open>
  The data model, \<^verbatim>\<open>models.py\<close>: one \<open>datatype\<close> per enum and one \<open>record\<close> per table, with the columns
  of the source.  Left out are the surrogate keys that no code reads (\<^verbatim>\<open>TradeExecution.id\<close>,
  \<^verbatim>\<open>TradingPosition.id\<close>, \<^verbatim>\<open>MarketCandle.id\<close>, \<^verbatim>\<open>StrategyVersion.id\<close>, \<^verbatim>\<open>OneTimeToken.id\<close>) and the
  \<^verbatim>\<open>created_at\<close>/\<^verbatim>\<open>updated_at\<close> stamps that only the listings read (a parameter of \<open>Views\<close>).  Also here: JSON values
  (\<^verbatim>\<open>broker_tokens\<close> is one) and the part of \<^verbatim>\<open>config.Settings\<close> the modelled components read.
\<close>

section \<open>JSON values\<close>

datatype json =
    JNull
  | JBool bool
  | JInt int
  | JFloat pyfloat
  | JStr string
  | JList "json list"
  | JObj "(string \<times> json) list"

text \<open>\<^verbatim>\<open>d.get(name)\<close> on a dict; a missing key gives \<^verbatim>\<open>None\<close>, as does a stored null.\<close>

definition jfield :: "(string \<times> json) list \<Rightarrow> string \<Rightarrow> json" where
  "jfield fs name = or_else (map_of fs name) JNull"

text \<open>\<^verbatim>\<open>.get\<close> of a value that is not a dict is an \<^verbatim>\<open>AttributeError\<close>.\<close>

definition as_object :: "json \<Rightarrow> exn + (string \<times> json) list" where
  "as_object v = (case v of JObj fs \<Rightarrow> Inr fs | _ \<Rightarrow> Inl (PyError ''AttributeError''))"

text \<open>Truth of a JSON value in a Python condition.\<close>

fun jtruthy :: "json \<Rightarrow> bool" where
  "jtruthy JNull = False"
| "jtruthy (JBool b) = b"
| "jtruthy (JInt n) = (n \<noteq> 0)"
| "jtruthy (JFloat x) = (x \<noteq> 0)"
| "jtruthy (JStr s) = (s \<noteq> [])"
| "jtruthy (JList xs) = (xs \<noteq> [])"
| "jtruthy (JObj fs) = (fs \<noteq> [])"

definition jor :: "json \<Rightarrow> json \<Rightarrow> json" where
  "jor a b = (if jtruthy a then a else b)"

text \<open>
  \<^verbatim>\<open>str(v)\<close>.  The texts of a float, a list and a dict (CPython's \<^verbatim>\<open>repr\<close>) are the argument \<open>pr\<close>.
\<close>

fun jstr :: "(json \<Rightarrow> string) \<Rightarrow> json \<Rightarrow> string" where
  "jstr pr JNull = ''None''"
| "jstr pr (JBool b) = (if b then ''True'' else ''False'')"
| "jstr pr (JInt n) = str_of_int n"
| "jstr pr (JStr s) = s"
| "jstr pr j = pr j"

section \<open>Enumerations\<close>

datatype role = ADMIN | RETAIL
datatype broker_name = DHAN | FYERS | UPSTOX
datatype broker_status =
  BrokerPENDING | CONNECTED | DISCONNECTED | BrokerEXPIRED | BrokerERROR | REAUTH_REQUIRED
datatype api_key_status = KeyACTIVE | KeyREVOKED | KeyEXPIRED
datatype order_side = BUY | SELL
datatype order_type = MARKET | LIMIT
datatype order_status =
  PENDING | OPEN | PARTIALLY_FILLED | FILLED | CANCEL_PENDING | CANCELED | REJECTED | EXPIRED | UNKNOWN
datatype product_type = CNC | INTRADAY | MARGIN | MTF
datatype order_validity = DAY | IOC
datatype strategy_status = DRAFT | ACTIVE | PAUSED | ARCHIVED | ERROR
datatype strategy_run_status = STARTED | SUCCEEDED | NO_SIGNAL | SKIPPED | FAILED
datatype strategy_signal_status = CREATED | ORDER_SUBMITTED | SUPPRESSED | SignalREJECTED

fun side_value :: "order_side \<Rightarrow> string" where
  "side_value BUY = ''BUY''"
| "side_value SELL = ''SELL''"

fun order_type_value :: "order_type \<Rightarrow> string" where
  "order_type_value MARKET = ''MARKET''"
| "order_type_value LIMIT = ''LIMIT''"

fun product_value :: "product_type \<Rightarrow> string" where
  "product_value CNC = ''CNC''"
| "product_value INTRADAY = ''INTRADAY''"
| "product_value MARGIN = ''MARGIN''"
| "product_value MTF = ''MTF''"

fun validity_value :: "order_validity \<Rightarrow> string" where
  "validity_value DAY = ''DAY''"
| "validity_value IOC = ''IOC''"

section \<open>Tables\<close>

record user =
  u_id :: string
  u_email :: string
  u_password_hash :: string
  u_role :: role
  u_is_verified :: bool
  u_is_active :: bool
  u_mfa_enabled :: bool
  u_mfa_secret_encrypted :: "string option"
  u_recovery_code_hashes :: "string list"
  u_failed_login_count :: int
  u_locked_until :: "instant option"

record user_session =
  us_id :: string
  us_user_id :: string
  us_refresh_token_hash :: string
  us_user_agent :: "string option"
  us_ip_address :: "string option"
  us_expires_at :: instant
  us_last_seen_at :: instant
  us_revoked_at :: "instant option"

record one_time_token =
  ot_user_id :: string
  ot_purpose :: string
  ot_token_hash :: string
  ot_expires_at :: instant
  ot_used_at :: "instant option"

record oauth_state =
  os_user_id :: string
  os_broker :: broker_name
  os_state_hash :: string
  os_context_encrypted :: "string option"
  os_expires_at :: instant
  os_used_at :: "instant option"

record api_key =
  ak_id :: string
  ak_user_id :: string
  ak_name :: string
  ak_public_id :: string
  ak_secret_hash :: string
  ak_scopes :: "string list"
  ak_status :: api_key_status
  ak_expires_at :: "instant option"
  ak_last_used_at :: "instant option"
  ak_revoked_at :: "instant option"
  ak_rotated_from_id :: "string option"

record market_ws_ticket =
  wt_id :: string
  wt_token_hash :: string
  wt_user_id :: string
  wt_session_id :: "string option"
  wt_api_key_id :: "string option"
  wt_expires_at :: instant
  wt_used_at :: "instant option"

record broker_connection =
  b_id :: string
  b_user_id :: string
  b_broker :: broker_name
  b_broker_client_id :: "string option"
  b_encrypted_credentials :: string
  b_status :: broker_status
  b_token_expires_at :: "instant option"
  b_last_connected_at :: "instant option"
  b_last_checked_at :: "instant option"
  b_error_code :: "string option"

record instrument =
  i_id :: string
  i_exchange :: string
  i_segment :: string
  i_symbol :: string
  i_trading_symbol :: string
  i_name :: "string option"
  i_instrument_type :: string
  i_expiry_at :: "instant option"
  i_strike :: "pyfloat option"
  i_option_type :: "string option"
  i_lot_size :: "int option"
  i_tick_size :: "pyfloat option"
  i_broker_tokens :: "(string \<times> json) list"
  i_metadata_json :: "(string \<times> json) list"
  i_is_active :: bool

record trading_order =
  o_id :: string
  o_user_id :: string
  o_instrument_id :: string
  o_broker_connection_id :: "string option"
  o_client_order_id :: string
  o_broker_order_id :: "string option"
  o_mode :: string
  o_side :: order_side
  o_order_type :: order_type
  o_product_type :: product_type
  o_validity :: order_validity
  o_quantity :: int
  o_filled_quantity :: int
  o_limit_price :: "pyfloat option"
  o_trigger_price :: "pyfloat option"
  o_average_fill_price :: "pyfloat option"
  o_status :: order_status
  o_rejection_reason :: "string option"
  o_version :: int
  o_submitted_at :: "instant option"
  o_completed_at :: "instant option"

record trade_execution =
  x_order_id :: string
  x_user_id :: string
  x_instrument_id :: string
  x_broker_execution_id :: "string option"
  x_mode :: string
  x_side :: order_side
  x_quantity :: int
  x_price :: pyfloat
  x_source :: string
  x_executed_at :: instant

record trading_position =
  p_user_id :: string
  p_instrument_id :: string
  p_mode :: string
  p_product_type :: product_type
  p_quantity :: int
  p_average_price :: pyfloat
  p_realized_pnl :: pyfloat
  p_last_price :: "pyfloat option"

record trading_control =
  c_scope_key :: string
  c_user_id :: "string option"
  c_is_halted :: bool
  c_reason :: "string option"
  c_updated_by_user_id :: "string option"

record market_candle =
  k_user_id :: string
  k_instrument_id :: string
  k_interval_seconds :: int
  k_start_at :: instant
  k_open :: pyfloat
  k_high :: pyfloat
  k_low :: pyfloat
  k_close :: pyfloat
  k_volume :: pyfloat
  k_open_interest :: "pyfloat option"
  k_source :: string
  k_is_complete :: bool

record strategy =
  st_id :: string
  st_user_id :: string
  st_instrument_id :: string
  st_name :: string
  st_kind :: string
  st_status :: strategy_status
  st_execution_mode :: string
  st_timeframe_seconds :: int
  st_fast_period :: int
  st_slow_period :: int
  st_quantity :: int
  st_product_type :: product_type
  st_order_type :: order_type
  st_limit_offset_bps :: pyfloat
  st_max_orders_per_day :: int
  st_version :: int
  st_last_evaluated_at :: "instant option"
  st_activated_at :: "instant option"
  st_paused_at :: "instant option"
  st_last_error :: "string option"

record strategy_version =
  sv_strategy_id :: string
  sv_user_id :: string
  sv_version :: int
  sv_definition_json :: json
  sv_created_by_user_id :: string

record strategy_run =
  sr_id :: string
  sr_strategy_id :: string
  sr_user_id :: string
  sr_strategy_version :: int
  sr_candle_start_at :: instant
  sr_status :: strategy_run_status
  sr_diagnostics_json :: "(string \<times> json) list"
  sr_started_at :: instant
  sr_finished_at :: "instant option"

record strategy_signal =
  sg_id :: string
  sg_strategy_id :: string
  sg_run_id :: string
  sg_user_id :: string
  sg_instrument_id :: string
  sg_order_id :: "string option"
  sg_action :: order_side
  sg_status :: strategy_signal_status
  sg_quantity :: int
  sg_reference_price :: pyfloat
  sg_client_order_id :: string
  sg_reason :: "string option"
  sg_generated_at :: instant

section \<open>Settings\<close>

text \<open>The fields of \<^verbatim>\<open>config.Settings\<close>.\<close>

record settings =
  environment :: string
  database_url :: string
  redis_url :: "string option"
  jwt_secret :: string
  jwt_algorithm :: string
  access_token_minutes :: int
  refresh_token_days :: int
  verification_token_hours :: int
  reset_token_minutes :: int
  field_encryption_key :: "string option"
  api_key_pepper :: string
  frontend_url :: string
  cors_origins :: "string list"
  cookie_secure :: bool
  expose_dev_tokens :: bool
  smtp_host :: "string option"
  smtp_port :: int
  smtp_username :: "string option"
  smtp_password :: "string option"
  smtp_from :: string
  dhan_client_id :: "string option"
  dhan_app_id :: "string option"
  dhan_app_secret :: "string option"
  dhan_redirect_uri :: string
  fyers_client_id :: "string option"
  fyers_client_secret :: "string option"
  fyers_redirect_uri :: string
  upstox_client_id :: "string option"
  upstox_client_secret :: "string option"
  upstox_redirect_uri :: string
  market_ws_ticket_seconds :: int
  market_max_subscriptions :: int
  market_quote_ttl_seconds :: int
  market_feed_health_ttl_seconds :: int
  market_stale_after_seconds :: pyfloat
  market_redis_prefix :: string
  market_feed_provider :: string
  market_simulated_interval_seconds :: pyfloat
  market_candle_intervals :: string
  dhan_market_request_code :: int
  dhan_market_reconnect_max_seconds :: pyfloat
  trading_mode :: string
  trading_live_confirmation :: string
  dhan_static_ip_confirmed :: bool
  trading_max_order_quantity :: int
  trading_max_order_notional :: pyfloat
  trading_max_open_orders :: int
  trading_max_absolute_position :: int
  paper_slippage_bps :: pyfloat
  dhan_order_reconcile_seconds :: pyfloat
  strategy_engine_enabled :: bool
  strategy_live_confirmation :: string
  strategy_poll_seconds :: pyfloat
  strategy_max_orders_per_user_per_day :: int
  strategy_max_order_attempts_per_minute :: int
  strategy_max_candle_lag_seconds :: pyfloat

text \<open>The values of the class when the environment sets nothing (\<^verbatim>\<open>config.py\<close>, defaults).\<close>

definition default_settings :: settings where
  "default_settings = \<lparr>
     environment = ''development'',
     database_url = ''sqlite:///./gnkalgo.db'',
     redis_url = None,
     jwt_secret = ''development-only-change-this-secret-now'',
     jwt_algorithm = ''HS256'',
     access_token_minutes = 15,
     refresh_token_days = 30,
     verification_token_hours = 24,
     reset_token_minutes = 30,
     field_encryption_key = None,
     api_key_pepper = ''development-only-change-this-pepper-now'',
     frontend_url = ''http://localhost:3000'',
     cors_origins = [''http://localhost:3000''],
     cookie_secure = False,
     expose_dev_tokens = False,
     smtp_host = None,
     smtp_port = 587,
     smtp_username = None,
     smtp_password = None,
     smtp_from = ''security@gnkalgo.com'',
     dhan_client_id = None,
     dhan_app_id = None,
     dhan_app_secret = None,
     dhan_redirect_uri = ''http://localhost:8000/api/v1/brokers/dhan/callback'',
     fyers_client_id = None,
     fyers_client_secret = None,
     fyers_redirect_uri = ''http://localhost:8000/api/v1/brokers/fyers/callback'',
     upstox_client_id = None,
     upstox_client_secret = None,
     upstox_redirect_uri = ''http://localhost:8000/api/v1/brokers/upstox/callback'',
     market_ws_ticket_seconds = 30,
     market_max_subscriptions = 200,
     market_quote_ttl_seconds = 30,
     market_feed_health_ttl_seconds = 300,
     market_stale_after_seconds = 15,
     market_redis_prefix = ''gnk:market'',
     market_feed_provider = ''disabled'',
     market_simulated_interval_seconds = 1,
     market_candle_intervals = ''60,300,900,3600,86400'',
     dhan_market_request_code = 17,
     dhan_market_reconnect_max_seconds = 30,
     trading_mode = ''disabled'',
     trading_live_confirmation = [],
     dhan_static_ip_confirmed = False,
     trading_max_order_quantity = 1000,
     trading_max_order_notional = 500000,
     trading_max_open_orders = 20,
     trading_max_absolute_position = 5000,
     paper_slippage_bps = 2,
     dhan_order_reconcile_seconds = 5,
     strategy_engine_enabled = False,
     strategy_live_confirmation = [],
     strategy_poll_seconds = 2,
     strategy_max_orders_per_user_per_day = 20,
     strategy_max_order_attempts_per_minute = 8,
     strategy_max_candle_lag_seconds = 180\<rparr>"

end
