(* ===== verification/Store.thy ===== *)
theory Store
  imports Models
begin

text \<open>
  The unit of work every component writes through: SQLAlchemy's session as \<^verbatim>\<open>database.py\<close> configures
  it, \<^verbatim>\<open>sessionmaker(bind=engine, expire_on_commit=False, autoflush=False)\<close>.

  A table holds the \<open>rows\<close> the open transaction has flushed and the objects \<open>added\<close> to the session
  and not flushed yet.  With autoflush off a query sees the rows only, while an object already loaded
  is changed in place (the identity map), so an update writes the row and the pending object alike.
  \<open>flush\<close> moves the pending objects into the rows and checks the unique constraints of
  \<^verbatim>\<open>models.py\<close>; a violation is \<^verbatim>\<open>IntegrityError\<close>.  \<open>commit\<close> flushes and makes the state durable,
  \<open>rollback\<close> returns to the last durable state, which is also what closing the session without a
  commit does (\<^verbatim>\<open>get_db\<close>).  One session at a time: an operation reads one instant of the clock, and
  other transactions run before or after it, as the row locks the code takes make them.

  The outside world the code draws on is part of the state: the clock, the stream of \<^verbatim>\<open>uuid4\<close> draws and
  the HTTP requests sent to the broker.
\<close>

section \<open>Tables\<close>

record 'r table =
  rows :: "'r list"
  added :: "'r list"

definition empty_table :: "'r table" where
  "empty_table = \<lparr>rows = [], added = []\<rparr>"

text \<open>Every object of the session, flushed or pending.\<close>

definition objs :: "'r table \<Rightarrow> 'r list" where
  "objs t = rows t @ added t"

definition insert_row :: "'r \<Rightarrow> 'r table \<Rightarrow> 'r table" where
  "insert_row r t = t\<lparr>added := added t @ [r]\<rparr>"

definition put_row :: "('r \<Rightarrow> 'k) \<Rightarrow> 'r \<Rightarrow> 'r table \<Rightarrow> 'r table" where
  "put_row key r t = t\<lparr>rows := upd_by key r (rows t), added := upd_by key r (added t)\<rparr>"

text \<open>An update of an object that a query returned, found again by a key that is unique in the rows.\<close>

definition put_flushed :: "('r \<Rightarrow> 'k) \<Rightarrow> 'r \<Rightarrow> 'r table \<Rightarrow> 'r table" where
  "put_flushed key r t = t\<lparr>rows := upd_by key r (rows t)\<rparr>"

definition flush_table :: "'r table \<Rightarrow> 'r table" where
  "flush_table t = \<lparr>rows = rows t @ added t, added = []\<rparr>"

lemma table_simps [simp]:
  "rows empty_table = []" "added empty_table = []" "objs empty_table = []"
  "rows (insert_row r t) = rows t" "added (insert_row r t) = added t @ [r]"
  "objs (insert_row r t) = objs t @ [r]"
  "rows (put_row key r t) = upd_by key r (rows t)"
  "added (put_row key r t) = upd_by key r (added t)"
  "objs (put_row key r t) = upd_by key r (objs t)"
  "rows (put_flushed key r t) = upd_by key r (rows t)"
  "added (put_flushed key r t) = added t"
  "rows (flush_table t) = objs t" "added (flush_table t) = []" "objs (flush_table t) = objs t"
  by (simp_all add: empty_table_def objs_def insert_row_def put_row_def put_flushed_def flush_table_def)

lemma rows_in_objs: "r \<in> set (rows t) \<Longrightarrow> r \<in> set (objs t)"
  by (simp add: objs_def)

text \<open>The non-null values of a nullable unique column.\<close>

fun keys_of :: "('r \<Rightarrow> 'k option) \<Rightarrow> 'r list \<Rightarrow> 'k list" where
  "keys_of k [] = []"
| "keys_of k (x # xs) = (case k x of None \<Rightarrow> keys_of k xs | Some v \<Rightarrow> v # keys_of k xs)"

lemma keys_of_append [simp]: "keys_of k (xs @ ys) = keys_of k xs @ keys_of k ys"
  by (induction xs) (auto split: option.splits)

lemma set_keys_of: "set (keys_of k xs) = {v. \<exists>x \<in> set xs. k x = Some v}"
  by (induction xs) (auto split: option.splits)

section \<open>The database and the session\<close>

record strategy_tables =
  t_candles :: "market_candle table"
  t_strategies :: "strategy table"
  t_versions :: "strategy_version table"
  t_runs :: "strategy_run table"
  t_signals :: "strategy_signal table"

record identity_tables =
  t_sessions :: "user_session table"
  t_one_time_tokens :: "one_time_token table"
  t_oauth_states :: "oauth_state table"
  t_api_keys :: "api_key table"
  t_tickets :: "market_ws_ticket table"

record db =
  t_orders :: "trading_order table"
  t_executions :: "trade_execution table"
  t_positions :: "trading_position table"
  t_controls :: "trading_control table"
  t_connections :: "broker_connection table"
  t_instruments :: "instrument table"
  t_users :: "user table"
  t_strategy :: strategy_tables
  t_identity :: identity_tables

definition empty_strategy_tables :: strategy_tables where
  "empty_strategy_tables = \<lparr>t_candles = empty_table, t_strategies = empty_table,
     t_versions = empty_table, t_runs = empty_table, t_signals = empty_table\<rparr>"

definition empty_identity_tables :: identity_tables where
  "empty_identity_tables = \<lparr>t_sessions = empty_table, t_one_time_tokens = empty_table,
     t_oauth_states = empty_table, t_api_keys = empty_table, t_tickets = empty_table\<rparr>"

definition empty_db :: db where
  "empty_db = \<lparr>t_orders = empty_table, t_executions = empty_table, t_positions = empty_table,
     t_controls = empty_table, t_connections = empty_table, t_instruments = empty_table,
     t_users = empty_table, t_strategy = empty_strategy_tables, t_identity = empty_identity_tables\<rparr>"

text \<open>A request to the broker's REST API; an absent body is \<open>JNull\<close>.\<close>

record http_request =
  req_verb :: string
  req_path :: string
  req_token :: string
  req_client :: string
  req_body :: json

record session =
  cur :: db
  saved :: db
  clock :: instant
  uuids :: "nat \<Rightarrow> string"
  drawn :: nat
  wire :: "http_request list"

definition fresh :: "session \<Rightarrow> string" where
  "fresh s = uuids s (drawn s)"

definition draw :: "session \<Rightarrow> session" where
  "draw s = s\<lparr>drawn := Suc (drawn s)\<rparr>"

definition position_key :: "trading_position \<Rightarrow> string \<times> string \<times> string \<times> product_type" where
  "position_key p = (p_user_id p, p_instrument_id p, p_mode p, p_product_type p)"

definition client_key :: "trading_order \<Rightarrow> string \<times> string" where
  "client_key r = (o_user_id r, o_client_order_id r)"

definition execution_key :: "trade_execution \<Rightarrow> (string \<times> string) option" where
  "execution_key x = map_option (Pair (x_user_id x)) (x_broker_execution_id x)"

text \<open>
  The primary keys and unique constraints: \<^verbatim>\<open>uq_trading_order_client_id\<close>, \<^verbatim>\<open>uq_trade_execution_broker_id\<close>,
  \<^verbatim>\<open>uq_trading_position\<close>, \<^verbatim>\<open>uq_user_broker\<close>, the scope key of a control, the email of a user; of the
  strategy tables \<^verbatim>\<open>uq_market_candle_bucket\<close>, \<^verbatim>\<open>uq_strategy_user_name\<close>, \<^verbatim>\<open>uq_strategy_version\<close>,
  \<^verbatim>\<open>uq_strategy_candle_run\<close>, \<^verbatim>\<open>uq_strategy_signal_run\<close> and the order of a signal; of the identity tables the
  token hashes and the public id of a key.  The unique user of a control is left out: the code adds no second control
  with one scope key, and the scope key of a user's control contains the user.
\<close>

definition candle_key :: "market_candle \<Rightarrow> string \<times> string \<times> int \<times> instant" where
  "candle_key k = (k_user_id k, k_instrument_id k, k_interval_seconds k, k_start_at k)"

definition run_key :: "strategy_run \<Rightarrow> string \<times> instant" where
  "run_key r = (sr_strategy_id r, sr_candle_start_at r)"

definition strategy_constraints :: "strategy_tables \<Rightarrow> bool" where
  "strategy_constraints t \<longleftrightarrow>
     distinct (map candle_key (objs (t_candles t))) \<and>
     distinct (map st_id (objs (t_strategies t))) \<and>
     distinct (map (\<lambda>x. (st_user_id x, st_name x)) (objs (t_strategies t))) \<and>
     distinct (map (\<lambda>v. (sv_strategy_id v, sv_version v)) (objs (t_versions t))) \<and>
     distinct (map sr_id (objs (t_runs t))) \<and>
     distinct (map run_key (objs (t_runs t))) \<and>
     distinct (map sg_id (objs (t_signals t))) \<and>
     distinct (map sg_run_id (objs (t_signals t))) \<and>
     distinct (keys_of sg_order_id (objs (t_signals t)))"

definition identity_constraints :: "identity_tables \<Rightarrow> bool" where
  "identity_constraints t \<longleftrightarrow>
     distinct (map us_id (objs (t_sessions t))) \<and>
     distinct (map ot_token_hash (objs (t_one_time_tokens t))) \<and>
     distinct (map os_state_hash (objs (t_oauth_states t))) \<and>
     distinct (map ak_id (objs (t_api_keys t))) \<and>
     distinct (map ak_public_id (objs (t_api_keys t))) \<and>
     distinct (map wt_id (objs (t_tickets t))) \<and>
     distinct (map wt_token_hash (objs (t_tickets t)))"

definition constraints :: "db \<Rightarrow> bool" where
  "constraints d \<longleftrightarrow>
     distinct (map o_id (objs (t_orders d))) \<and>
     distinct (map client_key (objs (t_orders d))) \<and>
     distinct (keys_of execution_key (objs (t_executions d))) \<and>
     distinct (map position_key (objs (t_positions d))) \<and>
     distinct (map c_scope_key (objs (t_controls d))) \<and>
     distinct (map b_id (objs (t_connections d))) \<and>
     distinct (map (\<lambda>b. (b_user_id b, b_broker b)) (objs (t_connections d))) \<and>
     distinct (map i_id (objs (t_instruments d))) \<and>
     distinct (map (\<lambda>i. (i_exchange i, i_segment i, i_symbol i)) (objs (t_instruments d))) \<and>
     distinct (map u_id (objs (t_users d))) \<and>
     distinct (map u_email (objs (t_users d))) \<and>
     strategy_constraints (t_strategy d) \<and> identity_constraints (t_identity d)"

definition flush_strategy :: "strategy_tables \<Rightarrow> strategy_tables" where
  "flush_strategy t = t\<lparr>t_candles := flush_table (t_candles t), t_strategies := flush_table (t_strategies t),
     t_versions := flush_table (t_versions t), t_runs := flush_table (t_runs t),
     t_signals := flush_table (t_signals t)\<rparr>"

definition flush_identity :: "identity_tables \<Rightarrow> identity_tables" where
  "flush_identity t = t\<lparr>t_sessions := flush_table (t_sessions t),
     t_one_time_tokens := flush_table (t_one_time_tokens t),
     t_oauth_states := flush_table (t_oauth_states t), t_api_keys := flush_table (t_api_keys t),
     t_tickets := flush_table (t_tickets t)\<rparr>"

definition flush_all :: "db \<Rightarrow> db" where
  "flush_all d = d\<lparr>t_orders := flush_table (t_orders d),
     t_executions := flush_table (t_executions d), t_positions := flush_table (t_positions d),
     t_controls := flush_table (t_controls d), t_connections := flush_table (t_connections d),
     t_instruments := flush_table (t_instruments d), t_users := flush_table (t_users d),
     t_strategy := flush_strategy (t_strategy d), t_identity := flush_identity (t_identity d)\<rparr>"

definition flush :: "db \<Rightarrow> exn + db" where
  "flush d = (if constraints d then Inr (flush_all d) else Inl IntegrityError)"

definition commit :: "session \<Rightarrow> (exn + unit) \<times> session" where
  "commit s =
     (case flush (cur s) of
        Inl e \<Rightarrow> (Inl e, s)
      | Inr d \<Rightarrow> (Inr (), s\<lparr>cur := d, saved := d\<rparr>))"

definition rollback :: "session \<Rightarrow> session" where
  "rollback s = s\<lparr>cur := saved s\<rparr>"

text \<open>\<^verbatim>\<open>db.commit(); return x\<close>.\<close>

definition commit_return :: "'a \<Rightarrow> session \<Rightarrow> (exn + 'a) \<times> session" where
  "commit_return x s = (case commit s of (Inl e, s') \<Rightarrow> (Inl e, s') | (Inr _, s') \<Rightarrow> (Inr x, s'))"

text \<open>Nothing is pending: the state at the start of a transaction.\<close>

definition clean :: "db \<Rightarrow> bool" where
  "clean d \<longleftrightarrow> added (t_orders d) = [] \<and> added (t_executions d) = [] \<and> added (t_positions d) = [] \<and>
     added (t_controls d) = [] \<and> added (t_connections d) = [] \<and> added (t_instruments d) = [] \<and>
     added (t_users d) = [] \<and> flush_strategy (t_strategy d) = t_strategy d \<and>
     flush_identity (t_identity d) = t_identity d"

lemma flush_table_idem [simp]: "flush_table (flush_table t) = flush_table t"
  by (simp add: flush_table_def)

lemma flush_strategy_sel [simp]:
  "t_candles (flush_strategy t) = flush_table (t_candles t)"
  "t_strategies (flush_strategy t) = flush_table (t_strategies t)"
  "t_versions (flush_strategy t) = flush_table (t_versions t)"
  "t_runs (flush_strategy t) = flush_table (t_runs t)"
  "t_signals (flush_strategy t) = flush_table (t_signals t)"
  "flush_strategy (flush_strategy t) = flush_strategy t"
  "strategy_constraints (flush_strategy t) = strategy_constraints t"
  by (simp_all add: flush_strategy_def strategy_constraints_def)

lemma flush_identity_sel [simp]:
  "t_sessions (flush_identity t) = flush_table (t_sessions t)"
  "t_one_time_tokens (flush_identity t) = flush_table (t_one_time_tokens t)"
  "t_oauth_states (flush_identity t) = flush_table (t_oauth_states t)"
  "t_api_keys (flush_identity t) = flush_table (t_api_keys t)"
  "t_tickets (flush_identity t) = flush_table (t_tickets t)"
  "flush_identity (flush_identity t) = flush_identity t"
  "identity_constraints (flush_identity t) = identity_constraints t"
  by (simp_all add: flush_identity_def identity_constraints_def)

lemma empty_tables_ok [simp]:
  "strategy_constraints empty_strategy_tables" "identity_constraints empty_identity_tables"
  "flush_strategy empty_strategy_tables = empty_strategy_tables"
  "flush_identity empty_identity_tables = empty_identity_tables"
  by (simp_all add: strategy_constraints_def identity_constraints_def empty_strategy_tables_def
      empty_identity_tables_def flush_strategy_def flush_identity_def flush_table_def empty_table_def objs_def)

text \<open>A table with nothing pending is what a flush makes of it.\<close>

lemma flush_table_fix: "flush_table t = t \<longleftrightarrow> added t = []"
  by (cases t) (auto simp: flush_table_def objs_def)

lemma flush_all_sel [simp]:
  "t_orders (flush_all d) = flush_table (t_orders d)"
  "t_executions (flush_all d) = flush_table (t_executions d)"
  "t_positions (flush_all d) = flush_table (t_positions d)"
  "t_controls (flush_all d) = flush_table (t_controls d)"
  "t_connections (flush_all d) = flush_table (t_connections d)"
  "t_instruments (flush_all d) = flush_table (t_instruments d)"
  "t_users (flush_all d) = flush_table (t_users d)"
  "t_strategy (flush_all d) = flush_strategy (t_strategy d)"
  "t_identity (flush_all d) = flush_identity (t_identity d)"
  by (simp_all add: flush_all_def)

lemma constraints_flush_all [simp]: "constraints (flush_all d) = constraints d"
  by (simp add: constraints_def)

lemma clean_flush_all [simp]: "clean (flush_all d)"
  by (simp add: clean_def)

lemma clean_objs:
  assumes "clean d"
  shows "objs (t_orders d) = rows (t_orders d)" "objs (t_executions d) = rows (t_executions d)"
    "objs (t_positions d) = rows (t_positions d)" "objs (t_controls d) = rows (t_controls d)"
  using assms by (simp_all add: clean_def objs_def)

lemma session_simps [simp]:
  "cur (draw s) = cur s" "saved (draw s) = saved s" "clock (draw s) = clock s"
  "wire (draw s) = wire s" "uuids (draw s) = uuids s" "drawn (draw s) = Suc (drawn s)"
  "saved (rollback s) = saved s" "cur (rollback s) = saved s" "wire (rollback s) = wire s"
  by (simp_all add: draw_def rollback_def)

lemma commit_return_cases:
  obtains (fail) "commit_return x s = (Inl IntegrityError, s)" "\<not> constraints (cur s)"
  | (ok) "commit_return x s = (Inr x, s\<lparr>cur := flush_all (cur s), saved := flush_all (cur s)\<rparr>)"
      "constraints (cur s)"
  by (cases "constraints (cur s)") (simp_all add: commit_return_def commit_def flush_def)

lemma commit_return_Inr:
  "commit_return x s = (Inr y, s') \<longleftrightarrow>
   constraints (cur s) \<and> y = x \<and> s' = s\<lparr>cur := flush_all (cur s), saved := flush_all (cur s)\<rparr>"
  by (cases rule: commit_return_cases [of x s]) auto

section \<open>The interface of a table\<close>

text \<open>
  What the components use of a table: writing a row back replaces the row with the same key, and an
  insertion appends one.  The frame and sum lemmas are proved once from these two laws.
\<close>

locale row_updates =
  fixes view :: "'s \<Rightarrow> 'r list" and put :: "'r \<Rightarrow> 's \<Rightarrow> 's" and key :: "'r \<Rightarrow> 'k"
  assumes view_put: "view (put r s) = upd_by key r (view s)"
begin

lemma keys_put: "map key (view (put r s)) = map key (view s)"
  by (simp add: view_put)

lemma sum_put:
  fixes g :: "'r \<Rightarrow> 'n::ab_group_add"
  assumes "distinct (map key (view s))" "r0 \<in> set (view s)" "key r0 = key r"
  shows "(\<Sum>x\<leftarrow>view (put r s). g x) = (\<Sum>x\<leftarrow>view s. g x) - g r0 + g r"
  using sum_upd_by [OF assms] by (simp add: view_put)

lemma in_put: "x \<in> set (view (put r s)) \<Longrightarrow> x = r \<or> x \<in> set (view s) \<and> key x \<noteq> key r"
  unfolding view_put by (rule in_upd_byD)

lemma in_put_other: "x \<in> set (view s) \<Longrightarrow> key x \<noteq> key r \<Longrightarrow> x \<in> set (view (put r s))"
  unfolding view_put by (rule in_upd_by_other)

lemma in_put_self: "r0 \<in> set (view s) \<Longrightarrow> key r0 = key r \<Longrightarrow> r \<in> set (view (put r s))"
  unfolding view_put by (rule in_upd_by_self)

end

locale row_store = row_updates view put key
  for view :: "'s \<Rightarrow> 'r list" and put :: "'r \<Rightarrow> 's \<Rightarrow> 's" and key :: "'r \<Rightarrow> 'k" +
  fixes insert :: "'r \<Rightarrow> 's \<Rightarrow> 's"
  assumes view_insert: "view (insert r s) = view s @ [r]"
begin

lemma sum_insert:
  fixes g :: "'r \<Rightarrow> 'n::ab_group_add"
  shows "(\<Sum>x\<leftarrow>view (insert r s). g x) = (\<Sum>x\<leftarrow>view s. g x) + g r"
  by (simp add: view_insert)

lemma in_insert: "x \<in> set (view (insert r s)) \<longleftrightarrow> x = r \<or> x \<in> set (view s)"
  by (auto simp: view_insert)

end

section \<open>The tables of the database\<close>

definition add_order :: "trading_order \<Rightarrow> db \<Rightarrow> db" where
  "add_order r d = d\<lparr>t_orders := insert_row r (t_orders d)\<rparr>"

definition put_order :: "trading_order \<Rightarrow> db \<Rightarrow> db" where
  "put_order r d = d\<lparr>t_orders := put_row o_id r (t_orders d)\<rparr>"

definition add_execution :: "trade_execution \<Rightarrow> db \<Rightarrow> db" where
  "add_execution x d = d\<lparr>t_executions := insert_row x (t_executions d)\<rparr>"

definition add_position :: "trading_position \<Rightarrow> db \<Rightarrow> db" where
  "add_position p d = d\<lparr>t_positions := insert_row p (t_positions d)\<rparr>"

definition put_position :: "trading_position \<Rightarrow> db \<Rightarrow> db" where
  "put_position p d = d\<lparr>t_positions := put_flushed position_key p (t_positions d)\<rparr>"

definition put_connection :: "broker_connection \<Rightarrow> db \<Rightarrow> db" where
  "put_connection b d = d\<lparr>t_connections := put_row b_id b (t_connections d)\<rparr>"

text \<open>\<^verbatim>\<open>order.x = v\<close> on an order object of the session.\<close>

definition save_order :: "trading_order \<Rightarrow> session \<Rightarrow> session" where
  "save_order r s = s\<lparr>cur := put_order r (cur s)\<rparr>"

lemma save_order_simps [simp]:
  "cur (save_order r s) = put_order r (cur s)" "saved (save_order r s) = saved s"
  "clock (save_order r s) = clock s" "wire (save_order r s) = wire s"
  "uuids (save_order r s) = uuids s" "drawn (save_order r s) = drawn s"
  by (simp_all add: save_order_def)

lemma db_put_simps [simp]:
  "t_orders (add_order r d) = insert_row r (t_orders d)"
  "t_orders (put_order r d) = put_row o_id r (t_orders d)"
  "t_orders (add_execution x d) = t_orders d" "t_orders (add_position p d) = t_orders d"
  "t_orders (put_position p d) = t_orders d"
  "t_executions (add_order r d) = t_executions d" "t_executions (put_order r d) = t_executions d"
  "t_executions (add_execution x d) = insert_row x (t_executions d)"
  "t_executions (add_position p d) = t_executions d"
  "t_executions (put_position p d) = t_executions d"
  "t_positions (add_order r d) = t_positions d" "t_positions (put_order r d) = t_positions d"
  "t_positions (add_execution x d) = t_positions d"
  "t_positions (add_position p d) = insert_row p (t_positions d)"
  "t_positions (put_position p d) = put_flushed position_key p (t_positions d)"
  by (simp_all add: add_order_def put_order_def add_execution_def add_position_def put_position_def)

lemma db_frame_simps [simp]:
  "t_controls (add_order r d) = t_controls d" "t_controls (put_order r d) = t_controls d"
  "t_controls (add_execution x d) = t_controls d" "t_controls (add_position p d) = t_controls d"
  "t_controls (put_position p d) = t_controls d"
  "t_connections (add_order r d) = t_connections d" "t_connections (put_order r d) = t_connections d"
  "t_connections (add_execution x d) = t_connections d"
  "t_connections (add_position p d) = t_connections d"
  "t_connections (put_position p d) = t_connections d"
  "t_instruments (add_order r d) = t_instruments d" "t_instruments (put_order r d) = t_instruments d"
  "t_instruments (add_execution x d) = t_instruments d"
  "t_instruments (add_position p d) = t_instruments d"
  "t_instruments (put_position p d) = t_instruments d"
  "t_users (add_order r d) = t_users d" "t_users (put_order r d) = t_users d"
  "t_users (add_execution x d) = t_users d" "t_users (add_position p d) = t_users d"
  "t_users (put_position p d) = t_users d"
  "t_strategy (add_order r d) = t_strategy d" "t_strategy (put_order r d) = t_strategy d"
  "t_strategy (add_execution x d) = t_strategy d" "t_strategy (add_position p d) = t_strategy d"
  "t_strategy (put_position p d) = t_strategy d"
  "t_identity (add_order r d) = t_identity d" "t_identity (put_order r d) = t_identity d"
  "t_identity (add_execution x d) = t_identity d" "t_identity (add_position p d) = t_identity d"
  "t_identity (put_position p d) = t_identity d"
  by (simp_all add: add_order_def put_order_def add_execution_def add_position_def put_position_def)

interpretation orders: row_store "\<lambda>d. objs (t_orders d)" put_order o_id add_order
  by unfold_locales simp_all

interpretation flushed_orders: row_updates "\<lambda>d. rows (t_orders d)" put_order o_id
  by unfold_locales simp

interpretation flushed_positions: row_updates "\<lambda>d. rows (t_positions d)" put_position position_key
  by unfold_locales simp

end
