(* ===== verification/Contracts.thy ===== *)
theory Contracts
  imports Store
begin

text \<open>
  The quote event every component exchanges, \<^verbatim>\<open>market/contracts.py\<close>: \<^verbatim>\<open>NormalizedQuote\<close> with the
  validation pydantic runs on construction.  Timestamps are instants, so the validator that rejects a
  naive timestamp and converts to UTC has nothing left to do.
\<close>

record quote =
  q_instrument_id :: string
  q_exchange :: string
  q_segment :: string
  q_trading_symbol :: string
  q_source :: string
  q_mode :: string
  q_sequence :: int
  q_exchange_timestamp :: instant
  q_received_at :: instant
  q_ltp :: pyfloat
  q_last_quantity :: "pyfloat option"
  q_open :: "pyfloat option"
  q_high :: "pyfloat option"
  q_low :: "pyfloat option"
  q_previous_close :: "pyfloat option"
  q_volume :: "pyfloat option"
  q_open_interest :: "pyfloat option"
  q_bid :: "pyfloat option"
  q_ask :: "pyfloat option"
  q_stale :: bool

definition ge_zero :: "pyfloat option \<Rightarrow> bool" where
  "ge_zero a \<longleftrightarrow> (case a of None \<Rightarrow> True | Some x \<Rightarrow> 0 \<le> x)"

text \<open>The field constraints of the class: \<^verbatim>\<open>ge=0\<close>, \<^verbatim>\<open>gt=0\<close> and the literal modes.\<close>

definition quote_valid :: "quote \<Rightarrow> bool" where
  "quote_valid q \<longleftrightarrow>
     q_mode q \<in> {''ltp'', ''quote'', ''depth''} \<and> 0 \<le> q_sequence q \<and> 0 < q_ltp q \<and>
     ge_zero (q_last_quantity q) \<and> ge_zero (q_open q) \<and> ge_zero (q_high q) \<and> ge_zero (q_low q) \<and>
     ge_zero (q_previous_close q) \<and> ge_zero (q_volume q) \<and> ge_zero (q_open_interest q) \<and>
     ge_zero (q_bid q) \<and> ge_zero (q_ask q)"

definition normalized_quote :: "quote \<Rightarrow> exn + quote" where
  "normalized_quote q = (if quote_valid q then Inr q else Inl (PyError ''ValidationError''))"

lemma normalized_quote_Inr: "normalized_quote q = Inr q' \<longleftrightarrow> q' = q \<and> quote_valid q"
  by (auto simp: normalized_quote_def)

text \<open>A bid or ask of a valid quote, or the last price when it is missing or zero, is positive.\<close>

lemma quote_reference_pos:
  assumes "quote_valid q"
  shows "0 < float_or (q_ask q) (q_ltp q)" "0 < float_or (q_bid q) (q_ltp q)"
  using assms
  by (auto simp: quote_valid_def ge_zero_def float_or_def split: option.splits)

end
