(* ===== verification/Engine.thy ===== *)
theory Engine
  imports Contracts
begin

text \<open>
  \<^verbatim>\<open>trading/engine.py\<close>: the paper execution engine.  Crossing and fill prices, the booking of an
  execution into the ledger (order, execution, position), the pre-trade risk checks and the four
  operations of \<^verbatim>\<open>PaperTradingEngine\<close>.

  An order is a reference into the session in the source; here an operation takes the order record
  and returns the updated one together with the session that holds it.
\<close>

section \<open>Crossing and fill price\<close>

definition open_order_statuses :: "order_status set" where
  "open_order_statuses = {PENDING, OPEN, PARTIALLY_FILLED, CANCEL_PENDING, UNKNOWN}"

definition reference_price :: "order_side \<Rightarrow> quote \<Rightarrow> pyfloat" where
  "reference_price side q =
     (if side = BUY then float_or (q_ask q) (q_ltp q) else float_or (q_bid q) (q_ltp q))"

definition is_crossing :: "trading_order \<Rightarrow> quote \<Rightarrow> bool" where
  "is_crossing r q =
     (if o_order_type r = MARKET then True
      else let reference = reference_price (o_side r) q in
        case o_limit_price r of
          None \<Rightarrow> False
        | Some limit \<Rightarrow> if o_side r = BUY then reference \<le> limit else limit \<le> reference)"

definition fill_price :: "trading_order \<Rightarrow> quote \<Rightarrow> pyfloat \<Rightarrow> pyfloat" where
  "fill_price r q slippage_bps =
     (let reference = reference_price (o_side r) q in
      if o_order_type r = LIMIT then
        if o_side r = BUY then min (float_or (o_limit_price r) reference) reference
        else max (float_or (o_limit_price r) reference) reference
      else
        let multiplier = (if o_side r = BUY then fadd 1 (fdiv slippage_bps 10000)
                          else fsub 1 (fdiv slippage_bps 10000))
        in pyround8 (fmul reference multiplier))"

section \<open>Booking an execution\<close>

definition signed_quantity :: "order_side \<Rightarrow> int \<Rightarrow> int" where
  "signed_quantity side n = (if side = BUY then n else - n)"

definition order_position_key :: "trading_order \<Rightarrow> string \<times> string \<times> string \<times> product_type" where
  "order_position_key r = (o_user_id r, o_instrument_id r, o_mode r, o_product_type r)"

text \<open>\<^verbatim>\<open>_position\<close>: the flushed row, or a new object that the caller adds to the session.\<close>

definition find_position :: "db \<Rightarrow> string \<times> string \<times> string \<times> product_type \<Rightarrow> trading_position option" where
  "find_position d k = List.find (\<lambda>p. position_key p = k) (rows (t_positions d))"

definition new_position :: "trading_order \<Rightarrow> trading_position" where
  "new_position r = \<lparr>p_user_id = o_user_id r, p_instrument_id = o_instrument_id r, p_mode = o_mode r,
     p_product_type = o_product_type r, p_quantity = 0, p_average_price = 0, p_realized_pnl = 0,
     p_last_price = None\<rparr>"

text \<open>The position after a fill of \<open>n\<close> at \<open>price\<close>: extend, reduce, close or reverse.\<close>

definition fill_position :: "trading_position \<Rightarrow> order_side \<Rightarrow> int \<Rightarrow> pyfloat \<Rightarrow> trading_position" where
  "fill_position p side n price =
     (let old = p_quantity p; fill = signed_quantity side n; new = old + fill in
      if old = 0 \<or> 0 < old * fill then
        let total_cost = fadd (fmul (p_average_price p) (float_of_int \<bar>old\<bar>))
                              (fmul price (float_of_int \<bar>fill\<bar>))
        in p\<lparr>p_average_price := fdiv total_cost (float_of_int \<bar>new\<bar>),
             p_quantity := new, p_last_price := Some price\<rparr>
      else
        let closing = min \<bar>old\<bar> \<bar>fill\<bar>; direction = (if 0 < old then 1 else -1);
            pnl = fmul (fmul (float_of_int closing) (fsub price (p_average_price p))) direction
        in p\<lparr>p_realized_pnl := fadd (p_realized_pnl p) pnl,
             p_average_price := (if new = 0 then 0 else if old * new < 0 then price else p_average_price p),
             p_quantity := new, p_last_price := Some price\<rparr>)"

text \<open>The order after the fill.\<close>

definition fill_order :: "trading_order \<Rightarrow> int \<Rightarrow> pyfloat \<Rightarrow> instant \<Rightarrow> trading_order" where
  "fill_order r n price tm =
     (let filled = o_filled_quantity r + n;
          average = fdiv (fadd (fmul (or_else (o_average_fill_price r) 0) (float_of_int (o_filled_quantity r)))
                               (fmul price (float_of_int n)))
                         (float_of_int filled);
          status = (if filled = o_quantity r then FILLED else PARTIALLY_FILLED)
      in r\<lparr>o_filled_quantity := filled, o_average_fill_price := Some average, o_status := status,
           o_completed_at := (if status = FILLED then Some tm else o_completed_at r)\<rparr>)"

definition execution_of ::
  "trading_order \<Rightarrow> int \<Rightarrow> pyfloat \<Rightarrow> string \<Rightarrow> string option \<Rightarrow> instant \<Rightarrow> trade_execution" where
  "execution_of r n price source bid tm =
     \<lparr>x_order_id = o_id r, x_user_id = o_user_id r, x_instrument_id = o_instrument_id r,
      x_broker_execution_id = bid, x_mode = o_mode r, x_side = o_side r, x_quantity = n,
      x_price = price, x_source = source, x_executed_at = tm\<rparr>"

definition find_execution :: "db \<Rightarrow> string \<Rightarrow> string option \<Rightarrow> trade_execution option" where
  "find_execution d uid bid =
     (case bid of
        None \<Rightarrow> None
      | Some b \<Rightarrow> if b = [] then None
          else List.find (\<lambda>x. x_user_id x = uid \<and> x_broker_execution_id x = Some b) (rows (t_executions d)))"

definition settle_position :: "trading_order \<Rightarrow> int \<Rightarrow> pyfloat \<Rightarrow> db \<Rightarrow> db" where
  "settle_position r n price d =
     (case find_position d (order_position_key r) of
        Some p \<Rightarrow> put_position (fill_position p (o_side r) n price) d
      | None \<Rightarrow> add_position (fill_position (new_position r) (o_side r) n price) d)"

definition apply_execution ::
  "instant \<Rightarrow> db \<Rightarrow> trading_order \<Rightarrow> int \<Rightarrow> pyfloat \<Rightarrow> string \<Rightarrow> string option \<Rightarrow> instant option
   \<Rightarrow> exn + (trade_execution \<times> trading_order \<times> db)" where
  "apply_execution now d r n price source bid tm =
     (case find_execution d (o_user_id r) bid of
        Some existing \<Rightarrow> Inr (existing, r, d)
      | None \<Rightarrow>
          if n \<le> 0 \<or> o_quantity r < o_filled_quantity r + n
          then Inl (trading_error ''INVALID_EXECUTION_QUANTITY'')
          else
            let x = execution_of r n price source bid (or_else tm now);
                r' = fill_order r n price (or_else tm now)
            in Inr (x, r', settle_position r n price (put_order r' (add_execution x d))))"

section \<open>Pre-trade checks\<close>

definition user_scope :: "string \<Rightarrow> string" where
  "user_scope uid = ''USER:'' @ uid"

definition halted :: "db \<Rightarrow> string \<Rightarrow> bool" where
  "halted d uid \<longleftrightarrow>
     (\<exists>c \<in> set (rows (t_controls d)). c_scope_key c \<in> {''GLOBAL'', user_scope uid} \<and> c_is_halted c)"

definition control_check :: "db \<Rightarrow> string \<Rightarrow> exn option" where
  "control_check d uid = (if halted d uid then Some (trading_error ''TRADING_HALTED'') else None)"

definition quote_check :: "settings \<Rightarrow> instant \<Rightarrow> quote option \<Rightarrow> exn option" where
  "quote_check cfg now oq =
     (case oq of
        None \<Rightarrow> Some (TradingError ''LIVE_QUOTE_REQUIRED'' 422)
      | Some q \<Rightarrow>
          if q_stale q \<or> market_stale_after_seconds cfg < seconds_between now (q_received_at q)
          then Some (trading_error ''STALE_MARKET_DATA'') else None)"

definition open_count :: "db \<Rightarrow> string \<Rightarrow> nat" where
  "open_count d uid =
     length (filter (\<lambda>r. o_user_id r = uid \<and> o_status r \<in> open_order_statuses) (rows (t_orders d)))"

definition position_quantity :: "db \<Rightarrow> string \<Rightarrow> string \<Rightarrow> string \<Rightarrow> product_type \<Rightarrow> int" where
  "position_quantity d uid iid mode product =
     (case find_position d (uid, iid, mode, product) of None \<Rightarrow> 0 | Some p \<Rightarrow> p_quantity p)"

definition risk_check ::
  "settings \<Rightarrow> db \<Rightarrow> string \<Rightarrow> instrument \<Rightarrow> order_side \<Rightarrow> product_type \<Rightarrow> int \<Rightarrow> pyfloat \<Rightarrow> string
   \<Rightarrow> exn option" where
  "risk_check cfg d uid ins side product n price mode =
     (case control_check d uid of Some e \<Rightarrow> Some e
      | None \<Rightarrow>
        if trading_max_order_quantity cfg < n then Some (TradingError ''MAX_ORDER_QUANTITY_EXCEEDED'' 422)
        else if trading_max_order_notional cfg < fmul (float_of_int n) price
        then Some (TradingError ''MAX_ORDER_NOTIONAL_EXCEEDED'' 422)
        else if trading_max_open_orders cfg \<le> int (open_count d uid)
        then Some (TradingError ''MAX_OPEN_ORDERS_EXCEEDED'' 422)
        else if trading_max_absolute_position cfg
                  < \<bar>position_quantity d uid (i_id ins) mode product + signed_quantity side n\<bar>
        then Some (TradingError ''MAX_POSITION_EXCEEDED'' 422)
        else None)"

section \<open>Order requests\<close>

text \<open>The \<^verbatim>\<open>values\<close> dict of a new order.\<close>

record order_values =
  v_client_order_id :: string
  v_side :: order_side
  v_order_type :: order_type
  v_product_type :: product_type
  v_validity :: order_validity
  v_quantity :: int
  v_limit_price :: "pyfloat option"
  v_trigger_price :: "pyfloat option"

definition find_client_order :: "db \<Rightarrow> string \<Rightarrow> string \<Rightarrow> trading_order option" where
  "find_client_order d uid cid = List.find (\<lambda>r. client_key r = (uid, cid)) (rows (t_orders d))"

definition order_matches :: "trading_order \<Rightarrow> instrument \<Rightarrow> order_values \<Rightarrow> bool" where
  "order_matches r ins v \<longleftrightarrow>
     o_instrument_id r = i_id ins \<and> o_side r = v_side v \<and> o_order_type r = v_order_type v \<and>
     o_product_type r = v_product_type v \<and> o_validity r = v_validity v \<and>
     o_quantity r = v_quantity v \<and> o_limit_price r = v_limit_price v"

text \<open>A new order row; \<^verbatim>\<open>filled_quantity\<close> and \<^verbatim>\<open>version\<close> have column defaults.\<close>

definition new_order ::
  "string \<Rightarrow> string \<Rightarrow> instrument \<Rightarrow> order_values \<Rightarrow> string \<Rightarrow> order_status \<Rightarrow> instant \<Rightarrow> trading_order" where
  "new_order oid uid ins v mode status now =
     \<lparr>o_id = oid, o_user_id = uid, o_instrument_id = i_id ins, o_broker_connection_id = None,
      o_client_order_id = v_client_order_id v, o_broker_order_id = None, o_mode = mode,
      o_side = v_side v, o_order_type = v_order_type v, o_product_type = v_product_type v,
      o_validity = v_validity v, o_quantity = v_quantity v, o_filled_quantity = 0,
      o_limit_price = v_limit_price v, o_trigger_price = None, o_average_fill_price = None,
      o_status = status, o_rejection_reason = None, o_version = 1, o_submitted_at = Some now,
      o_completed_at = None\<rparr>"

section \<open>The operations of the paper engine\<close>

definition place_guard ::
  "settings \<Rightarrow> session \<Rightarrow> string \<Rightarrow> instrument \<Rightarrow> order_values \<Rightarrow> quote option \<Rightarrow> exn option" where
  "place_guard cfg s uid ins v oq =
     (if v_order_type v = LIMIT \<and> v_limit_price v = None
      then Some (TradingError ''LIMIT_PRICE_REQUIRED'' 422)
      else case (if v_order_type v = MARKET then quote_check cfg (clock s) oq else None) of
        Some e \<Rightarrow> Some e
      | None \<Rightarrow>
          (case (case oq of Some q \<Rightarrow> Some (q_ltp q) | None \<Rightarrow> v_limit_price v) of
             None \<Rightarrow> Some (TradingError ''RISK_PRICE_REQUIRED'' 422)
           | Some price \<Rightarrow>
               risk_check cfg (cur s) uid ins (v_side v) (v_product_type v) (v_quantity v) price ''PAPER''))"

text \<open>A fill of the engine: a fresh execution id, source \<^verbatim>\<open>PAPER\<close>, the time of the clock.\<close>

definition paper_fill ::
  "settings \<Rightarrow> quote \<Rightarrow> trading_order \<Rightarrow> int \<Rightarrow> session \<Rightarrow> (exn + trading_order) \<times> session" where
  "paper_fill cfg q r n s =
     (case apply_execution (clock s) (cur s) r n (fill_price r q (paper_slippage_bps cfg)) ''PAPER''
             (Some (''paper-'' @ fresh s)) None of
        Inl e \<Rightarrow> (Inl e, draw s)
      | Inr (x, r', d) \<Rightarrow> (Inr r', (draw s)\<lparr>cur := d\<rparr>))"

text \<open>\<^verbatim>\<open>if quote and is_crossing(order, quote)\<close>.\<close>

definition quote_crosses :: "trading_order \<Rightarrow> quote option \<Rightarrow> bool" where
  "quote_crosses r oq = (case oq of None \<Rightarrow> False | Some q \<Rightarrow> is_crossing r q)"

definition paper_submit ::
  "settings \<Rightarrow> string \<Rightarrow> instrument \<Rightarrow> order_values \<Rightarrow> quote option \<Rightarrow> session
   \<Rightarrow> (exn + trading_order) \<times> session" where
  "paper_submit cfg uid ins v oq s =
     (let r = new_order (fresh s) uid ins v ''PAPER'' OPEN (clock s);
          s1 = (draw s)\<lparr>cur := add_order r (cur s)\<rparr>
      in case flush (cur s1) of
           Inl e \<Rightarrow> (Inl e, s1)
         | Inr d \<Rightarrow>
             let s2 = s1\<lparr>cur := d\<rparr> in
             if quote_crosses r oq then
               case paper_fill cfg (the oq) r (o_quantity r) s2 of
                 (Inl e, s3) \<Rightarrow> (Inl e, s3)
               | (Inr r', s3) \<Rightarrow> commit_return r' s3
             else if o_validity r = IOC then
               let r' = r\<lparr>o_status := CANCELED, o_completed_at := Some (clock s2)\<rparr>
               in commit_return r' (save_order r' s2)
             else commit_return r s2)"

definition paper_place ::
  "settings \<Rightarrow> string \<Rightarrow> instrument \<Rightarrow> order_values \<Rightarrow> quote option \<Rightarrow> session
   \<Rightarrow> (exn + trading_order) \<times> session" where
  "paper_place cfg uid ins v oq s =
     (if trading_mode cfg \<noteq> ''paper'' then (Inl (TradingError ''PAPER_TRADING_DISABLED'' 403), s)
      else case find_client_order (cur s) uid (v_client_order_id v) of
        Some existing \<Rightarrow>
          if order_matches existing ins v then (Inr existing, s)
          else (Inl (trading_error ''IDEMPOTENCY_CONFLICT''), s)
      | None \<Rightarrow>
          (case place_guard cfg s uid ins v oq of
             Some e \<Rightarrow> (Inl e, s)
           | None \<Rightarrow> paper_submit cfg uid ins v oq s))"

definition paper_cancel :: "trading_order \<Rightarrow> session \<Rightarrow> (exn + trading_order) \<times> session" where
  "paper_cancel r s =
     (if o_mode r \<noteq> ''PAPER'' \<or> o_status r \<notin> open_order_statuses
      then (Inl (trading_error ''ORDER_NOT_CANCELABLE''), s)
      else
        let r' = r\<lparr>o_status := CANCELED, o_completed_at := Some (clock s), o_version := o_version r + 1\<rparr>
        in commit_return r' (save_order r' s))"

definition paper_modify ::
  "settings \<Rightarrow> trading_order \<Rightarrow> int \<Rightarrow> pyfloat \<Rightarrow> quote option \<Rightarrow> session
   \<Rightarrow> (exn + trading_order) \<times> session" where
  "paper_modify cfg r n price oq s =
     (if o_mode r \<noteq> ''PAPER'' \<or> o_status r \<notin> open_order_statuses \<or> o_order_type r \<noteq> LIMIT
      then (Inl (trading_error ''ORDER_NOT_MODIFIABLE''), s)
      else if n < max 1 (o_filled_quantity r)
      then (Inl (TradingError ''QUANTITY_BELOW_FILLED'' 422), s)
      else
        let r1 = r\<lparr>o_quantity := n, o_limit_price := Some price, o_version := o_version r + 1\<rparr>;
            s1 = save_order r1 s
        in if quote_crosses r1 oq then
             case paper_fill cfg (the oq) r1 (n - o_filled_quantity r1) s1 of
               (Inl e, s2) \<Rightarrow> (Inl e, s2)
             | (Inr r2, s2) \<Rightarrow> commit_return r2 s2
           else commit_return r1 s1)"

definition resting_orders :: "db \<Rightarrow> string \<Rightarrow> string \<Rightarrow> trading_order list" where
  "resting_orders d uid iid =
     filter (\<lambda>r. o_user_id r = uid \<and> o_instrument_id r = iid \<and> o_mode r = ''PAPER'' \<and>
                 o_status r \<in> {OPEN, PARTIALLY_FILLED}) (rows (t_orders d))"

fun fill_crossing ::
  "settings \<Rightarrow> quote \<Rightarrow> trading_order list \<Rightarrow> nat \<Rightarrow> session \<Rightarrow> (exn + nat) \<times> session" where
  "fill_crossing cfg q [] filled s = (Inr filled, s)"
| "fill_crossing cfg q (r # rs) filled s =
     (if is_crossing r q then
        case paper_fill cfg q r (o_quantity r - o_filled_quantity r) s of
          (Inl e, s') \<Rightarrow> (Inl e, s')
        | (Inr r', s') \<Rightarrow> fill_crossing cfg q rs (Suc filled) s'
      else fill_crossing cfg q rs filled s)"

definition process_quote :: "settings \<Rightarrow> string \<Rightarrow> quote \<Rightarrow> session \<Rightarrow> (exn + nat) \<times> session" where
  "process_quote cfg uid q s =
     (case fill_crossing cfg q (resting_orders (cur s) uid (q_instrument_id q)) 0 s of
        (Inl e, s') \<Rightarrow> (Inl e, s')
      | (Inr filled, s') \<Rightarrow> if filled \<noteq> 0 then commit_return filled s' else (Inr filled, s'))"

end
