(* ===== verification/Ledger.thy ===== *)
theory Ledger
  imports Engine
begin

text \<open>
  The ledger invariant of order management and its preservation by \<^verbatim>\<open>apply_execution\<close>, the one routine
  through which paper fills and broker trades alike are booked.

  \<open>ledger d\<close> says, over flushed and pending objects together: the order ids are distinct; every
  order's filled quantity lies between 0 and its quantity and is the sum of the executions booked for
  it; every execution belongs to an order and copies its owner, instrument, mode and side; and for
  every (user, instrument, mode, product) the position quantity is the sum of the signed fills.
\<close>

section \<open>Sums over the ledger\<close>

definition exec_sum :: "db \<Rightarrow> string \<Rightarrow> int" where
  "exec_sum d oid = (\<Sum>x\<leftarrow>objs (t_executions d). if x_order_id x = oid then x_quantity x else 0)"

definition fill_sum :: "db \<Rightarrow> string \<times> string \<times> string \<times> product_type \<Rightarrow> int" where
  "fill_sum d k = (\<Sum>r\<leftarrow>objs (t_orders d).
     if order_position_key r = k then signed_quantity (o_side r) (o_filled_quantity r) else 0)"

definition position_sum :: "db \<Rightarrow> string \<times> string \<times> string \<times> product_type \<Rightarrow> int" where
  "position_sum d k = (\<Sum>p\<leftarrow>objs (t_positions d). if position_key p = k then p_quantity p else 0)"

definition order_booked :: "db \<Rightarrow> trading_order \<Rightarrow> bool" where
  "order_booked d r \<longleftrightarrow>
     0 \<le> o_filled_quantity r \<and> o_filled_quantity r \<le> o_quantity r \<and>
     o_filled_quantity r = exec_sum d (o_id r)"

definition execution_of_order :: "trading_order \<Rightarrow> trade_execution \<Rightarrow> bool" where
  "execution_of_order r x \<longleftrightarrow>
     x_order_id x = o_id r \<and> x_user_id x = o_user_id r \<and> x_instrument_id x = o_instrument_id r \<and>
     x_mode x = o_mode r \<and> x_side x = o_side r \<and> 0 < x_quantity x"

definition ledger :: "db \<Rightarrow> bool" where
  "ledger d \<longleftrightarrow>
     distinct (map o_id (objs (t_orders d))) \<and>
     distinct (map position_key (rows (t_positions d))) \<and>
     (\<forall>r \<in> set (objs (t_orders d)). order_booked d r) \<and>
     (\<forall>x \<in> set (objs (t_executions d)). \<exists>r \<in> set (objs (t_orders d)). execution_of_order r x) \<and>
     (\<forall>k. position_sum d k = fill_sum d k)"

lemma ledgerI:
  "distinct (map o_id (objs (t_orders d))) \<Longrightarrow> distinct (map position_key (rows (t_positions d))) \<Longrightarrow>
   (\<And>r. r \<in> set (objs (t_orders d)) \<Longrightarrow> order_booked d r) \<Longrightarrow>
   (\<And>x. x \<in> set (objs (t_executions d)) \<Longrightarrow> \<exists>r \<in> set (objs (t_orders d)). execution_of_order r x) \<Longrightarrow>
   (\<And>k. position_sum d k = fill_sum d k) \<Longrightarrow> ledger d"
  by (simp add: ledger_def)

lemma ledgerD:
  assumes "ledger d"
  shows "distinct (map o_id (objs (t_orders d)))" "distinct (map position_key (rows (t_positions d)))"
    "r \<in> set (objs (t_orders d)) \<Longrightarrow> order_booked d r"
    "x \<in> set (objs (t_executions d)) \<Longrightarrow> \<exists>r \<in> set (objs (t_orders d)). execution_of_order r x"
    "position_sum d k = fill_sum d k"
  using assms unfolding ledger_def by blast+

lemma ledger_empty: "ledger empty_db"
  by (simp add: ledger_def empty_db_def position_sum_def fill_sum_def)

section \<open>One row\<close>

lemma fill_position_sel [simp]:
  "p_quantity (fill_position p side n price) = p_quantity p + signed_quantity side n"
  "position_key (fill_position p side n price) = position_key p"
  "p_last_price (fill_position p side n price) = Some price"
  by (simp_all add: fill_position_def position_key_def Let_def)

lemma new_position_sel [simp]:
  "p_quantity (new_position r) = 0" "position_key (new_position r) = order_position_key r"
  by (simp_all add: new_position_def position_key_def order_position_key_def)

lemma fill_order_sel [simp]:
  "o_id (fill_order r n price tm) = o_id r"
  "o_user_id (fill_order r n price tm) = o_user_id r"
  "o_instrument_id (fill_order r n price tm) = o_instrument_id r"
  "o_client_order_id (fill_order r n price tm) = o_client_order_id r"
  "o_mode (fill_order r n price tm) = o_mode r"
  "o_side (fill_order r n price tm) = o_side r"
  "o_order_type (fill_order r n price tm) = o_order_type r"
  "o_product_type (fill_order r n price tm) = o_product_type r"
  "o_quantity (fill_order r n price tm) = o_quantity r"
  "o_limit_price (fill_order r n price tm) = o_limit_price r"
  "o_filled_quantity (fill_order r n price tm) = o_filled_quantity r + n"
  "o_status (fill_order r n price tm) =
     (if o_filled_quantity r + n = o_quantity r then FILLED else PARTIALLY_FILLED)"
  "order_position_key (fill_order r n price tm) = order_position_key r"
  "client_key (fill_order r n price tm) = client_key r"
  by (simp_all add: fill_order_def order_position_key_def client_key_def Let_def)

lemma execution_of_sel [simp]:
  "x_order_id (execution_of r n price source bid tm) = o_id r"
  "x_user_id (execution_of r n price source bid tm) = o_user_id r"
  "x_broker_execution_id (execution_of r n price source bid tm) = bid"
  "x_quantity (execution_of r n price source bid tm) = n"
  "x_price (execution_of r n price source bid tm) = price"
  "execution_of_order r (execution_of r n price source bid tm) \<longleftrightarrow> 0 < n"
  by (simp_all add: execution_of_def execution_of_order_def)

lemma signed_quantity_add [simp]:
  "signed_quantity side (a + b) = signed_quantity side a + signed_quantity side b"
  "signed_quantity side 0 = 0"
  by (simp_all add: signed_quantity_def)

section \<open>Booking\<close>

lemma find_positionD:
  "find_position d k = Some p \<Longrightarrow> p \<in> set (rows (t_positions d)) \<and> position_key p = k"
  unfolding find_position_def by (rule find_SomeD)

lemma find_position_None:
  "find_position d k = None \<Longrightarrow> p \<in> set (rows (t_positions d)) \<Longrightarrow> position_key p \<noteq> k"
  unfolding find_position_def by (auto dest: find_NoneD)

lemma settle_position_frame [simp]:
  "t_orders (settle_position r n price d) = t_orders d"
  "t_executions (settle_position r n price d) = t_executions d"
  "t_controls (settle_position r n price d) = t_controls d"
  "t_connections (settle_position r n price d) = t_connections d"
  "t_instruments (settle_position r n price d) = t_instruments d"
  "t_users (settle_position r n price d) = t_users d"
  "t_strategy (settle_position r n price d) = t_strategy d"
  "t_identity (settle_position r n price d) = t_identity d"
  by (simp_all add: settle_position_def split: option.splits)

lemma settle_position_keys:
  "map position_key (rows (t_positions (settle_position r n price d))) =
   map position_key (rows (t_positions d))"
  by (simp add: settle_position_def split: option.splits)

lemma position_sum_settle:
  assumes "distinct (map position_key (rows (t_positions d)))"
  shows "position_sum (settle_position r n price d) k =
    position_sum d k + (if order_position_key r = k then signed_quantity (o_side r) n else 0)"
proof (cases "find_position d (order_position_key r)")
  case None
  then show ?thesis by (simp add: settle_position_def position_sum_def)
next
  case (Some p)
  note p = find_positionD [OF Some]
  have "(\<Sum>q\<leftarrow>upd_by position_key (fill_position p (o_side r) n price) (rows (t_positions d)).
           if position_key q = k then p_quantity q else 0) =
        (\<Sum>q\<leftarrow>rows (t_positions d). if position_key q = k then p_quantity q else 0)
        + (if order_position_key r = k then signed_quantity (o_side r) n else 0)"
    using p by (subst sum_upd_by [OF assms, where ?r0.0 = p]) auto
  then show ?thesis using Some
    by (simp add: settle_position_def position_sum_def objs_def)
qed

lemma apply_execution_cases:
  assumes "apply_execution now d r n price source bid tm = Inr (x, r', d')"
  obtains (known) "find_execution d (o_user_id r) bid = Some x" "r' = r" "d' = d"
  | (booked) "find_execution d (o_user_id r) bid = None" "0 < n"
      "o_filled_quantity r + n \<le> o_quantity r"
      "x = execution_of r n price source bid (or_else tm now)"
      "r' = fill_order r n price (or_else tm now)"
      "d' = settle_position r n price (put_order r' (add_execution x d))"
  using assms by (auto simp: apply_execution_def Let_def split: option.splits if_splits)

lemma apply_execution_Inl:
  "apply_execution now d r n price source bid tm = Inl e \<Longrightarrow>
   e = trading_error ''INVALID_EXECUTION_QUANTITY''"
  by (auto simp: apply_execution_def Let_def split: option.splits if_splits)

text \<open>What a booking leaves alone, whichever branch it takes.\<close>

lemma apply_execution_frame:
  assumes "apply_execution now d r n price source bid tm = Inr (x, r', d')"
  shows "o_id r' = o_id r" "o_user_id r' = o_user_id r" "o_instrument_id r' = o_instrument_id r"
    "o_mode r' = o_mode r" "o_quantity r' = o_quantity r" "o_side r' = o_side r"
    "client_key r' = client_key r" "order_position_key r' = order_position_key r"
    "t_controls d' = t_controls d" "t_connections d' = t_connections d"
    "t_instruments d' = t_instruments d" "t_users d' = t_users d"
    "t_strategy d' = t_strategy d" "t_identity d' = t_identity d"
    "map position_key (rows (t_positions d')) = map position_key (rows (t_positions d))"
  using assms by (cases rule: apply_execution_cases; simp add: settle_position_keys)+

lemma apply_execution_orders:
  assumes "apply_execution now d r n price source bid tm = Inr (x, r', d')"
  shows "t_orders d' = t_orders d \<and> r' = r \<or> t_orders d' = put_row o_id r' (t_orders d)"
  using assms by (cases rule: apply_execution_cases) auto

section \<open>Preservation by a booking\<close>

lemma exec_sum_add:
  "t_executions d' = insert_row x (t_executions d) \<Longrightarrow>
   exec_sum d' oid = exec_sum d oid + (if x_order_id x = oid then x_quantity x else 0)"
  by (simp add: exec_sum_def)

lemma fill_sum_put:
  assumes "distinct (map o_id (objs (t_orders d)))" "r \<in> set (objs (t_orders d))"
    and "t_orders d' = put_row o_id r' (t_orders d)" "o_id r' = o_id r"
    and "order_position_key r' = order_position_key r" "o_side r' = o_side r"
  shows "fill_sum d' k = fill_sum d k +
    (if order_position_key r = k
     then signed_quantity (o_side r) (o_filled_quantity r' - o_filled_quantity r) else 0)"
  using sum_upd_by [where key = o_id and xs = "objs (t_orders d)" and ?r0.0 = r and r = r'
      and g = "\<lambda>q. if order_position_key q = k then signed_quantity (o_side q) (o_filled_quantity q) else 0"]
    assms by (simp add: fill_sum_def signed_quantity_def)

lemma apply_execution_ledger:
  assumes "ledger d" "r \<in> set (objs (t_orders d))"
    and "apply_execution now d r n price source bid tm = Inr (x, r', d')"
  shows "ledger d'"
  using assms(3)
proof (cases rule: apply_execution_cases)
  case known
  with assms(1) show ?thesis by simp
next
  case booked
  note L = ledgerD [OF assms(1)]
  have r'_in: "r' \<in> set (objs (t_orders d'))"
    using booked assms(2) by (auto intro: in_upd_by_self [where ?r0.0 = r])
  have execs: "t_executions d' = insert_row x (t_executions d)" using booked by simp
  show ?thesis
  proof (rule ledgerI)
    show "distinct (map o_id (objs (t_orders d')))" using L(1) booked by simp
    show "distinct (map position_key (rows (t_positions d')))"
      using L(2) booked by (simp add: settle_position_keys)
  next
    fix q assume q: "q \<in> set (objs (t_orders d'))"
    show "order_booked d' q"
    proof (cases "q = r'")
      case True
      then show ?thesis using L(3) [OF assms(2)] booked exec_sum_add [OF execs, of "o_id r"]
        by (simp add: order_booked_def)
    next
      case False
      with q booked have "q \<in> set (objs (t_orders d))" "o_id q \<noteq> o_id r"
        by (auto dest: in_upd_byD)
      then show ?thesis using L(3) [of q] booked exec_sum_add [OF execs, of "o_id q"]
        by (simp add: order_booked_def)
    qed
  next
    fix y assume "y \<in> set (objs (t_executions d'))"
    then consider "y = x" | "y \<in> set (objs (t_executions d))" using booked by auto
    then show "\<exists>q \<in> set (objs (t_orders d')). execution_of_order q y"
    proof cases
      case 1
      with r'_in booked show ?thesis
        by (intro bexI [of _ r']) (simp_all add: execution_of_order_def execution_of_def)
    next
      case 2
      then obtain q where q: "q \<in> set (objs (t_orders d))" "execution_of_order q y"
        using L(4) by blast
      show ?thesis
      proof (cases "o_id q = o_id r")
        case True
        with q(1) assms(2) L(1) have "q = r" by (metis distinct_map_eqD)
        with q(2) r'_in booked show ?thesis
          by (intro bexI [of _ r']) (simp_all add: execution_of_order_def)
      next
        case False
        with q booked show ?thesis
          by (intro bexI [of _ q]) (auto intro: in_upd_by_other)
      qed
    qed
  next
    fix k
    let ?d = "put_order r' (add_execution x d)"
    have "position_sum d' k = position_sum d k
        + (if order_position_key r = k then signed_quantity (o_side r) n else 0)"
      unfolding booked(6) using L(2) by (subst position_sum_settle) (simp_all add: position_sum_def)
    moreover have "fill_sum d' k = fill_sum d k
        + (if order_position_key r = k then signed_quantity (o_side r) n else 0)"
      using L(1) assms(2) booked by (subst fill_sum_put [where r = r and r' = r']) simp_all
    ultimately show "position_sum d' k = fill_sum d' k" using L(5) [of k] by simp
  qed
qed

section \<open>Other steps that keep the ledger\<close>

lemma ledger_put_order:
  assumes "ledger d" "r \<in> set (objs (t_orders d))"
    and "o_id r' = o_id r" "o_user_id r' = o_user_id r" "o_instrument_id r' = o_instrument_id r"
    "o_mode r' = o_mode r" "o_side r' = o_side r" "o_product_type r' = o_product_type r"
    and "o_filled_quantity r' = o_filled_quantity r" "o_filled_quantity r \<le> o_quantity r'"
  shows "ledger (put_order r' d)"
proof (rule ledgerI)
  note L = ledgerD [OF assms(1)]
  have r'_in: "r' \<in> set (objs (t_orders (put_order r' d)))"
    using assms(2,3) by (auto intro: in_upd_by_self [where ?r0.0 = r])
  have key: "order_position_key r' = order_position_key r"
    using assms by (simp add: order_position_key_def)
  show "distinct (map o_id (objs (t_orders (put_order r' d))))" using L(1) by simp
  show "distinct (map position_key (rows (t_positions (put_order r' d))))" using L(2) by simp
  have same: "exec_sum (put_order r' d) oid = exec_sum d oid" for oid by (simp add: exec_sum_def)
  fix q assume "q \<in> set (objs (t_orders (put_order r' d)))"
  then show "order_booked (put_order r' d) q"
    using L(3) [of q] L(3) [OF assms(2)] assms by (auto simp: order_booked_def same dest!: in_upd_byD)
next
  note L = ledgerD [OF assms(1)]
  fix y assume "y \<in> set (objs (t_executions (put_order r' d)))"
  then obtain q where q: "q \<in> set (objs (t_orders d))" "execution_of_order q y" using L(4) by auto
  show "\<exists>q \<in> set (objs (t_orders (put_order r' d))). execution_of_order q y"
  proof (cases "o_id q = o_id r'")
    case True
    with q(1) assms(2,3) L(1) have "q = r" by (metis distinct_map_eqD)
    with q assms show ?thesis
      by (intro bexI [of _ r']) (auto simp: execution_of_order_def intro: in_upd_by_self)
  next
    case False
    with q show ?thesis by (intro bexI [of _ q]) (auto intro: in_upd_by_other)
  qed
next
  note L = ledgerD [OF assms(1)]
  fix k
  have "fill_sum (put_order r' d) k = fill_sum d k"
    using L(1) assms by (subst fill_sum_put [where r = r and r' = r'])
      (simp_all add: order_position_key_def)
  then show "position_sum (put_order r' d) k = fill_sum (put_order r' d) k"
    using L(5) [of k] by (simp add: position_sum_def)
qed

lemma ledger_add_order:
  assumes "ledger d" "o_id r \<notin> o_id ` set (objs (t_orders d))"
    and "o_filled_quantity r = 0" "0 \<le> o_quantity r"
  shows "ledger (add_order r d)"
proof -
  note L = ledgerD [OF assms(1)]
  have none: "exec_sum d (o_id r) = 0"
  proof -
    have "x_order_id x \<noteq> o_id r" if "x \<in> set (objs (t_executions d))" for x
      using L(4) [OF that] assms(2) by (auto simp: execution_of_order_def)
    then have "map (\<lambda>x. if x_order_id x = o_id r then x_quantity x else 0) (objs (t_executions d))
        = map (\<lambda>_. 0) (objs (t_executions d))" by simp
    then show ?thesis unfolding exec_sum_def by (simp only: sum_list_0)
  qed
  have same: "exec_sum (add_order r d) oid = exec_sum d oid" for oid by (simp add: exec_sum_def)
  show ?thesis
    using assms L none
    by (intro ledgerI) (auto simp: order_booked_def same position_sum_def fill_sum_def)
qed

lemma flush_all_sums [simp]:
  "exec_sum (flush_all d) oid = exec_sum d oid" "fill_sum (flush_all d) k = fill_sum d k"
  "position_sum (flush_all d) k = position_sum d k" "order_booked (flush_all d) r = order_booked d r"
  by (simp_all add: exec_sum_def fill_sum_def position_sum_def order_booked_def)

lemma ledger_flush_all [simp]: "constraints d \<Longrightarrow> ledger d \<Longrightarrow> ledger (flush_all d)"
  by (auto simp: ledger_def constraints_def)

end
