(* ===== verification/Books.thy ===== *)
theory Books
  imports Ledger
begin

text \<open>
  The contract of order management.  \<open>book\<close> is the ledger invariant together with the life cycle of a
  paper order, which is open and unfilled, or filled in full, or cancelled and unfilled (the engine
  never books a partial fill).  The locale \<open>order_invariant\<close> is the interface between the operations
  and an invariant of the database: the few writes the operations are made of, and what each must keep.
  Every operation is proved once, inside the locale, to keep such an invariant, and the locale is
  interpreted by \<open>book\<close> here and by the history of the ledger in \<open>History\<close>.

  \<open>keeps good f s\<close> is what is proved of an operation: what is durable stays good whatever it returns,
  and so does the working state unless a unique constraint failed.
\<close>

definition lifecycle :: "trading_order \<Rightarrow> bool" where
  "lifecycle r \<longleftrightarrow>
     (o_mode r = ''PAPER'' \<longrightarrow>
        0 < o_quantity r \<and>
        (o_status r = OPEN \<and> o_filled_quantity r = 0 \<or>
         o_status r = FILLED \<and> o_filled_quantity r = o_quantity r \<or>
         o_status r = CANCELED \<and> o_filled_quantity r = 0))"

definition book :: "db \<Rightarrow> bool" where
  "book d \<longleftrightarrow> ledger d \<and> (\<forall>r \<in> set (objs (t_orders d)). lifecycle r)"

lemma bookD:
  "book d \<Longrightarrow> ledger d" "book d \<Longrightarrow> r \<in> set (objs (t_orders d)) \<Longrightarrow> lifecycle r"
  by (simp_all add: book_def)

lemma book_empty: "book empty_db"
  by (simp add: book_def ledger_empty) (simp add: empty_db_def)

section \<open>The books under single updates\<close>

lemma book_flush_all [simp]: "constraints d \<Longrightarrow> book d \<Longrightarrow> book (flush_all d)"
  by (simp add: book_def)

text \<open>
  How an order may change: its identity stays, fills are never taken back, and a paper order that is
  filled or cancelled does not change any more.
\<close>

definition order_evolves :: "trading_order \<Rightarrow> trading_order \<Rightarrow> bool" where
  "order_evolves r r' \<longleftrightarrow>
     o_id r' = o_id r \<and> o_user_id r' = o_user_id r \<and> o_instrument_id r' = o_instrument_id r \<and>
     o_client_order_id r' = o_client_order_id r \<and> o_mode r' = o_mode r \<and> o_side r' = o_side r \<and>
     o_order_type r' = o_order_type r \<and> o_product_type r' = o_product_type r \<and>
     o_validity r' = o_validity r \<and> o_filled_quantity r \<le> o_filled_quantity r' \<and>
     (o_mode r = ''PAPER'' \<and> o_status r \<notin> open_order_statuses \<longrightarrow> r' = r)"

lemma book_put_order:
  assumes "book d" "r \<in> set (objs (t_orders d))" "order_evolves r r'"
    and "o_filled_quantity r' = o_filled_quantity r" "o_filled_quantity r \<le> o_quantity r'" "lifecycle r'"
  shows "book (put_order r' d)"
  using assms ledger_put_order [OF bookD(1) [OF assms(1)] assms(2), of r']
  by (auto simp: book_def order_evolves_def dest!: in_upd_byD)

lemma book_add_order:
  assumes "book d" "constraints (add_order r d)"
    and "o_filled_quantity r = 0" "0 \<le> o_quantity r" "lifecycle r"
  shows "book (add_order r d)"
proof -
  have "o_id r \<notin> o_id ` set (objs (t_orders d))" using assms(2) by (simp add: constraints_def)
  then show ?thesis
    using assms ledger_add_order [of d r] by (auto simp: book_def)
qed

lemma book_apply_execution:
  assumes "book d" "r \<in> set (objs (t_orders d))"
    and "apply_execution now d r n price source bid tm = Inr (x, r', d')"
    and "o_mode r = ''PAPER'' \<Longrightarrow> n = o_quantity r - o_filled_quantity r"
  shows "book d'"
proof -
  have ledger: "ledger d'" by (rule apply_execution_ledger [OF bookD(1) [OF assms(1)] assms(2,3)])
  show "book d'" using assms(3)
  proof (cases rule: apply_execution_cases)
    case known
    with assms(1) show ?thesis by simp
  next
    case booked
    have "lifecycle r'" using booked assms(4) bookD(2) [OF assms(1,2)] by (auto simp: lifecycle_def)
    then show ?thesis using ledger booked assms(1) by (auto simp: book_def dest!: in_upd_byD)
  qed
qed

lemma applied_order:
  assumes "apply_execution now d r n price source bid tm = Inr (x, r', d')" "r \<in> set (objs (t_orders d))"
  shows "r' \<in> set (objs (t_orders d'))" "o_id r' = o_id r"
  using assms by (cases rule: apply_execution_cases; auto intro: in_upd_by_self [where ?r0.0 = r])+

lemma book_cong:
  "t_orders d' = t_orders d \<Longrightarrow> t_executions d' = t_executions d \<Longrightarrow> t_positions d' = t_positions d \<Longrightarrow>
   book d' = book d"
  by (simp add: book_def ledger_def order_booked_def exec_sum_def position_sum_def fill_sum_def)

section \<open>The interface\<close>

text \<open>A durable state has nothing pending and satisfies the unique constraints.\<close>

definition durable :: "(db \<Rightarrow> bool) \<Rightarrow> db \<Rightarrow> bool" where
  "durable good d \<longleftrightarrow> good d \<and> clean d \<and> constraints d"

definition keeps :: "(db \<Rightarrow> bool) \<Rightarrow> (session \<Rightarrow> (exn + 'a) \<times> session) \<Rightarrow> session \<Rightarrow> bool" where
  "keeps good f s \<longleftrightarrow>
     (good (cur s) \<and> durable good (saved s) \<longrightarrow>
        durable good (saved (snd (f s))) \<and> (fst (f s) \<noteq> Inl IntegrityError \<longrightarrow> good (cur (snd (f s)))))"

locale order_invariant =
  fixes good :: "db \<Rightarrow> bool"
  assumes good_book: "good d \<Longrightarrow> book d"
    and good_cong: "t_orders d' = t_orders d \<Longrightarrow> t_executions d' = t_executions d \<Longrightarrow>
      t_positions d' = t_positions d \<Longrightarrow> good d' = good d"
    and good_flush: "constraints d \<Longrightarrow> good d \<Longrightarrow> good (flush_all d)"
    and good_put: "good d \<Longrightarrow> r \<in> set (objs (t_orders d)) \<Longrightarrow> order_evolves r r' \<Longrightarrow>
      o_filled_quantity r' = o_filled_quantity r \<Longrightarrow> o_filled_quantity r \<le> o_quantity r' \<Longrightarrow>
      lifecycle r' \<Longrightarrow> good (put_order r' d)"
    and good_add: "good d \<Longrightarrow> constraints (add_order r d) \<Longrightarrow> o_filled_quantity r = 0 \<Longrightarrow>
      0 \<le> o_quantity r \<Longrightarrow> lifecycle r \<Longrightarrow> good (add_order r d)"
    and good_apply: "good d \<Longrightarrow> r \<in> set (objs (t_orders d)) \<Longrightarrow>
      apply_execution now d r n price source bid tm = Inr (x, r', d') \<Longrightarrow>
      (o_mode r = ''PAPER'' \<Longrightarrow> n = o_quantity r - o_filled_quantity r \<and> o_status r \<in> open_order_statuses) \<Longrightarrow>
      good d'"
begin

lemma durable_flush: "constraints d \<Longrightarrow> good d \<Longrightarrow> durable good (flush_all d)"
  by (simp add: durable_def good_flush)

lemma durable_good: "durable good d \<Longrightarrow> good d"
  by (simp add: durable_def)

lemma keepsI:
  assumes "\<And>x s'. good (cur s) \<Longrightarrow> durable good (saved s) \<Longrightarrow> f s = (Inr x, s') \<Longrightarrow> good (cur s') \<and> durable good (saved s')"
    and "\<And>e s'. good (cur s) \<Longrightarrow> durable good (saved s) \<Longrightarrow> f s = (Inl e, s') \<Longrightarrow>
           durable good (saved s') \<and> (e \<noteq> IntegrityError \<longrightarrow> good (cur s'))"
  shows "keeps good f s"
proof (cases "f s")
  case (Pair res s')
  show ?thesis
  proof (cases res)
    case (Inl e)
    with Pair assms(2) [of e s'] show ?thesis by (auto simp: keeps_def)
  next
    case (Inr x)
    with Pair assms(1) [of x s'] show ?thesis by (auto simp: keeps_def)
  qed
qed

lemma lifecycle_of: "good d \<Longrightarrow> r \<in> set (objs (t_orders d)) \<Longrightarrow> lifecycle r"
  by (rule bookD(2) [OF good_book])

lemma keeps_commit_return: "keeps good (commit_return x) s"
  by (rule keepsI; cases rule: commit_return_cases [of x s]) (auto simp: good_flush durable_flush)

lemma commit_return_good:
  assumes "commit_return x s = (res, s')" "good (cur s)" "durable good (saved s)"
  shows "durable good (saved s')" "res \<noteq> Inl IntegrityError \<Longrightarrow> good (cur s')" "wire s' = wire s"
  using assms by (cases rule: commit_return_cases [of x s]; auto simp: good_flush durable_flush)+

lemmas commit_save_good = commit_return_good [where s = "save_order r s" for r s, simplified]

end

interpretation books: order_invariant book
proof
  show "t_orders d' = t_orders d \<Longrightarrow> t_executions d' = t_executions d \<Longrightarrow> t_positions d' = t_positions d \<Longrightarrow>
    book d' = book d" for d d' by (rule book_cong)
qed (simp_all add: book_put_order book_add_order book_apply_execution)

end
