(* ===== verification/PaperEngine.thy ===== *)
theory PaperEngine
  imports Books
begin

text \<open>
  The operations of the paper engine keep every order invariant: placing, cancelling, modifying, and
  the fills a quote triggers.
\<close>

section \<open>Fills\<close>

lemma paper_fill_cases:
  assumes "paper_fill cfg q r n s = (res, s')"
  obtains (refused) "res = Inl (trading_error ''INVALID_EXECUTION_QUANTITY'')" "s' = draw s"
  | (filled) x r' d where "res = Inr r'" "s' = (draw s)\<lparr>cur := d\<rparr>"
      "apply_execution (clock s) (cur s) r n (fill_price r q (paper_slippage_bps cfg)) ''PAPER''
         (Some (''paper-'' @ fresh s)) None = Inr (x, r', d)"
  using assms
  by (auto simp: paper_fill_def split: sum.splits dest: apply_execution_Inl)

lemma paper_fill_frame:
  assumes "paper_fill cfg q r n s = (res, s')"
  shows "saved s' = saved s" "clock s' = clock s" "wire s' = wire s" "uuids s' = uuids s"
  using assms by (cases rule: paper_fill_cases; simp)+

lemma paper_fill_self:
  assumes "r \<in> set (objs (t_orders (cur s)))" "paper_fill cfg q r n s = (Inr r', s')"
  shows "r' \<in> set (objs (t_orders (cur s')))" "o_id r' = o_id r"
  using assms(2) by (cases rule: paper_fill_cases; use assms in \<open>auto dest: applied_order\<close>)+

lemma new_order_sel [simp]:
  "o_id (new_order oid uid ins v mode status now) = oid"
  "o_user_id (new_order oid uid ins v mode status now) = uid"
  "o_mode (new_order oid uid ins v mode status now) = mode"
  "o_status (new_order oid uid ins v mode status now) = status"
  "o_quantity (new_order oid uid ins v mode status now) = v_quantity v"
  "o_filled_quantity (new_order oid uid ins v mode status now) = 0"
  "o_validity (new_order oid uid ins v mode status now) = v_validity v"
  "o_order_type (new_order oid uid ins v mode status now) = v_order_type v"
  "o_side (new_order oid uid ins v mode status now) = v_side v"
  "o_limit_price (new_order oid uid ins v mode status now) = v_limit_price v"
  "o_instrument_id (new_order oid uid ins v mode status now) = i_id ins"
  "o_product_type (new_order oid uid ins v mode status now) = v_product_type v"
  "client_key (new_order oid uid ins v mode status now) = (uid, v_client_order_id v)"
  by (simp_all add: new_order_def client_key_def)

lemma resting_ordersD:
  assumes "r \<in> set (resting_orders d uid iid)"
  shows "r \<in> set (objs (t_orders d))" "o_mode r = ''PAPER''" "o_status r \<in> {OPEN, PARTIALLY_FILLED}"
    "o_user_id r = uid" "o_instrument_id r = iid"
  using assms by (auto simp: resting_orders_def objs_def)

lemma distinct_resting_orders:
  "distinct (map o_id (objs (t_orders d))) \<Longrightarrow> distinct (map o_id (resting_orders d uid iid))"
  by (simp add: resting_orders_def distinct_map_filter objs_def)

lemma paper_fill_others:
  assumes "paper_fill cfg q r n s = (res, s')" "x \<in> set (objs (t_orders (cur s)))" "o_id x \<noteq> o_id r"
  shows "x \<in> set (objs (t_orders (cur s')))"
  using assms(1)
proof (cases rule: paper_fill_cases)
  case (filled y r' d)
  then show ?thesis
    using apply_execution_orders [OF filled(3)] apply_execution_frame(1) [OF filled(3)] assms(2,3)
    by (auto intro!: in_upd_by_other)
qed (use assms in simp)

section \<open>Each operation keeps an order invariant\<close>

context order_invariant
begin

lemma paper_fill_good:
  assumes "good (cur s)" "r \<in> set (objs (t_orders (cur s)))"
    and "paper_fill cfg q r n s = (res, s')" "n = o_quantity r - o_filled_quantity r"
    and "o_status r \<in> open_order_statuses"
  shows "good (cur s')"
  using assms(3)
proof (cases rule: paper_fill_cases)
  case refused
  with assms(1) show ?thesis by simp
next
  case (filled x r' d)
  then show ?thesis using good_apply [OF assms(1,2) filled(3)] assms(4,5) by simp
qed

lemma keeps_paper_submit:
  assumes "0 < v_quantity v"
  shows "keeps good (paper_submit cfg uid ins v oq) s"
proof -
  define r where "r = new_order (fresh s) uid ins v ''PAPER'' OPEN (clock s)"
  define s1 where "s1 = (draw s)\<lparr>cur := add_order r (cur s)\<rparr>"
  define s2 where "s2 = s1\<lparr>cur := flush_all (cur s1)\<rparr>"
  have life: "lifecycle r" "o_filled_quantity r = 0" "0 \<le> o_quantity r" "o_mode r = ''PAPER''"
    "o_status r \<in> open_order_statuses"
    using assms by (simp_all add: r_def lifecycle_def open_order_statuses_def)
  show ?thesis
  proof (cases "constraints (cur s1)")
    case False
    then have "paper_submit cfg uid ins v oq s = (Inl IntegrityError, s1)"
      by (simp add: paper_submit_def flush_def r_def s1_def)
    then show ?thesis by (simp add: keeps_def s1_def)
  next
    case True
    have eq: "paper_submit cfg uid ins v oq s =
        (if quote_crosses r oq then
           case paper_fill cfg (the oq) r (o_quantity r) s2 of
             (Inl e, s3) \<Rightarrow> (Inl e, s3) | (Inr r', s3) \<Rightarrow> commit_return r' s3
         else if o_validity r = IOC then
           commit_return (r\<lparr>o_status := CANCELED, o_completed_at := Some (clock s2)\<rparr>)
             (save_order (r\<lparr>o_status := CANCELED, o_completed_at := Some (clock s2)\<rparr>) s2)
         else commit_return r s2)"
      using True by (simp add: paper_submit_def flush_def r_def s1_def s2_def Let_def)
    {
      assume "good (cur s)" "durable good (saved s)"
      then have b2: "good (cur s2)" "durable good (saved s2)" and r_in: "r \<in> set (objs (t_orders (cur s2)))"
        using True life good_add [of "cur s" r] by (simp_all add: s1_def s2_def good_flush durable_flush)
      have fill: "good (cur s3)" "durable good (saved s3)" if "paper_fill cfg (the oq) r (o_quantity r) s2 = (res, s3)"
        for res s3
        using paper_fill_good [OF b2(1) r_in that] paper_fill_frame(1) [OF that] b2 life by simp_all
      have ioc: "good (put_order (r\<lparr>o_status := CANCELED, o_completed_at := Some (clock s2)\<rparr>) (cur s2))"
      proof (rule good_put [OF b2(1) r_in])
        show "order_evolves r (r\<lparr>o_status := CANCELED, o_completed_at := Some (clock s2)\<rparr>)"
          using life(5) by (simp add: order_evolves_def)
        show "lifecycle (r\<lparr>o_status := CANCELED, o_completed_at := Some (clock s2)\<rparr>)"
          using life(1,2) by (simp add: lifecycle_def)
      qed (use life in simp_all)
      note this b2 fill ioc
    }
    note facts = this
    show ?thesis
    proof (rule keepsI)
      fix x s' assume "good (cur s)" "durable good (saved s)" "paper_submit cfg uid ins v oq s = (Inr x, s')"
      then show "good (cur s') \<and> durable good (saved s')"
        using facts unfolding eq
        by (auto split: if_splits prod.splits sum.splits dest: commit_return_good commit_save_good)
    next
      fix e s' assume "good (cur s)" "durable good (saved s)" "paper_submit cfg uid ins v oq s = (Inl e, s')"
      then show "durable good (saved s') \<and> (e \<noteq> IntegrityError \<longrightarrow> good (cur s'))"
        using facts unfolding eq
        by (auto split: if_splits prod.splits sum.splits dest: commit_return_good commit_save_good)
    qed
  qed
qed

lemma keeps_return: "keeps good (\<lambda>s. (x, s)) s"
  by (simp add: keeps_def)

lemma keeps_paper_place:
  assumes "0 < v_quantity v"
  shows "keeps good (paper_place cfg uid ins v oq) s"
  using keeps_paper_submit [OF assms, of cfg uid ins oq s]
  by (auto simp: paper_place_def keeps_def split: option.splits)

lemma keeps_paper_cancel:
  assumes "r \<in> set (objs (t_orders (cur s)))"
  shows "keeps good (paper_cancel r) s"
proof (cases "o_mode r \<noteq> ''PAPER'' \<or> o_status r \<notin> open_order_statuses")
  case True
  then show ?thesis by (simp add: paper_cancel_def keeps_def)
next
  case False
  define r' where "r' = r\<lparr>o_status := CANCELED, o_completed_at := Some (clock s), o_version := o_version r + 1\<rparr>"
  have eq: "paper_cancel r s = commit_return r' (save_order r' s)"
    using False by (simp add: paper_cancel_def r'_def Let_def)
  have "good (put_order r' (cur s))" if b: "good (cur s)"
    using lifecycle_of [OF b assms] False
    by - (rule good_put [OF b assms]; auto simp: r'_def lifecycle_def order_evolves_def open_order_statuses_def)
  then show ?thesis
    using keeps_commit_return [of r' "save_order r' s"] by (simp add: keeps_def eq)
qed

lemma keeps_paper_modify:
  assumes "r \<in> set (objs (t_orders (cur s)))"
  shows "keeps good (paper_modify cfg r n price oq) s"
proof (cases "o_mode r \<noteq> ''PAPER'' \<or> o_status r \<notin> open_order_statuses \<or> o_order_type r \<noteq> LIMIT \<or>
      n < max 1 (o_filled_quantity r)")
  case True
  then show ?thesis by (auto simp: paper_modify_def keeps_def)
next
  case False
  define r1 where "r1 = r\<lparr>o_quantity := n, o_limit_price := Some price, o_version := o_version r + 1\<rparr>"
  have eq: "paper_modify cfg r n price oq s =
      (if quote_crosses r1 oq then
         case paper_fill cfg (the oq) r1 (n - o_filled_quantity r1) (save_order r1 s) of
           (Inl e, s2) \<Rightarrow> (Inl e, s2) | (Inr r2, s2) \<Rightarrow> commit_return r2 s2
       else commit_return r1 (save_order r1 s))"
    using False by (simp add: paper_modify_def r1_def Let_def)
  have opened: "o_status r1 \<in> open_order_statuses" using False by (simp add: r1_def)
  have b1: "good (put_order r1 (cur s))" if b: "good (cur s)"
    using lifecycle_of [OF b assms] False
    by - (rule good_put [OF b assms]; auto simp: r1_def lifecycle_def order_evolves_def open_order_statuses_def)
  have r1: "r1 \<in> set (objs (t_orders (put_order r1 (cur s))))"
    using assms by (auto simp: r1_def intro: in_upd_by_self [where ?r0.0 = r])
  have fill: "good (cur s2)" "durable good (saved s2)"
    if "good (cur s)" "durable good (saved s)"
      "paper_fill cfg (the oq) r1 (n - o_filled_quantity r1) (save_order r1 s) = (res, s2)" for res s2
    using paper_fill_good [OF _ _ that(3)] b1 [OF that(1)] r1 opened paper_fill_frame(1) [OF that(3)] that
    by (simp_all add: r1_def)
  show ?thesis
  proof (rule keepsI)
    fix x s' assume "good (cur s)" "durable good (saved s)" "paper_modify cfg r n price oq s = (Inr x, s')"
    then show "good (cur s') \<and> durable good (saved s')"
      using b1 fill unfolding eq
      by (auto split: if_splits prod.splits sum.splits dest: commit_return_good commit_save_good)
  next
    fix e s' assume "good (cur s)" "durable good (saved s)" "paper_modify cfg r n price oq s = (Inl e, s')"
    then show "durable good (saved s') \<and> (e \<noteq> IntegrityError \<longrightarrow> good (cur s'))"
      using b1 fill unfolding eq
      by (auto split: if_splits prod.splits sum.splits dest: commit_return_good commit_save_good)
  qed
qed

lemma fill_crossing_good:
  assumes "fill_crossing cfg q rs k s = (res, s')" "good (cur s)"
    and "set rs \<subseteq> set (objs (t_orders (cur s)))" "distinct (map o_id rs)"
    and "\<forall>r \<in> set rs. o_status r \<in> open_order_statuses"
  shows "good (cur s') \<and> saved s' = saved s \<and> clock s' = clock s \<and> wire s' = wire s"
  using assms
proof (induction cfg q rs k s rule: fill_crossing.induct)
  case (2 cfg q r rs k s)
  show ?case
  proof (cases "is_crossing r q")
    case False
    with 2 show ?thesis by auto
  next
    case True
    obtain res1 s1 where f: "paper_fill cfg q r (o_quantity r - o_filled_quantity r) s = (res1, s1)"
      by (cases "paper_fill cfg q r (o_quantity r - o_filled_quantity r) s")
    have b1: "good (cur s1)" using paper_fill_good [OF _ _ f] 2(4,5,7) by simp
    have rest: "set rs \<subseteq> set (objs (t_orders (cur s1)))"
    proof
      fix x assume "x \<in> set rs"
      with 2(5,6) have "x \<in> set (objs (t_orders (cur s)))" "o_id x \<noteq> o_id r"
        by (auto simp: image_iff)
      then show "x \<in> set (objs (t_orders (cur s1)))" by (rule paper_fill_others [OF f])
    qed
    show ?thesis
    proof (cases res1)
      case (Inl e)
      with f True 2(3) b1 paper_fill_frame [OF f] show ?thesis by auto
    next
      case (Inr r')
      have run: "fill_crossing cfg q rs (Suc k) s1 = (res, s')" using 2(3) True f Inr by simp
      have "good (cur s') \<and> saved s' = saved s1 \<and> clock s' = clock s1 \<and> wire s' = wire s1"
        using 2(1) [OF True f [symmetric] Inr run b1 rest] 2(6,7) by simp
      then show ?thesis using paper_fill_frame [OF f] by simp
    qed
  qed
qed simp

lemma keeps_process_quote: "keeps good (process_quote cfg uid q) s"
proof -
  obtain res s1 where f: "fill_crossing cfg q (resting_orders (cur s) uid (q_instrument_id q)) 0 s = (res, s1)"
    by (cases "fill_crossing cfg q (resting_orders (cur s) uid (q_instrument_id q)) 0 s")
  have b1: "good (cur s1)" "saved s1 = saved s" if "good (cur s)"
  proof -
    have "set (resting_orders (cur s) uid (q_instrument_id q)) \<subseteq> set (objs (t_orders (cur s)))"
      "\<forall>r \<in> set (resting_orders (cur s) uid (q_instrument_id q)). o_status r \<in> open_order_statuses"
      by (auto simp: open_order_statuses_def dest: resting_ordersD(1,3))
    then show "good (cur s1)" "saved s1 = saved s"
      using fill_crossing_good [OF f that]
        distinct_resting_orders [OF ledgerD(1) [OF bookD(1) [OF good_book [OF that]]]] by blast+
  qed
  show ?thesis
    by (rule keepsI; simp add: process_quote_def f split: sum.splits if_splits)
      (use b1 in \<open>auto dest: commit_return_good\<close>)
qed


end

end
