(* ===== verification/DhanInstruments.thy ===== *)
theory DhanInstruments
  imports Models "HOL-Library.Char_ord" "HOL-Library.List_Lexorder" "HOL-Library.Product_Lexorder"
begin

text \<open>
  The part of \<^verbatim>\<open>market/dhan.py\<close> that names an instrument to the broker, used by the market feed and by
  live orders: the exchange segments and their codes, the segment derived from an instrument, the
  subscription of an instrument and the batched subscription messages.
\<close>

section \<open>Segments\<close>

definition SEGMENT_CODES :: "(string \<times> int) list" where
  "SEGMENT_CODES = [(''IDX_I'', 0), (''NSE_EQ'', 1), (''NSE_FNO'', 2), (''NSE_CURRENCY'', 3),
     (''BSE_EQ'', 4), (''MCX_COMM'', 5), (''BSE_CURRENCY'', 7), (''BSE_FNO'', 8)]"

definition derivative_segments :: "string set" where
  "derivative_segments = {''FNO'', ''FO'', ''FUT'', ''OPT'', ''FUTURES'', ''OPTIONS''}"

definition derived_segment :: "instrument \<Rightarrow> exn + string" where
  "derived_segment ins =
     (let exchange = py_upper (i_exchange ins); segment = py_upper (i_segment ins) in
      if exchange \<in> {''IDX'', ''INDEX''} \<or> segment \<in> {''IDX'', ''INDEX'', ''INDICES''} then Inr ''IDX_I''
      else if exchange = ''NFO'' \<or> exchange = ''NSE'' \<and> segment \<in> derivative_segments then Inr ''NSE_FNO''
      else if exchange = ''NSE'' \<and> segment \<in> {''CUR'', ''CDS'', ''CURRENCY''} then Inr ''NSE_CURRENCY''
      else if exchange = ''NSE'' \<and> segment \<in> {''EQ'', ''EQUITY'', ''CASH''} then Inr ''NSE_EQ''
      else if exchange = ''BFO'' \<or> exchange = ''BSE'' \<and> segment \<in> derivative_segments then Inr ''BSE_FNO''
      else if exchange = ''BSE'' \<and> segment \<in> {''CUR'', ''CDS'', ''CURRENCY''} then Inr ''BSE_CURRENCY''
      else if exchange = ''BSE'' \<and> segment \<in> {''EQ'', ''EQUITY'', ''CASH''} then Inr ''BSE_EQ''
      else if exchange = ''MCX'' then Inr ''MCX_COMM''
      else Inl (DhanProtocolError
             (''Unsupported Dhan exchange/segment: '' @ exchange @ ''/'' @ segment)))"

section \<open>Subscriptions\<close>

record dhan_subscription =
  sub_instrument_id :: string
  sub_segment :: string
  sub_code :: int
  sub_security_id :: string
  sub_instrument :: instrument

definition subscription_key :: "dhan_subscription \<Rightarrow> int \<times> string" where
  "subscription_key u = (sub_code u, sub_security_id u)"

text \<open>
  \<^verbatim>\<open>str(token.get("exchange_segment") or token.get("exchangeSegment") or _derived_segment(instrument)).upper()\<close>:
  the segment is derived only when the token names none.
\<close>

definition token_segment ::
  "(json \<Rightarrow> string) \<Rightarrow> instrument \<Rightarrow> (string \<times> json) list \<Rightarrow> exn + string" where
  "token_segment pr ins token =
     (let named = jor (jfield token ''exchange_segment'') (jfield token ''exchangeSegment'') in
      if jtruthy named then Inr (py_upper (jstr pr named))
      else map_sum id py_upper (derived_segment ins))"

definition subscription_token ::
  "(json \<Rightarrow> string) \<Rightarrow> instrument \<Rightarrow> exn + (json \<times> string)" where
  "subscription_token pr ins =
     (case jfield (i_broker_tokens ins) ''DHAN'' of
        JObj token \<Rightarrow>
          (case token_segment pr ins token of
             Inl e \<Rightarrow> Inl e
           | Inr segment \<Rightarrow>
               Inr (jor (jor (jfield token ''security_id'') (jfield token ''securityId''))
                        (jfield token ''token''), segment))
      | token \<Rightarrow>
          (case derived_segment ins of Inl e \<Rightarrow> Inl e | Inr segment \<Rightarrow> Inr (token, segment)))"

definition dhan_subscription :: "(json \<Rightarrow> string) \<Rightarrow> instrument \<Rightarrow> exn + dhan_subscription" where
  "dhan_subscription pr ins =
     (case subscription_token pr ins of
        Inl e \<Rightarrow> Inl e
      | Inr (security_id, segment) \<Rightarrow>
          if security_id = JNull \<or> py_strip (jstr pr security_id) = []
          then Inl (DhanProtocolError (''Instrument '' @ i_id ins @ '' has no Dhan security ID''))
          else case map_of SEGMENT_CODES segment of
              None \<Rightarrow> Inl (DhanProtocolError (''Unsupported Dhan exchange segment: '' @ segment))
            | Some code \<Rightarrow>
                Inr \<lparr>sub_instrument_id = i_id ins, sub_segment = segment, sub_code = code,
                     sub_security_id = jstr pr security_id, sub_instrument = ins\<rparr>)"

section \<open>Subscription messages\<close>

text \<open>The slices \<^verbatim>\<open>items[offset : offset + batch_size]\<close> for \<^verbatim>\<open>offset in range(0, len(items), batch_size)\<close>.\<close>

fun batches :: "nat \<Rightarrow> 'a list \<Rightarrow> 'a list list" where
  "batches n xs = (if xs = [] \<or> n = 0 then [] else take n xs # batches n (drop n xs))"

declare batches.simps [simp del]

definition subscription_entry :: "dhan_subscription \<Rightarrow> json" where
  "subscription_entry u =
     JObj [(''ExchangeSegment'', JStr (sub_segment u)), (''SecurityId'', JStr (sub_security_id u))]"

definition batch_message :: "int \<Rightarrow> dhan_subscription list \<Rightarrow> json" where
  "batch_message request_code batch =
     JObj [(''RequestCode'', JInt request_code), (''InstrumentCount'', JInt (int (length batch))),
           (''InstrumentList'', JList (map subscription_entry batch))]"

definition subscription_messages ::
  "dhan_subscription list \<Rightarrow> int \<Rightarrow> nat \<Rightarrow> exn + json list" where
  "subscription_messages subscriptions request_code batch_size =
     (if request_code \<notin> {15, 16, 17, 18, 21, 22}
      then Inl (DhanProtocolError (''Unsupported Dhan request code: '' @ str_of_int request_code))
      else if batch_size = 0 then Inl (PyError ''ValueError'')
      else Inr (map (batch_message request_code)
                    (batches batch_size (sort_key subscription_key subscriptions))))"

section \<open>Facts\<close>

lemma SEGMENT_CODES_inj:
  "map_of SEGMENT_CODES a = Some c \<Longrightarrow> map_of SEGMENT_CODES b = Some c \<Longrightarrow> a = b"
  by (auto simp: SEGMENT_CODES_def split: if_splits)

lemma derived_segment_coded:
  "derived_segment ins = Inr g \<Longrightarrow> g \<in> fst ` set SEGMENT_CODES \<and> py_upper g = g"
  by (auto simp: derived_segment_def SEGMENT_CODES_def Let_def py_upper_def is_lower_char_def code_of_def
      split: if_splits)

lemma dhan_subscription_Inr:
  assumes "dhan_subscription pr ins = Inr u"
  shows "sub_instrument_id u = i_id ins" "sub_instrument u = ins"
    "map_of SEGMENT_CODES (sub_segment u) = Some (sub_code u)" "py_strip (sub_security_id u) \<noteq> []"
  using assms by (auto simp: dhan_subscription_def split: sum.splits option.splits if_splits)

lemma batches_unfold [simp]:
  "batches n [] = []"
  "0 < n \<Longrightarrow> xs \<noteq> [] \<Longrightarrow> batches n xs = take n xs # batches n (drop n xs)"
  by (simp_all add: batches.simps)

lemma concat_batches: "0 < n \<Longrightarrow> concat (batches n xs) = xs"
proof (induction n xs rule: batches.induct)
  case (1 n xs)
  then show ?case by (cases "xs = []") simp_all
qed

lemma batches_bounds: "0 < n \<Longrightarrow> b \<in> set (batches n xs) \<Longrightarrow> b \<noteq> [] \<and> length b \<le> n"
proof (induction n xs rule: batches.induct)
  case (1 n xs)
  then show ?case by (cases "xs = []") auto
qed

end
