(* ===== verification/DhanOrders.thy ===== *)
theory DhanOrders
  imports DhanInstruments Engine
begin

text \<open>
  \<^verbatim>\<open>trading/dhan.py\<close>: the REST adapter for live orders.  Every call is one HTTP request whose outcome
  is the value of the argument \<open>w_http\<close> of the world, a function of the requests sent before and of
  this one; the request is appended to the \<open>wire\<close> of the session, so that what was sent, and that
  nothing is sent twice, can be stated.
\<close>

section \<open>The outside world\<close>

text \<open>
  \<open>NoReply\<close> is \<^verbatim>\<open>httpx.TimeoutException\<close> or \<^verbatim>\<open>httpx.NetworkError\<close>, \<open>TransportFailed\<close> any other exception
  of the client (by class name), \<open>Replied\<close> a response: its status code, whether its content is empty,
  and its parsed JSON (\<open>None\<close> when \<^verbatim>\<open>response.json()\<close> raises \<^verbatim>\<open>ValueError\<close>).
\<close>

datatype reply =
    NoReply
  | TransportFailed string
  | Replied int bool "json option"

text \<open>
  The code outside the repository that live orders rely on: the broker behind \<^verbatim>\<open>httpx\<close>, Python's text
  of a float, list or dict, Fernet decryption of the stored credentials with the JSON decoding of the
  result (\<^verbatim>\<open>security.decrypt_json\<close>), and \<^verbatim>\<open>datetime.fromisoformat\<close>: \<open>None\<close> for a \<^verbatim>\<open>ValueError\<close>, else the
  wall clock as an instant of UTC and, when the text has one, the offset from UTC in microseconds.
\<close>

record world =
  w_http :: "http_request list \<Rightarrow> http_request \<Rightarrow> reply"
  w_repr :: "json \<Rightarrow> string"
  w_decrypt :: "string \<Rightarrow> exn + (string \<times> json) list"
  w_isoformat :: "string \<Rightarrow> (int \<times> int option) option"

section \<open>Order status\<close>

definition DHAN_STATUS_MAP :: "(string \<times> order_status) list" where
  "DHAN_STATUS_MAP = [(''TRANSIT'', PENDING), (''PENDING'', OPEN), (''PART_TRADED'', PARTIALLY_FILLED),
     (''TRADED'', FILLED), (''CANCELLED'', CANCELED), (''REJECTED'', REJECTED), (''EXPIRED'', EXPIRED)]"

text \<open>\<^verbatim>\<open>(value or "").upper()\<close>: a truthy value that is no string has no \<^verbatim>\<open>upper\<close>.\<close>

definition map_dhan_status :: "json \<Rightarrow> exn + order_status" where
  "map_dhan_status value =
     (if \<not> jtruthy value then Inr (or_else (map_of DHAN_STATUS_MAP []) UNKNOWN)
      else case value of
        JStr t \<Rightarrow> Inr (or_else (map_of DHAN_STATUS_MAP (py_upper t)) UNKNOWN)
      | _ \<Rightarrow> Inl (PyError ''AttributeError''))"

section \<open>One request\<close>

text \<open>\<^verbatim>\<open>payload.get\<close> on a parsed body: a list, string, number or null has none.\<close>

definition as_dict :: "json \<Rightarrow> exn + (string \<times> json) list" where
  "as_dict j = (case j of JObj fs \<Rightarrow> Inr fs | _ \<Rightarrow> Inl (PyError ''AttributeError''))"

text \<open>\<^verbatim>\<open>credentials["access_token"]\<close> as a header: a missing key or a value that is no string raises.\<close>

definition token_header :: "(string \<times> json) list \<Rightarrow> exn + string" where
  "token_header credentials =
     (case map_of credentials ''access_token'' of
        None \<Rightarrow> Inl (PyError ''KeyError'')
      | Some (JStr t) \<Rightarrow> Inr t
      | Some _ \<Rightarrow> Inl (PyError ''TypeError''))"

text \<open>The code of an error response.\<close>

definition error_code :: "(json \<Rightarrow> string) \<Rightarrow> json option \<Rightarrow> exn" where
  "error_code pr parsed =
     (case parsed of
        None \<Rightarrow> DhanOrderError ''DHAN_ORDER_REJECTED'' False
      | Some payload \<Rightarrow>
          (case as_dict payload of
             Inl e \<Rightarrow> e
           | Inr fs \<Rightarrow>
               DhanOrderError
                 (jstr pr (jor (jor (jfield fs ''errorCode'') (jfield fs ''errorType''))
                               (JStr ''DHAN_ORDER_REJECTED''))) False))"

definition read_reply :: "(json \<Rightarrow> string) \<Rightarrow> string \<Rightarrow> reply \<Rightarrow> exn + json" where
  "read_reply pr verb rep =
     (case rep of
        NoReply \<Rightarrow> Inl (DhanOrderError ''DHAN_ORDER_RESULT_UNKNOWN'' True)
      | TransportFailed name \<Rightarrow> Inl (PyError name)
      | Replied status no_content parsed \<Rightarrow>
          if 400 \<le> status then Inl (error_code pr parsed)
          else if status = 204 \<or> no_content then Inr (JObj [])
          else case parsed of
              None \<Rightarrow> Inl (DhanOrderError ''DHAN_INVALID_RESPONSE'' (verb = ''POST''))
            | Some payload \<Rightarrow> Inr payload)"

definition dhan_request ::
  "world \<Rightarrow> string \<Rightarrow> string \<Rightarrow> (string \<times> json) list \<Rightarrow> string \<Rightarrow> json \<Rightarrow> session
   \<Rightarrow> (exn + json) \<times> session" where
  "dhan_request w verb path credentials client_id body s =
     (case token_header credentials of
        Inl e \<Rightarrow> (Inl e, s)
      | Inr token \<Rightarrow>
          let req = \<lparr>req_verb = verb, req_path = path, req_token = token, req_client = client_id,
                     req_body = body\<rparr>
          in (read_reply (w_repr w) verb (w_http w (wire s) req), s\<lparr>wire := wire s @ [req]\<rparr>))"

section \<open>The calls of the adapter\<close>

text \<open>\<^verbatim>\<open>price or 0\<close>.\<close>

definition price_field :: "pyfloat option \<Rightarrow> json" where
  "price_field p = (case p of None \<Rightarrow> JInt 0 | Some x \<Rightarrow> if x = 0 then JInt 0 else JFloat x)"

definition place_body :: "string \<Rightarrow> dhan_subscription \<Rightarrow> trading_order \<Rightarrow> json" where
  "place_body client_id u r =
     JObj [(''dhanClientId'', JStr client_id), (''correlationId'', JStr (o_client_order_id r)),
           (''transactionType'', JStr (side_value (o_side r))),
           (''exchangeSegment'', JStr (sub_segment u)),
           (''productType'', JStr (product_value (o_product_type r))),
           (''orderType'', JStr (order_type_value (o_order_type r))),
           (''validity'', JStr (validity_value (o_validity r))),
           (''securityId'', JStr (sub_security_id u)), (''quantity'', JInt (o_quantity r)),
           (''disclosedQuantity'', JInt 0), (''price'', price_field (o_limit_price r)),
           (''triggerPrice'', price_field (o_trigger_price r)), (''afterMarketOrder'', JBool False)]"

definition dhan_place ::
  "world \<Rightarrow> (string \<times> json) list \<Rightarrow> string \<Rightarrow> instrument \<Rightarrow> trading_order \<Rightarrow> session
   \<Rightarrow> (exn + json) \<times> session" where
  "dhan_place w credentials client_id ins r s =
     (case dhan_subscription (w_repr w) ins of
        Inl e \<Rightarrow> (Inl e, s)
      | Inr u \<Rightarrow> dhan_request w ''POST'' ''/orders'' credentials client_id (place_body client_id u r) s)"

text \<open>\<^verbatim>\<open>if not order.broker_order_id\<close>.\<close>

definition broker_order_ref :: "trading_order \<Rightarrow> exn + string" where
  "broker_order_ref r =
     (case o_broker_order_id r of
        None \<Rightarrow> Inl (DhanOrderError ''DHAN_ORDER_ID_MISSING'' False)
      | Some b \<Rightarrow> if b = [] then Inl (DhanOrderError ''DHAN_ORDER_ID_MISSING'' False) else Inr b)"

definition modify_body :: "string \<Rightarrow> string \<Rightarrow> trading_order \<Rightarrow> json" where
  "modify_body client_id bid r =
     JObj [(''dhanClientId'', JStr client_id), (''orderId'', JStr bid),
           (''orderType'', JStr (order_type_value (o_order_type r))), (''quantity'', JInt (o_quantity r)),
           (''price'', price_field (o_limit_price r)), (''disclosedQuantity'', JInt 0),
           (''triggerPrice'', price_field (o_trigger_price r)),
           (''validity'', JStr (validity_value (o_validity r)))]"

definition dhan_modify ::
  "world \<Rightarrow> (string \<times> json) list \<Rightarrow> string \<Rightarrow> trading_order \<Rightarrow> session \<Rightarrow> (exn + json) \<times> session" where
  "dhan_modify w credentials client_id r s =
     (case broker_order_ref r of
        Inl e \<Rightarrow> (Inl e, s)
      | Inr bid \<Rightarrow>
          dhan_request w ''PUT'' (''/orders/'' @ bid) credentials client_id (modify_body client_id bid r) s)"

definition dhan_cancel ::
  "world \<Rightarrow> (string \<times> json) list \<Rightarrow> string \<Rightarrow> trading_order \<Rightarrow> session \<Rightarrow> (exn + json) \<times> session" where
  "dhan_cancel w credentials client_id r s =
     (case broker_order_ref r of
        Inl e \<Rightarrow> (Inl e, s)
      | Inr bid \<Rightarrow> dhan_request w ''DELETE'' (''/orders/'' @ bid) credentials client_id JNull s)"

definition order_by_correlation ::
  "world \<Rightarrow> (string \<times> json) list \<Rightarrow> string \<Rightarrow> string \<Rightarrow> session \<Rightarrow> (exn + json) \<times> session" where
  "order_by_correlation w credentials client_id correlation_id s =
     dhan_request w ''GET'' (''/orders/external/'' @ correlation_id) credentials client_id JNull s"

definition as_list :: "json \<Rightarrow> json list" where
  "as_list j = (case j of JList xs \<Rightarrow> xs | _ \<Rightarrow> [])"

definition order_book ::
  "world \<Rightarrow> (string \<times> json) list \<Rightarrow> string \<Rightarrow> session \<Rightarrow> (exn + json list) \<times> session" where
  "order_book w credentials client_id s =
     (case dhan_request w ''GET'' ''/orders'' credentials client_id JNull s of
        (Inl e, s') \<Rightarrow> (Inl e, s') | (Inr j, s') \<Rightarrow> (Inr (as_list j), s'))"

definition trade_book ::
  "world \<Rightarrow> (string \<times> json) list \<Rightarrow> string \<Rightarrow> session \<Rightarrow> (exn + json list) \<times> session" where
  "trade_book w credentials client_id s =
     (case dhan_request w ''GET'' ''/trades'' credentials client_id JNull s of
        (Inl e, s') \<Rightarrow> (Inl e, s') | (Inr j, s') \<Rightarrow> (Inr (as_list j), s'))"

section \<open>Facts\<close>

text \<open>A call changes nothing but the wire, and sends at most one request.\<close>

definition calls_once :: "session \<Rightarrow> session \<Rightarrow> bool" where
  "calls_once s s' \<longleftrightarrow> s' = s \<or> (\<exists>req. s' = s\<lparr>wire := wire s @ [req]\<rparr>)"

lemma calls_once_refl [simp]: "calls_once s s"
  by (simp add: calls_once_def)

lemma calls_onceD:
  assumes "calls_once s s'"
  shows "cur s' = cur s" "saved s' = saved s" "clock s' = clock s" "uuids s' = uuids s" "drawn s' = drawn s"
    "length (wire s') \<le> Suc (length (wire s))"
  using assms by (auto simp: calls_once_def)

lemma dhan_request_once: "dhan_request w verb path cs cid body s = (res, s') \<Longrightarrow> calls_once s s'"
  by (auto simp: dhan_request_def calls_once_def Let_def split: sum.splits)

lemma adapter_once:
  "dhan_place w cs cid ins r s = (res, s') \<Longrightarrow> calls_once s s'"
  "dhan_modify w cs cid r s = (res, s') \<Longrightarrow> calls_once s s'"
  "dhan_cancel w cs cid r s = (res, s') \<Longrightarrow> calls_once s s'"
  "order_book w cs cid s = (res2, s') \<Longrightarrow> calls_once s s'"
  "trade_book w cs cid s = (res2, s') \<Longrightarrow> calls_once s s'"
  by (auto simp: dhan_place_def dhan_modify_def dhan_cancel_def order_book_def trade_book_def
      split: sum.splits prod.splits dest!: dhan_request_once)

lemma attribute_errors:
  "as_dict j = Inl e \<Longrightarrow> e = PyError ''AttributeError''"
  "map_dhan_status j = Inl e \<Longrightarrow> e = PyError ''AttributeError''"
  by (auto simp: as_dict_def map_dhan_status_def split: json.splits if_splits)

lemma map_dhan_status_Inr:
  "map_dhan_status j = Inr st \<Longrightarrow> st \<in> insert UNKNOWN (snd ` set DHAN_STATUS_MAP)"
  by (auto simp: map_dhan_status_def DHAN_STATUS_MAP_def split: if_splits json.splits)

end
