(* ===== verification/OrderService.thy ===== *)
theory OrderService
  imports PaperEngine DhanOrders
begin

text \<open>
  \<^verbatim>\<open>trading/service.py\<close>: \<^verbatim>\<open>OrderManager\<close>, the mode-gated entry to paper and live execution.  A live
  placement commits its row before the broker is called and never sends a second request for the same
  client order id; the outcome of the call decides the row's status.
\<close>

section \<open>Gates\<close>

definition live_gate :: "settings \<Rightarrow> exn option" where
  "live_gate cfg =
     (if trading_mode cfg \<noteq> ''live'' then Some (TradingError ''LIVE_TRADING_DISABLED'' 403)
      else if trading_live_confirmation cfg \<noteq> ''ENABLE_DHAN_LIVE_ORDERS''
      then Some (TradingError ''LIVE_TRADING_NOT_CONFIRMED'' 403)
      else if \<not> dhan_static_ip_confirmed cfg
      then Some (TradingError ''DHAN_STATIC_IP_NOT_CONFIRMED'' 403)
      else None)"

definition connected_dhan :: "db \<Rightarrow> string \<Rightarrow> broker_connection option" where
  "connected_dhan d uid =
     List.find (\<lambda>b. b_user_id b = uid \<and> b_broker b = DHAN \<and> b_status b = CONNECTED)
       (rows (t_connections d))"

definition text_or_null :: "string option \<Rightarrow> json" where
  "text_or_null t = (case t of None \<Rightarrow> JNull | Some x \<Rightarrow> JStr x)"

text \<open>\<^verbatim>\<open>_connection\<close>: the connected account, its decrypted credentials and the client id.\<close>

definition dhan_connection ::
  "world \<Rightarrow> string \<Rightarrow> session \<Rightarrow> (exn + (broker_connection \<times> (string \<times> json) list \<times> string)) \<times> session"
where
  "dhan_connection w uid s =
     (case connected_dhan (cur s) uid of
        None \<Rightarrow> (Inl (TradingError ''DHAN_CONNECTION_REQUIRED'' 422), s)
      | Some b \<Rightarrow>
          if (case b_token_expires_at b of None \<Rightarrow> False | Some t \<Rightarrow> t \<le> clock s) then
            let b' = b\<lparr>b_status := REAUTH_REQUIRED, b_error_code := Some ''TOKEN_EXPIRED''\<rparr>
            in case commit (s\<lparr>cur := put_connection b' (cur s)\<rparr>) of
                 (Inl e, s') \<Rightarrow> (Inl e, s')
               | (Inr _, s') \<Rightarrow> (Inl (TradingError ''DHAN_REAUTH_REQUIRED'' 422), s')
          else case w_decrypt w (b_encrypted_credentials b) of
              Inl e \<Rightarrow> (Inl e, s)
            | Inr credentials \<Rightarrow>
                let client_id = jor (jfield credentials ''client_id'') (text_or_null (b_broker_client_id b))
                in if \<not> jtruthy (jfield credentials ''access_token'') \<or> \<not> jtruthy client_id
                   then (Inl (TradingError ''DHAN_CREDENTIALS_INCOMPLETE'' 422), s)
                   else (Inr (b, credentials, jstr (w_repr w) client_id), s))"

text \<open>\<^verbatim>\<open>except DhanOrderError as exc\<close>; every other exception passes.\<close>

definition except_dhan ::
  "(exn + 'a) \<times> session \<Rightarrow> (string \<Rightarrow> bool \<Rightarrow> session \<Rightarrow> (exn + 'a) \<times> session) \<Rightarrow> (exn + 'a) \<times> session"
where
  "except_dhan outcome handler =
     (case outcome of
        (Inl (DhanOrderError code ambiguous), s) \<Rightarrow> handler code ambiguous s
      | other \<Rightarrow> other)"

text \<open>\<^verbatim>\<open>db.commit(); raise TradingError(exc.code, 502) from exc\<close>.\<close>

definition commit_raise :: "string \<Rightarrow> session \<Rightarrow> (exn + 'a) \<times> session" where
  "commit_raise code s =
     (case commit s of (Inl e, s') \<Rightarrow> (Inl e, s') | (Inr _, s') \<Rightarrow> (Inl (TradingError code 502), s'))"

section \<open>Placing\<close>

definition live_place_guard ::
  "settings \<Rightarrow> session \<Rightarrow> string \<Rightarrow> instrument \<Rightarrow> order_values \<Rightarrow> quote option \<Rightarrow> exn option" where
  "live_place_guard cfg s uid ins v oq =
     (if v_order_type v = LIMIT \<and> v_limit_price v = None
      then Some (TradingError ''LIMIT_PRICE_REQUIRED'' 422)
      else case quote_check cfg (clock s) oq of
        Some e \<Rightarrow> Some e
      | None \<Rightarrow>
          risk_check cfg (cur s) uid ins (v_side v) (v_product_type v) (v_quantity v) (q_ltp (the oq))
            ''LIVE'')"

definition live_order ::
  "session \<Rightarrow> string \<Rightarrow> instrument \<Rightarrow> broker_connection \<Rightarrow> order_values \<Rightarrow> trading_order" where
  "live_order s uid ins b v =
     (new_order (fresh s) uid ins v ''LIVE'' PENDING (clock s))
       \<lparr>o_broker_connection_id := Some (b_id b), o_trigger_price := v_trigger_price v\<rparr>"

text \<open>The broker's answer to a placement is written to the row.\<close>

definition placed :: "(json \<Rightarrow> string) \<Rightarrow> trading_order \<Rightarrow> json \<Rightarrow> session \<Rightarrow> (exn + trading_order) \<times> session"
where
  "placed pr r response s =
     (case as_dict response of
        Inl e \<Rightarrow> (Inl e, s)
      | Inr fs \<Rightarrow>
          let bid = jfield fs ''orderId'';
              r1 = r\<lparr>o_broker_order_id := (if jtruthy bid then Some (jstr pr bid) else None)\<rparr>;
              s1 = save_order r1 s
          in case map_dhan_status (jfield fs ''orderStatus'') of
               Inl e \<Rightarrow> (Inl e, s1)
             | Inr st \<Rightarrow>
                 let r2 = r1\<lparr>o_status := st,
                             o_completed_at := (if st \<in> {REJECTED, CANCELED, EXPIRED} then Some (clock s1)
                                                else o_completed_at r1)\<rparr>
                 in commit_return r2 (save_order r2 s1))"

definition place_failed :: "trading_order \<Rightarrow> string \<Rightarrow> bool \<Rightarrow> session \<Rightarrow> (exn + trading_order) \<times> session"
where
  "place_failed r code ambiguous s =
     (let r' = r\<lparr>o_status := (if ambiguous then UNKNOWN else REJECTED), o_rejection_reason := Some code,
                 o_completed_at := (if ambiguous then o_completed_at r else Some (clock s))\<rparr>
      in commit_raise code (save_order r' s))"

definition live_submit ::
  "world \<Rightarrow> (string \<times> json) list \<Rightarrow> string \<Rightarrow> instrument \<Rightarrow> trading_order \<Rightarrow> session
   \<Rightarrow> (exn + trading_order) \<times> session" where
  "live_submit w credentials client_id ins r s =
     except_dhan
       (case dhan_place w credentials client_id ins r s of
          (Inl e, s') \<Rightarrow> (Inl e, s')
        | (Inr response, s') \<Rightarrow> placed (w_repr w) r response s')
       (place_failed r)"

definition live_place ::
  "world \<Rightarrow> settings \<Rightarrow> string \<Rightarrow> instrument \<Rightarrow> order_values \<Rightarrow> quote option \<Rightarrow> session
   \<Rightarrow> (exn + trading_order) \<times> session" where
  "live_place w cfg uid ins v oq s =
     (case live_gate cfg of Some e \<Rightarrow> (Inl e, s)
      | None \<Rightarrow>
     (case find_client_order (cur s) uid (v_client_order_id v) of
        Some existing \<Rightarrow>
          if order_matches existing ins v then (Inr existing, s)
          else (Inl (trading_error ''IDEMPOTENCY_CONFLICT''), s)
      | None \<Rightarrow>
     (case live_place_guard cfg s uid ins v oq of Some e \<Rightarrow> (Inl e, s)
      | None \<Rightarrow>
     (case dhan_connection w uid s of (Inl e, s1) \<Rightarrow> (Inl e, s1)
      | (Inr (b, credentials, client_id), s1) \<Rightarrow>
          let r = live_order s1 uid ins b v in
          (case commit ((draw s1)\<lparr>cur := add_order r (cur s1)\<rparr>) of
             (Inl e, s2) \<Rightarrow> (Inl e, s2)
           | (Inr _, s2) \<Rightarrow> live_submit w credentials client_id ins r s2)))))"

definition manager_place ::
  "world \<Rightarrow> settings \<Rightarrow> string \<Rightarrow> instrument \<Rightarrow> order_values \<Rightarrow> quote option \<Rightarrow> session
   \<Rightarrow> (exn + trading_order) \<times> session" where
  "manager_place w cfg uid ins v oq s =
     (if trading_mode cfg = ''disabled'' then (Inl (TradingError ''TRADING_DISABLED'' 403), s)
      else if trading_mode cfg = ''paper'' then paper_place cfg uid ins v oq s
      else live_place w cfg uid ins v oq s)"

section \<open>Cancelling\<close>

definition canceled :: "trading_order \<Rightarrow> json \<Rightarrow> session \<Rightarrow> (exn + trading_order) \<times> session" where
  "canceled r response s =
     (case as_dict response of
        Inl e \<Rightarrow> (Inl e, s)
      | Inr fs \<Rightarrow>
          (case map_dhan_status (jor (jfield fs ''orderStatus'') (JStr ''CANCELLED'')) of
             Inl e \<Rightarrow> (Inl e, s)
           | Inr st \<Rightarrow>
               let r' = r\<lparr>o_status := st,
                          o_completed_at := (if st = CANCELED then Some (clock s) else o_completed_at r)\<rparr>
               in commit_return r' (save_order r' s)))"

definition cancel_failed ::
  "order_status \<Rightarrow> trading_order \<Rightarrow> string \<Rightarrow> bool \<Rightarrow> session \<Rightarrow> (exn + trading_order) \<times> session" where
  "cancel_failed prior r code ambiguous s =
     (let r' = r\<lparr>o_status := (if ambiguous then UNKNOWN else prior), o_rejection_reason := Some code\<rparr>
      in commit_raise code (save_order r' s))"

definition live_cancel :: "world \<Rightarrow> settings \<Rightarrow> trading_order \<Rightarrow> session \<Rightarrow> (exn + trading_order) \<times> session"
where
  "live_cancel w cfg r s =
     (case live_gate cfg of Some e \<Rightarrow> (Inl e, s)
      | None \<Rightarrow>
     (case dhan_connection w (o_user_id r) s of (Inl e, s1) \<Rightarrow> (Inl e, s1)
      | (Inr (_, credentials, client_id), s1) \<Rightarrow>
          let r1 = r\<lparr>o_status := CANCEL_PENDING, o_version := o_version r + 1\<rparr> in
          (case commit (save_order r1 s1) of
             (Inl e, s2) \<Rightarrow> (Inl e, s2)
           | (Inr _, s2) \<Rightarrow>
               except_dhan
                 (case dhan_cancel w credentials client_id r1 s2 of
                    (Inl e, s3) \<Rightarrow> (Inl e, s3)
                  | (Inr response, s3) \<Rightarrow> canceled r1 response s3)
                 (cancel_failed (o_status r) r1))))"

definition manager_cancel ::
  "world \<Rightarrow> settings \<Rightarrow> trading_order \<Rightarrow> session \<Rightarrow> (exn + trading_order) \<times> session" where
  "manager_cancel w cfg r s =
     (if o_status r \<notin> open_order_statuses then (Inl (trading_error ''ORDER_NOT_CANCELABLE''), s)
      else if o_mode r = ''PAPER'' then paper_cancel r s
      else live_cancel w cfg r s)"

section \<open>Modifying\<close>

definition modified :: "trading_order \<Rightarrow> json \<Rightarrow> session \<Rightarrow> (exn + trading_order) \<times> session" where
  "modified r response s =
     (case as_dict response of
        Inl e \<Rightarrow> (Inl e, s)
      | Inr fs \<Rightarrow>
          (case map_dhan_status (jfield fs ''orderStatus'') of
             Inl e \<Rightarrow> (Inl e, s)
           | Inr st \<Rightarrow>
               let r' = r\<lparr>o_status := st, o_version := o_version r + 1\<rparr>
               in commit_return r' (save_order r' s)))"

text \<open>The handler puts back the previous quantity and limit price.\<close>

definition modify_failed ::
  "int \<Rightarrow> pyfloat option \<Rightarrow> trading_order \<Rightarrow> string \<Rightarrow> bool \<Rightarrow> session \<Rightarrow> (exn + trading_order) \<times> session"
where
  "modify_failed quantity price r code ambiguous s =
     (let r' = r\<lparr>o_quantity := quantity, o_limit_price := price,
                 o_status := (if ambiguous then UNKNOWN else o_status r), o_rejection_reason := Some code\<rparr>
      in commit_raise code (save_order r' s))"

definition live_modify ::
  "world \<Rightarrow> settings \<Rightarrow> trading_order \<Rightarrow> int \<Rightarrow> pyfloat \<Rightarrow> session \<Rightarrow> (exn + trading_order) \<times> session"
where
  "live_modify w cfg r n price s =
     (case live_gate cfg of Some e \<Rightarrow> (Inl e, s)
      | None \<Rightarrow>
      if o_status r \<notin> open_order_statuses \<or> o_order_type r \<noteq> LIMIT
      then (Inl (trading_error ''ORDER_NOT_MODIFIABLE''), s)
      else if n < max 1 (o_filled_quantity r)
      then (Inl (TradingError ''QUANTITY_BELOW_FILLED'' 422), s)
      else
     (case dhan_connection w (o_user_id r) s of (Inl e, s1) \<Rightarrow> (Inl e, s1)
      | (Inr (_, credentials, client_id), s1) \<Rightarrow>
          let r1 = r\<lparr>o_quantity := n, o_limit_price := Some price\<rparr> in
          except_dhan
            (case dhan_modify w credentials client_id r1 (save_order r1 s1) of
               (Inl e, s2) \<Rightarrow> (Inl e, s2)
             | (Inr response, s2) \<Rightarrow> modified r1 response s2)
            (modify_failed (o_quantity r) (o_limit_price r) r1)))"

definition manager_modify ::
  "world \<Rightarrow> settings \<Rightarrow> trading_order \<Rightarrow> int \<Rightarrow> pyfloat \<Rightarrow> quote option \<Rightarrow> session
   \<Rightarrow> (exn + trading_order) \<times> session" where
  "manager_modify w cfg r n price oq s =
     (if o_mode r = ''PAPER'' then paper_modify cfg r n price oq s
      else live_modify w cfg r n price s)"

end
