(* ===== verification/LiveBooks.thy ===== *)
theory LiveBooks
  imports OrderService
begin

text \<open>
  The order manager keeps every order invariant (\<open>keeps good\<close> for the live operations and so for the
  three entry points), whatever the broker answers.
\<close>

section \<open>Outcomes\<close>

definition outcome :: "(db \<Rightarrow> bool) \<Rightarrow> (exn + 'a) \<times> session \<Rightarrow> bool" where
  "outcome good out \<longleftrightarrow>
     durable good (saved (snd out)) \<and> (fst out \<noteq> Inl IntegrityError \<longrightarrow> good (cur (snd out)))"

lemma keeps_outcome_iff: "keeps good f s \<longleftrightarrow> (good (cur s) \<and> durable good (saved s) \<longrightarrow> outcome good (f s))"
  by (auto simp: keeps_def outcome_def)

lemma outcome_pair: "good (cur s) \<Longrightarrow> durable good (saved s) \<Longrightarrow> outcome good (res, s)"
  by (simp add: outcome_def)

lemma commit_cases:
  obtains (fail) "commit s = (Inl IntegrityError, s)"
  | (ok) "commit s = (Inr (), s\<lparr>cur := flush_all (cur s), saved := flush_all (cur s)\<rparr>)" "constraints (cur s)"
  by (cases "constraints (cur s)") (simp_all add: commit_def flush_def)

lemma commit_raise_not_dhan: "commit_raise code s \<noteq> (Inl (DhanOrderError c a), s')"
  by (cases rule: commit_cases [of s]) (simp_all add: commit_raise_def)

lemma commit_return_not_dhan: "commit_return x s \<noteq> (Inl (DhanOrderError c a), s')"
  by (cases rule: commit_return_cases [of x s]) simp_all

lemma except_dhan_cases:
  obtains (caught) code ambiguous s where "out = (Inl (DhanOrderError code ambiguous), s)"
      "except_dhan out h = h code ambiguous s"
  | (passed) "except_dhan out h = out" "\<And>code ambiguous s. out \<noteq> (Inl (DhanOrderError code ambiguous), s)"
proof (cases "\<exists>code ambiguous s. out = (Inl (DhanOrderError code ambiguous), s)")
  case True
  then show thesis using caught by (auto simp: except_dhan_def)
next
  case False
  then show thesis
    by (intro passed) (auto simp: except_dhan_def split: prod.splits sum.splits exn.splits)
qed

section \<open>Updates of a live order\<close>

text \<open>\<open>r'\<close> is \<open>r\<close> with other columns than its identity and its filled quantity changed.\<close>

definition live_update :: "trading_order \<Rightarrow> trading_order \<Rightarrow> bool" where
  "live_update r r' \<longleftrightarrow>
     o_mode r \<noteq> ''PAPER'' \<and> order_evolves r r' \<and> o_filled_quantity r' = o_filled_quantity r \<and>
     (o_filled_quantity r \<le> o_quantity r \<longrightarrow> o_filled_quantity r' \<le> o_quantity r')"

lemmas live_update_simps = live_update_def order_evolves_def

lemma book_filled_bounds: "book d \<Longrightarrow> r \<in> set (objs (t_orders d)) \<Longrightarrow> o_filled_quantity r \<le> o_quantity r"
  using ledgerD(3) [OF bookD(1), of d r] unfolding order_booked_def by blast

lemma placed_shape:
  assumes "o_mode r \<noteq> ''PAPER''"
  obtains (refused) e where "placed pr r response s = (Inl e, s)" "e = PyError ''AttributeError''"
  | (half) r1 where "live_update r r1" "placed pr r response s = (Inl (PyError ''AttributeError''), save_order r1 s)"
  | (answered) r1 r2 where "live_update r r1" "live_update r1 r2"
      "placed pr r response s = commit_return r2 (save_order r2 (save_order r1 s))"
proof (cases "as_dict response")
  case (Inl e)
  then show thesis
    by (intro refused [of e]) (simp_all add: placed_def attribute_errors)
next
  case (Inr fs)
  let ?r1 = "r\<lparr>o_broker_order_id :=
        (if jtruthy (jfield fs ''orderId'') then Some (jstr pr (jfield fs ''orderId'')) else None)\<rparr>"
  show thesis
  proof (cases "map_dhan_status (jfield fs ''orderStatus'')")
    case (Inl e)
    then have "e = PyError ''AttributeError''" by (rule attribute_errors)
    with Inl Inr assms show thesis
      by (intro half [of ?r1]) (simp_all add: placed_def live_update_simps Let_def)
  next
    case (Inr st)
    let ?r2 = "?r1\<lparr>o_status := st, o_completed_at :=
        (if st \<in> {REJECTED, CANCELED, EXPIRED} then Some (clock (save_order ?r1 s)) else o_completed_at ?r1)\<rparr>"
    show thesis
    proof (rule answered)
      show "live_update r ?r1" "live_update ?r1 ?r2" using assms by (simp_all add: live_update_simps)
      show "placed pr r response s = commit_return ?r2 (save_order ?r2 (save_order ?r1 s))"
        unfolding placed_def \<open>as_dict response = Inr fs\<close> Let_def sum.case Inr by (rule refl)
    qed
  qed
qed

lemma placed_not_dhan:
  assumes "o_mode r \<noteq> ''PAPER''"
  shows "placed pr r response s \<noteq> (Inl (DhanOrderError c a), s')"
  using assms
  by (cases rule: placed_shape [where pr = pr and response = response and s = s])
    (simp_all add: commit_return_not_dhan)

lemma later_not_dhan:
  "canceled r response s \<noteq> (Inl (DhanOrderError c a), s')"
  "modified r response s \<noteq> (Inl (DhanOrderError c a), s')"
  by (auto simp: canceled_def modified_def Let_def commit_return_not_dhan
      split: sum.splits dest: attribute_errors)

section \<open>The operations keep an order invariant\<close>

context order_invariant
begin

lemma outcome_commit_return: "good (cur s) \<Longrightarrow> durable good (saved s) \<Longrightarrow> outcome good (commit_return x s)"
  by (cases rule: commit_return_cases [of x s]) (simp_all add: outcome_def good_flush durable_flush)

lemma outcome_commit_raise: "good (cur s) \<Longrightarrow> durable good (saved s) \<Longrightarrow> outcome good (commit_raise code s)"
  by (cases rule: commit_cases [of s]) (simp_all add: outcome_def commit_raise_def good_flush durable_flush)

lemma good_live_update:
  assumes "good d" "r \<in> set (objs (t_orders d))" "live_update r r'"
  shows "good (put_order r' d)" "r' \<in> set (objs (t_orders (put_order r' d)))"
proof -
  have f: "o_filled_quantity r \<le> o_quantity r" by (rule book_filled_bounds [OF good_book [OF assms(1)] assms(2)])
  show "good (put_order r' d)"
    by (rule good_put [OF assms(1,2)]) (use f assms(3) in \<open>simp_all add: live_update_simps lifecycle_def\<close>)
  show "r' \<in> set (objs (t_orders (put_order r' d)))"
    using assms(2,3) by (auto simp: live_update_simps intro!: in_upd_by_self [where ?r0.0 = r])
qed

lemma dhan_connection_good:
  assumes "dhan_connection w uid s = (res, s1)" "good (cur s)" "durable good (saved s)"
  shows "durable good (saved s1)" "res \<noteq> Inl IntegrityError \<Longrightarrow> good (cur s1)" "res = Inr c \<Longrightarrow> s1 = s"
proof -
  have same: "good (put_connection b d) = good d" for b d
    by (rule good_cong) (simp_all add: put_connection_def)
  show "durable good (saved s1)" "res \<noteq> Inl IntegrityError \<Longrightarrow> good (cur s1)" "res = Inr c \<Longrightarrow> s1 = s"
    using assms same
    by (auto simp: dhan_connection_def Let_def commit_def flush_def good_flush durable_flush
        split: option.splits if_splits sum.splits prod.splits)
qed

lemma outcome_save:
  assumes "good (cur s)" "durable good (saved s)" "r \<in> set (objs (t_orders (cur s)))" "live_update r r'"
  shows "outcome good (commit_return x (save_order r' s))"
    "outcome good (commit_raise code (save_order r' s))"
  using good_live_update(1) [OF assms(1,3,4)] assms(2)
  by (simp_all add: outcome_commit_return outcome_commit_raise)

lemma placed_outcome:
  assumes "good (cur s)" "durable good (saved s)" "r \<in> set (objs (t_orders (cur s)))" "o_mode r \<noteq> ''PAPER''"
  shows "outcome good (placed pr r response s)"
  using assms(4)
proof (cases rule: placed_shape [where pr = pr and response = response and s = s])
  case (half r1)
  then show ?thesis
    using good_live_update(1) [OF assms(1,3) half(1)] assms(2) by (simp add: outcome_pair)
next
  case (answered r1 r2)
  then show ?thesis
    unfolding answered(3) using good_live_update [OF assms(1,3) answered(1)] assms(2)
    by (intro outcome_save [of _ r1]) simp_all
qed (use assms in \<open>auto simp: outcome_pair\<close>)

lemma canceled_outcome:
  assumes "good (cur s)" "durable good (saved s)" "r \<in> set (objs (t_orders (cur s)))" "o_mode r \<noteq> ''PAPER''"
  shows "outcome good (canceled r response s)"
  using assms
  by (auto simp: canceled_def Let_def live_update_simps intro!: outcome_save(1) [of _ r] outcome_pair
      split: sum.splits)

lemma modified_outcome:
  assumes "good (cur s)" "durable good (saved s)" "r \<in> set (objs (t_orders (cur s)))" "o_mode r \<noteq> ''PAPER''"
  shows "outcome good (modified r response s)"
  using assms
  by (auto simp: modified_def Let_def live_update_simps intro!: outcome_save(1) [of _ r] outcome_pair
      split: sum.splits)

text \<open>
  A call and its continuation under \<^verbatim>\<open>except DhanOrderError\<close>: the handler runs on the session the call
  left, in which only the wire has grown.
\<close>

lemma guarded_outcome:
  assumes "calls_once s (snd called)" "good (cur s)" "durable good (saved s)"
    and "\<And>response s1. called = (Inr response, s1) \<Longrightarrow> outcome good (k response s1)"
    and "\<And>response s1 c a s2. k response s1 \<noteq> (Inl (DhanOrderError c a), s2)"
    and "\<And>c a s1. cur s1 = cur s \<Longrightarrow> saved s1 = saved s \<Longrightarrow> outcome good (h c a s1)"
  shows "outcome good (except_dhan (case called of (Inl e, s1) \<Rightarrow> (Inl e, s1) | (Inr response, s1) \<Rightarrow> k response s1) h)"
    (is "outcome good (except_dhan ?out h)")
proof (cases rule: except_dhan_cases [of ?out h])
  case (caught c a s1)
  then have "called = (Inl (DhanOrderError c a), s1)"
    using assms(5) by (auto split: prod.splits sum.splits)
  with assms(1) calls_onceD [of s s1] have "cur s1 = cur s" "saved s1 = saved s" by simp_all
  with caught assms(6) show ?thesis by simp
next
  case passed
  have "outcome good ?out"
  proof (cases called)
    case (Pair res s1)
    with assms(1) calls_onceD [of s s1] have "cur s1 = cur s" "saved s1 = saved s" by simp_all
    with Pair assms show ?thesis by (auto intro!: outcome_pair split: sum.splits)
  qed
  with passed show ?thesis by simp
qed

section \<open>The operations of the manager\<close>

lemma live_submit_outcome:
  assumes "good (cur s)" "durable good (saved s)" "r \<in> set (objs (t_orders (cur s)))" "o_mode r \<noteq> ''PAPER''"
  shows "outcome good (live_submit w credentials client_id ins r s)"
  unfolding live_submit_def
proof (rule guarded_outcome)
  show "calls_once s (snd (dhan_place w credentials client_id ins r s))"
    by (rule adapter_once(1)) (rule surjective_pairing)
  fix response s1 assume called: "dhan_place w credentials client_id ins r s = (Inr response, s1)"
  note once = calls_onceD [OF adapter_once(1) [OF called]]
  show "outcome good (placed (w_repr w) r response s1)"
    using assms once by (intro placed_outcome) simp_all
next
  fix c a and s1 :: session assume "cur s1 = cur s" "saved s1 = saved s"
  then show "outcome good (place_failed r c a s1)"
    using assms unfolding place_failed_def Let_def
    by (intro outcome_save(2) [of _ r]) (simp_all add: live_update_simps)
qed (use assms in \<open>simp_all add: placed_not_dhan\<close>)

lemma keeps_live_place:
  assumes "0 < v_quantity v"
  shows "keeps good (live_place w cfg uid ins v oq) s"
  unfolding keeps_outcome_iff
proof
  assume b: "good (cur s) \<and> durable good (saved s)"
  have submit: "outcome good (case commit ((draw s)\<lparr>cur := add_order r (cur s)\<rparr>) of
        (Inl e, s2) \<Rightarrow> (Inl e, s2) | (Inr _, s2) \<Rightarrow> live_submit w credentials client_id ins r s2)"
    if "r = live_order s uid ins bc v" for credentials client_id r bc
  proof -
    let ?s = "(draw s)\<lparr>cur := add_order r (cur s)\<rparr>"
    have r: "o_filled_quantity r = 0" "0 \<le> o_quantity r" "lifecycle r" "o_mode r \<noteq> ''PAPER''"
      using that assms by (simp_all add: live_order_def lifecycle_def)
    show ?thesis
    proof (cases rule: commit_cases [of ?s])
      case fail
      with b show ?thesis by (simp add: outcome_def)
    next
      case ok
      then show ?thesis
        using b good_add [of "cur s" r] r
        by (auto intro!: live_submit_outcome simp: good_flush durable_flush)
    qed
  qed
  show "outcome good (live_place w cfg uid ins v oq s)"
  proof (cases "dhan_connection w uid s")
    case (Pair res s1)
    note conn = dhan_connection_good [OF Pair conjunct1 [OF b] conjunct2 [OF b]]
    show ?thesis
      unfolding live_place_def Pair
      using b conn submit [OF refl]
      by (auto simp: Let_def outcome_def split: option.splits sum.splits)
  qed
qed

lemma keeps_live_cancel:
  assumes "r \<in> set (objs (t_orders (cur s)))" "o_mode r \<noteq> ''PAPER''"
  shows "keeps good (live_cancel w cfg r) s"
  unfolding keeps_outcome_iff
proof
  assume b: "good (cur s) \<and> durable good (saved s)"
  define r1 where "r1 = r\<lparr>o_status := CANCEL_PENDING, o_version := o_version r + 1\<rparr>"
  have b1: "good (put_order r1 (cur s))" "r1 \<in> set (objs (t_orders (put_order r1 (cur s))))" "o_mode r1 \<noteq> ''PAPER''"
    using good_live_update [OF conjunct1 [OF b] assms(1), of r1] assms(2) by (simp_all add: r1_def live_update_simps)
  have sent: "outcome good (except_dhan
        (case dhan_cancel w credentials client_id r1 s2 of
           (Inl e, s3) \<Rightarrow> (Inl e, s3) | (Inr response, s3) \<Rightarrow> canceled r1 response s3)
        (cancel_failed (o_status r) r1))"
    if "good (cur s2)" "durable good (saved s2)" "r1 \<in> set (objs (t_orders (cur s2)))" for s2 credentials client_id
  proof (rule guarded_outcome)
    show "calls_once s2 (snd (dhan_cancel w credentials client_id r1 s2))"
      by (rule adapter_once(3)) (rule surjective_pairing)
    fix response s3 assume called: "dhan_cancel w credentials client_id r1 s2 = (Inr response, s3)"
    show "outcome good (canceled r1 response s3)"
      using that b1(3) calls_onceD [OF adapter_once(3) [OF called]] by (intro canceled_outcome) simp_all
  next
    fix c a and s3 :: session assume "cur s3 = cur s2" "saved s3 = saved s2"
    then show "outcome good (cancel_failed (o_status r) r1 c a s3)"
      using that b1(3) unfolding cancel_failed_def Let_def
      by (intro outcome_save(2) [of _ r1]) (simp_all add: live_update_simps)
  qed (use that in \<open>simp_all add: later_not_dhan\<close>)
  show "outcome good (live_cancel w cfg r s)"
  proof (cases "dhan_connection w (o_user_id r) s")
    case (Pair res s1)
    note conn = dhan_connection_good [OF Pair conjunct1 [OF b] conjunct2 [OF b]]
    have committed: "outcome good (case commit (save_order r1 s) of
          (Inl e, s2) \<Rightarrow> (Inl e, s2)
        | (Inr _, s2) \<Rightarrow> except_dhan
            (case dhan_cancel w credentials client_id r1 s2 of
               (Inl e, s3) \<Rightarrow> (Inl e, s3) | (Inr response, s3) \<Rightarrow> canceled r1 response s3)
            (cancel_failed (o_status r) r1))" for credentials client_id
      by (cases rule: commit_cases [of "save_order r1 s"])
        (use b b1 sent in \<open>auto simp: outcome_pair good_flush durable_flush\<close>)
    show ?thesis
      unfolding live_cancel_def Pair r1_def [symmetric]
      using b conn committed
      by (auto simp: Let_def outcome_def r1_def [symmetric] split: option.splits sum.splits)
  qed
qed

lemma keeps_live_modify:
  assumes "r \<in> set (objs (t_orders (cur s)))" "o_mode r \<noteq> ''PAPER''"
  shows "keeps good (live_modify w cfg r n price) s"
  unfolding keeps_outcome_iff
proof
  assume b: "good (cur s) \<and> durable good (saved s)"
  define r1 where "r1 = r\<lparr>o_quantity := n, o_limit_price := Some price\<rparr>"
  have sent: "outcome good (except_dhan
        (case dhan_modify w credentials client_id r1 (save_order r1 s) of
           (Inl e, s2) \<Rightarrow> (Inl e, s2) | (Inr response, s2) \<Rightarrow> modified r1 response s2)
        (modify_failed (o_quantity r) (o_limit_price r) r1))"
    if "\<not> n < max 1 (o_filled_quantity r)" for credentials client_id
  proof -
    have n: "o_filled_quantity r \<le> n" using that by simp
    have b1: "good (put_order r1 (cur s))" "r1 \<in> set (objs (t_orders (put_order r1 (cur s))))" "o_mode r1 \<noteq> ''PAPER''"
      using good_live_update [OF conjunct1 [OF b] assms(1), of r1] assms(2) n
      by (simp_all add: r1_def live_update_simps)
    have restored: "live_update r1 (r1\<lparr>o_quantity := o_quantity r, o_limit_price := o_limit_price r,
        o_status := st, o_rejection_reason := rr\<rparr>)" for st rr
      using book_filled_bounds [OF good_book [OF conjunct1 [OF b]] assms(1)] assms(2) by (simp add: r1_def live_update_simps)
    show ?thesis
    proof (rule guarded_outcome)
      show "calls_once (save_order r1 s) (snd (dhan_modify w credentials client_id r1 (save_order r1 s)))"
        by (rule adapter_once(2)) (rule surjective_pairing)
      fix response s2 assume called: "dhan_modify w credentials client_id r1 (save_order r1 s) = (Inr response, s2)"
      show "outcome good (modified r1 response s2)"
        using b b1 calls_onceD [OF adapter_once(2) [OF called]] by (intro modified_outcome) simp_all
    next
      fix c a and s2 :: session assume "cur s2 = cur (save_order r1 s)" "saved s2 = saved (save_order r1 s)"
      then show "outcome good (modify_failed (o_quantity r) (o_limit_price r) r1 c a s2)"
        using b b1 restored unfolding modify_failed_def Let_def
        by (intro outcome_save(2) [of _ r1]) simp_all
    qed (use b b1 in \<open>simp_all add: later_not_dhan\<close>)
  qed
  show "outcome good (live_modify w cfg r n price s)"
  proof (cases "dhan_connection w (o_user_id r) s")
    case (Pair res s1)
    note conn = dhan_connection_good [OF Pair conjunct1 [OF b] conjunct2 [OF b]]
    show ?thesis
      unfolding live_modify_def Pair
      using b conn sent [unfolded r1_def]
      by (auto simp: Let_def outcome_def split: option.splits sum.splits)
  qed
qed

lemma keeps_manager:
  "0 < v_quantity v \<Longrightarrow> keeps good (manager_place w cfg uid ins v oq) s"
  "r \<in> set (objs (t_orders (cur s))) \<Longrightarrow> keeps good (manager_cancel w cfg r) s"
  "r \<in> set (objs (t_orders (cur s))) \<Longrightarrow> keeps good (manager_modify w cfg r n price oq) s"
proof -
  show "0 < v_quantity v \<Longrightarrow> keeps good (manager_place w cfg uid ins v oq) s"
    using keeps_paper_place [of v cfg uid ins oq s] keeps_live_place [of v w cfg uid ins oq s]
    by (simp add: manager_place_def keeps_def)
  show "r \<in> set (objs (t_orders (cur s))) \<Longrightarrow> keeps good (manager_cancel w cfg r) s"
    using keeps_paper_cancel [of r s] keeps_live_cancel [of r s w cfg]
    by (simp add: manager_cancel_def keeps_def)
  show "r \<in> set (objs (t_orders (cur s))) \<Longrightarrow> keeps good (manager_modify w cfg r n price oq) s"
    using keeps_paper_modify [of r s cfg n price oq] keeps_live_modify [of r s w cfg n price]
    by (simp add: manager_modify_def keeps_def)
qed


end

end
