(* ===== verification/PyNumbers.thy ===== *)
theory PyNumbers
  imports Models
begin

text \<open>
  \<^verbatim>\<open>int(v)\<close> and \<^verbatim>\<open>float(v)\<close> of a JSON value, as the reconciler applies them to the broker's trades:
  numbers are converted, a string is parsed (white space around it, one sign, underscores between
  digits; for \<^verbatim>\<open>float\<close> a decimal point and an exponent), a list or dict is a \<^verbatim>\<open>TypeError\<close>.  The texts
  \<^verbatim>\<open>nan\<close> and \<^verbatim>\<open>inf\<close> denote no number of this model and count as unparsable.
\<close>

definition digit_value :: "char \<Rightarrow> int" where
  "digit_value c = int (code_of c) - 48"

text \<open>One digit, or a digit and single underscores before further digits.\<close>

fun read_digits :: "int \<Rightarrow> string \<Rightarrow> int option" where
  "read_digits acc [] = None"
| "read_digits acc [c] = (if is_digit_char c then Some (10 * acc + digit_value c) else None)"
| "read_digits acc (c # d # cs) =
     (if is_digit_char c
      then read_digits (10 * acc + digit_value c) (if d = CHR ''_'' then cs else d # cs)
      else None)"

definition signed :: "('a::uminus) option \<Rightarrow> char \<Rightarrow> 'a option" where
  "signed v c = (if c = CHR ''-'' then map_option uminus v else v)"

definition read_signed :: "(string \<Rightarrow> ('a::uminus) option) \<Rightarrow> string \<Rightarrow> 'a option" where
  "read_signed rd t =
     (case t of
        [] \<Rightarrow> rd []
      | c # cs \<Rightarrow> if c = CHR ''-'' \<or> c = CHR ''+'' then signed (rd cs) c else rd t)"

definition int_of_text :: "string \<Rightarrow> int option" where
  "int_of_text t = read_signed (read_digits 0) (py_strip t)"

definition read_mantissa :: "string \<Rightarrow> rat option" where
  "read_mantissa t =
     (let whole = takeWhile (\<lambda>c. c \<noteq> CHR ''.'') t; rest = drop (length whole) t in
      case rest of
        [] \<Rightarrow> map_option of_int (read_digits 0 whole)
      | _ # fr \<Rightarrow>
          if whole = [] \<and> fr = [] then None
          else (case (if whole = [] then Some 0 else read_digits 0 whole,
                      if fr = [] then Some 0 else read_digits 0 fr) of
                  (Some a, Some b) \<Rightarrow>
                    Some (of_int a + of_int b / 10 ^ length (filter is_digit_char fr))
                | _ \<Rightarrow> None))"

definition read_decimal :: "string \<Rightarrow> rat option" where
  "read_decimal t =
     (let mantissa = takeWhile (\<lambda>c. c \<noteq> CHR ''e'' \<and> c \<noteq> CHR ''E'') t;
          rest = drop (length mantissa) t;
          exponent = (case rest of [] \<Rightarrow> Some 0 | _ # ex \<Rightarrow> read_signed (read_digits 0) ex)
      in case (read_mantissa mantissa, exponent) of
           (Some m, Some e) \<Rightarrow> Some (m * power_int 10 e)
         | _ \<Rightarrow> None)"

definition float_of_text :: "string \<Rightarrow> pyfloat option" where
  "float_of_text t = map_option fl (read_signed read_decimal (py_strip t))"

definition truncate_rat :: "rat \<Rightarrow> int" where
  "truncate_rat x = (if x < 0 then - \<lfloor>- x\<rfloor> else \<lfloor>x\<rfloor>)"

definition or_value_error :: "'a option \<Rightarrow> exn + 'a" where
  "or_value_error v = (case v of None \<Rightarrow> Inl (PyError ''ValueError'') | Some x \<Rightarrow> Inr x)"

fun py_int :: "json \<Rightarrow> exn + int" where
  "py_int (JInt n) = Inr n"
| "py_int (JBool b) = Inr (if b then 1 else 0)"
| "py_int (JFloat x) = Inr (truncate_rat x)"
| "py_int (JStr t) = or_value_error (int_of_text t)"
| "py_int _ = Inl (PyError ''TypeError'')"

fun py_float :: "json \<Rightarrow> exn + pyfloat" where
  "py_float (JInt n) = Inr (float_of_int n)"
| "py_float (JBool b) = Inr (if b then 1 else 0)"
| "py_float (JFloat x) = Inr x"
| "py_float (JStr t) = or_value_error (float_of_text t)"
| "py_float _ = Inl (PyError ''TypeError'')"

lemma number_examples:
  "int_of_text '' -1_024 '' = Some (- 1024)" "int_of_text ''1__0'' = None" "int_of_text ''12.5'' = None"
  "float_of_text ''12.5'' = Some (25 / 2)" "float_of_text ''.5e1'' = Some 5" "float_of_text ''.'' = None"
  "float_of_text ''1e-2'' = Some (fl (1 / 100))"
  by code_simp+

section \<open>A printed integer parses back\<close>

lemma digit_not_underscore: "is_digit_char c \<Longrightarrow> c \<noteq> CHR ''_''"
  by (auto simp: is_digit_char_def code_of_def)

lemma digit_char:
  assumes "n < 10"
  shows "is_digit_char (char_of (48 + n))" "digit_value (char_of (48 + n)) = int n"
  using assms by (simp_all add: is_digit_char_def digit_value_def code_of_def)

lemma read_digits_snoc:
  assumes "ds \<noteq> []" "\<forall>c \<in> set ds. is_digit_char c" "is_digit_char c"
  shows "read_digits acc (ds @ [c]) = map_option (\<lambda>a. 10 * a + digit_value c) (read_digits acc ds)"
  using assms
proof (induction acc ds rule: read_digits.induct)
  case (3 acc x y cs)
  then show ?case using digit_not_underscore [of y] by simp
qed (use assms digit_not_underscore [of c] in simp_all)

lemma read_digits_of_nat:
  "read_digits 0 (digits_of_nat n) = Some (int n) \<and> digits_of_nat n \<noteq> [] \<and>
   (\<forall>c \<in> set (digits_of_nat n). is_digit_char c)"
proof (induction n rule: digits_of_nat.induct)
  case (1 n)
  show ?case
  proof (cases "n < 10")
    case True
    with digit_char [OF this] show ?thesis by (simp add: digits_of_nat.simps [of n])
  next
    case False
    have d: "n mod 10 < 10" by simp
    have sum: "10 * int (n div 10) + int (n mod 10) = int n" by presburger
    show ?thesis
      using 1 [OF False] digit_char [OF d] False sum
      by (simp add: digits_of_nat.simps [of n] read_digits_snoc)
  qed
qed

lemma dropWhile_none: "\<forall>c \<in> set xs. \<not> P c \<Longrightarrow> dropWhile P xs = xs"
  by (cases xs) auto

lemma strip_digits: "\<forall>c \<in> set ds. \<not> is_space_char c \<Longrightarrow> py_strip ds = ds"
  by (simp add: py_strip_def dropWhile_none)

lemma int_of_text_str_of_int: "int_of_text (str_of_int n) = Some n"
proof -
  have no_space: "\<forall>c \<in> set (digits_of_nat m). \<not> is_space_char c" for m
    using read_digits_of_nat [of m] by (auto simp: is_digit_char_def is_space_char_def)
  obtain c cs where ds: "digits_of_nat (nat \<bar>n\<bar>) = c # cs"
    using read_digits_of_nat [of "nat \<bar>n\<bar>"] by (cases "digits_of_nat (nat \<bar>n\<bar>)") auto
  have sign: "c \<noteq> CHR ''-''" "c \<noteq> CHR ''+''"
    using read_digits_of_nat [of "nat \<bar>n\<bar>"] ds by (auto simp: is_digit_char_def code_of_def)
  have minus: "\<not> is_space_char (CHR ''-'')" by (simp add: is_space_char_def code_of_def)
  show ?thesis
  proof (cases "n < 0")
    case True
    then show ?thesis
      using read_digits_of_nat [of "nat (- n)"] no_space [of "nat (- n)"] minus
      by (simp add: int_of_text_def str_of_int_def strip_digits read_signed_def signed_def)
  next
    case False
    then show ?thesis
      using read_digits_of_nat [of "nat n"] no_space [of "nat n"] ds sign
      by (simp add: int_of_text_def str_of_int_def strip_digits read_signed_def)
  qed
qed

end
