(* ===== verification/Reconcile.thy ===== *)
theory Reconcile
  imports LiveBooks PyNumbers
begin

text \<open>
  \<^verbatim>\<open>trading/reconcile.py\<close>: the worker that brings live orders into line with the broker's order book
  and trade book.  Links orders to broker ids, books the trades through \<^verbatim>\<open>apply_execution\<close>, then takes
  over the broker's status; an order the broker calls traded whose fills do not add up is \<open>UNKNOWN\<close>.

  The dicts \<^verbatim>\<open>by_broker\<close> and \<^verbatim>\<open>by_correlation\<close> hold references to the order objects of the session; here
  they map to order ids, and \<open>order_object\<close> reads the object behind an id.
\<close>

definition terminal_statuses :: "order_status set" where
  "terminal_statuses = {FILLED, CANCELED, REJECTED, EXPIRED}"

text \<open>
  \<^verbatim>\<open>_trade_time\<close>: a text without offset is Indian time, UTC+05:30.
\<close>

definition india_offset :: int where
  "india_offset = 19800 * 1000000"

definition replace_z :: "string \<Rightarrow> string" where
  "replace_z t = concat (map (\<lambda>c. if c = CHR ''Z'' then ''+00:00'' else [c]) t)"

definition trade_time :: "world \<Rightarrow> instant \<Rightarrow> json \<Rightarrow> instant" where
  "trade_time w now value =
     (if \<not> jtruthy value then now
      else case w_isoformat w (replace_z (jstr (w_repr w) value)) of
        None \<Rightarrow> now
      | Some (wall, offset) \<Rightarrow> wall - or_else offset india_offset)"

definition order_object :: "db \<Rightarrow> string \<Rightarrow> trading_order option" where
  "order_object d oid = List.find (\<lambda>r. o_id r = oid) (objs (t_orders d))"

definition local_orders :: "db \<Rightarrow> string \<Rightarrow> trading_order list" where
  "local_orders d uid =
     filter (\<lambda>r. o_user_id r = uid \<and> o_mode r = ''LIVE'' \<and> o_status r \<in> open_order_statuses)
       (rows (t_orders d))"

text \<open>The dict comprehensions: a later order replaces an earlier one with the same key.\<close>

definition by_broker :: "trading_order list \<Rightarrow> (string \<rightharpoonup> string)" where
  "by_broker rs =
     foldl (\<lambda>m r. case o_broker_order_id r of
              None \<Rightarrow> m | Some b \<Rightarrow> if b = [] then m else m(b \<mapsto> o_id r)) Map.empty rs"

definition by_correlation :: "trading_order list \<Rightarrow> (string \<rightharpoonup> string)" where
  "by_correlation rs = foldl (\<lambda>m r. m(o_client_order_id r \<mapsto> o_id r)) Map.empty rs"

text \<open>\<^verbatim>\<open>str(item.get(name) or "")\<close>.\<close>

definition text_field :: "(json \<Rightarrow> string) \<Rightarrow> (string \<times> json) list \<Rightarrow> string \<Rightarrow> string" where
  "text_field pr fs name = jstr pr (jor (jfield fs name) (JStr []))"

definition match_order ::
  "(json \<Rightarrow> string) \<Rightarrow> (string \<rightharpoonup> string) \<Rightarrow> (string \<rightharpoonup> string) \<Rightarrow> (string \<times> json) list \<Rightarrow> string option"
where
  "match_order pr byb byc fs =
     (case byb (text_field pr fs ''orderId'') of
        Some oid \<Rightarrow> Some oid
      | None \<Rightarrow> byc (text_field pr fs ''correlationId''))"

section \<open>The three passes\<close>

definition falsy_text :: "string option \<Rightarrow> bool" where
  "falsy_text t \<longleftrightarrow> t = None \<or> t = Some []"

fun link_orders ::
  "(json \<Rightarrow> string) \<Rightarrow> (string \<rightharpoonup> string) \<Rightarrow> json list \<Rightarrow> db \<Rightarrow> (string \<rightharpoonup> string)
   \<Rightarrow> exn + (db \<times> (string \<rightharpoonup> string))" where
  "link_orders pr byc [] d byb = Inr (d, byb)"
| "link_orders pr byc (item # items) d byb =
     (case as_dict item of
        Inl e \<Rightarrow> Inl e
      | Inr fs \<Rightarrow>
          let broker_id = text_field pr fs ''orderId'' in
          (case Option.bind (match_order pr byb byc fs) (order_object d) of
             None \<Rightarrow> link_orders pr byc items d byb
           | Some r \<Rightarrow>
               if broker_id \<noteq> [] \<and> falsy_text (o_broker_order_id r)
               then link_orders pr byc items (put_order (r\<lparr>o_broker_order_id := Some broker_id\<rparr>) d)
                      (byb(broker_id \<mapsto> o_id r))
               else link_orders pr byc items d byb))"

text \<open>One trade: \<^verbatim>\<open>apply_execution\<close> under \<^verbatim>\<open>except TradingError\<close>.\<close>

definition book_trade ::
  "instant \<Rightarrow> trading_order \<Rightarrow> int \<Rightarrow> pyfloat \<Rightarrow> string \<Rightarrow> instant \<Rightarrow> db \<Rightarrow> exn + db" where
  "book_trade now r n price execution_id tm d =
     (case apply_execution now d r n price ''DHAN_RECONCILIATION'' (Some execution_id) (Some tm) of
        Inr (_, _, d') \<Rightarrow> Inr d'
      | Inl (TradingError code status) \<Rightarrow>
          Inr (put_order (r\<lparr>o_status := UNKNOWN, o_rejection_reason := Some (''RECONCILIATION_'' @ code)\<rparr>) d)
      | Inl e \<Rightarrow> Inl e)"

fun book_trades ::
  "world \<Rightarrow> instant \<Rightarrow> (string \<rightharpoonup> string) \<Rightarrow> json list \<Rightarrow> db \<Rightarrow> exn + db" where
  "book_trades w now byb [] d = Inr d"
| "book_trades w now byb (item # items) d =
     (case as_dict item of
        Inl e \<Rightarrow> Inl e
      | Inr fs \<Rightarrow>
          let execution_id = text_field (w_repr w) fs ''exchangeTradeId'' in
          (case Option.bind (byb (text_field (w_repr w) fs ''orderId'')) (order_object d) of
             None \<Rightarrow> book_trades w now byb items d
           | Some r \<Rightarrow>
               if execution_id = [] then book_trades w now byb items d
               else
               (case py_int (jor (jfield fs ''tradedQuantity'') (JInt 0)) of
                  Inl e \<Rightarrow> Inl e
                | Inr n \<Rightarrow>
               (case py_float (jor (jfield fs ''tradedPrice'') (JInt 0)) of
                  Inl e \<Rightarrow> Inl e
                | Inr price \<Rightarrow>
               (case book_trade now r n price execution_id
                       (trade_time w now (jfield fs ''exchangeTime'')) d of
                  Inl e \<Rightarrow> Inl e
                | Inr d' \<Rightarrow> book_trades w now byb items d')))))"

text \<open>The broker's view of one order, written to the row.\<close>

definition take_status ::
  "(json \<Rightarrow> string) \<Rightarrow> instant \<Rightarrow> (string \<times> json) list \<Rightarrow> order_status \<Rightarrow> trading_order \<Rightarrow> trading_order"
where
  "take_status pr now fs st r =
     (if st = FILLED \<and> o_filled_quantity r \<noteq> o_quantity r
      then r\<lparr>o_status := UNKNOWN, o_rejection_reason := Some ''TRADE_BOOK_INCOMPLETE''\<rparr>
      else
        let reason = jor (jfield fs ''omsErrorDescription'') (jfield fs ''orderStatusDescription'')
        in r\<lparr>o_status := st,
             o_rejection_reason := (if st = REJECTED \<and> jtruthy reason then Some (take 120 (jstr pr reason))
                                    else o_rejection_reason r),
             o_completed_at := (if st \<in> terminal_statuses then Some (or_else (o_completed_at r) now)
                                else o_completed_at r)\<rparr>)"

fun take_statuses ::
  "(json \<Rightarrow> string) \<Rightarrow> instant \<Rightarrow> (string \<rightharpoonup> string) \<Rightarrow> (string \<rightharpoonup> string) \<Rightarrow> json list \<Rightarrow> db \<Rightarrow> exn + db"
where
  "take_statuses pr now byb byc [] d = Inr d"
| "take_statuses pr now byb byc (item # items) d =
     (case as_dict item of
        Inl e \<Rightarrow> Inl e
      | Inr fs \<Rightarrow>
          (case Option.bind (match_order pr byb byc fs) (order_object d) of
             None \<Rightarrow> take_statuses pr now byb byc items d
           | Some r \<Rightarrow>
               (case map_dhan_status (jfield fs ''orderStatus'') of
                  Inl e \<Rightarrow> Inl e
                | Inr st \<Rightarrow>
                    take_statuses pr now byb byc items (put_order (take_status pr now fs st r) d))))"

definition reconcile_apply ::
  "world \<Rightarrow> instant \<Rightarrow> string \<Rightarrow> json list \<Rightarrow> json list \<Rightarrow> db \<Rightarrow> exn + db" where
  "reconcile_apply w now uid broker_orders trades d =
     (let locals = local_orders d uid; byc = by_correlation locals in
      case link_orders (w_repr w) byc broker_orders d (by_broker locals) of
        Inl e \<Rightarrow> Inl e
      | Inr (d1, byb) \<Rightarrow>
          (case book_trades w now byb trades d1 of
             Inl e \<Rightarrow> Inl e
           | Inr d2 \<Rightarrow> take_statuses (w_repr w) now byb byc broker_orders d2))"

section \<open>One round of the worker\<close>

text \<open>
  Both books are requested together (\<^verbatim>\<open>asyncio.gather\<close>): both requests are sent, and either failure
  ends the round of this connection.
\<close>

definition fetch_books ::
  "world \<Rightarrow> (string \<times> json) list \<Rightarrow> string \<Rightarrow> session \<Rightarrow> (exn + (json list \<times> json list)) \<times> session" where
  "fetch_books w credentials client_id s =
     (case order_book w credentials client_id s of
        (orders, s1) \<Rightarrow>
          (case trade_book w credentials client_id s1 of
             (trades, s2) \<Rightarrow>
               (case (orders, trades) of
                  (Inl e, _) \<Rightarrow> (Inl e, s2)
                | (Inr _, Inl e) \<Rightarrow> (Inl e, s2)
                | (Inr os, Inr ts) \<Rightarrow> (Inr (os, ts), s2))))"

text \<open>
  The body of the loop over the connections; \<^verbatim>\<open>continue\<close> on incomplete credentials, a rollback on every
  exception.
\<close>

definition reconcile_connection ::
  "world \<Rightarrow> broker_connection \<Rightarrow> session \<Rightarrow> session" where
  "reconcile_connection w b s =
     (case w_decrypt w (b_encrypted_credentials b) of
        Inl e \<Rightarrow> rollback s
      | Inr credentials \<Rightarrow>
          let client_id = jstr (w_repr w)
                (jor (jor (jfield credentials ''client_id'') (text_or_null (b_broker_client_id b))) (JStr []))
          in if client_id = [] \<or> \<not> jtruthy (jfield credentials ''access_token'') then s
             else
               (case fetch_books w credentials client_id s of
                  (Inl e, s1) \<Rightarrow> rollback s1
                | (Inr (broker_orders, trades), s1) \<Rightarrow>
                    (case reconcile_apply w (clock s1) (b_user_id b) broker_orders trades (cur s1) of
                       Inl e \<Rightarrow> rollback s1
                     | Inr d \<Rightarrow>
                         (case commit (s1\<lparr>cur := d\<rparr>) of
                            (Inl e, s2) \<Rightarrow> rollback s2
                          | (Inr _, s2) \<Rightarrow> s2))))"

definition reconcile_once :: "world \<Rightarrow> session \<Rightarrow> session" where
  "reconcile_once w s =
     foldl (\<lambda>s b. reconcile_connection w b s) s
       (filter (\<lambda>b. b_broker b = DHAN \<and> b_status b = CONNECTED) (rows (t_connections (cur s))))"

text \<open>\<^verbatim>\<open>run\<close>: a round is worked only in live mode.\<close>

definition reconcile_tick ::
  "world \<Rightarrow> settings \<Rightarrow> session \<Rightarrow> session" where
  "reconcile_tick w cfg s = (if trading_mode cfg = ''live'' then reconcile_once w s else s)"

end
