(* ===== verification/ReconcileBooks.thy ===== *)
theory ReconcileBooks
  imports Reconcile
begin

text \<open>
  A round of reconciliation keeps every order invariant, and takes over \<open>FILLED\<close> only for orders whose booked
  executions add up to the quantity.
\<close>

lemma order_objectD: "order_object d oid = Some r \<Longrightarrow> r \<in> set (objs (t_orders d)) \<and> o_id r = oid"
  unfolding order_object_def by (rule find_SomeD)

text \<open>The dicts refer to live orders.\<close>

definition live_refs :: "(string \<rightharpoonup> string) \<Rightarrow> db \<Rightarrow> bool" where
  "live_refs m d \<longleftrightarrow> (\<forall>k oid r. m k = Some oid \<longrightarrow> order_object d oid = Some r \<longrightarrow> o_mode r \<noteq> ''PAPER'')"

lemma live_refsD: "live_refs m d \<Longrightarrow> m k = Some oid \<Longrightarrow> order_object d oid = Some r \<Longrightarrow> o_mode r \<noteq> ''PAPER''"
  by (auto simp: live_refs_def)

lemma live_refs_put:
  assumes "live_refs m d" "t_orders d' = put_row o_id r' (t_orders d)"
    and "order_object d (o_id r') = Some r" "o_mode r' = o_mode r"
  shows "live_refs m d'"
proof -
  have "order_object d' oid = map_option (\<lambda>x. if o_id x = o_id r' then r' else x) (order_object d oid)" for oid
    unfolding order_object_def assms(2) by (simp add: find_upd_by)
  then show ?thesis
    using assms(1,3,4) order_objectD by (force simp: live_refs_def split: if_splits)
qed

lemma live_refs_cong: "t_orders d' = t_orders d \<Longrightarrow> live_refs m d' = live_refs m d"
  by (simp add: live_refs_def order_object_def)

lemma live_refs_upd: "live_refs m d \<Longrightarrow> order_object d oid = Some r \<Longrightarrow> o_mode r \<noteq> ''PAPER'' \<Longrightarrow> live_refs (m(k \<mapsto> oid)) d"
  by (auto simp: live_refs_def)

lemma live_refs_foldl:
  assumes "\<And>m r. r \<in> set rs \<Longrightarrow> live_refs m d \<Longrightarrow> live_refs (f m r) d" "live_refs m d"
  shows "live_refs (foldl f m rs) d"
  using assms by (induction rs arbitrary: m) auto

lemma live_refs_locals:
  assumes "book d"
  shows "live_refs (by_broker (local_orders d uid)) d" "live_refs (by_correlation (local_orders d uid)) d"
proof -
  have mode: "o_mode x \<noteq> ''PAPER''" if "r \<in> set (local_orders d uid)" "order_object d (o_id r) = Some x" for r x
  proof -
    have "r \<in> set (objs (t_orders d))" "o_mode r = ''LIVE''"
      using that(1) by (auto simp: local_orders_def objs_def)
    moreover from this order_objectD [OF that(2)] have "x = r"
      using distinct_map_eqD [OF ledgerD(1) [OF bookD(1) [OF assms]]] by blast
    ultimately show ?thesis by simp
  qed
  have empty: "live_refs Map.empty d" by (simp add: live_refs_def)
  have upd: "live_refs (m(k \<mapsto> o_id r)) d" if "r \<in> set (local_orders d uid)" "live_refs m d" for m k r
    using that mode by (auto simp: live_refs_def)
  show "live_refs (by_broker (local_orders d uid)) d" "live_refs (by_correlation (local_orders d uid)) d"
    unfolding by_broker_def by_correlation_def
    using upd by (auto intro!: live_refs_foldl empty split: option.split)
qed

lemma bound_order_live:
  assumes "Option.bind (m k) (order_object d) = Some r" "live_refs m d"
  shows "o_mode r \<noteq> ''PAPER''" "order_object d (o_id r) = Some r"
proof -
  obtain oid where oid: "m k = Some oid" "order_object d oid = Some r"
    using assms(1) by (auto simp: bind_eq_Some_conv)
  then show "o_mode r \<noteq> ''PAPER''" using live_refsD [OF assms(2)] by blast
  show "order_object d (o_id r) = Some r" using oid(2) order_objectD [OF oid(2)] by simp
qed

lemma match_order_live:
  assumes "Option.bind (match_order pr byb byc fs) (order_object d) = Some r"
    and "live_refs byb d" "live_refs byc d"
  shows "o_mode r \<noteq> ''PAPER'' \<and> order_object d (o_id r) = Some r"
proof (cases "byb (text_field pr fs ''orderId'')")
  case None
  then have "Option.bind (byc (text_field pr fs ''correlationId'')) (order_object d) = Some r"
    using assms(1) by (simp add: match_order_def)
  from bound_order_live [where m = byc, OF this assms(3)] show ?thesis by simp
next
  case (Some oid)
  then have "Option.bind (byb (text_field pr fs ''orderId'')) (order_object d) = Some r"
    using assms(1) by (simp add: match_order_def)
  from bound_order_live [where m = byb, OF this assms(2)] show ?thesis by simp
qed

text \<open>
  The state of the passes: the database is good and both dicts refer to live orders; of a session: what
  is durable and what is worked on are good.
\<close>

definition pass_ok :: "(db \<Rightarrow> bool) \<Rightarrow> (string \<rightharpoonup> string) \<Rightarrow> (string \<rightharpoonup> string) \<Rightarrow> db \<Rightarrow> bool" where
  "pass_ok good byb byc d \<longleftrightarrow> good d \<and> live_refs byb d \<and> live_refs byc d"

definition session_ok :: "(db \<Rightarrow> bool) \<Rightarrow> session \<Rightarrow> bool" where
  "session_ok good s \<longleftrightarrow> good (cur s) \<and> durable good (saved s)"

lemma session_ok_rollback: "durable good (saved s) \<Longrightarrow> session_ok good (rollback s)"
  by (simp add: session_ok_def durable_def)

lemma live_update_take_status: "o_mode r \<noteq> ''PAPER'' \<Longrightarrow> live_update r (take_status pr now fs st r)"
  by (simp add: take_status_def live_update_simps Let_def)

lemma fetch_books_frame:
  assumes "fetch_books w credentials client_id s = (res, s')"
  shows "cur s' = cur s" "saved s' = saved s" "clock s' = clock s" "uuids s' = uuids s" "drawn s' = drawn s"
proof -
  obtain r1 s1 r2 where o: "order_book w credentials client_id s = (r1, s1)"
    and t: "trade_book w credentials client_id s1 = (r2, s')"
    using assms
    by (auto simp: fetch_books_def split: prod.splits sum.splits)
  then show "cur s' = cur s" "saved s' = saved s" "clock s' = clock s" "uuids s' = uuids s" "drawn s' = drawn s"
    using calls_onceD [OF adapter_once(4) [OF o]] calls_onceD [OF adapter_once(5) [OF t]] by simp_all
qed

section \<open>The passes keep an order invariant\<close>

context order_invariant
begin

lemma pass_ok_update:
  assumes "pass_ok good byb byc d" "order_object d (o_id r) = Some r" "o_mode r \<noteq> ''PAPER''" "live_update r r'"
  shows "pass_ok good byb byc (put_order r' d)"
proof -
  have "live_refs m (put_order r' d)" if "live_refs m d" for m
    using that assms by - (rule live_refs_put [of m d _ r' r]; simp add: live_update_simps)
  with assms good_live_update(1) [of d r r'] order_objectD [OF assms(2)] show ?thesis
    by (simp add: pass_ok_def)
qed

lemma link_orders_ok:
  "link_orders pr byc items d byb = Inr (d', byb') \<Longrightarrow> pass_ok good byb byc d \<Longrightarrow> pass_ok good byb' byc d'"
proof (induction items arbitrary: d byb)
  case (Cons item items)
  obtain fs where fs: "as_dict item = Inr fs" using Cons.prems(1) by (cases "as_dict item") auto
  show ?case
  proof (cases "Option.bind (match_order pr byb byc fs) (order_object d)")
    case None
    with fs Cons show ?thesis by simp
  next
    case (Some r)
    let ?bid = "text_field pr fs ''orderId''" and ?r = "r\<lparr>o_broker_order_id := Some (text_field pr fs ''orderId'')\<rparr>"
    have r: "o_mode r \<noteq> ''PAPER''" "order_object d (o_id r) = Some r"
      using match_order_live [OF Some] Cons.prems(2) by (simp_all add: pass_ok_def)
    have "pass_ok good byb byc (put_order ?r d)"
      by (rule pass_ok_update [OF Cons.prems(2) r(2,1)]) (simp add: live_update_simps r(1))
    moreover have "order_object (put_order ?r d) (o_id r) = Some ?r"
      using r(2) by (simp add: order_object_def find_upd_by)
    ultimately have "pass_ok good (byb(?bid \<mapsto> o_id r)) byc (put_order ?r d)"
      using r(1) live_refs_upd by (simp add: pass_ok_def)
    with Cons fs Some show ?thesis by (simp add: Let_def split: if_splits)
  qed
qed simp

lemma book_trade_ok:
  assumes "book_trade now r n price xid tm d = Inr d'" "pass_ok good byb byc d"
    and "order_object d (o_id r) = Some r" "o_mode r \<noteq> ''PAPER''"
  shows "pass_ok good byb byc d'"
proof (cases "apply_execution now d r n price ''DHAN_RECONCILIATION'' (Some xid) (Some tm)")
  case (Inl e)
  with assms(1) apply_execution_Inl [OF Inl]
  have "d' = put_order (r\<lparr>o_status := UNKNOWN,
      o_rejection_reason := Some (''RECONCILIATION_'' @ ''INVALID_EXECUTION_QUANTITY'')\<rparr>) d"
    by (simp add: book_trade_def)
  then show ?thesis
    using assms by (auto simp: live_update_simps intro!: pass_ok_update [of _ _ _ r])
next
  case (Inr y)
  obtain x r' d1 where y: "y = (x, r', d1)" by (cases y)
  with Inr assms(1) have d1: "d1 = d'" by (simp add: book_trade_def)
  note run = Inr [unfolded y d1]
  have "good d'"
    using good_apply [OF _ _ run] assms order_objectD [OF assms(3)] by (auto simp: pass_ok_def)
  moreover have "live_refs m d'" if "live_refs m d" for m
    using apply_execution_orders [OF run]
  proof
    assume "t_orders d' = t_orders d \<and> r' = r"
    with that show ?thesis using live_refs_cong by blast
  next
    assume "t_orders d' = put_row o_id r' (t_orders d)"
    then show ?thesis
      using that assms(3) apply_execution_frame(1,4) [OF run] by (intro live_refs_put [of m d d' r' r]) simp_all
  qed
  ultimately show ?thesis using assms(2) by (simp add: pass_ok_def)
qed

lemma book_trades_ok:
  "book_trades w now byb items d = Inr d' \<Longrightarrow> pass_ok good byb byc d \<Longrightarrow> pass_ok good byb byc d'"
proof (induction items arbitrary: d)
  case (Cons item items)
  obtain fs where fs: "as_dict item = Inr fs" using Cons.prems(1) by (cases "as_dict item") auto
  show ?case
  proof (cases "Option.bind (byb (text_field (w_repr w) fs ''orderId'')) (order_object d)")
    case None
    with fs Cons show ?thesis by simp
  next
    case (Some r)
    have r: "o_mode r \<noteq> ''PAPER''" "order_object d (o_id r) = Some r"
      using bound_order_live [where m = byb, OF Some] Cons.prems(2) by (simp_all add: pass_ok_def)
    show ?thesis
      using Cons fs Some book_trade_ok [OF _ _ r(2,1)]
      by (auto simp: Let_def split: if_splits sum.splits)
  qed
qed simp

lemma take_statuses_ok:
  "take_statuses pr now byb byc items d = Inr d' \<Longrightarrow> pass_ok good byb byc d \<Longrightarrow> pass_ok good byb byc d'"
proof (induction items arbitrary: d)
  case (Cons item items)
  obtain fs where fs: "as_dict item = Inr fs" using Cons.prems(1) by (cases "as_dict item") auto
  show ?case
  proof (cases "Option.bind (match_order pr byb byc fs) (order_object d)")
    case None
    with fs Cons show ?thesis by simp
  next
    case (Some r)
    have r: "o_mode r \<noteq> ''PAPER''" "order_object d (o_id r) = Some r"
      using match_order_live [OF Some] Cons.prems(2) by (simp_all add: pass_ok_def)
    show ?thesis
      using Cons fs Some pass_ok_update [OF Cons.prems(2) r(2,1) live_update_take_status [OF r(1)]]
      by (auto split: sum.splits)
  qed
qed simp

lemma reconcile_apply_good:
  assumes "reconcile_apply w now uid broker_orders trades d = Inr d'" "good d"
  shows "good d'"
proof -
  define byc where "byc = by_correlation (local_orders d uid)"
  have start: "pass_ok good (by_broker (local_orders d uid)) byc d"
    using assms(2) live_refs_locals [OF good_book [OF assms(2)]] by (simp add: pass_ok_def byc_def)
  obtain d1 byb d2 where
    l: "link_orders (w_repr w) byc broker_orders d (by_broker (local_orders d uid)) = Inr (d1, byb)"
    and b: "book_trades w now byb trades d1 = Inr d2"
    and t: "take_statuses (w_repr w) now byb byc broker_orders d2 = Inr d'"
    using assms(1) unfolding reconcile_apply_def Let_def byc_def [symmetric]
    by (auto split: sum.splits)
  from take_statuses_ok [OF t book_trades_ok [OF b link_orders_ok [OF l start]]]
  show ?thesis by (simp add: pass_ok_def)
qed

text \<open>A round, whatever the broker answers, leaves both the working and the durable state good.\<close>

lemma reconcile_connection_good:
  assumes "session_ok good s"
  shows "session_ok good (reconcile_connection w b s)"
proof -
  have b: "good (cur s)" "durable good (saved s)" using assms by (simp_all add: session_ok_def)
  have applied: "session_ok good (case reconcile_apply w (clock s1) (b_user_id b) os ts (cur s1) of
        Inl e \<Rightarrow> rollback s1
      | Inr d \<Rightarrow> (case commit (s1\<lparr>cur := d\<rparr>) of (Inl e, s2) \<Rightarrow> rollback s2 | (Inr _, s2) \<Rightarrow> s2))"
    if "fetch_books w credentials client_id s = (res, s1)" for credentials client_id res os ts s1
  proof (cases "reconcile_apply w (clock s1) (b_user_id b) os ts (cur s1)")
    case (Inl e)
    then show ?thesis using fetch_books_frame [OF that] b by (simp add: session_ok_rollback)
  next
    case (Inr d)
    have "good d" using reconcile_apply_good [OF Inr] fetch_books_frame [OF that] b by simp
    then show ?thesis
      using Inr fetch_books_frame [OF that] b
      by (cases rule: commit_cases [of "s1\<lparr>cur := d\<rparr>"])
        (simp_all add: session_ok_def good_flush durable_flush durable_good)
  qed
  show ?thesis
    using assms b applied fetch_books_frame
    by (auto simp: reconcile_connection_def Let_def session_ok_rollback split: sum.splits prod.splits)
qed

lemma reconcile_once_good: "session_ok good s \<Longrightarrow> session_ok good (reconcile_once w s)"
proof -
  have "session_ok good (foldl (\<lambda>s b. reconcile_connection w b s) s bs)" if "session_ok good s" for bs s
    using that by (induction bs arbitrary: s) (simp_all add: reconcile_connection_good)
  then show "session_ok good s \<Longrightarrow> session_ok good (reconcile_once w s)" by (simp add: reconcile_once_def)
qed

lemma reconcile_tick_good: "session_ok good s \<Longrightarrow> session_ok good (reconcile_tick w cfg s)"
  by (simp add: reconcile_tick_def reconcile_once_good)


end

end
