(* ===== verification/TradingApi.thy ===== *)
theory TradingApi
  imports ReconcileBooks
begin

text \<open>
  \<^verbatim>\<open>routers/trading.py\<close> with the request schemas of \<^verbatim>\<open>schemas.py\<close>, and the system order management
  forms with its two workers: \<open>system_step\<close> runs one request, one quote of the market worker or one
  tick of the reconciler in a session of its own, which is closed afterwards.

  The authenticated user and the latest quote of the market bus are arguments of a request.  The audit
  rows are not part of the database; the commit that writes them is (what such a row holds is in \<open>AppShell\<close>).
\<close>

section \<open>Request schemas\<close>

record order_create =
  oc_instrument_id :: string
  oc_values :: order_values

definition client_id_char :: "char \<Rightarrow> bool" where
  "client_id_char c \<longleftrightarrow> is_upper_char c \<or> is_lower_char c \<or> is_digit_char c \<or> c = CHR ''_'' \<or> c = CHR ''-''"

definition order_create_valid :: "order_create \<Rightarrow> bool" where
  "order_create_valid oc \<longleftrightarrow>
     (let v = oc_values oc in
      1 \<le> length (v_client_order_id v) \<and> length (v_client_order_id v) \<le> 30 \<and>
      (\<forall>c \<in> set (v_client_order_id v). client_id_char c) \<and>
      1 \<le> v_quantity v \<and>
      (case v_limit_price v of None \<Rightarrow> True | Some p \<Rightarrow> 0 < p) \<and>
      (case v_trigger_price v of None \<Rightarrow> True | Some p \<Rightarrow> 0 \<le> p) \<and>
      (v_order_type v = LIMIT \<longrightarrow> v_limit_price v \<noteq> None) \<and>
      (v_order_type v = MARKET \<longrightarrow> v_limit_price v = None))"

definition order_modify_valid :: "int \<Rightarrow> pyfloat \<Rightarrow> bool" where
  "order_modify_valid n price \<longleftrightarrow> 1 \<le> n \<and> 0 < price"

section \<open>Orders\<close>

definition owned_order :: "db \<Rightarrow> string \<Rightarrow> string \<Rightarrow> exn + trading_order" where
  "owned_order d uid oid =
     (case List.find (\<lambda>r. o_id r = oid \<and> o_user_id r = uid) (rows (t_orders d)) of
        None \<Rightarrow> Inl (HTTPException 404 ''Order not found'')
      | Some r \<Rightarrow> Inr r)"

definition active_instrument :: "db \<Rightarrow> string \<Rightarrow> instrument option" where
  "active_instrument d iid = List.find (\<lambda>i. i_id i = iid \<and> i_is_active i) (rows (t_instruments d))"

text \<open>\<^verbatim>\<open>except TradingError as exc: raise _trading_error(exc)\<close>.\<close>

fun http_error :: "exn \<Rightarrow> exn" where
  "http_error (TradingError code status) = HTTPException status code"
| "http_error e = e"

text \<open>The handler after the call: audit and commit, or the error.\<close>

definition respond :: "(exn + 'a) \<times> session \<Rightarrow> (exn + 'a) \<times> session" where
  "respond called =
     (case called of (Inl e, s) \<Rightarrow> (Inl (http_error e), s) | (Inr x, s) \<Rightarrow> commit_return x s)"

definition place_order ::
  "world \<Rightarrow> settings \<Rightarrow> string \<Rightarrow> order_create \<Rightarrow> quote option \<Rightarrow> session \<Rightarrow> (exn + trading_order) \<times> session"
where
  "place_order w cfg uid oc oq s =
     (if \<not> order_create_valid oc then (Inl (PyError ''RequestValidationError''), s)
      else case active_instrument (cur s) (oc_instrument_id oc) of
        None \<Rightarrow> (Inl (HTTPException 404 ''Instrument not found''), s)
      | Some ins \<Rightarrow> respond (manager_place w cfg uid ins (oc_values oc) oq s))"

definition modify_order ::
  "world \<Rightarrow> settings \<Rightarrow> string \<Rightarrow> string \<Rightarrow> int \<Rightarrow> pyfloat \<Rightarrow> quote option \<Rightarrow> session
   \<Rightarrow> (exn + trading_order) \<times> session" where
  "modify_order w cfg uid oid n price oq s =
     (if \<not> order_modify_valid n price then (Inl (PyError ''RequestValidationError''), s)
      else case owned_order (cur s) uid oid of
        Inl e \<Rightarrow> (Inl e, s)
      | Inr r \<Rightarrow> respond (manager_modify w cfg r n price oq s))"

definition cancel_order ::
  "world \<Rightarrow> settings \<Rightarrow> string \<Rightarrow> string \<Rightarrow> session \<Rightarrow> (exn + trading_order) \<times> session" where
  "cancel_order w cfg uid oid s =
     (case owned_order (cur s) uid oid of
        Inl e \<Rightarrow> (Inl e, s)
      | Inr r \<Rightarrow> respond (manager_cancel w cfg r s))"

section \<open>Kill switches\<close>

definition set_control :: "string \<Rightarrow> string option \<Rightarrow> string \<Rightarrow> bool \<Rightarrow> string option \<Rightarrow> db \<Rightarrow> db" where
  "set_control scope owner actor halt reason d =
     (let stop = (if halt then reason else None) in
      case List.find (\<lambda>c. c_scope_key c = scope) (rows (t_controls d)) of
        Some c \<Rightarrow>
          d\<lparr>t_controls := put_row c_scope_key
              (c\<lparr>c_is_halted := halt, c_reason := stop, c_updated_by_user_id := Some actor\<rparr>) (t_controls d)\<rparr>
      | None \<Rightarrow>
          d\<lparr>t_controls := insert_row
              \<lparr>c_scope_key = scope, c_user_id = owner, c_is_halted = halt, c_reason = stop,
               c_updated_by_user_id = Some actor\<rparr> (t_controls d)\<rparr>)"

definition kill_switch ::
  "string \<Rightarrow> bool \<Rightarrow> string option \<Rightarrow> session \<Rightarrow> (exn + (bool \<times> string option)) \<times> session" where
  "kill_switch uid halt reason s =
     commit_return (halt, if halt then reason else None)
       (s\<lparr>cur := set_control (user_scope uid) (Some uid) uid halt reason (cur s)\<rparr>)"

definition global_kill_switch ::
  "user \<Rightarrow> bool \<Rightarrow> string option \<Rightarrow> session \<Rightarrow> (exn + (bool \<times> string option)) \<times> session" where
  "global_kill_switch admin halt reason s =
     (if u_role admin \<noteq> ADMIN then (Inl (HTTPException 403 ''Administrator access required''), s)
      else commit_return (halt, if halt then reason else None)
             (s\<lparr>cur := set_control ''GLOBAL'' None (u_id admin) halt reason (cur s)\<rparr>))"

section \<open>Views\<close>

record trading_status =
  ts_mode :: string
  ts_live_ready :: bool
  ts_halted :: bool
  ts_halt_reason :: "string option"

definition status_view :: "settings \<Rightarrow> db \<Rightarrow> string \<Rightarrow> trading_status" where
  "status_view cfg d uid =
     (let halting = List.find c_is_halted
            (filter (\<lambda>c. c_scope_key c \<in> {''GLOBAL'', user_scope uid}) (rows (t_controls d)))
      in \<lparr>ts_mode = trading_mode cfg,
          ts_live_ready = (trading_mode cfg = ''live'' \<and>
            trading_live_confirmation cfg = ''ENABLE_DHAN_LIVE_ORDERS'' \<and> dhan_static_ip_confirmed cfg),
          ts_halted = (halting \<noteq> None), ts_halt_reason = Option.bind halting c_reason\<rparr>)"

text \<open>Each position with its unrealized profit.\<close>

definition position_views :: "db \<Rightarrow> string \<Rightarrow> (trading_position \<times> pyfloat) list" where
  "position_views d uid =
     map (\<lambda>p. (p, fmul (float_of_int (p_quantity p))
                    (fsub (or_else (p_last_price p) (p_average_price p)) (p_average_price p))))
       (filter (\<lambda>p. p_user_id p = uid) (rows (t_positions d)))"

section \<open>The system\<close>

datatype event =
    PlaceOrder string order_create "quote option"
  | ModifyOrder string string int pyfloat "quote option"
  | CancelOrder string string
  | KillSwitch string bool "string option"
  | GlobalKillSwitch user bool "string option"
  | QuoteArrives string quote
  | Reconcile
  | TimePasses nat

text \<open>
  One event.  Closing a session without a commit is a rollback; the market worker fills resting orders
  in paper mode only (\<^verbatim>\<open>market/worker.py\<close>).
\<close>

fun system_step :: "world \<Rightarrow> settings \<Rightarrow> event \<Rightarrow> session \<Rightarrow> session" where
  "system_step w cfg (PlaceOrder uid oc oq) s = rollback (snd (place_order w cfg uid oc oq s))"
| "system_step w cfg (ModifyOrder uid oid n price oq) s =
     rollback (snd (modify_order w cfg uid oid n price oq s))"
| "system_step w cfg (CancelOrder uid oid) s = rollback (snd (cancel_order w cfg uid oid s))"
| "system_step w cfg (KillSwitch uid halt reason) s = rollback (snd (kill_switch uid halt reason s))"
| "system_step w cfg (GlobalKillSwitch admin halt reason) s =
     rollback (snd (global_kill_switch admin halt reason s))"
| "system_step w cfg (QuoteArrives uid q) s =
     (if trading_mode cfg = ''paper'' then rollback (snd (process_quote cfg uid q s)) else s)"
| "system_step w cfg Reconcile s = rollback (reconcile_tick w cfg s)"
| "system_step w cfg (TimePasses n) s = s\<lparr>clock := clock s + int n\<rparr>"

section \<open>Every event keeps an order invariant\<close>

lemma owned_orderD:
  "owned_order d uid oid = Inr r \<Longrightarrow> r \<in> set (objs (t_orders d)) \<and> o_id r = oid \<and> o_user_id r = uid"
  by (auto simp: owned_order_def objs_def dest!: find_SomeD split: option.splits)

lemma set_control_frame [simp]:
  "t_orders (set_control scope owner actor halt reason d) = t_orders d"
  "t_executions (set_control scope owner actor halt reason d) = t_executions d"
  "t_positions (set_control scope owner actor halt reason d) = t_positions d"
  by (simp_all add: set_control_def Let_def split: option.splits)

context order_invariant
begin

lemma keeps_saved: "keeps good f s \<Longrightarrow> session_ok good s \<Longrightarrow> durable good (saved (snd (f s)))"
  by (simp add: keeps_def session_ok_def)

lemma keeps_outcome: "keeps good f s \<Longrightarrow> session_ok good s \<Longrightarrow> outcome good (f s)"
  by (simp add: keeps_outcome_iff session_ok_def)

lemma respond_saved:
  assumes "outcome good out"
  shows "durable good (saved (snd (respond out)))"
proof (cases out)
  case (Pair res s)
  then show ?thesis
    using assms by (cases rule: commit_return_cases [of "projr res" s])
      (auto simp: respond_def outcome_def good_flush durable_flush split: sum.splits)
qed

lemma commit_return_saved:
  "good (cur s) \<Longrightarrow> durable good (saved s) \<Longrightarrow> durable good (saved (snd (commit_return x s)))"
  by (cases rule: commit_return_cases [of x s]) (simp_all add: good_flush durable_flush)

lemma good_set_control: "good (set_control scope owner actor halt reason d) = good d"
  by (rule good_cong) simp_all

lemma system_step_good:
  assumes s: "session_ok good s"
  shows "session_ok good (system_step w cfg ev s)"
proof (cases ev)
  case (PlaceOrder uid oc oq)
  have "0 < v_quantity (oc_values oc)" if "order_create_valid oc"
    using that by (simp add: order_create_valid_def Let_def)
  then have "durable good (saved (snd (place_order w cfg uid oc oq s)))"
    using s respond_saved [OF keeps_outcome [OF keeps_manager(1) s]]
    by (auto simp: place_order_def session_ok_def split: option.splits)
  then show ?thesis by (simp add: PlaceOrder session_ok_rollback)
next
  case (ModifyOrder uid oid n price oq)
  have "durable good (saved (snd (modify_order w cfg uid oid n price oq s)))"
    using s respond_saved [OF keeps_outcome [OF keeps_manager(3) s]] owned_orderD
    by (fastforce simp: modify_order_def session_ok_def split: sum.splits)
  then show ?thesis by (simp add: ModifyOrder session_ok_rollback)
next
  case (CancelOrder uid oid)
  have "durable good (saved (snd (cancel_order w cfg uid oid s)))"
    using s respond_saved [OF keeps_outcome [OF keeps_manager(2) s]] owned_orderD
    by (fastforce simp: cancel_order_def session_ok_def split: sum.splits)
  then show ?thesis by (simp add: CancelOrder session_ok_rollback)
next
  case (QuoteArrives uid q)
  then show ?thesis
    using s keeps_saved [OF keeps_process_quote s]
    by (simp add: session_ok_rollback)
next
  case Reconcile
  have "session_ok good (reconcile_tick w cfg s)" using s by (rule reconcile_tick_good)
  then show ?thesis by (simp add: Reconcile session_ok_def durable_good)
next
  case (TimePasses n)
  then show ?thesis using s by (simp add: session_ok_def)
next
  case (KillSwitch uid halt reason)
  have "durable good (saved (snd (kill_switch uid halt reason s)))"
    unfolding kill_switch_def
    by (rule commit_return_saved) (use s in \<open>simp_all add: session_ok_def good_set_control\<close>)
  then show ?thesis by (simp add: KillSwitch session_ok_rollback)
next
  case (GlobalKillSwitch admin halt reason)
  have "durable good (saved (snd (global_kill_switch admin halt reason s)))"
  proof (cases "u_role admin = ADMIN")
    case True
    then have admin: "\<not> u_role admin \<noteq> ADMIN" by simp
    show ?thesis
      unfolding global_kill_switch_def if_not_P [OF admin]
      by (rule commit_return_saved) (use s in \<open>simp_all add: session_ok_def good_set_control\<close>)
  qed (use s in \<open>simp add: global_kill_switch_def session_ok_def\<close>)
  then show ?thesis by (simp add: GlobalKillSwitch session_ok_rollback)
qed

end

end
