(* ===== verification/History.thy ===== *)
theory History
  imports TradingApi
begin

text \<open>
  The history of the ledger: from one durable state to a later one no order and no execution is lost,
  an order keeps its identity, its fills only grow, and a paper order that has ended does not change.
  \<open>history D d\<close> says so of a state \<open>d\<close> later than \<open>D\<close>; it is the second interpretation of
  \<open>order_invariant\<close>.
\<close>

definition history :: "db \<Rightarrow> db \<Rightarrow> bool" where
  "history D d \<longleftrightarrow>
     (\<forall>r \<in> set (objs (t_orders D)). \<exists>r' \<in> set (objs (t_orders d)). order_evolves r r') \<and>
     set (objs (t_executions D)) \<subseteq> set (objs (t_executions d))"

lemma order_evolves_refl [simp]: "order_evolves r r"
  by (simp add: order_evolves_def)

lemma order_evolves_trans: "order_evolves a b \<Longrightarrow> order_evolves b c \<Longrightarrow> order_evolves a c"
  by (auto simp: order_evolves_def)

lemma history_refl: "history d d"
  by (auto simp: history_def intro: order_evolves_refl)

lemma history_trans: "history a b \<Longrightarrow> history b c \<Longrightarrow> history a c"
  unfolding history_def by (meson order_evolves_trans subset_trans)

text \<open>One order is written back as a later version of itself.\<close>

lemma history_put:
  assumes "history D d" "distinct (map o_id (objs (t_orders d)))" "r \<in> set (objs (t_orders d))"
    and "order_evolves r r'" "t_orders d' = put_row o_id r' (t_orders d)"
    and "set (objs (t_executions d)) \<subseteq> set (objs (t_executions d'))"
  shows "history D d'"
  unfolding history_def
proof
  show "\<forall>r0 \<in> set (objs (t_orders D)). \<exists>r' \<in> set (objs (t_orders d')). order_evolves r0 r'"
  proof
    fix r0 assume "r0 \<in> set (objs (t_orders D))"
    then obtain x where x: "x \<in> set (objs (t_orders d))" "order_evolves r0 x"
      using assms(1) by (auto simp: history_def)
    have id: "o_id r' = o_id r" using assms(4) by (simp add: order_evolves_def)
    show "\<exists>r' \<in> set (objs (t_orders d')). order_evolves r0 r'"
    proof (cases "o_id x = o_id r")
      case True
      with x(1) assms(2,3) have "x = r" by (metis distinct_map_eqD)
      moreover have "r' \<in> set (objs (t_orders d'))"
        using assms(3,5) id by (auto intro: in_upd_by_self [where ?r0.0 = r])
      ultimately show ?thesis using x(2) assms(4) order_evolves_trans by blast
    next
      case False
      then have "x \<in> set (objs (t_orders d'))" using x(1) assms(5) id by (auto intro!: in_upd_by_other)
      with x(2) show ?thesis by blast
    qed
  qed
  show "set (objs (t_executions D)) \<subseteq> set (objs (t_executions d'))"
    using assms(1,6) by (auto simp: history_def)
qed

lemma order_evolves_fill:
  assumes "0 < n" "o_mode r = ''PAPER'' \<Longrightarrow> o_status r \<in> open_order_statuses"
  shows "order_evolves r (fill_order r n price tm)"
proof -
  have "o_validity (fill_order r n price tm) = o_validity r" by (simp add: fill_order_def Let_def)
  then show ?thesis using assms unfolding order_evolves_def fill_order_sel by auto
qed

lemma history_apply:
  assumes "history D d" "book d" "r \<in> set (objs (t_orders d))"
    and "apply_execution now d r n price source bid tm = Inr (x, r', d')"
    and "o_mode r = ''PAPER'' \<Longrightarrow> o_status r \<in> open_order_statuses"
  shows "history D d'"
  using assms(4)
proof (cases rule: apply_execution_cases)
  case known
  with assms(1) show ?thesis by simp
next
  case booked
  have "order_evolves r r'"
    unfolding booked(5) using booked(2) assms(5) by (rule order_evolves_fill)
  then show ?thesis
    by (rule history_put [OF assms(1) ledgerD(1) [OF bookD(1) [OF assms(2)]] assms(3)])
      (use booked in auto)
qed

interpretation histories: order_invariant "\<lambda>d. book d \<and> history D d" for D
proof
  fix d r r'
  assume d: "book d \<and> history D d" and r: "r \<in> set (objs (t_orders d))" and e: "order_evolves r r'"
    and "o_filled_quantity r' = o_filled_quantity r" "o_filled_quantity r \<le> o_quantity r'" "lifecycle r'"
  then have "book (put_order r' d)" by (intro book_put_order) auto
  moreover have "history D (put_order r' d)"
    by (rule history_put [OF conjunct2 [OF d] ledgerD(1) [OF bookD(1) [OF conjunct1 [OF d]]] r e]) simp_all
  ultimately show "book (put_order r' d) \<and> history D (put_order r' d)" ..
next
  fix d d' :: db
  assume "t_orders d' = t_orders d" "t_executions d' = t_executions d" "t_positions d' = t_positions d"
  then show "(book d' \<and> history D d') = (book d \<and> history D d)"
    using book_cong [of d' d] by (simp add: history_def)
next
  fix d r now n price source bid tm x r' d'
  assume d: "book d \<and> history D d" and r: "r \<in> set (objs (t_orders d))"
    and run: "apply_execution now d r n price source bid tm = Inr (x, r', d')"
    and paper: "o_mode r = ''PAPER'' \<Longrightarrow> n = o_quantity r - o_filled_quantity r \<and> o_status r \<in> open_order_statuses"
  have "book d'" by (rule book_apply_execution [OF conjunct1 [OF d] r run]) (use paper in blast)
  moreover have "history D d'"
    by (rule history_apply [OF conjunct2 [OF d] conjunct1 [OF d] r run]) (use paper in blast)
  ultimately show "book d' \<and> history D d'" ..
qed (auto simp: book_add_order history_def)

section \<open>From event to event\<close>

text \<open>Between two events nothing is pending and the working state is the durable one.\<close>

definition between_events :: "session \<Rightarrow> bool" where
  "between_events s \<longleftrightarrow> durable book (saved s) \<and> cur s = saved s"

lemma between_session_ok: "between_events s \<Longrightarrow> history D (saved s) \<Longrightarrow> session_ok (\<lambda>d. book d \<and> history D d) s"
  by (simp add: between_events_def session_ok_def durable_def)

lemma system_step_event:
  assumes "between_events s"
  shows "between_events (system_step w cfg ev s) \<and> history (saved s) (saved (system_step w cfg ev s))"
proof -
  have "session_ok (\<lambda>d. book d \<and> history (saved s) d) (system_step w cfg ev s)"
    using histories.system_step_good [OF between_session_ok [OF assms history_refl]] .
  moreover have "cur (system_step w cfg ev s) = saved (system_step w cfg ev s)"
    using assms by (cases ev) (auto simp: between_events_def)
  ultimately show ?thesis by (simp add: between_events_def session_ok_def durable_def)
qed

interpretation trading_system: preserving "system_step w cfg" between_events for w cfg
  by unfold_locales (use system_step_event in blast)

text \<open>The durable state only moves forward.\<close>

lemma run_history:
  "between_events s \<Longrightarrow> history (saved s) (saved (run_ops (system_step w cfg) evs s))"
proof (induction evs arbitrary: s)
  case Nil
  then show ?case by (simp add: history_refl)
next
  case (Cons ev evs)
  then show ?case using system_step_event [of s w cfg ev] by (auto intro: history_trans)
qed

end
