(* ===== verification/Accounting.thy ===== *)
theory Accounting
  imports Ledger
begin

text \<open>
  The money side of a fill.  \<open>position_value p mark\<close> is the profit of a position, realized and
  unrealized, at a mark price, in exact arithmetic.  A fill of \<open>f\<close> signed units at a price is worth
  \<open>f * (mark - price)\<close>: the position after the fill carries exactly that much more than before, up to
  the float roundings of the average price and of the realized profit, which are bounded here.
\<close>

definition position_value :: "trading_position \<Rightarrow> rat \<Rightarrow> rat" where
  "position_value p mark = p_realized_pnl p + of_int (p_quantity p) * (mark - p_average_price p)"

section \<open>Rounding errors of the two formulas\<close>

text \<open>Relative errors add up: three roundings stay within four units, two within two and a half.\<close>

lemma two_53: "(2 :: rat) ^ 53 = 9007199254740992"
  by simp

lemma chain:
  fixes a b x y s X Y S Q E :: rat
  assumes "X \<le> a / 2 ^ 53" "Y \<le> b / 2 ^ 53" "S \<le> (x + y) / 2 ^ 53" "Q \<le> s / 2 ^ 53"
    and "E \<le> X + Y + S + Q" "x \<le> a + X" "y \<le> b + Y" "s \<le> x + y + S" "0 \<le> a" "0 \<le> b"
  shows "E \<le> 4 * (a + b) / 2 ^ 53"
proof -
  have "x + y \<le> (4 / 3) * (a + b)" using assms(1,2,6,7,9,10) unfolding two_53 add_divide_distrib distrib_left by linarith
  then have S: "S \<le> (4 / 3) * (a + b) / 2 ^ 53" using assms(3) unfolding two_53 add_divide_distrib distrib_left by linarith
  have "x + y \<le> (5 / 4) * (a + b)" using assms(1,2,6,7,9,10) unfolding two_53 add_divide_distrib distrib_left by linarith
  then have "s \<le> (4 / 3) * (a + b)" using S assms(8,9,10) unfolding two_53 add_divide_distrib distrib_left by linarith
  then have "Q \<le> (4 / 3) * (a + b) / 2 ^ 53" using assms(4) unfolding two_53 add_divide_distrib distrib_left by linarith
  then show ?thesis using S assms(1,2,5,9,10) unfolding two_53 add_divide_distrib distrib_left by linarith
qed

lemma chain2:
  fixes A D E V Y :: rat
  assumes "D \<le> A / 2 ^ 53" "E \<le> V / 2 ^ 53" "V \<le> A + D" "Y \<le> E + D" "0 \<le> A"
  shows "Y \<le> (5 / 2) * A / 2 ^ 53"
  using assms unfolding two_53 add_divide_distrib distrib_left by linarith

lemma chain3:
  fixes A Q T U W Y :: rat
  assumes "U \<le> W / 2 ^ 53" "Y \<le> (5 / 2) * Q / 2 ^ 53" "W \<le> A + Q + Y" "T \<le> U + Y" "0 \<le> A" "0 \<le> Q"
  shows "T \<le> (A + 4 * Q) / 2 ^ 53"
proof -
  have "Y \<le> Q / 8" using assms(2,6) unfolding two_53 add_divide_distrib distrib_left by linarith
  then have "U \<le> (A + (9 / 8) * Q) / 2 ^ 53" using assms(1,3) unfolding two_53 add_divide_distrib distrib_left by linarith
  then show ?thesis using assms(2,4,6) unfolding two_53 add_divide_distrib distrib_left by linarith
qed

lemma extend_error:
  fixes a b m :: rat
  assumes "0 \<le> a" "0 \<le> b" "0 < m"
  shows "\<bar>m * fl (fl (fl a + fl b) / m) - (a + b)\<bar> \<le> 4 * (a + b) / 2 ^ 53"
proof -
  define x y s q where "x = fl a" and "y = fl b" and "s = fl (x + y)" and "q = fl (s / m)"
  have xy: "\<bar>x - a\<bar> \<le> a / 2 ^ 53" "\<bar>y - b\<bar> \<le> b / 2 ^ 53" "0 \<le> x" "0 \<le> y"
    using fl.near [of a] fl.near [of b] assms by (simp_all add: x_def y_def fl.nonneg)
  have s: "\<bar>s - (x + y)\<bar> \<le> (x + y) / 2 ^ 53" "0 \<le> s"
    using fl.near [of "x + y"] xy by (simp_all add: s_def fl.nonneg)
  have "m * \<bar>q - s / m\<bar> \<le> m * (\<bar>s / m\<bar> / 2 ^ 53)"
    unfolding q_def using assms(3) by (intro mult_left_mono fl.near) simp
  moreover have "m * \<bar>q - s / m\<bar> = \<bar>m * q - s\<bar>"
  proof -
    have "m * q - s = m * (q - s / m)" using assms(3) by (simp add: right_diff_distrib)
    then show ?thesis using assms(3) by (simp add: abs_mult)
  qed
  moreover have "m * (\<bar>s / m\<bar> / 2 ^ 53) = s / 2 ^ 53" using assms(3) s(2) by simp
  ultimately have q: "\<bar>m * q - s\<bar> \<le> s / 2 ^ 53" by (simp only:)
  show ?thesis
    unfolding x_def [symmetric] y_def [symmetric] s_def [symmetric] q_def [symmetric]
  proof (rule chain [OF xy(1,2) s(1) q])
    show "\<bar>m * q - (a + b)\<bar> \<le> \<bar>x - a\<bar> + \<bar>y - b\<bar> + \<bar>s - (x + y)\<bar> + \<bar>m * q - s\<bar>"
      "x \<le> a + \<bar>x - a\<bar>" "y \<le> b + \<bar>y - b\<bar>" "s \<le> x + y + \<bar>s - (x + y)\<bar>"
      by arith+
  qed (use assms in simp_all)
qed

lemma realize_error:
  fixes c z d R :: rat
  assumes "0 \<le> c" "d = 1 \<or> d = - 1"
  shows "\<bar>fl (R + fl (fl (c * fl z) * d)) - (R + c * z * d)\<bar> \<le> (\<bar>R\<bar> + 4 * (c * \<bar>z\<bar>)) / 2 ^ 53"
proof -
  define v y t where "v = fl z" and "y = fl (c * v)" and "t = fl (R + y * d)"
  have yd: "fl (y * d) = y * d" using assms(2) by (auto simp: y_def fl.idem fl.minus)
  have "c * \<bar>v - z\<bar> \<le> c * (\<bar>z\<bar> / 2 ^ 53)"
    using fl.near [of z] assms(1) unfolding v_def by (intro mult_left_mono)
  then have v: "\<bar>c * v - c * z\<bar> \<le> c * \<bar>z\<bar> / 2 ^ 53"
    using assms(1) by (simp add: right_diff_distrib [symmetric] abs_mult)
  have y: "\<bar>y - c * v\<bar> \<le> \<bar>c * v\<bar> / 2 ^ 53" using fl.near [of "c * v"] by (simp add: y_def)
  have t: "\<bar>t - (R + y * d)\<bar> \<le> \<bar>R + y * d\<bar> / 2 ^ 53" using fl.near [of "R + y * d"] by (simp add: t_def)
  have cz: "\<bar>c * z\<bar> = c * \<bar>z\<bar>" using assms(1) by (simp add: abs_mult)
  define P V where "P = c * z" and "V = c * v"
  have near: "\<bar>V - P\<bar> \<le> \<bar>P\<bar> / 2 ^ 53" "\<bar>y - V\<bar> \<le> \<bar>V\<bar> / 2 ^ 53"
    using v y cz by (simp_all add: P_def V_def)
  have yP: "\<bar>y - P\<bar> \<le> (5 / 2) * \<bar>P\<bar> / 2 ^ 53"
  proof (rule chain2 [OF near])
    show "\<bar>V\<bar> \<le> \<bar>P\<bar> + \<bar>V - P\<bar>" "\<bar>y - P\<bar> \<le> \<bar>y - V\<bar> + \<bar>V - P\<bar>" by arith+
  qed simp
  have step: "\<bar>T - (S + Q)\<bar> \<le> (\<bar>S\<bar> + 4 * \<bar>Q\<bar>) / 2 ^ 53"
    if "\<bar>T - (S + Y)\<bar> \<le> \<bar>S + Y\<bar> / 2 ^ 53" "\<bar>Y - Q\<bar> \<le> (5 / 2) * \<bar>Q\<bar> / 2 ^ 53" for T S Y Q :: rat
  proof (rule chain3 [OF that])
    show "\<bar>S + Y\<bar> \<le> \<bar>S\<bar> + \<bar>Q\<bar> + \<bar>Y - Q\<bar>" "\<bar>T - (S + Q)\<bar> \<le> \<bar>T - (S + Y)\<bar> + \<bar>Y - Q\<bar>" by arith+
  qed simp_all
  have "\<bar>t - (R + P * d)\<bar> \<le> (\<bar>R\<bar> + 4 * \<bar>P\<bar>) / 2 ^ 53"
    using assms(2)
  proof
    assume "d = 1"
    then show ?thesis using step [of t R y P] t yP by simp
  next
    assume "d = - 1"
    then show ?thesis using step [of t R "- y" "- P"] t yP by (simp add: abs_minus_commute)
  qed
  then have "\<bar>t - (R + c * z * d)\<bar> \<le> (\<bar>R\<bar> + 4 * \<bar>c * z\<bar>) / 2 ^ 53" by (simp only: P_def)
  then show ?thesis
    unfolding v_def [symmetric] y_def [symmetric] yd t_def [symmetric] cz .
qed

section \<open>A fill conserves value\<close>

lemma fill_position_extend:
  assumes "p_quantity p = 0 \<or> 0 < p_quantity p * signed_quantity side n"
  shows "fill_position p side n price =
    p\<lparr>p_average_price := fdiv (fadd (fmul (p_average_price p) (float_of_int \<bar>p_quantity p\<bar>))
                                    (fmul price (float_of_int \<bar>signed_quantity side n\<bar>)))
                              (float_of_int \<bar>p_quantity p + signed_quantity side n\<bar>),
      p_quantity := p_quantity p + signed_quantity side n, p_last_price := Some price\<rparr>"
  using assms by (simp add: fill_position_def Let_def)

lemma fill_position_offset:
  assumes "\<not> (p_quantity p = 0 \<or> 0 < p_quantity p * signed_quantity side n)"
  shows "p_realized_pnl (fill_position p side n price) =
      fadd (p_realized_pnl p)
        (fmul (fmul (float_of_int (min \<bar>p_quantity p\<bar> \<bar>signed_quantity side n\<bar>)) (fsub price (p_average_price p)))
              (if 0 < p_quantity p then 1 else -1))"
    "p_average_price (fill_position p side n price) =
      (if p_quantity p + signed_quantity side n = 0 then 0
       else if p_quantity p * (p_quantity p + signed_quantity side n) < 0 then price
       else p_average_price p)"
  using assms by (simp_all add: fill_position_def Let_def)

definition gross :: "trading_position \<Rightarrow> order_side \<Rightarrow> int \<Rightarrow> pyfloat \<Rightarrow> rat" where
  "gross p side n price =
     of_int \<bar>p_quantity p\<bar> * p_average_price p + of_int \<bar>signed_quantity side n\<bar> * price"

lemma value_extend:
  assumes "p_quantity p = 0 \<or> 0 < p_quantity p * signed_quantity side n"
    and "0 < n" "0 \<le> p_average_price p" "0 \<le> price"
    and "\<bar>p_quantity p\<bar> + n \<le> 2 ^ 53"
  shows "\<bar>position_value (fill_position p side n price) mark
          - (position_value p mark + of_int (signed_quantity side n) * (mark - price))\<bar>
         \<le> 4 * gross p side n price / 2 ^ 53"
proof -
  define old f new where "old = p_quantity p" and "f = signed_quantity side n" and "new = old + f"
  have f: "\<bar>f\<bar> = n" "f \<noteq> 0" using assms(2) by (auto simp: f_def signed_quantity_def)
  have same: "old = 0 \<or> 0 < old * f" using assms(1) by (simp add: old_def f_def)
  then have sign: "new \<noteq> 0" "\<bar>new\<bar> = \<bar>old\<bar> + \<bar>f\<bar>"
    using f(2) by (auto simp: new_def zero_less_mult_iff)
  have small: "\<bar>\<bar>old\<bar>\<bar> \<le> 2 ^ 53" "\<bar>\<bar>f\<bar>\<bar> \<le> 2 ^ 53" "\<bar>\<bar>new\<bar>\<bar> \<le> 2 ^ 53"
    using assms(5) f(1) sign(2) by (simp_all add: old_def)
  define a b m where "a = p_average_price p * of_int \<bar>old\<bar>" and "b = price * of_int \<bar>f\<bar>"
    and "m = (of_int \<bar>new\<bar> :: rat)"
  define q where "q = fl (fl (fl a + fl b) / m)"
  have err: "\<bar>m * q - (a + b)\<bar> \<le> 4 * (a + b) / 2 ^ 53"
    unfolding q_def using assms sign(1) by (intro extend_error) (simp_all add: a_def b_def m_def)
  have avg: "p_average_price (fill_position p side n price) = q"
    unfolding fill_position_extend [OF assms(1)]
    using small
    by (simp add: old_def [symmetric] f_def [symmetric] new_def [symmetric]
        fdiv_def fadd_def fmul_def q_def a_def b_def m_def)
  have r: "p_realized_pnl (fill_position p side n price) = p_realized_pnl p"
    by (simp add: fill_position_extend [OF assms(1)])
  have diff: "position_value (fill_position p side n price) mark
      - (position_value p mark + of_int f * (mark - price))
      = of_int old * p_average_price p + of_int f * price - of_int new * q"
    by (simp add: position_value_def avg r old_def [symmetric] f_def [symmetric] new_def algebra_simps)
  have "\<bar>of_int old * p_average_price p + of_int f * price - of_int new * q\<bar> = \<bar>m * q - (a + b)\<bar>"
  proof (cases "0 < f")
    case True
    with same have "0 \<le> old" by (auto simp: zero_less_mult_iff)
    with True show ?thesis by (simp add: m_def a_def b_def new_def abs_minus_commute mult.commute)
  next
    case False
    with same f(2) have o: "old \<le> 0" "f < 0" by (auto simp: zero_less_mult_iff)
    then have "of_int old * p_average_price p + of_int f * price - of_int new * q = m * q - (a + b)"
      by (simp add: m_def a_def b_def new_def algebra_simps)
    then show ?thesis by simp
  qed
  then show ?thesis
    using err unfolding f_def [symmetric] diff
    by (simp add: gross_def a_def b_def old_def [symmetric] f_def [symmetric] mult.commute)
qed

text \<open>What the closed part realizes, exactly: the closed quantity, signed like the position, times the move.\<close>

lemma offset_exact:
  fixes old f :: int and price avg mark :: rat
  assumes "old \<noteq> 0" "f \<noteq> 0" "\<not> 0 < old * f"
  defines "new \<equiv> old + f"
  defines "avg' \<equiv> (if new = 0 then 0 else if old * new < 0 then price else avg)"
  shows "of_int (min \<bar>old\<bar> \<bar>f\<bar>) * (price - avg) * (if 0 < old then 1 else - 1) + of_int new * (mark - avg')
    = of_int old * (mark - avg) + of_int f * (mark - price)"
proof -
  define K where "K = (if new = 0 \<or> old * new < 0 then old else - f)"
  have K: "min \<bar>old\<bar> \<bar>f\<bar> * (if 0 < old then 1 else - 1) = K"
  proof (cases "0 < old")
    case True
    with assms(2,3) have "f < 0" by (auto simp: zero_less_mult_iff)
    with True show ?thesis by (auto simp: K_def new_def mult_less_0_iff)
  next
    case False
    with assms(1-3) have "old < 0" "0 < f" by (auto simp: zero_less_mult_iff)
    then show ?thesis by (auto simp: K_def new_def mult_less_0_iff)
  qed
  have "of_int (min \<bar>old\<bar> \<bar>f\<bar>) * (price - avg) * (if 0 < old then 1 else - 1)
      = of_int (min \<bar>old\<bar> \<bar>f\<bar> * (if 0 < old then 1 else - 1)) * (price - avg)"
    by simp
  also have "\<dots> = of_int K * (price - avg)" by (simp only: K)
  finally have realized: "of_int (min \<bar>old\<bar> \<bar>f\<bar>) * (price - avg) * (if 0 < old then 1 else - 1)
      = of_int K * (price - avg)" .
  have old: "of_int old = (of_int new :: rat) - of_int f" by (simp add: new_def)
  show ?thesis
    unfolding realized by (auto simp: K_def avg'_def old algebra_simps)
qed

lemma value_offset:
  assumes "\<not> (p_quantity p = 0 \<or> 0 < p_quantity p * signed_quantity side n)"
    and "0 < n" "0 \<le> p_average_price p" "0 \<le> price"
    and "\<bar>p_quantity p\<bar> + n \<le> 2 ^ 53"
  shows "\<bar>position_value (fill_position p side n price) mark
          - (position_value p mark + of_int (signed_quantity side n) * (mark - price))\<bar>
         \<le> (\<bar>p_realized_pnl p\<bar> + 4 * gross p side n price) / 2 ^ 53"
proof -
  define old f c where "old = p_quantity p" and "f = signed_quantity side n" and "c = min \<bar>old\<bar> \<bar>f\<bar>"
  define z d R where "z = price - p_average_price p" and "d = (if 0 < old then 1 else - 1 :: rat)"
    and "R = p_realized_pnl p"
  define R' where "R' = fl (R + fl (fl (of_int c * fl z) * d))"
  have f: "\<bar>f\<bar> = n" "f \<noteq> 0" using assms(2) by (auto simp: f_def signed_quantity_def)
  have off: "old \<noteq> 0" "\<not> 0 < old * f" using assms(1) by (simp_all add: old_def f_def)
  have c: "0 \<le> c" "\<bar>c\<bar> \<le> 2 ^ 53" "c \<le> \<bar>old\<bar>" "c \<le> \<bar>f\<bar>"
    using assms(5) f(1) by (simp_all add: c_def old_def)
  have realized: "p_realized_pnl (fill_position p side n price) = R'"
    unfolding fill_position_offset(1) [OF assms(1)]
    using c by (simp add: c_def old_def f_def z_def d_def R_def R'_def fadd_def fmul_def fsub_def)
  define avg' where "avg' = p_average_price (fill_position p side n price)"
  have "of_int c * z * d + of_int (old + f) * (mark - avg')
      = of_int old * (mark - p_average_price p) + of_int f * (mark - price)"
    using offset_exact [OF off(1) f(2) off(2), of price "p_average_price p" mark]
    unfolding avg'_def fill_position_offset(2) [OF assms(1)] old_def f_def c_def z_def d_def .
  then have diff: "position_value (fill_position p side n price) mark
      - (position_value p mark + of_int f * (mark - price)) = R' - (R + of_int c * z * d)"
    by (simp add: position_value_def realized avg'_def [symmetric] old_def [symmetric] f_def [symmetric] R_def)
  have err: "\<bar>R' - (R + of_int c * z * d)\<bar> \<le> (\<bar>R\<bar> + 4 * (of_int c * \<bar>z\<bar>)) / 2 ^ 53"
    unfolding R'_def using c(1) by (intro realize_error) (simp_all add: d_def)
  have "of_int c * \<bar>z\<bar> \<le> of_int c * p_average_price p + of_int c * price"
    using assms(3,4) c(1) by (auto simp: z_def distrib_left [symmetric] intro!: mult_left_mono)
  also have "\<dots> \<le> gross p side n price"
    unfolding gross_def old_def [symmetric] f_def [symmetric]
    using assms(3,4) c(3,4) by (intro add_mono mult_right_mono) (simp_all only: of_int_le_iff)
  finally have "of_int c * \<bar>z\<bar> \<le> gross p side n price" .
  then have "(\<bar>R\<bar> + 4 * (of_int c * \<bar>z\<bar>)) / 2 ^ 53 \<le> (\<bar>R\<bar> + 4 * gross p side n price) / 2 ^ 53"
    by (intro divide_right_mono) simp_all
  with err show ?thesis unfolding f_def [symmetric] diff R_def [symmetric] by linarith
qed

lemma fill_position_value:
  assumes "0 < n" "0 \<le> p_average_price p" "0 \<le> price" "\<bar>p_quantity p\<bar> + n \<le> 2 ^ 53"
  shows "\<bar>position_value (fill_position p side n price) mark
          - (position_value p mark + of_int (signed_quantity side n) * (mark - price))\<bar>
         \<le> (\<bar>p_realized_pnl p\<bar> + 4 * gross p side n price) / 2 ^ 53"
proof (cases "p_quantity p = 0 \<or> 0 < p_quantity p * signed_quantity side n")
  case True
  have "4 * gross p side n price / 2 ^ 53 \<le> (\<bar>p_realized_pnl p\<bar> + 4 * gross p side n price) / 2 ^ 53"
    by (intro divide_right_mono) simp_all
  with value_extend [OF True assms, of mark] show ?thesis by linarith
qed (rule value_offset [OF _ assms])

text \<open>The average price stays a price: not negative, and positive exactly while a position is open.\<close>

lemma fill_position_average:
  assumes "0 < n" "0 < price" "0 \<le> p_average_price p"
    and "p_quantity p = 0 \<longleftrightarrow> p_average_price p = 0"
  shows "0 \<le> p_average_price (fill_position p side n price)"
    "p_quantity (fill_position p side n price) = 0 \<longleftrightarrow> p_average_price (fill_position p side n price) = 0"
proof -
  have f: "signed_quantity side n \<noteq> 0" using assms(1) by (auto simp: signed_quantity_def)
  have "0 \<le> p_average_price (fill_position p side n price) \<and>
    (p_quantity (fill_position p side n price) = 0 \<longleftrightarrow> p_average_price (fill_position p side n price) = 0)"
  proof (cases "p_quantity p = 0 \<or> 0 < p_quantity p * signed_quantity side n")
    case True
    then have new: "p_quantity p + signed_quantity side n \<noteq> 0" using f by (auto simp: zero_less_mult_iff)
    have old: "0 \<le> fmul (p_average_price p) (float_of_int \<bar>p_quantity p\<bar>)"
      using assms(3) by (simp add: fmul_def float_of_int_def fl.nonneg)
    have "0 < p_average_price (fill_position p side n price)"
      unfolding fill_position_extend [OF True]
      using f new assms(2) old by (simp add: fdiv_pos fadd_pos fmul_pos)
    with new show ?thesis by simp
  next
    case False
    then have "0 < p_average_price p" using assms(3,4) by (auto simp: less_le)
    then show ?thesis using assms(2) by (simp add: fill_position_offset(2) [OF False])
  qed
  then show "0 \<le> p_average_price (fill_position p side n price)"
    "p_quantity (fill_position p side n price) = 0 \<longleftrightarrow> p_average_price (fill_position p side n price) = 0"
    by simp_all
qed

end
