(* ===== verification/Scenario.thy ===== *)
theory Scenario
  imports History Accounting
begin

text \<open>
  A concrete account the witnesses evaluate the model on: one instrument, a quote, default settings in
  paper and in live mode, a broker that answers with a given reply, and an empty database with the
  instrument and a connected broker account.
\<close>

definition ex_instrument :: instrument where
  "ex_instrument = \<lparr>i_id = ''ins'', i_exchange = ''NSE'', i_segment = ''EQ'', i_symbol = ''INFY'',
     i_trading_symbol = ''INFY'', i_name = None, i_instrument_type = ''EQUITY'', i_expiry_at = None,
     i_strike = None, i_option_type = None, i_lot_size = None, i_tick_size = None, i_broker_tokens = [(''DHAN'', JStr ''1594'')],
     i_metadata_json = [], i_is_active = True\<rparr>"

definition ex_quote :: "pyfloat \<Rightarrow> quote" where
  "ex_quote price = \<lparr>q_instrument_id = ''ins'', q_exchange = ''NSE'', q_segment = ''EQ'',
     q_trading_symbol = ''INFY'', q_source = ''DHAN'', q_mode = ''quote'', q_sequence = 1,
     q_exchange_timestamp = 0, q_received_at = 0, q_ltp = price, q_last_quantity = None, q_open = None,
     q_high = None, q_low = None, q_previous_close = None, q_volume = None, q_open_interest = None,
     q_bid = None, q_ask = None, q_stale = False\<rparr>"

definition paper_settings :: settings where
  "paper_settings = default_settings\<lparr>trading_mode := ''paper''\<rparr>"

definition live_settings :: settings where
  "live_settings = default_settings\<lparr>trading_mode := ''live'',
     trading_live_confirmation := ''ENABLE_DHAN_LIVE_ORDERS'', dhan_static_ip_confirmed := True\<rparr>"

definition ex_values :: "string \<Rightarrow> order_side \<Rightarrow> order_type \<Rightarrow> int \<Rightarrow> pyfloat option \<Rightarrow> order_values" where
  "ex_values cid side kind n price = \<lparr>v_client_order_id = cid, v_side = side, v_order_type = kind,
     v_product_type = INTRADAY, v_validity = DAY, v_quantity = n, v_limit_price = price,
     v_trigger_price = None\<rparr>"

definition ex_create :: "order_values \<Rightarrow> order_create" where
  "ex_create v = \<lparr>oc_instrument_id = ''ins'', oc_values = v\<rparr>"

definition ex_connection :: broker_connection where
  "ex_connection = \<lparr>b_id = ''con'', b_user_id = ''u'', b_broker = DHAN, b_broker_client_id = Some ''c'',
     b_encrypted_credentials = [], b_status = CONNECTED, b_token_expires_at = None, b_last_connected_at = None, b_last_checked_at = None,
     b_error_code = None\<rparr>"

definition ex_db :: db where
  "ex_db = empty_db\<lparr>t_instruments := \<lparr>rows = [ex_instrument], added = []\<rparr>,
     t_connections := \<lparr>rows = [ex_connection], added = []\<rparr>\<rparr>"

definition ex_session :: session where
  "ex_session = \<lparr>cur = ex_db, saved = ex_db, clock = 0, uuids = str_of_int \<circ> int, drawn = 0, wire = []\<rparr>"

text \<open>A broker that gives one answer to placements and another to everything else.\<close>

definition ex_world :: "reply \<Rightarrow> reply \<Rightarrow> world" where
  "ex_world post other = \<lparr>w_http = (\<lambda>_ req. if req_verb req = ''POST'' then post else other),
     w_repr = (\<lambda>_. []), w_decrypt = (\<lambda>_. Inr [(''access_token'', JStr ''t'')]),
     w_isoformat = (\<lambda>_. None)\<rparr>"

definition reply_json :: "json \<Rightarrow> reply" where
  "reply_json j = Replied 200 False (Some j)"

text \<open>A resting order of the account, and the database with it.\<close>

definition ex_order :: "string \<Rightarrow> string \<Rightarrow> order_side \<Rightarrow> int \<Rightarrow> pyfloat \<Rightarrow> trading_order" where
  "ex_order oid mode side n price =
     new_order oid ''u'' ex_instrument (ex_values oid side LIMIT n (Some price)) mode OPEN 0"

definition ex_position :: "int \<Rightarrow> pyfloat \<Rightarrow> trading_position" where
  "ex_position n price = \<lparr>p_user_id = ''u'', p_instrument_id = ''ins'', p_mode = ''PAPER'',
     p_product_type = INTRADAY, p_quantity = n, p_average_price = price, p_realized_pnl = 0,
     p_last_price = None\<rparr>"

text \<open>The account with two resting buy orders.\<close>

definition ex_resting :: "pyfloat \<Rightarrow> pyfloat \<Rightarrow> session" where
  "ex_resting p1 p2 =
     (let d = ex_db\<lparr>t_orders := \<lparr>rows = [ex_order ''a'' ''PAPER'' BUY 10 p1, ex_order ''b'' ''PAPER'' BUY 7 p2],
                                added = []\<rparr>\<rparr>
      in ex_session\<lparr>cur := d, saved := d\<rparr>)"

text \<open>The account with a live order that was sent and not answered.\<close>

definition ex_live_order :: trading_order where
  "ex_live_order = (ex_order ''a'' ''LIVE'' BUY 10 105)\<lparr>o_status := PENDING\<rparr>"

definition ex_pending :: session where
  "ex_pending = (let d = ex_db\<lparr>t_orders := \<lparr>rows = [ex_live_order], added = []\<rparr>\<rparr>
     in ex_session\<lparr>cur := d, saved := d\<rparr>)"

text \<open>The account with the two resting orders, halted.\<close>

definition ex_halted :: session where
  "ex_halted = (let s = ex_resting 105 95 in s\<lparr>cur := (cur s)\<lparr>t_controls :=
     \<lparr>rows = [\<lparr>c_scope_key = user_scope ''u'', c_user_id = Some ''u'', c_is_halted = True, c_reason = None,
               c_updated_by_user_id = Some ''u''\<rparr>], added = []\<rparr>\<rparr>\<rparr>)"

lemma book_ex_db: "book ex_db"
  by (simp add: book_def ledger_def ex_db_def empty_db_def position_sum_def fill_sum_def)

lemma between_ex_session: "between_events ex_session"
  using book_ex_db
  by (simp add: between_events_def durable_def ex_session_def ex_db_def empty_db_def clean_def constraints_def
      objs_def empty_table_def)

lemma book_ex_resting: "book (cur (ex_resting p1 p2))"
  by (simp add: ex_resting_def book_def ledger_def ex_db_def empty_db_def position_sum_def fill_sum_def
      objs_def ex_order_def order_booked_def exec_sum_def lifecycle_def ex_values_def signed_quantity_def Let_def)

lemma between_ex_resting: "between_events (ex_resting p1 p2)"
  using book_ex_resting [of p1 p2]
  by (simp add: between_events_def durable_def ex_resting_def ex_session_def ex_db_def empty_db_def clean_def
      constraints_def objs_def empty_table_def ex_order_def ex_values_def Let_def)

lemma ex_pending_facts:
  "constraints (cur ex_pending)" "ex_live_order \<in> set (objs (t_orders (cur ex_pending)))"
  "ex_live_order \<in> set (rows (t_orders (saved ex_pending)))"
  by (simp_all add: ex_pending_def ex_session_def ex_db_def empty_db_def constraints_def objs_def empty_table_def Let_def)

end
