(* ===== verification/EngineProps.thy ===== *)
theory EngineProps
  imports Scenario
begin

text \<open>
  Properties of the execution engine: what a booked execution does to the order, the ledger and the
  value of the position, at what price and when a paper order fills, and which limits a placement
  passed.
\<close>

section \<open>Booking\<close>

lemma exec_sum_booked:
  assumes "apply_execution now d r n price source bid tm = Inr (x, r', d')"
    and "find_execution d (o_user_id r) bid = None"
  shows "exec_sum d' (o_id r) = exec_sum d (o_id r) + n"
  using assms(1) by (cases rule: apply_execution_cases) (use assms(2) in \<open>simp_all add: exec_sum_def\<close>)

text \<open>
  C2. A new execution of \<open>n\<close> units is booked everywhere at once: the order's filled quantity and the
  executions of the order grow by \<open>n\<close>, never past the order's quantity, the order is \<open>FILLED\<close> exactly when
  nothing is left, the position of its key moves by the signed quantity and no other position moves.
\<close>

theorem booking_posts_everywhere:
  assumes "ledger d" "r \<in> set (objs (t_orders d))"
    and "apply_execution now d r n price source bid tm = Inr (x, r', d')"
    and "find_execution d (o_user_id r) bid = None"
  shows "r' \<in> set (objs (t_orders d')) \<and> x \<in> set (objs (t_executions d')) \<and>
    0 < n \<and> o_filled_quantity r' = o_filled_quantity r + n \<and> o_filled_quantity r' \<le> o_quantity r \<and>
    (o_status r' = FILLED \<longleftrightarrow> o_filled_quantity r' = o_quantity r) \<and>
    exec_sum d' (o_id r) = exec_sum d (o_id r) + n \<and>
    (\<forall>k. position_sum d' k = position_sum d k
       + (if k = order_position_key r then signed_quantity (o_side r) n else 0))"
  using assms(3)
proof (cases rule: apply_execution_cases)
  case known
  with assms(4) show ?thesis by simp
next
  case booked
  have moved: "position_sum d' k = position_sum d k
      + (if order_position_key r = k then signed_quantity (o_side r) n else 0)" for k
    unfolding booked(6) using ledgerD(2) [OF assms(1)]
    by (subst position_sum_settle) (simp_all add: position_sum_def)
  show ?thesis
    using applied_order(1) [OF assms(3,2)] exec_sum_booked [OF assms(3,4)] moved booked by auto
qed

lemma booking_posts_everywhere_witness:
  "\<exists>x r' d'. apply_execution 0 (add_order (ex_order ''o'' ''PAPER'' BUY 10 5) ex_db)
       (ex_order ''o'' ''PAPER'' BUY 10 5) 4 5 ''PAPER'' (Some ''x'') None = Inr (x, r', d') \<and>
     o_filled_quantity r' = 4 \<and> exec_sum d' ''o'' = 4"
proof -
  let ?r = "ex_order ''o'' ''PAPER'' BUY 10 5" and ?d = "add_order (ex_order ''o'' ''PAPER'' BUY 10 5) ex_db"
  have r: "o_filled_quantity ?r = 0" "o_id ?r = ''o''" "o_quantity ?r = 10"
    by (simp_all add: ex_order_def ex_values_def)
  have none: "find_execution ?d (o_user_id ?r) (Some ''x'') = None"
    by (simp add: find_execution_def ex_db_def empty_db_def)
  obtain x r' d' where run: "apply_execution 0 ?d ?r 4 5 ''PAPER'' (Some ''x'') None = Inr (x, r', d')"
    using none r by (simp add: apply_execution_def Let_def)
  have ledger: "ledger ?d"
    by (rule ledger_add_order [OF bookD(1) [OF book_ex_db]])
      (use r in \<open>simp_all add: ex_db_def empty_db_def\<close>)
  have sum: "exec_sum ?d ''o'' = 0" by (simp add: exec_sum_def ex_db_def empty_db_def)
  have "?r \<in> set (objs (t_orders ?d))" by simp
  from booking_posts_everywhere [OF ledger this run none] run r sum show ?thesis by auto
qed

text \<open>
  C3. A fill conserves value.  Booked at any price, a fill of \<open>n\<close> units changes the profit of the
  position, realized and unrealized, at any mark price by \<open>n\<close> signed times (mark - price): whether the
  position is opened, extended, reduced, closed or reversed, up to four float roundings of the amounts
  involved.
\<close>

theorem fill_conserves_value:
  assumes "0 < n" "0 \<le> p_average_price p" "0 \<le> price" "\<bar>p_quantity p\<bar> + n \<le> 2 ^ 53"
  shows "\<bar>position_value (fill_position p side n price) mark
          - (position_value p mark + of_int (signed_quantity side n) * (mark - price))\<bar>
         \<le> (\<bar>p_realized_pnl p\<bar> + 4 * gross p side n price) / 2 ^ 53"
  using assms by (rule fill_position_value)

lemma fill_conserves_value_witness:
  "\<bar>position_value (fill_position (ex_position 10 7) SELL 14 9) 11 - (10 * (11 - 7) - 14 * (11 - 9))\<bar>
   \<le> 4 * (10 * 7 + 14 * 9) / 2 ^ 53"
  using fill_conserves_value [of 14 "ex_position 10 7" 9 SELL 11]
  by (simp add: ex_position_def position_value_def gross_def signed_quantity_def)

text \<open>
  The average price of a position is meaningful: it is never negative, and it is zero exactly while
  the position is flat, whatever is filled at a positive price.
\<close>

theorem average_price_tracks_position:
  assumes "0 < n" "0 < price" "0 \<le> p_average_price p" "p_quantity p = 0 \<longleftrightarrow> p_average_price p = 0"
  shows "0 \<le> p_average_price (fill_position p side n price) \<and>
    (p_quantity (fill_position p side n price) = 0 \<longleftrightarrow> p_average_price (fill_position p side n price) = 0)"
  using fill_position_average [OF assms] by simp

lemma average_price_tracks_position_witness:
  "p_average_price (fill_position (ex_position 10 7) SELL 10 9) = 0 \<and>
   0 \<le> p_average_price (fill_position (ex_position 10 7) SELL 14 9)"
  using average_price_tracks_position [of 10 9 "ex_position 10 7" SELL]
    average_price_tracks_position [of 14 9 "ex_position 10 7" SELL]
  by (simp add: ex_position_def signed_quantity_def)

text \<open>
  An execution of the broker is booked once.  Presented again after a commit, under the same
  broker execution id, it changes nothing and returns the row of the first booking, whatever quantity
  and price come with it.
\<close>

theorem execution_booked_once:
  assumes "apply_execution now d r n price source (Some b) tm = Inr (x, r', d')" "b \<noteq> []"
    and "flush d' = Inr d1" "o_user_id q = o_user_id r"
  shows "\<exists>y. apply_execution now2 d1 q m price2 source2 (Some b) tm2 = Inr (y, q, d1) \<and>
    x_broker_execution_id y = Some b \<and> x_user_id y = o_user_id r"
proof -
  have d1: "d1 = flush_all d'" using assms(3) by (simp add: flush_def split: if_splits)
  have x: "x \<in> set (objs (t_executions d')) \<and> x_user_id x = o_user_id r \<and> x_broker_execution_id x = Some b"
    using assms(1)
  proof (cases rule: apply_execution_cases)
    case known
    with assms(2) show ?thesis
      by (auto simp: find_execution_def split: if_splits dest!: find_SomeD intro: rows_in_objs)
  next
    case booked
    then show ?thesis by simp
  qed
  then obtain y where y: "find_execution d1 (o_user_id q) (Some b) = Some y"
    using assms(2,4) d1 by (cases "find_execution d1 (o_user_id q) (Some b)")
      (auto simp: find_execution_def dest: find_NoneD)
  then have "x_broker_execution_id y = Some b \<and> x_user_id y = o_user_id r"
    using assms(2,4) by (auto simp: find_execution_def dest: find_SomeD)
  with y show ?thesis by (simp add: apply_execution_def)
qed

lemma execution_booked_once_witness:
  "\<exists>x r' d' d1 y. apply_execution 0 (add_order (ex_order ''o'' ''PAPER'' BUY 10 5) ex_db)
       (ex_order ''o'' ''PAPER'' BUY 10 5) 4 5 ''PAPER'' (Some ''x'') None = Inr (x, r', d') \<and>
     apply_execution 9 d1 (ex_order ''o'' ''PAPER'' BUY 10 5) 6 8 ''PAPER'' (Some ''x'') None = Inr (y, ex_order ''o'' ''PAPER'' BUY 10 5, d1)"
proof -
  let ?r = "ex_order ''o'' ''PAPER'' BUY 10 5" and ?d = "add_order (ex_order ''o'' ''PAPER'' BUY 10 5) ex_db"
  obtain x r' d' where run: "apply_execution 0 ?d ?r 4 5 ''PAPER'' (Some ''x'') None = Inr (x, r', d')"
    by (simp add: apply_execution_def Let_def find_execution_def ex_db_def empty_db_def ex_order_def ex_values_def)
  have "constraints d'"
    using run by (auto simp: apply_execution_def Let_def find_execution_def ex_db_def empty_db_def constraints_def
        settle_position_def find_position_def objs_def empty_table_def ex_order_def ex_values_def
        insert_row_def put_row_def add_order_def put_order_def add_execution_def add_position_def execution_of_def execution_key_def)
  then have "flush d' = Inr (flush_all d')" by (simp add: flush_def)
  from execution_booked_once [OF run _ this, of ?r 9 6 8 "''PAPER''" None] run show ?thesis by auto
qed

text \<open>
  A fill the order has no room for, or of no units, is refused with
  \<open>INVALID_EXECUTION_QUANTITY\<close>, and nothing else is: every other new execution is booked.
\<close>

theorem overfill_is_refused:
  assumes "find_execution d (o_user_id r) bid = None"
  shows "apply_execution now d r n price source bid tm = Inl e \<longleftrightarrow>
    e = trading_error ''INVALID_EXECUTION_QUANTITY'' \<and> (n \<le> 0 \<or> o_quantity r - o_filled_quantity r < n)"
  using assms by (auto simp: apply_execution_def Let_def)

lemma overfill_is_refused_witness:
  "apply_execution 0 ex_db (ex_order ''o'' ''PAPER'' BUY 10 5) 11 5 ''PAPER'' (Some ''x'') None
   = Inl (trading_error ''INVALID_EXECUTION_QUANTITY'')"
  using overfill_is_refused [of ex_db "ex_order ''o'' ''PAPER'' BUY 10 5" "Some ''x''" 0 11 5 "''PAPER''" None]
  by (simp add: find_execution_def ex_db_def empty_db_def ex_order_def ex_values_def)

end
