(* ===== verification/Frames.thy ===== *)
theory Frames
  imports TradingApi
begin

text \<open>
  What trading leaves alone.  The order manager, the reconciler and the trading endpoints write orders,
  executions, positions, controls and the state of a broker connection; every other part of the database
  is only flushed by their commits.  The locale \<open>order_frame\<close> states it for a part \<open>view\<close> of the database
  and what a flush makes of that part, \<open>settle\<close>; each operation is proved once, and the locale is
  interpreted for the strategy tables and for the identity tables.
\<close>

text \<open>
  An operation reads one instant, draws from the stream of texts it was given, and makes nothing durable that is
  pending or breaks a constraint.
\<close>

definition supplied :: "session \<Rightarrow> session \<Rightarrow> bool" where
  "supplied s s' \<longleftrightarrow> clock s' = clock s \<and> uuids s' = uuids s \<and> drawn s \<le> drawn s' \<and>
     (clean (saved s) \<and> constraints (saved s) \<longrightarrow> clean (saved s') \<and> constraints (saved s'))"

lemma supplied_refl [simp]: "supplied s s"
  by (simp add: supplied_def)

lemma supplied_trans: "supplied a b \<Longrightarrow> supplied b c \<Longrightarrow> supplied a c"
  by (simp add: supplied_def)

text \<open>The same between two states with time in between.\<close>

definition runs_on :: "session \<Rightarrow> session \<Rightarrow> bool" where
  "runs_on s s' \<longleftrightarrow> clock s \<le> clock s' \<and> uuids s' = uuids s \<and> drawn s \<le> drawn s' \<and>
     (clean (saved s) \<and> constraints (saved s) \<longrightarrow> clean (saved s') \<and> constraints (saved s'))"

lemma runs_on_refl [simp]: "runs_on s s"
  by (simp add: runs_on_def)

lemma supplied_runs_on: "supplied s s' \<Longrightarrow> runs_on s s' \<and> runs_on s (rollback s')"
  by (simp add: supplied_def runs_on_def rollback_def)

text \<open>From \<open>s\<close> to \<open>s'\<close> the part has at most been flushed, and made durable.\<close>

definition framed :: "(db \<Rightarrow> 'v) \<Rightarrow> ('v \<Rightarrow> 'v) \<Rightarrow> session \<Rightarrow> session \<Rightarrow> bool" where
  "framed view settle s s' \<longleftrightarrow>
     view (cur s') \<in> {view (cur s), settle (view (cur s))} \<and>
     view (saved s') \<in> {view (saved s), settle (view (cur s))} \<and> supplied s s'"

lemmas framed_unfold = framed_def supplied_def

text \<open>The part is durable, and the open transaction has not touched it.\<close>

definition calm :: "(db \<Rightarrow> 'v) \<Rightarrow> ('v \<Rightarrow> 'v) \<Rightarrow> 'v \<Rightarrow> session \<Rightarrow> bool" where
  "calm view settle v s \<longleftrightarrow> view (cur s) = v \<and> view (saved s) = v \<and> settle v = v"

lemma framed_refl [simp]: "framed view settle s s"
  by (simp add: framed_unfold)

lemma framed_same: "cur s' = cur s \<Longrightarrow> saved s' = saved s \<Longrightarrow> supplied s s' \<Longrightarrow> framed view settle s s'"
  by (simp add: framed_unfold)

lemma framed_calls: "calls_once s s' \<Longrightarrow> framed view settle s s'"
  by (intro framed_same) (auto simp: calls_once_def supplied_def)

lemma calm_framed: "calm view settle v s \<Longrightarrow> framed view settle s s' \<Longrightarrow> calm view settle v s'"
  by (auto simp: calm_def framed_unfold)

lemma calm_rollback: "calm view settle v s \<Longrightarrow> calm view settle v (rollback s)"
  by (simp add: calm_def)

text \<open>A call, then a continuation on each kind of result.\<close>

lemma snd_case_result:
  "snd (case called of (Inl e, s) \<Rightarrow> f e s | (Inr x, s) \<Rightarrow> g x s) =
   (case called of (Inl e, s) \<Rightarrow> snd (f e s) | (Inr x, s) \<Rightarrow> snd (g x s))"
  by (simp split: prod.splits sum.splits)

locale order_frame =
  fixes view :: "db \<Rightarrow> 'v" and settle :: "'v \<Rightarrow> 'v"
  assumes settle_settle: "settle (settle v) = settle v"
    and view_flush: "view (flush_all d) = settle (view d)"
    and view_put: "view (put_order r d) = view d"
    and view_add: "view (add_order r d) = view d"
    and view_connection: "view (put_connection b d) = view d"
    and view_controls: "view (d\<lparr>t_controls := cs\<rparr>) = view d"
    and view_apply: "apply_execution now d r n price source bid tm = Inr (x, r', d') \<Longrightarrow> view d' = view d"
begin

lemma framed_trans: "framed view settle a b \<Longrightarrow> framed view settle b c \<Longrightarrow> framed view settle a c"
  by (auto simp: framed_unfold settle_settle)

lemma framed_bind:
  assumes "framed view settle s (snd called)"
    and "\<And>e s'. called = (Inl e, s') \<Longrightarrow> framed view settle s' (snd (f e s'))"
    and "\<And>x s'. called = (Inr x, s') \<Longrightarrow> framed view settle s' (snd (g x s'))"
  shows "framed view settle s (snd (case called of (Inl e, s') \<Rightarrow> f e s' | (Inr x, s') \<Rightarrow> g x s'))"
  using assms by (cases called) (auto split: sum.splits intro: framed_trans)

lemma framed_cur: "view d = view (cur s) \<Longrightarrow> framed view settle s (s\<lparr>cur := d\<rparr>)"
  by (simp add: framed_unfold)

lemma framed_save: "framed view settle s (save_order r s)"
  by (simp add: framed_unfold view_put)

lemma framed_commit: "framed view settle s (snd (commit s))"
  by (cases "constraints (cur s)") (simp_all add: commit_def flush_def framed_unfold view_flush)

lemma framed_commit_return: "framed view settle s (snd (commit_return x s))"
  by (cases rule: commit_return_cases [of x s]) (simp_all add: framed_unfold view_flush)

lemma framed_save_commit: "framed view settle s (snd (commit_return x (save_order r s)))"
  by (rule framed_trans [OF framed_save framed_commit_return])

lemma framed_commit_raise: "framed view settle s (snd (commit_raise code s))"
  unfolding commit_raise_def by (rule framed_bind [OF framed_commit]) simp_all

lemma framed_save_raise: "framed view settle s (snd (commit_raise code (save_order r s)))"
  by (rule framed_trans [OF framed_save framed_commit_raise])

lemmas framed_ends = framed_commit framed_commit_return framed_save_commit framed_commit_raise framed_save_raise

section \<open>The paper engine\<close>

lemma framed_paper_fill: "framed view settle s (snd (paper_fill cfg q r n s))"
  by (auto simp: paper_fill_def framed_unfold draw_def split: sum.splits dest: view_apply)

lemma framed_paper_submit: "framed view settle s (snd (paper_submit cfg uid ins v oq s))"
proof -
  let ?r = "new_order (fresh s) uid ins v ''PAPER'' OPEN (clock s)"
  let ?s1 = "(draw s)\<lparr>cur := add_order ?r (cur s)\<rparr>"
  define s2 where "s2 = ?s1\<lparr>cur := flush_all (cur ?s1)\<rparr>"
  have s1: "framed view settle s ?s1" by (simp add: framed_unfold view_add)
  have s2: "framed view settle s s2" by (simp add: framed_unfold s2_def view_add view_flush)
  have fill: "framed view settle s2 (snd (case paper_fill cfg q ?r n s2 of
      (Inl e, s3) \<Rightarrow> (Inl e, s3) | (Inr r', s3) \<Rightarrow> commit_return r' s3))" for q n
    by (rule framed_bind [OF framed_paper_fill]) (simp_all add: framed_commit_return)
  show ?thesis
  proof (cases "constraints (cur ?s1)")
    case False
    with s1 show ?thesis by (simp add: paper_submit_def Let_def flush_def)
  next
    case True
    then have flushed: "flush (cur ?s1) = Inr (flush_all (cur ?s1))" by (simp add: flush_def)
    show ?thesis
      unfolding paper_submit_def Let_def flushed sum.case s2_def [symmetric]
      by (rule framed_trans [OF s2]) (simp add: fill framed_ends)
  qed
qed

lemma framed_paper:
  "framed view settle s (snd (paper_place cfg uid ins v oq s))"
  "framed view settle s (snd (paper_cancel r s))"
  "framed view settle s (snd (paper_modify cfg r n price oq s))"
proof -
  show "framed view settle s (snd (paper_place cfg uid ins v oq s))"
    by (auto simp: paper_place_def framed_paper_submit split: option.splits)
  show "framed view settle s (snd (paper_cancel r s))"
    by (auto simp: paper_cancel_def Let_def framed_save_commit)
  have fill: "framed view settle s2 (snd (case paper_fill cfg q r1 k s2 of
      (Inl e, s3) \<Rightarrow> (Inl e, s3) | (Inr r', s3) \<Rightarrow> commit_return r' s3))" for q k r1 s2
    by (rule framed_bind [OF framed_paper_fill]) (simp_all add: framed_commit_return)
  show "framed view settle s (snd (paper_modify cfg r n price oq s))"
    using framed_trans [OF framed_save fill] framed_save_commit
    by (auto simp: paper_modify_def Let_def)
qed

lemma framed_process_quote: "framed view settle s (snd (process_quote cfg uid q s))"
proof -
  have "framed view settle s (snd (fill_crossing cfg q rs k s))" for rs k s
  proof (induction cfg q rs k s rule: fill_crossing.induct)
    case (2 cfg q r rs k s)
    show ?case
    proof (cases "is_crossing r q")
      case True
      have "framed view settle s (snd (case paper_fill cfg q r (o_quantity r - o_filled_quantity r) s of
          (Inl e, s') \<Rightarrow> (Inl e, s') | (Inr r', s') \<Rightarrow> fill_crossing cfg q rs (Suc k) s'))"
        by (rule framed_bind [OF framed_paper_fill]) (use True 2(1) in simp_all)
      with True show ?thesis by simp
    qed (use 2 in simp)
  qed simp
  then show ?thesis
    unfolding process_quote_def by (rule framed_bind) (simp_all add: framed_commit_return)
qed

section \<open>Live orders\<close>

lemma framed_adapter:
  "framed view settle s (snd (dhan_place w credentials client_id ins r s))"
  "framed view settle s (snd (dhan_modify w credentials client_id r s))"
  "framed view settle s (snd (dhan_cancel w credentials client_id r s))"
  "framed view settle s (snd (order_book w credentials client_id s))"
  "framed view settle s (snd (trade_book w credentials client_id s))"
  by (rule framed_calls, rule adapter_once, rule surjective_pairing)+

lemma framed_connection: "framed view settle s (snd (dhan_connection w uid s))"
proof -
  have "framed view settle s (snd (case commit (s\<lparr>cur := put_connection b (cur s)\<rparr>) of
      (Inl e, s') \<Rightarrow> (Inl e, s') | (Inr u, s') \<Rightarrow> (Inl x, s')))" for b and x :: exn
    by (rule framed_bind, rule framed_trans [OF framed_cur framed_commit]) (simp_all add: view_connection)
  then show ?thesis
    by (auto simp: dhan_connection_def Let_def split: option.splits sum.splits)
qed

lemma framed_answers:
  "framed view settle s (snd (placed pr r response s))"
  "framed view settle s (snd (canceled r response s))"
  "framed view settle s (snd (modified r response s))"
proof -
  show "framed view settle s (snd (placed pr r response s))"
    using framed_save framed_trans [OF framed_save framed_save_commit]
    by (auto simp: placed_def Let_def split: sum.splits)
qed (auto simp: canceled_def modified_def Let_def framed_ends split: sum.splits)

lemma framed_failures:
  "framed view settle s (snd (place_failed r code ambiguous s))"
  "framed view settle s (snd (cancel_failed prior r code ambiguous s))"
  "framed view settle s (snd (modify_failed n price r code ambiguous s))"
  by (simp_all add: place_failed_def cancel_failed_def modify_failed_def Let_def framed_ends)

text \<open>A request whose answer is written to the row, with the handler of the adapter's errors.\<close>

lemma framed_except:
  assumes "framed view settle s (snd called)"
    and "\<And>x s. framed view settle s (snd (answer x s))"
    and "\<And>code ambiguous s. framed view settle s (snd (handler code ambiguous s))"
  shows "framed view settle s
    (snd (except_dhan (case called of (Inl e, s') \<Rightarrow> (Inl e, s') | (Inr x, s') \<Rightarrow> answer x s') handler))"
proof -
  have "framed view settle s (snd outcome) \<Longrightarrow> framed view settle s (snd (except_dhan outcome handler))"
    for outcome
    using assms(3) by (cases outcome)
      (auto simp: except_dhan_def split: sum.splits exn.splits intro: framed_trans)
  moreover have "framed view settle s
      (snd (case called of (Inl e, s') \<Rightarrow> (Inl e, s') | (Inr x, s') \<Rightarrow> answer x s'))"
    using assms(1) by (rule framed_bind) (simp_all add: assms(2))
  ultimately show ?thesis by blast
qed

lemma framed_live_submit: "framed view settle s (snd (live_submit w credentials client_id ins r s))"
  unfolding live_submit_def by (rule framed_except) (simp_all add: framed_adapter framed_answers framed_failures)

lemma framed_live_place: "framed view settle s (snd (live_place w cfg uid ins v oq s))"
proof -
  have added: "framed view settle s ((draw s)\<lparr>cur := add_order r (cur s)\<rparr>)" for r s
    by (simp add: framed_unfold view_add)
  have submit: "framed view settle s (snd (case commit ((draw s)\<lparr>cur := add_order r (cur s)\<rparr>) of
      (Inl e, s2) \<Rightarrow> (Inl e, s2) | (Inr u, s2) \<Rightarrow> live_submit w credentials client_id ins r s2))"
    for r credentials client_id s
    by (rule framed_bind, rule framed_trans [OF added framed_commit]) (simp_all add: framed_live_submit)
  obtain res s1 where c: "dhan_connection w uid s = (res, s1)" by (cases "dhan_connection w uid s")
  have conn: "framed view settle s s1" using framed_connection [of s w uid] c by simp
  show ?thesis
    using conn framed_trans [OF conn submit]
    by (cases res) (auto simp: live_place_def c Let_def split: option.splits)
qed

lemma framed_live_cancel: "framed view settle s (snd (live_cancel w cfg r s))"
proof -
  have sent: "framed view settle s (snd (case commit (save_order r1 s) of
      (Inl e, s2) \<Rightarrow> (Inl e, s2)
    | (Inr u, s2) \<Rightarrow> except_dhan (case dhan_cancel w credentials client_id r1 s2 of
          (Inl e, s3) \<Rightarrow> (Inl e, s3) | (Inr response, s3) \<Rightarrow> canceled r1 response s3) (cancel_failed st r1)))"
    for r1 st credentials client_id s
    by (rule framed_bind, rule framed_trans [OF framed_save framed_commit])
      (simp_all add: framed_except framed_adapter framed_answers framed_failures)
  obtain res s1 where c: "dhan_connection w (o_user_id r) s = (res, s1)"
    by (cases "dhan_connection w (o_user_id r) s")
  have conn: "framed view settle s s1" using framed_connection [of s w "o_user_id r"] c by simp
  show ?thesis
    using conn framed_trans [OF conn sent]
    by (cases res) (auto simp: live_cancel_def c Let_def split: option.splits)
qed

lemma framed_live_modify: "framed view settle s (snd (live_modify w cfg r n price s))"
proof -
  have sent: "framed view settle s (snd (except_dhan (case dhan_modify w credentials client_id r1 (save_order r1 s) of
      (Inl e, s2) \<Rightarrow> (Inl e, s2) | (Inr response, s2) \<Rightarrow> modified r1 response s2) (modify_failed n0 p0 r1)))"
    for r1 n0 p0 credentials client_id s
    by (rule framed_trans [OF framed_save [of s r1]], rule framed_except)
      (simp_all add: framed_adapter framed_answers framed_failures framed_trans [OF framed_save framed_adapter(2)])
  obtain res s1 where c: "dhan_connection w (o_user_id r) s = (res, s1)"
    by (cases "dhan_connection w (o_user_id r) s")
  have conn: "framed view settle s s1" using framed_connection [of s w "o_user_id r"] c by simp
  show ?thesis
    using conn framed_trans [OF conn sent]
    by (cases res) (auto simp: live_modify_def c Let_def split: option.splits)
qed

lemma framed_manager:
  "framed view settle s (snd (manager_place w cfg uid ins v oq s))"
  "framed view settle s (snd (manager_cancel w cfg r s))"
  "framed view settle s (snd (manager_modify w cfg r n price oq s))"
  by (simp_all add: manager_place_def manager_cancel_def manager_modify_def framed_paper framed_live_place
      framed_live_cancel framed_live_modify)

section \<open>Reconciliation\<close>

lemma view_link: "link_orders pr byc items d byb = Inr (d', byb') \<Longrightarrow> view d' = view d"
  by (induction pr byc items d byb rule: link_orders.induct)
    (auto simp: Let_def view_put split: sum.splits option.splits if_splits)

lemma view_book_trade: "book_trade now r n price eid tm d = Inr d' \<Longrightarrow> view d' = view d"
  by (auto simp: book_trade_def view_put split: sum.splits exn.splits prod.splits dest: view_apply)

lemma view_trades: "book_trades w now byb items d = Inr d' \<Longrightarrow> view d' = view d"
proof (induction items arbitrary: d)
  case (Cons item items)
  then show ?case
    by (auto simp: Let_def split: sum.splits option.splits if_splits) (metis view_book_trade)
qed simp

lemma view_statuses: "take_statuses pr now byb byc items d = Inr d' \<Longrightarrow> view d' = view d"
  by (induction items arbitrary: d) (auto simp: view_put split: sum.splits option.splits)

lemma view_reconcile: "reconcile_apply w now uid os ts d = Inr d' \<Longrightarrow> view d' = view d"
  by (auto simp: reconcile_apply_def Let_def split: sum.splits prod.splits
      dest!: view_link view_trades view_statuses)

lemma calm_reconcile_connection:
  assumes "calm view settle v s"
  shows "calm view settle v (reconcile_connection w b s) \<and> supplied s (reconcile_connection w b s)"
proof -
  have fetched: "calm view settle v s1 \<and> supplied s s1"
    if "fetch_books w credentials client_id s = (res, s1)" for credentials client_id res s1
    using fetch_books_frame [OF that] assms by (simp add: calm_def supplied_def)
  have committed: "calm view settle v s2 \<and> supplied s s2"
    if "commit (s1\<lparr>cur := d\<rparr>) = (res, s2)" "calm view settle v s1 \<and> supplied s s1" "view d = view (cur s1)"
    for s1 d res s2
    using calm_framed [OF _ framed_trans [OF framed_cur [OF that(3)] framed_commit], of v]
      framed_trans [OF framed_cur [OF that(3)] framed_commit] that(1,2) by (simp add: framed_unfold)
  have done_with: "calm view settle v (rollback s1) \<and> supplied s (rollback s1)"
    if "calm view settle v s1 \<and> supplied s s1" for s1
    using that by (simp add: calm_rollback) (simp add: rollback_def supplied_def)
  show ?thesis
  proof (cases "w_decrypt w (b_encrypted_credentials b)")
    case (Inl e)
    then show ?thesis using assms done_with by (simp add: reconcile_connection_def)
  next
    case (Inr credentials)
    define client_id where "client_id = jstr (w_repr w)
      (jor (jor (jfield credentials ''client_id'') (text_or_null (b_broker_client_id b))) (JStr []))"
    obtain books s1 where f: "fetch_books w credentials client_id s = (books, s1)"
      by (cases "fetch_books w credentials client_id s")
    have calm1: "calm view settle v s1 \<and> supplied s s1" by (rule fetched [OF f])
    have applied: "calm view settle v (case commit (s1\<lparr>cur := d\<rparr>) of (Inl e, s2) \<Rightarrow> rollback s2 | (Inr u, s2) \<Rightarrow> s2) \<and>
        supplied s (case commit (s1\<lparr>cur := d\<rparr>) of (Inl e, s2) \<Rightarrow> rollback s2 | (Inr u, s2) \<Rightarrow> s2)"
      if "reconcile_apply w (clock s1) (b_user_id b) os ts (cur s1) = Inr d" for os ts d
    proof (cases "commit (s1\<lparr>cur := d\<rparr>)")
      case (Pair res s2)
      with committed [OF Pair calm1 view_reconcile [OF that]] done_with [of s2]
      show ?thesis by (cases res) simp_all
    qed
    show ?thesis
      using assms calm1 done_with [OF calm1] applied
      by (auto simp: reconcile_connection_def Inr f client_id_def [symmetric] Let_def split: sum.splits)
  qed
qed

lemma calm_reconcile_tick:
  assumes "calm view settle v s"
  shows "calm view settle v (reconcile_tick w cfg s) \<and> supplied s (reconcile_tick w cfg s)"
proof -
  have "calm view settle v (foldl (\<lambda>s b. reconcile_connection w b s) s bs) \<and>
      supplied s (foldl (\<lambda>s b. reconcile_connection w b s) s bs)" for bs
    using assms
  proof (induction bs arbitrary: s)
    case (Cons b bs)
    with calm_reconcile_connection [OF Cons.prems, of w b] show ?case by (auto intro: supplied_trans)
  qed simp
  with assms show ?thesis by (simp add: reconcile_tick_def reconcile_once_def)
qed

section \<open>The events\<close>

lemma framed_respond: "framed view settle s (snd called) \<Longrightarrow> framed view settle s (snd (respond called))"
  unfolding respond_def by (rule framed_bind) (simp_all add: framed_commit_return)

lemma framed_control: "framed view settle s (s\<lparr>cur := set_control scope owner actor halt why (cur s)\<rparr>)"
  by (rule framed_cur) (auto simp: set_control_def Let_def view_controls split: option.splits)

theorem calm_system_step:
  assumes "calm view settle v s"
  shows "calm view settle v (system_step w cfg ev s) \<and> runs_on s (system_step w cfg ev s)"
proof -
  have by_frame: "calm view settle v (rollback s') \<and> runs_on s (rollback s')" if "framed view settle s s'" for s'
    using calm_rollback [OF calm_framed [OF assms that]] that by (simp add: framed_def supplied_runs_on)
  show ?thesis
  proof (cases ev)
    case (PlaceOrder uid oc oq)
    have "framed view settle s (snd (place_order w cfg uid oc oq s))"
      by (auto simp: place_order_def framed_respond framed_manager split: option.splits)
    then show ?thesis by (simp add: PlaceOrder by_frame)
  next
    case (ModifyOrder uid oid n price oq)
    have "framed view settle s (snd (modify_order w cfg uid oid n price oq s))"
      by (auto simp: modify_order_def framed_respond framed_manager split: sum.splits)
    then show ?thesis by (simp add: ModifyOrder by_frame)
  next
    case (CancelOrder uid oid)
    have "framed view settle s (snd (cancel_order w cfg uid oid s))"
      by (auto simp: cancel_order_def framed_respond framed_manager split: sum.splits)
    then show ?thesis by (simp add: CancelOrder by_frame)
  next
    case (KillSwitch uid halt why)
    show ?thesis
      by (simp add: KillSwitch kill_switch_def by_frame framed_trans [OF framed_control framed_commit_return])
  next
    case (GlobalKillSwitch admin halt why)
    show ?thesis
      by (simp add: GlobalKillSwitch global_kill_switch_def by_frame
          framed_trans [OF framed_control framed_commit_return])
  next
    case (QuoteArrives uid q)
    then show ?thesis using assms by (simp add: by_frame framed_process_quote)
  next
    case Reconcile
    have "calm view settle v (rollback (reconcile_tick w cfg s)) \<and> runs_on s (rollback (reconcile_tick w cfg s))"
      using calm_reconcile_tick [OF assms, of w cfg] by (simp add: calm_rollback supplied_runs_on)
    then show ?thesis by (simp add: Reconcile)
  next
    case (TimePasses n)
    then show ?thesis using assms by (simp add: calm_def runs_on_def)
  qed
qed

end

section \<open>The parts trading leaves alone\<close>

lemma put_connection_frame [simp]:
  "t_strategy (put_connection b d) = t_strategy d" "t_identity (put_connection b d) = t_identity d"
  by (simp_all add: put_connection_def)

interpretation strategies: order_frame t_strategy flush_strategy
  by unfold_locales (simp_all add: apply_execution_frame)

interpretation identity: order_frame t_identity flush_identity
  by unfold_locales (simp_all add: apply_execution_frame)

end
