(* ===== verification/FillProps.thy ===== *)
theory FillProps
  imports EngineProps Frames
begin

text \<open>
  When and at what price the paper engine fills.
\<close>

section \<open>Prices\<close>

text \<open>
  A limit order that crosses is filled at the touch, the ask for a buy and the bid for a sell (the
  last price when there is none), and so never at a price worse than its limit.
\<close>

theorem limit_fills_at_the_touch:
  assumes "o_order_type r = LIMIT" "is_crossing r q"
  shows "fill_price r q bps = reference_price (o_side r) q \<and>
    (case o_limit_price r of
       None \<Rightarrow> False
     | Some limit \<Rightarrow> if o_side r = BUY then fill_price r q bps \<le> limit else limit \<le> fill_price r q bps)"
  using assms by (auto simp: is_crossing_def fill_price_def float_or_def Let_def split: option.splits if_splits)

lemma limit_fills_at_the_touch_witness:
  "fill_price (ex_order ''o'' ''PAPER'' BUY 10 105) (ex_quote 100) 2 = 100"
  using limit_fills_at_the_touch [of "ex_order ''o'' ''PAPER'' BUY 10 105" "ex_quote 100" 2]
  by (simp add: ex_order_def new_order_def ex_values_def is_crossing_def reference_price_def ex_quote_def
      float_or_def)

lemma slippage_multiplier:
  assumes "0 \<le> bps"
  shows "1 \<le> fadd 1 (fdiv bps 10000)" "fsub 1 (fdiv bps 10000) \<le> 1"
proof -
  have "0 \<le> fdiv bps 10000" using assms by (simp add: fdiv_def fl.nonneg)
  then show "1 \<le> fadd 1 (fdiv bps 10000)" "fsub 1 (fdiv bps 10000) \<le> 1"
    using fl.above_fixed [of 1 "1 + fdiv bps 10000"] fl.below_fixed [of "1 - fdiv bps 10000" 1]
    by (simp_all add: fadd_def fsub_def)
qed

text \<open>
  Slippage is never in the customer's favour.  With a reference price of at most eight decimals, a
  market buy is filled at or above it and a market sell at or below it, for every slippage setting the
  configuration allows.
\<close>

theorem market_slippage_is_adverse:
  assumes "o_order_type r = MARKET" "0 \<le> bps" "0 \<le> reference_price (o_side r) q"
    and "pyround8 (reference_price (o_side r) q) = reference_price (o_side r) q"
  shows "if o_side r = BUY then reference_price (o_side r) q \<le> fill_price r q bps
    else fill_price r q bps \<le> reference_price (o_side r) q"
proof -
  define x where "x = reference_price (o_side r) q"
  have fixed: "fl x = x" "pyround8 x = x"
    using assms(4) is_float_ops(7) [of x] by (simp_all add: x_def is_float_def)
  have up: "x \<le> pyround8 (fmul x m)" if "1 \<le> m" for m
  proof -
    have "x \<le> x * m" using that assms(3) mult_left_mono [of 1 m x] by (simp add: x_def)
    then have "x \<le> fmul x m" unfolding fmul_def using fixed(1) by (rule fl.above_fixed)
    then show ?thesis using fixed(2) by (rule round8.above_fixed)
  qed
  have down: "pyround8 (fmul x m) \<le> x" if "m \<le> 1" for m
  proof -
    have "x * m \<le> x" using that assms(3) mult_left_mono [of m 1 x] by (simp add: x_def)
    then have "fmul x m \<le> x" unfolding fmul_def using fixed(1) by (rule fl.below_fixed)
    then show ?thesis using fixed(2) by (rule round8.below_fixed)
  qed
  show ?thesis
    using up [OF slippage_multiplier(1) [OF assms(2)]] down [OF slippage_multiplier(2) [OF assms(2)]] assms(1)
    by (cases "o_side r = BUY") (simp_all add: fill_price_def x_def Let_def)
qed

lemma market_slippage_is_adverse_witness:
  "100 \<le> fill_price (ex_order ''o'' ''PAPER'' BUY 10 5\<lparr>o_order_type := MARKET\<rparr>) (ex_quote 100) 2"
proof -
  have "pyround8 100 = 100" by code_simp
  then show ?thesis
    using market_slippage_is_adverse [of "ex_order ''o'' ''PAPER'' BUY 10 5\<lparr>o_order_type := MARKET\<rparr>" 2 "ex_quote 100"]
    by (simp add: ex_order_def new_order_def ex_values_def reference_price_def ex_quote_def float_or_def)
qed

section \<open>One fill of a resting order\<close>

text \<open>The ids the engine will draw are new: \<^verbatim>\<open>uuid4\<close> does not repeat.\<close>

definition fresh_fill_ids :: "session \<Rightarrow> string \<Rightarrow> bool" where
  "fresh_fill_ids s uid \<longleftrightarrow>
     (\<forall>i x. drawn s \<le> i \<longrightarrow> x \<in> set (rows (t_executions (cur s))) \<longrightarrow>
            execution_key x \<noteq> Some (uid, ''paper-'' @ uuids s i))"

lemma fresh_fill_none:
  assumes "fresh_fill_ids s uid"
  shows "find_execution (cur s) uid (Some (''paper-'' @ fresh s)) = None"
  using assms
  by (auto simp: find_execution_def find_None_iff fresh_fill_ids_def execution_key_def fresh_def)

lemma paper_fill_resting:
  assumes "fresh_fill_ids s (o_user_id r)" "lifecycle r" "o_mode r = ''PAPER''"
    and "o_status r \<in> open_order_statuses" "paper_fill cfg q r (o_quantity r - o_filled_quantity r) s = (res, s')"
  defines "r' \<equiv> fill_order r (o_quantity r - o_filled_quantity r) (fill_price r q (paper_slippage_bps cfg)) (clock s)"
  shows "res = Inr r'" "o_status r' = FILLED" "o_filled_quantity r' = o_quantity r"
    "t_orders (cur s') = put_row o_id r' (t_orders (cur s))"
    "rows (t_executions (cur s')) = rows (t_executions (cur s))"
    "drawn s' = Suc (drawn s)" "uuids s' = uuids s" "saved s' = saved s"
    "t_positions (cur s') = t_positions (settle_position r (o_quantity r - o_filled_quantity r)
        (fill_price r q (paper_slippage_bps cfg)) (cur s))"
proof -
  have q: "0 < o_quantity r - o_filled_quantity r" "o_filled_quantity r = 0"
    using assms(2-4) by (auto simp: lifecycle_def open_order_statuses_def)
  let ?n = "o_quantity r - o_filled_quantity r" and ?price = "fill_price r q (paper_slippage_bps cfg)"
  let ?x = "execution_of r ?n ?price ''PAPER'' (Some (''paper-'' @ fresh s)) (clock s)"
  have run: "(res, s') = (Inr r', (draw s)\<lparr>cur :=
      settle_position r ?n ?price (put_order r' (add_execution ?x (cur s)))\<rparr>)"
    using fresh_fill_none [OF assms(1)] q assms(5) unfolding r'_def
    by (simp add: paper_fill_def apply_execution_def Let_def)
  have pos: "t_positions (settle_position r ?n ?price (put_order r' (add_execution ?x (cur s))))
      = t_positions (settle_position r ?n ?price (cur s))"
    by (simp add: settle_position_def find_position_def split: option.splits)
  show "res = Inr r'" "t_orders (cur s') = put_row o_id r' (t_orders (cur s))"
    "rows (t_executions (cur s')) = rows (t_executions (cur s))"
    "drawn s' = Suc (drawn s)" "uuids s' = uuids s" "saved s' = saved s"
    "t_positions (cur s') = t_positions (settle_position r ?n ?price (cur s))"
    using run pos by simp_all
  show "o_status r' = FILLED" "o_filled_quantity r' = o_quantity r" using q by (simp_all add: r'_def)
qed

section \<open>One quote\<close>

lemma fresh_ex_resting: "fresh_fill_ids (ex_resting p1 p2) uid"
  by (simp add: fresh_fill_ids_def ex_resting_def ex_db_def empty_db_def Let_def)

definition count_added :: "string \<times> string \<times> string \<times> product_type \<Rightarrow> db \<Rightarrow> nat" where
  "count_added k d = length (filter (\<lambda>p. position_key p = k) (added (t_positions d)))"

lemma settle_position_new:
  assumes "find_position d k = None"
  shows "find_position (settle_position r n price d) k = None"
    "count_added k (settle_position r n price d) = count_added k d + (if order_position_key r = k then 1 else 0)"
  using assms
  by (auto simp: settle_position_def find_position_def count_added_def find_None_iff
      split: option.splits dest!: find_SomeD dest: in_upd_byD)

lemma fresh_fill_ids_step:
  "fresh_fill_ids s uid \<Longrightarrow> rows (t_executions (cur s')) = rows (t_executions (cur s)) \<Longrightarrow>
   drawn s' = Suc (drawn s) \<Longrightarrow> uuids s' = uuids s \<Longrightarrow> fresh_fill_ids s' uid"
  by (simp add: fresh_fill_ids_def)

text \<open>What the loop over the resting orders \<open>rs\<close> of a user leaves behind.\<close>

definition crossing_filled :: "quote \<Rightarrow> trading_order list \<Rightarrow> db \<Rightarrow> db \<Rightarrow> bool" where
  "crossing_filled q rs d d' \<longleftrightarrow>
     (\<forall>r \<in> set rs. is_crossing r q \<longrightarrow>
        (\<exists>r' \<in> set (objs (t_orders d')). o_id r' = o_id r \<and> o_status r' = FILLED \<and>
           o_filled_quantity r' = o_quantity r)) \<and>
     (\<forall>x \<in> set (objs (t_orders d)). (\<forall>r \<in> set rs. is_crossing r q \<longrightarrow> o_id r \<noteq> o_id x) \<longrightarrow>
        x \<in> set (objs (t_orders d'))) \<and>
     (\<forall>k. find_position d k = None \<longrightarrow> find_position d' k = None \<and>
        count_added k d' = count_added k d
          + length (filter (\<lambda>r. is_crossing r q \<and> order_position_key r = k) rs))"

lemma crossing_filled_step:
  assumes "crossing_filled q rs d1 d'" "is_crossing r q"
    and "t_orders d1 = put_row o_id r1 (t_orders d)" "r \<in> set (objs (t_orders d))"
    and "o_id r1 = o_id r" "o_status r1 = FILLED" "o_filled_quantity r1 = o_quantity r" "o_id r \<notin> o_id ` set rs"
    and "t_positions d1 = t_positions (settle_position r n price d)"
  shows "crossing_filled q (r # rs) d d'"
proof -
  have r1: "r1 \<in> set (objs (t_orders d1))"
    using assms(3-5) by (auto intro: in_upd_by_self [where ?r0.0 = r])
  moreover have "\<forall>x \<in> set rs. o_id x \<noteq> o_id r1" using assms(5,8) by (metis image_eqI)
  ultimately have "r1 \<in> set (objs (t_orders d'))"
    using assms(1) unfolding crossing_filled_def by blast
  moreover have "x \<in> set (objs (t_orders d1))" if "x \<in> set (objs (t_orders d))" "o_id x \<noteq> o_id r" for x
    using that assms(3,5) by (auto intro!: in_upd_by_other)
  moreover have "find_position d1 k = None \<and> count_added k d1 = count_added k d + (if order_position_key r = k then 1 else 0)"
    if "find_position d k = None" for k
    using settle_position_new [OF that, of r n price] assms(9) by (simp add: find_position_def count_added_def)
  ultimately show ?thesis
    using assms(1,2,5-7) unfolding crossing_filled_def by (auto 0 3)
qed

lemma fill_crossing_fills:
  assumes "book (cur s)" "set rs \<subseteq> set (objs (t_orders (cur s)))" "distinct (map o_id rs)"
    and "\<forall>r \<in> set rs. o_mode r = ''PAPER'' \<and> o_status r \<in> open_order_statuses \<and> o_user_id r = uid"
    and "fresh_fill_ids s uid"
  shows "\<exists>s'. fill_crossing cfg q rs k s = (Inr (k + length (filter (\<lambda>r. is_crossing r q) rs)), s') \<and>
    saved s' = saved s \<and> crossing_filled q rs (cur s) (cur s')"
  using assms
proof (induction rs arbitrary: k s)
  case Nil
  then show ?case by (simp add: crossing_filled_def)
next
  case (Cons r rs)
  show ?case
  proof (cases "is_crossing r q")
    case False
    with Cons.IH [of s k] Cons.prems show ?thesis by (auto simp: crossing_filled_def)
  next
    case True
    have r: "lifecycle r" "o_mode r = ''PAPER''" "o_status r \<in> open_order_statuses" "o_user_id r = uid"
      "r \<in> set (objs (t_orders (cur s)))" "o_id r \<notin> o_id ` set rs"
      using Cons.prems bookD(2) by (auto simp: image_iff)
    obtain res s1 where f: "paper_fill cfg q r (o_quantity r - o_filled_quantity r) s = (res, s1)"
      by (cases "paper_fill cfg q r (o_quantity r - o_filled_quantity r) s")
    note step = paper_fill_resting [OF _ r(1-3) f, unfolded r(4), OF Cons.prems(5)]
    have "book (cur s1)" using books.paper_fill_good [OF Cons.prems(1) r(5) f _ r(3)] by simp
    moreover have "set rs \<subseteq> set (objs (t_orders (cur s1)))"
      using Cons.prems(2) r(6) step(4) by (auto simp: image_iff intro!: in_upd_by_other)
    moreover have "fresh_fill_ids s1 uid"
      by (rule fresh_fill_ids_step [OF Cons.prems(5) step(5-7)])
    ultimately obtain s' where run: "fill_crossing cfg q rs (Suc k) s1 =
        (Inr (Suc k + length (filter (\<lambda>r. is_crossing r q) rs)), s')"
      and s': "saved s' = saved s1" "crossing_filled q rs (cur s1) (cur s')"
      using Cons.IH [of s1 "Suc k"] Cons.prems by auto
    have "crossing_filled q (r # rs) (cur s) (cur s')"
      by (rule crossing_filled_step [OF s'(2) True step(4) r(5) _ step(2,3) r(6) step(9)]) simp
    then show ?thesis using run True f step(1,8) s' by simp
  qed
qed

lemma resting_orders_ready:
  assumes "book (cur s)"
  shows "set (resting_orders (cur s) uid iid) \<subseteq> set (objs (t_orders (cur s)))"
    "distinct (map o_id (resting_orders (cur s) uid iid))"
    "\<forall>r \<in> set (resting_orders (cur s) uid iid).
       o_mode r = ''PAPER'' \<and> o_status r \<in> open_order_statuses \<and> o_user_id r = uid"
  using distinct_resting_orders [OF ledgerD(1) [OF bookD(1) [OF assms]]]
  by (auto simp: open_order_statuses_def dest: resting_ordersD)

lemma resting_run:
  assumes "book (cur s)" "fresh_fill_ids s uid"
  shows "\<exists>s1. fill_crossing cfg q (resting_orders (cur s) uid iid) 0 s =
      (Inr (length (filter (\<lambda>r. is_crossing r q) (resting_orders (cur s) uid iid))), s1) \<and>
    saved s1 = saved s \<and> crossing_filled q (resting_orders (cur s) uid iid) (cur s) (cur s1)"
  using fill_crossing_fills [OF assms(1) resting_orders_ready [OF assms(1)] assms(2), where k = 0] by simp

text \<open>
  C9. A quote fills exactly the resting paper orders of that user and instrument that it crosses.  When
  the round is committed, its result is the number of those orders, each of them is \<open>FILLED\<close> for its whole
  quantity, and every other order is as it was.
\<close>

theorem quote_fills_exactly_the_crossing_orders:
  assumes "book (cur s)" "fresh_fill_ids s uid" "process_quote cfg uid q s = (Inr n, s')"
  defines "crossing \<equiv> filter (\<lambda>r. is_crossing r q) (resting_orders (cur s) uid (q_instrument_id q))"
  shows "n = length crossing \<and>
    (\<forall>r \<in> set crossing. \<exists>r' \<in> set (objs (t_orders (cur s'))). o_id r' = o_id r \<and> o_status r' = FILLED \<and>
       o_filled_quantity r' = o_quantity r) \<and>
    (\<forall>x \<in> set (objs (t_orders (cur s))). x \<notin> set crossing \<longrightarrow> x \<in> set (objs (t_orders (cur s'))))"
proof -
  define rs where "rs = resting_orders (cur s) uid (q_instrument_id q)"
  obtain s1 where run: "fill_crossing cfg q rs 0 s = (Inr (length crossing), s1)"
    and filled: "crossing_filled q rs (cur s) (cur s1)"
    using resting_run [OF assms(1,2), of cfg q "q_instrument_id q"] unfolding rs_def crossing_def by blast
  have same: "objs (t_orders (cur s')) = objs (t_orders (cur s1))" and n: "n = length crossing"
    using assms(3) run by (auto simp: process_quote_def rs_def commit_return_Inr split: if_splits)
  have "x \<in> set (objs (t_orders (cur s1)))"
    if "x \<in> set (objs (t_orders (cur s)))" "x \<notin> set crossing" for x
  proof -
    have "o_id r \<noteq> o_id x" if "r \<in> set rs" "is_crossing r q" for r
    proof
      assume "o_id r = o_id x"
      moreover have "r \<in> set (objs (t_orders (cur s)))"
        using \<open>r \<in> set rs\<close> resting_orders_ready(1) [OF assms(1)] by (auto simp: rs_def)
      ultimately have "r = x"
        using distinct_map_eqD [OF ledgerD(1) [OF bookD(1) [OF assms(1)]]] \<open>x \<in> set (objs _)\<close> by blast
      then show False using that \<open>x \<notin> set crossing\<close> by (simp add: crossing_def rs_def)
    qed
    then show ?thesis using filled \<open>x \<in> set (objs _)\<close> unfolding crossing_filled_def by blast
  qed
  then show ?thesis
    using filled n unfolding same crossing_filled_def crossing_def rs_def [symmetric] by simp
qed

lemma quote_fills_exactly_the_crossing_orders_witness:
  "\<exists>s'. process_quote paper_settings ''u'' (ex_quote 100) (ex_resting 105 95) = (Inr 1, s') \<and>
     ex_order ''b'' ''PAPER'' BUY 7 95 \<in> set (objs (t_orders (cur s')))"
proof -
  let ?q = "ex_quote 100" and ?s = "ex_resting 105 95"
  have "fst (process_quote paper_settings ''u'' ?q ?s) = Inr 1" by code_simp
  then obtain s' where run: "process_quote paper_settings ''u'' ?q ?s = (Inr 1, s')"
    by (cases "process_quote paper_settings ''u'' ?q ?s") simp
  have "\<not> is_crossing (ex_order ''b'' ''PAPER'' BUY 7 95) ?q" by code_simp
  then show ?thesis
    using quote_fills_exactly_the_crossing_orders [OF book_ex_resting fresh_ex_resting run] run
    by (auto simp: ex_resting_def objs_def Let_def)
qed

text \<open>Two resting orders of one position that has no row yet, both crossed by the quotes of \<open>qs\<close>.\<close>

definition both_open ::
  "string \<Rightarrow> string \<Rightarrow> quote list \<Rightarrow> trading_order \<Rightarrow> trading_order \<Rightarrow> db \<Rightarrow> bool" where
  "both_open uid iid qs r1 r2 d \<longleftrightarrow>
     r1 \<noteq> r2 \<and> r1 \<in> set (resting_orders d uid iid) \<and> r2 \<in> set (resting_orders d uid iid) \<and>
     order_position_key r2 = order_position_key r1 \<and> find_position d (order_position_key r1) = None \<and>
     (\<forall>q \<in> set qs. q_instrument_id q = iid \<and> is_crossing r1 q \<and> is_crossing r2 q)"

lemma two_openings_break_the_round:
  assumes "book (cur s)" "fresh_fill_ids s uid" "both_open uid iid [q] r1 r2 (cur s)"
  shows "\<exists>s'. process_quote cfg uid q s = (Inl IntegrityError, s') \<and> saved s' = saved s"
proof -
  define rs where "rs = resting_orders (cur s) uid (q_instrument_id q)"
  define k where "k = order_position_key r1"
  have pair: "r1 \<in> set rs" "r2 \<in> set rs" "r1 \<noteq> r2" "is_crossing r1 q" "is_crossing r2 q" "order_position_key r1 = k"
    "order_position_key r2 = k" and none: "find_position (cur s) k = None"
    using assms(3) by (simp_all add: both_open_def rs_def k_def)
  let ?hit = "\<lambda>r. is_crossing r q \<and> order_position_key r = k"
  obtain s1 where run: "fill_crossing cfg q rs 0 s = (Inr (length (filter (\<lambda>r. is_crossing r q) rs)), s1)"
    and saved: "saved s1 = saved s" and filled: "crossing_filled q rs (cur s) (cur s1)"
    using resting_run [OF assms(1,2), of cfg q "q_instrument_id q"] unfolding rs_def by blast
  have "card {r1, r2} \<le> card (set (filter ?hit rs))"
    using pair by (intro card_mono) auto
  then have two: "2 \<le> length (filter ?hit rs)" using pair(3) card_length [of "filter ?hit rs"] by simp
  have "count_added k (cur s1) = count_added k (cur s) + length (filter ?hit rs)"
    using filled none unfolding crossing_filled_def by blast
  then have "2 \<le> count_added k (cur s1)" using two by linarith
  have "\<not> constraints (cur s1)"
  proof
    assume "constraints (cur s1)"
    then have "distinct (map position_key (added (t_positions (cur s1))))" by (simp add: constraints_def objs_def)
    then have "distinct (map position_key (filter (\<lambda>p. position_key p = k) (added (t_positions (cur s1)))))"
      by (rule distinct_map_filter)
    moreover have "map position_key (filter (\<lambda>p. position_key p = k) ps) = replicate (length (filter (\<lambda>p. position_key p = k) ps)) k" for ps
      by (induction ps) auto
    moreover obtain j where "count_added k (cur s1) = Suc (Suc j)"
      using le_Suc_ex [OF \<open>2 \<le> count_added k (cur s1)\<close>] by auto
    ultimately show False by (simp add: count_added_def)
  qed
  moreover have "filter (\<lambda>r. is_crossing r q) rs \<noteq> []"
    using pair(1,4) by (auto simp: filter_empty_conv)
  ultimately show ?thesis
    using run saved by (simp add: process_quote_def rs_def commit_return_def commit_def flush_def)
qed

text \<open>Rounds at given times: a round that raised is rolled back before the next one.\<close>

fun quote_rounds ::
  "settings \<Rightarrow> string \<Rightarrow> (instant \<times> quote) list \<Rightarrow> session \<Rightarrow> (exn + nat) list \<times> session" where
  "quote_rounds cfg uid [] s = ([], s)"
| "quote_rounds cfg uid ((t, q) # rest) s =
     (let (r, s1) = process_quote cfg uid q (s\<lparr>clock := t\<rparr>);
          (rs, s2) = quote_rounds cfg uid rest (rollback s1)
      in (r # rs, s2))"

text \<open>
  C10. Two resting orders that would open the same position are not filled while every quote crosses both.  With no
  position row yet, both fills add one (the session does not flush before its queries), the commit fails on the unique
  constraint of positions, and nothing of the round is kept.  So however many quotes come, at whatever times: as long as
  each of them crosses both orders, every round ends in an integrity error, and the database, the two open orders in it,
  is after the last one what it was before the first.  (A quote that crosses only one of them fills that one.)
\<close>

theorem two_openings_are_never_filled:
  assumes "book (cur s)" "saved s = cur s" "fresh_fill_ids s uid" "both_open uid iid (map snd rounds) r1 r2 (cur s)"
  shows "\<exists>s'. quote_rounds cfg uid rounds s = (replicate (length rounds) (Inl IntegrityError), s') \<and>
    cur s' = cur s \<and> saved s' = saved s"
  using assms
proof (induction rounds arbitrary: s)
  case (Cons round rounds)
  obtain t q where round: "round = (t, q)" by (cases round)
  let ?s = "s\<lparr>clock := t\<rparr>"
  have "fresh_fill_ids ?s uid" "both_open uid iid [q] r1 r2 (cur ?s)"
    using Cons.prems(3,4) by (simp_all add: round fresh_fill_ids_def both_open_def)
  then obtain s1 where run: "process_quote cfg uid q ?s = (Inl IntegrityError, s1)" and saved: "saved s1 = saved s"
    using two_openings_break_the_round [of ?s uid iid q r1 r2 cfg] Cons.prems(1) by auto
  have "drawn s \<le> drawn s1" "uuids s1 = uuids s"
    using strategies.framed_process_quote [of ?s cfg uid q] by (simp_all add: run framed_unfold)
  moreover have same: "cur (rollback s1) = cur s" "saved (rollback s1) = saved s"
    using saved Cons.prems(2) by (simp_all add: rollback_def)
  ultimately have "fresh_fill_ids (rollback s1) uid"
    using Cons.prems(3) by (auto simp: fresh_fill_ids_def rollback_def)
  then show ?case
    using Cons.IH [of "rollback s1"] Cons.prems(1,2,4) unfolding same by (auto simp: round run both_open_def)
qed simp

lemma two_openings_are_never_filled_witness:
  "\<exists>s'. quote_rounds paper_settings ''u'' [(0, ex_quote 100), (60, ex_quote 99)] (ex_resting 105 110) =
     ([Inl IntegrityError, Inl IntegrityError], s') \<and> cur s' = cur (ex_resting 105 110) \<and>
     saved s' = saved (ex_resting 105 110)"
proof -
  let ?s = "ex_resting 105 110"
  let ?a = "ex_order ''a'' ''PAPER'' BUY 10 105" and ?b = "ex_order ''b'' ''PAPER'' BUY 7 110"
  have cross: "is_crossing ?a (ex_quote 100)" "is_crossing ?b (ex_quote 100)" "is_crossing ?a (ex_quote 99)"
    "is_crossing ?b (ex_quote 99)" by code_simp+
  have rest: "?a \<in> set (resting_orders (cur ?s) ''u'' ''ins'')" "?b \<in> set (resting_orders (cur ?s) ''u'' ''ins'')"
    by (simp_all add: resting_orders_def ex_resting_def ex_order_def ex_instrument_def Let_def)
  have keys: "order_position_key ?b = order_position_key ?a" "?a \<noteq> ?b"
    by (simp_all add: order_position_key_def ex_order_def new_order_def ex_values_def)
  have none: "find_position (cur ?s) (order_position_key ?a) = None"
    by (simp add: find_position_def ex_resting_def ex_db_def empty_db_def Let_def)
  have "q_instrument_id (ex_quote p) = ''ins''" for p by (simp add: ex_quote_def ex_instrument_def)
  then have "both_open ''u'' ''ins'' (map snd [(0, ex_quote 100), (60, ex_quote 99)]) ?a ?b (cur ?s)"
    using cross rest keys none by (simp add: both_open_def)
  moreover have "saved ?s = cur ?s" by (simp add: ex_resting_def Let_def)
  ultimately show ?thesis
    using two_openings_are_never_filled [OF book_ex_resting _ fresh_ex_resting,
        of 105 110 "''u''" "''ins''" "[(0, ex_quote 100), (60, ex_quote 99)]" ?a ?b paper_settings]
    by simp
qed

end
