(* ===== verification/RiskProps.thy ===== *)
theory RiskProps
  imports FillProps
begin

text \<open>
  Properties of placement: the limits, the kill switches, the idempotency of client order ids, and what
  reaches the broker.
\<close>

section \<open>What a placement can do\<close>

definition untouched :: "session \<Rightarrow> session \<Rightarrow> bool" where
  "untouched s s' \<longleftrightarrow> t_orders (cur s') = t_orders (cur s) \<and> t_executions (cur s') = t_executions (cur s) \<and>
     t_positions (cur s') = t_positions (cur s) \<and> wire s' = wire s \<and>
     (saved s' = saved s \<or> saved s' = cur s')"

lemma untouched_refl [simp]: "untouched s s"
  by (simp add: untouched_def)

text \<open>The limits of the settings, as the code checks them, at a price and in a mode.\<close>

definition within_limits ::
  "settings \<Rightarrow> db \<Rightarrow> string \<Rightarrow> instrument \<Rightarrow> order_values \<Rightarrow> pyfloat \<Rightarrow> string \<Rightarrow> bool" where
  "within_limits cfg d uid ins v price mode \<longleftrightarrow>
     \<not> halted d uid \<and> v_quantity v \<le> trading_max_order_quantity cfg \<and>
     fmul (float_of_int (v_quantity v)) price \<le> trading_max_order_notional cfg \<and>
     int (open_count d uid) < trading_max_open_orders cfg \<and>
     \<bar>position_quantity d uid (i_id ins) mode (v_product_type v) + signed_quantity (v_side v) (v_quantity v)\<bar>
       \<le> trading_max_absolute_position cfg"

lemma risk_check_None:
  "risk_check cfg d uid ins (v_side v) (v_product_type v) (v_quantity v) price mode = None
   \<longleftrightarrow> within_limits cfg d uid ins v price mode"
  by (auto simp: risk_check_def within_limits_def control_check_def)

definition execution_mode :: "settings \<Rightarrow> string" where
  "execution_mode cfg = (if trading_mode cfg = ''paper'' then ''PAPER'' else ''LIVE'')"

definition risk_price :: "order_values \<Rightarrow> quote option \<Rightarrow> pyfloat option" where
  "risk_price v oq = (case oq of Some q \<Rightarrow> Some (q_ltp q) | None \<Rightarrow> v_limit_price v)"

text \<open>A connection may be marked for re-authentication, and that is committed; nothing else happens.\<close>

lemma commit_connection_objs:
  assumes "commit (s\<lparr>cur := put_connection b (cur s)\<rparr>) = (res, s')" "clean (cur s)"
  shows "untouched s s'"
  using assms
  by (auto simp: commit_def flush_def untouched_def put_connection_def flush_all_def flush_table_def clean_def
      objs_def split: if_splits sum.splits intro!: table.equality)

lemma dhan_connection_untouched:
  assumes "dhan_connection w uid s = (res, s')" "clean (cur s)"
  shows "untouched s s'"
  using assms commit_connection_objs [OF _ assms(2)]
  by (auto simp: dhan_connection_def Let_def split: option.splits if_splits sum.splits prod.splits)

lemma placement_cases:
  assumes "manager_place w cfg uid ins v oq s = (res, s')" "clean (cur s)"
  obtains (same) "untouched s s'"
  | (passed) price where "find_client_order (cur s) uid (v_client_order_id v) = None"
      "trading_mode cfg \<noteq> ''disabled''" "execution_mode cfg = ''PAPER'' \<or> live_gate cfg = None"
      "risk_price v oq = Some price"
      "within_limits cfg (cur s) uid ins v price (execution_mode cfg)"
proof -
  have paper: "untouched s s' \<or> (find_client_order (cur s) uid (v_client_order_id v) = None \<and>
      place_guard cfg s uid ins v oq = None)"
    if "trading_mode cfg = ''paper''"
    using assms(1) that by (auto simp: manager_place_def paper_place_def split: option.splits if_splits)
  have paper_limits: "\<exists>price. risk_price v oq = Some price \<and> within_limits cfg (cur s) uid ins v price ''PAPER''"
    if "place_guard cfg s uid ins v oq = None"
    using that
    by (auto simp: place_guard_def risk_price_def risk_check_None split: option.splits if_splits)
  have live: "untouched s s' \<or> (find_client_order (cur s) uid (v_client_order_id v) = None \<and>
      live_gate cfg = None \<and> live_place_guard cfg s uid ins v oq = None)"
    if "trading_mode cfg \<noteq> ''disabled''" "trading_mode cfg \<noteq> ''paper''"
    using assms(1) that dhan_connection_untouched [OF _ assms(2)]
    by (auto simp: manager_place_def live_place_def split: option.splits if_splits)
  have live_limits: "\<exists>price. risk_price v oq = Some price \<and> within_limits cfg (cur s) uid ins v price ''LIVE''"
    if "live_place_guard cfg s uid ins v oq = None"
    using that
    by (auto simp: live_place_guard_def quote_check_def risk_price_def risk_check_None
        split: option.splits if_splits)
  show thesis
  proof (cases "untouched s s'")
    case True
    then show thesis by (rule same)
  next
    case False
    then have "trading_mode cfg \<noteq> ''disabled''"
      using assms(1) by (auto simp: manager_place_def)
    with False paper paper_limits live live_limits passed show thesis
      by (cases "trading_mode cfg = ''paper''") (auto simp: execution_mode_def)
  qed
qed

text \<open>
  C11. No order is created, filled or sent to the broker unless it passed every limit.  If a placement
  changes the orders, executions or positions, or sends a request, then the account was not halted and
  the order was within the limits on quantity, notional, open orders and absolute position, in paper
  and in live mode alike.
\<close>

theorem placement_passed_every_limit:
  assumes "manager_place w cfg uid ins v oq s = (res, s')" "clean (cur s)"
    and "t_orders (cur s') \<noteq> t_orders (cur s) \<or> t_executions (cur s') \<noteq> t_executions (cur s) \<or>
      t_positions (cur s') \<noteq> t_positions (cur s) \<or> wire s' \<noteq> wire s"
  shows "\<exists>price. risk_price v oq = Some price \<and>
    within_limits cfg (cur s) uid ins v price (execution_mode cfg)"
  using assms(1,2)
proof (cases rule: placement_cases)
  case same
  with assms(3) show ?thesis by (auto simp: untouched_def)
qed blast

lemma placement_passed_every_limit_witness:
  "\<exists>price. risk_price (ex_values ''a'' BUY MARKET 10 None) (Some (ex_quote 100)) = Some price \<and>
     within_limits paper_settings (cur ex_session) ''u'' ex_instrument (ex_values ''a'' BUY MARKET 10 None) price
       (execution_mode paper_settings)"
proof -
  let ?call = "manager_place (ex_world NoReply NoReply) paper_settings ''u'' ex_instrument
     (ex_values ''a'' BUY MARKET 10 None) (Some (ex_quote 100)) ex_session"
  have changed: "rows (t_orders (cur (snd ?call))) \<noteq> []" by code_simp
  have empty: "rows (t_orders (cur ex_session)) = []" "clean (cur ex_session)"
    using between_ex_session by (simp_all add: between_events_def durable_def ex_session_def ex_db_def empty_db_def)
  have "t_orders (cur (snd ?call)) \<noteq> t_orders (cur ex_session)"
    using changed empty(1) by metis
  with placement_passed_every_limit [OF prod.collapse [symmetric] empty(2)] show ?thesis by metis
qed

section \<open>Kill switches\<close>

text \<open>The durable state of orders, executions and positions, and the wire, are as before.\<close>

definition same_books :: "session \<Rightarrow> session \<Rightarrow> bool" where
  "same_books s s' \<longleftrightarrow> rows (t_orders (saved s')) = rows (t_orders (saved s)) \<and>
     rows (t_executions (saved s')) = rows (t_executions (saved s)) \<and>
     rows (t_positions (saved s')) = rows (t_positions (saved s)) \<and> wire s' = wire s"

lemma between_facts:
  assumes "between_events s"
  shows "cur s = saved s" "clean (saved s)" "constraints (saved s)" "book (saved s)"
  using assms by (simp_all add: between_events_def durable_def)

lemma clean_flush_rows:
  "clean d \<Longrightarrow> rows (t_orders (flush_all d)) = rows (t_orders d) \<and>
   rows (t_executions (flush_all d)) = rows (t_executions d) \<and>
   rows (t_positions (flush_all d)) = rows (t_positions d)"
  by (simp add: clean_def objs_def)

text \<open>A request whose operation touched nothing leaves the books as they were.\<close>

lemma respond_same_books:
  assumes "between_events s" "untouched s (snd called)"
  shows "same_books s (rollback (snd (respond called)))"
proof (cases called)
  case (Pair res s1)
  have u: "t_orders (cur s1) = t_orders (saved s)" "t_executions (cur s1) = t_executions (saved s)"
    "t_positions (cur s1) = t_positions (saved s)" "wire s1 = wire s" "saved s1 = saved s \<or> saved s1 = cur s1"
    using assms Pair between_facts(1) [OF assms(1)] by (auto simp: untouched_def)
  then have "same_books s s1" by (auto simp: same_books_def)
  moreover have "same_books s (s1\<lparr>cur := flush_all (cur s1), saved := flush_all (cur s1)\<rparr>)"
    using u(1-4) between_facts(2) [OF assms(1)] by (simp add: same_books_def clean_def objs_def)
  moreover have "snd (respond called) = s1 \<or>
      snd (respond called) = s1\<lparr>cur := flush_all (cur s1), saved := flush_all (cur s1)\<rparr>"
  proof (cases res)
    case (Inr x)
    then show ?thesis
      using Pair by (cases rule: commit_return_cases [of x s1]) (simp_all add: respond_def)
  qed (simp add: respond_def Pair)
  ultimately show ?thesis by (auto simp: same_books_def)
qed

lemma place_event_same_books:
  assumes "between_events s"
    and "\<And>ins. active_instrument (cur s) (oc_instrument_id oc) = Some ins \<Longrightarrow>
      untouched s (snd (manager_place w cfg uid ins (oc_values oc) oq s))"
  shows "same_books s (system_step w cfg (PlaceOrder uid oc oq) s)"
proof -
  have self: "same_books s (rollback s)" by (simp add: same_books_def)
  show ?thesis
  proof (cases "active_instrument (cur s) (oc_instrument_id oc)")
    case None
    with self show ?thesis by (simp add: place_order_def)
  next
    case (Some ins)
    with self respond_same_books [OF assms(1) assms(2) [OF Some]] show ?thesis
      by (simp add: place_order_def)
  qed
qed

lemma halted_placement_untouched:
  assumes "halted (cur s) uid" "clean (cur s)"
  shows "untouched s (snd (manager_place w cfg uid ins v oq s))"
  using prod.collapse [symmetric] assms(2)
  by (rule placement_cases) (use assms(1) in \<open>auto simp: within_limits_def\<close>)

lemma set_control_halts:
  assumes "clean d" "constraints d" "scope \<in> {''GLOBAL'', user_scope uid}"
  shows "constraints (set_control scope owner actor True reason d)"
    "halted (flush_all (set_control scope owner actor True reason d)) uid"
proof -
  let ?d = "set_control scope owner actor True reason d"
  have rows: "objs (t_controls d) = rows (t_controls d)" using assms(1) by (rule clean_objs)
  have keys: "distinct (map c_scope_key (rows (t_controls d)))"
    using assms(2) by (simp add: constraints_def rows)
  show "constraints ?d"
  proof (cases "List.find (\<lambda>c. c_scope_key c = scope) (rows (t_controls d))")
    case None
    then have "scope \<notin> c_scope_key ` set (rows (t_controls d))" by (auto simp: find_None_iff)
    with None assms(2) show ?thesis by (simp add: set_control_def constraints_def rows Let_def)
  next
    case (Some c)
    with assms(2) show ?thesis by (simp add: set_control_def constraints_def Let_def)
  qed
  show "halted (flush_all ?d) uid"
  proof (cases "List.find (\<lambda>c. c_scope_key c = scope) (rows (t_controls d))")
    case None
    then show ?thesis using assms(3) by (auto simp: set_control_def halted_def Let_def)
  next
    case (Some c)
    let ?c = "c\<lparr>c_is_halted := True, c_reason := reason, c_updated_by_user_id := Some actor\<rparr>"
    have "?c \<in> set (upd_by c_scope_key ?c (rows (t_controls d)))"
      using find_SomeD [OF Some] by (auto intro: in_upd_by_self [where ?r0.0 = c])
    then show ?thesis using Some assms(3) find_SomeD [OF Some]
      by (auto simp: set_control_def halted_def rows Let_def intro!: bexI [of _ ?c])
  qed
qed

text \<open>
  C12. A kill switch takes hold at once.  After the account's own switch, or the global one of an
  administrator, the account is halted, and no placement of it, in paper or live mode, changes an order,
  an execution or a position or sends anything to the broker.
\<close>

theorem kill_switch_stops_placement:
  fixes s :: session and w :: world and cfg :: settings
  assumes "between_events s"
    and "ev = KillSwitch uid True reason \<or> (ev = GlobalKillSwitch admin True reason \<and> u_role admin = ADMIN)"
  defines "s1 \<equiv> system_step w cfg ev s"
  shows "halted (saved s1) uid \<and> (\<forall>oc oq. same_books s1 (system_step w cfg (PlaceOrder uid oc oq) s1))"
proof -
  note b = between_facts [OF assms(1)]
  have halt: "halted (saved s1) uid"
    using assms(2) set_control_halts [OF b(2,3), of "user_scope uid" uid "Some uid" uid reason]
      set_control_halts [OF b(2,3), of "''GLOBAL''" uid None "u_id admin" reason] b(1)
    by (auto simp: s1_def kill_switch_def global_kill_switch_def commit_return_def commit_def flush_def)
  have s1: "between_events s1" using system_step_event [OF assms(1)] by (simp add: s1_def)
  note b1 = between_facts [OF s1]
  show ?thesis
    using halt s1 b1(1,2) place_event_same_books [OF s1] halted_placement_untouched [of s1 uid] by simp
qed

lemma kill_switch_stops_placement_witness:
  "halted (saved (system_step (ex_world NoReply NoReply) live_settings (KillSwitch ''u'' True None) ex_session)) ''u''"
  using kill_switch_stops_placement [OF between_ex_session, of _ "''u''" None undefined "ex_world NoReply NoReply" live_settings]
  by blast

text \<open>
  Modification is not limited.  While the account is halted, a resting paper limit order can be
  modified to any quantity at least its fills, above every limit of the settings, and the change is
  committed: \<^verbatim>\<open>modify\<close> runs none of the checks a placement runs.
\<close>

theorem modification_bypasses_limits:
  assumes "halted (cur s) (o_user_id r)" "trading_max_order_quantity cfg < n"
    and "o_mode r = ''PAPER''" "o_status r = OPEN" "o_order_type r = LIMIT" "max 1 (o_filled_quantity r) \<le> n"
    and "constraints (cur s)" "r \<in> set (objs (t_orders (cur s)))"
  shows "\<exists>r' s'. manager_modify w cfg r n price None s = (Inr r', s') \<and> o_quantity r' = n \<and>
    r' \<in> set (rows (t_orders (saved s'))) \<and> o_status r' = OPEN"
proof -
  let ?r = "r\<lparr>o_quantity := n, o_limit_price := Some price, o_version := o_version r + 1\<rparr>"
  have keys: "map client_key (upd_by o_id ?r (objs (t_orders (cur s)))) = map client_key (objs (t_orders (cur s)))"
  proof (rule map_upd_by_cong)
    fix x assume "x \<in> set (objs (t_orders (cur s)))" "o_id x = o_id ?r"
    then have "x = r" using assms(7,8) distinct_map_eqD [of o_id "objs (t_orders (cur s))"]
      by (auto simp: constraints_def)
    then show "client_key ?r = client_key x" by (simp add: client_key_def)
  qed
  then have "constraints (put_order ?r (cur s))" using assms(7) by (simp add: constraints_def)
  then have "manager_modify w cfg r n price None s = (Inr ?r, (save_order ?r s)
      \<lparr>cur := flush_all (put_order ?r (cur s)), saved := flush_all (put_order ?r (cur s))\<rparr>)"
    using assms(3-5) assms(6) [unfolded not_less [symmetric]]
    by (simp add: manager_modify_def paper_modify_def open_order_statuses_def quote_crosses_def
        Let_def commit_return_def commit_def flush_def)
  moreover have "?r \<in> set (upd_by o_id ?r (objs (t_orders (cur s))))"
    using assms(8) by (intro in_upd_by_self [where ?r0.0 = r]) simp_all
  ultimately show ?thesis using assms(4) by auto
qed

lemma modification_bypasses_limits_witness:
  "\<exists>r' s'. manager_modify (ex_world NoReply NoReply) paper_settings (ex_order ''b'' ''PAPER'' BUY 7 95) 1000000 95 None ex_halted
     = (Inr r', s') \<and> o_quantity r' = 1000000"
proof -
  let ?r = "ex_order ''b'' ''PAPER'' BUY 7 95"
  have halt: "halted (cur ex_halted) (o_user_id ?r)"
    by (simp add: halted_def ex_halted_def ex_order_def Let_def)
  have keys: "constraints (cur ex_halted)" "?r \<in> set (objs (t_orders (cur ex_halted)))"
    by (simp_all add: constraints_def ex_halted_def ex_resting_def ex_db_def empty_db_def objs_def empty_table_def
        ex_order_def ex_values_def Let_def)
  show ?thesis
    using modification_bypasses_limits [OF halt _ _ _ _ _ keys, of paper_settings 1000000 "ex_world NoReply NoReply" 95]
    by (auto simp: paper_settings_def default_settings_def ex_order_def ex_values_def)
qed

end
