(* ===== verification/LiveProps.thy ===== *)
theory LiveProps
  imports RiskProps
begin

text \<open>
  Properties of live execution: what is durable before the broker is called, what can be sent, how an
  answer is recorded, and what reconciliation takes over.
\<close>

lemma not_isl_Inr: "isl x = False \<Longrightarrow> \<exists>y. x = Inr y"
  by (cases x) auto

section \<open>The wire\<close>

lemma commit_return_wire [simp]: "wire (snd (commit_return x s)) = wire s"
  by (cases rule: commit_return_cases [of x s]) simp_all

lemma fill_crossing_wire: "wire (snd (fill_crossing cfg q rs k s)) = wire s"
proof (induction cfg q rs k s rule: fill_crossing.induct)
  case (2 cfg q r rs k s)
  obtain res s1 where f: "paper_fill cfg q r (o_quantity r - o_filled_quantity r) s = (res, s1)"
    by (cases "paper_fill cfg q r (o_quantity r - o_filled_quantity r) s")
  with 2 paper_fill_frame(3) [OF f] show ?case by (cases res) simp_all
qed simp

lemma paper_submit_wire: "wire (snd (paper_submit cfg uid ins v oq s)) = wire s"
proof -
  have "wire (snd (case paper_fill cfg q r n s2 of (Inl e, s3) \<Rightarrow> (Inl e, s3) | (Inr r', s3) \<Rightarrow> commit_return r' s3))
      = wire s2" for cfg q r n and s2 :: session
    by (cases "paper_fill cfg q r n s2") (auto split: sum.splits dest: paper_fill_frame(3))
  then show ?thesis by (simp add: paper_submit_def flush_def Let_def)
qed

lemma paper_modify_wire: "wire (snd (paper_modify cfg r n price oq s)) = wire s"
proof -
  have "wire (snd (case paper_fill cfg q r n s2 of (Inl e, s3) \<Rightarrow> (Inl e, s3) | (Inr r', s3) \<Rightarrow> commit_return r' s3))
      = wire s2" for cfg q r n and s2 :: session
    by (cases "paper_fill cfg q r n s2") (auto split: sum.splits dest: paper_fill_frame(3))
  then show ?thesis by (simp add: paper_modify_def Let_def)
qed

text \<open>The paper operations send nothing.\<close>

lemma paper_wire:
  "wire (snd (paper_place cfg uid ins v oq s)) = wire s"
  "wire (snd (paper_cancel r s)) = wire s"
  "wire (snd (paper_modify cfg r n price oq s)) = wire s"
  "wire (snd (process_quote cfg uid q s)) = wire s"
proof -
  show "wire (snd (paper_place cfg uid ins v oq s)) = wire s"
    by (simp add: paper_place_def paper_submit_wire split: option.splits)
  show "wire (snd (paper_cancel r s)) = wire s" by (simp add: paper_cancel_def Let_def)
  show "wire (snd (paper_modify cfg r n price oq s)) = wire s" by (rule paper_modify_wire)
  have "wire (snd (case run of (Inl e, s') \<Rightarrow> (Inl e, s')
      | (Inr filled, s') \<Rightarrow> if filled \<noteq> 0 then commit_return filled s' else (Inr filled, s'))) = wire (snd run)"
    for run :: "(exn + nat) \<times> session"
    by (cases run) (simp split: sum.splits)
  then show "wire (snd (process_quote cfg uid q s)) = wire s"
    by (simp add: process_quote_def fill_crossing_wire)
qed

lemma respond_wire [simp]: "wire (snd (respond called)) = wire (snd called)"
  by (cases called) (simp add: respond_def split: sum.splits)

text \<open>The requests that place, change or cancel an order: everything but a \<^verbatim>\<open>GET\<close>.\<close>

definition order_requests :: "http_request list \<Rightarrow> http_request list" where
  "order_requests reqs = filter (\<lambda>req. req_verb req \<noteq> ''GET'') reqs"

lemma get_requests:
  "dhan_request w ''GET'' path cs cid body s = (res, s') \<Longrightarrow>
   order_requests (wire s') = order_requests (wire s)"
  by (auto simp: dhan_request_def order_requests_def Let_def split: sum.splits)

lemma fetch_books_requests:
  assumes "fetch_books w cs cid s = (res, s')"
  shows "order_requests (wire s') = order_requests (wire s)"
proof -
  obtain r1 s1 r2 where o: "order_book w cs cid s = (r1, s1)" and t: "trade_book w cs cid s1 = (r2, s')"
    using assms by (auto simp: fetch_books_def split: prod.splits sum.splits)
  have "order_requests (wire s1) = order_requests (wire s)"
    using o by (auto simp: order_book_def split: prod.splits sum.splits dest: get_requests)
  moreover have "order_requests (wire s') = order_requests (wire s1)"
    using t by (auto simp: trade_book_def split: prod.splits sum.splits dest: get_requests)
  ultimately show ?thesis by simp
qed

lemma reconcile_connection_requests:
  "order_requests (wire (reconcile_connection w b s)) = order_requests (wire s)"
proof -
  have w: "wire (case commit s1 of (Inl e, s2) \<Rightarrow> rollback s2 | (Inr _, s2) \<Rightarrow> s2) = wire s1" for s1
    by (cases rule: commit_cases [of s1]) simp_all
  show ?thesis
    by (auto simp: reconcile_connection_def Let_def w fetch_books_requests split: sum.splits prod.splits)
qed

lemma reconcile_once_requests: "order_requests (wire (reconcile_once w s)) = order_requests (wire s)"
proof -
  have "order_requests (wire (foldl (\<lambda>s b. reconcile_connection w b s) s bs)) = order_requests (wire s)" for bs
    by (induction bs arbitrary: s) (simp_all add: reconcile_connection_requests)
  then show ?thesis by (simp add: reconcile_once_def)
qed

lemma gated_requests:
  assumes "live_gate cfg = Some e"
  shows "order_requests (wire (system_step w cfg ev s)) = order_requests (wire s)"
proof (cases ev)
  case (PlaceOrder uid oc oq)
  have "wire (snd (manager_place w cfg uid ins v oq s)) = wire s" for ins v
    using assms by (simp add: manager_place_def paper_wire live_place_def)
  then show ?thesis by (simp add: PlaceOrder place_order_def split: option.splits)
next
  case (ModifyOrder uid oid n price oq)
  have "wire (snd (manager_modify w cfg r n price oq s)) = wire s" for r
    using assms by (simp add: manager_modify_def paper_wire live_modify_def)
  then show ?thesis by (simp add: ModifyOrder modify_order_def split: sum.splits)
next
  case (CancelOrder uid oid)
  have "wire (snd (manager_cancel w cfg r s)) = wire s" for r
    using assms by (simp add: manager_cancel_def paper_wire live_cancel_def)
  then show ?thesis by (simp add: CancelOrder cancel_order_def split: sum.splits)
next
  case (QuoteArrives uid q)
  then show ?thesis by (simp add: paper_wire)
next
  case Reconcile
  then show ?thesis by (simp add: reconcile_tick_def reconcile_once_requests)
qed (simp_all add: kill_switch_def global_kill_switch_def)

text \<open>
  C14. Nothing reaches the broker unless live trading is enabled, confirmed and bound to a static IP.
  While one of the three settings is missing, no sequence of requests, quotes and worker ticks sends a
  request that places, modifies or cancels an order, whatever the orders and accounts are.
\<close>

theorem closed_gate_sends_no_order:
  assumes "trading_mode cfg \<noteq> ''live'' \<or> trading_live_confirmation cfg \<noteq> ''ENABLE_DHAN_LIVE_ORDERS'' \<or>
      \<not> dhan_static_ip_confirmed cfg"
  shows "order_requests (wire (run_ops (system_step w cfg) evs s)) = order_requests (wire s)"
proof -
  have "live_gate cfg \<noteq> None" using assms by (simp add: live_gate_def)
  then obtain e where e: "live_gate cfg = Some e" by blast
  show ?thesis by (induction evs arbitrary: s) (simp_all add: gated_requests [OF e])
qed

lemma closed_gate_sends_no_order_witness:
  "order_requests (wire (run_ops (system_step (ex_world NoReply NoReply) (live_settings\<lparr>dhan_static_ip_confirmed := False\<rparr>))
     [PlaceOrder ''u'' (ex_create (ex_values ''a'' BUY MARKET 10 None)) (Some (ex_quote 100)), Reconcile] ex_session)) = []"
  using closed_gate_sends_no_order [of "live_settings\<lparr>dhan_static_ip_confirmed := False\<rparr>"
      "ex_world NoReply NoReply"
      "[PlaceOrder ''u'' (ex_create (ex_values ''a'' BUY MARKET 10 None)) (Some (ex_quote 100)), Reconcile]" ex_session]
  by (simp add: order_requests_def ex_session_def)

section \<open>One placement, one request\<close>

lemma commit_wire [simp]: "wire (snd (commit s)) = wire s"
  by (cases rule: commit_cases [of s]) simp_all

lemma dhan_connection_wire: "dhan_connection w uid s = (res, s') \<Longrightarrow> wire s' = wire s"
  by (auto simp: dhan_connection_def Let_def commit_def flush_def split: option.splits if_splits sum.splits prod.splits)

lemma placed_wire: "wire (snd (placed pr r response s)) = wire s"
  by (simp add: placed_def Let_def split: sum.splits)

lemma place_failed_wire: "wire (snd (place_failed r c a s)) = wire s"
  by (cases rule: commit_cases [of "save_order r' s" for r'])
    (simp_all add: place_failed_def commit_raise_def Let_def commit_def flush_def)

text \<open>A placement sends at most one request, and what it may send follows the commit of its row.\<close>

lemma live_submit_wire:
  "wire (snd (live_submit w cs cid ins r s)) = wire (snd (dhan_place w cs cid ins r s))"
proof -
  let ?out = "case dhan_place w cs cid ins r s of (Inl e, s') \<Rightarrow> (Inl e, s')
      | (Inr response, s') \<Rightarrow> placed (w_repr w) r response s'"
  have out: "wire (snd ?out) = wire (snd (dhan_place w cs cid ins r s))"
    by (cases "dhan_place w cs cid ins r s") (auto simp: placed_wire split: sum.splits)
  show ?thesis
    unfolding live_submit_def
    by (cases rule: except_dhan_cases [of ?out "place_failed r"]) (use out in \<open>simp_all add: place_failed_wire\<close>)
qed

lemma live_place_sent:
  assumes "live_place w cfg uid ins v oq s = (res, s')" "wire s' \<noteq> wire s"
  obtains b cs cid r where "r = live_order s uid ins b v" "constraints (add_order r (cur s))"
    "(res, s') = live_submit w cs cid ins r ((draw s)\<lparr>cur := flush_all (add_order r (cur s)),
       saved := flush_all (add_order r (cur s))\<rparr>)"
proof (cases "dhan_connection w uid s")
  case (Pair c s1)
  note conn = dhan_connection_wire [OF Pair]
  have same: "s1 = s" if "c = Inr y" for y
    using Pair that by (auto simp: dhan_connection_def Let_def split: option.splits if_splits sum.splits prod.splits)
  show thesis
  proof (cases c)
    case (Inl e)
    with assms Pair conn show thesis by (auto simp: live_place_def split: option.splits if_splits)
  next
    case (Inr y)
    obtain b cs cid where y: "y = (b, cs, cid)" by (cases y)
    let ?r = "live_order s uid ins b v"
    have run: "(res, s') = (case commit ((draw s)\<lparr>cur := add_order ?r (cur s)\<rparr>) of
        (Inl e, s2) \<Rightarrow> (Inl e, s2) | (Inr _, s2) \<Rightarrow> live_submit w cs cid ins ?r s2)"
      using assms Pair Inr y same [OF Inr] by (auto simp: live_place_def Let_def split: option.splits if_splits)
    show thesis
    proof (cases rule: commit_cases [of "(draw s)\<lparr>cur := add_order ?r (cur s)\<rparr>"])
      case fail
      with run assms(2) show thesis by simp
    next
      case ok
      with run that [of ?r b cs cid] show thesis by simp
    qed
  qed
qed

lemma live_order_sel [simp]:
  "o_id (live_order s uid ins b v) = fresh s" "o_mode (live_order s uid ins b v) = ''LIVE''"
  "o_filled_quantity (live_order s uid ins b v) = 0" "o_quantity (live_order s uid ins b v) = v_quantity v"
  "o_user_id (live_order s uid ins b v) = uid" "o_client_order_id (live_order s uid ins b v) = v_client_order_id v"
  by (simp_all add: live_order_def new_order_def)

text \<open>
  C15. The row comes first.  If a placement sent a request to the broker, exactly one was sent, and a
  live order with its client order id is durable whatever the call returned or raised afterwards: a
  crash, a timeout or an unreadable answer leaves a row that reconciliation can find.
\<close>

theorem row_is_durable_before_the_broker_is_called:
  assumes "between_events s" "1 \<le> v_quantity v" "manager_place w cfg uid ins v oq s = (res, s')" "wire s' \<noteq> wire s"
  shows "length (wire s') = Suc (length (wire s)) \<and>
    (\<exists>r \<in> set (rows (t_orders (saved s'))). client_key r = (uid, v_client_order_id v) \<and> o_mode r = ''LIVE'')"
proof -
  have live: "live_place w cfg uid ins v oq s = (res, s')"
    using assms(3,4) paper_wire(1) [of cfg uid ins v oq s] by (auto simp: manager_place_def split: if_splits)
  obtain b cs cid r where r: "r = live_order s uid ins b v" "constraints (add_order r (cur s))"
    and run: "(res, s') = live_submit w cs cid ins r ((draw s)\<lparr>cur := flush_all (add_order r (cur s)),
       saved := flush_all (add_order r (cur s))\<rparr>)" (is "_ = live_submit _ _ _ _ _ ?s")
    by (rule live_place_sent [OF live assms(4)])
  define D where "D = flush_all (add_order r (cur s))"
  have book: "book D"
    using between_facts [OF assms(1)] r assms(2) book_add_order [of "cur s" r] by (simp add: D_def lifecycle_def)
  have sD: "cur ?s = D" "saved ?s = D" by (simp_all add: D_def)
  have "outcome (\<lambda>d. book d \<and> history D d) (live_submit w cs cid ins r ?s)"
    by (rule histories.live_submit_outcome)
      (use book r in \<open>simp_all add: sD history_refl durable_def clean_def D_def\<close>)
  then have saved: "history D (saved s')" "clean (saved s')"
    unfolding run [symmetric] by (simp_all add: outcome_def durable_def)
  have "r \<in> set (objs (t_orders D))" by (simp add: D_def)
  then obtain r' where r': "r' \<in> set (objs (t_orders (saved s')))" "order_evolves r r'"
    using saved(1) by (auto simp: history_def)
  have "length (wire s') = Suc (length (wire s))"
  proof -
    obtain res2 s2 where called: "dhan_place w cs cid ins r ?s = (res2, s2)"
      by (cases "dhan_place w cs cid ins r ?s")
    have "wire s' = wire s2" using live_submit_wire [of w cs cid ins r ?s] run called by (metis snd_conv)
    then show ?thesis using adapter_once(1) [OF called] assms(4) by (auto simp: calls_once_def)
  qed
  then show ?thesis
    using r' clean_objs(1) [OF saved(2)] r(1) by (auto simp: order_evolves_def client_key_def intro!: bexI [of _ r'])
qed

lemma row_is_durable_before_the_broker_is_called_witness:
  "\<exists>r \<in> set (rows (t_orders (saved (snd (manager_place (ex_world NoReply NoReply) live_settings ''u'' ex_instrument
       (ex_values ''a'' BUY MARKET 10 None) (Some (ex_quote 100)) ex_session))))).
     client_key r = (''u'', ''a'') \<and> o_mode r = ''LIVE''"
proof -
  let ?call = "manager_place (ex_world NoReply NoReply) live_settings ''u'' ex_instrument
     (ex_values ''a'' BUY MARKET 10 None) (Some (ex_quote 100)) ex_session"
  have "length (wire (snd ?call)) = 1" by code_simp
  then have sent: "wire (snd ?call) \<noteq> wire ex_session" by (auto simp: ex_session_def)
  have v: "1 \<le> v_quantity (ex_values ''a'' BUY MARKET 10 None)"
    "v_client_order_id (ex_values ''a'' BUY MARKET 10 None) = ''a''" by (simp_all add: ex_values_def)
  show ?thesis
    using row_is_durable_before_the_broker_is_called [OF between_ex_session v(1) prod.collapse [symmetric] sent] v(2)
    by simp
qed

lemma known_id_untouched:
  assumes "find_client_order (cur s) uid (v_client_order_id v) = Some x" "clean (cur s)"
  shows "untouched s (snd (manager_place w cfg uid ins v oq s))"
  using prod.collapse [symmetric] assms(2)
  by (rule placement_cases) (use assms(1) in auto)

text \<open>
  C16. No order is sent twice.  Once an order with a client order id of the account is durable, no later
  placement under that id, after any sequence of events and with whatever contents, sends a request or
  changes an order, an execution or a position.
\<close>

theorem client_order_id_is_used_once:
  fixes s :: session and w :: world and cfg :: settings and evs :: "event list"
  assumes "between_events s" "r \<in> set (rows (t_orders (saved s)))"
    and "client_key r = (uid, v_client_order_id (oc_values oc))"
  defines "later \<equiv> run_ops (system_step w cfg) evs s"
  shows "same_books later (system_step w cfg (PlaceOrder uid oc oq) later)"
proof -
  have later: "between_events later" unfolding later_def by (rule trading_system.run_keeps [OF assms(1)])
  note b = between_facts [OF later]
  have "r \<in> set (objs (t_orders (saved s)))" using assms(2) by (rule rows_in_objs)
  then obtain r' where r': "r' \<in> set (objs (t_orders (saved later)))" "order_evolves r r'"
    using run_history [OF assms(1), of w cfg evs] by (auto simp: later_def history_def)
  then have "r' \<in> set (rows (t_orders (cur later)))" "client_key r' = (uid, v_client_order_id (oc_values oc))"
    using b(1) clean_objs(1) [OF b(2)] assms(3) by (simp_all add: order_evolves_def client_key_def)
  then obtain x where x: "find_client_order (cur later) uid (v_client_order_id (oc_values oc)) = Some x"
    by (cases "find_client_order (cur later) uid (v_client_order_id (oc_values oc))")
      (auto simp: find_client_order_def dest: find_NoneD)
  show ?thesis
    by (rule place_event_same_books [OF later]) (use known_id_untouched [OF x] b(1,2) in simp)
qed

lemma client_order_id_is_used_once_witness:
  "same_books (ex_resting 105 95) (system_step (ex_world NoReply NoReply) paper_settings
     (PlaceOrder ''u'' (ex_create (ex_values ''a'' SELL MARKET 3 None)) (Some (ex_quote 100))) (ex_resting 105 95))"
  using client_order_id_is_used_once [OF between_ex_resting, of "ex_order ''a'' ''PAPER'' BUY 10 105" 105 95 "''u''"
      "ex_create (ex_values ''a'' SELL MARKET 3 None)" "ex_world NoReply NoReply" paper_settings "[]"]
  by (simp add: ex_resting_def ex_create_def ex_order_def ex_values_def Let_def)

section \<open>How an answer is recorded\<close>

lemma constraints_put_order:
  assumes "constraints d" "r \<in> set (objs (t_orders d))" "o_id r' = o_id r" "client_key r' = client_key r"
  shows "constraints (put_order r' d)"
proof -
  have "map client_key (upd_by o_id r' (objs (t_orders d))) = map client_key (objs (t_orders d))"
  proof (rule map_upd_by_cong)
    fix x assume "x \<in> set (objs (t_orders d))" "o_id x = o_id r'"
    then have "x = r" using assms distinct_map_eqD [of o_id "objs (t_orders d)"] by (auto simp: constraints_def)
    then show "client_key r' = client_key x" using assms(4) by simp
  qed
  then show ?thesis using assms(1) by (simp add: constraints_def)
qed

lemma place_failed_run:
  assumes "constraints (cur s)" "r \<in> set (objs (t_orders (cur s)))"
  shows "\<exists>r' s'. place_failed r code ambiguous s = (Inl (TradingError code 502), s') \<and>
    r' \<in> set (rows (t_orders (saved s'))) \<and> o_id r' = o_id r \<and>
    o_status r' = (if ambiguous then UNKNOWN else REJECTED) \<and> o_rejection_reason r' = Some code \<and>
    o_completed_at r' = (if ambiguous then o_completed_at r else Some (clock s))"
proof -
  let ?r = "r\<lparr>o_status := (if ambiguous then UNKNOWN else REJECTED), o_rejection_reason := Some code,
     o_completed_at := (if ambiguous then o_completed_at r else Some (clock s))\<rparr>"
  have c: "constraints (put_order ?r (cur s))"
    by (rule constraints_put_order [OF assms]) (simp_all add: client_key_def)
  have "place_failed r code ambiguous s = commit_raise code (save_order ?r s)"
    by (simp only: place_failed_def Let_def)
  also have "\<dots> = (Inl (TradingError code 502), (save_order ?r s)
      \<lparr>cur := flush_all (put_order ?r (cur s)), saved := flush_all (put_order ?r (cur s))\<rparr>)"
    using c by (simp only: commit_raise_def commit_def flush_def save_order_simps if_True) simp
  finally have run: "place_failed r code ambiguous s = (Inl (TradingError code 502), (save_order ?r s)
      \<lparr>cur := flush_all (put_order ?r (cur s)), saved := flush_all (put_order ?r (cur s))\<rparr>)" .
  have "?r \<in> set (upd_by o_id ?r (objs (t_orders (cur s))))"
    by (rule in_upd_by_self [OF assms(2)]) simp
  then show ?thesis
    unfolding run by (intro exI [of _ ?r]) simp
qed

text \<open>
  C17. Silence is not rejection.  A placement the broker does not answer leaves the order \<open>UNKNOWN\<close>,
  open and reconcilable; an error status, with or without a readable error body, leaves it \<open>REJECTED\<close>
  and completed; both are committed with the reason, and the caller gets the code as a bad gateway.
\<close>

theorem unanswered_is_unknown_refused_is_rejected:
  assumes "constraints (cur s)" "r \<in> set (objs (t_orders (cur s)))"
    and "dhan_subscription (w_repr w) ins = Inr u" "token_header cs = Inr token"
    and "w_http w (wire s) \<lparr>req_verb = ''POST'', req_path = ''/orders'', req_token = token, req_client = cid,
           req_body = place_body cid u r\<rparr> = rep"
    and "rep = NoReply \<or> (\<exists>status no_content. rep = Replied status no_content parsed \<and> 400 \<le> status \<and>
           (parsed = None \<or> parsed = Some (JObj fs)))"
  shows "\<exists>code r' s'. live_submit w cs cid ins r s = (Inl (TradingError code 502), s') \<and>
    r' \<in> set (rows (t_orders (saved s'))) \<and> o_id r' = o_id r \<and> o_rejection_reason r' = Some code \<and>
    (if rep = NoReply then o_status r' = UNKNOWN
     else o_status r' = REJECTED \<and> o_completed_at r' = Some (clock s))"
proof -
  obtain code s1 where called: "dhan_place w cs cid ins r s = (Inl (DhanOrderError code (rep = NoReply)), s1)"
    using assms(3-6)
    by (auto simp: dhan_place_def dhan_request_def read_reply_def error_code_def as_dict_def Let_def)
  note once = calls_onceD [OF adapter_once(1) [OF called]]
  have "live_submit w cs cid ins r s = place_failed r code (rep = NoReply) s1"
    by (simp add: live_submit_def called except_dhan_def)
  moreover obtain r' s' where "place_failed r code (rep = NoReply) s1 = (Inl (TradingError code 502), s')"
    "r' \<in> set (rows (t_orders (saved s')))" "o_id r' = o_id r"
    "o_status r' = (if rep = NoReply then UNKNOWN else REJECTED)" "o_rejection_reason r' = Some code"
    "o_completed_at r' = (if rep = NoReply then o_completed_at r else Some (clock s1))"
    using place_failed_run [of s1 r code "rep = NoReply"] assms(1,2) once(1) by auto
  ultimately show ?thesis using once(3) by (intro exI [of _ code] exI [of _ r'] exI [of _ s']) auto
qed

lemma unanswered_is_unknown_refused_is_rejected_witness:
  "\<exists>code r' s'. live_submit (ex_world NoReply NoReply) [(''access_token'', JStr ''t'')] ''c'' ex_instrument ex_live_order ex_pending
     = (Inl (TradingError code 502), s') \<and> r' \<in> set (rows (t_orders (saved s'))) \<and> o_status r' = UNKNOWN"
proof -
  let ?w = "ex_world NoReply NoReply"
  have "isl (dhan_subscription (w_repr ?w) ex_instrument) = False" by code_simp
  then obtain u where u: "dhan_subscription (w_repr ?w) ex_instrument = Inr u" using not_isl_Inr by blast
  have token: "token_header [(''access_token'', JStr ''t'')] = Inr ''t''" by (simp add: token_header_def)
  show ?thesis
    using unanswered_is_unknown_refused_is_rejected [OF ex_pending_facts(1,2) u token, of "''c''" NoReply]
    by (auto simp: ex_world_def)
qed

text \<open>
  An instrument the broker does not know leaves a row behind.  When the instrument has no usable
  Dhan subscription, the row is committed before that is found out and the error is not one the handler
  catches: nothing is sent, the protocol error is returned, and the order stays \<open>PENDING\<close>, durable and
  open, without a broker order id.
\<close>

theorem unsupported_instrument_strands_the_row:
  assumes "constraints (cur s)" "r \<in> set (rows (t_orders (saved s)))" "o_status r = PENDING" "o_broker_order_id r = None"
    and "dhan_subscription (w_repr w) ins = Inl (DhanProtocolError msg)"
  shows "\<exists>s'. live_submit w cs cid ins r s = (Inl (DhanProtocolError msg), s') \<and> wire s' = wire s \<and>
    (\<exists>r' \<in> set (rows (t_orders (saved s'))). o_id r' = o_id r \<and> o_status r' \<in> open_order_statuses \<and>
       o_broker_order_id r' = None)"
  using assms by (auto simp: live_submit_def dhan_place_def except_dhan_def open_order_statuses_def)

lemma unsupported_instrument_strands_the_row_witness:
  "\<exists>msg s'. live_submit (ex_world NoReply NoReply) [] ''c'' (ex_instrument\<lparr>i_broker_tokens := []\<rparr>) ex_live_order ex_pending
     = (Inl (DhanProtocolError msg), s') \<and> wire s' = wire ex_pending"
proof -
  have "dhan_subscription (w_repr (ex_world NoReply NoReply)) (ex_instrument\<lparr>i_broker_tokens := []\<rparr>)
      = Inl (DhanProtocolError ''Instrument ins has no Dhan security ID'')"
    by code_simp
  from unsupported_instrument_strands_the_row [OF ex_pending_facts(1,3) _ _ this, of "[]" "''c''"]
  show ?thesis by (auto simp: ex_live_order_def ex_order_def new_order_def)
qed

text \<open>
  C19. A placement the broker executes at once is lost to the ledger.  The answer \<^verbatim>\<open>TRADED\<close> marks the
  order \<open>FILLED\<close> with no unit filled and no execution booked, and reconciliation, which looks at open
  orders only, never selects it again.
\<close>

theorem traded_answer_is_filled_without_fills:
  assumes "placed pr r (JObj fs) s = (Inr r', s')" "jfield fs ''orderStatus'' = JStr ''TRADED''"
    and "o_filled_quantity r = 0"
  shows "o_status r' = FILLED \<and> o_filled_quantity r' = 0 \<and>
    objs (t_executions (cur s')) = objs (t_executions (cur s)) \<and>
    (\<forall>uid. r' \<notin> set (local_orders (cur s') uid))"
proof -
  have st: "map_dhan_status (JStr ''TRADED'') = Inr FILLED" by code_simp
  show ?thesis
    using assms
    by (auto simp: placed_def as_dict_def st Let_def commit_return_Inr local_orders_def open_order_statuses_def)
qed

lemma traded_answer_is_filled_without_fills_witness:
  "\<exists>r' s'. placed (\<lambda>_. []) ex_live_order (JObj [(''orderId'', JStr ''1''), (''orderStatus'', JStr ''TRADED'')]) ex_pending
     = (Inr r', s') \<and> o_status r' = FILLED \<and> o_filled_quantity r' = 0"
proof -
  let ?call = "placed (\<lambda>_. []) ex_live_order (JObj [(''orderId'', JStr ''1''), (''orderStatus'', JStr ''TRADED'')]) ex_pending"
  have "isl (fst ?call) = False" by code_simp
  then obtain r' where "fst ?call = Inr r'" using not_isl_Inr by blast
  then obtain s' where run: "?call = (Inr r', s')" by (cases ?call) auto
  show ?thesis
    using traded_answer_is_filled_without_fills [OF run] run
    by (simp add: jfield_def ex_live_order_def ex_order_def)
qed

section \<open>Reconciliation\<close>

definition filled_in_full :: "db \<Rightarrow> bool" where
  "filled_in_full d \<longleftrightarrow> (\<forall>r \<in> set (objs (t_orders d)). o_status r = FILLED \<longrightarrow> o_filled_quantity r = o_quantity r)"

lemma filled_in_full_put:
  "filled_in_full d \<Longrightarrow> t_orders d' = put_row o_id r' (t_orders d) \<Longrightarrow>
   (o_status r' = FILLED \<Longrightarrow> o_filled_quantity r' = o_quantity r') \<Longrightarrow> filled_in_full d'"
  by (auto simp: filled_in_full_def dest!: in_upd_byD)

lemma filled_in_full_object:
  "filled_in_full d \<Longrightarrow> Option.bind m (order_object d) = Some r \<Longrightarrow> o_status r = FILLED \<Longrightarrow>
   o_filled_quantity r = o_quantity r"
  by (cases m) (auto simp: filled_in_full_def dest: order_objectD)

lemma link_orders_full:
  "link_orders pr byc items d byb = Inr (d', byb') \<Longrightarrow> filled_in_full d \<Longrightarrow> filled_in_full d'"
proof (induction items arbitrary: d byb)
  case (Cons item items)
  obtain fs where fs: "as_dict item = Inr fs" using Cons.prems(1) by (cases "as_dict item") auto
  show ?case
  proof (cases "Option.bind (match_order pr byb byc fs) (order_object d)")
    case None
    with fs Cons show ?thesis by simp
  next
    case (Some r)
    have "filled_in_full (put_order (r\<lparr>o_broker_order_id := b\<rparr>) d)" for b
    proof (rule filled_in_full_put [OF Cons.prems(2)])
      show "t_orders (put_order (r\<lparr>o_broker_order_id := b\<rparr>) d) = put_row o_id (r\<lparr>o_broker_order_id := b\<rparr>) (t_orders d)"
        by simp
      assume "o_status (r\<lparr>o_broker_order_id := b\<rparr>) = FILLED"
      then show "o_filled_quantity (r\<lparr>o_broker_order_id := b\<rparr>) = o_quantity (r\<lparr>o_broker_order_id := b\<rparr>)"
        using filled_in_full_object [OF Cons.prems(2) Some] by simp
    qed
    with Cons fs Some show ?thesis by (simp add: Let_def split: if_splits)
  qed
qed simp

lemma book_trade_full:
  assumes "book_trade now r n price xid tm d = Inr d'" "filled_in_full d"
  shows "filled_in_full d'"
proof (cases "apply_execution now d r n price ''DHAN_RECONCILIATION'' (Some xid) (Some tm)")
  case (Inl e)
  with assms(1) apply_execution_Inl [OF Inl] show ?thesis
    by (auto simp: book_trade_def intro!: filled_in_full_put [OF assms(2)])
next
  case (Inr y)
  obtain x r' d1 where y: "y = (x, r', d1)" by (cases y)
  with Inr assms(1) have run: "apply_execution now d r n price ''DHAN_RECONCILIATION'' (Some xid) (Some tm) = Inr (x, r', d')"
    by (simp add: book_trade_def)
  then show ?thesis
  proof (cases rule: apply_execution_cases)
    case known
    with assms(2) show ?thesis by simp
  next
    case booked
    then show ?thesis by (intro filled_in_full_put [OF assms(2), of d' r']) (simp_all split: if_splits)
  qed
qed

lemma book_trades_full:
  "book_trades w now byb items d = Inr d' \<Longrightarrow> filled_in_full d \<Longrightarrow> filled_in_full d'"
proof (induction items arbitrary: d)
  case (Cons item items)
  obtain fs where fs: "as_dict item = Inr fs" using Cons.prems(1) by (cases "as_dict item") auto
  show ?case
    using Cons fs book_trade_full
    by (auto simp: Let_def split: if_splits sum.splits option.splits)
qed simp

lemma take_status_full:
  "(o_status r = FILLED \<Longrightarrow> o_filled_quantity r = o_quantity r) \<Longrightarrow>
   o_status (take_status pr now fs st r) = FILLED \<Longrightarrow>
   o_filled_quantity (take_status pr now fs st r) = o_quantity (take_status pr now fs st r)"
  by (auto simp: take_status_def Let_def split: if_splits)

lemma take_statuses_full:
  "take_statuses pr now byb byc items d = Inr d' \<Longrightarrow> filled_in_full d \<Longrightarrow> filled_in_full d'"
proof (induction items arbitrary: d)
  case (Cons item items)
  obtain fs where fs: "as_dict item = Inr fs" using Cons.prems(1) by (cases "as_dict item") auto
  show ?case
  proof (cases "Option.bind (match_order pr byb byc fs) (order_object d)")
    case None
    with fs Cons show ?thesis by simp
  next
    case (Some r)
    have "filled_in_full (put_order (take_status pr now fs st r) d)" for st
      by (rule filled_in_full_put [OF Cons.prems(2)])
        (use take_status_full filled_in_full_object [OF Cons.prems(2) Some] in auto)
    with Cons fs Some show ?thesis by (auto split: sum.splits)
  qed
qed simp

text \<open>
  C20. Reconciliation calls an order filled only when its executions say so.  If every \<open>FILLED\<close> order had
  its whole quantity booked before a round, so has every \<open>FILLED\<close> order after it, whatever order and trade
  books the broker sent.
\<close>

theorem reconciled_fills_are_complete:
  assumes "reconcile_apply w now uid broker_orders trades d = Inr d'"
    and "\<And>r. r \<in> set (objs (t_orders d)) \<Longrightarrow> o_status r = FILLED \<Longrightarrow> o_filled_quantity r = o_quantity r"
  shows "\<forall>r \<in> set (objs (t_orders d')). o_status r = FILLED \<longrightarrow> o_filled_quantity r = o_quantity r"
proof -
  have "filled_in_full d" using assms(2) by (simp add: filled_in_full_def)
  with assms(1) have "filled_in_full d'"
    by (auto simp: reconcile_apply_def Let_def split: sum.splits
        dest!: link_orders_full book_trades_full take_statuses_full)
  then show ?thesis by (simp add: filled_in_full_def)
qed

lemma reconciled_fills_are_complete_witness:
  "\<exists>d'. reconcile_apply (ex_world NoReply NoReply) 0 ''u''
       [JObj [(''orderId'', JStr ''1''), (''correlationId'', JStr ''a''), (''orderStatus'', JStr ''TRADED'')]]
       [JObj [(''orderId'', JStr ''1''), (''exchangeTradeId'', JStr ''9''), (''tradedQuantity'', JInt 10),
              (''tradedPrice'', JFloat 100)]] (cur ex_pending) = Inr d' \<and>
     (\<forall>r \<in> set (objs (t_orders d')). o_status r = FILLED \<longrightarrow> o_filled_quantity r = o_quantity r)"
proof -
  let ?call = "reconcile_apply (ex_world NoReply NoReply) 0 ''u''
       [JObj [(''orderId'', JStr ''1''), (''correlationId'', JStr ''a''), (''orderStatus'', JStr ''TRADED'')]]
       [JObj [(''orderId'', JStr ''1''), (''exchangeTradeId'', JStr ''9''), (''tradedQuantity'', JInt 10),
              (''tradedPrice'', JFloat 100)]] (cur ex_pending)"
  have "isl ?call = False" by code_simp
  then obtain d' where run: "?call = Inr d'" using not_isl_Inr by blast
  have "objs (t_orders (cur ex_pending)) = [ex_live_order]" by (simp add: ex_pending_def objs_def Let_def)
  then show ?thesis
    using reconciled_fills_are_complete [OF run] run by (simp add: ex_live_order_def)
qed

end
