(* ===== verification/Sma.thy ===== *)
theory Sma
  imports Models
begin

text \<open>
  \<^verbatim>\<open>strategies/evaluator.py\<close>: the moving-average crossover on the closing prices, and what it depends on:
  the last \<open>slow + 1\<close> closes and nothing before them.
\<close>

text \<open>\<^verbatim>\<open>xs[-n:]\<close> for a positive \<open>n\<close>.\<close>

definition last_n :: "nat \<Rightarrow> 'a list \<Rightarrow> 'a list" where
  "last_n n xs = drop (length xs - n) xs"

record cross_decision =
  cd_action :: "order_side option"
  cd_fast_average :: pyfloat
  cd_slow_average :: pyfloat
  cd_previous_fast_average :: pyfloat
  cd_previous_slow_average :: pyfloat

text \<open>\<^verbatim>\<open>sum(xs[-n:]) / n\<close>.\<close>

definition average_of_last :: "int \<Rightarrow> pyfloat list \<Rightarrow> pyfloat" where
  "average_of_last n xs = fdiv (pysum (last_n (nat n) xs)) (float_of_int n)"

definition evaluate_sma_cross :: "pyfloat list \<Rightarrow> int \<Rightarrow> int \<Rightarrow> cross_decision option" where
  "evaluate_sma_cross closes fast_period slow_period =
     (if fast_period < 2 \<or> slow_period \<le> fast_period \<or> int (length closes) < slow_period + 1 then None
      else
        let previous = butlast closes;
            previous_fast = average_of_last fast_period previous;
            previous_slow = average_of_last slow_period previous;
            current_fast = average_of_last fast_period closes;
            current_slow = average_of_last slow_period closes;
            action = (if previous_fast \<le> previous_slow \<and> current_fast > current_slow then Some BUY
                      else if previous_fast \<ge> previous_slow \<and> current_fast < current_slow then Some SELL
                      else None)
        in Some \<lparr>cd_action = action, cd_fast_average = current_fast, cd_slow_average = current_slow,
             cd_previous_fast_average = previous_fast, cd_previous_slow_average = previous_slow\<rparr>)"

section \<open>The last elements\<close>

lemma last_n_append: "n \<le> length ys \<Longrightarrow> last_n n (xs @ ys) = last_n n ys"
  by (simp add: last_n_def)

lemma last_n_all: "length xs \<le> n \<Longrightarrow> last_n n xs = xs"
  by (simp add: last_n_def)

lemma length_last_n [simp]: "length (last_n n xs) = min n (length xs)"
  by (simp add: last_n_def)

lemma last_n_last_n: "m \<le> n \<Longrightarrow> last_n m (last_n n xs) = last_n m xs"
  by (cases "n \<le> length xs") (auto simp: last_n_def intro!: arg_cong2 [where f = drop])

lemma map_last_n: "map f (last_n n xs) = last_n n (map f xs)"
  by (simp add: last_n_def drop_map)

lemma rev_take_rev: "rev (take n (rev xs)) = last_n n xs"
  by (simp add: last_n_def take_rev)

lemma append_last_n: "xs = take (length xs - n) xs @ last_n n xs"
  by (simp add: last_n_def)

section \<open>What the decision depends on\<close>

lemma average_of_last_append:
  "nat n \<le> length ys \<Longrightarrow> average_of_last n (xs @ ys) = average_of_last n ys"
  by (simp add: average_of_last_def last_n_append)

lemma evaluate_sma_cross_suffix:
  assumes "slow + 1 \<le> int (length ys)"
  shows "evaluate_sma_cross (xs @ ys) fast slow = evaluate_sma_cross ys fast slow"
proof (cases "fast < 2 \<or> slow \<le> fast")
  case True
  then show ?thesis by (auto simp: evaluate_sma_cross_def)
next
  case False
  with assms have len: "nat fast < length ys" "nat slow < length ys" "ys \<noteq> []" by auto
  then have "butlast (xs @ ys) = xs @ butlast ys" by (simp add: butlast_append)
  with len assms show ?thesis
    by (simp add: evaluate_sma_cross_def average_of_last_append Let_def)
qed

lemma evaluate_sma_cross_window:
  assumes "0 \<le> slow"
  shows "evaluate_sma_cross (last_n (nat (slow + 1)) xs) fast slow = evaluate_sma_cross xs fast slow"
proof (cases "slow + 1 \<le> int (length xs)")
  case True
  have "evaluate_sma_cross xs fast slow =
      evaluate_sma_cross (take (length xs - nat (slow + 1)) xs @ last_n (nat (slow + 1)) xs) fast slow"
    by (simp flip: append_last_n)
  also have "\<dots> = evaluate_sma_cross (last_n (nat (slow + 1)) xs) fast slow"
    using True assms by (intro evaluate_sma_cross_suffix) simp
  finally show ?thesis by simp
next
  case False
  then show ?thesis by (simp add: last_n_all)
qed

text \<open>A signal is a strict change: with equal averages before and after there is none.\<close>

lemma evaluate_sma_cross_action:
  assumes "evaluate_sma_cross closes fast slow = Some dec"
  shows "cd_action dec = Some BUY \<longleftrightarrow> cd_previous_fast_average dec \<le> cd_previous_slow_average dec \<and>
      cd_slow_average dec < cd_fast_average dec"
    "cd_action dec = Some SELL \<longleftrightarrow> cd_previous_slow_average dec \<le> cd_previous_fast_average dec \<and>
      cd_fast_average dec < cd_slow_average dec"
    "slow + 1 \<le> int (length closes)"
  using assms by (auto simp: evaluate_sma_cross_def Let_def split: if_splits)

end
