(* ===== verification/Config.thy ===== *)
theory Config
  imports PyNumbers
begin

text \<open>
  \<^verbatim>\<open>config.py\<close>: the checks a process runs on its settings before it starts (\<^verbatim>\<open>validate_production\<close>),
  and the candle intervals it reads from a comma separated text.  Reading the environment is
  pydantic's.
\<close>

section \<open>Lists of texts\<close>

text \<open>\<^verbatim>\<open>text.split(c)\<close>: the pieces between the separators, at least one.\<close>

fun py_split :: "char \<Rightarrow> string \<Rightarrow> string list" where
  "py_split c [] = [[]]"
| "py_split c (x # xs) =
     (if x = c then [] # py_split c xs
      else (case py_split c xs of [] \<Rightarrow> [[x]] | p # ps \<Rightarrow> (x # p) # ps))"

text \<open>\<^verbatim>\<open>needle in text\<close>.\<close>

fun contains :: "string \<Rightarrow> string \<Rightarrow> bool" where
  "contains needle [] \<longleftrightarrow> needle = []"
| "contains needle (c # cs) \<longleftrightarrow> take (length needle) (c # cs) = needle \<or> contains needle cs"

text \<open>A comprehension whose element may raise: the first exception ends it.\<close>

fun try_map :: "('a \<Rightarrow> exn + 'b) \<Rightarrow> 'a list \<Rightarrow> exn + 'b list" where
  "try_map f [] = Inr []"
| "try_map f (x # xs) =
     (case f x of
        Inl e \<Rightarrow> Inl e
      | Inr y \<Rightarrow> (case try_map f xs of Inl e \<Rightarrow> Inl e | Inr ys \<Rightarrow> Inr (y # ys)))"

lemma py_split_not_Nil [simp]: "py_split c xs \<noteq> []"
  by (cases xs) (auto split: list.splits)

lemma try_map_Inr: "try_map f xs = Inr ys \<longleftrightarrow> list_all2 (\<lambda>x y. f x = Inr y) xs ys"
proof (induction xs arbitrary: ys)
  case (Cons x xs)
  have "try_map f (x # xs) = Inr ys \<longleftrightarrow>
      (\<exists>y zs. f x = Inr y \<and> try_map f xs = Inr zs \<and> ys = y # zs)"
    by (auto split: sum.splits)
  with Cons show ?case by (simp add: list_all2_Cons1) blast
qed auto

section \<open>Candle intervals\<close>

definition candle_intervals :: "settings \<Rightarrow> exn + int list" where
  "candle_intervals cfg =
     (case try_map (\<lambda>t. or_value_error (int_of_text (py_strip t)))
             (filter (\<lambda>t. py_strip t \<noteq> []) (py_split (CHR '','') (market_candle_intervals cfg))) of
        Inl e \<Rightarrow> Inl e
      | Inr values \<Rightarrow>
          if values = [] \<or> (\<exists>n \<in> set values. n \<le> 0) then Inl (PyError ''ValueError'')
          else Inr (sort (remdups values)))"

text \<open>The intervals are positive and strictly increasing.\<close>

lemma candle_intervalsD:
  assumes "candle_intervals cfg = Inr ns"
  shows "ns \<noteq> []" "distinct ns" "sorted ns" "n \<in> set ns \<Longrightarrow> 0 < n"
proof -
  obtain vs where v: "vs \<noteq> []" "\<not> (\<exists>n \<in> set vs. n \<le> 0)" "ns = sort (remdups vs)"
    using assms by (auto simp: candle_intervals_def split: sum.splits if_splits)
  then show "distinct ns" "sorted ns" by simp_all
  have "set ns = set vs" using v(3) by simp
  with v(1,2) show "ns \<noteq> []" "n \<in> set ns \<Longrightarrow> 0 < n" by fastforce+
qed

lemma default_candle_intervals: "candle_intervals default_settings = Inr [60, 300, 900, 3600, 86400]"
  by code_simp

section \<open>Starting in production\<close>

definition weak_secret :: "string \<Rightarrow> bool" where
  "weak_secret value \<longleftrightarrow> length value < 32 \<or> contains ''development-only'' value \<or> contains ''replace-with'' value"

text \<open>
  \<open>valid_key\<close> says whether the \<^verbatim>\<open>Fernet\<close> constructor accepts a key.  The result is the message of the
  \<^verbatim>\<open>RuntimeError\<close> that stops the process.
\<close>

definition validate_production :: "(string \<Rightarrow> bool) \<Rightarrow> settings \<Rightarrow> string option" where
  "validate_production valid_key cfg =
     (if environment cfg \<noteq> ''production'' then None
      else if weak_secret (jwt_secret cfg) then Some ''JWT_SECRET must be a strong production secret''
      else if weak_secret (api_key_pepper cfg) then Some ''API_KEY_PEPPER must be a strong production secret''
      else if or_else (field_encryption_key cfg) [] = [] then Some ''FIELD_ENCRYPTION_KEY is required in production''
      else if \<not> valid_key (or_else (field_encryption_key cfg) []) then
        Some ''FIELD_ENCRYPTION_KEY must be a valid Fernet key''
      else if \<not> cookie_secure cfg then Some ''COOKIE_SECURE must be true in production''
      else if or_else (smtp_host cfg) [] = [] then Some ''SMTP_HOST is required in production''
      else if market_feed_provider cfg = ''simulated'' then
        Some ''MARKET_FEED_PROVIDER=simulated is not permitted in production''
      else if trading_mode cfg = ''live'' then
        (if trading_live_confirmation cfg \<noteq> ''ENABLE_DHAN_LIVE_ORDERS'' then
           Some ''TRADING_LIVE_CONFIRMATION must explicitly enable Dhan live orders''
         else if \<not> dhan_static_ip_confirmed cfg then
           Some ''DHAN_STATIC_IP_CONFIRMED must be true for live order APIs''
         else if strategy_engine_enabled cfg \<and> strategy_live_confirmation cfg \<noteq> ''ENABLE_LIVE_STRATEGIES'' then
           Some ''STRATEGY_LIVE_CONFIRMATION must explicitly enable live strategies''
         else None)
      else None)"

end
