(* ===== verification/Strategies.thy ===== *)
theory Strategies
  imports TradingApi Sma Config
begin

text \<open>
  The strategy executor and its worker: \<^verbatim>\<open>strategies/service.py\<close> and \<^verbatim>\<open>strategies/worker.py\<close>.  The quotes
  of the market bus are the argument \<open>quotes\<close>: for a user and an instrument the latest quote, none, or
  the exception of the Redis client.  A strategy and a run are the objects of the session; an update
  writes the row back by its id.  Subscriptions the worker keeps on the bus are not state of the
  database and are left out, as are log lines and audit rows.
\<close>

type_synonym quote_feed = "string \<Rightarrow> string \<Rightarrow> exn + quote option"

section \<open>Rows\<close>

definition on_strategies :: "(strategy_tables \<Rightarrow> strategy_tables) \<Rightarrow> session \<Rightarrow> session" where
  "on_strategies f s = s\<lparr>cur := (cur s)\<lparr>t_strategy := f (t_strategy (cur s))\<rparr>\<rparr>"

definition put_strategy :: "strategy \<Rightarrow> strategy_tables \<Rightarrow> strategy_tables" where
  "put_strategy st t = t\<lparr>t_strategies := put_row st_id st (t_strategies t)\<rparr>"

definition add_run :: "strategy_run \<Rightarrow> strategy_tables \<Rightarrow> strategy_tables" where
  "add_run r t = t\<lparr>t_runs := insert_row r (t_runs t)\<rparr>"

definition put_run :: "strategy_run \<Rightarrow> strategy_tables \<Rightarrow> strategy_tables" where
  "put_run r t = t\<lparr>t_runs := put_row sr_id r (t_runs t)\<rparr>"

definition add_signal :: "strategy_signal \<Rightarrow> strategy_tables \<Rightarrow> strategy_tables" where
  "add_signal g t = t\<lparr>t_signals := insert_row g (t_signals t)\<rparr>"

definition put_signal :: "strategy_signal \<Rightarrow> strategy_tables \<Rightarrow> strategy_tables" where
  "put_signal g t = t\<lparr>t_signals := put_row sg_id g (t_signals t)\<rparr>"

definition find_strategy :: "db \<Rightarrow> string \<Rightarrow> strategy option" where
  "find_strategy d sid = List.find (\<lambda>st. st_id st = sid) (rows (t_strategies (t_strategy d)))"

definition find_run :: "db \<Rightarrow> string \<Rightarrow> strategy_run option" where
  "find_run d rid = List.find (\<lambda>r. sr_id r = rid) (rows (t_runs (t_strategy d)))"

definition candle_run :: "db \<Rightarrow> string \<Rightarrow> instant \<Rightarrow> strategy_run option" where
  "candle_run d sid start = List.find (\<lambda>r. run_key r = (sid, start)) (rows (t_runs (t_strategy d)))"

section \<open>The definition of a strategy, ids and prices\<close>

fun order_status_value :: "order_status \<Rightarrow> string" where
  "order_status_value PENDING = ''PENDING''"
| "order_status_value OPEN = ''OPEN''"
| "order_status_value PARTIALLY_FILLED = ''PARTIALLY_FILLED''"
| "order_status_value FILLED = ''FILLED''"
| "order_status_value CANCEL_PENDING = ''CANCEL_PENDING''"
| "order_status_value CANCELED = ''CANCELED''"
| "order_status_value REJECTED = ''REJECTED''"
| "order_status_value EXPIRED = ''EXPIRED''"
| "order_status_value UNKNOWN = ''UNKNOWN''"

definition strategy_definition :: "strategy \<Rightarrow> json" where
  "strategy_definition st = JObj
     [(''kind'', JStr (st_kind st)), (''instrument_id'', JStr (st_instrument_id st)),
      (''execution_mode'', JStr (st_execution_mode st)), (''timeframe_seconds'', JInt (st_timeframe_seconds st)),
      (''fast_period'', JInt (st_fast_period st)), (''slow_period'', JInt (st_slow_period st)),
      (''quantity'', JInt (st_quantity st)), (''product_type'', JStr (product_value (st_product_type st))),
      (''order_type'', JStr (order_type_value (st_order_type st))),
      (''limit_offset_bps'', JFloat (st_limit_offset_bps st)),
      (''max_orders_per_day'', JInt (st_max_orders_per_day st))]"

text \<open>Midnight in India, as an instant.\<close>

definition day_start_utc :: "instant \<Rightarrow> instant" where
  "day_start_utc now =
     (let local = now + india_offset in local - local mod (86400 * 1000000) - india_offset)"

definition client_order_id :: "strategy \<Rightarrow> instant \<Rightarrow> string" where
  "client_order_id st start =
     ''s'' @ take 10 (filter (\<lambda>c. c \<noteq> CHR ''-'') (st_id st))
       @ str_of_int (truncate_rat (seconds_between start 0))"

definition limit_price_of :: "strategy \<Rightarrow> instrument \<Rightarrow> order_side \<Rightarrow> pyfloat \<Rightarrow> pyfloat" where
  "limit_price_of st ins side reference =
     (let direction = (if side = BUY then - 1 else 1);
          raw = fmul reference (fadd 1 (fdiv (fmul direction (st_limit_offset_bps st)) 10000));
          tick = float_or (i_tick_size ins) (fl (1 / 20));
          ticks = (if side = BUY then \<lfloor>fdiv raw tick\<rfloor> else \<lceil>fdiv raw tick\<rceil>)
      in pyround8 (max tick (fmul (float_of_int ticks) tick)))"

section \<open>Checks\<close>

definition activation_check :: "settings \<Rightarrow> strategy \<Rightarrow> bool \<Rightarrow> string option \<Rightarrow> exn option" where
  "activation_check cfg st mfa confirmation =
     (if \<not> strategy_engine_enabled cfg then Some (StrategyError ''STRATEGY_ENGINE_DISABLED'' 403)
      else if py_lower (st_execution_mode st) \<noteq> trading_mode cfg
      then Some (StrategyError ''STRATEGY_TRADING_MODE_MISMATCH'' 422)
      else if st_execution_mode st = ''LIVE'' then
        (if \<not> mfa then Some (StrategyError ''MFA_REQUIRED_FOR_LIVE_STRATEGY'' 403)
         else if strategy_live_confirmation cfg \<noteq> ''ENABLE_LIVE_STRATEGIES''
         then Some (StrategyError ''LIVE_STRATEGIES_NOT_CONFIRMED'' 403)
         else if confirmation \<noteq> Some ''ENABLE_LIVE_STRATEGY''
         then Some (StrategyError ''LIVE_STRATEGY_ACTIVATION_NOT_CONFIRMED'' 403)
         else (case live_gate cfg of
                 Some (TradingError code status) \<Rightarrow> Some (StrategyError code status)
               | other \<Rightarrow> other))
      else None)"

text \<open>The signed quantity of the executions of orders that belong to signals of the strategy.\<close>

definition strategy_exposure :: "db \<Rightarrow> strategy \<Rightarrow> int" where
  "strategy_exposure d st =
     (\<Sum>x\<leftarrow>rows (t_executions d). \<Sum>r\<leftarrow>rows (t_orders d). \<Sum>g\<leftarrow>rows (t_signals (t_strategy d)).
        if o_id r = x_order_id x \<and> sg_order_id g = Some (o_id r) \<and> sg_strategy_id g = st_id st
        then signed_quantity (x_side x) (x_quantity x) else 0)"

definition has_open_order :: "db \<Rightarrow> strategy \<Rightarrow> bool" where
  "has_open_order d st \<longleftrightarrow>
     (\<exists>r \<in> set (rows (t_orders d)). \<exists>g \<in> set (rows (t_signals (t_strategy d))).
        sg_order_id g = Some (o_id r) \<and> sg_strategy_id g = st_id st \<and> o_status r \<in> open_order_statuses)"

definition submitted_since :: "db \<Rightarrow> strategy \<Rightarrow> instant \<Rightarrow> strategy_signal list" where
  "submitted_since d st start =
     filter (\<lambda>g. sg_user_id g = st_user_id st \<and> sg_status g = ORDER_SUBMITTED \<and> start \<le> sg_generated_at g)
       (rows (t_signals (t_strategy d)))"

definition recent_attempts :: "db \<Rightarrow> strategy \<Rightarrow> instant \<Rightarrow> strategy_signal list" where
  "recent_attempts d st now =
     filter (\<lambda>g. sg_user_id g = st_user_id st \<and> sg_status g \<in> {CREATED, ORDER_SUBMITTED, SignalREJECTED}
                 \<and> now - 60 * 1000000 \<le> sg_generated_at g)
       (rows (t_signals (t_strategy d)))"

definition order_count_check :: "settings \<Rightarrow> db \<Rightarrow> instant \<Rightarrow> strategy \<Rightarrow> exn option" where
  "order_count_check cfg d now st =
     (let today = submitted_since d st (day_start_utc now) in
      if strategy_max_orders_per_user_per_day cfg \<le> int (length today)
      then Some (StrategyError ''USER_STRATEGY_DAILY_ORDER_LIMIT'' 409)
      else if st_max_orders_per_day st \<le> int (length (filter (\<lambda>g. sg_strategy_id g = st_id st) today))
      then Some (StrategyError ''STRATEGY_DAILY_ORDER_LIMIT'' 409)
      else if strategy_max_order_attempts_per_minute cfg \<le> int (length (recent_attempts d st now))
      then Some (StrategyError ''STRATEGY_ORDER_RATE_LIMIT'' 409)
      else None)"

section \<open>Finishing a run\<close>

definition reason :: "string \<Rightarrow> (string \<times> json) list" where
  "reason code = [(''reason'', JStr code)]"

definition finish ::
  "strategy_run \<Rightarrow> strategy_run_status \<Rightarrow> (string \<times> json) list \<Rightarrow> session \<Rightarrow> (exn + strategy_run) \<times> session"
where
  "finish run status diagnostics s =
     (let run' = run\<lparr>sr_status := status, sr_diagnostics_json := diagnostics, sr_finished_at := Some (clock s)\<rparr>
      in commit_return run' (on_strategies (put_run run') s))"

text \<open>The last handler of \<^verbatim>\<open>evaluate\<close>: roll back, load the strategy and the run again, and fail both.\<close>

definition crashed :: "string \<Rightarrow> string \<Rightarrow> exn \<Rightarrow> session \<Rightarrow> (exn + strategy_run) \<times> session" where
  "crashed sid rid e s0 =
     (let s = rollback s0 in
      case (find_strategy (cur s) sid, find_run (cur s) rid) of
        (Some st, Some run) \<Rightarrow>
          finish run FAILED (reason ''STRATEGY_EVALUATION_FAILED'')
            (on_strategies (put_strategy (st\<lparr>st_status := ERROR, st_last_error := Some (exn_name e)\<rparr>)) s)
      | _ \<Rightarrow> (Inl (PyError ''AttributeError''), s))"

definition recover ::
  "string \<Rightarrow> strategy_run \<Rightarrow> (exn + strategy_run) \<times> session \<Rightarrow> (exn + strategy_run) \<times> session" where
  "recover sid run result =
     (case result of
        (Inr r, s) \<Rightarrow> (Inr r, s)
      | (Inl (StrategyError code _), s) \<Rightarrow> finish run SKIPPED (reason code) s
      | (Inl (TradingError code _), s) \<Rightarrow> finish run SKIPPED (reason code) s
      | (Inl e, s) \<Rightarrow> crashed sid (sr_id run) e s)"

section \<open>Evaluating a candle\<close>

definition closed_lag :: "strategy \<Rightarrow> market_candle \<Rightarrow> instant \<Rightarrow> pyfloat" where
  "closed_lag st k now = seconds_between now (k_start_at k + st_timeframe_seconds st * 1000000)"

text \<open>
  The early returns before the candles are read: the status and diagnostics of the run, and the error
  left on the strategy, which also stops it.
\<close>

definition evaluation_guard ::
  "settings \<Rightarrow> strategy \<Rightarrow> user option \<Rightarrow> market_candle \<Rightarrow> instant
   \<Rightarrow> (strategy_run_status \<times> (string \<times> json) list \<times> string option) option" where
  "evaluation_guard cfg st owner k now =
     (let live = st_execution_mode st = ''LIVE''; lag = closed_lag st k now in
      if \<not> strategy_engine_enabled cfg then Some (SKIPPED, reason ''STRATEGY_ENGINE_DISABLED'', None)
      else if st_status st \<noteq> ACTIVE then Some (SKIPPED, reason ''STRATEGY_NOT_ACTIVE'', None)
      else if py_lower (st_execution_mode st) \<noteq> trading_mode cfg
      then Some (SKIPPED, reason ''TRADING_MODE_MISMATCH'', None)
      else if (case owner of None \<Rightarrow> True | Some u \<Rightarrow> \<not> u_is_active u)
      then Some (FAILED, reason ''STRATEGY_USER_INACTIVE'', Some ''STRATEGY_USER_INACTIVE'')
      else if live \<and> strategy_live_confirmation cfg \<noteq> ''ENABLE_LIVE_STRATEGIES''
      then Some (SKIPPED, reason ''LIVE_STRATEGIES_NOT_CONFIRMED'', None)
      else if live \<and> \<not> (case owner of None \<Rightarrow> False | Some u \<Rightarrow> u_mfa_enabled u)
      then Some (FAILED, reason ''LIVE_STRATEGY_USER_NOT_ELIGIBLE'', Some ''LIVE_STRATEGY_USER_NOT_ELIGIBLE'')
      else case (if live then live_gate cfg else None) of
        Some (TradingError code _) \<Rightarrow> Some (FAILED, reason code, Some code)
      | _ \<Rightarrow>
        if lag < 0 then Some (SKIPPED, reason ''CANDLE_NOT_CLOSED'', None)
        else if strategy_max_candle_lag_seconds cfg < lag
        then Some (SKIPPED, reason ''STALE_CANDLE'' @ [(''lag_seconds'', JFloat lag)], None)
        else None)"

text \<open>The complete candles of the strategy's series, oldest first.\<close>

definition complete_candles :: "db \<Rightarrow> strategy \<Rightarrow> market_candle list" where
  "complete_candles d st =
     sort_key k_start_at
       (filter (\<lambda>k. k_user_id k = st_user_id st \<and> k_instrument_id k = st_instrument_id st \<and>
                    k_interval_seconds k = st_timeframe_seconds st \<and> k_is_complete k)
          (rows (t_candles (t_strategy d))))"

text \<open>The last \<open>slow_period + 1\<close> of them up to a candle: descending order, limit, reversed.\<close>

definition candle_history :: "db \<Rightarrow> strategy \<Rightarrow> instant \<Rightarrow> market_candle list" where
  "candle_history d st start =
     rev (take (nat (st_slow_period st + 1))
            (rev (filter (\<lambda>k. k_start_at k \<le> start) (complete_candles d st))))"

fun has_gap :: "int \<Rightarrow> market_candle list \<Rightarrow> bool" where
  "has_gap step (a # b # ks) \<longleftrightarrow>
     seconds_between (k_start_at b) (k_start_at a) \<noteq> of_int step \<or> has_gap step (b # ks)"
| "has_gap step _ \<longleftrightarrow> False"

definition averages :: "cross_decision \<Rightarrow> (string \<times> json) list" where
  "averages dec =
     [(''fast_average'', JFloat (cd_fast_average dec)), (''slow_average'', JFloat (cd_slow_average dec)),
      (''previous_fast_average'', JFloat (cd_previous_fast_average dec)),
      (''previous_slow_average'', JFloat (cd_previous_slow_average dec))]"

definition new_signal ::
  "string \<Rightarrow> strategy \<Rightarrow> strategy_run \<Rightarrow> order_side \<Rightarrow> strategy_signal_status \<Rightarrow> int \<Rightarrow> pyfloat \<Rightarrow> string
   \<Rightarrow> string option \<Rightarrow> instant \<Rightarrow> strategy_signal" where
  "new_signal gid st run side status n price cid why now =
     \<lparr>sg_id = gid, sg_strategy_id = st_id st, sg_run_id = sr_id run, sg_user_id = st_user_id st,
      sg_instrument_id = st_instrument_id st, sg_order_id = None, sg_action = side, sg_status = status,
      sg_quantity = n, sg_reference_price = price, sg_client_order_id = cid, sg_reason = why,
      sg_generated_at = now\<rparr>"

definition suppressed ::
  "strategy \<Rightarrow> market_candle \<Rightarrow> strategy_run \<Rightarrow> order_side \<Rightarrow> string \<Rightarrow> (string \<times> json) list \<Rightarrow> session
   \<Rightarrow> (exn + strategy_run) \<times> session" where
  "suppressed st k run side why diagnostics s =
     finish run SKIPPED (diagnostics @ reason why)
       (on_strategies (add_signal (new_signal (fresh s) st run side SUPPRESSED (st_quantity st) (k_close k)
          (client_order_id st (k_start_at k)) (Some why) (clock s))) (draw s))"

definition suppression :: "db \<Rightarrow> strategy \<Rightarrow> order_side \<Rightarrow> string option" where
  "suppression d st side =
     (if has_open_order d st then Some ''OPEN_STRATEGY_ORDER''
      else if side = BUY \<and> strategy_exposure d st \<noteq> 0 then Some ''STRATEGY_ALREADY_EXPOSED''
      else if side = SELL \<and> strategy_exposure d st \<le> 0 then Some ''NO_STRATEGY_LONG_POSITION''
      else None)"

definition signal_quantity :: "db \<Rightarrow> strategy \<Rightarrow> order_side \<Rightarrow> int" where
  "signal_quantity d st side =
     (if side = BUY then st_quantity st else min (st_quantity st) (strategy_exposure d st))"

definition signal_values :: "strategy \<Rightarrow> instrument \<Rightarrow> order_side \<Rightarrow> int \<Rightarrow> string \<Rightarrow> pyfloat \<Rightarrow> order_values"
where
  "signal_values st ins side n cid ltp =
     \<lparr>v_client_order_id = cid, v_side = side, v_order_type = st_order_type st,
      v_product_type = st_product_type st, v_validity = DAY, v_quantity = n,
      v_limit_price = (if st_order_type st = LIMIT then Some (limit_price_of st ins side ltp) else None),
      v_trigger_price = None\<rparr>"

end
