(* ===== verification/StrategyRun.thy ===== *)
theory StrategyRun
  imports Strategies
begin

text \<open>
  One evaluation of a strategy on a closed candle, from the durable claim of the candle to the order
  (\<^verbatim>\<open>StrategyExecutor.evaluate\<close> and \<^verbatim>\<open>_route\<close>), and a pass of the worker over the active strategies
  (\<^verbatim>\<open>StrategyWorker.run_once\<close>).
\<close>

section \<open>From a signal to an order\<close>

text \<open>The order was accepted: signal, run and strategy are updated in the transaction that ends here.\<close>

definition signal_submitted ::
  "strategy \<Rightarrow> strategy_run \<Rightarrow> strategy_signal \<Rightarrow> (string \<times> json) list \<Rightarrow> trading_order \<Rightarrow> session
   \<Rightarrow> (exn + strategy_run) \<times> session" where
  "signal_submitted st run g diagnostics r s =
     (let g' = g\<lparr>sg_order_id := Some (o_id r), sg_status := ORDER_SUBMITTED\<rparr>;
          run' = run\<lparr>sr_status := SUCCEEDED,
                  sr_diagnostics_json := diagnostics @ [(''order_status'', JStr (order_status_value (o_status r)))],
                  sr_finished_at := Some (clock s)\<rparr>;
          st' = st\<lparr>st_last_error := None\<rparr>
      in commit_return run' (on_strategies (put_strategy st' \<circ> put_run run' \<circ> put_signal g') s))"

definition signal_rejected ::
  "strategy \<Rightarrow> strategy_run \<Rightarrow> strategy_signal \<Rightarrow> (string \<times> json) list \<Rightarrow> string \<Rightarrow> session
   \<Rightarrow> (exn + strategy_run) \<times> session" where
  "signal_rejected st run g diagnostics code s =
     (let g' = g\<lparr>sg_status := SignalREJECTED, sg_reason := Some code\<rparr>;
          run' = run\<lparr>sr_status := FAILED, sr_diagnostics_json := diagnostics @ reason code,
                  sr_finished_at := Some (clock s)\<rparr>;
          st' = st\<lparr>st_last_error := Some code,
                 st_status := (if st_execution_mode st = ''LIVE'' then ERROR else st_status st)\<rparr>
      in commit_return run' (on_strategies (put_strategy st' \<circ> put_run run' \<circ> put_signal g') s))"

text \<open>
  The signal is flushed, not committed: the first commit of the placement makes it durable.  Only a
  \<^verbatim>\<open>TradingError\<close> of the placement is handled here.
\<close>

definition submit_signal ::
  "world \<Rightarrow> settings \<Rightarrow> strategy \<Rightarrow> market_candle \<Rightarrow> strategy_run \<Rightarrow> instrument \<Rightarrow> quote \<Rightarrow> order_side
   \<Rightarrow> (string \<times> json) list \<Rightarrow> session \<Rightarrow> (exn + strategy_run) \<times> session" where
  "submit_signal w cfg st k run ins q side diagnostics s =
     (let n = signal_quantity (cur s) st side;
          cid = client_order_id st (k_start_at k);
          g = new_signal (fresh s) st run side CREATED n (q_ltp q) cid None (clock s);
          s1 = on_strategies (add_signal g) (draw s)
      in case flush (cur s1) of
           Inl e \<Rightarrow> (Inl e, s1)
         | Inr d \<Rightarrow>
             (case manager_place w cfg (st_user_id st) ins (signal_values st ins side n cid (q_ltp q)) (Some q)
                     (s1\<lparr>cur := d\<rparr>) of
                (Inr r, s2) \<Rightarrow> signal_submitted st run g diagnostics r s2
              | (Inl (TradingError code _), s2) \<Rightarrow> signal_rejected st run g diagnostics code s2
              | (Inl e, s2) \<Rightarrow> (Inl e, s2)))"

definition route ::
  "world \<Rightarrow> settings \<Rightarrow> quote_feed \<Rightarrow> strategy \<Rightarrow> market_candle \<Rightarrow> strategy_run \<Rightarrow> order_side
   \<Rightarrow> (string \<times> json) list \<Rightarrow> session \<Rightarrow> (exn + strategy_run) \<times> session" where
  "route w cfg quotes st k run side diagnostics s =
     (case order_count_check cfg (cur s) (clock s) st of
        Some e \<Rightarrow> (Inl e, s)
      | None \<Rightarrow>
     (case suppression (cur s) st side of
        Some why \<Rightarrow> suppressed st k run side why diagnostics s
      | None \<Rightarrow>
     (case quotes (st_user_id st) (st_instrument_id st) of
        Inl e \<Rightarrow> (Inl e, s)
      | Inr oq \<Rightarrow>
     (case (quote_check cfg (clock s) oq, oq) of
        (Some e, _) \<Rightarrow> (Inl e, s)
      | (None, None) \<Rightarrow> (Inl (PyError ''AttributeError''), s)
      | (None, Some q) \<Rightarrow>
     (case active_instrument (cur s) (st_instrument_id st) of
        None \<Rightarrow> (Inl (StrategyError ''INSTRUMENT_NOT_AVAILABLE'' 409), s)
      | Some ins \<Rightarrow> submit_signal w cfg st k run ins q side diagnostics s)))))"

section \<open>An evaluation\<close>

definition evaluate_claimed ::
  "world \<Rightarrow> settings \<Rightarrow> quote_feed \<Rightarrow> strategy \<Rightarrow> market_candle \<Rightarrow> strategy_run \<Rightarrow> session
   \<Rightarrow> (exn + strategy_run) \<times> session" where
  "evaluate_claimed w cfg quotes st k run s =
     (case evaluation_guard cfg st (List.find (\<lambda>u. u_id u = st_user_id st) (rows (t_users (cur s)))) k (clock s) of
        Some (status, diagnostics, None) \<Rightarrow> finish run status diagnostics s
      | Some (status, diagnostics, Some why) \<Rightarrow>
          finish run status diagnostics
            (on_strategies (put_strategy (st\<lparr>st_status := ERROR, st_last_error := Some why\<rparr>)) s)
      | None \<Rightarrow>
          let ks = candle_history (cur s) st (k_start_at k) in
          if st_slow_period st + 1 \<le> int (length ks) \<and> has_gap (st_timeframe_seconds st) ks
          then finish run SKIPPED (reason ''CANDLE_GAP'') s
          else case evaluate_sma_cross (map k_close ks) (st_fast_period st) (st_slow_period st) of
            None \<Rightarrow> finish run NO_SIGNAL (reason ''INSUFFICIENT_CANDLES'' @ [(''count'', JInt (int (length ks)))]) s
          | Some dec \<Rightarrow>
              (case cd_action dec of
                 None \<Rightarrow> finish run NO_SIGNAL (averages dec) s
               | Some side \<Rightarrow> route w cfg quotes st k run side (averages dec) s))"

definition new_run :: "string \<Rightarrow> strategy \<Rightarrow> market_candle \<Rightarrow> instant \<Rightarrow> strategy_run" where
  "new_run rid st k now =
     \<lparr>sr_id = rid, sr_strategy_id = st_id st, sr_user_id = st_user_id st, sr_strategy_version = st_version st,
      sr_candle_start_at = k_start_at k, sr_status = STARTED, sr_diagnostics_json = [], sr_started_at = now,
      sr_finished_at = None\<rparr>"

definition evaluate ::
  "world \<Rightarrow> settings \<Rightarrow> quote_feed \<Rightarrow> strategy \<Rightarrow> market_candle \<Rightarrow> session \<Rightarrow> (exn + strategy_run) \<times> session" where
  "evaluate w cfg quotes st k s =
     (case candle_run (cur s) (st_id st) (k_start_at k) of
        Some run \<Rightarrow> (Inr run, s)
      | None \<Rightarrow>
          let run = new_run (fresh s) st k (clock s);
              s1 = on_strategies (add_run run) (draw s)
          in case flush (cur s1) of
               Inl e \<Rightarrow> (Inl e, s1)
             | Inr d \<Rightarrow>
                 let st' = st\<lparr>st_last_evaluated_at := Some (clock s)\<rparr> in
                 (case commit (on_strategies (put_strategy st') (s1\<lparr>cur := d\<rparr>)) of
                    (Inl e, s2) \<Rightarrow> (Inl e, s2)
                  | (Inr _, s2) \<Rightarrow> recover (st_id st) run (evaluate_claimed w cfg quotes st' k run s2)))"

section \<open>The worker\<close>

definition latest_candle :: "db \<Rightarrow> strategy \<Rightarrow> market_candle option" where
  "latest_candle d st = (case rev (complete_candles d st) of [] \<Rightarrow> None | k # _ \<Rightarrow> Some k)"

definition incomplete :: "db \<Rightarrow> string \<Rightarrow> bool" where
  "incomplete d sid \<longleftrightarrow>
     (\<exists>r \<in> set (rows (t_runs (t_strategy d))). sr_strategy_id r = sid \<and> sr_status r = STARTED) \<or>
     (\<exists>g \<in> set (rows (t_signals (t_strategy d))). sg_strategy_id g = sid \<and> sg_status g = CREATED)"

text \<open>One strategy of the pass; a failed evaluation is rolled back and the pass goes on.\<close>

definition run_strategy ::
  "world \<Rightarrow> settings \<Rightarrow> quote_feed \<Rightarrow> strategy \<Rightarrow> session \<Rightarrow> (exn + unit) \<times> session" where
  "run_strategy w cfg quotes st s =
     (if incomplete (cur s) (st_id st) then
        commit (on_strategies (put_strategy
          (st\<lparr>st_status := ERROR, st_last_error := Some ''INCOMPLETE_SIGNAL_REQUIRES_RECONCILIATION''\<rparr>)) s)
      else case latest_candle (cur s) st of
        None \<Rightarrow> (Inr (), s)
      | Some k \<Rightarrow>
          if candle_run (cur s) (st_id st) (k_start_at k) \<noteq> None then (Inr (), s)
          else (case evaluate w cfg quotes st k s of
                  (Inl e, s') \<Rightarrow> (Inr (), rollback s')
                | (Inr _, s') \<Rightarrow> (Inr (), s')))"

fun run_strategies ::
  "world \<Rightarrow> settings \<Rightarrow> quote_feed \<Rightarrow> string list \<Rightarrow> session \<Rightarrow> (exn + unit) \<times> session" where
  "run_strategies w cfg quotes [] s = (Inr (), s)"
| "run_strategies w cfg quotes (sid # sids) s =
     (case find_strategy (cur s) sid of
        None \<Rightarrow> run_strategies w cfg quotes sids s
      | Some st \<Rightarrow>
          (case run_strategy w cfg quotes st s of
             (Inl e, s') \<Rightarrow> (Inl e, s')
           | (Inr _, s') \<Rightarrow> run_strategies w cfg quotes sids s'))"

definition worker_strategies :: "settings \<Rightarrow> db \<Rightarrow> strategy list" where
  "worker_strategies cfg d =
     filter (\<lambda>st. st_status st = ACTIVE \<and> st_execution_mode st = py_upper (trading_mode cfg))
       (rows (t_strategies (t_strategy d)))"

definition run_once :: "world \<Rightarrow> settings \<Rightarrow> quote_feed \<Rightarrow> session \<Rightarrow> (exn + unit) \<times> session" where
  "run_once w cfg quotes s =
     (if \<not> strategy_engine_enabled cfg \<or> trading_mode cfg = ''disabled'' then (Inr (), s)
      else run_strategies w cfg quotes (map st_id (worker_strategies cfg (cur s))) s)"

end
