(* ===== verification/StrategyApi.thy ===== *)
theory StrategyApi
  imports StrategyRun
begin

text \<open>
  The strategy endpoints, \<^verbatim>\<open>routers/strategies.py\<close>, with the request models of \<^verbatim>\<open>schemas.py\<close>: creating,
  editing, activating and pausing a strategy, its versions, runs and signals, and the preview.  The
  authenticated user is an argument.  A field of an update is absent (\<open>None\<close>), null (\<open>Some None\<close>) or a
  value.  A request that does not validate is \<^verbatim>\<open>RequestValidationError\<close>.
\<close>

section \<open>Requests\<close>

record strategy_create =
  sc_name :: string
  sc_instrument_id :: string
  sc_execution_mode :: string
  sc_timeframe_seconds :: int
  sc_fast_period :: int
  sc_slow_period :: int
  sc_quantity :: int
  sc_product_type :: product_type
  sc_order_type :: order_type
  sc_limit_offset_bps :: pyfloat
  sc_max_orders_per_day :: int

definition strategy_create_valid :: "strategy_create \<Rightarrow> bool" where
  "strategy_create_valid p \<longleftrightarrow>
     1 \<le> length (sc_name p) \<and> length (sc_name p) \<le> 100 \<and>
     sc_execution_mode p \<in> {''PAPER'', ''LIVE''} \<and>
     60 \<le> sc_timeframe_seconds p \<and> sc_timeframe_seconds p \<le> 86400 \<and>
     2 \<le> sc_fast_period p \<and> sc_fast_period p \<le> 200 \<and>
     3 \<le> sc_slow_period p \<and> sc_slow_period p \<le> 500 \<and>
     1 \<le> sc_quantity p \<and> 0 \<le> sc_limit_offset_bps p \<and> sc_limit_offset_bps p \<le> 100 \<and>
     1 \<le> sc_max_orders_per_day p \<and> sc_max_orders_per_day p \<le> 100 \<and>
     sc_fast_period p < sc_slow_period p"

record strategy_update =
  su_name :: "string option option"
  su_timeframe_seconds :: "int option option"
  su_fast_period :: "int option option"
  su_slow_period :: "int option option"
  su_quantity :: "int option option"
  su_product_type :: "product_type option option"
  su_order_type :: "order_type option option"
  su_limit_offset_bps :: "pyfloat option option"
  su_max_orders_per_day :: "int option option"

definition value_ok :: "('a \<Rightarrow> bool) \<Rightarrow> 'a option option \<Rightarrow> bool" where
  "value_ok p v \<longleftrightarrow> (case v of Some (Some x) \<Rightarrow> p x | _ \<Rightarrow> True)"

definition strategy_update_valid :: "strategy_update \<Rightarrow> bool" where
  "strategy_update_valid p \<longleftrightarrow>
     value_ok (\<lambda>t. 1 \<le> length t \<and> length t \<le> 100) (su_name p) \<and>
     value_ok (\<lambda>n. 60 \<le> n \<and> n \<le> 86400) (su_timeframe_seconds p) \<and>
     value_ok (\<lambda>n. 2 \<le> n \<and> n \<le> 200) (su_fast_period p) \<and>
     value_ok (\<lambda>n. 3 \<le> n \<and> n \<le> 500) (su_slow_period p) \<and>
     value_ok (\<lambda>n. 1 \<le> n) (su_quantity p) \<and>
     value_ok (\<lambda>x. 0 \<le> x \<and> x \<le> 100) (su_limit_offset_bps p) \<and>
     value_ok (\<lambda>n. 1 \<le> n \<and> n \<le> 100) (su_max_orders_per_day p)"

definition some_null :: "strategy_update \<Rightarrow> bool" where
  "some_null p \<longleftrightarrow>
     su_name p = Some None \<or> su_timeframe_seconds p = Some None \<or> su_fast_period p = Some None \<or>
     su_slow_period p = Some None \<or> su_quantity p = Some None \<or> su_product_type p = Some None \<or>
     su_order_type p = Some None \<or> su_limit_offset_bps p = Some None \<or> su_max_orders_per_day p = Some None"

definition no_changes :: "strategy_update \<Rightarrow> bool" where
  "no_changes p \<longleftrightarrow>
     su_name p = None \<and> su_timeframe_seconds p = None \<and> su_fast_period p = None \<and>
     su_slow_period p = None \<and> su_quantity p = None \<and> su_product_type p = None \<and>
     su_order_type p = None \<and> su_limit_offset_bps p = None \<and> su_max_orders_per_day p = None"

text \<open>\<^verbatim>\<open>changes.get(field, old)\<close>, nulls excluded.\<close>

definition changed_to :: "'a option option \<Rightarrow> 'a \<Rightarrow> 'a" where
  "changed_to v old = (case v of Some (Some x) \<Rightarrow> x | _ \<Rightarrow> old)"

section \<open>Creating and editing\<close>

definition owned_strategy :: "db \<Rightarrow> string \<Rightarrow> string \<Rightarrow> exn + strategy" where
  "owned_strategy d uid sid =
     (case List.find (\<lambda>st. st_id st = sid \<and> st_user_id st = uid) (rows (t_strategies (t_strategy d))) of
        None \<Rightarrow> Inl (HTTPException 404 ''Strategy not found'')
      | Some st \<Rightarrow> Inr st)"

definition add_strategy :: "strategy \<Rightarrow> strategy_tables \<Rightarrow> strategy_tables" where
  "add_strategy st t = t\<lparr>t_strategies := insert_row st (t_strategies t)\<rparr>"

definition add_version :: "strategy \<Rightarrow> string \<Rightarrow> strategy_tables \<Rightarrow> strategy_tables" where
  "add_version st actor t = t\<lparr>t_versions := insert_row
     \<lparr>sv_strategy_id = st_id st, sv_user_id = actor, sv_version = st_version st,
      sv_definition_json = strategy_definition st, sv_created_by_user_id = actor\<rparr> (t_versions t)\<rparr>"

text \<open>\<^verbatim>\<open>except IntegrityError\<close>: roll back and answer 409.\<close>

definition name_conflict :: "(exn + 'a) \<times> session \<Rightarrow> (exn + 'a) \<times> session" where
  "name_conflict result =
     (case result of
        (Inl IntegrityError, s) \<Rightarrow> (Inl (HTTPException 409 ''Strategy name already exists''), rollback s)
      | other \<Rightarrow> other)"

definition draft_strategy :: "string \<Rightarrow> string \<Rightarrow> strategy_create \<Rightarrow> strategy" where
  "draft_strategy sid uid p =
     \<lparr>st_id = sid, st_user_id = uid, st_instrument_id = sc_instrument_id p, st_name = py_strip (sc_name p),
      st_kind = ''SMA_CROSS'', st_status = DRAFT, st_execution_mode = sc_execution_mode p,
      st_timeframe_seconds = sc_timeframe_seconds p, st_fast_period = sc_fast_period p,
      st_slow_period = sc_slow_period p, st_quantity = sc_quantity p, st_product_type = sc_product_type p,
      st_order_type = sc_order_type p, st_limit_offset_bps = sc_limit_offset_bps p,
      st_max_orders_per_day = sc_max_orders_per_day p, st_version = 1, st_last_evaluated_at = None,
      st_activated_at = None, st_paused_at = None, st_last_error = None\<rparr>"

definition supported_interval :: "settings \<Rightarrow> int \<Rightarrow> exn option" where
  "supported_interval cfg n =
     (case candle_intervals cfg of
        Inl e \<Rightarrow> Some e
      | Inr ns \<Rightarrow> if n \<in> set ns then None else Some (HTTPException 422 ''Unsupported candle interval''))"

definition create_strategy ::
  "settings \<Rightarrow> string \<Rightarrow> strategy_create \<Rightarrow> session \<Rightarrow> (exn + strategy) \<times> session" where
  "create_strategy cfg uid p s =
     (if \<not> strategy_create_valid p then (Inl (PyError ''RequestValidationError''), s)
      else case active_instrument (cur s) (sc_instrument_id p) of
        None \<Rightarrow> (Inl (HTTPException 404 ''Instrument not found''), s)
      | Some ins \<Rightarrow>
     (case supported_interval cfg (sc_timeframe_seconds p) of
        Some e \<Rightarrow> (Inl e, s)
      | None \<Rightarrow>
        if py_strip (sc_name p) = [] then (Inl (HTTPException 422 ''Strategy name required''), s)
        else
          let st = draft_strategy (fresh s) uid p;
              s1 = on_strategies (add_strategy st) (draw s)
          in name_conflict
               (case flush (cur s1) of
                  Inl e \<Rightarrow> (Inl e, s1)
                | Inr d \<Rightarrow> commit_return st (on_strategies (add_version st uid) (s1\<lparr>cur := d\<rparr>)))))"

definition apply_changes :: "strategy_update \<Rightarrow> strategy \<Rightarrow> strategy" where
  "apply_changes p st = st\<lparr>
     st_name := changed_to (map_option (map_option py_strip) (su_name p)) (st_name st),
     st_timeframe_seconds := changed_to (su_timeframe_seconds p) (st_timeframe_seconds st),
     st_fast_period := changed_to (su_fast_period p) (st_fast_period st),
     st_slow_period := changed_to (su_slow_period p) (st_slow_period st),
     st_quantity := changed_to (su_quantity p) (st_quantity st),
     st_product_type := changed_to (su_product_type p) (st_product_type st),
     st_order_type := changed_to (su_order_type p) (st_order_type st),
     st_limit_offset_bps := changed_to (su_limit_offset_bps p) (st_limit_offset_bps st),
     st_max_orders_per_day := changed_to (su_max_orders_per_day p) (st_max_orders_per_day st)\<rparr>"

definition editable :: "strategy \<Rightarrow> bool" where
  "editable st \<longleftrightarrow> st_status st \<in> {DRAFT, PAUSED, ERROR}"

definition update_strategy ::
  "settings \<Rightarrow> string \<Rightarrow> string \<Rightarrow> strategy_update \<Rightarrow> session \<Rightarrow> (exn + strategy) \<times> session" where
  "update_strategy cfg uid sid p s =
     (if \<not> strategy_update_valid p then (Inl (PyError ''RequestValidationError''), s)
      else case owned_strategy (cur s) uid sid of
        Inl e \<Rightarrow> (Inl e, s)
      | Inr st \<Rightarrow>
        let st' = apply_changes p st in
        if \<not> editable st then (Inl (HTTPException 409 ''Pause strategy before editing''), s)
        else if some_null p then (Inl (HTTPException 422 ''Strategy fields cannot be null''), s)
        else if su_name p \<noteq> None \<and> st_name st' = [] then (Inl (HTTPException 422 ''Strategy name required''), s)
        else if st_slow_period st' \<le> st_fast_period st'
        then (Inl (HTTPException 422 ''fast_period must be less than slow_period''), s)
        else (case supported_interval cfg (st_timeframe_seconds st') of
          Some e \<Rightarrow> (Inl e, s)
        | None \<Rightarrow>
            if no_changes p then name_conflict (commit_return st s)
            else
              let new = st'\<lparr>st_version := st_version st + 1, st_status := DRAFT, st_last_error := None\<rparr>
              in name_conflict (commit_return new (on_strategies (add_version new uid \<circ> put_strategy new) s))))"

section \<open>Activating and pausing\<close>

text \<open>An order of the broker whose fate is unknown, found by the client order id of a signal.\<close>

definition ambiguous_order :: "db \<Rightarrow> string \<Rightarrow> bool" where
  "ambiguous_order d sid \<longleftrightarrow>
     (\<exists>g \<in> set (rows (t_signals (t_strategy d))). \<exists>r \<in> set (rows (t_orders d)).
        sg_strategy_id g = sid \<and> sg_user_id g = o_user_id r \<and> sg_client_order_id g = o_client_order_id r \<and>
        o_status r = UNKNOWN)"

definition stranded_run :: "db \<Rightarrow> string \<Rightarrow> bool" where
  "stranded_run d sid \<longleftrightarrow>
     (\<exists>r \<in> set (rows (t_runs (t_strategy d))). sr_strategy_id r = sid \<and> sr_status r = STARTED)"

definition unresolved_signal :: "db \<Rightarrow> string \<Rightarrow> bool" where
  "unresolved_signal d sid \<longleftrightarrow>
     (\<exists>g \<in> set (rows (t_signals (t_strategy d))). sg_strategy_id g = sid \<and> sg_status g = CREATED)"

definition activate ::
  "settings \<Rightarrow> user \<Rightarrow> string \<Rightarrow> string option \<Rightarrow> session \<Rightarrow> (exn + strategy) \<times> session" where
  "activate cfg u sid confirmation s =
     (if 80 < length (or_else confirmation []) then (Inl (PyError ''RequestValidationError''), s)
      else case owned_strategy (cur s) (u_id u) sid of
        Inl e \<Rightarrow> (Inl e, s)
      | Inr st \<Rightarrow>
        if \<not> editable st then (Inl (HTTPException 409 ''Strategy cannot be activated''), s)
        else if stranded_run (cur s) sid
        then (Inl (HTTPException 409 ''Incomplete run requires manual reconciliation''), s)
        else if unresolved_signal (cur s) sid
        then (Inl (HTTPException 409 ''Unresolved signal requires manual reconciliation''), s)
        else if ambiguous_order (cur s) sid
        then (Inl (HTTPException 409 ''Unknown broker order requires reconciliation''), s)
        else (case activation_check cfg st (u_mfa_enabled u) confirmation of
          Some (StrategyError code status) \<Rightarrow> (Inl (HTTPException status code), s)
        | Some e \<Rightarrow> (Inl e, s)
        | None \<Rightarrow>
            let new = st\<lparr>st_status := ACTIVE, st_activated_at := Some (clock s), st_last_error := None\<rparr>
            in commit_return new (on_strategies (put_strategy new) s)))"

definition pause :: "string \<Rightarrow> string \<Rightarrow> session \<Rightarrow> (exn + strategy) \<times> session" where
  "pause uid sid s =
     (case owned_strategy (cur s) uid sid of
        Inl e \<Rightarrow> (Inl e, s)
      | Inr st \<Rightarrow>
          let new = st\<lparr>st_status := PAUSED, st_paused_at := Some (clock s)\<rparr>
          in commit_return new (on_strategies (put_strategy new) s))"

section \<open>Reading\<close>

definition versions :: "db \<Rightarrow> string \<Rightarrow> string \<Rightarrow> exn + strategy_version list" where
  "versions d uid sid =
     (case owned_strategy d uid sid of
        Inl e \<Rightarrow> Inl e
      | Inr _ \<Rightarrow> Inr (rev (sort_key sv_version
          (filter (\<lambda>v. sv_strategy_id v = sid) (rows (t_versions (t_strategy d)))))))"

definition runs :: "db \<Rightarrow> string \<Rightarrow> string \<Rightarrow> nat \<Rightarrow> exn + strategy_run list" where
  "runs d uid sid limit =
     (case owned_strategy d uid sid of
        Inl e \<Rightarrow> Inl e
      | Inr _ \<Rightarrow> Inr (take limit (rev (sort_key sr_started_at
          (filter (\<lambda>r. sr_strategy_id r = sid) (rows (t_runs (t_strategy d))))))))"

definition signals :: "db \<Rightarrow> string \<Rightarrow> string \<Rightarrow> nat \<Rightarrow> exn + strategy_signal list" where
  "signals d uid sid limit =
     (case owned_strategy d uid sid of
        Inl e \<Rightarrow> Inl e
      | Inr _ \<Rightarrow> Inr (take limit (rev (sort_key sg_generated_at
          (filter (\<lambda>g. sg_strategy_id g = sid) (rows (t_signals (t_strategy d))))))))"

record preview_row =
  pr_candle_start_at :: instant
  pr_action :: order_side
  pr_close :: pyfloat
  pr_fast_average :: pyfloat
  pr_slow_average :: pyfloat

definition preview_entry :: "market_candle \<Rightarrow> cross_decision option \<Rightarrow> preview_row list" where
  "preview_entry k dec =
     (case dec of
        None \<Rightarrow> []
      | Some c \<Rightarrow>
          (case cd_action c of
             None \<Rightarrow> []
           | Some side \<Rightarrow> [\<lparr>pr_candle_start_at = k_start_at k, pr_action = side, pr_close = k_close k,
                pr_fast_average = cd_fast_average c, pr_slow_average = cd_slow_average c\<rparr>]))"

text \<open>The loop over the candles with the list of closes it grows.\<close>

fun preview_loop :: "int \<Rightarrow> int \<Rightarrow> pyfloat list \<Rightarrow> market_candle list \<Rightarrow> preview_row list" where
  "preview_loop fast slow closes [] = []"
| "preview_loop fast slow closes (k # ks) =
     (let grown = closes @ [k_close k]
      in preview_entry k (evaluate_sma_cross grown fast slow) @ preview_loop fast slow grown ks)"

definition preview :: "db \<Rightarrow> string \<Rightarrow> string \<Rightarrow> nat \<Rightarrow> exn + preview_row list" where
  "preview d uid sid limit =
     (case owned_strategy d uid sid of
        Inl e \<Rightarrow> Inl e
      | Inr st \<Rightarrow> Inr (preview_loop (st_fast_period st) (st_slow_period st) []
          (rev (take limit (rev (complete_candles d st))))))"

end
