(* ===== verification/StrategyBooks.thy ===== *)
theory StrategyBooks
  imports StrategyApi Frames
begin

text \<open>
  What an evaluation keeps.  The locale \<open>strategy_part\<close> asks of a fact about the strategy tables only that a flush does
  not change it; \<open>strategy_invariant\<close> extends it to the interface between the executor and an invariant of the strategy
  tables: the writes an evaluation of the run \<open>run\<close> makes, and what each must keep.  It is interpreted here by \<open>claim\<close>, which says that a given candle stays claimed and that the
  strategies stay valid.  The order invariants of trading are shown to be kept by evaluations too.
\<close>

section \<open>Sessions\<close>

lemma on_strategies_simps [simp]:
  "t_strategy (cur (on_strategies f s)) = f (t_strategy (cur s))" "saved (on_strategies f s) = saved s"
  "clock (on_strategies f s) = clock s" "wire (on_strategies f s) = wire s"
  "uuids (on_strategies f s) = uuids s" "drawn (on_strategies f s) = drawn s"
  "t_orders (cur (on_strategies f s)) = t_orders (cur s)"
  "t_executions (cur (on_strategies f s)) = t_executions (cur s)"
  "t_positions (cur (on_strategies f s)) = t_positions (cur s)"
  "t_controls (cur (on_strategies f s)) = t_controls (cur s)"
  "t_connections (cur (on_strategies f s)) = t_connections (cur s)"
  "t_instruments (cur (on_strategies f s)) = t_instruments (cur s)"
  "t_users (cur (on_strategies f s)) = t_users (cur s)"
  "t_identity (cur (on_strategies f s)) = t_identity (cur s)"
  by (simp_all add: on_strategies_def)

lemma strategy_table_simps [simp]:
  "t_runs (put_strategy st t) = t_runs t" "t_runs (add_run r t) = insert_row r (t_runs t)"
  "t_runs (put_run r t) = put_row sr_id r (t_runs t)" "t_runs (add_signal g t) = t_runs t"
  "t_runs (put_signal g t) = t_runs t" "t_runs (add_strategy st t) = t_runs t"
  "t_runs (add_version st a t) = t_runs t"
  "t_strategies (put_strategy st t) = put_row st_id st (t_strategies t)"
  "t_strategies (add_run r t) = t_strategies t" "t_strategies (put_run r t) = t_strategies t"
  "t_strategies (add_signal g t) = t_strategies t" "t_strategies (put_signal g t) = t_strategies t"
  "t_strategies (add_strategy st t) = insert_row st (t_strategies t)"
  "t_strategies (add_version st a t) = t_strategies t"
  "t_signals (put_strategy st t) = t_signals t" "t_signals (add_run r t) = t_signals t"
  "t_signals (put_run r t) = t_signals t" "t_signals (add_signal g t) = insert_row g (t_signals t)"
  "t_signals (put_signal g t) = put_row sg_id g (t_signals t)"
  "t_candles (put_strategy st t) = t_candles t" "t_candles (add_run r t) = t_candles t"
  "t_candles (put_run r t) = t_candles t" "t_candles (add_signal g t) = t_candles t"
  "t_candles (put_signal g t) = t_candles t"
  by (simp_all add: put_strategy_def add_run_def put_run_def add_signal_def put_signal_def add_strategy_def
      add_version_def)

lemma flush_all_idem [simp]: "flush_all (flush_all d) = flush_all d"
  by (simp add: flush_all_def)

section \<open>The interface of the strategy tables\<close>

text \<open>A fact about the strategy tables, of the working and of the durable state.\<close>

definition both :: "(strategy_tables \<Rightarrow> bool) \<Rightarrow> session \<Rightarrow> bool" where
  "both ok s \<longleftrightarrow> ok (t_strategy (cur s)) \<and> ok (t_strategy (saved s))"

locale strategy_part =
  fixes ok :: "strategy_tables \<Rightarrow> bool"
  assumes ok_flush: "ok (flush_strategy t) = ok t"
begin

lemma both_framed: "both ok s \<Longrightarrow> framed t_strategy flush_strategy s s' \<Longrightarrow> both ok s'"
  by (auto simp: both_def framed_def ok_flush)

lemma both_commit: "both ok s \<Longrightarrow> both ok (snd (commit s))"
  by (rule both_framed [OF _ strategies.framed_commit])

lemma both_commit_return: "both ok s \<Longrightarrow> both ok (snd (commit_return x s))"
  by (rule both_framed [OF _ strategies.framed_commit_return])

lemma both_rollback: "both ok s \<Longrightarrow> both ok (rollback s)"
  by (simp add: both_def)

lemma both_on: "both ok s \<Longrightarrow> (\<And>t. ok t \<Longrightarrow> ok (f t)) \<Longrightarrow> both ok (on_strategies f s)"
  by (simp add: both_def)

end

text \<open>The writes of an evaluation of the run \<open>run\<close>.\<close>

locale strategy_invariant = strategy_part +
  fixes run :: strategy_run
  assumes ok_put_strategy: "ok t \<Longrightarrow> 0 < st_quantity st \<Longrightarrow> ok (put_strategy st t)"
    and ok_strategy: "ok t \<Longrightarrow> st \<in> set (objs (t_strategies t)) \<Longrightarrow> 0 < st_quantity st"
    and ok_add_signal: "ok t \<Longrightarrow> ok (add_signal g t)"
    and ok_put_signal: "ok t \<Longrightarrow> ok (put_signal g t)"
    and ok_put_run: "ok t \<Longrightarrow> sr_id r = sr_id run \<Longrightarrow> run_key r = run_key run \<Longrightarrow> ok (put_run r t)"
    and ok_run: "ok t \<Longrightarrow> r \<in> set (objs (t_runs t)) \<Longrightarrow> sr_id r = sr_id run \<Longrightarrow> run_key r = run_key run"
begin

lemma both_finish:
  "both ok s \<Longrightarrow> sr_id r = sr_id run \<Longrightarrow> run_key r = run_key run \<Longrightarrow> both ok (snd (finish r status diagnostics s))"
  unfolding finish_def Let_def
  by (rule both_commit_return, erule both_on, rule ok_put_run) (simp_all add: run_key_def)

lemma both_submitted:
  assumes "both ok s" "0 < st_quantity st"
  shows "both ok (snd (signal_submitted st run g diagnostics r s))"
    "both ok (snd (signal_rejected st run g diagnostics code s))"
  using assms unfolding signal_submitted_def signal_rejected_def Let_def comp_def
  by (intro both_commit_return both_on ok_put_strategy ok_put_run ok_put_signal; simp add: run_key_def)+

lemma both_submit_signal:
  assumes b: "both ok s" and q: "0 < st_quantity st"
  shows "both ok (snd (submit_signal w cfg st k run ins q side diagnostics s))"
proof -
  let ?n = "signal_quantity (cur s) st side" and ?cid = "client_order_id st (k_start_at k)"
  let ?g = "new_signal (fresh s) st run side CREATED ?n (q_ltp q) ?cid None (clock s)"
  define s1 where "s1 = on_strategies (add_signal ?g) (draw s)"
  have s1: "both ok s1" using b by (simp add: s1_def both_def ok_add_signal)
  show ?thesis
  proof (cases "constraints (cur s1)")
    case False
    with s1 show ?thesis by (simp add: submit_signal_def Let_def flush_def flip: s1_def)
  next
    case True
    define s2 where "s2 = s1\<lparr>cur := flush_all (cur s1)\<rparr>"
    have s2: "both ok s2" using s1 by (simp add: s2_def both_def ok_flush)
    obtain res s3 where m: "manager_place w cfg (st_user_id st) ins
        (signal_values st ins side ?n ?cid (q_ltp q)) (Some q) s2 = (res, s3)"
      by (cases "manager_place w cfg (st_user_id st) ins (signal_values st ins side ?n ?cid (q_ltp q)) (Some q) s2")
    have "framed t_strategy flush_strategy s2 (snd (res, s3))"
      unfolding m [symmetric] by (rule strategies.framed_manager)
    then have s3: "both ok s3" using both_framed [OF s2] by simp
    have flushed: "flush (cur s1) = Inr (flush_all (cur s1))" using True by (simp add: flush_def)
    show ?thesis
      unfolding submit_signal_def Let_def s1_def [symmetric] flushed sum.case s2_def [symmetric] m
      using s3 both_submitted [OF s3 q] by (auto split: sum.splits exn.splits)
  qed
qed

lemma both_route:
  assumes "both ok s" "0 < st_quantity st"
  shows "both ok (snd (route w cfg quotes st k run side diagnostics s))"
proof -
  have "both ok (snd (suppressed st k run side why diagnostics s))" for why
    unfolding suppressed_def
    by (rule both_finish) (use assms(1) in \<open>auto simp: both_def ok_add_signal\<close>)
  with assms both_submit_signal [OF assms] show ?thesis
    by (auto simp: route_def split: option.splits sum.splits)
qed

lemma both_evaluate_claimed:
  assumes "both ok s" "0 < st_quantity st"
  shows "both ok (snd (evaluate_claimed w cfg quotes st k run s))"
proof -
  have fin: "both ok (snd (finish run status diagnostics s))" for status diagnostics
    using assms(1) by (rule both_finish) simp_all
  have fin_error: "both ok (snd (finish run status diagnostics
      (on_strategies (put_strategy (st\<lparr>st_status := ERROR, st_last_error := Some why\<rparr>)) s)))"
    for status diagnostics why
    by (rule both_finish [OF both_on [OF assms(1)]]) (use assms(2) in \<open>simp_all add: ok_put_strategy\<close>)
  show ?thesis
    using fin fin_error both_route [OF assms]
    by (auto simp: evaluate_claimed_def Let_def split: option.splits prod.splits)
qed

lemma both_crashed:
  assumes "both ok s"
  shows "both ok (snd (crashed sid (sr_id run) e s))"
proof -
  have "both ok (snd (finish r FAILED diagnostics
      (on_strategies (put_strategy (st\<lparr>st_status := ERROR, st_last_error := Some name\<rparr>)) (rollback s))))"
    if "find_strategy (saved s) sid = Some st" "find_run (saved s) (sr_id run) = Some r" for st r diagnostics name
  proof (rule both_finish [OF both_on [OF both_rollback [OF assms]]])
    have st: "st \<in> set (objs (t_strategies (t_strategy (saved s))))"
      using that(1) by (auto simp: find_strategy_def dest!: find_SomeD intro: rows_in_objs)
    show "ok (put_strategy (st\<lparr>st_status := ERROR, st_last_error := Some name\<rparr>) t)" if "ok t" for t
      using that ok_strategy [OF _ st] assms by (intro ok_put_strategy) (simp_all add: both_def)
    have r: "r \<in> set (objs (t_runs (t_strategy (saved s))))" "sr_id r = sr_id run"
      using that(2) by (auto simp: find_run_def dest!: find_SomeD intro: rows_in_objs)
    then show "sr_id r = sr_id run" "run_key r = run_key run"
      using ok_run [OF _ r(1)] assms by (simp_all add: both_def)
  qed
  then show ?thesis
    using both_rollback [OF assms] by (auto simp: crashed_def Let_def split: option.splits)
qed

lemma both_recover:
  assumes "both ok (snd result)"
  shows "both ok (snd (recover sid run result))"
proof (cases result)
  case (Pair res s)
  with assms both_finish [of s run] both_crashed [of s sid] show ?thesis
    by (auto simp: recover_def split: sum.splits exn.splits)
qed

end

section \<open>Claims\<close>

text \<open>The candles \<open>K\<close> of strategies are claimed: there are runs with these keys.\<close>

definition claimed :: "(string \<times> instant) set \<Rightarrow> strategy_tables \<Rightarrow> bool" where
  "claimed K t \<longleftrightarrow> K \<subseteq> run_key ` set (objs (t_runs t))"

definition strategies_valid :: "strategy_tables \<Rightarrow> bool" where
  "strategies_valid t \<longleftrightarrow> (\<forall>st \<in> set (objs (t_strategies t)). 0 < st_quantity st)"

definition claim :: "(string \<times> instant) set \<Rightarrow> strategy_run \<Rightarrow> strategy_tables \<Rightarrow> bool" where
  "claim K run t \<longleftrightarrow> claimed K t \<and> strategies_valid t \<and>
     (\<forall>r \<in> set (objs (t_runs t)). sr_id r = sr_id run \<longrightarrow> run_key r = run_key run)"

lemma flush_keeps [simp]:
  "claimed K (flush_strategy t) = claimed K t" "strategies_valid (flush_strategy t) = strategies_valid t"
  by (simp_all add: claimed_def strategies_valid_def)

lemma valid_put_strategy: "strategies_valid t \<Longrightarrow> 0 < st_quantity st \<Longrightarrow> strategies_valid (put_strategy st t)"
  by (auto simp: strategies_valid_def dest!: in_upd_byD)

interpretation claims: strategy_invariant "claim K run" run for K run
proof
  fix t r
  assume c: "claim K run t" and r: "sr_id r = sr_id run" "run_key r = run_key run"
  have "key \<in> run_key ` set (upd_by sr_id r (objs (t_runs t)))" if "key \<in> K" for key
  proof -
    have "key \<in> run_key ` set (objs (t_runs t))" using c that by (auto simp: claim_def claimed_def)
    then obtain x where x: "x \<in> set (objs (t_runs t))" "run_key x = key" by blast
    show ?thesis
    proof (cases "sr_id x = sr_id r")
      case True
      then have "run_key r = key" using c r x by (simp add: claim_def)
      moreover have "r \<in> set (upd_by sr_id r (objs (t_runs t)))" using x(1) True by (rule in_upd_by_self)
      ultimately show ?thesis by blast
    next
      case False
      then have "x \<in> set (upd_by sr_id r (objs (t_runs t)))" by (rule in_upd_by_other [OF x(1)])
      with x(2) show ?thesis by blast
    qed
  qed
  then have "K \<subseteq> run_key ` set (upd_by sr_id r (objs (t_runs t)))" by blast
  moreover have "\<forall>x \<in> set (upd_by sr_id r (objs (t_runs t))). sr_id x = sr_id run \<longrightarrow> run_key x = run_key run"
    using c r(2) unfolding claim_def by (metis in_upd_byD)
  ultimately show "claim K run (put_run r t)"
    using c by (simp add: claim_def claimed_def strategies_valid_def)
next
  show "claim K run t \<Longrightarrow> r \<in> set (objs (t_runs t)) \<Longrightarrow> sr_id r = sr_id run \<Longrightarrow> run_key r = run_key run" for t r
    unfolding claim_def by blast
next
  show "claim K run t \<Longrightarrow> 0 < st_quantity st \<Longrightarrow> claim K run (put_strategy st t)" for t st
    by (simp add: claim_def claimed_def valid_put_strategy)
next
  show "claim K run (flush_strategy t) = claim K run t" for t by (simp add: claim_def)
next
  show "claim K run t \<Longrightarrow> st \<in> set (objs (t_strategies t)) \<Longrightarrow> 0 < st_quantity st" for t st
    by (simp add: claim_def strategies_valid_def)
next
  show "claim K run t \<Longrightarrow> claim K run (add_signal g t)" "claim K run t \<Longrightarrow> claim K run (put_signal g t)" for t g
    by (simp_all add: claim_def claimed_def strategies_valid_def)
qed

text \<open>
  An evaluation either finds the run and does nothing, or fails before anything is durable and before
  anything is sent, or has claimed the candle durably; it gives up no claim that was there.
\<close>

lemma candle_run_claimed:
  assumes "candle_run d sid start = Some r"
  shows "run_key r = (sid, start)" "claimed {(sid, start)} (t_strategy d)"
proof -
  have r: "r \<in> set (rows (t_runs (t_strategy d)))" "run_key r = (sid, start)"
    using assms unfolding candle_run_def by (auto dest!: find_SomeD)
  then show "run_key r = (sid, start)" "claimed {(sid, start)} (t_strategy d)"
    unfolding claimed_def by (auto dest!: rows_in_objs intro: rev_image_eqI)
qed

lemma not_claimed_iff:
  assumes "flush_strategy (t_strategy d) = t_strategy d"
  shows "candle_run d sid start = None \<longleftrightarrow> \<not> claimed {(sid, start)} (t_strategy d)"
proof -
  have "flush_table (t_runs (t_strategy d)) = t_runs (t_strategy d)"
    using assms by (metis flush_strategy_sel(4))
  then have rows: "objs (t_runs (t_strategy d)) = rows (t_runs (t_strategy d))"
    unfolding flush_table_fix by (simp add: objs_def)
  show ?thesis
  proof (cases "candle_run d sid start")
    case None
    have "run_key r \<noteq> (sid, start)" if "r \<in> set (rows (t_runs (t_strategy d)))" for r
      using find_NoneD [OF None [unfolded candle_run_def] that] .
    then have "(sid, start) \<notin> run_key ` set (rows (t_runs (t_strategy d)))" by (metis imageE)
    with None show ?thesis by (simp add: claimed_def rows)
  next
    case (Some r)
    from candle_run_claimed(2) [OF Some] Some show ?thesis by simp
  qed
qed

lemma evaluate_cases:
  assumes "evaluate w cfg quotes st k s = (res, s')"
  obtains (known) r where "candle_run (cur s) (st_id st) (k_start_at k) = Some r" "res = Inr r" "s' = s"
  | (unclaimed) "candle_run (cur s) (st_id st) (k_start_at k) = None" "res = Inl IntegrityError"
      "saved s' = saved s" "wire s' = wire s" "t_orders (cur s') \<in> {t_orders (cur s), flush_table (t_orders (cur s))}"
      "\<And>K. claimed K (t_strategy (cur s)) \<Longrightarrow> claimed K (t_strategy (cur s'))"
  | (worked) run st' s2 where "candle_run (cur s) (st_id st) (k_start_at k) = None"
      "run = new_run (fresh s) st k (clock s)" "st' = st\<lparr>st_last_evaluated_at := Some (clock s)\<rparr>"
      "(res, s') = recover (st_id st) run (evaluate_claimed w cfg quotes st' k run s2)"
      "flush_all (cur s2) = cur s2" "saved s2 = cur s2" "constraints (cur s2)" "clock s2 = clock s" "wire s2 = wire s"
      "t_strategy (cur s2) = flush_strategy (put_strategy st' (flush_strategy (add_run run (t_strategy (cur s)))))"
      "cur s2 = flush_all (cur (on_strategies (put_strategy st' \<circ> flush_strategy \<circ> add_run run) s))"
proof (cases "candle_run (cur s) (st_id st) (k_start_at k)")
  case (Some r)
  with assms have "res = Inr r" "s' = s" by (auto simp: evaluate_def)
  then show thesis by (rule known [OF Some])
next
  case None
  define run where "run = new_run (fresh s) st k (clock s)"
  define st' where "st' = st\<lparr>st_last_evaluated_at := Some (clock s)\<rparr>"
  define s1 where "s1 = on_strategies (add_run run) (draw s)"
  define s1' where "s1' = on_strategies (put_strategy st') (s1\<lparr>cur := flush_all (cur s1)\<rparr>)"
  have ev: "evaluate w cfg quotes st k s = (case flush (cur s1) of Inl e \<Rightarrow> (Inl e, s1)
      | Inr d \<Rightarrow> (case commit (on_strategies (put_strategy st') (s1\<lparr>cur := d\<rparr>)) of
            (Inl e, s2) \<Rightarrow> (Inl e, s2)
          | (Inr _, s2) \<Rightarrow> recover (st_id st) run (evaluate_claimed w cfg quotes st' k run s2)))"
    unfolding evaluate_def None Let_def option.case run_def st'_def s1_def by (rule refl)
  show thesis
  proof (cases "constraints (cur s1)")
    case False
    then show thesis
      using assms ev by (intro unclaimed None) (auto simp: flush_def s1_def claimed_def)
  next
    case True
    then have ev': "evaluate w cfg quotes st k s = (case commit s1' of
            (Inl e, s2) \<Rightarrow> (Inl e, s2)
          | (Inr _, s2) \<Rightarrow> recover (st_id st) run (evaluate_claimed w cfg quotes st' k run s2))"
      by (simp add: ev flush_def s1'_def)
    show thesis
    proof (cases rule: commit_cases [of s1'])
      case fail
      then show thesis
        using assms ev' by (intro unclaimed None) (auto simp: s1_def s1'_def claimed_def)
    next
      case ok
      let ?s2 = "s1'\<lparr>cur := flush_all (cur s1'), saved := flush_all (cur s1')\<rparr>"
      show thesis
      proof (rule worked [of run st' ?s2])
        show "(res, s') = recover (st_id st) run (evaluate_claimed w cfg quotes st' k run ?s2)"
          using assms ev' ok(1) by simp
        have "cur s1' = (flush_all (cur s))\<lparr>t_strategy :=
            put_strategy st' (flush_strategy (add_run run (t_strategy (cur s))))\<rparr>"
          by (simp add: s1'_def s1_def on_strategies_def flush_all_def)
        then show "cur ?s2 = flush_all (cur (on_strategies (put_strategy st' \<circ> flush_strategy \<circ> add_run run) s))"
          by (simp add: on_strategies_def flush_all_def)
      qed (use None ok(2) in \<open>simp_all add: run_def st'_def s1'_def s1_def\<close>)
    qed
  qed
qed

text \<open>What a claim of the candle by a fresh run establishes.\<close>

lemma worked_claims:
  assumes "constraints d" "t_strategy d = flush_strategy (put_strategy st' (flush_strategy (add_run run t)))"
    and "strategies_valid t" "0 < st_quantity st'"
  shows "claim {run_key run} run (t_strategy d)" "claimed K t \<Longrightarrow> claim K run (t_strategy d)"
proof -
  have runs: "objs (t_runs (t_strategy d)) = objs (t_runs t) @ [run]" by (simp add: assms(2))
  have "distinct (map sr_id (objs (t_runs (t_strategy d))))"
    using assms(1) by (simp add: constraints_def strategy_constraints_def)
  then have "\<forall>r \<in> set (objs (t_runs (t_strategy d))). sr_id r = sr_id run \<longrightarrow> r = run"
    by (simp add: runs) (metis image_eqI)
  moreover have "strategies_valid (t_strategy d)"
    unfolding assms(2) flush_keeps using assms(3,4) by (intro valid_put_strategy) (simp_all add: strategies_valid_def)
  ultimately show "claim {run_key run} run (t_strategy d)" "claimed K t \<Longrightarrow> claim K run (t_strategy d)"
    by (auto simp: claim_def claimed_def runs)
qed

text \<open>Claims and the validity of the strategies are kept.\<close>

definition claim_kept :: "(string \<times> instant) set \<Rightarrow> strategy_tables \<Rightarrow> bool" where
  "claim_kept K t \<longleftrightarrow> claimed K t \<and> strategies_valid t"

lemma claim_kept_flush [simp]: "claim_kept K (flush_strategy t) = claim_kept K t"
  by (simp add: claim_kept_def)

lemma claim_claim_kept: "claim K run t \<Longrightarrow> claim_kept K t"
  by (simp add: claim_def claim_kept_def)

lemma evaluate_worked:
  assumes "(res, s') = recover sid run (evaluate_claimed w cfg quotes st' k run s2)" "0 < st_quantity st'"
    and "both (claim K run) s2"
  shows "both (claim_kept K) s'"
proof -
  have "both (claim K run) (snd (res, s'))"
    unfolding assms(1) by (intro claims.both_recover claims.both_evaluate_claimed assms(2,3))
  then show ?thesis by (auto simp: both_def dest: claim_claim_kept)
qed

lemma evaluate_claim_kept:
  assumes b: "both (claim_kept K) s" and q: "0 < st_quantity st"
    and ev: "evaluate w cfg quotes st k s = (res, s')"
  shows "claim_kept K (t_strategy (saved s')) \<and> (isl res \<or> claim_kept K (t_strategy (cur s')))"
  using ev
proof (cases rule: evaluate_cases)
  case (worked run st' s2)
  have "both (claim K run) s2"
    using worked_claims(2) [OF worked(7,10), of K] worked(3,6) b q
    by (simp add: both_def claim_kept_def)
  then have "both (claim_kept K) s'"
    using evaluate_worked [OF worked(4)] q worked(3) by simp
  then show ?thesis by (simp add: both_def)
qed (use b in \<open>simp_all add: both_def\<close>)

lemma both_kept_commit:
  "both (claim_kept K) s \<Longrightarrow> (\<And>t. claim_kept K t \<Longrightarrow> claim_kept K (f t)) \<Longrightarrow>
   both (claim_kept K) (snd (commit (on_strategies f s)))"
  by (cases rule: commit_cases [of "on_strategies f s"]) (simp_all add: both_def)

lemma both_kept_commit_return:
  "both (claim_kept K) s \<Longrightarrow> (\<And>t. claim_kept K t \<Longrightarrow> claim_kept K (f t)) \<Longrightarrow>
   both (claim_kept K) (snd (commit_return x (on_strategies f s)))"
  by (cases rule: commit_return_cases [of x "on_strategies f s"]) (simp_all add: both_def)

lemma kept_put_strategy: "claim_kept K t \<Longrightarrow> 0 < st_quantity st \<Longrightarrow> claim_kept K (put_strategy st t)"
  by (simp add: claim_kept_def claimed_def valid_put_strategy)

lemma run_strategy_claim_kept:
  assumes b: "both (claim_kept K) s" and q: "0 < st_quantity st"
  shows "both (claim_kept K) (snd (run_strategy w cfg quotes st s))"
proof -
  have stop: "both (claim_kept K) (snd (commit (on_strategies (put_strategy
      (st\<lparr>st_status := ERROR, st_last_error := Some why\<rparr>)) s)))" for why
    using b by (rule both_kept_commit) (simp add: kept_put_strategy q)
  have "both (claim_kept K) (snd (case evaluate w cfg quotes st k s of
      (Inl e, s') \<Rightarrow> (Inr (), rollback s') | (Inr r, s') \<Rightarrow> (Inr (), s')))" for k
  proof (cases "evaluate w cfg quotes st k s")
    case (Pair res s')
    with evaluate_claim_kept [OF b q Pair] show ?thesis by (cases res) (simp_all add: both_def)
  qed
  with stop b show ?thesis by (auto simp: run_strategy_def split: option.splits)
qed

lemma find_strategy_valid:
  "find_strategy d sid = Some st \<Longrightarrow> strategies_valid (t_strategy d) \<Longrightarrow> 0 < st_quantity st"
  unfolding find_strategy_def strategies_valid_def by (metis find_SomeD rows_in_objs)

lemma run_once_claim_kept:
  assumes "both (claim_kept K) s"
  shows "both (claim_kept K) (snd (run_once w cfg quotes s))"
proof -
  have "both (claim_kept K) (snd (run_strategies w cfg quotes sids s))" for sids
    using assms
  proof (induction sids arbitrary: s)
    case (Cons sid sids)
    show ?case
    proof (cases "find_strategy (cur s) sid")
      case (Some st)
      have q: "0 < st_quantity st"
        using find_strategy_valid [OF Some] Cons.prems by (simp add: both_def claim_kept_def)
      obtain res s' where r: "run_strategy w cfg quotes st s = (res, s')"
        by (cases "run_strategy w cfg quotes st s")
      have "both (claim_kept K) s'"
        using run_strategy_claim_kept [OF Cons.prems q, of w cfg quotes] r by simp
      with Some r Cons.IH show ?thesis by (simp split: sum.splits)
    qed (use Cons in simp)
  qed simp
  then show ?thesis using assms by (simp add: run_once_def)
qed

section \<open>The endpoints\<close>

lemma owned_strategyD:
  "owned_strategy d uid sid = Inr st \<Longrightarrow>
   st \<in> set (rows (t_strategies (t_strategy d))) \<and> st_id st = sid \<and> st_user_id st = uid"
  by (auto simp: owned_strategy_def dest!: find_SomeD split: option.splits)

lemma owned_strategy_valid:
  "owned_strategy d uid sid = Inr st \<Longrightarrow> strategies_valid (t_strategy d) \<Longrightarrow> 0 < st_quantity st"
  unfolding strategies_valid_def by (meson owned_strategyD rows_in_objs)

lemma name_conflict_saved [simp]: "saved (snd (name_conflict result)) = saved (snd result)"
  by (auto simp: name_conflict_def rollback_def split: prod.splits sum.splits exn.splits)

lemma claim_kept_add_version [simp]: "claim_kept K (add_version st a t) = claim_kept K t"
  by (simp add: claim_kept_def claimed_def strategies_valid_def)

lemma create_strategy_claim_kept:
  assumes "both (claim_kept K) s"
  shows "claim_kept K (t_strategy (saved (snd (create_strategy cfg uid p s))))"
proof -
  define st where "st = draft_strategy (fresh s) uid p"
  define s1 where "s1 = on_strategies (add_strategy st) (draw s)"
  have add: "claim_kept K (add_strategy st t)" if "strategy_create_valid p" "claim_kept K t" for t
    using that by (simp add: st_def draft_strategy_def strategy_create_valid_def claim_kept_def claimed_def
        strategies_valid_def)
  have "claim_kept K (t_strategy (saved (snd (commit_return st
      (on_strategies (add_version st uid) (s1\<lparr>cur := flush_all (cur s1)\<rparr>))))))" if "strategy_create_valid p"
    using both_kept_commit_return [of K "s1\<lparr>cur := flush_all (cur s1)\<rparr>" "add_version st uid" st]
      assms add [OF that] by (simp add: both_def s1_def)
  then show ?thesis
    using assms
    by (auto simp: create_strategy_def Let_def flush_def both_def s1_def [symmetric] st_def [symmetric]
        split: option.splits sum.splits)
      (simp_all add: s1_def)
qed

lemma update_strategy_claim_kept:
  assumes "both (claim_kept K) s"
  shows "claim_kept K (t_strategy (saved (snd (update_strategy cfg uid sid p s))))"
proof -
  have same: "both (claim_kept K) (snd (commit_return st s))" for st :: strategy
    by (cases rule: commit_return_cases [of st s]) (use assms in \<open>simp_all add: both_def\<close>)
  have new: "both (claim_kept K) (snd (commit_return new (on_strategies (add_version new uid \<circ> put_strategy new) s)))"
    if "0 < st_quantity new" for new
    using assms by (rule both_kept_commit_return)
      (simp add: kept_put_strategy that)
  have quantity: "0 < st_quantity (apply_changes p st)"
    if "owned_strategy (cur s) uid sid = Inr st" "strategy_update_valid p" for st
  proof -
    have "0 < st_quantity st" using assms by (intro owned_strategy_valid [OF that(1)]) (simp add: both_def claim_kept_def)
    moreover have "value_ok (\<lambda>n. 1 \<le> n) (su_quantity p)" using that(2) by (simp add: strategy_update_valid_def)
    ultimately show ?thesis
      by (simp add: apply_changes_def changed_to_def value_ok_def split: option.splits)
  qed
  show ?thesis
    using assms same new quantity
    by (auto simp: update_strategy_def Let_def both_def split: option.splits sum.splits)
qed

lemma switch_strategy_claim_kept:
  assumes "both (claim_kept K) s"
  shows "claim_kept K (t_strategy (saved (snd (activate cfg u sid confirmation s))))"
    "claim_kept K (t_strategy (saved (snd (pause uid sid s))))"
proof -
  have put: "claim_kept K (t_strategy (saved (snd (commit_return new (on_strategies (put_strategy new) s)))))"
    if "0 < st_quantity new" for new
    using both_kept_commit_return [OF assms, of "put_strategy new" new] that
    by (simp add: both_def kept_put_strategy)
  have q: "0 < st_quantity st" if "owned_strategy (cur s) uid sid = Inr st" for st uid
    using assms by (intro owned_strategy_valid [OF that]) (simp add: both_def claim_kept_def)
  show "claim_kept K (t_strategy (saved (snd (activate cfg u sid confirmation s))))"
    using assms put q by (auto simp: activate_def Let_def both_def split: sum.splits option.splits exn.splits)
  show "claim_kept K (t_strategy (saved (snd (pause uid sid s))))"
    using assms put q by (auto simp: pause_def Let_def both_def split: sum.splits)
qed

end
