(* ===== verification/Candles.thy ===== *)
theory Candles
  imports Contracts Store Config
begin

text \<open>
  The candle aggregator, \<^verbatim>\<open>market/candles.py\<close>: each quote of a user updates one candle per configured
  interval, closes the older candles of its series when it opens a new one, and is committed.  The
  cumulative volume last seen per user and instrument lives in the aggregator and not in the database.
\<close>

section \<open>One candle\<close>

type_synonym volumes = "string \<times> string \<rightharpoonup> pyfloat"

text \<open>\<^verbatim>\<open>bucket\<close>: the start of the interval that holds an instant.\<close>

definition bucket :: "instant \<Rightarrow> int \<Rightarrow> instant" where
  "bucket timestamp interval =
     (let epoch = truncate_rat (seconds_between timestamp 0) in (epoch - epoch mod interval) * 1000000)"

definition volume_delta :: "volumes \<Rightarrow> string \<Rightarrow> quote \<Rightarrow> pyfloat" where
  "volume_delta vs uid q =
     (let cumulative = float_or (q_volume q) 0;
          previous = or_else (vs (uid, q_instrument_id q)) cumulative
      in if previous \<le> cumulative then max 0 (fsub cumulative previous) else 0)"

definition open_candle :: "string \<Rightarrow> quote \<Rightarrow> pyfloat \<Rightarrow> int \<Rightarrow> instant \<Rightarrow> market_candle" where
  "open_candle uid q delta interval start =
     \<lparr>k_user_id = uid, k_instrument_id = q_instrument_id q, k_interval_seconds = interval, k_start_at = start,
      k_open = q_ltp q, k_high = q_ltp q, k_low = q_ltp q, k_close = q_ltp q, k_volume = delta,
      k_open_interest = q_open_interest q, k_source = q_source q, k_is_complete = False\<rparr>"

definition update_candle :: "quote \<Rightarrow> pyfloat \<Rightarrow> market_candle \<Rightarrow> market_candle" where
  "update_candle q delta k =
     k\<lparr>k_high := max (k_high k) (q_ltp q), k_low := min (k_low k) (q_ltp q), k_close := q_ltp q,
       k_volume := fadd (k_volume k) delta, k_open_interest := q_open_interest q, k_source := q_source q\<rparr>"

section \<open>The series in the database\<close>

definition find_candle :: "market_candle table \<Rightarrow> string \<times> string \<times> int \<times> instant \<Rightarrow> market_candle option" where
  "find_candle t key = List.find (\<lambda>k. candle_key k = key) (rows t)"

text \<open>The bulk \<^verbatim>\<open>UPDATE\<close> that completes the older candles of the series.\<close>

definition complete_older :: "string \<Rightarrow> string \<Rightarrow> int \<Rightarrow> instant \<Rightarrow> market_candle table \<Rightarrow> market_candle table" where
  "complete_older uid iid interval start t = t\<lparr>rows := map (\<lambda>k.
     if k_user_id k = uid \<and> k_instrument_id k = iid \<and> k_interval_seconds k = interval \<and>
        \<not> k_is_complete k \<and> k_start_at k < start
     then k\<lparr>k_is_complete := True\<rparr> else k) (rows t)\<rparr>"

text \<open>The body of the loop over the intervals.\<close>

definition ingest_interval :: "string \<Rightarrow> quote \<Rightarrow> pyfloat \<Rightarrow> int \<Rightarrow> market_candle table \<Rightarrow> market_candle table"
where
  "ingest_interval uid q delta interval t =
     (let start = bucket (q_exchange_timestamp q) interval in
      case find_candle t (uid, q_instrument_id q, interval, start) of
        None \<Rightarrow> insert_row (open_candle uid q delta interval start)
                  (complete_older uid (q_instrument_id q) interval start t)
      | Some k \<Rightarrow> put_flushed candle_key (update_candle q delta k) t)"

definition on_candles :: "(market_candle table \<Rightarrow> market_candle table) \<Rightarrow> session \<Rightarrow> session" where
  "on_candles f s = s\<lparr>cur := (cur s)\<lparr>t_strategy := (t_strategy (cur s))
     \<lparr>t_candles := f (t_candles (t_strategy (cur s)))\<rparr>\<rparr>\<rparr>"

definition ingest ::
  "int list \<Rightarrow> string \<Rightarrow> quote \<Rightarrow> volumes \<times> session \<Rightarrow> (exn + unit) \<times> volumes \<times> session" where
  "ingest intervals uid q st =
     (let (vs, s) = st;
          delta = volume_delta vs uid q;
          vs' = vs((uid, q_instrument_id q) \<mapsto> float_or (q_volume q) 0)
      in case commit (on_candles (fold (ingest_interval uid q delta) intervals) s) of
           (res, s') \<Rightarrow> (res, vs', s'))"

section \<open>Well-formed candles\<close>

definition candle_ok :: "market_candle \<Rightarrow> bool" where
  "candle_ok k \<longleftrightarrow> k_low k \<le> k_open k \<and> k_open k \<le> k_high k \<and> k_low k \<le> k_close k \<and> k_close k \<le> k_high k \<and>
     0 \<le> k_volume k"

lemma volume_delta_nonneg: "0 \<le> volume_delta vs uid q"
  by (simp add: volume_delta_def Let_def)

lemma open_candle_ok: "0 \<le> delta \<Longrightarrow> candle_ok (open_candle uid q delta interval start)"
  by (simp add: open_candle_def candle_ok_def)

lemma update_candle_ok: "candle_ok k \<Longrightarrow> 0 \<le> delta \<Longrightarrow> candle_ok (update_candle q delta k)"
  by (auto simp: update_candle_def candle_ok_def fadd_def fl.nonneg)

lemma candle_key_simps [simp]:
  "candle_key (open_candle uid q delta interval start) = (uid, q_instrument_id q, interval, start)"
  "candle_key (update_candle q delta k) = candle_key k"
  "candle_key (k\<lparr>k_is_complete := b\<rparr>) = candle_key k"
  by (simp_all add: candle_key_def open_candle_def update_candle_def)

lemma open_candle_interval [simp]:
  "k_interval_seconds (open_candle uid q delta interval start) = interval"
  by (simp add: open_candle_def)

lemma complete_older_simps [simp]:
  "added (complete_older uid iid interval start t) = added t"
  "map candle_key (rows (complete_older uid iid interval start t)) = map candle_key (rows t)"
  "objs (complete_older uid iid interval start t) = rows (complete_older uid iid interval start t) @ added t"
  by (auto simp: complete_older_def objs_def)

text \<open>
  \<open>series ok t ns\<close>: every candle satisfies \<open>ok\<close>, the keys are distinct, and what is pending belongs to an
  interval of \<open>ns\<close>.
\<close>

definition series :: "(market_candle \<Rightarrow> bool) \<Rightarrow> int set \<Rightarrow> market_candle table \<Rightarrow> bool" where
  "series ok ns t \<longleftrightarrow> (\<forall>k \<in> set (objs t). ok k) \<and> distinct (map candle_key (objs t)) \<and>
     (\<forall>k \<in> set (added t). k_interval_seconds k \<in> ns)"

lemma find_candleD: "find_candle t key = Some k \<Longrightarrow> k \<in> set (rows t) \<and> candle_key k = key"
  unfolding find_candle_def by (rule find_SomeD)

lemma find_candle_None: "find_candle t key = None \<Longrightarrow> key \<notin> candle_key ` set (rows t)"
  unfolding find_candle_def by (auto dest: find_NoneD)

lemma series_ingest_interval:
  assumes s: "series ok ns t" and n: "interval \<notin> ns"
    and new: "\<And>start. ok (open_candle uid q delta interval start)"
    and upd: "\<And>k. ok k \<Longrightarrow> ok (update_candle q delta k)"
    and complete: "\<And>k. ok k \<Longrightarrow> ok (k\<lparr>k_is_complete := True\<rparr>)"
  shows "series ok (insert interval ns) (ingest_interval uid q delta interval t)"
proof -
  define start where "start = bucket (q_exchange_timestamp q) interval"
  let ?key = "(uid, q_instrument_id q, interval, start)"
  show ?thesis
  proof (cases "find_candle t ?key")
    case None
    let ?t = "complete_older uid (q_instrument_id q) interval start t"
    have pending: "?key \<notin> candle_key ` set (added t)"
      using s n by (auto simp: series_def candle_key_def)
    have keys: "map candle_key (objs (insert_row (open_candle uid q delta interval start) ?t)) =
        map candle_key (objs t) @ [?key]"
      by (simp add: objs_def)
    have "distinct (map candle_key (objs t) @ [?key])"
      using s find_candle_None [OF None] pending by (auto simp: series_def objs_def)
    then have d: "distinct (map candle_key (objs (insert_row (open_candle uid q delta interval start) ?t)))"
      by (simp only: keys)
    have "\<forall>k \<in> set (objs ?t). ok k"
      using s complete by (auto simp: series_def objs_def complete_older_def)
    with d show ?thesis
      using s new None by (simp add: ingest_interval_def start_def [symmetric] series_def Let_def objs_def)
  next
    case (Some k)
    note k = find_candleD [OF Some]
    have "map candle_key (objs (put_flushed candle_key (update_candle q delta k) t)) = map candle_key (objs t)"
      by (simp add: objs_def)
    moreover have "ok (update_candle q delta k)" using s k upd by (auto simp: series_def objs_def)
    ultimately show ?thesis
      using s Some by (auto simp: ingest_interval_def start_def [symmetric] series_def Let_def objs_def
          dest!: in_upd_byD)
  qed
qed

section \<open>Candles as a summary of the ticks\<close>

text \<open>
  The contract of the aggregator: the open, high, low and close of the candle of a bucket summarise the prices that fell
  into it, in the order they came, and its volume adds up what was traded with each of them.  A tick is a price and the
  volume traded since the tick before.
\<close>

type_synonym ohlcv = "pyfloat \<times> pyfloat \<times> pyfloat \<times> pyfloat \<times> pyfloat"

definition ohlcv_of :: "market_candle \<Rightarrow> ohlcv" where
  "ohlcv_of k = (k_open k, k_high k, k_low k, k_close k, k_volume k)"

definition summary :: "(pyfloat \<times> pyfloat) list \<Rightarrow> ohlcv option" where
  "summary ts =
     (if ts = [] then None
      else Some (fst (hd ts), Max (fst ` set ts), Min (fst ` set ts), fst (last ts), foldl fadd (snd (hd ts)) (map snd (tl ts))))"

fun next_summary :: "pyfloat \<times> pyfloat \<Rightarrow> ohlcv option \<Rightarrow> ohlcv option" where
  "next_summary (p, d) None = Some (p, p, p, p, d)"
| "next_summary (p, d) (Some (a, h, l, c, v)) = Some (a, max h p, min l p, p, fadd v d)"

lemma summary_snoc: "summary (ts @ [t]) = next_summary t (summary ts)"
  by (cases t) (simp add: summary_def max.commute min.commute)

text \<open>The candle of a key among the flushed and the pending ones.\<close>

definition candle_at :: "market_candle table \<Rightarrow> string \<times> string \<times> int \<times> instant \<Rightarrow> ohlcv option" where
  "candle_at t key = map_option ohlcv_of (List.find (\<lambda>k. candle_key k = key) (objs t))"

lemma find_append: "List.find P (xs @ ys) = (case List.find P xs of None \<Rightarrow> List.find P ys | x \<Rightarrow> x)"
  by (induction xs) auto

lemma find_none: "(\<And>x. x \<in> set xs \<Longrightarrow> \<not> P x) \<Longrightarrow> List.find P xs = None"
  by (simp add: find_None_iff)

lemma find_map_keys:
  assumes "\<And>x. key (f x) = key x"
  shows "List.find (\<lambda>x. key x = k) (map f xs) = map_option f (List.find (\<lambda>x. key x = k) xs)"
  using assms by (induction xs) auto

lemma find_key_upd_by:
  "List.find (\<lambda>x. key x = k) (upd_by key r xs) =
     (if key r = k then map_option (\<lambda>_. r) (List.find (\<lambda>x. key x = k) xs) else List.find (\<lambda>x. key x = k) xs)"
  by (induction xs) auto

lemma candle_at_complete_older [simp]: "candle_at (complete_older uid iid interval start t) key = candle_at t key"
proof -
  have m: "List.find (\<lambda>k. candle_key k = key) (rows (complete_older uid iid interval start t)) =
      map_option (\<lambda>k. if k_user_id k = uid \<and> k_instrument_id k = iid \<and> k_interval_seconds k = interval \<and>
        \<not> k_is_complete k \<and> k_start_at k < start then k\<lparr>k_is_complete := True\<rparr> else k)
      (List.find (\<lambda>k. candle_key k = key) (rows t))"
    by (simp add: complete_older_def find_map_keys)
  show ?thesis
    by (simp add: candle_at_def find_append m objs_def option.map_comp split: option.split)
      (auto simp: ohlcv_of_def)
qed

lemma candle_at_put:
  assumes "key \<notin> candle_key ` set (added t)" "find_candle t key = Some k" "candle_key k' = key"
  shows "candle_at (put_flushed candle_key k' t) key' = (if key' = key then Some (ohlcv_of k') else candle_at t key')"
    "candle_at t key = Some (ohlcv_of k)"
  using assms by (auto simp: candle_at_def find_append find_key_upd_by objs_def find_candle_def split: option.split)

lemma candle_at_insert:
  "candle_at (insert_row k t) key = (case candle_at t key of None \<Rightarrow> if candle_key k = key then Some (ohlcv_of k) else None
     | x \<Rightarrow> x)"
  by (auto simp: candle_at_def find_append split: option.split)

text \<open>One interval: the candle of the tick takes it in, no other candle changes its prices or its volume.\<close>

lemma candle_at_ingest_interval:
  assumes "\<And>k. k \<in> set (added t) \<Longrightarrow> k_interval_seconds k \<noteq> interval"
  shows "candle_at (ingest_interval uid q delta interval t) key =
    (if key = (uid, q_instrument_id q, interval, bucket (q_exchange_timestamp q) interval)
     then next_summary (q_ltp q, delta) (candle_at t key) else candle_at t key)"
proof -
  define start where "start = bucket (q_exchange_timestamp q) interval"
  let ?key = "(uid, q_instrument_id q, interval, start)"
  have pending: "?key \<notin> candle_key ` set (added t)" using assms by (auto simp: candle_key_def)
  show ?thesis
  proof (cases "find_candle t ?key")
    case None
    have "List.find (\<lambda>k. candle_key k = ?key) (added t) = None"
      using pending by (intro find_none) (auto simp: image_iff)
    then have "candle_at t ?key = None"
      using None by (simp add: candle_at_def find_candle_def find_append objs_def)
    then show ?thesis
      using None by (auto simp: ingest_interval_def candle_at_insert open_candle_def ohlcv_of_def candle_key_def
          simp flip: start_def split: option.split)
  next
    case (Some k)
    have key: "candle_key (update_candle q delta k) = ?key" using find_candleD [OF Some] by simp
    show ?thesis
      using Some candle_at_put [OF pending Some key]
      by (auto simp: ingest_interval_def ohlcv_of_def update_candle_def simp flip: start_def)
  qed
qed

lemma added_ingest_interval:
  "k \<in> set (added (ingest_interval uid q delta interval t)) \<Longrightarrow>
     k \<in> set (added t) \<or> k_interval_seconds k = interval"
  by (auto simp: ingest_interval_def Let_def split: option.splits)

lemma candle_at_ingest_intervals:
  assumes "distinct ns" "\<And>k. k \<in> set (added t) \<Longrightarrow> k_interval_seconds k \<notin> set ns"
  shows "candle_at (fold (ingest_interval uid q delta) ns t) (u, i, n, b) =
    (if u = uid \<and> i = q_instrument_id q \<and> n \<in> set ns \<and> b = bucket (q_exchange_timestamp q) n
     then next_summary (q_ltp q, delta) (candle_at t (u, i, n, b)) else candle_at t (u, i, n, b))"
  using assms
proof (induction ns arbitrary: t)
  case (Cons m ns)
  have "candle_at (fold (ingest_interval uid q delta) ns (ingest_interval uid q delta m t)) (u, i, n, b) =
    (if u = uid \<and> i = q_instrument_id q \<and> n \<in> set ns \<and> b = bucket (q_exchange_timestamp q) n
     then next_summary (q_ltp q, delta) (candle_at (ingest_interval uid q delta m t) (u, i, n, b))
     else candle_at (ingest_interval uid q delta m t) (u, i, n, b))"
    by (rule Cons.IH) (use Cons.prems in \<open>auto dest!: added_ingest_interval\<close>)
  moreover have "candle_at (ingest_interval uid q delta m t) (u, i, n, b) =
    (if (u, i, n, b) = (uid, q_instrument_id q, m, bucket (q_exchange_timestamp q) m)
     then next_summary (q_ltp q, delta) (candle_at t (u, i, n, b)) else candle_at t (u, i, n, b))"
    by (rule candle_at_ingest_interval) (use Cons.prems(2) in auto)
  ultimately show ?case using Cons.prems(1) by auto
qed simp

end
