(* ===== verification/Platform.thy ===== *)
theory Platform
  imports StrategyBooks History Candles
begin

text \<open>
  The whole platform: trading requests, quotes and reconciliation, the strategy worker and the strategy
  endpoints on one database.  Evaluations keep every order invariant, so the books balance and the
  history of the ledger only grows when strategies trade too; and a claimed candle stays claimed.
\<close>

section \<open>Evaluations keep the order invariants\<close>

context order_invariant
begin

lemma good_on [simp]: "good (cur (on_strategies f s)) = good (cur s)"
  by (rule good_cong) simp_all

lemma outcome_commit_return:
  "good (cur s) \<Longrightarrow> durable good (saved s) \<Longrightarrow> outcome good (commit_return x s)"
  by (cases rule: commit_return_cases [of x s]) (simp_all add: outcome_def good_flush durable_flush)

lemma outcome_on_commit:
  "good (cur s) \<Longrightarrow> durable good (saved s) \<Longrightarrow> outcome good (commit_return x (on_strategies f s))"
  by (rule outcome_commit_return) simp_all

lemma outcome_finish:
  "good (cur s) \<Longrightarrow> durable good (saved s) \<Longrightarrow> outcome good (finish run status diagnostics s)"
  by (simp add: finish_def Let_def outcome_on_commit)

lemma outcome_submit_signal:
  assumes "good (cur s)" "durable good (saved s)" "0 < signal_quantity (cur s) st side"
  shows "outcome good (submit_signal w cfg st k run ins q side diagnostics s)"
proof -
  let ?n = "signal_quantity (cur s) st side" and ?cid = "client_order_id st (k_start_at k)"
  define s1 where "s1 = on_strategies (add_signal (new_signal (fresh s) st run side CREATED ?n (q_ltp q) ?cid None
    (clock s))) (draw s)"
  have s1: "good (cur s1)" "durable good (saved s1)" using assms by (simp_all add: s1_def)
  show ?thesis
  proof (cases "constraints (cur s1)")
    case False
    with s1 show ?thesis by (simp add: submit_signal_def Let_def flush_def outcome_def flip: s1_def)
  next
    case True
    then have flushed: "flush (cur s1) = Inr (flush_all (cur s1))" by (simp add: flush_def)
    define s2 where "s2 = s1\<lparr>cur := flush_all (cur s1)\<rparr>"
    have s2: "good (cur s2)" "durable good (saved s2)" using s1 True by (simp_all add: s2_def good_flush)
    let ?place = "manager_place w cfg (st_user_id st) ins (signal_values st ins side ?n ?cid (q_ltp q)) (Some q) s2"
    have "keeps good (manager_place w cfg (st_user_id st) ins (signal_values st ins side ?n ?cid (q_ltp q)) (Some q)) s2"
      by (rule keeps_manager(1)) (simp add: signal_values_def assms(3))
    then have placed: "outcome good ?place" using s2 by (simp add: keeps_outcome_iff)
    obtain res s3 where m: "?place = (res, s3)" by (cases ?place)
    have "good (cur s3)" if "res \<noteq> Inl IntegrityError" using placed that by (simp add: outcome_def m)
    moreover have "durable good (saved s3)" using placed by (simp add: outcome_def m)
    ultimately show ?thesis
      unfolding submit_signal_def Let_def s1_def [symmetric] flushed sum.case s2_def [symmetric] m
      using placed unfolding m
      by (auto simp: signal_submitted_def signal_rejected_def Let_def outcome_on_commit split: sum.splits exn.splits,
          simp_all add: outcome_def)
  qed
qed

lemma signal_quantity_pos:
  "suppression d st side = None \<Longrightarrow> 0 < st_quantity st \<Longrightarrow> 0 < signal_quantity d st side"
  by (cases side) (auto simp: suppression_def signal_quantity_def split: if_splits)

lemma outcome_route:
  assumes "good (cur s)" "durable good (saved s)" "0 < st_quantity st"
  shows "outcome good (route w cfg quotes st k run side diagnostics s)"
proof -
  have "outcome good (suppressed st k run side why diagnostics s)" for why
    unfolding suppressed_def by (rule outcome_finish) (use assms in simp_all)
  then show ?thesis
    using outcome_submit_signal [OF assms(1,2) signal_quantity_pos] assms outcome_pair [OF assms(1,2)]
    by (auto simp: route_def split: option.splits sum.splits)
qed

lemma outcome_evaluate_claimed:
  assumes "good (cur s)" "durable good (saved s)" "0 < st_quantity st"
  shows "outcome good (evaluate_claimed w cfg quotes st k run s)"
  using outcome_finish [OF assms(1,2)] outcome_finish [of "on_strategies f s" for f] assms
    outcome_route [OF assms]
  by (auto simp: evaluate_claimed_def Let_def split: option.splits prod.splits)

lemma outcome_crashed:
  assumes "durable good (saved s)"
  shows "outcome good (crashed sid rid e s)"
proof -
  have r: "good (cur (rollback s))" "durable good (saved (rollback s))"
    using assms by (simp_all add: durable_good)
  then show ?thesis
    unfolding crashed_def Let_def
    by (auto intro!: outcome_finish outcome_pair split: option.splits)
qed

lemma outcome_recover:
  assumes "outcome good result"
  shows "outcome good (recover sid run result)"
proof (cases result)
  case (Pair res s)
  have "durable good (saved s)" "res \<noteq> Inl IntegrityError \<Longrightarrow> good (cur s)"
    using assms by (simp_all add: Pair outcome_def)
  with assms show ?thesis
    by (auto simp: Pair recover_def split: sum.splits exn.splits intro!: outcome_finish outcome_crashed)
qed

lemma outcome_evaluate:
  assumes "good (cur s)" "durable good (saved s)" "0 < st_quantity st"
  shows "outcome good (evaluate w cfg quotes st k s)"
proof (cases "evaluate w cfg quotes st k s")
  case (Pair res s')
  then show ?thesis
  proof (cases rule: evaluate_cases)
    case (worked run st' s2)
    have "good (cur s2)"
    proof -
      have "good (flush_all (cur (on_strategies (put_strategy st' \<circ> flush_strategy \<circ> add_run run) s)))"
      proof (rule good_flush)
        have "constraints (flush_all (cur (on_strategies (put_strategy st' \<circ> flush_strategy \<circ> add_run run) s)))"
          using worked(7) unfolding worked(11) .
        then show "constraints (cur (on_strategies (put_strategy st' \<circ> flush_strategy \<circ> add_run run) s))" by simp
      qed (use assms(1) in simp)
      then show ?thesis by (simp flip: worked(11))
    qed
    moreover have "durable good (saved s2)"
      using durable_flush [OF worked(7) calculation] unfolding worked(5,6) .
    ultimately have "outcome good (evaluate_claimed w cfg quotes st' k run s2)"
      by (rule outcome_evaluate_claimed) (use assms(3) worked(3) in simp)
    then show ?thesis unfolding Pair worked(4) by (rule outcome_recover)
  qed (use assms in \<open>simp_all add: Pair outcome_def\<close>)
qed

lemma session_ok_run_strategy:
  assumes "session_ok good s" "0 < st_quantity st"
  shows "durable good (saved (snd (run_strategy w cfg quotes st s)))"
    "isl (fst (run_strategy w cfg quotes st s)) \<or> session_ok good (snd (run_strategy w cfg quotes st s))"
proof -
  have s: "good (cur s)" "durable good (saved s)" using assms(1) by (simp_all add: session_ok_def)
  have stop: "outcome good (commit (on_strategies f s))" for f
    by (cases rule: commit_cases [of "on_strategies f s"])
      (use s in \<open>simp_all add: outcome_def good_flush durable_flush\<close>)
  have eval: "session_ok good (snd (case evaluate w cfg quotes st k s of
      (Inl e, s') \<Rightarrow> (Inr (), rollback s') | (Inr r, s') \<Rightarrow> (Inr (), s')))" for k
    using outcome_evaluate [OF s assms(2), of w cfg quotes k]
    by (auto simp: outcome_def session_ok_rollback split: prod.splits sum.splits) (simp add: session_ok_def)
  show "durable good (saved (snd (run_strategy w cfg quotes st s)))"
    using stop eval s by (auto simp: run_strategy_def outcome_def session_ok_def split: option.splits)
  show "isl (fst (run_strategy w cfg quotes st s)) \<or> session_ok good (snd (run_strategy w cfg quotes st s))"
  proof (cases "incomplete (cur s) (st_id st)")
    case True
    then show ?thesis
      using stop [of "put_strategy (st\<lparr>st_status := ERROR, st_last_error := Some ''INCOMPLETE_SIGNAL_REQUIRES_RECONCILIATION''\<rparr>)"]
      by (auto simp: run_strategy_def outcome_def session_ok_def)
  next
    case False
    then show ?thesis using eval assms(1) by (auto simp: run_strategy_def split: option.splits)
  qed
qed

lemma durable_run_once:
  assumes "session_ok good s" "both (claim_kept {}) s"
  shows "durable good (saved (snd (run_once w cfg quotes s)))"
proof -
  have "durable good (saved (snd (run_strategies w cfg quotes sids s)))" for sids
    using assms
  proof (induction sids arbitrary: s)
    case (Cons sid sids)
    show ?case
    proof (cases "find_strategy (cur s) sid")
      case (Some st)
      have q: "0 < st_quantity st"
        using find_strategy_valid [OF Some] Cons.prems(2) by (simp add: both_def claim_kept_def)
      obtain res s' where r: "run_strategy w cfg quotes st s = (res, s')" by (cases "run_strategy w cfg quotes st s")
      have "both (claim_kept {}) s'" using run_strategy_claim_kept [OF Cons.prems(2) q, of w cfg quotes] r by simp
      with session_ok_run_strategy [OF Cons.prems(1) q, of w cfg quotes] Some r Cons.IH [of s'] show ?thesis
        by (auto split: sum.splits)
    qed (use Cons in simp)
  qed (simp add: session_ok_def)
  then show ?thesis using assms(1) by (simp add: run_once_def session_ok_def)
qed

lemma durable_return:
  "session_ok good s \<Longrightarrow> durable good (saved (snd (commit_return x s)))"
  "session_ok good s \<Longrightarrow> durable good (saved (snd (commit_return x (on_strategies f s))))"
  by (simp_all add: session_ok_def outcome_commit_return [unfolded outcome_def] outcome_on_commit [unfolded outcome_def])

lemma durable_endpoints:
  assumes "session_ok good s"
  shows "durable good (saved (snd (create_strategy cfg uid p s)))"
    "durable good (saved (snd (update_strategy cfg uid sid pu s)))"
    "durable good (saved (snd (activate cfg u sid confirmation s)))"
    "durable good (saved (snd (pause uid sid s)))"
proof -
  have s: "good (cur s)" "durable good (saved s)" using assms by (simp_all add: session_ok_def)
  note ends = durable_return [OF assms]
  define s1 where "s1 = on_strategies (add_strategy (draft_strategy (fresh s) uid p)) (draw s)"
  have s1: "good (cur s1)" "durable good (saved s1)" using s by (simp_all add: s1_def draw_def)
  have made: "durable good (saved (snd (commit_return x (on_strategies f (s1\<lparr>cur := flush_all (cur s1)\<rparr>)))))"
    if "constraints (cur s1)" for x :: strategy and f
    by (rule durable_return(2)) (use s1 that in \<open>simp add: session_ok_def good_flush\<close>)
  show "durable good (saved (snd (create_strategy cfg uid p s)))"
    using s s1 made by (auto simp: create_strategy_def Let_def flush_def s1_def [symmetric] split: option.splits)
  show "durable good (saved (snd (update_strategy cfg uid sid pu s)))"
    using s ends by (auto simp: update_strategy_def Let_def split: option.splits sum.splits)
  show "durable good (saved (snd (activate cfg u sid confirmation s)))"
    using s ends by (auto simp: activate_def Let_def split: sum.splits option.splits exn.splits)
  show "durable good (saved (snd (pause uid sid s)))"
    using s ends by (auto simp: pause_def Let_def split: sum.splits)
qed

lemma durable_ingest:
  assumes "session_ok good s" "ingest ns uid q (vs, s) = (res, vs', s')"
  shows "durable good (saved s')" "res = Inr () \<Longrightarrow> session_ok good s'"
proof -
  let ?f = "\<lambda>t. t\<lparr>t_candles := fold (ingest_interval uid q (volume_delta vs uid q)) ns (t_candles t)\<rparr>"
  have "on_candles (fold (ingest_interval uid q (volume_delta vs uid q)) ns) s = on_strategies ?f s"
    by (simp add: on_candles_def on_strategies_def)
  then have e: "commit (on_strategies ?f s) = (res, s')" using assms(2) by (simp add: ingest_def Let_def split: prod.splits)
  have g: "good (cur (on_strategies ?f s))" "durable good (saved (on_strategies ?f s))"
    using assms(1) by (simp_all add: session_ok_def)
  have "durable good (saved s') \<and> (res = Inr () \<longrightarrow> good (cur s'))"
    by (cases rule: commit_cases [of "on_strategies ?f s"]) (use g e in \<open>auto simp: good_flush durable_flush\<close>)
  then show "durable good (saved s')" "res = Inr () \<Longrightarrow> session_ok good s'" by (simp_all add: session_ok_def)
qed

end

section \<open>The platform\<close>

text \<open>
  A quote at the market worker (\<^verbatim>\<open>MarketWorker._handle_dhan_packet\<close> after its normalisation): it is taken
  into the candles and, in paper mode, fills the resting orders, in one session.
\<close>

definition quote_received :: "settings \<Rightarrow> int list \<Rightarrow> string \<Rightarrow> quote \<Rightarrow> volumes \<times> session \<Rightarrow> volumes \<times> session"
where
  "quote_received cfg ns uid q st =
     (case ingest ns uid q st of
        (Inl e, vs, s) \<Rightarrow> (vs, rollback s)
      | (Inr _, vs, s) \<Rightarrow>
          (vs, rollback (if trading_mode cfg = ''paper'' then snd (process_quote cfg uid q s) else s)))"

datatype platform_event =
    Trading event
  | MarketQuote string quote
  | StrategyPass quote_feed
  | CreateStrategy string strategy_create
  | UpdateStrategy string string strategy_update
  | ActivateStrategy user string "string option"
  | PauseStrategy string string

fun platform_step ::
  "world \<Rightarrow> settings \<Rightarrow> int list \<Rightarrow> platform_event \<Rightarrow> volumes \<times> session \<Rightarrow> volumes \<times> session" where
  "platform_step w cfg ns (Trading ev) (vs, s) = (vs, system_step w cfg ev s)"
| "platform_step w cfg ns (MarketQuote uid q) (vs, s) = quote_received cfg ns uid q (vs, s)"
| "platform_step w cfg ns (StrategyPass quotes) (vs, s) = (vs, rollback (snd (run_once w cfg quotes s)))"
| "platform_step w cfg ns (CreateStrategy uid p) (vs, s) = (vs, rollback (snd (create_strategy cfg uid p s)))"
| "platform_step w cfg ns (UpdateStrategy uid sid p) (vs, s) =
     (vs, rollback (snd (update_strategy cfg uid sid p s)))"
| "platform_step w cfg ns (ActivateStrategy u sid confirmation) (vs, s) =
     (vs, rollback (snd (activate cfg u sid confirmation s)))"
| "platform_step w cfg ns (PauseStrategy uid sid) (vs, s) = (vs, rollback (snd (pause uid sid s)))"

text \<open>Between two events: the books agree, the strategies are valid, and the candles \<open>K\<close> are claimed.\<close>

definition platform_ok :: "(string \<times> instant) set \<Rightarrow> volumes \<times> session \<Rightarrow> bool" where
  "platform_ok K st \<longleftrightarrow> between_events (snd st) \<and> claim_kept K (t_strategy (saved (snd st)))"

lemma platform_session:
  assumes "platform_ok K (vs, s)"
  shows "session_ok book s" "both (claim_kept K) s" "both (claim_kept {}) s"
    "calm t_strategy flush_strategy (t_strategy (saved s)) s"
proof -
  have s: "durable book (saved s)" "cur s = saved s" "claim_kept K (t_strategy (saved s))"
    using assms by (simp_all add: platform_ok_def between_events_def)
  then show "session_ok book s" "both (claim_kept K) s" "calm t_strategy flush_strategy (t_strategy (saved s)) s"
    by (simp_all add: session_ok_def durable_def both_def calm_def clean_def)
  then show "both (claim_kept {}) s" by (auto simp: both_def claim_kept_def claimed_def)
qed

lemma platform_ok_rollback:
  "durable book (saved s) \<Longrightarrow> claim_kept K (t_strategy (saved s)) \<Longrightarrow> platform_ok K (vs, rollback s)"
  by (simp add: platform_ok_def between_events_def rollback_def)

lemma framed_kept:
  "framed t_strategy flush_strategy s s' \<Longrightarrow> both (claim_kept K) s \<Longrightarrow> claim_kept K (t_strategy (saved s'))"
  by (auto simp: framed_def both_def)

lemma ingest_kept:
  assumes "both (claim_kept K) s" "ingest ns uid q (vs, s) = (res, vs', s')"
  shows "claim_kept K (t_strategy (saved s'))" "both (claim_kept K) s'"
proof -
  let ?s1 = "on_candles (fold (ingest_interval uid q (volume_delta vs uid q)) ns) s"
  have "commit ?s1 = (res, s')" using assms(2) by (simp add: ingest_def Let_def split: prod.splits)
  moreover have "claim_kept K (t\<lparr>t_candles := ks\<rparr>) = claim_kept K t" for t ks
    by (simp add: claim_kept_def claimed_def strategies_valid_def)
  then have "both (claim_kept K) ?s1" using assms(1) by (simp add: both_def on_candles_def)
  ultimately have "both (claim_kept K) s'"
    by (cases rule: commit_cases [of ?s1]) (auto simp: both_def)
  then show "both (claim_kept K) s'" "claim_kept K (t_strategy (saved s'))" by (simp_all add: both_def)
qed

lemma quote_received_ok:
  assumes "platform_ok K (vs, s)"
  shows "platform_ok K (quote_received cfg ns uid q (vs, s))"
proof -
  note ok = platform_session [OF assms]
  obtain res vs' s1 where e: "ingest ns uid q (vs, s) = (res, vs', s1)" by (cases "ingest ns uid q (vs, s)")
  note kept = ingest_kept [OF ok(2) e] and durable = books.durable_ingest [OF ok(1) e]
  have filled: "platform_ok K (vs', rollback (snd (process_quote cfg uid q s1)))" if "res = Inr ()"
    using durable(2) [OF that] books.keeps_process_quote [of cfg uid q s1]
    by (intro platform_ok_rollback framed_kept [OF strategies.framed_process_quote kept(2)])
      (simp add: keeps_outcome_iff session_ok_def outcome_def)
  from platform_ok_rollback [OF durable(1) kept(1)] filled show ?thesis
    by (cases res) (simp_all add: quote_received_def e)
qed

lemma platform_step_ok:
  assumes "platform_ok K (vs, s)"
  shows "platform_ok K (platform_step w cfg ns ev (vs, s))"
proof -
  note ok = platform_session [OF assms]
  show ?thesis
  proof (cases ev)
    case (Trading ev)
    have "between_events (system_step w cfg ev s)"
      using system_step_event assms by (simp add: platform_ok_def)
    moreover have "t_strategy (saved (system_step w cfg ev s)) = t_strategy (saved s)"
      using strategies.calm_system_step [OF ok(4)] by (simp add: calm_def)
    ultimately show ?thesis using assms by (simp add: Trading platform_ok_def)
  next
    case (MarketQuote uid q)
    then show ?thesis using quote_received_ok [OF assms] by simp
  next
    case (StrategyPass quotes)
    then show ?thesis
      using run_once_claim_kept [OF ok(2)]
      by (simp add: platform_ok_rollback books.durable_run_once [OF ok(1,3)] both_def)
  qed (simp_all add: platform_ok_rollback books.durable_endpoints [OF ok(1)] create_strategy_claim_kept [OF ok(2)]
      update_strategy_claim_kept [OF ok(2)] switch_strategy_claim_kept [OF ok(2)])
qed

interpretation platform: preserving "platform_step w cfg ns" "platform_ok K" for w cfg ns K
  by unfold_locales (metis platform_step_ok prod.exhaust)

end
