(* ===== verification/RunEnds.thy ===== *)
theory RunEnds
  imports Platform
begin

text \<open>
  How an evaluation ends.  Once the run of a candle is claimed, the run and its strategy stay in the tables, so every
  handler of the executor finds them: the locale \<open>strategy_invariant\<close> is interpreted for that.  Each way out of an
  evaluation then writes the run with a final status and the time, and its commit succeeds: the rollback of the last
  handler falls back on durable rows that satisfy the constraints, and the exceptions the other handler treats leave
  nothing pending that could break them.
\<close>

section \<open>The run and its strategy stay in the tables\<close>

definition at_work :: "string \<Rightarrow> strategy_run \<Rightarrow> strategy_tables \<Rightarrow> bool" where
  "at_work sid run t \<longleftrightarrow> claim {run_key run} run t \<and> sr_id run \<in> sr_id ` set (objs (t_runs t)) \<and>
     sid \<in> st_id ` set (objs (t_strategies t))"

lemma image_key_upd_by [simp]: "key ` set (upd_by key r xs) = key ` set xs"
  by (simp flip: set_map)

interpretation works: strategy_invariant "at_work sid run" run for sid run
proof
  show "at_work sid run (flush_strategy t) = at_work sid run t" for t
    by (simp add: at_work_def claims.ok_flush)
  show "at_work sid run t \<Longrightarrow> 0 < st_quantity st \<Longrightarrow> at_work sid run (put_strategy st t)" for t st
    by (simp add: at_work_def claims.ok_put_strategy)
  show "at_work sid run t \<Longrightarrow> st \<in> set (objs (t_strategies t)) \<Longrightarrow> 0 < st_quantity st" for t st
    unfolding at_work_def by (blast intro: claims.ok_strategy)
  show "at_work sid run t \<Longrightarrow> at_work sid run (add_signal g t)" "at_work sid run t \<Longrightarrow> at_work sid run (put_signal g t)"
    for t g
    by (simp_all add: at_work_def claims.ok_add_signal claims.ok_put_signal)
  show "at_work sid run t \<Longrightarrow> sr_id r = sr_id run \<Longrightarrow> run_key r = run_key run \<Longrightarrow> at_work sid run (put_run r t)" for t r
    by (simp add: at_work_def claims.ok_put_run)
  show "at_work sid run t \<Longrightarrow> r \<in> set (objs (t_runs t)) \<Longrightarrow> sr_id r = sr_id run \<Longrightarrow> run_key r = run_key run" for t r
    unfolding at_work_def by (blast intro: claims.ok_run)
qed

section \<open>What is written\<close>

definition run_ended :: "string \<times> instant \<Rightarrow> instant \<Rightarrow> (exn + strategy_run) \<times> session \<Rightarrow> bool" where
  "run_ended key now result \<longleftrightarrow> clock (snd result) = now \<and>
     (\<forall>r. fst result = Inr r \<longrightarrow> r \<in> set (rows (t_runs (t_strategy (saved (snd result))))) \<and> run_key r = key \<and>
        sr_status r \<noteq> STARTED \<and> sr_finished_at r = Some now)"

lemma ended_error: "clock s = now \<Longrightarrow> run_ended key now (Inl e, s)"
  by (simp add: run_ended_def)

lemma ended_return:
  assumes "r \<in> set (objs (t_runs (f (t_strategy (cur s)))))" "run_key r = key" "sr_status r \<noteq> STARTED"
    "sr_finished_at r = Some now" "clock s = now"
  shows "run_ended key now (commit_return r (on_strategies f s))"
  by (cases rule: commit_return_cases [of r "on_strategies f s"]) (use assms in \<open>simp_all add: run_ended_def\<close>)

text \<open>A run written over the claimed one is among the runs.\<close>

lemma run_written:
  "at_work sid run t \<Longrightarrow> sr_id r = sr_id run \<Longrightarrow> r \<in> set (upd_by sr_id r (objs (t_runs t)))"
  by (auto simp: at_work_def intro: in_upd_by_self)

lemma ended_finish:
  assumes "at_work sid run (t_strategy (cur s))" "sr_id r = sr_id run" "run_key r = run_key run" "status \<noteq> STARTED"
    "clock s = now"
  shows "run_ended (run_key run) now (finish r status diagnostics s)"
  unfolding finish_def Let_def
  by (rule ended_return) (use assms run_written [OF assms(1)] in \<open>simp_all add: run_key_def\<close>)

lemma ended_answered:
  assumes "at_work sid run (t_strategy (cur s))" "clock s = now"
  shows "run_ended (run_key run) now (signal_submitted st run g diagnostics r s)"
    "run_ended (run_key run) now (signal_rejected st run g diagnostics code s)"
  unfolding signal_submitted_def signal_rejected_def Let_def
  by (rule ended_return; use assms run_written [OF assms(1)] in \<open>simp add: run_key_def\<close>)+

lemma ended_submit:
  assumes "both (at_work sid run) s" "clock s = now"
  shows "run_ended (run_key run) now (submit_signal w cfg st k run ins q side diagnostics s)"
proof -
  let ?n = "signal_quantity (cur s) st side" and ?cid = "client_order_id st (k_start_at k)"
  define s1 where "s1 = on_strategies (add_signal (new_signal (fresh s) st run side CREATED ?n (q_ltp q) ?cid None
    (clock s))) (draw s)"
  define s2 where "s2 = s1\<lparr>cur := flush_all (cur s1)\<rparr>"
  have s2: "both (at_work sid run) s2" "clock s2 = now" "clock s1 = now"
    using assms by (simp_all add: s2_def s1_def both_def works.ok_add_signal works.ok_flush draw_def)
  obtain res s3 where m: "manager_place w cfg (st_user_id st) ins (signal_values st ins side ?n ?cid (q_ltp q)) (Some q) s2
      = (res, s3)"
    by (cases "manager_place w cfg (st_user_id st) ins (signal_values st ins side ?n ?cid (q_ltp q)) (Some q) s2")
  have "framed t_strategy flush_strategy s2 s3"
    using strategies.framed_manager(1) [of s2 w cfg "st_user_id st" ins "signal_values st ins side ?n ?cid (q_ltp q)" "Some q"]
    by (simp add: m)
  then have s3: "both (at_work sid run) s3" "clock s3 = now"
    using works.both_framed [OF s2(1)] s2(2) by (simp_all add: framed_unfold)
  show ?thesis
  proof (cases "constraints (cur s1)")
    case False
    then show ?thesis using s2(3) by (simp add: submit_signal_def Let_def flush_def ended_error flip: s1_def)
  next
    case True
    then have flushed: "flush (cur s1) = Inr (flush_all (cur s1))" by (simp add: flush_def)
    have "at_work sid run (t_strategy (cur s3))" using s3(1) by (simp add: both_def)
    from ended_answered [OF this s3(2)] ended_error [OF s3(2)] show ?thesis
      unfolding submit_signal_def Let_def s1_def [symmetric] flushed sum.case s2_def [symmetric] m
      by (auto split: sum.splits exn.splits)
  qed
qed

lemma guard_status:
  assumes "evaluation_guard cfg st owner k now = Some (status, diagnostics, why)"
  shows "status \<noteq> STARTED"
  using assms by (auto simp: evaluation_guard_def Let_def split: if_splits option.splits exn.splits)

lemma ended_evaluate_claimed:
  assumes "both (at_work sid run) s" "0 < st_quantity st" "clock s = now"
  shows "run_ended (run_key run) now (evaluate_claimed w cfg quotes st k run s)"
proof -
  have here: "at_work sid run (t_strategy (cur s))" using assms(1) by (simp add: both_def)
  have finish: "run_ended (run_key run) now (finish run status diagnostics s)" if "status \<noteq> STARTED" for status diagnostics
    using ended_finish [OF here _ _ that assms(3)] by simp
  have stopped: "run_ended (run_key run) now (finish run status diagnostics (on_strategies (put_strategy
      (st\<lparr>st_status := ERROR, st_last_error := Some why\<rparr>)) s))" if "status \<noteq> STARTED" for status diagnostics why
    by (rule ended_finish [of sid]) (use here assms(2,3) that in \<open>simp_all add: works.ok_put_strategy\<close>)
  have suppress: "run_ended (run_key run) now (suppressed st k run side why diagnostics s)" for side why diagnostics
    unfolding suppressed_def
    by (rule ended_finish [of sid]) (use here assms(3) in \<open>simp_all add: works.ok_add_signal draw_def\<close>)
  have "run_ended (run_key run) now (route w cfg quotes st k run side diagnostics s)" for side diagnostics
    using ended_submit [OF assms(1,3)] suppress ended_error [OF assms(3)]
    by (auto simp: route_def split: option.splits sum.splits)
  then show ?thesis
    using finish stopped guard_status by (auto simp: evaluate_claimed_def Let_def split: option.splits prod.splits)
qed

lemma ended_recover:
  assumes "run_ended (run_key run) now result" "both (at_work sid run) (snd result)"
  shows "run_ended (run_key run) now (recover sid run result)"
proof -
  obtain res s where r: "result = (res, s)" by (cases result)
  have c: "clock s = now" and w: "at_work sid run (t_strategy (cur s))" "at_work sid run (t_strategy (saved s))"
    using assms by (simp_all add: r run_ended_def both_def)
  have "run_ended (run_key run) now (crashed sid (sr_id run) e s)" for e
  proof -
    have "run_ended (run_key run) now (finish x FAILED diagnostics (on_strategies (put_strategy
        (st\<lparr>st_status := ERROR, st_last_error := Some why\<rparr>)) (rollback s)))"
      if "find_strategy (saved s) sid = Some st" "find_run (saved s) (sr_id run) = Some x" for x st why diagnostics
    proof (rule ended_finish [of sid])
      have "st \<in> set (objs (t_strategies (t_strategy (saved s))))"
        using that(1) by (auto simp: find_strategy_def dest!: find_SomeD intro: rows_in_objs)
      from works.ok_strategy [OF w(2) this]
      show "at_work sid run (t_strategy (cur (on_strategies (put_strategy
          (st\<lparr>st_status := ERROR, st_last_error := Some why\<rparr>)) (rollback s))))"
        using w(2) by (simp add: rollback_def works.ok_put_strategy)
      have x: "x \<in> set (objs (t_runs (t_strategy (saved s))))" "sr_id x = sr_id run"
        using that(2) by (auto simp: find_run_def dest!: find_SomeD intro: rows_in_objs)
      then show "sr_id x = sr_id run" "run_key x = run_key run" using works.ok_run [OF w(2)] by blast+
    qed (use c in \<open>simp_all add: rollback_def\<close>)
    then show ?thesis using c by (auto simp: crashed_def Let_def rollback_def split: option.splits intro!: ended_error)
  qed
  moreover have "run_ended (run_key run) now (finish run SKIPPED diagnostics s)" for diagnostics
    by (rule ended_finish [OF w(1) _ _ _ c]) simp_all
  ultimately show ?thesis using assms(1) by (auto simp: r recover_def split: sum.splits exn.splits)
qed

section \<open>What may raise\<close>

text \<open>The exceptions that the executor turns into a skipped run.\<close>

fun treated :: "exn \<Rightarrow> bool" where
  "treated (StrategyError code status) \<longleftrightarrow> True"
| "treated (TradingError code status) \<longleftrightarrow> True"
| "treated _ \<longleftrightarrow> False"

fun faulty :: "exn \<Rightarrow> bool" where
  "faulty (StrategyError code status) \<longleftrightarrow> True"
| "faulty _ \<longleftrightarrow> False"

definition strategy_fault :: "exn + 'a \<Rightarrow> bool" where
  "strategy_fault r \<longleftrightarrow> (case r of Inl e \<Rightarrow> faulty e | Inr _ \<Rightarrow> False)"

lemma fault_simps [simp]: "strategy_fault (Inl e) = faulty e" "\<not> strategy_fault (Inr x)"
  by (simp_all add: strategy_fault_def)

lemma fault_Inl: "\<not> strategy_fault r \<Longrightarrow> r = Inl e \<Longrightarrow> \<not> faulty e"
  by simp

lemma fault_bind:
  assumes "\<not> strategy_fault (fst r)" "\<And>x s. \<not> strategy_fault (fst (f x s))"
  shows "\<not> strategy_fault (fst (case r of (Inl e, s) \<Rightarrow> (Inl e, s) | (Inr x, s) \<Rightarrow> f x s))"
  using assms by (cases r) (auto split: sum.split)

text \<open>Neither the engine nor the adapter raises a \<^verbatim>\<open>StrategyError\<close> of its own.\<close>

lemma fault_commit [simp]: "\<not> strategy_fault (fst (commit_return x s))"
  "\<not> strategy_fault (fst (commit_raise code s))" "\<not> strategy_fault (fst (commit s))"
  by (cases rule: commit_return_cases [of x s]; simp)
    (cases rule: commit_cases [of s]; simp add: commit_raise_def)+

lemma fault_quote_check [simp]: "quote_check cfg now oq = Some e \<Longrightarrow> \<not> faulty e"
  by (auto simp: quote_check_def split: option.splits if_splits)

lemma fault_risk_check [simp]: "risk_check cfg d uid ins side product n price mode = Some e \<Longrightarrow> \<not> faulty e"
  by (auto simp: risk_check_def control_check_def split: option.splits if_splits)

lemma fault_paper_place: "\<not> strategy_fault (fst (paper_place cfg uid ins v oq s))"
proof -
  have guard: "\<not> faulty e" if "place_guard cfg s uid ins v oq = Some e" for e
    using that by (auto simp: place_guard_def split: option.splits if_splits)
  have "\<not> strategy_fault (fst (paper_fill cfg q r n s))" for q r n s
    by (auto simp: paper_fill_def apply_execution_def Let_def split: option.splits)
  then have "\<not> strategy_fault (fst (case paper_fill cfg q r n s1 of (Inl e, s3) \<Rightarrow> (Inl e, s3)
      | (Inr r', s3) \<Rightarrow> commit_return r' s3))" for q r n s1
    by (intro fault_bind fault_commit)
  then have "\<not> strategy_fault (fst (paper_submit cfg uid ins v oq s))"
    by (auto simp: paper_submit_def Let_def flush_def)
  then show ?thesis using guard by (auto simp: paper_place_def split: option.splits)
qed

lemma fault_segments:
  "\<not> strategy_fault (derived_segment ins)" "\<not> strategy_fault (token_segment pr ins token)"
proof -
  show derived: "\<not> strategy_fault (derived_segment ins)"
    unfolding derived_segment_def Let_def by (simp only: if_distrib [of strategy_fault] fault_simps faulty.simps if_cancel simp_thms)
  have "\<not> strategy_fault (map_sum id f r)" if "\<not> strategy_fault r" for f :: "string \<Rightarrow> string" and r
    using that by (cases r) auto
  with derived show "\<not> strategy_fault (token_segment pr ins token)" by (simp add: token_segment_def Let_def)
qed

lemma fault_subscription: "\<not> strategy_fault (dhan_subscription pr ins)"
proof -
  have "\<not> strategy_fault (subscription_token pr ins)"
    using fault_Inl [OF fault_segments(1)] fault_Inl [OF fault_segments(2)] unfolding subscription_token_def
    by (auto split: json.splits sum.splits)
  then show ?thesis by (auto simp: dhan_subscription_def split: sum.splits option.splits)
qed

lemma fault_dhan_place: "\<not> strategy_fault (fst (dhan_place w credentials client_id ins r s))"
proof -
  have "\<not> faulty e" if "error_code pr parsed = e" for pr parsed e
    using that by (auto simp: error_code_def as_dict_def split: option.splits sum.splits json.splits)
  then have "\<not> strategy_fault (read_reply pr verb rep)" for pr verb rep
    by (auto simp: read_reply_def split: reply.splits option.splits)
  moreover have "\<not> faulty e" if "token_header credentials = Inl e" for e
    using that by (auto simp: token_header_def split: option.splits json.splits)
  ultimately show ?thesis
    using fault_subscription [of "w_repr w" ins] by (auto simp: dhan_place_def dhan_request_def Let_def split: sum.splits)
qed

lemma fault_live_submit: "\<not> strategy_fault (fst (live_submit w credentials client_id ins r s))"
proof -
  have "\<not> strategy_fault (fst (placed pr r response s))" for pr response s
    by (auto simp: placed_def as_dict_def map_dhan_status_def Let_def split: sum.splits json.splits)
  then have "\<not> strategy_fault (fst (case dhan_place w credentials client_id ins r s of
      (Inl e, s') \<Rightarrow> (Inl e, s') | (Inr response, s') \<Rightarrow> placed (w_repr w) r response s'))"
    by (intro fault_bind fault_dhan_place)
  then show ?thesis
    by (auto simp: live_submit_def except_dhan_def place_failed_def Let_def split: prod.splits sum.splits exn.splits)
qed

text \<open>Where decrypting the credentials raises one, nothing is pending that breaks a constraint.\<close>

lemma faulty_placement:
  assumes "manager_place w cfg uid ins v oq s = (res, s')" "strategy_fault res" "constraints (cur s)"
  shows "constraints (cur s')"
proof -
  have connection: "constraints (cur s1)" if "dhan_connection w uid s = (Inl e, s1)" "faulty e" for e s1
  proof -
    have "s1 = s" using that
      by (auto simp: dhan_connection_def Let_def commit_def flush_def split: option.splits sum.splits if_splits)
    then show ?thesis using assms(3) by simp
  qed
  have guard: "\<not> faulty e" if "live_place_guard cfg s uid ins v oq = Some e" for e
    using that by (auto simp: live_place_guard_def split: option.splits if_splits)
  have committed: "\<not> faulty e" if "commit s1 = (Inl e, s2)" for s1 s2 e
    using fault_commit(3) [of s1] by (simp add: that)
  have submitted: "\<not> strategy_fault res'" if "live_submit w credentials client_id ins r s1 = (res', s2)"
    for credentials client_id r s1 s2 res'
    using fault_live_submit [of w credentials client_id ins r s1] by (simp add: that)
  have gate: "\<not> faulty e" if "live_gate cfg = Some e" for e
    using that by (auto simp: live_gate_def split: if_splits)
  have "live_place w cfg uid ins v oq s = (res, s') \<Longrightarrow> constraints (cur s')"
    using assms(2) connection guard gate committed submitted
    by (auto simp: live_place_def Let_def split: option.splits prod.splits sum.splits if_splits)
  then show ?thesis
    using assms fault_paper_place [of cfg uid ins v oq s] by (auto simp: manager_place_def split: if_splits)
qed

section \<open>The commits that end a run\<close>

lemma constraints_on:
  "constraints (cur s) \<Longrightarrow> strategy_constraints (f (t_strategy (cur s))) \<Longrightarrow> constraints (cur (on_strategies f s))"
  by (simp add: constraints_def)

lemma strategy_constraints_put_run:
  assumes "strategy_constraints t" "\<And>x. x \<in> set (objs (t_runs t)) \<Longrightarrow> sr_id x = sr_id r \<Longrightarrow> run_key x = run_key r"
  shows "strategy_constraints (put_run r t)"
proof -
  have "map run_key (upd_by sr_id r (objs (t_runs t))) = map run_key (objs (t_runs t))"
    by (rule map_upd_by_cong) (use assms(2) in simp)
  then show ?thesis using assms(1) by (simp add: strategy_constraints_def) (simp add: put_run_def)
qed

lemma strategy_constraints_put_strategy:
  assumes "strategy_constraints t" "old \<in> set (objs (t_strategies t))" "st_id st = st_id old"
    "st_user_id st = st_user_id old" "st_name st = st_name old"
  shows "strategy_constraints (put_strategy st t)"
proof -
  have "x = old" if "x \<in> set (objs (t_strategies t))" "st_id x = st_id st" for x
    using distinct_map_eqD [of st_id "objs (t_strategies t)" x old] assms(1-3) that by (simp add: strategy_constraints_def)
  then have "map (\<lambda>x. (st_user_id x, st_name x)) (upd_by st_id st (objs (t_strategies t))) =
      map (\<lambda>x. (st_user_id x, st_name x)) (objs (t_strategies t))"
    by (intro map_upd_by_cong) (use assms(4,5) in auto)
  then show ?thesis using assms(1) by (simp add: strategy_constraints_def) (simp add: put_strategy_def)
qed

lemma strategy_constraints_add_run:
  assumes "strategy_constraints t" "sr_id r \<notin> sr_id ` set (objs (t_runs t))" "run_key r \<notin> run_key ` set (objs (t_runs t))"
  shows "strategy_constraints (add_run r t)"
  using assms by (auto simp: strategy_constraints_def) (simp_all add: add_run_def)

lemma finish_commits:
  assumes "constraints (cur s)" "at_work sid run (t_strategy (cur s))" "sr_id r = sr_id run" "run_key r = run_key run"
  shows "\<not> isl (fst (finish r status diagnostics s))"
proof -
  let ?r = "r\<lparr>sr_status := status, sr_diagnostics_json := diagnostics, sr_finished_at := Some (clock s)\<rparr>"
  have same: "sr_id ?r = sr_id run" "run_key ?r = run_key run" using assms(3,4) by (simp_all add: run_key_def)
  have "strategy_constraints (put_run ?r (t_strategy (cur s)))"
    using assms(1) works.ok_run [OF assms(2)] same
    by (intro strategy_constraints_put_run) (simp_all add: constraints_def)
  then have "constraints (cur (on_strategies (put_run ?r) s))" by (rule constraints_on [OF assms(1)])
  then show ?thesis
    unfolding finish_def Let_def by (cases rule: commit_return_cases [of ?r "on_strategies (put_run ?r) s"]) simp_all
qed

lemma clean_runs:
  assumes "clean d"
  shows "objs (t_runs (t_strategy d)) = rows (t_runs (t_strategy d))"
    "objs (t_strategies (t_strategy d)) = rows (t_strategies (t_strategy d))"
proof -
  have "flush_strategy (t_strategy d) = t_strategy d" using assms by (simp add: clean_def)
  then have "flush_table (t_runs (t_strategy d)) = t_runs (t_strategy d)"
    "flush_table (t_strategies (t_strategy d)) = t_strategies (t_strategy d)"
    by (metis flush_strategy_sel)+
  then show "objs (t_runs (t_strategy d)) = rows (t_runs (t_strategy d))"
    "objs (t_strategies (t_strategy d)) = rows (t_strategies (t_strategy d))"
    unfolding flush_table_fix by (simp_all add: objs_def)
qed

lemma crashed_commits:
  assumes "durable good (saved s)" "at_work sid run (t_strategy (saved s))"
  shows "\<not> isl (fst (crashed sid (sr_id run) e s))"
proof -
  have d: "clean (saved s)" "constraints (saved s)" using assms(1) by (simp_all add: durable_def)
  have "find_strategy (saved s) sid \<noteq> None"
    using assms(2) by (auto simp: find_strategy_def find_None_iff at_work_def clean_runs [OF d(1)])
  then obtain st where st: "find_strategy (saved s) sid = Some st" by blast
  have "find_run (saved s) (sr_id run) \<noteq> None"
    using assms(2) by (auto simp: find_run_def find_None_iff at_work_def clean_runs [OF d(1)])
  then obtain r where r: "find_run (saved s) (sr_id run) = Some r" by blast
  have st': "st \<in> set (objs (t_strategies (t_strategy (saved s))))" "st_id st = sid"
    using st by (auto simp: find_strategy_def dest!: find_SomeD intro: rows_in_objs)
  have r': "r \<in> set (objs (t_runs (t_strategy (saved s))))" "sr_id r = sr_id run"
    using r by (auto simp: find_run_def dest!: find_SomeD intro: rows_in_objs)
  let ?st = "st\<lparr>st_status := ERROR, st_last_error := Some (exn_name e)\<rparr>"
  have "\<not> isl (fst (finish r FAILED diagnostics (on_strategies (put_strategy ?st) (rollback s))))" for diagnostics
  proof (rule finish_commits [of _ sid run])
    have "strategy_constraints (put_strategy ?st (t_strategy (saved s)))"
      by (rule strategy_constraints_put_strategy [OF _ st'(1)]) (use d(2) in \<open>simp_all add: constraints_def\<close>)
    then show "constraints (cur (on_strategies (put_strategy ?st) (rollback s)))"
      by (intro constraints_on) (use d(2) in \<open>simp_all add: rollback_def\<close>)
    show "at_work sid run (t_strategy (cur (on_strategies (put_strategy ?st) (rollback s))))"
      using works.ok_put_strategy [OF assms(2), of ?st] works.ok_strategy [OF assms(2) st'(1)] by (simp add: rollback_def)
    show "sr_id r = sr_id run" "run_key r = run_key run" using r' works.ok_run [OF assms(2)] by blast+
  qed
  then show ?thesis using st r by (simp add: crashed_def Let_def rollback_def)
qed

text \<open>A treated exception reaches the handler with nothing pending that breaks a constraint.\<close>

lemma treated_submit:
  assumes "submit_signal w cfg st k run ins q side diagnostics s = (Inl e, s')" "treated e" "constraints (cur s)"
  shows "constraints (cur s')"
proof -
  let ?n = "signal_quantity (cur s) st side" and ?cid = "client_order_id st (k_start_at k)"
  define s1 where "s1 = on_strategies (add_signal (new_signal (fresh s) st run side CREATED ?n (q_ltp q) ?cid None
    (clock s))) (draw s)"
  define s2 where "s2 = s1\<lparr>cur := flush_all (cur s1)\<rparr>"
  obtain res s3 where m: "manager_place w cfg (st_user_id st) ins (signal_values st ins side ?n ?cid (q_ltp q)) (Some q) s2
      = (res, s3)"
    by (cases "manager_place w cfg (st_user_id st) ins (signal_values st ins side ?n ?cid (q_ltp q)) (Some q) s2")
  have no: "commit_return x y \<noteq> (Inl e, s')" for x :: strategy_run and y
    using assms(2) by (cases rule: commit_return_cases [of x y]) auto
  show ?thesis
  proof (cases "constraints (cur s1)")
    case False
    then show ?thesis using assms(1,2) by (auto simp: submit_signal_def Let_def flush_def simp flip: s1_def)
  next
    case True
    then have flushed: "flush (cur s1) = Inr (flush_all (cur s1))" by (simp add: flush_def)
    have "constraints (cur s2)" using True by (simp add: s2_def)
    note fault = faulty_placement [OF m _ this]
    show ?thesis
      using assms(1,2) fault no
      unfolding submit_signal_def Let_def s1_def [symmetric] flushed sum.case s2_def [symmetric] m
      by (auto simp: signal_submitted_def signal_rejected_def Let_def split: sum.splits exn.splits)
  qed
qed

lemma treated_evaluate_claimed:
  assumes "evaluate_claimed w cfg quotes st k run s = (Inl e, s')" "treated e" "constraints (cur s)"
  shows "constraints (cur s')"
proof -
  have no: "commit_return x y \<noteq> (Inl e, s')" for x :: strategy_run and y
    using assms(2) by (cases rule: commit_return_cases [of x y]) auto
  then have finish: "finish r status diagnostics y \<noteq> (Inl e, s')" for r status diagnostics y
    by (simp add: finish_def Let_def)
  have "constraints (cur s')" if "route w cfg quotes st k run side diagnostics s = (Inl e, s')" for side diagnostics
    using that assms(2,3) treated_submit finish
    by (auto simp: route_def suppressed_def split: option.splits sum.splits)
  then show ?thesis
    using assms(1) finish by (auto simp: evaluate_claimed_def Let_def split: option.splits prod.splits if_splits)
qed

section \<open>The whole evaluation\<close>

text \<open>The claim succeeds when the id drawn for the run is new and there is no run for the candle yet.\<close>

lemma evaluate_starts:
  assumes "platform_ok {} (vs, s)" "st \<in> set (rows (t_strategies (t_strategy (cur s))))"
    and "candle_run (cur s) (st_id st) (k_start_at k) = None" "fresh s \<notin> sr_id ` set (rows (t_runs (t_strategy (cur s))))"
  obtains run st' s2 where "run_key run = (st_id st, k_start_at k)" "st' = st\<lparr>st_last_evaluated_at := Some (clock s)\<rparr>"
    "evaluate w cfg quotes st k s = recover (st_id st) run (evaluate_claimed w cfg quotes st' k run s2)"
    "cur s2 = flush_all (cur (on_strategies (put_strategy st' \<circ> flush_strategy \<circ> add_run run) s))"
    "saved s2 = cur s2" "clock s2 = clock s" "constraints (cur s2)" "both (at_work (st_id st) run) s2"
    "book (cur s2)" "durable book (saved s2)" "0 < st_quantity st'"
proof -
  have ok: "durable book (saved s)" "cur s = saved s" "claim_kept {} (t_strategy (saved s))"
    using assms(1) by (simp_all add: platform_ok_def between_events_def)
  have c: "constraints (cur s)" "clean (cur s)" "book (cur s)" "strategies_valid (t_strategy (cur s))"
    using ok by (simp_all add: durable_def claim_kept_def)
  define T where "T = t_strategy (cur s)"
  define run where "run = new_run (fresh s) st k (clock s)"
  define st' where "st' = st\<lparr>st_last_evaluated_at := Some (clock s)\<rparr>"
  define s1 where "s1 = on_strategies (add_run run) (draw s)"
  define s1' where "s1' = on_strategies (put_strategy st') (s1\<lparr>cur := flush_all (cur s1)\<rparr>)"
  define s2 where "s2 = s1'\<lparr>cur := flush_all (cur s1'), saved := flush_all (cur s1')\<rparr>"
  have rows: "objs (t_runs T) = rows (t_runs T)" "objs (t_strategies T) = rows (t_strategies T)"
    unfolding T_def by (rule clean_runs [OF c(2)])+
  have key: "run_key run = (st_id st, k_start_at k)" by (simp add: run_def new_run_def run_key_def)
  have q: "0 < st_quantity st'" "st \<in> set (objs (t_strategies T))"
    using c(4) assms(2) rows by (simp_all add: strategies_valid_def st'_def T_def)
  have T1: "t_strategy (cur s1) = add_run run T" by (simp add: s1_def T_def draw_def)
  have "run_key run \<notin> run_key ` set (objs (t_runs T))"
    using assms(3) unfolding rows key by (auto simp: candle_run_def find_None_iff T_def)
  then have sc1: "strategy_constraints (add_run run T)"
    by (intro strategy_constraints_add_run)
      (use c(1) assms(4) in \<open>simp_all add: constraints_def rows T_def [symmetric] run_def new_run_def\<close>)
  then have c1: "constraints (cur s1)"
    unfolding s1_def by (intro constraints_on) (use c(1) in \<open>simp_all add: T_def draw_def\<close>)
  have T1': "t_strategy (cur s1') = put_strategy st' (flush_strategy (add_run run T))" by (simp add: s1'_def T1)
  have "strategy_constraints (put_strategy st' (flush_strategy (add_run run T)))"
    by (rule strategy_constraints_put_strategy [of _ st]) (use sc1 q(2) in \<open>simp_all add: st'_def\<close>)
  then have c1': "constraints (cur s1')"
    unfolding s1'_def by (intro constraints_on) (use c1 T1 in simp_all)
  have T2: "t_strategy (cur s2) = flush_strategy (put_strategy st' (flush_strategy (add_run run T)))" "saved s2 = cur s2"
    "clock s2 = clock s" "constraints (cur s2)"
    using c1' by (simp_all add: s2_def T1') (simp_all add: s1'_def s1_def draw_def)
  have "book (cur s1')" using c(3) c1 by (simp add: s1'_def s1_def books.good_flush draw_def)
  then have "book (cur s2)" "durable book (saved s2)"
    using c1' by (simp_all add: s2_def books.good_flush books.durable_flush)
  show thesis
  proof (rule that [OF key st'_def])
    show "evaluate w cfg quotes st k s = recover (st_id st) run (evaluate_claimed w cfg quotes st' k run s2)"
      using assms(3) c1 c1'
      by (simp add: evaluate_def Let_def flush_def commit_def flip: run_def st'_def s1_def s1'_def s2_def)
    have "cur s1' = (flush_all (cur s))\<lparr>t_strategy := put_strategy st' (flush_strategy (add_run run (t_strategy (cur s))))\<rparr>"
      by (simp add: s1'_def s1_def on_strategies_def flush_all_def draw_def)
    then show "cur s2 = flush_all (cur (on_strategies (put_strategy st' \<circ> flush_strategy \<circ> add_run run) s))"
      by (simp add: s2_def on_strategies_def flush_all_def)
    show "both (at_work (st_id st) run) s2"
      using worked_claims(1) [OF T2(4,1)] c(4) q T2(1)
      by (auto simp: both_def T2(2) at_work_def T_def [symmetric])
  qed (fact T2(2-4) \<open>book (cur s2)\<close> \<open>durable book (saved s2)\<close> q(1))+
qed

lemma recover_ends:
  assumes "both (at_work sid run) s2" "constraints (cur s2)" "book (cur s2)" "durable book (saved s2)" "0 < st_quantity st'"
  shows "\<exists>r s'. recover sid run (evaluate_claimed w cfg quotes st' k run s2) = (Inr r, s') \<and>
    r \<in> set (rows (t_runs (t_strategy (saved s')))) \<and> run_key r = run_key run \<and> sr_status r \<noteq> STARTED \<and>
    sr_finished_at r = Some (clock s2) \<and> durable book (saved s')"
proof -
  let ?result = "evaluate_claimed w cfg quotes st' k run s2"
  note out = books.outcome_evaluate_claimed [OF assms(3-5), of w cfg quotes k run]
  have work: "both (at_work sid run) (snd ?result)" by (rule works.both_evaluate_claimed [OF assms(1,5)])
  have "run_ended (run_key run) (clock s2) ?result" by (rule ended_evaluate_claimed [OF assms(1,5) refl])
  then have ended: "run_ended (run_key run) (clock s2) (recover sid run ?result)" by (rule ended_recover [OF _ work])
  have "\<not> isl (fst (recover sid run ?result))"
  proof -
    obtain res s3 where r: "?result = (res, s3)" by (cases ?result)
    have w3: "at_work sid run (t_strategy (cur s3))" "at_work sid run (t_strategy (saved s3))"
      using work by (simp_all add: r both_def)
    have "durable book (saved s3)" using out by (simp add: r outcome_def)
    note crash = crashed_commits [OF this w3(2)]
    have "\<not> isl (fst (finish run SKIPPED diagnostics s3))" if "res = Inl e" "treated e" for e diagnostics
      by (rule finish_commits [OF _ w3(1)])
        (use treated_evaluate_claimed [of w cfg quotes st' k run s2 e s3] r that assms(2) in simp_all)
    with crash show ?thesis by (auto simp: r recover_def split: sum.split exn.split)
  qed
  then obtain r s' where res: "recover sid run ?result = (Inr r, s')"
    by (cases "recover sid run ?result") (auto simp: isl_def split: sum.splits, metis sum.exhaust)
  moreover have "durable book (saved s')" using books.outcome_recover [OF out, of sid run] by (simp add: res outcome_def)
  ultimately show ?thesis using ended by (simp add: run_ended_def)
qed

section \<open>What an evaluation signals\<close>

text \<open>
  Every signal satisfies \<open>P\<close>, a condition on its identity: the run it belongs to and its action, which no later write
  changes.
\<close>

definition signals_satisfy :: "(string \<times> string \<times> order_side \<Rightarrow> bool) \<Rightarrow> strategy_tables \<Rightarrow> bool" where
  "signals_satisfy P t \<longleftrightarrow> (\<forall>g \<in> set (objs (t_signals t)). P (sg_id g, sg_run_id g, sg_action g))"

interpretation signalled: strategy_part "signals_satisfy P" for P
  by unfold_locales (simp add: signals_satisfy_def)

lemma signals_satisfy_simps [simp]:
  "signals_satisfy P (put_run r t) = signals_satisfy P t" "signals_satisfy P (put_strategy st t) = signals_satisfy P t"
  "signals_satisfy P (add_run r t) = signals_satisfy P t"
  "signals_satisfy P t \<Longrightarrow> P (sg_id g, sg_run_id g, sg_action g) \<Longrightarrow> signals_satisfy P (add_signal g t)"
  "signals_satisfy P t \<Longrightarrow> P (sg_id g, sg_run_id g, sg_action g) \<Longrightarrow> signals_satisfy P (put_signal g t)"
  by (auto simp: signals_satisfy_def dest!: in_upd_byD)

lemma signals_finish: "both (signals_satisfy P) s \<Longrightarrow> both (signals_satisfy P) (snd (finish r status diagnostics s))"
  unfolding finish_def Let_def by (rule signalled.both_commit_return, erule signalled.both_on) simp

lemma signals_submit:
  assumes "both (signals_satisfy P) s" "P (fresh s, sr_id run, side)"
  shows "both (signals_satisfy P) (snd (submit_signal w cfg st k run ins q side diagnostics s))"
proof -
  let ?n = "signal_quantity (cur s) st side" and ?cid = "client_order_id st (k_start_at k)"
  define g where "g = new_signal (fresh s) st run side CREATED ?n (q_ltp q) ?cid None (clock s)"
  define s1 where "s1 = on_strategies (add_signal g) (draw s)"
  define s2 where "s2 = s1\<lparr>cur := flush_all (cur s1)\<rparr>"
  have g: "P (sg_id g, sg_run_id g, sg_action g)" using assms(2) by (simp add: g_def new_signal_def)
  have s1: "both (signals_satisfy P) s1" "both (signals_satisfy P) s2"
    using assms(1) g by (simp_all add: s2_def s1_def both_def signalled.ok_flush draw_def)
  obtain res s3 where m: "manager_place w cfg (st_user_id st) ins (signal_values st ins side ?n ?cid (q_ltp q)) (Some q) s2
      = (res, s3)"
    by (cases "manager_place w cfg (st_user_id st) ins (signal_values st ins side ?n ?cid (q_ltp q)) (Some q) s2")
  have "framed t_strategy flush_strategy s2 s3"
    using strategies.framed_manager(1) [of s2 w cfg "st_user_id st" ins "signal_values st ins side ?n ?cid (q_ltp q)" "Some q"]
    by (simp add: m)
  with s1(2) have s3: "both (signals_satisfy P) s3" by (rule signalled.both_framed)
  then have answered: "both (signals_satisfy P) (snd (signal_submitted st run g diagnostics r s3))"
    "both (signals_satisfy P) (snd (signal_rejected st run g diagnostics code s3))" for r code
    unfolding signal_submitted_def signal_rejected_def Let_def
    by (intro signalled.both_commit_return signalled.both_on; simp add: g)+
  show ?thesis
  proof (cases "constraints (cur s1)")
    case False
    then show ?thesis using s1(1) by (simp add: submit_signal_def Let_def flush_def flip: s1_def g_def)
  next
    case True
    then have flushed: "flush (cur s1) = Inr (flush_all (cur s1))" by (simp add: flush_def)
    show ?thesis
      unfolding submit_signal_def Let_def g_def [symmetric] s1_def [symmetric] flushed sum.case s2_def [symmetric] m
      using s3 answered by (auto split: sum.splits exn.splits)
  qed
qed

lemma signals_route:
  assumes "both (signals_satisfy P) s" "P (fresh s, sr_id run, side)"
  shows "both (signals_satisfy P) (snd (route w cfg quotes st k run side diagnostics s))"
proof -
  have "both (signals_satisfy P) (snd (suppressed st k run side why diagnostics s))" for why
    unfolding suppressed_def
    by (rule signals_finish) (use assms in \<open>simp add: both_def new_signal_def draw_def\<close>)
  then show ?thesis
    using assms(1) signals_submit [OF assms] by (auto simp: route_def split: option.splits sum.splits)
qed

lemma signals_recover:
  "both (signals_satisfy P) (snd result) \<Longrightarrow> both (signals_satisfy P) (snd (recover sid run result))"
proof -
  assume "both (signals_satisfy P) (snd result)"
  moreover have "both (signals_satisfy P) (snd (crashed sid rid e s))" if "both (signals_satisfy P) s" for rid e s
    using that by (auto simp: crashed_def Let_def rollback_def both_def split: option.splits
        intro!: signals_finish [unfolded both_def, THEN conjunct1] signals_finish [unfolded both_def, THEN conjunct2])
  ultimately show ?thesis
    by (cases result) (auto simp: recover_def signals_finish split: sum.splits exn.splits)
qed

text \<open>A run that went on to route a crossover, and its diagnostics when the order was accepted.\<close>

definition routed :: "(string \<times> json) list \<Rightarrow> (exn + strategy_run) \<times> session \<Rightarrow> bool" where
  "routed diagnostics result \<longleftrightarrow> (\<forall>r. fst result = Inr r \<longrightarrow> sr_status r \<in> {SUCCEEDED, FAILED, SKIPPED} \<and>
     (sr_status r = SUCCEEDED \<longrightarrow> (\<exists>more. sr_diagnostics_json r = diagnostics @ more)))"

lemma routed_finish: "status \<in> {FAILED, SKIPPED} \<Longrightarrow> routed diagnostics (finish run status other s)"
  unfolding finish_def Let_def routed_def by (auto simp: commit_return_def split: prod.splits sum.splits)

lemma routed_route: "routed diagnostics (route w cfg quotes st k run side diagnostics s)"
proof -
  have "routed diagnostics (signal_submitted st run g diagnostics r s)"
    "routed diagnostics (signal_rejected st run g diagnostics code s)" for g r code s
    unfolding signal_submitted_def signal_rejected_def Let_def routed_def
    by (auto simp: commit_return_def split: prod.splits sum.splits)
  then have "routed diagnostics (submit_signal w cfg st k run ins q side diagnostics s)" for ins q
    by (auto simp: submit_signal_def Let_def flush_def split: prod.splits sum.splits exn.splits) (auto simp: routed_def)
  moreover have "routed diagnostics (Inl e, s)" for e s by (simp add: routed_def)
  ultimately show ?thesis
    by (auto simp: route_def suppressed_def routed_finish split: option.splits sum.splits)
qed

lemma routed_recover: "routed diagnostics result \<Longrightarrow> routed diagnostics (recover sid run result)"
proof -
  assume "routed diagnostics result"
  moreover have "routed diagnostics (crashed sid rid e s)" for rid e s
    by (auto simp: crashed_def Let_def routed_finish split: option.splits) (auto simp: routed_def)
  ultimately show ?thesis
    by (cases result) (auto simp: recover_def routed_finish split: sum.splits exn.splits)
qed

end
