(* ===== verification/StrategyProps.thy ===== *)
theory StrategyProps
  imports RunEnds Scenario
begin

text \<open>
  The properties of the strategy executor: what has to hold before it trades, that a candle is claimed
  durably before anything is sent and is never evaluated twice, what its runs look like when it is done,
  and that the preview shows the decisions the executor takes.
\<close>

section \<open>The preview\<close>



lemma filter_key_unique:
  assumes "distinct (map key xs)" "x \<in> set xs"
  shows "filter (\<lambda>y. key y = key x) xs = [x]"
  using assms by (induction xs) (auto simp: filter_empty_conv image_iff)





text \<open>A strategy of the account with a fast period of 2 and a slow period of 3, on one-minute candles.\<close>

definition ex_strategy :: strategy where
  "ex_strategy = \<lparr>st_id = ''st'', st_user_id = ''u'', st_instrument_id = ''ins'', st_name = ''cross'',
     st_kind = ''SMA_CROSS'', st_status = ACTIVE, st_execution_mode = ''PAPER'', st_timeframe_seconds = 60,
     st_fast_period = 2, st_slow_period = 3, st_quantity = 5, st_product_type = INTRADAY, st_order_type = LIMIT,
     st_limit_offset_bps = 0, st_max_orders_per_day = 10, st_version = 1, st_last_evaluated_at = None,
     st_activated_at = None, st_paused_at = None, st_last_error = None\<rparr>"

definition ex_minute :: "int \<Rightarrow> pyfloat \<Rightarrow> market_candle" where
  "ex_minute n price = \<lparr>k_user_id = ''u'', k_instrument_id = ''ins'', k_interval_seconds = 60,
     k_start_at = n * 60000000, k_open = price, k_high = price, k_low = price, k_close = price, k_volume = 0,
     k_open_interest = None, k_source = ''DHAN'', k_is_complete = True\<rparr>"

definition ex_user :: user where
  "ex_user = \<lparr>u_id = ''u'', u_email = ''u@example.com'', u_password_hash = [], u_role = RETAIL, u_is_verified = True,
     u_is_active = True, u_mfa_enabled = False, u_mfa_secret_encrypted = None, u_recovery_code_hashes = [],
     u_failed_login_count = 0, u_locked_until = None\<rparr>"

text \<open>Four minutes of falling then rising closes, one minute after the last candle closed.\<close>

definition ex_strategy_db :: db where
  "ex_strategy_db = ex_db\<lparr>t_instruments := \<lparr>rows = [ex_instrument\<lparr>i_tick_size := Some 1\<rparr>], added = []\<rparr>, t_users := \<lparr>rows = [ex_user], added = []\<rparr>,
     t_strategy := empty_strategy_tables
       \<lparr>t_candles := \<lparr>rows = [ex_minute 0 12, ex_minute 1 9, ex_minute 2 6, ex_minute 3 18], added = []\<rparr>,
        t_strategies := \<lparr>rows = [ex_strategy], added = []\<rparr>\<rparr>\<rparr>"

lemma ex_strategy_db_ok: "constraints ex_strategy_db" "clean ex_strategy_db"
  by (simp_all add: ex_strategy_db_def ex_db_def empty_db_def constraints_def strategy_constraints_def clean_def
      empty_strategy_tables_def flush_strategy_def flush_table_fix objs_def candle_key_def ex_minute_def)

section \<open>When an evaluation trades\<close>

text \<open>The orders are \<open>os\<close>, here and in the durable state, and the requests sent are \<open>rs\<close>.\<close>

definition orders_are :: "trading_order table \<Rightarrow> http_request list \<Rightarrow> session \<Rightarrow> bool" where
  "orders_are os rs s \<longleftrightarrow> t_orders (cur s) = os \<and> t_orders (saved s) = os \<and> wire s = rs \<and> flush_table os = os"

lemma orders_are_return:
  "orders_are os rs s \<Longrightarrow> orders_are os rs (snd (commit_return x s))"
  by (cases rule: commit_return_cases [of x s]) (simp_all add: orders_are_def)

lemma orders_are_on [simp]: "orders_are os rs (on_strategies f s) = orders_are os rs s"
  by (simp add: orders_are_def)

lemma orders_are_draw [simp]: "orders_are os rs (draw s) = orders_are os rs s"
  by (simp add: orders_are_def draw_def)

lemma orders_are_finish: "orders_are os rs s \<Longrightarrow> orders_are os rs (snd (finish run status diagnostics s))"
  by (simp add: finish_def Let_def orders_are_return)

lemma orders_are_crashed: "orders_are os rs s \<Longrightarrow> orders_are os rs (snd (crashed sid rid e s))"
  by (auto simp: crashed_def Let_def rollback_def orders_are_def [of os rs "s\<lparr>cur := saved s\<rparr>"]
      intro!: orders_are_finish split: option.splits)
    (simp_all add: orders_are_def)

lemma orders_are_recover:
  "orders_are os rs (snd result) \<Longrightarrow> orders_are os rs (snd (recover sid run result))"
  by (cases result) (auto simp: recover_def orders_are_finish orders_are_crashed split: sum.splits exn.splits)

text \<open>What the executor checked before it placed the order of a crossover.\<close>

definition cleared_to_trade ::
  "settings \<Rightarrow> quote_feed \<Rightarrow> strategy \<Rightarrow> market_candle \<Rightarrow> session \<Rightarrow> order_side \<Rightarrow> bool" where
  "cleared_to_trade cfg quotes st k s side \<longleftrightarrow>
     (let d = cur s; owner = List.find (\<lambda>u. u_id u = st_user_id st) (rows (t_users d)) in
      evaluation_guard cfg st owner k (clock s) = None \<and>
      \<not> has_gap (st_timeframe_seconds st) (candle_history d st (k_start_at k)) \<and>
      (\<exists>dec. evaluate_sma_cross (map k_close (candle_history d st (k_start_at k)))
                (st_fast_period st) (st_slow_period st) = Some dec \<and> cd_action dec = Some side) \<and>
      order_count_check cfg d (clock s) st = None \<and> suppression d st side = None \<and>
      (\<exists>q. quotes (st_user_id st) (st_instrument_id st) = Inr (Some q) \<and> quote_check cfg (clock s) (Some q) = None) \<and>
      active_instrument d (st_instrument_id st) \<noteq> None)"

lemma route_quiet:
  assumes "orders_are os rs s" "evaluate_claimed w cfg quotes st k run s = result"
  shows "orders_are os rs (snd result) \<or> (\<exists>side. cleared_to_trade cfg quotes st k s side)"
proof (rule ccontr)
  assume no: "\<not> ?thesis"
  have quiet: "orders_are os rs (snd (route w cfg quotes st k run side diagnostics s))"
    if "evaluate_sma_cross (map k_close (candle_history (cur s) st (k_start_at k)))
          (st_fast_period st) (st_slow_period st) = Some dec" "cd_action dec = Some side"
      "evaluation_guard cfg st (List.find (\<lambda>u. u_id u = st_user_id st) (rows (t_users (cur s)))) k (clock s) = None"
      "\<not> has_gap (st_timeframe_seconds st) (candle_history (cur s) st (k_start_at k))" for dec side diagnostics
  proof -
    have "\<not> cleared_to_trade cfg quotes st k s side" using no by blast
    with that have stop: "order_count_check cfg (cur s) (clock s) st \<noteq> None \<or> suppression (cur s) st side \<noteq> None \<or>
        (\<forall>q. quotes (st_user_id st) (st_instrument_id st) = Inr (Some q) \<longrightarrow> quote_check cfg (clock s) (Some q) \<noteq> None) \<or>
        active_instrument (cur s) (st_instrument_id st) = None"
      by (auto simp: cleared_to_trade_def Let_def)
    have "orders_are os rs (snd (suppressed st k run side why diagnostics s))" for why
      using assms(1) by (simp add: suppressed_def orders_are_finish)
    with stop assms(1) show ?thesis
      by (auto simp: route_def split: option.splits sum.splits)
  qed
  have enough: "slow + 1 \<le> int (length ks)" if "evaluate_sma_cross (map k_close ks) fast slow = Some dec"
    for ks fast slow dec
    using evaluate_sma_cross_action(3) [OF that] by simp
  have "orders_are os rs (snd result)"
    unfolding assms(2) [symmetric]
    using assms(1) quiet enough
    by (auto simp: evaluate_claimed_def Let_def orders_are_finish split: option.splits prod.splits dest: enough)
  with no show False by blast
qed

text \<open>The state between transactions: everything is flushed and durable.\<close>

definition settled :: "session \<Rightarrow> bool" where
  "settled s \<longleftrightarrow> flush_all (cur s) = cur s \<and> saved s = cur s"

lemma settled_tables:
  assumes "flush_all d = d"
  shows "flush_table (t_orders d) = t_orders d" "flush_table (t_executions d) = t_executions d"
    "flush_table (t_instruments d) = t_instruments d" "flush_table (t_users d) = t_users d"
    "flush_strategy (t_strategy d) = t_strategy d"
  using assms flush_all_sel [of d] by simp_all

text \<open>Neither the claim nor the stamp on the strategy changes what the executor checks.\<close>

lemma claimed_sees:
  assumes "settled s"
    and "cur s2 = flush_all (cur (on_strategies (put_strategy st' \<circ> flush_strategy \<circ> add_run run) s))"
    and "st' = st\<lparr>st_last_evaluated_at := at0\<rparr>"
  shows "t_signals (t_strategy (cur s2)) = t_signals (t_strategy (cur s))" "t_users (cur s2) = t_users (cur s)"
    "candle_history (cur s2) st' start = candle_history (cur s) st start"
    "order_count_check cfg (cur s2) now st' = order_count_check cfg (cur s) now st"
    "suppression (cur s2) st' side = suppression (cur s) st side"
    "active_instrument (cur s2) i = active_instrument (cur s) i"
    "evaluation_guard cfg st' owner k now = evaluation_guard cfg st owner k now"
    "st_user_id st' = st_user_id st" "st_instrument_id st' = st_instrument_id st" "st_fast_period st' = st_fast_period st"
    "st_slow_period st' = st_slow_period st" "st_timeframe_seconds st' = st_timeframe_seconds st"
proof -
  have f: "flush_all (cur s) = cur s" using assms(1) by (simp add: settled_def)
  have sg: "flush_table (t_signals (t_strategy (cur s))) = t_signals (t_strategy (cur s))"
    "flush_table (t_candles (t_strategy (cur s))) = t_candles (t_strategy (cur s))"
    using flush_strategy_sel [of "t_strategy (cur s)"] settled_tables(5) [OF f] by simp_all
  have fields: "candle_history d st' start = candle_history d st start"
    "evaluation_guard cfg st' owner k now = evaluation_guard cfg st owner k now"
    "order_count_check cfg d now st' = order_count_check cfg d now st"
    "suppression d st' side = suppression d st side" for d start owner now
    unfolding assms(3)
    by (simp_all add: candle_history_def complete_candles_def evaluation_guard_def closed_lag_def order_count_check_def
        submitted_since_def recent_attempts_def suppression_def has_open_order_def strategy_exposure_def Let_def
        cong: if_cong option.case_cong)
  have same: "t_signals (t_strategy (cur s2)) = t_signals (t_strategy (cur s))"
    "t_candles (t_strategy (cur s2)) = t_candles (t_strategy (cur s))"
    "t_orders (cur s2) = t_orders (cur s)" "t_executions (cur s2) = t_executions (cur s)"
    "t_instruments (cur s2) = t_instruments (cur s)" "t_users (cur s2) = t_users (cur s)"
    unfolding assms(2) using settled_tables [OF f] sg by simp_all
  have part: "has_open_order (cur s2) st = has_open_order (cur s) st"
    "strategy_exposure (cur s2) st = strategy_exposure (cur s) st"
    by (simp_all only: has_open_order_def strategy_exposure_def same)
  show "t_signals (t_strategy (cur s2)) = t_signals (t_strategy (cur s))" "t_users (cur s2) = t_users (cur s)"
    by (fact same)+
  show "evaluation_guard cfg st' owner k now = evaluation_guard cfg st owner k now" by (fact fields)
  show "candle_history (cur s2) st' start = candle_history (cur s) st start"
    "order_count_check cfg (cur s2) now st' = order_count_check cfg (cur s) now st"
    "suppression (cur s2) st' side = suppression (cur s) st side"
    "active_instrument (cur s2) i = active_instrument (cur s) i"
    unfolding fields
    by (simp_all only: same part candle_history_def complete_candles_def order_count_check_def submitted_since_def
        recent_attempts_def suppression_def active_instrument_def)
  show "st_user_id st' = st_user_id st" "st_instrument_id st' = st_instrument_id st"
    "st_fast_period st' = st_fast_period st" "st_slow_period st' = st_slow_period st"
    "st_timeframe_seconds st' = st_timeframe_seconds st"
    unfolding assms(3) by simp_all
qed

lemma cleared_claimed:
  assumes "settled s" "clock s2 = clock s"
    and "cur s2 = flush_all (cur (on_strategies (put_strategy st' \<circ> flush_strategy \<circ> add_run run) s))"
    and "st' = st\<lparr>st_last_evaluated_at := at0\<rparr>"
  shows "cleared_to_trade cfg quotes st' k s2 side \<longleftrightarrow> cleared_to_trade cfg quotes st k s side"
  by (simp only: cleared_to_trade_def Let_def claimed_sees [OF assms(1,3,4)] assms(2))

lemma evaluate_trades:
  assumes "evaluate w cfg quotes st k s = (res, s')" "settled s" "strategies_valid (t_strategy (cur s))"
    and "0 < st_quantity st" "wire s' \<noteq> wire s \<or> t_orders (saved s') \<noteq> t_orders (saved s)"
  shows "candle_run (cur s) (st_id st) (k_start_at k) = None"
    "claimed {(st_id st, k_start_at k)} (t_strategy (saved s'))"
    "\<exists>side. cleared_to_trade cfg quotes st k s side"
  using assms(1)
proof (atomize (full), cases rule: evaluate_cases)
  case (worked run st' s2)
  have f: "flush_all (cur s) = cur s" "saved s = cur s" using assms(2) by (simp_all add: settled_def)
  have claim: "both (claim {run_key run} run) s2"
    using worked_claims(1) [OF worked(7,10) assms(3)] worked(3,6) assms(4) by (simp add: both_def)
  have "both (claim_kept {run_key run}) s'"
    using evaluate_worked [OF worked(4) _ claim] assms(4) worked(3) by simp
  then have "claimed {(st_id st, k_start_at k)} (t_strategy (saved s'))"
    by (simp add: both_def claim_kept_def worked(2) new_run_def run_key_def)
  moreover have "t_orders (cur s2) = t_orders (cur s)"
    unfolding worked(11) using settled_tables(1) [OF f(1)] by simp
  then have start: "orders_are (t_orders (cur s)) (wire s) s2"
    using worked(6,9) settled_tables(1) [OF f(1)] by (simp add: orders_are_def)
  have "\<not> orders_are (t_orders (cur s)) (wire s) s'" using assms(5) f(2) by (auto simp: orders_are_def)
  then have "\<not> orders_are (t_orders (cur s)) (wire s) (snd (evaluate_claimed w cfg quotes st' k run s2))"
    using orders_are_recover [of _ _ "evaluate_claimed w cfg quotes st' k run s2" "st_id st" run] worked(4)
    by (metis snd_conv)
  with route_quiet [OF start refl, of w cfg quotes st' k run] obtain side where
    "cleared_to_trade cfg quotes st' k s2 side" by blast
  then have "cleared_to_trade cfg quotes st k s side"
    using cleared_claimed [OF assms(2) worked(8,11,3)] by simp
  ultimately show "candle_run (cur s) (st_id st) (k_start_at k) = None \<and>
      claimed {(st_id st, k_start_at k)} (t_strategy (saved s')) \<and> (\<exists>side. cleared_to_trade cfg quotes st k s side)"
    using worked(1) by blast
qed (use assms(5) in simp_all)

lemma evaluation_guard_None:
  assumes "evaluation_guard cfg st owner k now = None"
  shows "strategy_engine_enabled cfg" "st_status st = ACTIVE" "py_lower (st_execution_mode st) = trading_mode cfg"
    "\<exists>u. owner = Some u \<and> u_is_active u \<and> (st_execution_mode st = ''LIVE'' \<longrightarrow> u_mfa_enabled u)"
    "st_execution_mode st = ''LIVE'' \<Longrightarrow> strategy_live_confirmation cfg = ''ENABLE_LIVE_STRATEGIES'' \<and> live_gate cfg = None"
    "0 \<le> closed_lag st k now" "closed_lag st k now \<le> strategy_max_candle_lag_seconds cfg"
  using assms
  by (auto simp: evaluation_guard_def Let_def live_gate_def not_less split: if_splits option.splits exn.splits)

lemma order_count_None:
  "order_count_check cfg d now st = None \<longleftrightarrow>
     int (length (submitted_since d st (day_start_utc now))) < strategy_max_orders_per_user_per_day cfg \<and>
     int (length (filter (\<lambda>g. sg_strategy_id g = st_id st) (submitted_since d st (day_start_utc now)))) <
       st_max_orders_per_day st \<and>
     int (length (recent_attempts d st now)) < strategy_max_order_attempts_per_minute cfg"
  by (auto simp: order_count_check_def Let_def)

lemma suppression_None:
  "suppression d st side = None \<longleftrightarrow> \<not> has_open_order d st \<and>
     (side = BUY \<longrightarrow> strategy_exposure d st = 0) \<and> (side = SELL \<longrightarrow> 0 < strategy_exposure d st)"
  by (auto simp: suppression_def)

text \<open>Five seconds after the last candle closed, with a quote that does not reach the limit of a buy order.\<close>

definition strategy_settings :: settings where
  "strategy_settings = paper_settings\<lparr>strategy_engine_enabled := True\<rparr>"

definition ex_quotes :: quote_feed where
  "ex_quotes uid iid = Inr (Some ((ex_quote 18)\<lparr>q_received_at := 245000000, q_ask := Some 19\<rparr>))"

definition ex_strategy_session :: session where
  "ex_strategy_session = ex_session\<lparr>cur := ex_strategy_db, saved := ex_strategy_db, clock := 245000000\<rparr>"

lemma ex_strategy_session_ok:
  "settled ex_strategy_session" "strategies_valid (t_strategy (cur ex_strategy_session))" "0 < st_quantity ex_strategy"
  by (simp_all add: settled_def ex_strategy_session_def ex_strategy_db_def ex_db_def empty_db_def strategies_valid_def
      empty_strategy_tables_def empty_identity_tables_def flush_all_def flush_strategy_def flush_identity_def
      flush_table_def objs_def empty_table_def ex_strategy_def)

text \<open>The crossover of the last minute buys.\<close>

lemma ex_strategy_trades:
  "t_orders (saved (snd (evaluate (ex_world NoReply NoReply) strategy_settings ex_quotes ex_strategy
     (ex_minute 3 18) ex_strategy_session))) \<noteq> t_orders (saved ex_strategy_session)"
proof -
  have "rows (t_orders (saved (snd (evaluate (ex_world NoReply NoReply) strategy_settings ex_quotes ex_strategy
     (ex_minute 3 18) ex_strategy_session)))) \<noteq> []" by code_simp
  moreover have "rows (t_orders (saved ex_strategy_session)) = []"
    by (simp add: ex_strategy_session_def ex_strategy_db_def ex_db_def empty_db_def)
  ultimately show ?thesis by metis
qed

text \<open>
  C26. A strategy trades only when every check passed.  When an evaluation changes an order or sends a
  request, the engine was on, the strategy active and of the mode the platform trades in, its owner
  active; if it trades live, the owner has MFA and live strategies and the live gate were confirmed; the
  candle had closed, and not too long ago; the candles before it had no gap and their averages crossed.
  Counted over the signals: fewer orders than the user's limit were submitted since midnight in India, fewer of
  this strategy than its own daily limit, and fewer attempts in the last minute than the rate limit.  No order of a
  signal of the strategy was open; and it bought only when flat and sold only when long, by the executions of the
  orders of its signals.
\<close>

theorem strategy_trades_only_when_cleared:
  assumes "evaluate w cfg quotes st k s = (res, s')" "settled s" "strategies_valid (t_strategy (cur s))"
    and "0 < st_quantity st" "wire s' \<noteq> wire s \<or> t_orders (saved s') \<noteq> t_orders (saved s)"
  defines "gs \<equiv> rows (t_signals (t_strategy (cur s)))"
  shows "strategy_engine_enabled cfg \<and> st_status st = ACTIVE \<and>
    py_lower (st_execution_mode st) = trading_mode cfg \<and>
    (\<exists>u \<in> set (rows (t_users (cur s))). u_id u = st_user_id st \<and> u_is_active u \<and>
       (st_execution_mode st = ''LIVE'' \<longrightarrow> u_mfa_enabled u)) \<and>
    (st_execution_mode st = ''LIVE'' \<longrightarrow>
       strategy_live_confirmation cfg = ''ENABLE_LIVE_STRATEGIES'' \<and> live_gate cfg = None) \<and>
    0 \<le> closed_lag st k (clock s) \<and> closed_lag st k (clock s) \<le> strategy_max_candle_lag_seconds cfg \<and>
    \<not> has_gap (st_timeframe_seconds st) (candle_history (cur s) st (k_start_at k)) \<and>
    int (length (filter (\<lambda>g. sg_user_id g = st_user_id st \<and> sg_status g = ORDER_SUBMITTED \<and>
         day_start_utc (clock s) \<le> sg_generated_at g) gs)) < strategy_max_orders_per_user_per_day cfg \<and>
    int (length (filter (\<lambda>g. sg_strategy_id g = st_id st \<and> sg_user_id g = st_user_id st \<and> sg_status g = ORDER_SUBMITTED \<and>
         day_start_utc (clock s) \<le> sg_generated_at g) gs)) < st_max_orders_per_day st \<and>
    int (length (filter (\<lambda>g. sg_user_id g = st_user_id st \<and>
         sg_status g \<in> {CREATED, ORDER_SUBMITTED, SignalREJECTED} \<and> clock s - 60 * 1000000 \<le> sg_generated_at g) gs))
      < strategy_max_order_attempts_per_minute cfg \<and>
    (\<forall>r \<in> set (rows (t_orders (cur s))). \<forall>g \<in> set gs. sg_order_id g = Some (o_id r) \<longrightarrow>
       sg_strategy_id g = st_id st \<longrightarrow> o_status r \<notin> {PENDING, OPEN, PARTIALLY_FILLED, CANCEL_PENDING, UNKNOWN}) \<and>
    (\<exists>side dec. evaluate_sma_cross (map k_close (candle_history (cur s) st (k_start_at k)))
         (st_fast_period st) (st_slow_period st) = Some dec \<and> cd_action dec = Some side \<and>
       (side = BUY \<longrightarrow> strategy_exposure (cur s) st = 0) \<and> (side = SELL \<longrightarrow> 0 < strategy_exposure (cur s) st))"
proof -
  obtain side where c: "cleared_to_trade cfg quotes st k s side" using evaluate_trades(3) [OF assms(1-5)] by blast
  define owner where "owner = List.find (\<lambda>u. u_id u = st_user_id st) (rows (t_users (cur s)))"
  have g: "evaluation_guard cfg st owner k (clock s) = None"
    using c by (simp add: cleared_to_trade_def Let_def owner_def)
  obtain u where u: "owner = Some u" "u_is_active u" "st_execution_mode st = ''LIVE'' \<longrightarrow> u_mfa_enabled u"
    using evaluation_guard_None(4) [OF g] by blast
  have "u \<in> set (rows (t_users (cur s)))" "u_id u = st_user_id st"
    using find_SomeD [OF u(1) [unfolded owner_def]] by simp_all
  with u have "\<exists>u \<in> set (rows (t_users (cur s))). u_id u = st_user_id st \<and> u_is_active u \<and>
       (st_execution_mode st = ''LIVE'' \<longrightarrow> u_mfa_enabled u)" by blast
  moreover have counts: "order_count_check cfg (cur s) (clock s) st = None" and quiet: "suppression (cur s) st side = None"
    using c by (simp_all add: cleared_to_trade_def Let_def)
  moreover have "filter (\<lambda>g. sg_strategy_id g = st_id st) (submitted_since (cur s) st start) =
      filter (\<lambda>g. sg_strategy_id g = st_id st \<and> sg_user_id g = st_user_id st \<and> sg_status g = ORDER_SUBMITTED \<and>
        start \<le> sg_generated_at g) gs" for start
    by (simp add: submitted_since_def gs_def conj_ac)
  moreover have "\<not> has_open_order (cur s) st" using quiet by (simp add: suppression_None)
  then have "\<forall>r \<in> set (rows (t_orders (cur s))). \<forall>g \<in> set gs. sg_order_id g = Some (o_id r) \<longrightarrow>
      sg_strategy_id g = st_id st \<longrightarrow> o_status r \<notin> {PENDING, OPEN, PARTIALLY_FILLED, CANCEL_PENDING, UNKNOWN}"
    unfolding has_open_order_def open_order_statuses_def gs_def by blast
  moreover have "\<exists>side dec. evaluate_sma_cross (map k_close (candle_history (cur s) st (k_start_at k)))
         (st_fast_period st) (st_slow_period st) = Some dec \<and> cd_action dec = Some side \<and>
       (side = BUY \<longrightarrow> strategy_exposure (cur s) st = 0) \<and> (side = SELL \<longrightarrow> 0 < strategy_exposure (cur s) st)"
    using c quiet unfolding cleared_to_trade_def Let_def suppression_None by blast
  moreover have "\<not> has_gap (st_timeframe_seconds st) (candle_history (cur s) st (k_start_at k))"
    using c by (simp add: cleared_to_trade_def Let_def)
  ultimately show ?thesis
    using evaluation_guard_None [OF g] counts unfolding order_count_None
    by (simp add: submitted_since_def recent_attempts_def gs_def)
qed

lemma strategy_trades_only_when_cleared_witness:
  "strategy_engine_enabled strategy_settings \<and> length (filter (\<lambda>g. sg_strategy_id g = ''st'' \<and> sg_user_id g = ''u'' \<and>
     sg_status g = ORDER_SUBMITTED \<and> day_start_utc 245000000 \<le> sg_generated_at g)
     (rows (t_signals (t_strategy (cur ex_strategy_session))))) < 10"
proof -
  have "st_id ex_strategy = ''st''" "st_user_id ex_strategy = ''u''" "st_max_orders_per_day ex_strategy = 10"
    "clock ex_strategy_session = 245000000"
    by (simp_all add: ex_strategy_def ex_strategy_session_def)
  with strategy_trades_only_when_cleared [OF surjective_pairing ex_strategy_session_ok disjI2 [OF ex_strategy_trades]]
  show ?thesis by simp
qed

text \<open>
  A candle is claimed before it trades.  An evaluation that changes an order or sends a request
  found no run of its strategy for the candle when it started, and whatever happened after, even a
  failure of the database or of the broker, a durable run of that strategy and candle is left behind.
\<close>

theorem candle_is_claimed_before_it_trades:
  assumes "evaluate w cfg quotes st k s = (res, s')" "settled s" "strategies_valid (t_strategy (cur s))"
    and "0 < st_quantity st" "wire s' \<noteq> wire s \<or> t_orders (saved s') \<noteq> t_orders (saved s)"
  shows "candle_run (cur s) (st_id st) (k_start_at k) = None \<and>
    (\<exists>r \<in> set (objs (t_runs (t_strategy (saved s')))). sr_strategy_id r = st_id st \<and> sr_candle_start_at r = k_start_at k)"
  using evaluate_trades(1,2) [OF assms] by (auto simp: claimed_def run_key_def)

lemma candle_is_claimed_before_it_trades_witness:
  "candle_run (cur ex_strategy_session) ''st'' 180000000 = None"
  using candle_is_claimed_before_it_trades [OF surjective_pairing ex_strategy_session_ok disjI2 [OF ex_strategy_trades]]
  by (simp add: ex_strategy_def ex_minute_def)

text \<open>
  C28. An evaluated candle never trades again.  Once there is a durable run of a strategy for a candle,
  then whatever requests, quotes, edits, activations, reconciliations and worker passes follow, an
  evaluation of that candle, under whatever settings and quotes, returns the recorded run and changes
  nothing: it writes nothing and sends nothing.
\<close>

theorem evaluated_candle_never_trades_again:
  assumes "platform_ok {} (vs, s)"
    and "\<exists>r \<in> set (rows (t_runs (t_strategy (saved s)))). sr_strategy_id r = st_id st \<and> sr_candle_start_at r = k_start_at k"
  shows "let s' = snd (run_ops (platform_step w cfg ns) evs (vs, s)) in
    \<exists>r. sr_strategy_id r = st_id st \<and> sr_candle_start_at r = k_start_at k \<and>
      evaluate w' cfg' quotes st k s' = (Inr r, s')"
proof -
  let ?K = "{(st_id st, k_start_at k)}"
  define st' where "st' = run_ops (platform_step w cfg ns) evs (vs, s)"
  have "platform_ok ?K (vs, s)"
    using assms by (force simp: platform_ok_def claim_kept_def claimed_def run_key_def objs_def)
  then have "platform_ok ?K st'" unfolding st'_def by (rule platform.run_keeps)
  then have d: "durable book (saved (snd st'))" "cur (snd st') = saved (snd st')"
    "claimed ?K (t_strategy (saved (snd st')))"
    by (simp_all add: platform_ok_def between_events_def claim_kept_def)
  then have "candle_run (cur (snd st')) (st_id st) (k_start_at k) \<noteq> None"
    by (subst not_claimed_iff) (simp_all add: durable_def clean_def)
  then obtain r where r: "candle_run (cur (snd st')) (st_id st) (k_start_at k) = Some r" by blast
  with candle_run_claimed(1) [OF r] show ?thesis
    by (auto simp: evaluate_def run_key_def simp flip: st'_def)
qed

definition ex_run_session :: session where
  "ex_run_session = (let d = ex_strategy_db\<lparr>t_strategy := (t_strategy ex_strategy_db)
     \<lparr>t_runs := \<lparr>rows = [new_run ''r'' ex_strategy (ex_minute 3 18) 0], added = []\<rparr>\<rparr>\<rparr>
   in ex_session\<lparr>cur := d, saved := d\<rparr>)"

lemma platform_ok_ex_run: "platform_ok {} (Map.empty, ex_run_session)"
proof -
  have "book (saved ex_run_session)"
    by (simp add: ex_run_session_def ex_strategy_db_def ex_db_def empty_db_def book_def ledger_def position_sum_def
        fill_sum_def Let_def)
  moreover have "clean (saved ex_run_session)" "constraints (saved ex_run_session)"
    using ex_strategy_db_ok
    by (simp_all add: ex_run_session_def clean_def constraints_def strategy_constraints_def flush_strategy_def
        flush_table_def objs_def Let_def)
      (simp_all add: ex_strategy_db_def empty_strategy_tables_def empty_table_def)
  moreover have "claim_kept {} (t_strategy (saved ex_run_session))"
    by (simp add: ex_run_session_def ex_strategy_db_def claim_kept_def claimed_def strategies_valid_def objs_def
        ex_strategy_def Let_def)
  moreover have "cur ex_run_session = saved ex_run_session" by (simp add: ex_run_session_def Let_def)
  ultimately show ?thesis by (simp add: platform_ok_def between_events_def durable_def)
qed

lemma evaluated_candle_never_trades_again_witness:
  "\<exists>r. evaluate (ex_world NoReply NoReply) live_settings ex_quotes ex_strategy (ex_minute 3 18)
      (snd (platform_step (ex_world NoReply NoReply) strategy_settings [60] (StrategyPass ex_quotes) (Map.empty, ex_run_session))) =
    (Inr r, snd (platform_step (ex_world NoReply NoReply) strategy_settings [60] (StrategyPass ex_quotes) (Map.empty, ex_run_session)))"
  using evaluated_candle_never_trades_again [OF platform_ok_ex_run, of ex_strategy "ex_minute 3 18"
      "ex_world NoReply NoReply" strategy_settings "[60]" "[StrategyPass ex_quotes]" "ex_world NoReply NoReply" live_settings
      ex_quotes]
  by (auto simp: ex_run_session_def new_run_def Let_def)

section \<open>How an evaluation ends\<close>

text \<open>
  C29. Every evaluation of a new candle ends, and leaves a finished run.  Between two events of the platform, when there
  is no run of the strategy for the candle and the id drawn for one is new, the evaluation returns a run, whatever
  happens on the way: a failed check, a rejected order, a broker that raises, a broken constraint.  The run is durable,
  it is the only one of that strategy and candle, its status is final and it carries the time it finished.  (A row that
  still says \<open>STARTED\<close> is left only by a process that died, and blocks the strategy.)
\<close>

theorem evaluation_finishes_its_run:
  assumes "platform_ok {} (vs, s)" "st \<in> set (rows (t_strategies (t_strategy (cur s))))"
    and "candle_run (cur s) (st_id st) (k_start_at k) = None" "fresh s \<notin> sr_id ` set (rows (t_runs (t_strategy (cur s))))"
  shows "\<exists>r s'. evaluate w cfg quotes st k s = (Inr r, s') \<and>
    filter (\<lambda>x. sr_strategy_id x = st_id st \<and> sr_candle_start_at x = k_start_at k)
      (rows (t_runs (t_strategy (saved s')))) = [r] \<and>
    sr_status r \<in> {SUCCEEDED, NO_SIGNAL, SKIPPED, FAILED} \<and> sr_finished_at r = Some (clock s)"
proof -
  obtain run st' s2 where key: "run_key run = (st_id st, k_start_at k)"
    and run: "evaluate w cfg quotes st k s = recover (st_id st) run (evaluate_claimed w cfg quotes st' k run s2)"
    and now: "clock s2 = clock s"
    and s2: "both (at_work (st_id st) run) s2" "constraints (cur s2)" "book (cur s2)" "durable book (saved s2)"
      "0 < st_quantity st'"
    by (rule evaluate_starts [OF assms, of w cfg quotes]) blast
  obtain r s' where r: "recover (st_id st) run (evaluate_claimed w cfg quotes st' k run s2) = (Inr r, s')"
    "r \<in> set (rows (t_runs (t_strategy (saved s'))))" "run_key r = (st_id st, k_start_at k)" "sr_status r \<noteq> STARTED"
    "sr_finished_at r = Some (clock s)" "durable book (saved s')"
    using recover_ends [OF s2, of w cfg quotes k] unfolding key now by blast
  have "distinct (map run_key (rows (t_runs (t_strategy (saved s')))))"
    using r(6) clean_runs(1) [of "saved s'"] by (simp add: durable_def constraints_def strategy_constraints_def)
  from filter_key_unique [OF this r(2)] have
    "filter (\<lambda>x. sr_strategy_id x = st_id st \<and> sr_candle_start_at x = k_start_at k)
      (rows (t_runs (t_strategy (saved s')))) = [r]"
    using r(3) by (simp add: run_key_def)
  moreover have "sr_status r \<in> {SUCCEEDED, NO_SIGNAL, SKIPPED, FAILED}" using r(4) by (cases "sr_status r") simp_all
  ultimately show ?thesis using run r(1,5) by simp
qed

lemma platform_ok_ex_strategy: "platform_ok {} (Map.empty, ex_strategy_session)"
proof -
  have "book ex_strategy_db"
    by (simp add: ex_strategy_db_def ex_db_def empty_db_def book_def ledger_def position_sum_def fill_sum_def Let_def)
  moreover have "claim_kept {} (t_strategy ex_strategy_db)"
    by (simp add: ex_strategy_db_def claim_kept_def claimed_def strategies_valid_def objs_def ex_strategy_def)
  ultimately show ?thesis
    using ex_strategy_db_ok by (simp add: platform_ok_def between_events_def durable_def ex_strategy_session_def)
qed

lemma ex_strategy_new:
  "ex_strategy \<in> set (rows (t_strategies (t_strategy (cur ex_strategy_session))))"
  "candle_run (cur ex_strategy_session) (st_id ex_strategy) start = None"
  "fresh ex_strategy_session \<notin> sr_id ` set (rows (t_runs (t_strategy (cur ex_strategy_session))))"
  "clock ex_strategy_session = 245000000" "st_id ex_strategy = ''st''"
  by (simp_all add: ex_strategy_session_def ex_strategy_db_def candle_run_def empty_strategy_tables_def ex_strategy_def)

lemma evaluation_finishes_its_run_witness:
  "\<exists>r s'. evaluate (ex_world NoReply NoReply) paper_settings ex_quotes ex_strategy (ex_minute 3 18) ex_strategy_session =
      (Inr r, s') \<and> r \<in> set (rows (t_runs (t_strategy (saved s')))) \<and> sr_finished_at r = Some 245000000"
proof -
  obtain r s' where r: "evaluate (ex_world NoReply NoReply) paper_settings ex_quotes ex_strategy (ex_minute 3 18)
      ex_strategy_session = (Inr r, s')" "sr_finished_at r = Some (clock ex_strategy_session)"
    "filter (\<lambda>x. sr_strategy_id x = st_id ex_strategy \<and> sr_candle_start_at x = k_start_at (ex_minute 3 18))
      (rows (t_runs (t_strategy (saved s')))) = [r]"
    using evaluation_finishes_its_run [where k = "ex_minute 3 18" and w = "ex_world NoReply NoReply" and
      cfg = paper_settings and quotes = ex_quotes, OF platform_ok_ex_strategy ex_strategy_new(1-3)] by blast
  have "r \<in> set (rows (t_runs (t_strategy (saved s'))))"
    using r(3) list.set_intros(1) [of r "[]"] unfolding r(3) [symmetric] by simp
  with r(1,2) ex_strategy_new(4) show ?thesis by simp
qed

section \<open>The preview and the executor\<close>





end
