(* ===== verification/CandleProps.thy ===== *)
theory CandleProps
  imports Candles Scenario
begin

text \<open>
  The properties of the candle aggregator over a stream of quotes of any users and instruments: it never
  fails, keeps one well-formed candle per bucket, and each candle is the summary of the prices and volumes of its
  bucket.  A late tick is taken in too, even by a candle that is already complete.
\<close>

section \<open>Streams of quotes\<close>

text \<open>Between two transactions: nothing is pending, the constraints hold, and all of it is durable.\<close>

definition idle :: "session \<Rightarrow> bool" where
  "idle s \<longleftrightarrow> saved s = cur s \<and> clean (cur s) \<and> constraints (cur s)"

definition candles :: "session \<Rightarrow> market_candle table" where
  "candles s = t_candles (t_strategy (saved s))"

fun ingest_all :: "int list \<Rightarrow> (string \<times> quote) list \<Rightarrow> volumes \<times> session \<Rightarrow> volumes \<times> session" where
  "ingest_all ns [] st = st"
| "ingest_all ns ((uid, q) # evs) st = ingest_all ns evs (snd (ingest ns uid q st))"

text \<open>The ticks of a stream that fall into one bucket.\<close>

fun in_bucket :: "string \<times> string \<times> int \<times> instant \<Rightarrow> string \<times> quote \<Rightarrow> bool" where
  "in_bucket (u, i, n, b) (uid, q) \<longleftrightarrow> u = uid \<and> i = q_instrument_id q \<and> b = bucket (q_exchange_timestamp q) n"

text \<open>
  The cumulative volume a quote reports, and the one reported last for an instrument of a user after the quotes \<open>evs\<close>:
  by the last of them for it, or else the one known before.
\<close>

definition volume_of :: "quote \<Rightarrow> pyfloat" where
  "volume_of q = (case q_volume q of None \<Rightarrow> 0 | Some v \<Rightarrow> v)"

definition reported :: "volumes \<Rightarrow> (string \<times> quote) list \<Rightarrow> string \<Rightarrow> string \<Rightarrow> pyfloat option" where
  "reported vs evs u i =
     (let own = filter (\<lambda>(uid, q). uid = u \<and> q_instrument_id q = i) evs
      in if own = [] then vs (u, i) else Some (volume_of (snd (last own))))"

text \<open>What was traded with a quote: how far the cumulative volume rose; nothing with the first one, or when it fell.\<close>

definition traded :: "pyfloat option \<Rightarrow> quote \<Rightarrow> pyfloat" where
  "traded before q =
     (case before of None \<Rightarrow> 0 | Some v \<Rightarrow> if v \<le> volume_of q then fsub (volume_of q) v else 0)"

definition ticks ::
  "volumes \<Rightarrow> (string \<times> quote) list \<Rightarrow> string \<times> string \<times> int \<times> instant \<Rightarrow> (pyfloat \<times> pyfloat) list" where
  "ticks vs evs key =
     map (\<lambda>j. (q_ltp (snd (evs ! j)), traded (reported vs (take j evs) (fst key) (fst (snd key))) (snd (evs ! j))))
       (filter (\<lambda>j. in_bucket key (evs ! j)) [0..<length evs])"

lemma ticks_snoc:
  "ticks vs (evs @ [ev]) key = ticks vs evs key @
     (if in_bucket key ev then [(q_ltp (snd ev), traded (reported vs evs (fst key) (fst (snd key))) (snd ev))] else [])"
proof -
  have "filter (\<lambda>j. in_bucket key ((evs @ [ev]) ! j)) [0..<length evs] = filter (\<lambda>j. in_bucket key (evs ! j)) [0..<length evs]"
    by (rule filter_cong) (simp_all add: nth_append)
  then show ?thesis by (simp add: ticks_def nth_append)
qed

lemma reported_snoc:
  "reported vs (evs @ [(uid, q)]) u i =
     (if uid = u \<and> q_instrument_id q = i then Some (volume_of q) else reported vs evs u i)"
  by (simp add: reported_def)

lemma volume_delta_traded: "volume_delta vs uid q = traded (vs (uid, q_instrument_id q)) q"
proof -
  have "float_or (q_volume q) 0 = volume_of q" by (simp add: float_or_def volume_of_def split: option.split)
  moreover have "0 \<le> fsub v v'" if "v' \<le> v" for v v' using that by (simp add: fsub_def fl.nonneg)
  moreover have "fsub v v = 0" for v using fl.ints [of 0] by (simp add: fsub_def)
  ultimately show ?thesis by (simp add: volume_delta_def traded_def or_else_def Let_def split: option.split)
qed

section \<open>One quote\<close>

lemma series_ingest_intervals:
  assumes "series ok ms t" "distinct ns" "set ns \<inter> ms = {}"
    and "\<And>start n. ok (open_candle uid q delta n start)"
    and "\<And>k. ok k \<Longrightarrow> ok (update_candle q delta k)" "\<And>k. ok k \<Longrightarrow> ok (k\<lparr>k_is_complete := True\<rparr>)"
  shows "\<exists>ms. series ok ms (fold (ingest_interval uid q delta) ns t)"
  using assms(1-3)
proof (induction ns arbitrary: t ms)
  case (Cons n ns)
  have "series ok (insert n ms) (ingest_interval uid q delta n t)"
    by (rule series_ingest_interval) (use Cons.prems assms(4-6) in auto)
  then show ?case using Cons.IH [of "insert n ms" "ingest_interval uid q delta n t"] Cons.prems by auto
qed auto

definition sound :: "session \<Rightarrow> bool" where
  "sound s \<longleftrightarrow> idle s \<and> (\<forall>k \<in> set (rows (candles s)). candle_ok k)"

lemma soundD: "sound s \<Longrightarrow> idle s" "sound s \<Longrightarrow> k \<in> set (rows (candles s)) \<Longrightarrow> candle_ok k"
  by (simp_all add: sound_def)

lemma idle_candles: "idle s \<Longrightarrow> added (candles s) = []"
  by (simp add: idle_def candles_def clean_def flip: flush_table_fix) (metis flush_strategy_sel(1))

text \<open>An ingested quote is committed, and the candle table is what the loop makes of it.\<close>

lemma ingest_sound:
  assumes s: "sound s" and ns: "distinct ns" and e: "ingest ns uid q (vs, s) = (res, vs', s')"
  shows "res = Inr ()" "sound s'"
    "candles s' = flush_table (fold (ingest_interval uid q (volume_delta vs uid q)) ns (candles s))"
proof -
  define f where "f = fold (ingest_interval uid q (volume_delta vs uid q)) ns"
  have i: "idle s" using s by (rule soundD)
  have t: "t_candles (t_strategy (cur s)) = candles s" using i by (simp add: idle_def candles_def)
  have "series candle_ok {} (candles s)"
    using s t idle_candles [OF i]
    by (auto simp: sound_def series_def objs_def idle_def constraints_def strategy_constraints_def)
  then obtain ms where f: "series candle_ok ms (f (candles s))"
    unfolding f_def
    using series_ingest_intervals [of candle_ok "{}" "candles s" ns uid q "volume_delta vs uid q"] ns
      open_candle_ok [OF volume_delta_nonneg] update_candle_ok [OF _ volume_delta_nonneg]
    by (auto simp: candle_ok_def)
  define s1 where "s1 = on_candles f s"
  have tables: "t_strategy (cur s1) = (t_strategy (cur s))\<lparr>t_candles := f (candles s)\<rparr>"
    by (simp add: s1_def on_candles_def t)
  have c: "constraints (cur s1)"
    using i f by (simp add: constraints_def tables strategy_constraints_def series_def idle_def)
      (simp add: s1_def on_candles_def)
  have e': "ingest ns uid q (vs, s) = (Inr (), vs((uid, q_instrument_id q) \<mapsto> float_or (q_volume q) 0),
      s1\<lparr>cur := flush_all (cur s1), saved := flush_all (cur s1)\<rparr>)"
    using c by (simp add: ingest_def Let_def commit_def flush_def s1_def f_def)
  then have s': "s' = s1\<lparr>cur := flush_all (cur s1), saved := flush_all (cur s1)\<rparr>" using e by simp
  show "res = Inr ()" using e e' by simp
  have t': "candles s' = flush_table (f (candles s))" by (simp add: s' candles_def tables)
  then show "candles s' = flush_table (fold (ingest_interval uid q (volume_delta vs uid q)) ns (candles s))"
    by (simp add: f_def)
  have "idle s'" using c by (simp add: s' idle_def)
  moreover have "\<forall>k \<in> set (rows (candles s')). candle_ok k" using f by (simp add: t' series_def)
  ultimately show "sound s'" by (simp add: sound_def)
qed

lemma candle_at_flush [simp]: "candle_at (flush_table t) key = candle_at t key"
  by (simp add: candle_at_def)

lemma candle_at_ingest:
  assumes "sound s" "distinct ns" "n \<in> set ns" "ingest ns uid q (vs, s) = (res, vs', s')"
  shows "candle_at (candles s') (u, i, n, b) =
    (if in_bucket (u, i, n, b) (uid, q) then next_summary (q_ltp q, volume_delta vs uid q) (candle_at (candles s) (u, i, n, b))
     else candle_at (candles s) (u, i, n, b))"
proof -
  have "added (candles s) = []" by (rule idle_candles, rule soundD, rule assms)
  then have "\<And>k. k \<in> set (added (candles s)) \<Longrightarrow> k_interval_seconds k \<notin> set ns" by simp
  then show ?thesis
    unfolding ingest_sound(3) [OF assms(1,2,4)] candle_at_flush
    by (subst candle_at_ingest_intervals [OF assms(2)]) (use assms(3) in simp_all)
qed

section \<open>Every quote of a stream\<close>

lemma ingest_all_sound:
  assumes "sound s" "distinct ns"
  shows "sound (snd (ingest_all ns evs (vs, s)))"
  using assms(1)
proof (induction evs arbitrary: vs s)
  case (Cons ev evs)
  obtain uid q where ev: "ev = (uid, q)" by (cases ev)
  obtain res vs' s' where st: "ingest ns uid q (vs, s) = (res, vs', s')" by (cases "ingest ns uid q (vs, s)")
  show ?case using Cons.IH [OF ingest_sound(2) [OF Cons.prems assms(2) st]] by (simp add: ev st)
qed simp

lemma ingest_all_append: "ingest_all ns (evs @ evs') st = ingest_all ns evs' (ingest_all ns evs st)"
  by (induction ns evs st rule: ingest_all.induct) simp_all

lemma volumes_reported: "fst (ingest_all ns evs (vs, s)) (u, i) = reported vs evs u i"
proof (induction evs rule: rev_induct)
  case Nil
  then show ?case by (simp add: reported_def)
next
  case (snoc ev evs)
  obtain uid q where ev: "ev = (uid, q)" by (cases ev)
  obtain vs1 s1 where st: "ingest_all ns evs (vs, s) = (vs1, s1)" by (cases "ingest_all ns evs (vs, s)")
  have "fst (snd (ingest ns uid q (vs1, s1))) = vs1((uid, q_instrument_id q) \<mapsto> volume_of q)"
    by (simp add: ingest_def Let_def float_or_def volume_of_def split: prod.split option.split)
  then show ?case using snoc by (auto simp: ev ingest_all_append st reported_snoc)
qed

lemma candle_at_ingest_all:
  assumes "sound s" "distinct ns" "n \<in> set ns" "candle_at (candles s) (u, i, n, b) = None"
  shows "candle_at (candles (snd (ingest_all ns evs (vs, s)))) (u, i, n, b) = summary (ticks vs evs (u, i, n, b))"
proof (induction evs rule: rev_induct)
  case Nil
  then show ?case by (simp add: ticks_def summary_def assms(4))
next
  case (snoc ev evs)
  obtain uid q where ev: "ev = (uid, q)" by (cases ev)
  obtain vs1 s1 where st: "ingest_all ns evs (vs, s) = (vs1, s1)" by (cases "ingest_all ns evs (vs, s)")
  obtain res vs2 s2 where run: "ingest ns uid q (vs1, s1) = (res, vs2, s2)" by (cases "ingest ns uid q (vs1, s1)")
  have "sound s1" using ingest_all_sound [OF assms(1,2), of evs vs] by (simp add: st)
  note step = candle_at_ingest [OF this assms(2,3) run, of u i b]
  have "volume_delta vs1 uid q = traded (reported vs evs uid (q_instrument_id q)) q"
    using volumes_reported [of ns evs vs s uid "q_instrument_id q"] by (simp add: volume_delta_traded st)
  then show ?case using snoc step by (auto simp: ev ingest_all_append st run ticks_snoc summary_snoc)
qed

section \<open>Completed candles\<close>

text \<open>The flushed rows of a key are complete, there is one, and their close satisfies \<open>p\<close>.\<close>

definition complete_rows ::
  "(pyfloat \<Rightarrow> bool) \<Rightarrow> string \<times> string \<times> int \<times> instant \<Rightarrow> market_candle table \<Rightarrow> bool" where
  "complete_rows p key t \<longleftrightarrow> key \<in> candle_key ` set (rows t) \<and>
     (\<forall>k \<in> set (rows t). candle_key k = key \<longrightarrow> k_is_complete k \<and> p (k_close k))"

lemma rows_ingest_interval:
  "rows (ingest_interval uid q delta m t) =
     (case find_candle t (uid, q_instrument_id q, m, bucket (q_exchange_timestamp q) m) of
        None \<Rightarrow> rows (complete_older uid (q_instrument_id q) m (bucket (q_exchange_timestamp q) m) t)
      | Some k \<Rightarrow> upd_by candle_key (update_candle q delta k) (rows t))"
  by (simp add: ingest_interval_def Let_def split: option.split)

lemma candle_keys_ingest [simp]:
  "map candle_key (rows (ingest_interval uid q delta m t)) = map candle_key (rows t)"
  by (simp add: rows_ingest_interval split: option.split)

lemma candle_keys_image [simp]:
  "candle_key ` set (rows (ingest_interval uid q delta m t)) = candle_key ` set (rows t)"
  by (simp flip: set_map)

lemma complete_rows_other:
  assumes "complete_rows p (u, i, n, b) t" "m \<noteq> n"
  shows "complete_rows p (u, i, n, b) (ingest_interval uid q delta m t)"
proof -
  have "k_is_complete k \<and> p (k_close k)"
    if "k \<in> set (rows (ingest_interval uid q delta m t))" "candle_key k = (u, i, n, b)" for k
    using that assms
    by (auto simp: rows_ingest_interval complete_rows_def complete_older_def candle_key_def update_candle_def
        dest!: in_upd_byD find_candleD split: option.splits if_splits)
  with assms show ?thesis by (simp add: complete_rows_def)
qed

lemma complete_rows_others:
  "complete_rows p (u, i, n, b) t \<Longrightarrow> n \<notin> set ms \<Longrightarrow>
     complete_rows p (u, i, n, b) (fold (ingest_interval uid q delta) ms t)"
  by (induction ms arbitrary: t) (simp_all add: complete_rows_other)

lemma complete_rows_own:
  assumes "complete_rows p (uid, q_instrument_id q, n, bucket (q_exchange_timestamp q) n) t"
  shows "complete_rows (\<lambda>c. c = q_ltp q) (uid, q_instrument_id q, n, bucket (q_exchange_timestamp q) n)
    (ingest_interval uid q delta n t)"
proof -
  let ?key = "(uid, q_instrument_id q, n, bucket (q_exchange_timestamp q) n)"
  obtain k where k: "find_candle t ?key = Some k"
    using assms find_candle_None [of t ?key] by (cases "find_candle t ?key") (auto simp: complete_rows_def)
  note kD = find_candleD [OF k]
  have "k_is_complete x \<and> k_close x = q_ltp q"
    if "x \<in> set (rows (ingest_interval uid q delta n t))" "candle_key x = ?key" for x
    using that assms kD by (auto simp: rows_ingest_interval k complete_rows_def update_candle_def dest!: in_upd_byD)
      (auto simp: candle_key_def)
  with assms show ?thesis by (simp add: complete_rows_def)
qed

section \<open>Properties\<close>

text \<open>
  C22. A candle is the summary of its bucket.  Whatever quotes of whatever users and instruments follow one another, in
  whatever order, the candle of a user, instrument, configured interval and bucket exists exactly when a quote fell into
  that bucket, and then its open is the first of the bucket's prices, its high and low their maximum and minimum, its
  close the last to arrive, and its volume the float sum, in that order, of what was traded with each of its quotes: the
  rise of the cumulative volume over the one reported last for that user and instrument, in this bucket or another;
  nothing when there was none, or when it fell.
\<close>

theorem candles_summarise_ticks:
  assumes "candle_intervals cfg = Inr ns" "n \<in> set ns" "sound s" "candle_at (candles s) (u, i, n, b) = None"
  shows "candle_at (candles (snd (ingest_all ns evs (vs, s)))) (u, i, n, b) = summary (ticks vs evs (u, i, n, b))"
  by (rule candle_at_ingest_all [OF assms(3) candle_intervalsD(2) [OF assms(1)] assms(2,4)])

lemma sound_ex_session: "sound ex_session"
  by (simp add: sound_def idle_def candles_def ex_session_def ex_db_def empty_db_def clean_def constraints_def
      objs_def) (simp add: empty_strategy_tables_def)

definition ex_ticks :: "(string \<times> quote) list" where
  "ex_ticks = map (\<lambda>(uid, price, volume). (uid, (ex_quote price)\<lparr>q_volume := Some volume\<rparr>))
     [(''u'', 100, 1000), (''v'', 90, 7), (''u'', 103, 1020), (''u'', 101, 1050)]"

lemma candles_summarise_ticks_witness:
  "candle_at (candles (snd (ingest_all [60, 300, 900, 3600, 86400] ex_ticks (Map.empty, ex_session))))
     (''u'', ''ins'', 300, 0) = Some (100, 103, 100, 101, 50)"
proof -
  have "candle_at (candles ex_session) (''u'', ''ins'', 300, 0) = None"
    by (simp add: candle_at_def candles_def ex_session_def ex_db_def empty_db_def empty_strategy_tables_def)
  moreover have "summary (ticks Map.empty ex_ticks (''u'', ''ins'', 300, 0)) = Some (100, 103, 100, 101, 50)" by code_simp
  ultimately show ?thesis
    using candles_summarise_ticks [OF default_candle_intervals _ sound_ex_session, of 300 "''u''" "''ins''" 0
        ex_ticks Map.empty]
    by simp
qed

text \<open>
  C23. The candle table stays well formed.  After any stream of quotes there is one row per user,
  instrument, interval and bucket, open and close of every candle lie between its low and its high, its
  volume is not negative, and the next quote is stored without an integrity error.
\<close>

theorem candles_stay_well_formed:
  assumes "candle_intervals cfg = Inr ns" "sound s"
  shows "let st = ingest_all ns evs (vs, s); t = candles (snd st) in
    distinct (map candle_key (rows t)) \<and>
    (\<forall>k \<in> set (rows t). k_low k \<le> k_open k \<and> k_open k \<le> k_high k \<and> k_low k \<le> k_close k \<and>
       k_close k \<le> k_high k \<and> 0 \<le> k_volume k) \<and>
    fst (ingest ns uid q st) = Inr ()"
proof -
  obtain vs' s' where st: "ingest_all ns evs (vs, s) = (vs', s')" by (cases "ingest_all ns evs (vs, s)")
  have d: "distinct ns" by (rule candle_intervalsD(2) [OF assms(1)])
  have s': "sound s'" using ingest_all_sound [OF assms(2) d, of evs vs] by (simp add: st)
  have "fst (ingest ns uid q (vs', s')) = Inr ()"
    using ingest_sound(1) [OF s' d, of uid q vs'] by (cases "ingest ns uid q (vs', s')") simp
  moreover have "distinct (map candle_key (rows (candles s')))"
    using soundD(1) [OF s'] idle_candles [OF soundD(1) [OF s']]
    by (simp add: idle_def constraints_def strategy_constraints_def candles_def objs_def)
  ultimately show ?thesis using s' by (auto simp: st sound_def candle_ok_def)
qed

lemma candles_stay_well_formed_witness:
  "fst (ingest [60, 300, 900, 3600, 86400] ''u'' (ex_quote 100)
     (ingest_all [60, 300, 900, 3600, 86400] [(''u'', ex_quote 101)] (Map.empty, ex_session))) = Inr ()"
  using candles_stay_well_formed [OF default_candle_intervals sound_ex_session, of "[(''u'', ex_quote 101)]" Map.empty
      "''u''" "ex_quote 100"]
  by (simp add: Let_def)

text \<open>
  A late tick rewrites a completed candle.  A quote whose exchange timestamp falls into the bucket of
  a candle already marked complete, because a newer bucket was opened, is taken into it: the candle keeps
  its complete mark and its close becomes the late price, although a strategy may have been evaluated on
  its earlier close and will not be evaluated on it again.
\<close>

theorem late_tick_rewrites_completed_candle:
  assumes "candle_intervals cfg = Inr ns" "n \<in> set ns" "sound s"
    and "k \<in> set (rows (candles s))" "k_is_complete k"
    and "candle_key k = (uid, q_instrument_id q, n, bucket (q_exchange_timestamp q) n)"
  shows "\<exists>k' \<in> set (rows (candles (snd (snd (ingest ns uid q (vs, s)))))).
    candle_key k' = candle_key k \<and> k_is_complete k' \<and> k_close k' = q_ltp q"
proof -
  let ?key = "(uid, q_instrument_id q, n, bucket (q_exchange_timestamp q) n)"
  define delta where "delta = volume_delta vs uid q"
  obtain pre post where split: "ns = pre @ n # post" using split_list [OF assms(2)] by blast
  have d: "distinct ns" by (rule candle_intervalsD(2) [OF assms(1)])
  have "complete_rows (\<lambda>_. True) ?key (candles s)"
  proof -
    have "distinct (map candle_key (rows (candles s)))"
      using soundD(1) [OF assms(3)] idle_candles [OF soundD(1) [OF assms(3)]]
      by (simp add: idle_def constraints_def strategy_constraints_def candles_def objs_def)
    note same = distinct_map_eqD [OF this _ assms(4)]
    have "?key \<in> candle_key ` set (rows (candles s))" unfolding assms(6) [symmetric] using assms(4) by (rule imageI)
    moreover have "k_is_complete k'" if "k' \<in> set (rows (candles s))" "candle_key k' = ?key" for k'
      using same [OF that(1)] that(2) assms(5,6) by simp
    ultimately show ?thesis by (simp add: complete_rows_def)
  qed
  then have "complete_rows (\<lambda>_. True) ?key (fold (ingest_interval uid q delta) pre (candles s))"
    by (rule complete_rows_others) (use d in \<open>simp_all add: split\<close>)
  from complete_rows_own [OF this, of delta]
  have "complete_rows (\<lambda>c. c = q_ltp q) ?key (fold (ingest_interval uid q delta) ns (candles s))"
    unfolding split fold_append fold.simps comp_apply by (rule complete_rows_others) (use d in \<open>simp add: split\<close>)
  then obtain k' where k': "k' \<in> set (rows (fold (ingest_interval uid q delta) ns (candles s)))"
    "candle_key k' = ?key" "k_is_complete k'" "k_close k' = q_ltp q"
    unfolding complete_rows_def by (metis imageE)
  obtain res vs' s' where e: "ingest ns uid q (vs, s) = (res, vs', s')" by (cases "ingest ns uid q (vs, s)")
  have "k' \<in> set (rows (candles s'))"
    unfolding ingest_sound(3) [OF assms(3) d e] delta_def [symmetric] using k'(1) by (simp add: rows_in_objs)
  with k' show ?thesis unfolding assms(6) e by (intro bexI [of _ k']) simp_all
qed

text \<open>The account with the completed candle of the first minute, closed at 100.\<close>

definition ex_candle :: market_candle where
  "ex_candle = \<lparr>k_user_id = ''u'', k_instrument_id = ''ins'', k_interval_seconds = 60, k_start_at = 0,
     k_open = 100, k_high = 100, k_low = 100, k_close = 100, k_volume = 0, k_open_interest = None,
     k_source = ''DHAN'', k_is_complete = True\<rparr>"

definition ex_with_candle :: session where
  "ex_with_candle = (let d = ex_db\<lparr>t_strategy := empty_strategy_tables\<lparr>t_candles := \<lparr>rows = [ex_candle], added = []\<rparr>\<rparr>\<rparr>
     in ex_session\<lparr>cur := d, saved := d\<rparr>)"

lemma sound_ex_with_candle: "sound ex_with_candle"
  by (simp add: sound_def idle_def candles_def ex_with_candle_def Let_def ex_session_def ex_db_def empty_db_def clean_def
      constraints_def empty_strategy_tables_def flush_strategy_def flush_table_fix strategy_constraints_def objs_def
      candle_ok_def ex_candle_def)

lemma late_tick_rewrites_completed_candle_witness:
  "\<exists>k' \<in> set (rows (candles (snd (snd (ingest [60, 300, 900, 3600, 86400] ''u''
       ((ex_quote 95)\<lparr>q_exchange_timestamp := 30000000\<rparr>) (Map.empty, ex_with_candle)))))).
     candle_key k' = (''u'', ''ins'', 60, 0) \<and> k_is_complete k' \<and> k_close k' = 95"
proof -
  have "bucket 30000000 60 = 0" by code_simp
  moreover have "rows (candles ex_with_candle) = [ex_candle]"
    by (simp add: candles_def ex_with_candle_def Let_def)
  ultimately show ?thesis
    using late_tick_rewrites_completed_candle [OF default_candle_intervals _ sound_ex_with_candle, of 60 ex_candle "''u''"
        "(ex_quote 95)\<lparr>q_exchange_timestamp := 30000000\<rparr>" Map.empty]
    by (simp add: ex_quote_def ex_candle_def candle_key_def)
qed

end
