(* ===== verification/DhanFrames.thy ===== *)
theory DhanFrames
  imports Prelude "HOL-Library.Word"
begin

text \<open>
  The binary protocol of the Dhan live feed, the first part of \<^verbatim>\<open>market/dhan.py\<close>: the \<^verbatim>\<open>struct\<close> layouts, one
  frame, and one WebSocket message of concatenated frames.  Bytes are 8-bit words, all layouts are little
  endian without padding.  A binary32 field is kept as its 32 bits; \<open>float32\<close> reads the number, which
  Python holds as the same value in double precision, and is \<open>None\<close> for an infinity or a NaN.
\<close>

unbundle bit_operations_syntax

section \<open>Layouts\<close>

type_synonym bytes = "8 word list"

text \<open>The format characters \<^verbatim>\<open>B\<close>, \<^verbatim>\<open>H\<close>, \<^verbatim>\<open>I\<close>, \<^verbatim>\<open>f\<close> and \<^verbatim>\<open>100s\<close>.\<close>

datatype field = U8 | U16 | U32 | F32 | Raw nat

datatype wire = VInt int | VFloat "32 word" | VBytes bytes

fun field_size :: "field \<Rightarrow> nat" where
  "field_size U8 = 1"
| "field_size U16 = 2"
| "field_size U32 = 4"
| "field_size F32 = 4"
| "field_size (Raw n) = n"

definition layout_size :: "field list \<Rightarrow> nat" where
  "layout_size fs = sum_list (map field_size fs)"

text \<open>The value of little-endian bytes.\<close>

fun le_value :: "bytes \<Rightarrow> int" where
  "le_value [] = 0"
| "le_value (b # bs) = uint b + 256 * le_value bs"

fun read_field :: "field \<Rightarrow> bytes \<Rightarrow> wire" where
  "read_field F32 bs = VFloat (word_of_int (le_value bs))"
| "read_field (Raw n) bs = VBytes bs"
| "read_field f bs = VInt (le_value bs)"

fun read_fields :: "field list \<Rightarrow> bytes \<Rightarrow> wire list" where
  "read_fields [] bs = []"
| "read_fields (f # fs) bs = read_field f (take (field_size f) bs) # read_fields fs (drop (field_size f) bs)"

text \<open>\<^verbatim>\<open>unpack_from(buffer, offset)\<close>: \<^verbatim>\<open>struct.error\<close> when the buffer is too short.\<close>

definition unpack_from :: "field list \<Rightarrow> bytes \<Rightarrow> nat \<Rightarrow> exn + wire list" where
  "unpack_from layout buffer offset =
     (if length buffer < offset + layout_size layout then Inl (PyError ''error'')
      else Inr (read_fields layout (drop offset buffer)))"

definition HEADER :: "field list" where "HEADER = [U8, U16, U8, U32]"
definition TICKER :: "field list" where "TICKER = HEADER @ [F32, U32]"
definition QUOTE :: "field list" where
  "QUOTE = HEADER @ [F32, U16, U32, F32, U32, U32, U32, F32, F32, F32, F32]"
definition OPEN_INTEREST :: "field list" where "OPEN_INTEREST = HEADER @ [U32]"
definition FULL :: "field list" where
  "FULL = HEADER @ [F32, U16, U32, F32, U32, U32, U32, U32, U32, U32, F32, F32, F32, F32, Raw 100]"
definition DEPTH_LEVEL :: "field list" where "DEPTH_LEVEL = [U32, U32, U16, U16, F32, F32]"
definition DISCONNECT :: "field list" where "DISCONNECT = HEADER @ [U16]"

lemmas layouts = HEADER_def TICKER_def QUOTE_def OPEN_INTEREST_def FULL_def DEPTH_LEVEL_def DISCONNECT_def

lemma layout_sizes:
  "layout_size HEADER = 8" "layout_size TICKER = 16" "layout_size QUOTE = 50" "layout_size OPEN_INTEREST = 12"
  "layout_size FULL = 162" "layout_size DEPTH_LEVEL = 20" "layout_size DISCONNECT = 10"
  by (simp_all add: layout_size_def layouts)

text \<open>The number of a binary32 pattern.\<close>

definition float32 :: "32 word \<Rightarrow> pyfloat option" where
  "float32 w =
     (let e = uint (drop_bit 23 w AND 255); m = uint (w AND 0x7FFFFF);
          sign = (if bit w 31 then - 1 else 1)
      in if e = 255 then None
         else if e = 0 then Some (sign * of_int m / 2 ^ 149)
         else Some (sign * of_int (2 ^ 23 + m) * 2 ^ nat e / 2 ^ 150))"

section \<open>Frames\<close>

record depth_level =
  bid_quantity :: int
  ask_quantity :: int
  bid_orders :: int
  ask_orders :: int
  level_bid :: "32 word"
  level_ask :: "32 word"

datatype packet_value = PInt int | PFloat "32 word" | PStr string | PDepth "depth_level list"

text \<open>A decoded packet is a dictionary, in the order its keys were added.\<close>

type_synonym packet = "(string \<times> packet_value) list"

fun int_of :: "wire \<Rightarrow> int" where
  "int_of (VInt n) = n"
| "int_of _ = 0"

fun float_of :: "wire \<Rightarrow> 32 word" where
  "float_of (VFloat w) = w"
| "float_of _ = 0"

fun bytes_of :: "wire \<Rightarrow> bytes" where
  "bytes_of (VBytes bs) = bs"
| "bytes_of _ = []"

definition int_at :: "string \<Rightarrow> wire list \<Rightarrow> nat \<Rightarrow> string \<times> packet_value" where
  "int_at name vs i = (name, PInt (int_of (vs ! i)))"

definition float_at :: "string \<Rightarrow> wire list \<Rightarrow> nat \<Rightarrow> string \<times> packet_value" where
  "float_at name vs i = (name, PFloat (float_of (vs ! i)))"

definition level_of :: "wire list \<Rightarrow> depth_level" where
  "level_of vs = \<lparr>bid_quantity = int_of (vs ! 0), ask_quantity = int_of (vs ! 1), bid_orders = int_of (vs ! 2),
     ask_orders = int_of (vs ! 3), level_bid = float_of (vs ! 4), level_ask = float_of (vs ! 5)\<rparr>"

text \<open>\<^verbatim>\<open>for offset in range(0, len(raw), DEPTH_LEVEL.size)\<close>.\<close>

function depth_from :: "bytes \<Rightarrow> nat \<Rightarrow> exn + depth_level list" where
  "depth_from raw offset =
     (if length raw \<le> offset then Inr []
      else case unpack_from DEPTH_LEVEL raw offset of
          Inl e \<Rightarrow> Inl e
        | Inr vs \<Rightarrow>
            (case depth_from raw (offset + layout_size DEPTH_LEVEL) of
               Inl e \<Rightarrow> Inl e
             | Inr levels \<Rightarrow> Inr (level_of vs # levels)))"
  by pat_completeness auto
termination by (relation "measure (\<lambda>(raw, offset). length raw - offset)") (auto simp: layout_sizes)

declare depth_from.simps [simp del]

definition quote_values :: "wire list \<Rightarrow> packet" where
  "quote_values vs = [float_at ''LTP'' vs 4, int_at ''LTQ'' vs 5, int_at ''LTT'' vs 6, float_at ''average_price'' vs 7,
     int_at ''volume'' vs 8, int_at ''total_sell_quantity'' vs 9, int_at ''total_buy_quantity'' vs 10]"

text \<open>A body: the values of the layout, or the error of a frame that is shorter.\<close>

definition body :: "string \<Rightarrow> field list \<Rightarrow> bytes \<Rightarrow> (wire list \<Rightarrow> exn + packet) \<Rightarrow> exn + packet" where
  "body kind layout frame f =
     (if length frame < layout_size layout
      then Inl (DhanProtocolError (''Truncated Dhan '' @ kind @ '' packet''))
      else case unpack_from layout frame 0 of Inl e \<Rightarrow> Inl e | Inr vs \<Rightarrow> f vs)"

definition full_values :: "wire list \<Rightarrow> exn + packet" where
  "full_values vs =
     (case depth_from (bytes_of (vs ! 18)) 0 of
        Inl e \<Rightarrow> Inl e
      | Inr [] \<Rightarrow> Inl (PyError ''IndexError'')
      | Inr (best # levels) \<Rightarrow>
          Inr (quote_values vs @
            [int_at ''OI'' vs 11, int_at ''oi_day_high'' vs 12, int_at ''oi_day_low'' vs 13, float_at ''open'' vs 14,
             float_at ''close'' vs 15, float_at ''high'' vs 16, float_at ''low'' vs 17,
             (''depth'', PDepth (best # levels)), (''bid'', PFloat (level_bid best)),
             (''ask'', PFloat (level_ask best))]))"

definition decode_body :: "int \<Rightarrow> bytes \<Rightarrow> exn + packet" where
  "decode_body code frame =
     (if code = 2 then body ''ticker'' TICKER frame (\<lambda>vs. Inr [float_at ''LTP'' vs 4, int_at ''LTT'' vs 5])
      else if code = 4 then body ''quote'' QUOTE frame (\<lambda>vs. Inr (quote_values vs @
        [float_at ''open'' vs 11, float_at ''close'' vs 12, float_at ''high'' vs 13, float_at ''low'' vs 14]))
      else if code = 5 then body ''open-interest'' OPEN_INTEREST frame (\<lambda>vs. Inr [int_at ''OI'' vs 4])
      else if code = 6 then body ''previous-close'' TICKER frame
        (\<lambda>vs. Inr [float_at ''close'' vs 4, int_at ''previous_open_interest'' vs 5])
      else if code = 8 then body ''full'' FULL frame full_values
      else if code = 50 then body ''disconnect'' DISCONNECT frame (\<lambda>vs. Inr [int_at ''disconnect_code'' vs 4])
      else Inr [])"

definition base_packet :: "wire list \<Rightarrow> packet" where
  "base_packet hs = [int_at ''response_code'' hs 0, int_at ''message_length'' hs 1, int_at ''exchange_segment'' hs 2,
     (''security_id'', PStr (str_of_int (int_of (hs ! 3))))]"

definition decode_frame :: "bytes \<Rightarrow> exn + packet" where
  "decode_frame frame =
     (case unpack_from HEADER frame 0 of
        Inl e \<Rightarrow> Inl e
      | Inr hs \<Rightarrow>
          (case decode_body (int_of (hs ! 0)) frame of
             Inl e \<Rightarrow> Inl e
           | Inr rest \<Rightarrow> Inr (base_packet hs @ rest)))"

text \<open>\<^verbatim>\<open>data[offset:end]\<close>.\<close>

definition slice :: "bytes \<Rightarrow> nat \<Rightarrow> nat \<Rightarrow> bytes" where
  "slice data start stop = take (stop - start) (drop start data)"

function decode_from :: "bytes \<Rightarrow> nat \<Rightarrow> exn + packet list" where
  "decode_from data offset =
     (if length data \<le> offset then Inr []
      else if length data - offset < layout_size HEADER
      then Inl (DhanProtocolError ''Truncated Dhan packet header'')
      else case unpack_from HEADER data offset of
        Inl e \<Rightarrow> Inl e
      | Inr hs \<Rightarrow>
        let n = int_of (hs ! 1) in
        if n < int (layout_size HEADER)
        then Inl (DhanProtocolError (''Invalid Dhan packet length: '' @ str_of_int n))
        else if int (length data) < int offset + n
        then Inl (DhanProtocolError ''Dhan packet length exceeds WebSocket message'')
        else case decode_frame (slice data offset (offset + nat n)) of
          Inl e \<Rightarrow> Inl e
        | Inr p \<Rightarrow>
            (case decode_from data (offset + nat n) of Inl e \<Rightarrow> Inl e | Inr ps \<Rightarrow> Inr (p # ps)))"
  by pat_completeness auto
termination by (relation "measure (\<lambda>(data, offset). length data - offset)") (auto simp: layout_sizes)

declare decode_from.simps [simp del]

definition decode_dhan_frames :: "bytes \<Rightarrow> exn + packet list" where
  "decode_dhan_frames data = decode_from data 0"

end
