(* ===== verification/DhanFeed.thy ===== *)
theory DhanFeed
  imports DhanFrames OrderService "HOL-Library.AList"
begin

text \<open>
  The feed itself, the second part of \<^verbatim>\<open>market/dhan.py\<close>: what one user's connection (\<^verbatim>\<open>DhanFeedSession\<close>)
  does with its subscriptions, with a message and with a lost connection, and how the supervisor
  (\<^verbatim>\<open>DhanFeedSupervisor\<close>) keeps one connection per user with the current credentials.  The tasks, the
  WebSocket and the health record of the market bus are outside (\<open>FeedConnection\<close> puts the steps in order): a step says what is sent, what is
  reported and what the next state is.
\<close>

section \<open>Subscriptions of a connection\<close>

type_synonym feed_key = "int \<times> string"
type_synonym desired = "(feed_key \<times> dhan_subscription) list"

text \<open>\<^verbatim>\<open>{item.key: item for item in subscriptions}\<close>: a later item replaces an earlier one of the same key.\<close>

definition keyed :: "dhan_subscription list \<Rightarrow> desired" where
  "keyed us = foldl (\<lambda>d u. AList.update (subscription_key u) u d) [] us"

text \<open>The subscriptions of \<open>a\<close> whose key is not in \<open>b\<close>.\<close>

definition only_in :: "desired \<Rightarrow> desired \<Rightarrow> dhan_subscription list" where
  "only_in a b = map snd (filter (\<lambda>(k, u). k \<notin> fst ` set b) a)"

text \<open>\<^verbatim>\<open>_send\<close> of the removed and then of the added subscriptions.\<close>

definition send_changes :: "int \<Rightarrow> desired \<Rightarrow> desired \<Rightarrow> exn + json list" where
  "send_changes request_code active wanted =
     (let removed = only_in active wanted; new = only_in wanted active in
      case (if removed = [] then Inr [] else subscription_messages removed (request_code + 1) 100) of
        Inl e \<Rightarrow> Inl e
      | Inr gone \<Rightarrow>
          (case (if new = [] then Inr [] else subscription_messages new request_code 100) of
             Inl e \<Rightarrow> Inl e
           | Inr come \<Rightarrow> Inr (gone @ come)))"

section \<open>A message\<close>

type_synonym partial_packets = "(feed_key \<times> packet) list"

definition packet_int :: "packet \<Rightarrow> string \<Rightarrow> int" where
  "packet_int p name = (case map_of p name of Some (PInt n) \<Rightarrow> n | _ \<Rightarrow> 0)"

definition packet_key :: "packet \<Rightarrow> feed_key" where
  "packet_key p =
     (packet_int p ''exchange_segment'', case map_of p ''security_id'' of Some (PStr t) \<Rightarrow> t | _ \<Rightarrow> [])"

text \<open>\<^verbatim>\<open>a.update(b)\<close> and \<^verbatim>\<open>{**a, **b}\<close>.\<close>

definition dict_update :: "packet \<Rightarrow> packet \<Rightarrow> packet" where
  "dict_update a b = foldl (\<lambda>d (k, v). AList.update k v d) a b"

text \<open>
  The loop over the packets of one message.  \<open>on_packet\<close> is the callback, which may raise and changes a
  state of its own.
\<close>

fun handle_packets ::
  "(dhan_subscription \<Rightarrow> packet \<Rightarrow> 'w \<Rightarrow> (exn + unit) \<times> 'w) \<Rightarrow> desired \<Rightarrow> packet list \<Rightarrow> partial_packets \<Rightarrow> 'w
   \<Rightarrow> (exn + unit) \<times> partial_packets \<times> 'w" where
  "handle_packets on_packet active [] partials st = (Inr (), partials, st)"
| "handle_packets on_packet active (p # ps) partials st =
     (let code = packet_int p ''response_code''; key = packet_key p;
          known = or_else (map_of partials key) []
      in if code = 50 then (Inl (DhanDisconnectError (packet_int p ''disconnect_code'')), partials, st)
         else if code \<in> {5, 6} then
           handle_packets on_packet active ps (AList.update key (dict_update known p) partials) st
         else if code \<notin> {2, 4, 8} then handle_packets on_packet active ps partials st
         else case map_of active key of
             None \<Rightarrow> handle_packets on_packet active ps partials st
           | Some u \<Rightarrow>
               (case on_packet u (dict_update known p) st of
                  (Inl e, st') \<Rightarrow> (Inl e, partials, st')
                | (Inr _, st') \<Rightarrow> handle_packets on_packet active ps partials st'))"

definition handle_message ::
  "(dhan_subscription \<Rightarrow> packet \<Rightarrow> 'w \<Rightarrow> (exn + unit) \<times> 'w) \<Rightarrow> desired \<Rightarrow> bytes \<Rightarrow> partial_packets \<Rightarrow> 'w
   \<Rightarrow> (exn + unit) \<times> partial_packets \<times> 'w" where
  "handle_message on_packet active message partials st =
     (case decode_dhan_frames message of
        Inl e \<Rightarrow> (Inl e, partials, st)
      | Inr ps \<Rightarrow> handle_packets on_packet active ps partials st)"

section \<open>Losing the connection\<close>

text \<open>How one attempt of \<^verbatim>\<open>run\<close> ended: whether it was \<open>up\<close>, and with which exception, if any.\<close>

datatype feed_outcome = Returned | Cancelled | Raised exn

datatype feed_next = Reraised | Fatal int | Waits pyfloat pyfloat | Ended

text \<open>
  One turn of the loop of \<^verbatim>\<open>run\<close> from the delay \<open>delay\<close>.  \<open>jitter\<close> is the draw of \<^verbatim>\<open>random.random()\<close> that
  \<^verbatim>\<open>uniform(0, b)\<close> multiplies \<open>b\<close> with; \<open>stopping\<close> says whether the session is being stopped afterwards.
  \<open>Waits t d\<close> sleeps \<open>t\<close> seconds and goes on with the delay \<open>d\<close>.
\<close>

definition feed_turn :: "pyfloat \<Rightarrow> bool \<Rightarrow> feed_outcome \<Rightarrow> bool \<Rightarrow> pyfloat \<Rightarrow> pyfloat \<Rightarrow> feed_next" where
  "feed_turn reconnect_max up outcome stopping jitter delay =
     (let delay = (if up then 1 else delay);
          waits = (if stopping then Ended
                   else Waits (fadd delay (fadd 0 (fmul (fsub (min 1 (fdiv delay 4)) 0) jitter)))
                          (min (fmul delay 2) reconnect_max))
      in case outcome of
           Cancelled \<Rightarrow> Reraised
         | Raised (DhanDisconnectError code) \<Rightarrow> if code \<in> {806, 807, 808, 809} then Fatal code else waits
         | _ \<Rightarrow> waits)"

section \<open>Reports\<close>

text \<open>A call of \<^verbatim>\<open>market_bus.update_feed_health\<close>, with the fields it names except times.\<close>

type_synonym health_update = "string \<times> (string \<times> json) list"

definition fatal_status :: "int \<Rightarrow> broker_status" where
  "fatal_status code = (if code \<in> {807, 808, 809} then REAUTH_REQUIRED else BrokerERROR)"

definition feed_error :: "int \<Rightarrow> string" where
  "feed_error code = ''DHAN_FEED_'' @ str_of_int code"

definition dhan_account :: "db \<Rightarrow> string \<Rightarrow> broker_connection option" where
  "dhan_account d uid = List.find (\<lambda>b. b_user_id b = uid \<and> b_broker b = DHAN) (rows (t_connections d))"

definition fatal_health :: "string \<Rightarrow> int \<Rightarrow> health_update" where
  "fatal_health uid code =
     (uid, [(''state'', JStr (if code \<in> {807, 808, 809} then ''reauth_required'' else ''error'')),
            (''last_error'', JStr (feed_error code))])"

definition feed_fatal :: "string \<Rightarrow> int \<Rightarrow> session \<Rightarrow> (exn + health_update) \<times> session" where
  "feed_fatal uid code s =
     (case dhan_account (cur s) uid of
        None \<Rightarrow> (Inr (fatal_health uid code), s)
      | Some b \<Rightarrow>
          commit_return (fatal_health uid code)
            (s\<lparr>cur := put_connection (b\<lparr>b_status := fatal_status code, b_error_code := Some (feed_error code)\<rparr>) (cur s)\<rparr>))"

text \<open>\<^verbatim>\<open>isinstance(exc, DhanProtocolError)\<close>.\<close>

fun protocol_error :: "exn \<Rightarrow> bool" where
  "protocol_error (DhanProtocolError _) \<longleftrightarrow> True"
| "protocol_error _ \<longleftrightarrow> False"

text \<open>The report of a connection that is lost and will be tried again.\<close>

definition lost_health :: "string \<Rightarrow> exn \<Rightarrow> health_update" where
  "lost_health uid e =
     (uid, [(''state'', JStr ''reconnecting''), (''reconnect_delta'', JInt 1)] @
       (case e of
          DhanDisconnectError code \<Rightarrow> [(''last_error'', JStr (feed_error code))]
        | _ \<Rightarrow> [(''decode_error_delta'', JInt (if protocol_error e then 1 else 0)), (''last_error'', JStr (exn_name e))]))"

section \<open>Loading a user\<close>

definition feed_expired :: "instant \<Rightarrow> broker_connection \<Rightarrow> bool" where
  "feed_expired now b = (case b_token_expires_at b of None \<Rightarrow> False | Some t \<Rightarrow> t \<le> now)"

text \<open>The instruments that have a subscription, in the order of the rows.\<close>

fun feed_subscriptions :: "(json \<Rightarrow> string) \<Rightarrow> instrument list \<Rightarrow> exn + dhan_subscription list" where
  "feed_subscriptions pr [] = Inr []"
| "feed_subscriptions pr (ins # rest) =
     (case dhan_subscription pr ins of
        Inl (DhanProtocolError m) \<Rightarrow> feed_subscriptions pr rest
      | Inl e \<Rightarrow> Inl e
      | Inr u \<Rightarrow> (case feed_subscriptions pr rest of Inl e \<Rightarrow> Inl e | Inr us \<Rightarrow> Inr (u # us)))"

text \<open>\<open>digest\<close> is SHA-256 in hexadecimal.\<close>

definition load_user ::
  "world \<Rightarrow> (string \<Rightarrow> string) \<Rightarrow> string \<Rightarrow> string list \<Rightarrow> session
   \<Rightarrow> (exn + (string \<times> string \<times> string \<times> dhan_subscription list) option) \<times> session" where
  "load_user w digest uid iids s =
     (case connected_dhan (cur s) uid of
        None \<Rightarrow> (Inr None, s)
      | Some b \<Rightarrow>
          if feed_expired (clock s) b then
            commit_return None
              (s\<lparr>cur := put_connection (b\<lparr>b_status := REAUTH_REQUIRED, b_error_code := Some ''DHAN_TOKEN_EXPIRED''\<rparr>)
                 (cur s)\<rparr>)
          else case w_decrypt w (b_encrypted_credentials b) of
              Inl e \<Rightarrow>
                (if e \<in> {PyError ''TypeError'', PyError ''ValueError'', PyError ''JSONDecodeError''} then Inr None
                 else Inl e, s)
            | Inr credentials \<Rightarrow>
                let token = jfield credentials ''access_token'';
                    client_id = jor (jfield credentials ''client_id'') (text_or_null (b_broker_client_id b));
                    cid = jstr (w_repr w) client_id; access = jstr (w_repr w) token
                in if \<not> jtruthy token \<or> \<not> jtruthy client_id then (Inr None, s)
                   else (case feed_subscriptions (w_repr w)
                             (filter (\<lambda>i. i_id i \<in> set iids \<and> i_is_active i) (rows (t_instruments (cur s)))) of
                           Inl e \<Rightarrow> Inl e
                         | Inr us \<Rightarrow> Inr (Some (digest (cid @ [CHR 0x00] @ access), cid, access, us)), s))"

section \<open>Keeping the connections\<close>

text \<open>A connection the supervisor holds: the fingerprint of its credentials and what it subscribes to.\<close>

record feed_session =
  fs_fingerprint :: string
  fs_client_id :: string
  fs_access_token :: string
  fs_desired :: desired

type_synonym feed_sessions = "string \<rightharpoonup> feed_session"

definition waiting_health :: "string \<Rightarrow> nat \<Rightarrow> health_update" where
  "waiting_health uid n = (uid, [(''state'', JStr ''awaiting_credentials''), (''subscription_count'', JInt (int n))])"

definition invalid_health :: "string \<Rightarrow> health_update" where
  "invalid_health uid = (uid, [(''state'', JStr ''instrument_error''), (''subscription_count'', JInt 0),
     (''last_error'', JStr ''NO_VALID_DHAN_INSTRUMENTS'')])"

definition idle_health :: "string \<Rightarrow> health_update" where
  "idle_health uid = (uid, [(''state'', JStr ''idle''), (''subscription_count'', JInt 0), (''last_error'', JStr [])])"

text \<open>
  One user of the loop of \<^verbatim>\<open>reconcile\<close>.  \<open>ended\<close> says whose task is done.  A session that is replaced or
  dropped is stopped; a new one starts with the loaded credentials.
\<close>

definition keep_session ::
  "(string \<Rightarrow> bool) \<Rightarrow> string \<Rightarrow> string \<times> string \<times> string \<times> dhan_subscription list \<Rightarrow> feed_sessions \<Rightarrow> feed_session"
where
  "keep_session ended uid loaded sessions =
     (let (fingerprint, cid, access, us) = loaded;
          started = \<lparr>fs_fingerprint = fingerprint, fs_client_id = cid, fs_access_token = access, fs_desired = []\<rparr>;
          base = (case sessions uid of
                    None \<Rightarrow> started
                  | Some f \<Rightarrow> if fs_fingerprint f \<noteq> fingerprint \<or> ended uid then started else f)
      in base\<lparr>fs_desired := keyed us\<rparr>)"

fun reconcile_users ::
  "world \<Rightarrow> (string \<Rightarrow> string) \<Rightarrow> (string \<Rightarrow> bool) \<Rightarrow> (string \<times> string list) list
   \<Rightarrow> feed_sessions \<times> health_update list \<times> session \<Rightarrow> (exn + unit) \<times> feed_sessions \<times> health_update list \<times> session"
where
  "reconcile_users w digest ended [] (sessions, hs, s) = (Inr (), sessions, hs, s)"
| "reconcile_users w digest ended ((uid, iids) # rest) (sessions, hs, s) =
     (case load_user w digest uid iids s of
        (Inl e, s') \<Rightarrow> (Inl e, sessions, hs, rollback s')
      | (Inr None, s') \<Rightarrow>
          reconcile_users w digest ended rest
            (sessions(uid := None), hs @ [waiting_health uid (length iids)], rollback s')
      | (Inr (Some (fingerprint, cid, access, us)), s') \<Rightarrow>
          if us = [] then
            reconcile_users w digest ended rest (sessions(uid := None), hs @ [invalid_health uid], rollback s')
          else
            reconcile_users w digest ended rest
              (sessions(uid \<mapsto> keep_session ended uid (fingerprint, cid, access, us) sessions),
               hs @ [(uid, [(''subscription_count'', JInt (int (length us)))])], rollback s'))"

text \<open>\<^verbatim>\<open>grouped\<close>: the users of the active subscriptions, each with its instruments.\<close>

definition grouped :: "(string \<times> string) list \<Rightarrow> (string \<times> string list) list" where
  "grouped active = map (\<lambda>u. (u, remdups (map snd (filter (\<lambda>p. fst p = u) active)))) (remdups (map fst active))"

text \<open>
  \<^verbatim>\<open>reconcile\<close>: sessions of users without subscriptions are dropped first; \<open>held\<close> lists the users of the
  sessions in the order the set of them is walked.
\<close>

definition feed_reconcile ::
  "world \<Rightarrow> (string \<Rightarrow> string) \<Rightarrow> (string \<Rightarrow> bool) \<Rightarrow> string list \<Rightarrow> (string \<times> string) list
   \<Rightarrow> feed_sessions \<times> session \<Rightarrow> (exn + unit) \<times> feed_sessions \<times> health_update list \<times> session" where
  "feed_reconcile w digest ended held active st =
     (let (sessions, s) = st;
          gone = filter (\<lambda>u. u \<notin> fst ` set active) held
      in reconcile_users w digest ended (grouped active)
           (foldl (\<lambda>f u. f(u := None)) sessions gone, map idle_health gone, s))"

end
