(* ===== verification/DhanFeedProps.thy ===== *)
theory DhanFeedProps
  imports DhanFeed StrategyProps "HOL-Library.Multiset"
begin

text \<open>
  The properties of the feed: what a connection tells the broker when its subscriptions change, how long
  it waits before it connects again, and that the supervisor only holds connections with the current,
  unexpired credentials of their users.
\<close>

section \<open>Changing subscriptions\<close>

text \<open>The entries a message lists, and its request code.\<close>

fun message_entries :: "json \<Rightarrow> json list" where
  "message_entries (JObj fs) = (case map_of fs ''InstrumentList'' of Some (JList es) \<Rightarrow> es | _ \<Rightarrow> [])"
| "message_entries _ = []"

fun message_code :: "json \<Rightarrow> json" where
  "message_code (JObj fs) = jfield fs ''RequestCode''"
| "message_code _ = JNull"

lemma batch_message_parts [simp]:
  "message_entries (batch_message rc us) = map subscription_entry us" "message_code (batch_message rc us) = JInt rc"
  by (simp_all add: batch_message_def jfield_def)

lemma subscription_messages_parts:
  assumes "rc \<in> {15, 16, 17, 18, 21, 22}"
  shows "\<exists>ms. subscription_messages us rc 100 = Inr ms \<and> (\<forall>m \<in> set ms. message_code m = JInt rc \<and> length (message_entries m) \<le> 100) \<and>
    mset (concat (map message_entries ms)) = mset (map subscription_entry us)"
proof -
  let ?bs = "batches 100 (sort_key subscription_key us)"
  have "concat (map (map subscription_entry) ?bs) = map subscription_entry (sort_key subscription_key us)"
    by (simp add: concat_batches flip: map_concat)
  then have "mset (concat (map message_entries (map (batch_message rc) ?bs))) = mset (map subscription_entry us)"
    by (simp add: comp_def)
  moreover have "\<forall>m \<in> set (map (batch_message rc) ?bs). message_code m = JInt rc \<and> length (message_entries m) \<le> 100"
    using batches_bounds [of 100 _ "sort_key subscription_key us"] by auto
  ultimately show ?thesis using assms by (simp add: subscription_messages_def)
qed

text \<open>
  A changed subscription set sends exactly the difference.  With one of the configurable request
  codes, a connection first sends messages of the code that cancels, which list every subscription it had
  and no longer wants, and then messages of the code that subscribes, which list every one it wants and
  did not have; each is listed once, none else is, and no message lists more than a hundred.
\<close>

theorem subscription_changes_are_the_difference:
  assumes "rc \<in> {15, 17, 21}"
  shows "\<exists>gone come. send_changes rc active wanted = Inr (gone @ come) \<and>
    (\<forall>m \<in> set gone. message_code m = JInt (rc + 1) \<and> length (message_entries m) \<le> 100) \<and>
    (\<forall>m \<in> set come. message_code m = JInt rc \<and> length (message_entries m) \<le> 100) \<and>
    mset (concat (map message_entries gone)) =
      mset (map (subscription_entry \<circ> snd) (filter (\<lambda>(k, u). k \<notin> fst ` set wanted) active)) \<and>
    mset (concat (map message_entries come)) =
      mset (map (subscription_entry \<circ> snd) (filter (\<lambda>(k, u). k \<notin> fst ` set active) wanted))"
proof -
  have part: "\<exists>ms. (if us = [] then Inr [] else subscription_messages us c 100) = Inr ms \<and>
      (\<forall>m \<in> set ms. message_code m = JInt c \<and> length (message_entries m) \<le> 100) \<and>
      mset (concat (map message_entries ms)) = mset (map subscription_entry us)"
    if "c \<in> {15, 16, 17, 18, 21, 22}" for us c
    using subscription_messages_parts [OF that, of us] by (cases "us = []") auto
  have codes: "rc + 1 \<in> {15, 16, 17, 18, 21, 22}" "rc \<in> {15, 16, 17, 18, 21, 22}" using assms by auto
  obtain gone where g: "(if only_in active wanted = [] then Inr [] else subscription_messages (only_in active wanted) (rc + 1) 100) = Inr gone"
    "\<forall>m \<in> set gone. message_code m = JInt (rc + 1) \<and> length (message_entries m) \<le> 100"
    "mset (concat (map message_entries gone)) = mset (map subscription_entry (only_in active wanted))"
    using part [OF codes(1), of "only_in active wanted"] by blast
  obtain come where c: "(if only_in wanted active = [] then Inr [] else subscription_messages (only_in wanted active) rc 100) = Inr come"
    "\<forall>m \<in> set come. message_code m = JInt rc \<and> length (message_entries m) \<le> 100"
    "mset (concat (map message_entries come)) = mset (map subscription_entry (only_in wanted active))"
    using part [OF codes(2), of "only_in wanted active"] by blast
  have "send_changes rc active wanted = Inr (gone @ come)"
    unfolding send_changes_def Let_def g(1) sum.case c(1) ..
  with g(2,3) c(2,3) show ?thesis by (intro exI [of _ gone] exI [of _ come]) (simp add: only_in_def)
qed

definition ex_sub :: "string \<Rightarrow> dhan_subscription" where
  "ex_sub security = \<lparr>sub_instrument_id = security, sub_segment = ''NSE_EQ'', sub_code = 1, sub_security_id = security,
     sub_instrument = ex_instrument\<rparr>"

lemma subscription_changes_are_the_difference_witness:
  "\<exists>gone come. send_changes 17 (keyed [ex_sub ''1'', ex_sub ''2'']) (keyed [ex_sub ''2'', ex_sub ''3'']) = Inr (gone @ come) \<and>
     concat (map message_entries gone) = [subscription_entry (ex_sub ''1'')] \<and>
     concat (map message_entries come) = [subscription_entry (ex_sub ''3'')]"
proof -
  have k: "keyed [ex_sub a, ex_sub b] = [((1, a), ex_sub a), ((1, b), ex_sub b)]" if "a \<noteq> b" for a b
    using that by (simp add: keyed_def subscription_key_def ex_sub_def)
  show ?thesis
    using subscription_changes_are_the_difference [of 17 "keyed [ex_sub ''1'', ex_sub ''2'']" "keyed [ex_sub ''2'', ex_sub ''3'']"]
    by (simp add: k) blast
qed

section \<open>Waiting\<close>

text \<open>The delay after \<open>n\<close> attempts in a row that never connected, starting from one second.\<close>

fun delay_after :: "pyfloat \<Rightarrow> exn list \<Rightarrow> pyfloat" where
  "delay_after reconnect_max [] = 1"
| "delay_after reconnect_max (e # es) =
     (case feed_turn reconnect_max False (Raised e) False 0 (delay_after reconnect_max es) of
        Waits t d \<Rightarrow> d | _ \<Rightarrow> 0)"

lemma fmul_power: "n < 53 \<Longrightarrow> fmul (2 ^ n) 2 = 2 ^ Suc n"
proof -
  assume "n < 53"
  then have "\<bar>2 ^ Suc n :: int\<bar> \<le> 2 ^ 53" using power_increasing [of "Suc n" 53 "2 :: int"] by simp
  from fl.ints [OF this] show ?thesis by (simp add: fmul_def mult.commute)
qed

text \<open>
  The delay doubles up to the limit, and an expired credential is not retried.  After \<open>n\<close> failed
  attempts the next delay is the smaller of \<open>2 ^ n\<close> seconds and the configured maximum; a disconnect with
  one of the four codes that call for new credentials ends the session instead, connected or not.
\<close>

theorem reconnect_delay_doubles_to_the_limit:
  assumes "1 \<le> reconnect_max" "is_float reconnect_max" "reconnect_max \<le> 2 ^ 50"
    and "\<forall>e \<in> set es. \<forall>code. e = DhanDisconnectError code \<longrightarrow> code \<notin> {806, 807, 808, 809}"
  shows "delay_after reconnect_max es = min (2 ^ length es) reconnect_max \<and>
    feed_turn reconnect_max up (Raised (DhanDisconnectError 807)) stopping jitter delay = Fatal 807"
proof -
  have "delay_after reconnect_max es = min (2 ^ length es) reconnect_max"
    using assms(4)
  proof (induction es)
    case Nil
    then show ?case using assms(1) by (simp add: min_def)
  next
    case (Cons e es)
    have "delay_after reconnect_max (e # es) = min (fmul (delay_after reconnect_max es) 2) reconnect_max"
      using Cons.prems by (cases e) (auto simp: feed_turn_def Let_def)
    also have "\<dots> = min (2 ^ length (e # es)) reconnect_max"
    proof (cases "2 ^ length es \<le> reconnect_max")
      case True
      have "(2 :: rat) ^ length es \<le> 2 ^ 50" using True assms(3) by (rule order_trans)
      then have "length es \<le> 50" by (rule power_le_imp_le_exp [rotated]) simp
      with True Cons show ?thesis using fmul_power [of "length es"] by (simp add: min_def)
    next
      case False
      then have d: "delay_after reconnect_max es = reconnect_max" using Cons by simp
      have "fl reconnect_max \<le> fl (reconnect_max * 2)" using assms(1) by (intro fl.mono) simp
      then have "reconnect_max \<le> fmul reconnect_max 2" using assms(2) by (simp add: fmul_def is_float_def)
      moreover have "reconnect_max \<le> 2 ^ length (e # es)" using False assms(1) by simp
      ultimately show ?thesis by (simp add: d min_absorb2)
    qed
    finally show ?case .
  qed
  then show ?thesis by (simp add: feed_turn_def Let_def)
qed

lemma reconnect_delay_doubles_to_the_limit_witness:
  "delay_after 30 [PyError ''OSError'', DhanDisconnectError 805, PyError ''OSError''] = 8 \<and>
   delay_after 30 (replicate 9 (PyError ''OSError'')) = 30"
proof -
  have "is_float (30 :: rat)" using fl.ints [of 30] by (simp add: is_float_def)
  then show ?thesis
    using reconnect_delay_doubles_to_the_limit [of 30 "[PyError ''OSError'', DhanDisconnectError 805, PyError ''OSError'']"]
      reconnect_delay_doubles_to_the_limit [of 30 "replicate 9 (PyError ''OSError'')"] by simp
qed

section \<open>Current credentials\<close>

text \<open>What the account stored for a user logs in with: the decrypted client id and access token, as texts.\<close>

definition feed_login :: "world \<Rightarrow> db \<Rightarrow> string \<Rightarrow> (string \<times> string) option" where
  "feed_login w d uid =
     (case connected_dhan d uid of
        None \<Rightarrow> None
      | Some b \<Rightarrow> (case w_decrypt w (b_encrypted_credentials b) of
            Inl e \<Rightarrow> None
          | Inr credentials \<Rightarrow>
              Some (jstr (w_repr w) (jor (jfield credentials ''client_id'') (text_or_null (b_broker_client_id b))),
                jstr (w_repr w) (jfield credentials ''access_token''))))"

text \<open>
  A connection the supervisor may hold for a user: there is a connected, unexpired account, the connection logs in with
  the client id and the token that account stores, and it has something to subscribe to.
\<close>

definition current_session :: "world \<Rightarrow> db \<Rightarrow> instant \<Rightarrow> string \<Rightarrow> feed_session \<Rightarrow> bool" where
  "current_session w d now uid f \<longleftrightarrow>
     (\<exists>b. connected_dhan d uid = Some b \<and> \<not> feed_expired now b) \<and>
     feed_login w d uid = Some (fs_client_id f, fs_access_token f) \<and> fs_desired f \<noteq> []"

text \<open>
  The fingerprint of a client id and a token; every session held is labelled with the fingerprint of what it logs in
  with; and the fingerprint tells apart the logins at hand: those of the sessions and those the accounts store.  The
  code relies on the digest for that.
\<close>

definition fingerprint_of :: "(string \<Rightarrow> string) \<Rightarrow> string \<times> string \<Rightarrow> string" where
  "fingerprint_of digest login = digest (fst login @ [CHR 0x00] @ snd login)"

definition labelled :: "(string \<Rightarrow> string) \<Rightarrow> feed_sessions \<Rightarrow> bool" where
  "labelled digest sessions \<longleftrightarrow>
     (\<forall>f \<in> ran sessions. fs_fingerprint f = fingerprint_of digest (fs_client_id f, fs_access_token f))"

definition logins_at_hand :: "world \<Rightarrow> db \<Rightarrow> feed_sessions \<Rightarrow> (string \<times> string) set" where
  "logins_at_hand w d sessions = (\<lambda>f. (fs_client_id f, fs_access_token f)) ` ran sessions \<union> ran (feed_login w d)"

definition accounts_ok :: "session \<Rightarrow> bool" where
  "accounts_ok s \<longleftrightarrow> saved s = cur s \<and> added (t_connections (cur s)) = [] \<and>
     distinct (map b_id (rows (t_connections (cur s))))"

lemma keyed_not_Nil: "us \<noteq> [] \<Longrightarrow> keyed us \<noteq> []"
proof (induction us rule: rev_induct)
  case (snoc u us)
  have "AList.update k v al \<noteq> []" for k :: feed_key and v :: dhan_subscription and al by (cases al) auto
  then show ?case by (simp add: keyed_def)
qed simp

lemma find_other_user:
  assumes "distinct (map b_id bs)" "b \<in> set bs" "b_id b' = b_id b" "\<not> P b" "\<not> P b'"
  shows "List.find P (upd_by b_id b' bs) = List.find P bs"
proof -
  have same: "P x = P b'" if "x \<in> set bs" "b_id x = b_id b'" for x
    using distinct_map_eqD [OF assms(1) that(1) assms(2)] that(2) assms(3-5) by simp
  have "List.find P (upd_by b_id b' bs) = map_option (\<lambda>x. if b_id x = b_id b' then b' else x) (List.find P bs)"
    by (rule find_upd_by) (rule same)
  also have "\<dots> = List.find P bs"
  proof (cases "List.find P bs")
    case (Some x)
    then have "x \<in> set bs" "P x" by (auto dest: find_SomeD)
    then have "b_id x \<noteq> b_id b'" using distinct_map_eqD [OF assms(1) _ assms(2), of x] assms(3,4) by auto
    with Some show ?thesis by simp
  qed simp
  finally show ?thesis .
qed

definition accounts_kept :: "string \<Rightarrow> session \<Rightarrow> session \<Rightarrow> bool" where
  "accounts_kept v s s' \<longleftrightarrow> accounts_ok s' \<and> clock s' = clock s \<and>
     (\<forall>u. u \<noteq> v \<longrightarrow> connected_dhan (cur s') u = connected_dhan (cur s) u)"

lemma load_user_keeps:
  assumes "load_user w digest v iids s = (res, s')" "accounts_ok s"
  shows "accounts_kept v s (rollback s')"
proof (cases "\<exists>b. connected_dhan (cur s) v = Some b \<and> feed_expired (clock s) b")
  case False
  then have "s' = s"
    using assms(1) by (auto simp: load_user_def Let_def split: option.splits sum.splits if_splits)
  then show ?thesis using assms(2) by (simp add: accounts_kept_def accounts_ok_def rollback_def)
next
  case True
  then obtain b where b: "connected_dhan (cur s) v = Some b" "feed_expired (clock s) b" by blast
  define b' where "b' = b\<lparr>b_status := REAUTH_REQUIRED, b_error_code := Some ''DHAN_TOKEN_EXPIRED''\<rparr>"
  have e: "commit_return None (s\<lparr>cur := put_connection b' (cur s)\<rparr>) = (res, s')"
    using assms(1) b by (simp add: load_user_def b'_def)
  show ?thesis
  proof (cases "constraints (put_connection b' (cur s))")
    case False
    then have "s' = s\<lparr>cur := put_connection b' (cur s)\<rparr>" using e by (simp add: commit_return_def commit_def flush_def)
    then show ?thesis using assms(2) by (simp add: accounts_kept_def accounts_ok_def rollback_def)
  next
    case True
    then have s': "s' = s\<lparr>cur := flush_all (put_connection b' (cur s)), saved := flush_all (put_connection b' (cur s))\<rparr>"
      using e by (simp add: commit_return_def commit_def flush_def)
    have rows: "rows (t_connections (cur (rollback s'))) = upd_by b_id b' (rows (t_connections (cur s)))"
      using assms(2) by (simp add: s' put_connection_def rollback_def accounts_ok_def objs_def)
    have b_in: "b \<in> set (rows (t_connections (cur s)))" "b_user_id b = v"
      using find_SomeD [OF b(1) [unfolded connected_dhan_def]] by simp_all
    have "connected_dhan (cur (rollback s')) u = connected_dhan (cur s) u" if "u \<noteq> v" for u
      unfolding connected_dhan_def rows
      by (rule find_other_user [OF _ b_in(1)]) (use assms(2) that b_in(2) in \<open>simp_all add: accounts_ok_def b'_def\<close>)
    moreover have "accounts_ok (rollback s')"
      using assms(2) rows by (simp add: accounts_ok_def) (simp add: s' rollback_def)
    moreover have "clock (rollback s') = clock s" by (simp add: s' rollback_def)
    ultimately show ?thesis by (simp add: accounts_kept_def)
  qed
qed

lemma load_user_login:
  assumes "load_user w digest v iids s = (Inr (Some (fp, cid, access, us)), s')"
  shows "fp = fingerprint_of digest (cid, access)" "feed_login w (cur s) v = Some (cid, access)"
    "\<exists>b. connected_dhan (cur s) v = Some b \<and> \<not> feed_expired (clock s) b"
  using assms by (auto simp: load_user_def feed_login_def fingerprint_of_def Let_def commit_return_Inr
      split: option.splits sum.splits if_splits)

text \<open>A session kept for its fingerprint is one that logs in with the same client id and token.\<close>

lemma keep_session_login:
  assumes "labelled digest sessions" "inj_on (fingerprint_of digest) (insert (cid, access) L)"
    "\<And>f. sessions v = Some f \<Longrightarrow> (fs_client_id f, fs_access_token f) \<in> L" "fp = fingerprint_of digest (cid, access)"
  shows "fs_client_id (keep_session ended v (fp, cid, access, us) sessions) = cid \<and>
    fs_access_token (keep_session ended v (fp, cid, access, us) sessions) = access \<and>
    fs_fingerprint (keep_session ended v (fp, cid, access, us) sessions) = fp \<and>
    fs_desired (keep_session ended v (fp, cid, access, us) sessions) = keyed us"
proof (cases "sessions v")
  case (Some f)
  have "fs_fingerprint f = fingerprint_of digest (fs_client_id f, fs_access_token f)"
    using assms(1) Some by (auto simp: labelled_def ran_def)
  moreover have "(fs_client_id f, fs_access_token f) = (cid, access)"
    if "fingerprint_of digest (fs_client_id f, fs_access_token f) = fingerprint_of digest (cid, access)"
    using inj_onD [OF assms(2) that] assms(3) [OF Some] by blast
  ultimately show ?thesis using Some assms(4) by (auto simp: keep_session_def)
qed (simp add: keep_session_def)

lemma labelled_upd:
  "labelled digest sessions \<Longrightarrow> labelled digest (sessions(v := None))"
  "labelled digest sessions \<Longrightarrow> fs_fingerprint f = fingerprint_of digest (fs_client_id f, fs_access_token f) \<Longrightarrow>
   labelled digest (sessions(v \<mapsto> f))"
  by (auto simp: labelled_def ran_def split: if_splits)

text \<open>
  Along the users of a pass: \<open>L\<close> holds the logins the accounts of the users had when the pass began and those of the
  sessions; no user comes twice, so what a user's turn reads is what was stored then.
\<close>

definition among :: "world \<Rightarrow> db \<Rightarrow> feed_sessions \<Rightarrow> string set \<Rightarrow> (string \<times> string) set \<Rightarrow> bool" where
  "among w d sessions us L \<longleftrightarrow>
     (\<forall>f \<in> ran sessions. (fs_client_id f, fs_access_token f) \<in> L) \<and> (\<forall>u \<in> us. \<forall>l. feed_login w d u = Some l \<longrightarrow> l \<in> L)"

lemma among_upd:
  assumes "among w d sessions (insert v us) L" "\<And>u. u \<in> us \<Longrightarrow> connected_dhan d' u = connected_dhan d u"
  shows "among w d' (sessions(v := None)) us L"
    "(fs_client_id f, fs_access_token f) \<in> L \<Longrightarrow> among w d' (sessions(v \<mapsto> f)) us L"
  using assms by (auto simp: among_def feed_login_def ran_def split: if_splits)

text \<open>What a pass over the remaining users leaves, as a predicate of the sessions it begins and ends with.\<close>

definition held_now ::
  "world \<Rightarrow> (string \<Rightarrow> string) \<Rightarrow> db \<Rightarrow> instant \<Rightarrow> string set \<Rightarrow> feed_sessions \<Rightarrow> feed_sessions \<Rightarrow> bool" where
  "held_now w digest d now us before after \<longleftrightarrow> labelled digest after \<and>
     (\<forall>u f. after u = Some f \<longrightarrow> u \<notin> us \<and> before u = Some f \<or> u \<in> us \<and> current_session w d now u f)"

lemma held_now_turn:
  assumes "held_now w digest d' now us (sessions(v := x)) after" "v \<notin> us"
    "\<And>u f. u \<noteq> v \<Longrightarrow> current_session w d' now u f = current_session w d now u f"
    "\<And>f. x = Some f \<Longrightarrow> current_session w d now v f"
  shows "held_now w digest d now (insert v us) sessions after"
proof -
  have "u \<notin> insert v us \<and> sessions u = Some f \<or> u \<in> insert v us \<and> current_session w d now u f" if "after u = Some f" for u f
  proof (cases "u = v")
    case True
    then have "x = Some f" using assms(1,2) that unfolding held_now_def by (metis fun_upd_same)
    then show ?thesis using True assms(4) by simp
  next
    case False
    then have "u \<notin> us \<and> sessions u = Some f \<or> u \<in> us \<and> current_session w d' now u f"
      using assms(1) that unfolding held_now_def by (metis fun_upd_apply)
    then show ?thesis using False assms(3) by simp
  qed
  then show ?thesis using assms(1) by (simp add: held_now_def)
qed

lemma reconcile_users_current:
  assumes "reconcile_users w digest ended users (sessions, hs, s) = (Inr (), sessions', hs', s')"
    and "accounts_ok s" "distinct (map fst users)" "labelled digest sessions" "inj_on (fingerprint_of digest) L"
    and "among w (cur s) sessions (fst ` set users) L"
  shows "held_now w digest (cur s) (clock s) (fst ` set users) sessions sessions'"
  using assms(1-4,6)
proof (induction users arbitrary: sessions hs s)
  case (Cons user users)
  obtain v iids where user: "user = (v, iids)" by (cases user)
  obtain res s1 where l: "load_user w digest v iids s = (res, s1)" by (cases "load_user w digest v iids s")
  have keeps: "accounts_ok (rollback s1)" "clock (rollback s1) = clock s"
    "u \<noteq> v \<Longrightarrow> connected_dhan (cur (rollback s1)) u = connected_dhan (cur s) u" for u
    using load_user_keeps [OF l Cons.prems(2)] by (simp_all add: accounts_kept_def)
  have same: "current_session w (cur (rollback s1)) (clock (rollback s1)) u f =
      current_session w (cur s) (clock s) u f" if "u \<noteq> v" for u f
    unfolding current_session_def feed_login_def keeps(2) keeps(3) [OF that] ..
  have d: "distinct (map fst users)" "v \<notin> fst ` set users" using Cons.prems(3) by (auto simp: user)
  have near: "among w (cur s) sessions (insert v (fst ` set users)) L" using Cons.prems(5) by (simp add: user)
  have others: "u \<in> fst ` set users \<Longrightarrow> connected_dhan (cur (rollback s1)) u = connected_dhan (cur s) u" for u
    using keeps(3) d(2) by metis
  have turn: ?case
    if "reconcile_users w digest ended users (sessions(v := x), hs1, rollback s1) = (Inr (), sessions', hs', s')"
      "labelled digest (sessions(v := x))" "among w (cur (rollback s1)) (sessions(v := x)) (fst ` set users) L"
      "\<And>f. x = Some f \<Longrightarrow> current_session w (cur s) (clock s) v f" for x hs1
    using held_now_turn [OF Cons.IH [OF that(1) keeps(1) d(1) that(2,3), unfolded keeps(2)] d(2) same [unfolded keeps(2)] that(4)]
    by (simp add: user)
  have dropped: ?case
    if "reconcile_users w digest ended users (sessions(v := None), hs1, rollback s1) = (Inr (), sessions', hs', s')" for hs1
    by (rule turn [OF that labelled_upd(1) [OF Cons.prems(4)] among_upd(1) [OF near others]]) simp_all
  show ?case
  proof (cases res)
    case (Inl e)
    then show ?thesis using Cons.prems(1) by (simp add: user l)
  next
    case (Inr r)
    show ?thesis
    proof (cases r)
      case None
      show ?thesis by (rule dropped) (use Cons.prems(1) in \<open>simp add: user l Inr None\<close>)
    next
      case (Some x)
      obtain fp cid access us where x: "x = (fp, cid, access, us)" by (cases x)
      show ?thesis
      proof (cases "us = []")
        case True
        show ?thesis by (rule dropped) (use Cons.prems(1) in \<open>simp add: user l Inr Some x True\<close>)
      next
        case False
        let ?f = "keep_session ended v (fp, cid, access, us) sessions"
        note log = load_user_login [OF l [unfolded Inr Some x]]
        have L: "(cid, access) \<in> L" using near log(2) by (simp add: among_def)
        have apart: "inj_on (fingerprint_of digest) (insert (cid, access) L)" using assms(5) L by (simp add: insert_absorb)
        have "\<forall>f \<in> ran sessions. (fs_client_id f, fs_access_token f) \<in> L" using near unfolding among_def by blast
        then have known: "sessions v = Some g \<Longrightarrow> (fs_client_id g, fs_access_token g) \<in> L" for g by (simp add: ranI)
        have f: "fs_client_id ?f = cid" "fs_access_token ?f = access" "fs_fingerprint ?f = fp" "fs_desired ?f = keyed us"
          using keep_session_login [OF Cons.prems(4) apart known log(1), of v ended us] by simp_all
        have now: "current_session w (cur s) (clock s) v ?f"
          using log(2,3) keyed_not_Nil [OF False] by (simp add: current_session_def f)
        have "reconcile_users w digest ended users (sessions(v \<mapsto> ?f),
            hs @ [(v, [(''subscription_count'', JInt (int (length us)))])], rollback s1) = (Inr (), sessions', hs', s')"
          using Cons.prems(1) False by (simp add: user l Inr Some x)
        moreover have "labelled digest (sessions(v \<mapsto> ?f))"
          by (rule labelled_upd(2) [OF Cons.prems(4)]) (unfold f, rule log(1))
        moreover have "among w (cur (rollback s1)) (sessions(v \<mapsto> ?f)) (fst ` set users) L"
          by (rule among_upd(2) [OF near others]) (simp_all add: f L)
        ultimately show ?thesis by (rule turn) (use now in simp)
      qed
    qed
  qed
qed (simp add: held_now_def)

lemma dropped_sessions: "foldl (\<lambda>f u. f(u := None)) sessions us x = (if x \<in> set us then None else sessions x)"
  by (induction us arbitrary: sessions) auto

text \<open>
  C35. A feed connection logs in with its user's current credentials.  Suppose every session held is labelled with the
  fingerprint of its own client id and token, as it is when there is none, and no two different logins at hand (those of
  the sessions and those stored in the accounts) have the same fingerprint.  Then after a reconciliation of the
  supervisor the sessions are labelled so again, and each session it holds belongs to a user with an active subscription
  and a connected account whose token has not expired, logs in with the very client id and access token that account
  stores, and has at least one instrument; every other session was stopped, whatever the sessions were before.
\<close>

theorem feed_connections_have_current_credentials:
  assumes "feed_reconcile w digest ended held active (sessions, s) = (Inr (), sessions', hs, s')"
    and "accounts_ok s" "dom sessions \<subseteq> set held"
    and "labelled digest sessions" "inj_on (fingerprint_of digest) (logins_at_hand w (cur s) sessions)"
  shows "labelled digest sessions' \<and>
    (\<forall>u f. sessions' u = Some f \<longrightarrow> u \<in> fst ` set active \<and> current_session w (cur s) (clock s) u f)"
proof -
  let ?gone = "filter (\<lambda>u. u \<notin> fst ` set active) held"
  let ?left = "foldl (\<lambda>f u. f(u := None)) sessions ?gone"
  have users: "fst ` set (grouped active) = fst ` set active" "distinct (map fst (grouped active))"
    by (force simp: grouped_def comp_def)+
  have run: "reconcile_users w digest ended (grouped active) (?left, map idle_health ?gone, s) = (Inr (), sessions', hs, s')"
    using assms(1) by (simp add: feed_reconcile_def Let_def)
  have left: "?left u = Some f \<Longrightarrow> sessions u = Some f" "u \<notin> fst ` set active \<Longrightarrow> ?left u \<noteq> Some f" for u f
    using assms(3) by (auto simp: dropped_sessions split: if_splits)
  have "labelled digest ?left" using assms(4) left(1) by (auto simp: labelled_def ran_def)
  moreover have "among w (cur s) ?left (fst ` set (grouped active)) (logins_at_hand w (cur s) sessions)"
    using left(1) by (auto simp: among_def logins_at_hand_def ran_def)
  ultimately have "held_now w digest (cur s) (clock s) (fst ` set active) ?left sessions'"
    using reconcile_users_current [OF run assms(2) users(2) _ assms(5)] users(1) by simp
  then show ?thesis using left(2) unfolding held_now_def by blast
qed

text \<open>The user held a connection with a token that was replaced since.\<close>

definition stale_session :: feed_session where
  "stale_session = \<lparr>fs_fingerprint = ''c'' @ [CHR 0x00] @ ''old'', fs_client_id = ''c'', fs_access_token = ''old'',
     fs_desired = []\<rparr>"

definition ex_feed :: "(exn + unit) \<times> feed_sessions \<times> health_update list \<times> session" where
  "ex_feed = feed_reconcile (ex_world NoReply NoReply) (\<lambda>t. t) (\<lambda>_. False) [''u''] [(''u'', ''ins'')]
     (Map.empty(''u'' \<mapsto> stale_session), ex_session)"

lemma feed_connections_have_current_credentials_witness:
  "\<exists>f. fst (snd ex_feed) ''u'' = Some f \<and> fs_access_token f = ''t'' \<and>
     current_session (ex_world NoReply NoReply) (cur ex_session) (clock ex_session) ''u'' f"
proof -
  have "fst ex_feed = Inr ()" by code_simp
  then obtain sessions hs s' where r: "ex_feed = (Inr (), sessions, hs, s')"
    by (metis prod.collapse)
  have "fst (snd ex_feed) ''u'' \<noteq> None" by code_simp
  then have "sessions ''u'' \<noteq> None" by (simp add: r)
  then obtain f where f: "sessions ''u'' = Some f" by blast
  have ok: "accounts_ok ex_session"
    by (simp add: accounts_ok_def ex_session_def ex_db_def)
  have held: "dom (Map.empty(''u'' \<mapsto> stale_session)) \<subseteq> set [''u'']" by simp
  have label: "labelled (\<lambda>t. t) (Map.empty(''u'' \<mapsto> stale_session))"
    by (simp add: labelled_def fingerprint_of_def stale_session_def)
  have "l = (''c'', ''t'')" if "feed_login (ex_world NoReply NoReply) (cur ex_session) u = Some l" for u l
    using that by (simp add: feed_login_def connected_dhan_def ex_session_def ex_db_def ex_connection_def ex_world_def
        jfield_def text_or_null_def jor_def split: if_splits)
  then have "logins_at_hand (ex_world NoReply NoReply) (cur ex_session) (Map.empty(''u'' \<mapsto> stale_session))
      \<subseteq> {(''c'', ''old''), (''c'', ''t'')}"
    unfolding logins_at_hand_def ran_def stale_session_def by (auto split: if_splits)
  then have "inj_on (fingerprint_of (\<lambda>t. t))
      (logins_at_hand (ex_world NoReply NoReply) (cur ex_session) (Map.empty(''u'' \<mapsto> stale_session)))"
    by (rule inj_on_subset [rotated]) (simp add: inj_on_def fingerprint_of_def)
  note all = feed_connections_have_current_credentials [OF r [unfolded ex_feed_def] ok held label this]
  have "current_session (ex_world NoReply NoReply) (cur ex_session) (clock ex_session) ''u'' f"
    by (rule all [THEN conjunct2, rule_format, OF f, THEN conjunct2])
  moreover have "fst (snd ex_feed) ''u'' = Some f" by (simp add: r f)
  moreover have "fs_access_token f = ''t''"
    using calculation(1) by (auto simp: current_session_def feed_login_def ex_world_def jfield_def split: option.splits)
  ultimately show ?thesis by blast
qed

end
