(* ===== verification/MarketAdapters.thy ===== *)
theory MarketAdapters
  imports Contracts DhanFrames DhanInstruments PyNumbers
begin

text \<open>
  \<^verbatim>\<open>market/adapters.py\<close>: the quote of a broker's payload.  A payload is a JSON object; the depth of a quote
  is only checked to be an object, and not kept.  \<open>packet_json\<close> is the payload of a decoded Dhan packet
  whose numbers are finite.
\<close>

section \<open>Payload values\<close>

text \<open>
  \<^verbatim>\<open>datetime.fromtimestamp(x, tz=timezone.utc)\<close>: the fraction is rounded to microseconds, half to even, and
  the year has to lie between 1 and 9999 (a year the C library cannot represent is an \<^verbatim>\<open>OSError\<close>).
\<close>

definition from_timestamp :: "pyfloat \<Rightarrow> exn + instant" where
  "from_timestamp x =
     (let whole = truncate_rat x;
          micro = whole * 1000000 + round_half_even (fmul (x - of_int whole) 1000000)
      in if 2 ^ 63 \<le> \<bar>x\<bar> then Inl (PyError ''OverflowError'')
         else if micro < - 67768040609740800000000 \<or> 67768036191676800000000 \<le> micro
         then Inl (PyError ''OSError'')
         else if micro < - 62135596800000000 \<or> 253402300800000000 \<le> micro then Inl (PyError ''ValueError'')
         else Inr micro)"

definition payload_timestamp :: "instant \<Rightarrow> json \<Rightarrow> exn + instant" where
  "payload_timestamp now v =
     (if v = JNull then Inr now
      else and_then (py_float v) (\<lambda>x. from_timestamp (if 10000000000 < x then fdiv x 1000 else x)))"

text \<open>\<^verbatim>\<open>_number(payload, *names)\<close>: the first of the names whose value is neither null nor empty.\<close>

fun payload_number :: "(string \<times> json) list \<Rightarrow> string list \<Rightarrow> exn + pyfloat option" where
  "payload_number fs [] = Inr None"
| "payload_number fs (name # names) =
     (let v = jfield fs name in
      if v \<noteq> JNull \<and> v \<noteq> JStr [] then and_then (py_float v) (\<lambda>x. Inr (Some x))
      else payload_number fs names)"

text \<open>\<^verbatim>\<open>d[name]\<close>, and \<^verbatim>\<open>d.get(name, default)\<close>, where a stored null is returned.\<close>

definition demand :: "(string \<times> json) list \<Rightarrow> string \<Rightarrow> exn + json" where
  "demand fs name = (case map_of fs name of None \<Rightarrow> Inl (PyError ''KeyError'') | Some v \<Rightarrow> Inr v)"

definition get_or :: "(string \<times> json) list \<Rightarrow> string \<Rightarrow> json \<Rightarrow> json" where
  "get_or fs name fallback = or_else (map_of fs name) fallback"

section \<open>Quotes\<close>

text \<open>The fields of a quote that come from the instrument, the adapter and the sequence.\<close>

definition quote_frame :: "instrument \<Rightarrow> string \<Rightarrow> string \<Rightarrow> int \<Rightarrow> instant \<Rightarrow> quote" where
  "quote_frame ins source mode n now =
     \<lparr>q_instrument_id = i_id ins, q_exchange = i_exchange ins, q_segment = i_segment ins,
      q_trading_symbol = i_trading_symbol ins, q_source = source, q_mode = mode, q_sequence = n,
      q_exchange_timestamp = now, q_received_at = now, q_ltp = 0, q_last_quantity = None, q_open = None,
      q_high = None, q_low = None, q_previous_close = None, q_volume = None, q_open_interest = None,
      q_bid = None, q_ask = None, q_stale = False\<rparr>"

definition fyers_normalize :: "instant \<Rightarrow> instrument \<Rightarrow> (string \<times> json) list \<Rightarrow> int \<Rightarrow> exn + quote" where
  "fyers_normalize now ins fs n =
     and_then (payload_timestamp now (jfield fs ''last_traded_time'')) (\<lambda>t.
     and_then (and_then (demand fs ''ltp'') py_float) (\<lambda>ltp.
     and_then (payload_number fs [''last_traded_qty'']) (\<lambda>ltq.
     and_then (payload_number fs [''open_price'']) (\<lambda>opn.
     and_then (payload_number fs [''high_price'']) (\<lambda>hi.
     and_then (payload_number fs [''low_price'']) (\<lambda>lo.
     and_then (payload_number fs [''prev_close_price'']) (\<lambda>cl.
     and_then (payload_number fs [''vol_traded_today'']) (\<lambda>vol.
     and_then (payload_number fs [''bid_price'']) (\<lambda>bid.
     and_then (payload_number fs [''ask_price'']) (\<lambda>ask.
       normalized_quote ((quote_frame ins ''FYERS'' ''quote'' n now)
         \<lparr>q_exchange_timestamp := t, q_ltp := ltp, q_last_quantity := ltq, q_open := opn, q_high := hi, q_low := lo,
          q_previous_close := cl, q_volume := vol, q_bid := bid, q_ask := ask\<rparr>)))))))))))"

definition upstox_normalize :: "instant \<Rightarrow> instrument \<Rightarrow> (string \<times> json) list \<Rightarrow> int \<Rightarrow> exn + quote" where
  "upstox_normalize now ins fs n =
     (let ltpc = get_or fs ''ltpc'' (JObj fs);
          details = get_or fs ''marketFF'' (get_or fs ''fullFeed'' (JObj fs))
      in and_then (as_object ltpc) (\<lambda>ls.
         and_then (payload_timestamp now (jor (jfield ls ''ltt'') (jfield fs ''currentTs''))) (\<lambda>t.
         and_then (and_then (demand ls ''ltp'') py_float) (\<lambda>ltp.
         and_then (payload_number ls [''ltq'']) (\<lambda>ltq.
         and_then (payload_number ls [''cp'']) (\<lambda>cl.
         and_then (as_object details) (\<lambda>ds.
         and_then (payload_number ds [''vtt'', ''volume'']) (\<lambda>vol.
         and_then (payload_number ds [''oi'']) (\<lambda>oi.
           normalized_quote ((quote_frame ins ''UPSTOX'' ''quote'' n now)
             \<lparr>q_exchange_timestamp := t, q_ltp := ltp, q_last_quantity := ltq, q_previous_close := cl,
              q_volume := vol, q_open_interest := oi\<rparr>))))))))))"

text \<open>\<^verbatim>\<open>depth: dict | None\<close>.\<close>

fun dict_or_null :: "json \<Rightarrow> bool" where
  "dict_or_null JNull = True"
| "dict_or_null (JObj fs) = True"
| "dict_or_null _ = False"

definition dhan_normalize :: "instant \<Rightarrow> instrument \<Rightarrow> (string \<times> json) list \<Rightarrow> int \<Rightarrow> exn + quote" where
  "dhan_normalize now ins fs n =
     and_then (payload_timestamp now (jor (jfield fs ''LTT'') (jfield fs ''last_trade_time''))) (\<lambda>t.
     and_then (py_float (get_or fs ''LTP'' (jfield fs ''ltp''))) (\<lambda>ltp.
     and_then (payload_number fs [''LTQ'', ''last_quantity'']) (\<lambda>ltq.
     and_then (payload_number fs [''open'']) (\<lambda>opn.
     and_then (payload_number fs [''high'']) (\<lambda>hi.
     and_then (payload_number fs [''low'']) (\<lambda>lo.
     and_then (payload_number fs [''close'', ''previous_close'']) (\<lambda>cl.
     and_then (payload_number fs [''volume'']) (\<lambda>vol.
     and_then (payload_number fs [''OI'', ''open_interest'']) (\<lambda>oi.
     and_then (payload_number fs [''bid'']) (\<lambda>bid.
     and_then (payload_number fs [''ask'']) (\<lambda>ask.
       let depth = jfield fs ''depth'' in
       if \<not> dict_or_null depth then Inl (PyError ''ValidationError'')
       else normalized_quote ((quote_frame ins ''DHAN'' (if jtruthy depth then ''depth'' else ''quote'') n now)
         \<lparr>q_exchange_timestamp := t, q_ltp := ltp, q_last_quantity := ltq, q_open := opn, q_high := hi, q_low := lo,
          q_previous_close := cl, q_volume := vol, q_open_interest := oi, q_bid := bid, q_ask := ask\<rparr>))))))))))))"

section \<open>The payload of a decoded packet\<close>

definition level_json :: "depth_level \<Rightarrow> json option" where
  "level_json l =
     (case (float32 (level_bid l), float32 (level_ask l)) of
        (Some b, Some a) \<Rightarrow>
          Some (JObj [(''bid_quantity'', JInt (bid_quantity l)), (''ask_quantity'', JInt (ask_quantity l)),
            (''bid_orders'', JInt (bid_orders l)), (''ask_orders'', JInt (ask_orders l)), (''bid'', JFloat b),
            (''ask'', JFloat a)])
      | _ \<Rightarrow> None)"

fun all_some :: "'a option list \<Rightarrow> 'a list option" where
  "all_some [] = Some []"
| "all_some (None # xs) = None"
| "all_some (Some x # xs) = map_option ((#) x) (all_some xs)"

fun value_json :: "packet_value \<Rightarrow> json option" where
  "value_json (PInt n) = Some (JInt n)"
| "value_json (PFloat w) = map_option JFloat (float32 w)"
| "value_json (PStr t) = Some (JStr t)"
| "value_json (PDepth ls) =
     map_option (\<lambda>js. JObj [(''levels'', JList js)]) (all_some (map level_json ls))"

definition packet_json :: "packet \<Rightarrow> (string \<times> json) list option" where
  "packet_json p = all_some (map (\<lambda>(name, v). map_option (Pair name) (value_json v)) p)"

end
