(* ===== verification/MarketBus.thy ===== *)
theory MarketBus
  imports Contracts "HOL-Library.AList"
begin

text \<open>
  \<^verbatim>\<open>market/bus.py\<close> when no Redis is configured (\<^verbatim>\<open>redis()\<close> is then \<^verbatim>\<open>None\<close>): the latest quote of every user
  and instrument, one bounded queue per listener, the subscriptions of the clients, and the health record of
  every user's feed.  What is done when a Redis server
  answers is in \<open>RedisBus\<close>.
\<close>

section \<open>State\<close>

text \<open>One entry of \<^verbatim>\<open>_health\<close>; a key that is not set is \<open>None\<close>.  Times are instants, not ISO texts.\<close>

record feed_health =
  fh_state :: "string option"
  fh_subscription_count :: "int option"
  fh_connected_at :: "instant option"
  fh_disconnected_at :: "instant option"
  fh_last_tick_at :: "instant option"
  fh_last_exchange_timestamp :: "instant option"
  fh_quote_latency_ms :: "pyfloat option"
  fh_last_error :: "string option"
  fh_updated_at :: "instant option"
  fh_tick_count :: int
  fh_reconnect_count :: int
  fh_decode_errors :: int

definition no_health :: feed_health where
  "no_health = \<lparr>fh_state = None, fh_subscription_count = None, fh_connected_at = None, fh_disconnected_at = None,
     fh_last_tick_at = None, fh_last_exchange_timestamp = None, fh_quote_latency_ms = None, fh_last_error = None,
     fh_updated_at = None, fh_tick_count = 0, fh_reconnect_count = 0, fh_decode_errors = 0\<rparr>"

text \<open>A queue is known by its user and the number of the listener it was made for.\<close>

record bus =
  bus_latest :: "string \<times> string \<rightharpoonup> quote"
  bus_queues :: "string \<times> nat \<rightharpoonup> quote list"
  bus_clients :: "((string \<times> string) \<times> string list) list"
  bus_health :: "string \<rightharpoonup> feed_health"

text \<open>\<^verbatim>\<open>reset\<close>, which is also the state of a new bus.\<close>

definition empty_bus :: bus where
  "empty_bus = \<lparr>bus_latest = Map.empty, bus_queues = Map.empty, bus_clients = [], bus_health = Map.empty\<rparr>"

definition merge_health ::
  "string \<Rightarrow> (feed_health \<Rightarrow> feed_health) \<Rightarrow> int \<Rightarrow> int \<Rightarrow> int \<Rightarrow> bus \<Rightarrow> bus" where
  "merge_health uid change reconnects errors ticks b =
     (let h = change (or_else (bus_health b uid) no_health) in
      b\<lparr>bus_health := (bus_health b)(uid \<mapsto> h\<lparr>fh_reconnect_count := fh_reconnect_count h + reconnects,
        fh_decode_errors := fh_decode_errors h + errors, fh_tick_count := fh_tick_count h + ticks\<rparr>)\<rparr>)"

section \<open>Quotes\<close>

text \<open>\<^verbatim>\<open>round(x, 3)\<close>.\<close>

definition pyround3 :: "pyfloat \<Rightarrow> pyfloat" where
  "pyround3 x = fl (of_int (round_half_even (x * 1000)) / 1000)"

definition quote_latency :: "quote \<Rightarrow> pyfloat" where
  "quote_latency q =
     pyround3 (max 0 (fmul (seconds_between (q_received_at q) (q_exchange_timestamp q)) 1000))"

definition queue_size :: nat where "queue_size = 256"

text \<open>A full queue gives up its oldest quote.\<close>

definition put_nowait :: "quote \<Rightarrow> quote list \<Rightarrow> quote list" where
  "put_nowait q queue = (if length queue = queue_size then tl queue else queue) @ [q]"

definition publish_health :: "instant \<Rightarrow> string \<Rightarrow> quote \<Rightarrow> bus \<Rightarrow> bus" where
  "publish_health now uid q b =
     merge_health uid (\<lambda>h. h\<lparr>fh_state := Some ''connected'', fh_last_tick_at := Some now,
       fh_last_exchange_timestamp := Some (q_exchange_timestamp q), fh_quote_latency_ms := Some (quote_latency q),
       fh_last_error := Some [], fh_updated_at := Some now\<rparr>) 0 0 1 b"

definition deliver :: "string \<Rightarrow> quote \<Rightarrow> bus \<Rightarrow> bus" where
  "deliver uid q b =
     b\<lparr>bus_latest := (bus_latest b)((uid, q_instrument_id q) \<mapsto> q),
       bus_queues := (\<lambda>k. map_option (if fst k = uid then put_nowait q else id) (bus_queues b k))\<rparr>"

definition publish :: "instant \<Rightarrow> string \<Rightarrow> quote \<Rightarrow> bus \<Rightarrow> bus" where
  "publish now uid q b = deliver uid q (publish_health now uid q b)"

definition latest :: "bus \<Rightarrow> string \<Rightarrow> string list \<Rightarrow> quote list" where
  "latest b uid iids = List.map_filter (\<lambda>i. bus_latest b (uid, i)) iids"

text \<open>
  A run of \<^verbatim>\<open>listen\<close>: it makes its queue, takes quotes from it one at a time (\<open>None\<close> while it waits) and
  discards it when it is closed.
\<close>

definition listen :: "string \<Rightarrow> nat \<Rightarrow> bus \<Rightarrow> bus" where
  "listen uid l b = b\<lparr>bus_queues := (bus_queues b)((uid, l) \<mapsto> [])\<rparr>"

definition next_quote :: "string \<Rightarrow> nat \<Rightarrow> bus \<Rightarrow> quote option \<times> bus" where
  "next_quote uid l b =
     (case bus_queues b (uid, l) of
        Some (q # queue) \<Rightarrow> (Some q, b\<lparr>bus_queues := (bus_queues b)((uid, l) \<mapsto> queue)\<rparr>)
      | _ \<Rightarrow> (None, b))"

definition stop_listening :: "string \<Rightarrow> nat \<Rightarrow> bus \<Rightarrow> bus" where
  "stop_listening uid l b = b\<lparr>bus_queues := (bus_queues b)((uid, l) := None)\<rparr>"

section \<open>Subscriptions\<close>

definition replace_subscriptions :: "string \<Rightarrow> string \<Rightarrow> string list \<Rightarrow> bus \<Rightarrow> bus" where
  "replace_subscriptions uid client iids b = b\<lparr>bus_clients := AList.update (uid, client) iids (bus_clients b)\<rparr>"

definition disconnect_client :: "string \<Rightarrow> string \<Rightarrow> bus \<Rightarrow> bus" where
  "disconnect_client uid client b =
     (let b' = replace_subscriptions uid client [] b
      in b'\<lparr>bus_clients := AList.delete (uid, client) (bus_clients b')\<rparr>)"

definition active_subscriptions :: "bus \<Rightarrow> (string \<times> string) list" where
  "active_subscriptions b =
     remdups (concat (map (\<lambda>((uid, client), iids). map (Pair uid) iids) (bus_clients b)))"

section \<open>Health\<close>

definition set_if :: "'a option \<Rightarrow> 'a option \<Rightarrow> 'a option" where
  "set_if new old = (if new = None then old else new)"

definition update_feed_health ::
  "instant \<Rightarrow> string \<Rightarrow> string option \<Rightarrow> int option \<Rightarrow> instant option \<Rightarrow> instant option \<Rightarrow> string option \<Rightarrow> int \<Rightarrow> int
   \<Rightarrow> bus \<Rightarrow> bus" where
  "update_feed_health now uid state subscriptions up_at down_at error reconnects errors b =
     merge_health uid (\<lambda>h. h\<lparr>fh_updated_at := Some now, fh_state := set_if state (fh_state h),
       fh_subscription_count := set_if subscriptions (fh_subscription_count h),
       fh_connected_at := set_if up_at (fh_connected_at h),
       fh_disconnected_at := set_if down_at (fh_disconnected_at h),
       fh_last_error := set_if error (fh_last_error h)\<rparr>) reconnects errors 0 b"

record health_report =
  hr_provider :: string
  hr_state :: string
  hr_healthy :: bool
  hr_stale :: bool
  hr_subscription_count :: nat
  hr_health :: feed_health
  hr_last_error :: "string option"

text \<open>\<open>health_state\<close> is \<^verbatim>\<open>raw.get("state") or ...\<close>, \<open>health_stale\<close> the test of the age of the last sign of life.\<close>

definition health_state :: "settings \<Rightarrow> feed_health \<Rightarrow> string" where
  "health_state cfg h =
     (case fh_state h of
        Some (c # cs) \<Rightarrow> c # cs
      | _ \<Rightarrow> if market_feed_provider cfg = ''disabled'' then ''disabled'' else ''idle'')"

definition health_stale :: "settings \<Rightarrow> instant \<Rightarrow> nat \<Rightarrow> feed_health \<Rightarrow> bool" where
  "health_stale cfg now n h \<longleftrightarrow>
     0 < n \<and> health_state cfg h = ''connected'' \<and>
     (case (if fh_last_tick_at h = None then fh_connected_at h else fh_last_tick_at h) of
        None \<Rightarrow> False
      | Some t \<Rightarrow> market_stale_after_seconds cfg < seconds_between now t)"

definition feed_health_report :: "settings \<Rightarrow> instant \<Rightarrow> string \<Rightarrow> nat \<Rightarrow> bus \<Rightarrow> health_report" where
  "feed_health_report cfg now uid n b =
     (let h = or_else (bus_health b uid) no_health;
          state = health_state cfg h; stale = health_stale cfg now n h
      in \<lparr>hr_provider = market_feed_provider cfg,
          hr_state = (if stale then ''degraded'' else state),
          hr_healthy = (market_feed_provider cfg = ''disabled'' \<or> n = 0 \<or> state = ''connected'' \<and> \<not> stale),
          hr_stale = stale, hr_subscription_count = n, hr_health = h,
          hr_last_error = (if fh_last_error h = Some [] then None else fh_last_error h)\<rparr>)"

text \<open>\<^verbatim>\<open>status\<close>: the clients and subscriptions of a user, and the health of its feed.\<close>

definition bus_status :: "settings \<Rightarrow> instant \<Rightarrow> string \<Rightarrow> bus \<Rightarrow> nat \<times> nat \<times> health_report" where
  "bus_status cfg now uid b =
     (let n = length (filter (\<lambda>p. fst p = uid) (active_subscriptions b))
      in (length (filter (\<lambda>c. fst (fst c) = uid) (bus_clients b)), n, feed_health_report cfg now uid n b))"

end
