(* ===== verification/MarketWorker.thy ===== *)
theory MarketWorker
  imports Platform MarketAdapters MarketBus DhanFeed
begin

text \<open>
  \<^verbatim>\<open>MarketWorker._handle_dhan_packet\<close> of \<^verbatim>\<open>market/worker.py\<close>, the callback of the Dhan feed: a payload
  becomes a quote, which is published, taken into the candles and, in paper mode, matched with the resting orders.
\<close>

text \<open>The worker: the counters, the bus, the volumes of the candle aggregator and its database session.\<close>

record market_worker =
  mw_sequences :: "string \<times> string \<Rightarrow> int"
  mw_bus :: bus
  mw_volumes :: volumes
  mw_session :: session

text \<open>A quote in the session at hand: into the candles and, in paper mode, to the resting orders.\<close>

definition ingest_and_match ::
  "settings \<Rightarrow> int list \<Rightarrow> string \<Rightarrow> quote \<Rightarrow> market_worker \<Rightarrow> (exn + unit) \<times> market_worker" where
  "ingest_and_match cfg ns uid q w =
     (case ingest ns uid q (mw_volumes w, mw_session w) of
        (Inl e, vs, s) \<Rightarrow> (Inl e, w\<lparr>mw_volumes := vs, mw_session := s\<rparr>)
      | (Inr _, vs, s) \<Rightarrow>
          (case (if trading_mode cfg = ''paper'' then process_quote cfg uid q s else (Inr 0, s)) of
             (res, s') \<Rightarrow> (map_sum id (\<lambda>_. ()) res, w\<lparr>mw_volumes := vs, mw_session := s'\<rparr>)))"

text \<open>\<^verbatim>\<open>with SessionLocal() as db\<close>: what was not committed is lost at the end.\<close>

definition close_session :: "(exn + unit) \<times> market_worker \<Rightarrow> (exn + unit) \<times> market_worker" where
  "close_session st = (fst st, (snd st)\<lparr>mw_session := rollback (mw_session (snd st))\<rparr>)"

definition take_quote ::
  "settings \<Rightarrow> int list \<Rightarrow> string \<Rightarrow> quote \<Rightarrow> market_worker \<Rightarrow> (exn + unit) \<times> market_worker" where
  "take_quote cfg ns uid q w = close_session (ingest_and_match cfg ns uid q w)"

definition next_sequence :: "string \<times> string \<Rightarrow> market_worker \<Rightarrow> market_worker" where
  "next_sequence key w = w\<lparr>mw_sequences := (mw_sequences w)(key := mw_sequences w key + 1)\<rparr>"

definition handle_dhan_packet ::
  "settings \<Rightarrow> int list \<Rightarrow> string \<Rightarrow> dhan_subscription \<Rightarrow> (string \<times> json) list \<Rightarrow> market_worker
   \<Rightarrow> (exn + unit) \<times> market_worker" where
  "handle_dhan_packet cfg ns uid u payload w =
     (let now = clock (mw_session w);
          key = (uid, sub_instrument_id u);
          w = next_sequence key w
      in case dhan_normalize now (sub_instrument u) payload (mw_sequences w key) of
           Inl e \<Rightarrow> (Inl e, w)
         | Inr q \<Rightarrow> take_quote cfg ns uid q (w\<lparr>mw_bus := publish now uid q (mw_bus w)\<rparr>))"

text \<open>
  The callback on a decoded packet.  A packet with an infinite or undefined number has no payload in this model;
  \<open>other\<close> stands for what happens then.
\<close>

definition feed_callback ::
  "(dhan_subscription \<Rightarrow> packet \<Rightarrow> market_worker \<Rightarrow> (exn + unit) \<times> market_worker) \<Rightarrow> settings \<Rightarrow> int list
   \<Rightarrow> string \<Rightarrow> dhan_subscription \<Rightarrow> packet \<Rightarrow> market_worker \<Rightarrow> (exn + unit) \<times> market_worker" where
  "feed_callback other cfg ns uid u p w =
     (case packet_json p of
        None \<Rightarrow> other u p w
      | Some payload \<Rightarrow> handle_dhan_packet cfg ns uid u payload w)"

text \<open>What the session part does is the market event of the platform.\<close>

lemma take_quote_received:
  "take_quote cfg ns uid q w = (r, w') \<Longrightarrow>
   (mw_volumes w', mw_session w') = quote_received cfg ns uid q (mw_volumes w, mw_session w) \<and>
   mw_bus w' = mw_bus w \<and> mw_sequences w' = mw_sequences w"
  by (auto simp: take_quote_def close_session_def ingest_and_match_def quote_received_def split: prod.splits sum.splits if_splits)

section \<open>The simulated feed\<close>

text \<open>\<^verbatim>\<open>sum(symbol.encode())\<close>: UTF-8 has two bytes for a character above 127.\<close>

definition utf8_sum :: "string \<Rightarrow> int" where
  "utf8_sum t =
     (\<Sum>c\<leftarrow>t. let n = int (code_of c) in if n < 128 then n else (192 + n div 64) + (128 + n mod 64))"

definition pyround2 :: "pyfloat \<Rightarrow> pyfloat" where
  "pyround2 x = fl (of_int (round_half_even (x * 100)) / 100)"

definition simulated_base :: "instrument \<Rightarrow> int" where
  "simulated_base ins = 100 + utf8_sum (i_trading_symbol ins) mod 9900"

text \<open>\<open>sine\<close> is \<^verbatim>\<open>math.sin\<close>, whose last digits are the C library's.\<close>

definition simulated_price :: "(pyfloat \<Rightarrow> pyfloat) \<Rightarrow> instrument \<Rightarrow> int \<Rightarrow> pyfloat" where
  "simulated_price sine ins n =
     (let base = float_of_int (simulated_base ins) in
      pyround2 (fadd base (fmul (sine (int_div n 10)) (max (1 / 2) (fmul base (fl (1 / 1000)))))))"

definition simulated_quote :: "(pyfloat \<Rightarrow> pyfloat) \<Rightarrow> instrument \<Rightarrow> int \<Rightarrow> instant \<Rightarrow> exn + quote" where
  "simulated_quote sine ins n now =
     (let price = simulated_price sine ins n in
      normalized_quote ((quote_frame ins ''SIMULATED'' ''quote'' n now)
        \<lparr>q_ltp := price, q_previous_close := Some (float_of_int (simulated_base ins)),
         q_volume := Some (float_of_int (n * 10)), q_bid := Some (max (fl (1 / 100)) (fsub price (fl (5 / 100)))),
         q_ask := Some (fadd price (fl (5 / 100)))\<rparr>))"

text \<open>The loop of \<^verbatim>\<open>_simulate_once\<close> over the subscriptions, in one session.\<close>

fun simulate_subscriptions ::
  "(pyfloat \<Rightarrow> pyfloat) \<Rightarrow> settings \<Rightarrow> int list \<Rightarrow> (string \<times> string) list \<Rightarrow> market_worker
   \<Rightarrow> (exn + unit) \<times> market_worker" where
  "simulate_subscriptions sine cfg ns [] w = (Inr (), w)"
| "simulate_subscriptions sine cfg ns ((uid, iid) # rest) w =
     (case List.find (\<lambda>i. i_id i = iid \<and> i_is_active i) (rows (t_instruments (cur (mw_session w)))) of
        None \<Rightarrow> simulate_subscriptions sine cfg ns rest w
      | Some ins \<Rightarrow>
          let w = next_sequence (uid, iid) w; now = clock (mw_session w) in
          (case simulated_quote sine ins (mw_sequences w (uid, iid)) now of
             Inl e \<Rightarrow> (Inl e, w)
           | Inr q \<Rightarrow>
               (case ingest_and_match cfg ns uid q (w\<lparr>mw_bus := publish now uid q (mw_bus w)\<rparr>) of
                  (Inl e, w) \<Rightarrow> (Inl e, w)
                | (Inr _, w) \<Rightarrow> simulate_subscriptions sine cfg ns rest w)))"

definition simulate_once ::
  "(pyfloat \<Rightarrow> pyfloat) \<Rightarrow> settings \<Rightarrow> int list \<Rightarrow> market_worker \<Rightarrow> (exn + unit) \<times> market_worker" where
  "simulate_once sine cfg ns w =
     (let subscriptions = active_subscriptions (mw_bus w) in
      if subscriptions = [] then (Inr (), w)
      else close_session (simulate_subscriptions sine cfg ns subscriptions w))"

section \<open>Stale feeds\<close>

text \<open>
  \<^verbatim>\<open>_alert_on_stale_feeds\<close> of the supervisor: the users, with their number of instruments, whose feed is newly
  stale are reported; a feed that is not stale any more can be reported again.
\<close>

fun alert_on_stale_feeds ::
  "settings \<Rightarrow> instant \<Rightarrow> bus \<Rightarrow> (string \<times> nat) list \<Rightarrow> string set \<Rightarrow> string list \<times> string set" where
  "alert_on_stale_feeds cfg now b [] alerted = ([], alerted)"
| "alert_on_stale_feeds cfg now b ((uid, n) # rest) alerted =
     (let stale = hr_stale (feed_health_report cfg now uid n b);
          (reports, alerted') = alert_on_stale_feeds cfg now b rest
            (if stale then insert uid alerted else alerted - {uid})
      in (if stale \<and> uid \<notin> alerted then uid # reports else reports, alerted'))"

end
