(* ===== verification/DhanFrameProps.thy ===== *)
theory DhanFrameProps
  imports DhanFrames
begin

text \<open>
  The properties of the frame decoder: every well-formed packet is read back from its bytes, alone and in a
  message of several; and whatever bytes arrive, the decoder ends, fails only with a protocol error, and
  accounts for every byte of a message it accepts.
\<close>

section \<open>Writing fields\<close>

fun le_bytes :: "nat \<Rightarrow> int \<Rightarrow> bytes" where
  "le_bytes 0 n = []"
| "le_bytes (Suc k) n = word_of_int n # le_bytes k (n div 256)"

fun write_field :: "field \<Rightarrow> wire \<Rightarrow> bytes" where
  "write_field f (VInt n) = le_bytes (field_size f) n"
| "write_field f (VFloat w) = le_bytes (field_size f) (uint w)"
| "write_field f (VBytes bs) = bs"

fun write_fields :: "field list \<Rightarrow> wire list \<Rightarrow> bytes" where
  "write_fields (f # fs) (v # vs) = write_field f v @ write_fields fs vs"
| "write_fields _ _ = []"

text \<open>The values a field can hold.\<close>

fun fits :: "field \<Rightarrow> wire \<Rightarrow> bool" where
  "fits F32 (VFloat w) \<longleftrightarrow> True"
| "fits (Raw n) (VBytes bs) \<longleftrightarrow> length bs = n"
| "fits F32 _ \<longleftrightarrow> False"
| "fits (Raw n) _ \<longleftrightarrow> False"
| "fits f (VInt n) \<longleftrightarrow> 0 \<le> n \<and> n < 256 ^ field_size f"
| "fits f _ \<longleftrightarrow> False"

lemma length_le_bytes [simp]: "length (le_bytes k n) = k"
  by (induction k n rule: le_bytes.induct) simp_all

lemma le_value_le_bytes: "le_value (le_bytes k n) = n mod 256 ^ k"
proof (induction k n rule: le_bytes.induct)
  case (2 k n)
  have "uint (word_of_int n :: 8 word) = n mod 256" by (simp add: uint_word_of_int)
  moreover have "n mod (256 * 256 ^ k) = 256 * (n div 256 mod 256 ^ k) + n mod 256"
    by (rule zmod_zmult2_eq) simp
  ultimately show ?case using 2 by simp
qed simp

lemma le_value_bounds: "0 \<le> le_value bs \<and> le_value bs < 256 ^ length bs"
proof (induction bs)
  case (Cons b bs)
  have "uint b < 256" "0 \<le> uint b" using uint_lt2p [of b] by simp_all
  with Cons show ?case by simp
qed simp

lemma length_write_field: "fits f v \<Longrightarrow> length (write_field f v) = field_size f"
  by (cases "(f, v)" rule: fits.cases) simp_all

lemma read_write_field: "fits f v \<Longrightarrow> read_field f (write_field f v) = v"
proof (cases "(f, v)" rule: fits.cases)
  case (1 w)
  have "uint w mod 256 ^ 4 = uint w" using uint_lt2p [of w] by (intro mod_pos_pos_trivial) simp_all
  with 1 show ?thesis by (simp add: le_value_le_bytes del: le_bytes.simps)
qed (simp_all add: le_value_le_bytes uint_word_of_int)

lemma read_write_fields:
  "list_all2 fits fs vs \<Longrightarrow> read_fields fs (write_fields fs vs @ rest) = vs"
  by (induction fs vs rule: list_all2_induct) (simp_all add: length_write_field read_write_field)

lemma length_write_fields: "list_all2 fits fs vs \<Longrightarrow> length (write_fields fs vs) = layout_size fs"
  by (induction fs vs rule: list_all2_induct) (simp_all add: length_write_field layout_size_def)

lemma unpack_write:
  "list_all2 fits fs vs \<Longrightarrow> unpack_from fs (write_fields fs vs @ rest) 0 = Inr vs"
  by (simp add: unpack_from_def length_write_fields read_write_fields)

text \<open>Unpacking at an offset is unpacking what is left there.\<close>

lemma unpack_drop: "offset \<le> length bs \<Longrightarrow> unpack_from fs bs offset = unpack_from fs (drop offset bs) 0"
  by (auto simp: unpack_from_def)

lemma unpack_enough: "layout_size fs \<le> length bs \<Longrightarrow> unpack_from fs bs 0 = Inr (read_fields fs bs)"
  by (simp add: unpack_from_def)

lemma write_fields_append:
  "list_all2 fits fs vs \<Longrightarrow> write_fields (fs @ gs) (vs @ us) = write_fields fs vs @ write_fields gs us"
  by (induction fs vs rule: list_all2_induct) simp_all

section \<open>Robustness\<close>

text \<open>The errors of the decoder are protocol errors.\<close>

definition protocol_only :: "exn + 'a \<Rightarrow> bool" where
  "protocol_only r \<longleftrightarrow> (case r of Inr _ \<Rightarrow> True | Inl e \<Rightarrow> (\<exists>m. e = DhanProtocolError m))"

lemma protocol_only_simps [simp]:
  "protocol_only (Inr x)" "protocol_only (Inl (DhanProtocolError m))"
  by (simp_all add: protocol_only_def)

lemma depth_from_whole:
  "length raw = offset + 20 * n \<Longrightarrow> \<exists>levels. depth_from raw offset = Inr levels \<and> length levels = n"
proof (induction n arbitrary: offset)
  case (Suc n)
  have "unpack_from DEPTH_LEVEL raw offset = Inr (read_fields DEPTH_LEVEL (drop offset raw))"
    using Suc.prems by (simp add: unpack_from_def layout_sizes)
  moreover obtain levels where "depth_from raw (offset + 20) = Inr levels" "length levels = n"
    using Suc.IH [of "offset + 20"] Suc.prems by auto
  ultimately show ?case using Suc.prems by (subst depth_from.simps) (simp add: layout_sizes)
qed (simp add: depth_from.simps)

lemma length_read_fields [simp]: "length (read_fields fs bs) = length fs"
  by (induction fs bs rule: read_fields.induct) simp_all

lemma read_fields_append:
  "read_fields (fs @ gs) bs = read_fields fs bs @ read_fields gs (drop (layout_size fs) bs)"
  by (induction fs bs rule: read_fields.induct) (simp_all add: layout_size_def add.commute)

text \<open>A full frame holds exactly five levels of depth.\<close>

lemma full_values_total:
  assumes "162 \<le> length frame"
  shows "\<exists>p. full_values (read_fields FULL frame) = Inr p"
proof -
  have "bytes_of (read_fields FULL frame ! 18) = take 100 (drop 62 frame)"
  proof -
    have "FULL = take 18 FULL @ [Raw 100]" "length (take 18 FULL) = 18" "layout_size (take 18 FULL) = 62"
      by (simp_all add: layouts layout_size_def)
    then show ?thesis
      by (metis append_Nil bytes_of.simps(1) field_size.simps(5) length_read_fields nth_append_length read_field.simps(2)
          read_fields.simps(2) read_fields_append)
  qed
  moreover have "length (take 100 (drop 62 frame)) = 0 + 20 * 5" using assms by simp
  ultimately obtain levels where "depth_from (bytes_of (read_fields FULL frame ! 18)) 0 = Inr levels" "length levels = 5"
    using depth_from_whole by metis
  then show ?thesis by (cases levels) (simp_all add: full_values_def)
qed

lemma protocol_only_body:
  "(\<And>vs. layout_size layout \<le> length frame \<Longrightarrow> protocol_only (f (read_fields layout frame))) \<Longrightarrow>
   protocol_only (body kind layout frame f)"
  by (auto simp: body_def unpack_enough not_less)

lemma protocol_only_decode_body: "protocol_only (decode_body code frame)"
proof -
  have "protocol_only (full_values (read_fields FULL frame))" if "layout_size FULL \<le> length frame"
    using full_values_total [of frame] that by (auto simp: layout_sizes)
  then show ?thesis by (auto simp: decode_body_def intro!: protocol_only_body)
qed

lemma protocol_only_decode_frame: "8 \<le> length frame \<Longrightarrow> protocol_only (decode_frame frame)"
  using protocol_only_decode_body [of "int_of (read_fields HEADER frame ! 0)" frame]
  by (auto simp: decode_frame_def unpack_enough layout_sizes protocol_only_def split: sum.splits)

definition declared_length :: "packet \<Rightarrow> int" where
  "declared_length p = (case map_of p ''message_length'' of Some (PInt n) \<Rightarrow> n | _ \<Rightarrow> 0)"

lemma decode_frame_length:
  "decode_frame frame = Inr p \<Longrightarrow> declared_length p = int_of (read_fields HEADER frame ! 1)"
  by (auto simp: decode_frame_def base_packet_def int_at_def declared_length_def unpack_from_def split: sum.splits if_splits)

lemma read_fields_take:
  "layout_size fs \<le> m \<Longrightarrow> read_fields fs (take m bs) = read_fields fs bs"
  by (induction fs bs arbitrary: m rule: read_fields.induct) (simp_all add: layout_size_def min_def drop_take)

lemma decode_from_cases:
  assumes "offset < length data"
  obtains (failed) m where "decode_from data offset = Inl (DhanProtocolError m)"
  | (frame) n p where "8 \<le> n" "offset + n \<le> length data" "decode_frame (slice data offset (offset + n)) = Inr p"
      "declared_length p = int n"
      "decode_from data offset = (case decode_from data (offset + n) of Inl e \<Rightarrow> Inl e | Inr ps \<Rightarrow> Inr (p # ps))"
proof (cases "length data - offset < 8")
  case True
  then have "\<exists>m. decode_from data offset = Inl (DhanProtocolError m)"
    using assms by (subst decode_from.simps) (simp add: layout_sizes)
  then show thesis using failed by blast
next
  case False
  let ?hs = "read_fields HEADER (drop offset data)"
  let ?n = "int_of (?hs ! 1)"
  have u: "unpack_from HEADER data offset = Inr ?hs" using False by (simp add: unpack_from_def layout_sizes)
  show thesis
  proof (cases "?n < 8 \<or> int (length data) < int offset + ?n")
    case True
    then have "\<exists>m. decode_from data offset = Inl (DhanProtocolError m)"
      using assms False u by (subst decode_from.simps) (auto simp: layout_sizes Let_def)
    then show thesis using failed by blast
  next
    case ok: False
    define n where "n = nat ?n"
    have n: "8 \<le> n" "offset + n \<le> length data" "?n = int n" using ok by (auto simp: n_def)
    let ?frame = "slice data offset (offset + n)"
    have eq: "decode_from data offset = (case decode_frame ?frame of Inl e \<Rightarrow> Inl e
        | Inr p \<Rightarrow> (case decode_from data (offset + n) of Inl e \<Rightarrow> Inl e | Inr ps \<Rightarrow> Inr (p # ps)))"
      using assms False u ok n by (subst decode_from.simps) (simp add: layout_sizes Let_def cong: sum.case_cong)
    have len: "length ?frame = n" using n(2) by (simp add: slice_def)
    have head: "read_fields HEADER ?frame = ?hs" using n(1) by (simp add: slice_def read_fields_take layout_sizes)
    show thesis
    proof (cases "decode_frame ?frame")
      case (Inl e)
      then show thesis
        using eq protocol_only_decode_frame [of ?frame] len n(1) by (auto simp: protocol_only_def intro: failed)
    next
      case (Inr p)
      have "declared_length p = int n" using decode_frame_length [OF Inr] head n(3) by simp
      then show thesis using eq Inr n by (intro frame [of n p]) simp_all
    qed
  qed
qed

lemma decode_from_accounts:
  "offset \<le> length data \<Longrightarrow> (case decode_from data offset of
     Inl e \<Rightarrow> \<exists>m. e = DhanProtocolError m
   | Inr ps \<Rightarrow> (\<Sum>p\<leftarrow>ps. declared_length p) = int (length data - offset) \<and> 8 * length ps \<le> length data - offset)"
proof (induction "length data - offset" arbitrary: offset rule: less_induct)
  case less
  show ?case
  proof (cases "offset < length data")
    case True
    then show ?thesis
    proof (cases rule: decode_from_cases)
      case (frame n p)
      from frame(1,2) True have "length data - (offset + n) < length data - offset" by simp
      from less.hyps [OF this frame(2)] frame(1,2) show ?thesis
        by (auto simp: frame(4,5) of_nat_diff split: sum.splits)
    qed simp
  qed (use less.prems in \<open>simp add: decode_from.simps\<close>)
qed

text \<open>
  C31. The frame decoder accounts for every byte or refuses the message.  Whatever bytes a WebSocket
  message holds, decoding ends, and either raises a protocol error and nothing else, never an error of
  \<^verbatim>\<open>struct\<close> or an index error, or yields packets whose declared lengths add up to the length of the
  message, each of at least eight bytes.
\<close>

theorem decoder_accounts_for_every_byte:
  "case decode_dhan_frames data of
     Inl e \<Rightarrow> \<exists>m. e = DhanProtocolError m
   | Inr ps \<Rightarrow> (\<Sum>p\<leftarrow>ps. declared_length p) = int (length data) \<and> 8 * length ps \<le> length data"
  using decode_from_accounts [of 0 data] by (simp add: decode_dhan_frames_def split: sum.splits)

section \<open>The round trip\<close>

text \<open>The packets of the protocol, by their contents.\<close>

datatype feed_packet =
    Ticker "32 word" int
  | FeedQuote "32 word" int int "32 word" int int int "32 word" "32 word" "32 word" "32 word"
  | OpenInterest int
  | PreviousClose "32 word" int
  | Disconnect int
  | FullQuote "32 word" int int "32 word" int int int int int int "32 word" "32 word" "32 word" "32 word" "depth_level list"
  | Unhandled int

text \<open>The code, the layout of the body and its values.\<close>

definition level_values :: "depth_level \<Rightarrow> wire list" where
  "level_values l = [VInt (bid_quantity l), VInt (ask_quantity l), VInt (bid_orders l), VInt (ask_orders l),
     VFloat (level_bid l), VFloat (level_ask l)]"

definition level_bytes :: "depth_level \<Rightarrow> bytes" where
  "level_bytes l = write_fields DEPTH_LEVEL (level_values l)"

fun packet_code :: "feed_packet \<Rightarrow> int" where
  "packet_code (Ticker _ _) = 2"
| "packet_code (FeedQuote _ _ _ _ _ _ _ _ _ _ _) = 4"
| "packet_code (OpenInterest _) = 5"
| "packet_code (PreviousClose _ _) = 6"
| "packet_code (Disconnect _) = 50"
| "packet_code (FullQuote _ _ _ _ _ _ _ _ _ _ _ _ _ _ _) = 8"
| "packet_code (Unhandled code) = code"

fun packet_layout :: "feed_packet \<Rightarrow> field list" where
  "packet_layout (Ticker _ _) = [F32, U32]"
| "packet_layout (FeedQuote _ _ _ _ _ _ _ _ _ _ _) = [F32, U16, U32, F32, U32, U32, U32, F32, F32, F32, F32]"
| "packet_layout (OpenInterest _) = [U32]"
| "packet_layout (PreviousClose _ _) = [F32, U32]"
| "packet_layout (Disconnect _) = [U16]"
| "packet_layout (FullQuote _ _ _ _ _ _ _ _ _ _ _ _ _ _ _) =
     [F32, U16, U32, F32, U32, U32, U32, U32, U32, U32, F32, F32, F32, F32, Raw 100]"
| "packet_layout (Unhandled _) = []"

fun packet_values :: "feed_packet \<Rightarrow> wire list" where
  "packet_values (Ticker ltp ltt) = [VFloat ltp, VInt ltt]"
| "packet_values (FeedQuote ltp ltq ltt avg volume sell buy op cl hi lo) =
     [VFloat ltp, VInt ltq, VInt ltt, VFloat avg, VInt volume, VInt sell, VInt buy, VFloat op, VFloat cl, VFloat hi,
      VFloat lo]"
| "packet_values (OpenInterest oi) = [VInt oi]"
| "packet_values (PreviousClose close oi) = [VFloat close, VInt oi]"
| "packet_values (Disconnect code) = [VInt code]"
| "packet_values (FullQuote ltp ltq ltt avg volume sell buy oi oih oil op cl hi lo levels) =
     [VFloat ltp, VInt ltq, VInt ltt, VFloat avg, VInt volume, VInt sell, VInt buy, VInt oi, VInt oih, VInt oil,
      VFloat op, VFloat cl, VFloat hi, VFloat lo, VBytes (concat (map level_bytes levels))]"
| "packet_values (Unhandled _) = []"

text \<open>What the decoder is to report of a packet beyond the header.\<close>

fun packet_fields :: "feed_packet \<Rightarrow> packet" where
  "packet_fields (Ticker ltp ltt) = [(''LTP'', PFloat ltp), (''LTT'', PInt ltt)]"
| "packet_fields (FeedQuote ltp ltq ltt avg volume sell buy op cl hi lo) =
     [(''LTP'', PFloat ltp), (''LTQ'', PInt ltq), (''LTT'', PInt ltt), (''average_price'', PFloat avg),
      (''volume'', PInt volume), (''total_sell_quantity'', PInt sell), (''total_buy_quantity'', PInt buy),
      (''open'', PFloat op), (''close'', PFloat cl), (''high'', PFloat hi), (''low'', PFloat lo)]"
| "packet_fields (OpenInterest oi) = [(''OI'', PInt oi)]"
| "packet_fields (PreviousClose close oi) = [(''close'', PFloat close), (''previous_open_interest'', PInt oi)]"
| "packet_fields (Disconnect code) = [(''disconnect_code'', PInt code)]"
| "packet_fields (FullQuote ltp ltq ltt avg volume sell buy oi oih oil op cl hi lo levels) =
     [(''LTP'', PFloat ltp), (''LTQ'', PInt ltq), (''LTT'', PInt ltt), (''average_price'', PFloat avg),
      (''volume'', PInt volume), (''total_sell_quantity'', PInt sell), (''total_buy_quantity'', PInt buy),
      (''OI'', PInt oi), (''oi_day_high'', PInt oih), (''oi_day_low'', PInt oil), (''open'', PFloat op),
      (''close'', PFloat cl), (''high'', PFloat hi), (''low'', PFloat lo), (''depth'', PDepth levels),
      (''bid'', PFloat (level_bid (hd levels))), (''ask'', PFloat (level_ask (hd levels)))]"
| "packet_fields (Unhandled _) = []"

text \<open>A packet with its exchange, security and trailing bytes, and its bytes on the wire.\<close>

record sent_packet =
  s_exchange :: int
  s_security :: int
  s_packet :: feed_packet
  s_trailer :: bytes

definition sent_length :: "sent_packet \<Rightarrow> nat" where
  "sent_length x = 8 + layout_size (packet_layout (s_packet x)) + length (s_trailer x)"

definition sent_ok :: "sent_packet \<Rightarrow> bool" where
  "sent_ok x \<longleftrightarrow> 0 \<le> packet_code (s_packet x) \<and> packet_code (s_packet x) < 256 \<and> sent_length x < 2 ^ 16 \<and>
     0 \<le> s_exchange x \<and> s_exchange x < 256 \<and> 0 \<le> s_security x \<and> s_security x < 2 ^ 32 \<and>
     list_all2 fits (packet_layout (s_packet x)) (packet_values (s_packet x)) \<and>
     (case s_packet x of
        Unhandled code \<Rightarrow> code \<notin> {2, 4, 5, 6, 8, 50}
      | FullQuote _ _ _ _ _ _ _ _ _ _ _ _ _ _ levels \<Rightarrow> length levels = 5 \<and> (\<forall>l \<in> set levels. list_all2 fits DEPTH_LEVEL (level_values l))
      | _ \<Rightarrow> True)"

definition header_values :: "sent_packet \<Rightarrow> wire list" where
  "header_values x =
     [VInt (packet_code (s_packet x)), VInt (int (sent_length x)), VInt (s_exchange x), VInt (s_security x)]"

definition sent_bytes :: "sent_packet \<Rightarrow> bytes" where
  "sent_bytes x = write_fields (HEADER @ packet_layout (s_packet x)) (header_values x @ packet_values (s_packet x)) @
     s_trailer x"

definition reported :: "sent_packet \<Rightarrow> packet" where
  "reported x =
     [(''response_code'', PInt (packet_code (s_packet x))), (''message_length'', PInt (int (sent_length x))),
      (''exchange_segment'', PInt (s_exchange x)), (''security_id'', PStr (str_of_int (s_security x)))] @
     packet_fields (s_packet x)"

lemma sent_fits:
  assumes "sent_ok x"
  shows "list_all2 fits HEADER (header_values x)"
    "list_all2 fits (HEADER @ packet_layout (s_packet x)) (header_values x @ packet_values (s_packet x))"
proof -
  have "int (sent_length x) < 65536" using assms by (simp add: sent_ok_def)
  then show h: "list_all2 fits HEADER (header_values x)"
    using assms by (simp add: sent_ok_def header_values_def HEADER_def)
  show "list_all2 fits (HEADER @ packet_layout (s_packet x)) (header_values x @ packet_values (s_packet x))"
    using assms by (intro list_all2_appendI h) (simp add: sent_ok_def)
qed

lemma length_sent_bytes: "sent_ok x \<Longrightarrow> length (sent_bytes x) = sent_length x"
  using length_write_fields [OF sent_fits(2)] by (simp add: sent_bytes_def sent_length_def layout_size_def layouts)

lemma level_of_values [simp]: "level_of (level_values l) = l"
  by (simp add: level_of_def level_values_def)

lemma length_level_bytes [simp]: "list_all2 fits DEPTH_LEVEL (level_values l) \<Longrightarrow> length (level_bytes l) = 20"
  using length_write_fields [of DEPTH_LEVEL "level_values l"] by (simp add: level_bytes_def layout_sizes)

lemma depth_from_levels:
  "\<forall>l \<in> set levels. list_all2 fits DEPTH_LEVEL (level_values l) \<Longrightarrow>
   depth_from (pre @ concat (map level_bytes levels)) (length pre) = Inr levels"
proof (induction levels arbitrary: pre)
  case Nil
  then show ?case by (simp add: depth_from.simps)
next
  case (Cons l levels)
  let ?raw = "pre @ level_bytes l @ concat (map level_bytes levels)"
  have "unpack_from DEPTH_LEVEL ?raw (length pre) = Inr (level_values l)"
    using unpack_write [of DEPTH_LEVEL "level_values l" "concat (map level_bytes levels)"] Cons.prems
    by (subst unpack_drop) (simp_all add: level_bytes_def)
  moreover have "depth_from ?raw (length pre + 20) = Inr levels"
    using Cons.IH [of "pre @ level_bytes l"] Cons.prems by simp
  ultimately show ?case using Cons.prems by (subst depth_from.simps) (simp add: layout_sizes)
qed

lemma unpack_sent:
  assumes "sent_ok x"
  shows "unpack_from HEADER (sent_bytes x @ rest) 0 = Inr (header_values x)"
    "unpack_from (HEADER @ packet_layout (s_packet x)) (sent_bytes x) 0 = Inr (header_values x @ packet_values (s_packet x))"
    "layout_size (HEADER @ packet_layout (s_packet x)) \<le> length (sent_bytes x)"
  using unpack_write [OF sent_fits(1) [OF assms]] unpack_write [OF sent_fits(2) [OF assms]]
    write_fields_append [OF sent_fits(1) [OF assms]] length_write_fields [OF sent_fits(2) [OF assms]]
  by (simp_all add: sent_bytes_def)

lemma body_sent:
  "sent_ok x \<Longrightarrow> layout = HEADER @ packet_layout (s_packet x) \<Longrightarrow>
   body kind layout (sent_bytes x) f = f (header_values x @ packet_values (s_packet x))"
  using unpack_sent(2,3) [of x] by (simp add: body_def)

lemma full_values_sent:
  assumes "sent_ok x" "s_packet x = FullQuote ltp ltq ltt avg volume sell buy oi oih oil op cl hi lo levels"
  shows "full_values (header_values x @ packet_values (s_packet x)) = Inr (packet_fields (s_packet x))"
proof -
  have "\<forall>l \<in> set levels. list_all2 fits DEPTH_LEVEL (level_values l)" "length levels = 5"
    using assms by (simp_all add: sent_ok_def)
  then have "depth_from (concat (map level_bytes levels)) 0 = Inr levels" "levels \<noteq> []"
    using depth_from_levels [of levels "[]"] by auto
  then show ?thesis
    by (simp add: assms(2) full_values_def header_values_def quote_values_def int_at_def float_at_def split: list.splits)
qed

lemma decode_frame_sent:
  assumes "sent_ok x"
  shows "decode_frame (sent_bytes x) = Inr (reported x)"
proof -
  have "decode_body (packet_code (s_packet x)) (sent_bytes x) = Inr (packet_fields (s_packet x))"
    using assms full_values_sent [OF assms] body_sent [OF assms]
    by (cases "s_packet x")
      (simp_all add: decode_body_def TICKER_def QUOTE_def OPEN_INTEREST_def FULL_def DISCONNECT_def header_values_def
        int_at_def float_at_def quote_values_def sent_ok_def)
  then show ?thesis
    using unpack_sent(1) [OF assms, of "[]"]
    by (simp add: decode_frame_def header_values_def base_packet_def int_at_def reported_def)
qed

lemma decode_from_sent:
  assumes "\<forall>x \<in> set xs. sent_ok x"
  shows "decode_from (pre @ concat (map sent_bytes xs)) (length pre) = Inr (map reported xs)"
  using assms
proof (induction xs arbitrary: pre)
  case Nil
  then show ?case by (simp add: decode_from.simps)
next
  case (Cons x xs)
  then have x: "sent_ok x" by simp
  let ?rest = "concat (map sent_bytes xs)"
  let ?data = "pre @ sent_bytes x @ ?rest"
  have n: "length (sent_bytes x) = sent_length x" "8 \<le> sent_length x"
    using length_sent_bytes [OF x] by (simp_all add: sent_length_def)
  have u: "unpack_from HEADER ?data (length pre) = Inr (header_values x)"
    using unpack_sent(1) [OF x, of ?rest] by (subst unpack_drop) simp_all
  have cut: "slice ?data (length pre) (length pre + sent_length x) = sent_bytes x"
    using n by (simp add: slice_def)
  have later: "decode_from ?data (length pre + sent_length x) = Inr (map reported xs)"
    using Cons.IH [of "pre @ sent_bytes x"] Cons.prems n by simp
  have "header_values x ! 1 = VInt (int (sent_length x))" by (simp add: header_values_def)
  then have "decode_from ?data (length pre) = Inr (reported x # map reported xs)"
    using n u cut later decode_frame_sent [OF x]
    by (subst decode_from.simps) (simp add: layout_sizes Let_def cong: sum.case_cong)
  then show ?case by simp
qed

text \<open>
  C32. A message is read back as it was sent.  The bytes of any sequence of well-formed packets, written
  one after the other, ticker, quote, open interest, previous close, full with its five levels of depth,
  disconnect or a code the decoder does not know, decode to exactly these packets in their order, with
  every field at its own place, whatever bytes pad a packet at its end.
\<close>

theorem frames_round_trip:
  assumes "\<forall>x \<in> set xs. sent_ok x"
  shows "decode_dhan_frames (concat (map sent_bytes xs)) = Inr (map reported xs)"
  using decode_from_sent [OF assms, of "[]"] by (simp add: decode_dhan_frames_def)

definition ex_sent :: "feed_packet \<Rightarrow> sent_packet" where
  "ex_sent p = \<lparr>s_exchange = 1, s_security = 1594, s_packet = p, s_trailer = []\<rparr>"

lemma frames_round_trip_witness:
  "decode_dhan_frames (concat (map sent_bytes [ex_sent (Ticker 0x42C80000 7), ex_sent (Disconnect 806)])) =
     Inr [reported (ex_sent (Ticker 0x42C80000 7)), reported (ex_sent (Disconnect 806))]"
  using frames_round_trip [of "[ex_sent (Ticker 0x42C80000 7), ex_sent (Disconnect 806)]"]
  by (simp add: sent_ok_def sent_length_def layout_size_def ex_sent_def)

end
