(* ===== verification/MarketWorkerProps.thy ===== *)
theory MarketWorkerProps
  imports MarketWorker DhanFrameProps Scenario
begin

text \<open>From the bytes of a feed message to the market event of the platform.\<close>

section \<open>Payload values\<close>

lemma from_timestamp_seconds:
  assumes "0 \<le> n" "n < 2 ^ 32"
  shows "from_timestamp (of_int n) = Inr (n * 1000000)"
proof -
  have "of_int n < (2 ^ 63 :: rat)" using assms(2) by (simp add: of_int_less_iff [where 'a = rat, of n "2 ^ 63", simplified])
  then show ?thesis using assms
    by (simp add: from_timestamp_def truncate_rat_def fmul_def round_half_even_def)
qed

text \<open>The epoch seconds of a packet, which are not zero, are read as seconds.\<close>

lemma payload_timestamp_seconds:
  assumes "0 < n" "n < 2 ^ 32"
  shows "payload_timestamp now (JInt n) = Inr (n * 1000000)"
proof -
  have "float_of_int n = of_int n" using assms by (intro float_of_int_exact) simp
  moreover have "\<not> 10000000000 < (of_int n :: rat)"
    using assms(2) of_int_less_iff [where 'a = rat, of 10000000000 n] by simp
  ultimately show ?thesis using from_timestamp_seconds [of n] assms by (simp add: payload_timestamp_def)
qed

lemma payload_number_int:
  "\<lbrakk>jfield fs name = JInt n; 0 \<le> n; n < 2 ^ 32\<rbrakk> \<Longrightarrow> payload_number fs (name # names) = Inr (Some (of_int n))"
  by (simp add: Let_def float_of_int_exact)

lemma payload_number_float:
  "jfield fs name = JFloat x \<Longrightarrow> payload_number fs (name # names) = Inr (Some x)"
  by (simp add: Let_def)

lemmas payload_values = payload_timestamp_seconds payload_number_int payload_number_float

text \<open>The quote of a quote packet after an open-interest packet.\<close>

definition merged_quote ::
  "instrument \<Rightarrow> int \<Rightarrow> instant \<Rightarrow> pyfloat \<Rightarrow> int \<Rightarrow> int \<Rightarrow> int \<Rightarrow> pyfloat \<Rightarrow> pyfloat \<Rightarrow> pyfloat \<Rightarrow> pyfloat \<Rightarrow> int \<Rightarrow> quote" where
  "merged_quote ins n now ltp ltq ltt volume op cl hi lo oi =
     (quote_frame ins ''DHAN'' ''quote'' n now)\<lparr>q_exchange_timestamp := ltt * 1000000, q_ltp := ltp,
       q_last_quantity := Some (of_int ltq), q_open := Some op, q_high := Some hi, q_low := Some lo,
       q_previous_close := Some cl, q_volume := Some (of_int volume), q_open_interest := Some (of_int oi),
       q_bid := None, q_ask := None\<rparr>"

definition oi_packet :: "int \<Rightarrow> int \<Rightarrow> int \<Rightarrow> sent_packet" where
  "oi_packet exchange security oi =
     \<lparr>s_exchange = exchange, s_security = security, s_packet = OpenInterest oi, s_trailer = []\<rparr>"

lemma merged_normalizes:
  assumes "0 < ltt" "ltt < 2 ^ 32" "0 \<le> ltq" "ltq < 2 ^ 32" "0 \<le> volume" "volume < 2 ^ 32" "0 \<le> oi" "oi < 2 ^ 32"
    "0 < ltp" "0 \<le> op" "0 \<le> cl" "0 \<le> hi" "0 \<le> lo" "0 \<le> n"
    "jfield fs ''LTP'' = JFloat ltp" "jfield fs ''LTQ'' = JInt ltq" "jfield fs ''LTT'' = JInt ltt"
    "jfield fs ''volume'' = JInt volume" "jfield fs ''open'' = JFloat op" "jfield fs ''close'' = JFloat cl"
    "jfield fs ''high'' = JFloat hi" "jfield fs ''low'' = JFloat lo" "jfield fs ''OI'' = JInt oi"
    "jfield fs ''bid'' = JNull" "jfield fs ''ask'' = JNull" "jfield fs ''depth'' = JNull"
  shows "dhan_normalize now ins fs n = Inr (merged_quote ins n now ltp ltq ltt volume op cl hi lo oi)"
proof -
  have "get_or fs ''LTP'' j = JFloat ltp" for j
    using assms(15) by (simp add: get_or_def jfield_def or_else_def split: option.splits)
  moreover have "payload_timestamp now (jor (jfield fs ''LTT'') k) = Inr (ltt * 1000000)" for k
    using assms by (simp add: jor_def payload_timestamp_seconds)
  moreover have "quote_valid (merged_quote ins n now ltp ltq ltt volume op cl hi lo oi)"
    using assms by (simp add: quote_valid_def merged_quote_def quote_frame_def ge_zero_def)
  ultimately show ?thesis
    using assms by (simp add: dhan_normalize_def payload_values Let_def normalized_quote_def merged_quote_def)
qed

section \<open>A message\<close>

text \<open>A quote packet of the exchange, whose prices are finite.\<close>

definition quote_packet ::
  "int \<Rightarrow> int \<Rightarrow> 32 word \<Rightarrow> int \<Rightarrow> int \<Rightarrow> 32 word \<Rightarrow> int \<Rightarrow> int \<Rightarrow> int \<Rightarrow> 32 word \<Rightarrow> 32 word \<Rightarrow> 32 word \<Rightarrow> 32 word
   \<Rightarrow> sent_packet" where
  "quote_packet exchange security ltp ltq ltt avg volume sell buy op cl hi lo =
     \<lparr>s_exchange = exchange, s_security = security,
      s_packet = FeedQuote ltp ltq ltt avg volume sell buy op cl hi lo, s_trailer = []\<rparr>"

lemma merged_payload:
  assumes "float32 ltp = Some a" "float32 avg = Some v" "float32 op = Some o1" "float32 cl = Some c1"
    "float32 hi = Some h1" "float32 lo = Some l1"
  shows "packet_json (dict_update (dict_update [] (reported (oi_packet e sec oi)))
      (reported (quote_packet e sec ltp ltq ltt avg volume sell buy op cl hi lo))) =
    Some [(''response_code'', JInt 4), (''message_length'', JInt 50), (''exchange_segment'', JInt e),
      (''security_id'', JStr (str_of_int sec)), (''OI'', JInt oi), (''LTP'', JFloat a), (''LTQ'', JInt ltq),
      (''LTT'', JInt ltt), (''average_price'', JFloat v), (''volume'', JInt volume),
      (''total_sell_quantity'', JInt sell), (''total_buy_quantity'', JInt buy), (''open'', JFloat o1),
      (''close'', JFloat c1), (''high'', JFloat h1), (''low'', JFloat l1)]"
  using assms
  by (simp add: packet_json_def dict_update_def reported_def oi_packet_def quote_packet_def sent_length_def layout_size_def)

lemma reported_key:
  "packet_key (reported (oi_packet e sec oi)) = (e, str_of_int sec)"
  "packet_key (reported (quote_packet e sec ltp ltq ltt avg volume sell buy op cl hi lo)) = (e, str_of_int sec)"
  "packet_int (reported (oi_packet e sec oi)) ''response_code'' = 5"
  "packet_int (reported (quote_packet e sec ltp ltq ltt avg volume sell buy op cl hi lo)) ''response_code'' = 4"
  by (simp_all add: packet_key_def packet_int_def reported_def oi_packet_def quote_packet_def)

text \<open>The ranges of the integers of a well-formed quote packet.\<close>

lemma sent_ranges:
  "sent_ok (oi_packet e sec oi) \<Longrightarrow> 0 \<le> oi \<and> oi < 2 ^ 32"
  "sent_ok (quote_packet e sec ltp ltq ltt avg volume sell buy op cl hi lo) \<Longrightarrow>
     0 \<le> ltq \<and> ltq < 2 ^ 32 \<and> 0 \<le> ltt \<and> ltt < 2 ^ 32 \<and> 0 \<le> volume \<and> volume < 2 ^ 32"
  by (auto simp: sent_ok_def oi_packet_def quote_packet_def)

lemma handle_merged:
  assumes "float32 ltp = Some a" "float32 avg = Some v" "float32 op = Some o1" "float32 cl = Some c1"
    "float32 hi = Some h1" "float32 lo = Some l1" "0 < a" "0 \<le> o1" "0 \<le> c1" "0 \<le> h1" "0 \<le> l1" "0 < ltt"
    "sent_ok (oi_packet e sec oi)" "sent_ok (quote_packet e sec ltp ltq ltt avg volume sell buy op cl hi lo)"
    "0 \<le> mw_sequences w (uid, sub_instrument_id u)"
  shows "feed_callback other cfg ns uid u (dict_update (dict_update [] (reported (oi_packet e sec oi)))
      (reported (quote_packet e sec ltp ltq ltt avg volume sell buy op cl hi lo))) w =
    (let n = mw_sequences w (uid, sub_instrument_id u) + 1; now = clock (mw_session w);
         q = merged_quote (sub_instrument u) n now a ltq ltt volume o1 c1 h1 l1 oi
     in take_quote cfg ns uid q (w\<lparr>mw_sequences := (mw_sequences w)((uid, sub_instrument_id u) := n),
          mw_bus := publish now uid q (mw_bus w)\<rparr>))"
proof -
  have "dhan_normalize now ins [(''response_code'', JInt 4), (''message_length'', JInt 50),
      (''exchange_segment'', JInt e), (''security_id'', JStr (str_of_int sec)), (''OI'', JInt oi), (''LTP'', JFloat a),
      (''LTQ'', JInt ltq), (''LTT'', JInt ltt), (''average_price'', JFloat v), (''volume'', JInt volume),
      (''total_sell_quantity'', JInt sell), (''total_buy_quantity'', JInt buy), (''open'', JFloat o1),
      (''close'', JFloat c1), (''high'', JFloat h1), (''low'', JFloat l1)] n =
    Inr (merged_quote ins n now a ltq ltt volume o1 c1 h1 l1 oi)" if "0 \<le> n" for n now ins
    using assms that sent_ranges [of e sec]
    by (intro merged_normalizes) (auto simp: jfield_def or_else_def)
  with assms(15) show ?thesis
    by (simp add: feed_callback_def merged_payload [OF assms(1-6)] handle_dhan_packet_def next_sequence_def Let_def)
qed

section \<open>Properties\<close>

text \<open>
  C36. A message of the broker with the open interest and a quote of a subscribed instrument becomes one market
  event of the platform.  The quote has the next sequence number of the user and instrument, the last price, the
  day's prices and the volume of the frame, its trade time in seconds, and the open interest of the frame before;
  it is the latest quote on the bus, and the candles and the database change as they do on that quote.
\<close>

theorem feed_message_becomes_a_market_event:
  assumes "sent_ok (oi_packet e sec oi)" "sent_ok (quote_packet e sec ltp ltq ltt avg volume sell buy op cl hi lo)"
    "float32 ltp = Some a" "float32 avg = Some v" "float32 op = Some o1" "float32 cl = Some c1"
    "float32 hi = Some h1" "float32 lo = Some l1" "0 < a" "0 \<le> o1" "0 \<le> c1" "0 \<le> h1" "0 \<le> l1" "0 < ltt"
    "map_of active (e, str_of_int sec) = Some u" "0 \<le> mw_sequences w (uid, sub_instrument_id u)"
    "handle_message (feed_callback other cfg ns uid) active (sent_bytes (oi_packet e sec oi) @
       sent_bytes (quote_packet e sec ltp ltq ltt avg volume sell buy op cl hi lo)) [] w = (r, partials, w')"
    "q = merged_quote (sub_instrument u) (mw_sequences w (uid, sub_instrument_id u) + 1) (clock (mw_session w))
       a ltq ltt volume o1 c1 h1 l1 oi"
  shows "latest (mw_bus w') uid [i_id (sub_instrument u)] = [q] \<and>
     mw_sequences w' (uid, sub_instrument_id u) = mw_sequences w (uid, sub_instrument_id u) + 1 \<and>
     (mw_volumes w', mw_session w') = platform_step wd cfg ns (MarketQuote uid q) (mw_volumes w, mw_session w)"
proof -
  let ?x = "oi_packet e sec oi" and ?y = "quote_packet e sec ltp ltq ltt avg volume sell buy op cl hi lo"
  have "decode_dhan_frames (sent_bytes ?x @ sent_bytes ?y) = Inr [reported ?x, reported ?y]"
    using decode_from_sent [of "[?x, ?y]" "[]"] assms(1,2) by (simp add: decode_dhan_frames_def)
  then obtain w1 where "take_quote cfg ns uid q w1 = (r, w')" "mw_bus w1 = publish (clock (mw_session w)) uid q (mw_bus w)"
    "mw_sequences w1 (uid, sub_instrument_id u) = mw_sequences w (uid, sub_instrument_id u) + 1"
    "mw_volumes w1 = mw_volumes w" "mw_session w1 = mw_session w"
    using assms(17) handle_merged [OF assms(3-14) assms(1,2,16), of other cfg ns] assms(15,18)
    by (auto simp: handle_message_def reported_key or_else_def Let_def split: prod.splits sum.splits)
  with take_quote_received [of cfg ns uid q w1 r w'] show ?thesis
    by (simp add: latest_def publish_def publish_health_def deliver_def Let_def assms(18) merged_quote_def quote_frame_def List.map_filter_def)
qed

definition ex_subscription :: dhan_subscription where
  "ex_subscription = \<lparr>sub_instrument_id = ''ins'', sub_segment = ''NSE_EQ'', sub_code = 1,
     sub_security_id = ''1594'', sub_instrument = ex_instrument\<rparr>"

definition ex_market_worker :: market_worker where
  "ex_market_worker = \<lparr>mw_sequences = (\<lambda>k. 0), mw_bus = empty_bus, mw_volumes = Map.empty, mw_session = ex_session\<rparr>"

definition ex_oi :: sent_packet where "ex_oi = oi_packet 1 1594 900"

definition ex_day_quote :: sent_packet where
  "ex_day_quote = quote_packet 1 1594 0x42C80000 5 1700000000 0x42C80000 4000 10 20 0x42C80000 0x42C80000
     0x42CA0000 0x42C60000"

definition ex_after_message :: "(exn + unit) \<times> partial_packets \<times> market_worker" where
  "ex_after_message = handle_message (feed_callback (\<lambda>u p w. (Inr (), w)) paper_settings [60] ''u'')
     (keyed [ex_subscription]) (sent_bytes ex_oi @ sent_bytes ex_day_quote) [] ex_market_worker"

definition ex_day_event :: quote where
  "ex_day_event = merged_quote ex_instrument 1 0 100 5 1700000000 4000 100 100 101 99 900"

lemma feed_message_becomes_a_market_event_witness:
  "latest (mw_bus (snd (snd ex_after_message))) ''u'' [''ins''] = [ex_day_event] \<and>
   mw_sequences (snd (snd ex_after_message)) (''u'', ''ins'') = 1 \<and>
   (mw_volumes (snd (snd ex_after_message)), mw_session (snd (snd ex_after_message))) =
     platform_step (ex_world NoReply NoReply) paper_settings [60] (MarketQuote ''u'' ex_day_event)
       (Map.empty, ex_session)"
proof -
  obtain r ps w' where e: "ex_after_message = (r, ps, w')" by (metis prod.exhaust)
  have f: "float32 0x42C80000 = Some 100" "float32 0x42CA0000 = Some 101" "float32 0x42C60000 = Some 99"
    by code_simp+
  have ok: "sent_ok ex_oi" "sent_ok ex_day_quote"
    by (simp_all add: sent_ok_def ex_oi_def ex_day_quote_def oi_packet_def quote_packet_def sent_length_def layout_size_def)
  have u: "map_of (keyed [ex_subscription]) (1, str_of_int 1594) = Some ex_subscription" by code_simp
  show ?thesis
    using feed_message_becomes_a_market_event [OF ok [unfolded ex_oi_def ex_day_quote_def] f(1) f(1) f(1) f(1) f(2) f(3)
        _ _ _ _ _ _ u _ e [unfolded ex_after_message_def ex_oi_def ex_day_quote_def] refl, of "ex_world NoReply NoReply"]
    by (simp add: e ex_day_event_def ex_subscription_def ex_market_worker_def ex_session_def ex_instrument_def)
qed

end
