(* ===== verification/BusProps.thy ===== *)
theory BusProps
  imports MarketBus Scenario "HOL-Library.Sublist"
begin

text \<open>
  What the bus promises a listener: a run of the bus is any sequence of its operations, and the listener's
  quotes are compared with the log of what was published for its user.
\<close>

section \<open>Runs of the bus\<close>

datatype bus_event =
    Publish instant string quote
  | Listen string nat
  | NextQuote string nat
  | StopListening string nat
  | ReplaceSubscriptions string string "string list"
  | DisconnectClient string string
  | FeedReport instant string "string option" "int option" "instant option" "instant option" "string option" int int

text \<open>One operation; with it the quotes that the listener \<open>k\<close> has received so far.\<close>

fun bus_step :: "string \<times> nat \<Rightarrow> bus_event \<Rightarrow> bus \<times> quote list \<Rightarrow> bus \<times> quote list" where
  "bus_step k (Publish now uid q) (b, seen) = (publish now uid q b, seen)"
| "bus_step k (Listen uid l) (b, seen) = (listen uid l b, seen)"
| "bus_step k (NextQuote uid l) (b, seen) =
     (case next_quote uid l b of (r, b') \<Rightarrow> (b', if (uid, l) = k then seen @ (case r of None \<Rightarrow> [] | Some q \<Rightarrow> [q]) else seen))"
| "bus_step k (StopListening uid l) (b, seen) = (stop_listening uid l b, seen)"
| "bus_step k (ReplaceSubscriptions uid c iids) (b, seen) = (replace_subscriptions uid c iids b, seen)"
| "bus_step k (DisconnectClient uid c) (b, seen) = (disconnect_client uid c b, seen)"
| "bus_step k (FeedReport now uid st n con dis err rc de) (b, seen) =
     (update_feed_health now uid st n con dis err rc de b, seen)"

definition bus_run :: "string \<times> nat \<Rightarrow> bus_event list \<Rightarrow> bus \<times> quote list \<Rightarrow> bus \<times> quote list" where
  "bus_run k evs st = fold (bus_step k) evs st"

text \<open>The log: the quotes a step publishes for a user.\<close>

fun step_published :: "string \<Rightarrow> bus_event \<Rightarrow> quote list" where
  "step_published uid (Publish now u q) = (if u = uid then [q] else [])"
| "step_published uid _ = []"

definition published :: "string \<Rightarrow> bus_event list \<Rightarrow> quote list" where
  "published uid evs = concat (map (step_published uid) evs)"

fun opens_or_closes :: "string \<times> nat \<Rightarrow> bus_event \<Rightarrow> bool" where
  "opens_or_closes k (Listen uid l) \<longleftrightarrow> (uid, l) = k"
| "opens_or_closes k (StopListening uid l) \<longleftrightarrow> (uid, l) = k"
| "opens_or_closes k _ \<longleftrightarrow> False"

section \<open>The listener and the hist\<close>

text \<open>
  The abstract listener: it has received a part of the log in its order, and still has the end of the log
  before it, at most \<open>queue_size\<close> quotes; nothing is missing while the log is not longer than that.
\<close>

definition follows :: "quote list \<Rightarrow> quote list \<Rightarrow> quote list \<Rightarrow> bool" where
  "follows hist seen queue \<longleftrightarrow>
     subseq (seen @ queue) hist \<and> suffix queue hist \<and> length queue \<le> queue_size \<and>
     (length hist \<le> queue_size \<longrightarrow> seen @ queue = hist)"

lemma follows_start: "follows [] [] []"
  by (simp add: follows_def)

lemma follows_take: "follows hist seen (q # queue) \<Longrightarrow> follows hist (seen @ [q]) queue"
  by (auto simp: follows_def suffix_ConsD)

lemma follows_put:
  assumes "follows hist seen queue"
  shows "follows (hist @ [q]) seen (put_nowait q queue)"
proof -
  let ?kept = "if length queue = queue_size then tl queue else queue"
  note old = assms [unfolded follows_def]
  have kept: "suffix ?kept queue" by (simp add: suffix_tl)
  with old have rest: "suffix ?kept hist" by (blast intro: suffix_order.trans)
  have "subseq (seen @ ?kept) (seen @ queue)" using suffix_imp_subseq [OF kept] by (simp add: subseq_append')
  with old have sub: "subseq (seen @ ?kept) hist" by (blast intro: subseq_order.trans)
  have whole: "seen @ queue = hist" if "length hist < queue_size" using assms that by (simp add: follows_def)
  have "seen @ ?kept = hist" if short: "length hist < queue_size"
  proof -
    have "length (seen @ queue) = length hist" using whole [OF short] by (rule arg_cong)
    with short have "length queue \<noteq> queue_size" by simp
    then show ?thesis using whole [OF short] by simp
  qed
  then have "seen @ ?kept @ [q] = hist @ [q]" if "length (hist @ [q]) \<le> queue_size" using that by simp
  moreover have "subseq (seen @ ?kept @ [q]) (hist @ [q])" using sub by (simp flip: append_assoc)
  moreover have "suffix (?kept @ [q]) (hist @ [q])" using rest by simp
  moreover have "length (?kept @ [q]) \<le> queue_size" using old by (auto simp: queue_size_def)
  ultimately show ?thesis by (simp only: follows_def put_nowait_def append_assoc) blast
qed

lemma queue_of_merge [simp]: "bus_queues (merge_health uid f r e t b) = bus_queues b"
  by (simp add: merge_health_def Let_def)

lemma follows_step:
  assumes "bus_queues b (uid, l) = Some queue" "follows hist seen queue" "\<not> opens_or_closes (uid, l) ev"
    "bus_step (uid, l) ev (b, seen) = (b', seen')"
  shows "\<exists>queue'. bus_queues b' (uid, l) = Some queue' \<and> follows (hist @ step_published uid ev) seen' queue'"
proof (cases ev)
  case (NextQuote u n)
  show ?thesis
  proof (cases "(u, n) = (uid, l)")
    case True
    then show ?thesis using assms NextQuote follows_take [of hist seen]
      by (auto simp: next_quote_def split: list.splits)
  next
    case False
    then show ?thesis using assms NextQuote
      by (auto simp: next_quote_def split: prod.splits list.splits option.splits if_splits)
  qed
qed (use assms follows_put [OF assms(2)] in \<open>auto simp: publish_def publish_health_def deliver_def Let_def listen_def stop_listening_def
      replace_subscriptions_def disconnect_client_def update_feed_health_def\<close>)

lemma follows_run:
  "bus_queues b (uid, l) = Some queue \<Longrightarrow> follows hist seen queue \<Longrightarrow>
   \<forall>ev \<in> set evs. \<not> opens_or_closes (uid, l) ev \<Longrightarrow> bus_run (uid, l) evs (b, seen) = (b', seen') \<Longrightarrow>
   \<exists>queue'. bus_queues b' (uid, l) = Some queue' \<and> follows (hist @ published uid evs) seen' queue'"
proof (induction evs arbitrary: b seen queue hist)
  case Nil
  then show ?case by (simp add: bus_run_def published_def)
next
  case (Cons ev evs)
  obtain b1 seen1 where e: "bus_step (uid, l) ev (b, seen) = (b1, seen1)" by (cases "bus_step (uid, l) ev (b, seen)")
  obtain queue1 where "bus_queues b1 (uid, l) = Some queue1" "follows (hist @ step_published uid ev) seen1 queue1"
    using follows_step [OF Cons.prems(1,2) _ e] Cons.prems(3) by auto
  from Cons.IH [OF this] Cons.prems(3,4) e show ?case by (simp add: bus_run_def published_def)
qed

section \<open>Properties\<close>

text \<open>
  C37. A listener that joins the bus receives quotes of its user only, each once and in the order they were
  published; what it has not yet taken is the end of what was published, at most 256 quotes, so that a slow
  listener loses the oldest of them first and none at all while no more than 256 were published.  This holds
  for every interleaving of publishing, listening, subscribing and reporting by anyone.
\<close>

theorem listener_follows_the_published_quotes:
  assumes "\<forall>ev \<in> set evs. \<not> opens_or_closes (uid, l) ev"
    "bus_run (uid, l) evs (listen uid l b, []) = (b', seen)"
  shows "\<exists>queue. bus_queues b' (uid, l) = Some queue \<and> subseq (seen @ queue) (published uid evs) \<and>
     suffix queue (published uid evs) \<and> length queue \<le> 256 \<and>
     (length (published uid evs) \<le> 256 \<longrightarrow> seen @ queue = published uid evs)"
  using follows_run [of "listen uid l b" uid l "[]" "[]" "[]" evs b' seen] assms follows_start
  by (auto simp: listen_def follows_def queue_size_def)

definition ex_bus_events :: "bus_event list" where
  "ex_bus_events = [Publish 0 ''u'' (ex_quote 100), ReplaceSubscriptions ''u'' ''tab'' [''ins''], NextQuote ''u'' 1,
     Publish 0 ''v'' (ex_quote 200), Listen ''u'' 2, Publish 0 ''u'' (ex_quote 101)]"

lemma listener_follows_the_published_quotes_witness:
  "\<exists>queue. bus_queues (fst (bus_run (''u'', 1) ex_bus_events (listen ''u'' 1 empty_bus, []))) (''u'', 1) = Some queue \<and>
     snd (bus_run (''u'', 1) ex_bus_events (listen ''u'' 1 empty_bus, [])) @ queue = [ex_quote 100, ex_quote 101]"
proof -
  have p: "published ''u'' ex_bus_events = [ex_quote 100, ex_quote 101]"
    by (simp add: published_def ex_bus_events_def)
  have "\<forall>ev \<in> set ex_bus_events. \<not> opens_or_closes (''u'', 1) ev" by (simp add: ex_bus_events_def)
  from listener_follows_the_published_quotes [OF this prod.collapse [symmetric], of empty_bus] show ?thesis
    unfolding p by fastforce
qed

end
