(* ===== verification/Security.thy ===== *)
theory Security
  imports Store
begin

text \<open>
  \<^verbatim>\<open>security.py\<close>: passwords, tokens, API keys and recovery codes.  Hashes, encryption, signed tokens and
  one-time passwords are third-party code or cryptography of the standard library, the fields of \<open>crypto\<close>; random
  texts are drawn from the stream of the session.
\<close>

section \<open>Cryptography\<close>

record claims =
  cl_sub :: string
  cl_sid :: string
  cl_role :: string
  cl_typ :: string
  cl_iat :: instant
  cl_exp :: instant

text \<open>
  SHA-256 and HMAC-SHA-256 as hexadecimal texts, Argon2 with its salt, Fernet with its key, JWT with its secret
  (\<open>cr_jwt_decode\<close> is \<open>None\<close> for any \<^verbatim>\<open>PyJWTError\<close>, among them an expired token), the texts of JSON values, and the test of a
  one-time password.  The random vector of an encryption is left out.
\<close>

record crypto =
  cr_sha256 :: "string \<Rightarrow> string"
  cr_hmac :: "string \<Rightarrow> string \<Rightarrow> string"
  cr_hash_password :: "string \<Rightarrow> string \<Rightarrow> string"
  cr_verify_password :: "string \<Rightarrow> string \<Rightarrow> exn + bool"
  cr_derive_key :: "string \<Rightarrow> string"
  cr_encrypt :: "string \<Rightarrow> string \<Rightarrow> string"
  cr_decrypt :: "string \<Rightarrow> string \<Rightarrow> exn + string"
  cr_jwt_encode :: "string \<Rightarrow> claims \<Rightarrow> string"
  cr_jwt_decode :: "string \<Rightarrow> instant \<Rightarrow> string \<Rightarrow> claims option"
  cr_dumps :: "json \<Rightarrow> string"
  cr_loads :: "string \<Rightarrow> exn + json"
  cr_totp :: "instant \<Rightarrow> string \<Rightarrow> string \<Rightarrow> bool"

section \<open>Passwords\<close>

definition validate_password :: "string \<Rightarrow> exn option" where
  "validate_password password =
     (if length password < 12 \<or> \<not> list_ex is_upper_char password \<or> \<not> list_ex is_lower_char password \<or>
         \<not> list_ex is_digit_char password \<or>
         \<not> list_ex (\<lambda>c. \<not> is_upper_char c \<and> \<not> is_lower_char c \<and> \<not> is_digit_char c) password
      then Some (PyError ''ValueError'') else None)"

text \<open>The wrong password and a hash that cannot be read are \<^verbatim>\<open>False\<close>; other errors are raised.\<close>

definition verify_password :: "crypto \<Rightarrow> string \<Rightarrow> string \<Rightarrow> exn + bool" where
  "verify_password cr value encoded =
     (case cr_verify_password cr encoded value of
        Inl e \<Rightarrow> if e \<in> {PyError ''VerifyMismatchError'', PyError ''InvalidHashError''} then Inr False else Inl e
      | Inr b \<Rightarrow> Inr b)"

section \<open>Encryption\<close>

definition fernet_key :: "crypto \<Rightarrow> settings \<Rightarrow> exn + string" where
  "fernet_key cr cfg =
     (case field_encryption_key cfg of
        Some (c # cs) \<Rightarrow> Inr (c # cs)
      | _ \<Rightarrow> if environment cfg \<in> {''development'', ''test''} then Inr (cr_derive_key cr (jwt_secret cfg))
             else Inl (PyError ''RuntimeError''))"

definition encrypt_text :: "crypto \<Rightarrow> settings \<Rightarrow> string \<Rightarrow> exn + string" where
  "encrypt_text cr cfg value = map_sum id (\<lambda>key. cr_encrypt cr key value) (fernet_key cr cfg)"

definition decrypt_text :: "crypto \<Rightarrow> settings \<Rightarrow> string \<Rightarrow> exn + string" where
  "decrypt_text cr cfg value =
     (case fernet_key cr cfg of
        Inl e \<Rightarrow> Inl e
      | Inr key \<Rightarrow>
          (case cr_decrypt cr key value of
             Inl e \<Rightarrow> Inl (if e = PyError ''InvalidToken'' then PyError ''ValueError'' else e)
           | Inr t \<Rightarrow> Inr t))"

definition encrypt_json :: "crypto \<Rightarrow> settings \<Rightarrow> json \<Rightarrow> exn + string" where
  "encrypt_json cr cfg v = encrypt_text cr cfg (cr_dumps cr v)"

definition decrypt_json :: "crypto \<Rightarrow> settings \<Rightarrow> string \<Rightarrow> exn + json" where
  "decrypt_json cr cfg value = and_then (decrypt_text cr cfg value) (cr_loads cr)"

section \<open>Tokens\<close>

definition create_access_token :: "crypto \<Rightarrow> settings \<Rightarrow> instant \<Rightarrow> string \<Rightarrow> string \<Rightarrow> string \<Rightarrow> string" where
  "create_access_token cr cfg now uid sid who =
     cr_jwt_encode cr (jwt_secret cfg) \<lparr>cl_sub = uid, cl_sid = sid, cl_role = who, cl_typ = ''access'', cl_iat = now,
       cl_exp = now + access_token_minutes cfg * 60000000\<rparr>"

definition decode_access_token :: "crypto \<Rightarrow> settings \<Rightarrow> instant \<Rightarrow> string \<Rightarrow> claims option" where
  "decode_access_token cr cfg now token =
     (case cr_jwt_decode cr (jwt_secret cfg) now token of
        None \<Rightarrow> None
      | Some c \<Rightarrow> if cl_typ c = ''access'' then Some c else None)"

text \<open>\<^verbatim>\<open>token.split(".", 1)\<close>: \<open>None\<close> when there is no dot.\<close>

definition split_dot :: "string \<Rightarrow> (string \<times> string) option" where
  "split_dot t =
     (case dropWhile (\<lambda>c. c \<noteq> CHR ''.'') t of
        [] \<Rightarrow> None
      | _ # rest \<Rightarrow> Some (takeWhile (\<lambda>c. c \<noteq> CHR ''.'') t, rest))"

text \<open>The refresh token of a session with a drawn secret, and what is stored of it.\<close>

definition new_refresh_token :: "crypto \<Rightarrow> string \<Rightarrow> string \<Rightarrow> string \<times> string" where
  "new_refresh_token cr sid secret = (sid @ ''.'' @ secret, cr_sha256 cr secret)"

definition new_one_time_token :: "crypto \<Rightarrow> string \<Rightarrow> string \<times> string" where
  "new_one_time_token cr raw = (raw, cr_sha256 cr raw)"

section \<open>API keys\<close>

definition key_prefix :: string where "key_prefix = ''gnk_live_''"

definition new_api_key :: "crypto \<Rightarrow> settings \<Rightarrow> string \<Rightarrow> string \<Rightarrow> string \<times> string \<times> string" where
  "new_api_key cr cfg public_id secret =
     (key_prefix @ public_id @ ''.'' @ secret, public_id, cr_hmac cr (api_key_pepper cfg) secret)"

definition verify_api_secret :: "crypto \<Rightarrow> settings \<Rightarrow> string \<Rightarrow> string \<Rightarrow> bool" where
  "verify_api_secret cr cfg secret expected \<longleftrightarrow> cr_hmac cr (api_key_pepper cfg) secret = expected"

section \<open>Recovery codes\<close>

definition new_recovery_codes :: "crypto \<Rightarrow> string list \<Rightarrow> string list \<times> string list" where
  "new_recovery_codes cr draws = (let codes = map py_upper draws in (codes, map (cr_sha256 cr) codes))"

definition consume_recovery_code :: "crypto \<Rightarrow> string \<Rightarrow> string list \<Rightarrow> string list option" where
  "consume_recovery_code cr code hashes =
     (let digest = cr_sha256 cr (py_upper code) in
      if digest \<notin> set hashes then None else Some (filter (\<lambda>h. h \<noteq> digest) hashes))"

lemma consumed_code_is_gone:
  "consume_recovery_code cr code hashes = Some rest \<Longrightarrow> consume_recovery_code cr code rest = None"
  by (auto simp: consume_recovery_code_def Let_def split: if_splits)

lemma split_dot_join:
  assumes "CHR ''.'' \<notin> set a"
  shows "split_dot (a @ CHR ''.'' # b) = Some (a, b)"
proof -
  have "takeWhile (\<lambda>c. c \<noteq> CHR ''.'') (a @ CHR ''.'' # b) = a" "dropWhile (\<lambda>c. c \<noteq> CHR ''.'') (a @ CHR ''.'' # b) = CHR ''.'' # b"
    using assms by (induction a) auto
  then show ?thesis by (simp add: split_dot_def)
qed

end
