(* ===== verification/Identity.thy ===== *)
theory Identity
  imports Security
begin

text \<open>
  \<^verbatim>\<open>dependencies.py\<close>: who a request comes from.  A request carries an API key or a bearer token; what it finds is
  the \<open>principal\<close> the endpoints take.  The rows of the identity tables are read as a query or \<^verbatim>\<open>db.get\<close> sees
  them, and written back by their keys.
\<close>

section \<open>Rows\<close>

definition find_user :: "db \<Rightarrow> string \<Rightarrow> user option" where
  "find_user d uid = List.find (\<lambda>u. u_id u = uid) (rows (t_users d))"

definition find_user_session :: "db \<Rightarrow> string \<Rightarrow> user_session option" where
  "find_user_session d sid = List.find (\<lambda>r. us_id r = sid) (rows (t_sessions (t_identity d)))"

definition find_key :: "db \<Rightarrow> string \<Rightarrow> api_key option" where
  "find_key d kid = List.find (\<lambda>k. ak_id k = kid) (rows (t_api_keys (t_identity d)))"

definition put_user :: "user \<Rightarrow> session \<Rightarrow> session" where
  "put_user u s = s\<lparr>cur := (cur s)\<lparr>t_users := put_row u_id u (t_users (cur s))\<rparr>\<rparr>"

definition on_identity :: "(identity_tables \<Rightarrow> identity_tables) \<Rightarrow> session \<Rightarrow> session" where
  "on_identity f s = s\<lparr>cur := (cur s)\<lparr>t_identity := f (t_identity (cur s))\<rparr>\<rparr>"

definition put_user_session :: "user_session \<Rightarrow> session \<Rightarrow> session" where
  "put_user_session r = on_identity (\<lambda>t. t\<lparr>t_sessions := put_row us_id r (t_sessions t)\<rparr>)"

definition put_key :: "api_key \<Rightarrow> session \<Rightarrow> session" where
  "put_key k = on_identity (\<lambda>t. t\<lparr>t_api_keys := put_row ak_id k (t_api_keys t)\<rparr>)"

definition put_one_time :: "one_time_token \<Rightarrow> session \<Rightarrow> session" where
  "put_one_time r = on_identity (\<lambda>t. t\<lparr>t_one_time_tokens := put_row ot_token_hash r (t_one_time_tokens t)\<rparr>)"

definition put_ticket :: "market_ws_ticket \<Rightarrow> session \<Rightarrow> session" where
  "put_ticket r = on_identity (\<lambda>t. t\<lparr>t_tickets := put_row wt_token_hash r (t_tickets t)\<rparr>)"

text \<open>\<^verbatim>\<open>update(UserSession).where(user_id, revoked_at is null, ...).values(revoked_at=now)\<close>.\<close>

definition revoke_sessions :: "(user_session \<Rightarrow> bool) \<Rightarrow> session \<Rightarrow> session" where
  "revoke_sessions P s =
     on_identity (\<lambda>t. t\<lparr>t_sessions := (t_sessions t)\<lparr>rows := map (\<lambda>r. if us_revoked_at r = None \<and> P r
       then r\<lparr>us_revoked_at := Some (clock s)\<rparr> else r) (rows (t_sessions t))\<rparr>\<rparr>) s"

section \<open>Steps of an operation\<close>

text \<open>A call and what follows when it does not raise; a flush; a test that raises.\<close>

definition sbind :: "(exn + 'a) \<times> session \<Rightarrow> ('a \<Rightarrow> session \<Rightarrow> (exn + 'b) \<times> session) \<Rightarrow> (exn + 'b) \<times> session" where
  "sbind called f = (case called of (Inl e, s) \<Rightarrow> (Inl e, s) | (Inr x, s) \<Rightarrow> f x s)"

definition flush_session :: "session \<Rightarrow> (exn + unit) \<times> session" where
  "flush_session s = (case flush (cur s) of Inl e \<Rightarrow> (Inl e, s) | Inr d \<Rightarrow> (Inr (), s\<lparr>cur := d\<rparr>))"

definition invalid_credentials :: exn where
  "invalid_credentials = HTTPException 401 ''Invalid credentials''"

section \<open>The principal\<close>

record principal =
  pn_user :: user
  pn_session_id :: "string option"
  pn_api_key_id :: "string option"
  pn_scopes :: "string list option"

definition drop_prefix :: "string \<Rightarrow> string \<Rightarrow> string" where
  "drop_prefix p t = (if take (length p) t = p then drop (length p) t else t)"

definition key_expired :: "instant \<Rightarrow> api_key \<Rightarrow> bool" where
  "key_expired now k \<longleftrightarrow>
     ak_status k = KeyACTIVE \<and> (case ak_expires_at k of None \<Rightarrow> False | Some t \<Rightarrow> t \<le> now)"

text \<open>An active key past its expiry is marked first, durably.\<close>

definition expire_key :: "api_key \<Rightarrow> session \<Rightarrow> (exn + api_key) \<times> session" where
  "expire_key k s =
     (if key_expired (clock s) k
      then let k' = k\<lparr>ak_status := KeyEXPIRED\<rparr> in commit_return k' (put_key k' s)
      else (Inr k, s))"

definition key_principal :: "crypto \<Rightarrow> settings \<Rightarrow> string list \<Rightarrow> string \<Rightarrow> api_key \<Rightarrow> session
   \<Rightarrow> (exn + principal) \<times> session" where
  "key_principal cr cfg scopes secret k s =
     (if ak_status k \<noteq> KeyACTIVE \<or> \<not> verify_api_secret cr cfg secret (ak_secret_hash k) then (Inl invalid_credentials, s)
      else if \<not> set scopes \<subseteq> set (ak_scopes k) then (Inl (HTTPException 403 ''Insufficient API key scope''), s)
      else case find_user (cur s) (ak_user_id k) of
        None \<Rightarrow> (Inl invalid_credentials, s)
      | Some u \<Rightarrow>
          if \<not> u_is_active u then (Inl invalid_credentials, s)
          else commit_return \<lparr>pn_user = u, pn_session_id = None, pn_api_key_id = Some (ak_id k),
                 pn_scopes = Some (ak_scopes k)\<rparr> (put_key (k\<lparr>ak_last_used_at := Some (clock s)\<rparr>) s))"

definition authenticate_key :: "crypto \<Rightarrow> settings \<Rightarrow> string list \<Rightarrow> string \<Rightarrow> session \<Rightarrow> (exn + principal) \<times> session" where
  "authenticate_key cr cfg scopes raw s =
     (case split_dot raw of
        None \<Rightarrow> (Inl invalid_credentials, s)
      | Some (pre, secret) \<Rightarrow>
          (case List.find (\<lambda>k. ak_public_id k = drop_prefix key_prefix pre) (rows (t_api_keys (t_identity (cur s)))) of
             None \<Rightarrow> (Inl invalid_credentials, s)
           | Some k \<Rightarrow> sbind (expire_key k s) (key_principal cr cfg scopes secret)))"

text \<open>A session that can be used: not revoked and not expired.\<close>

definition live_session :: "instant \<Rightarrow> user_session \<Rightarrow> bool" where
  "live_session now r \<longleftrightarrow> us_revoked_at r = None \<and> now < us_expires_at r"

definition authenticate_token :: "crypto \<Rightarrow> settings \<Rightarrow> string \<Rightarrow> session \<Rightarrow> (exn + principal) \<times> session" where
  "authenticate_token cr cfg token s =
     (case decode_access_token cr cfg (clock s) token of
        None \<Rightarrow> (Inl (HTTPException 401 ''Invalid or expired credentials''), s)
      | Some c \<Rightarrow>
          (case (find_user_session (cur s) (cl_sid c), find_user (cur s) (cl_sub c)) of
             (Some r, Some u) \<Rightarrow>
               if us_user_id r = cl_sub c \<and> live_session (clock s) r \<and> u_is_active u
               then commit_return \<lparr>pn_user = u, pn_session_id = Some (us_id r), pn_api_key_id = None, pn_scopes = None\<rparr>
                      (put_user_session (r\<lparr>us_last_seen_at := clock s\<rparr>) s)
               else (Inl (HTTPException 401 ''Session is expired or revoked''), s)
           | _ \<Rightarrow> (Inl (HTTPException 401 ''Session is expired or revoked''), s)))"

text \<open>The credentials of a request: the bearer token and the API key header.\<close>

type_synonym credentials = "string option \<times> string option"

definition get_principal ::
  "crypto \<Rightarrow> settings \<Rightarrow> string list \<Rightarrow> credentials \<Rightarrow> session \<Rightarrow> (exn + principal) \<times> session" where
  "get_principal cr cfg scopes creds s =
     (case creds of
        (_, Some (c # cs)) \<Rightarrow> authenticate_key cr cfg scopes (c # cs) s
      | (Some token, _) \<Rightarrow> authenticate_token cr cfg token s
      | (None, _) \<Rightarrow> (Inl (HTTPException 401 ''Authentication required''), s))"

definition require_session ::
  "crypto \<Rightarrow> settings \<Rightarrow> credentials \<Rightarrow> session \<Rightarrow> (exn + principal) \<times> session" where
  "require_session cr cfg creds s =
     sbind (get_principal cr cfg [] creds s) (\<lambda>p s.
       (if pn_session_id p = None then Inl (HTTPException 403 ''An interactive session is required'') else Inr p, s))"

definition require_admin :: "crypto \<Rightarrow> settings \<Rightarrow> credentials \<Rightarrow> session \<Rightarrow> (exn + user) \<times> session" where
  "require_admin cr cfg creds s =
     sbind (get_principal cr cfg [] creds s) (\<lambda>p s.
       (if pn_api_key_id p \<noteq> None
        then Inl (HTTPException 403 ''Administrative actions require an interactive session'')
        else if u_role (pn_user p) \<noteq> ADMIN then Inl (HTTPException 403 ''Administrator access required'')
        else Inr (pn_user p), s))"

end
