(* ===== verification/AuthApi.thy ===== *)
theory AuthApi
  imports Identity
begin

text \<open>
  \<^verbatim>\<open>routers/auth.py\<close>: registration, login with lockout and a second factor, the refresh of a session, and what
  ends sessions.  Each handler is what follows the rate limiter and the authentication of the request; whether the
  mail server accepts a message is an argument, and audit rows are not kept.
\<close>

section \<open>Steps\<close>

definition commit_raise_exn :: "exn \<Rightarrow> session \<Rightarrow> (exn + 'a) \<times> session" where
  "commit_raise_exn e s = sbind (commit s) (\<lambda>_ s. (Inl e, s))"

text \<open>The next \<open>n\<close> random texts.\<close>

definition draws :: "nat \<Rightarrow> session \<Rightarrow> string list \<times> session" where
  "draws n s = (map (uuids s) [drawn s..<drawn s + n], s\<lparr>drawn := drawn s + n\<rparr>)"

text \<open>\<^verbatim>\<open>mailer._send\<close>: nothing is sent, and nothing can fail, without a mail host.\<close>

definition mail_sent :: "settings \<Rightarrow> bool \<Rightarrow> bool" where
  "mail_sent cfg accepted \<longleftrightarrow> (case smtp_host cfg of None \<Rightarrow> True | Some host \<Rightarrow> host = [] \<or> accepted)"

definition shown :: "settings \<Rightarrow> string option \<Rightarrow> string option" where
  "shown cfg raw = (if expose_dev_tokens cfg then raw else None)"

definition normal_email :: "string \<Rightarrow> string" where
  "normal_email email = py_strip (py_lower email)"

definition user_by_email :: "db \<Rightarrow> string \<Rightarrow> user option" where
  "user_by_email d email = List.find (\<lambda>u. u_email u = email) (rows (t_users d))"

definition add_user :: "user \<Rightarrow> session \<Rightarrow> session" where
  "add_user u s = s\<lparr>cur := (cur s)\<lparr>t_users := insert_row u (t_users (cur s))\<rparr>\<rparr>"

definition add_session :: "user_session \<Rightarrow> session \<Rightarrow> session" where
  "add_session r = on_identity (\<lambda>t. t\<lparr>t_sessions := insert_row r (t_sessions t)\<rparr>)"

definition add_one_time :: "one_time_token \<Rightarrow> session \<Rightarrow> session" where
  "add_one_time r = on_identity (\<lambda>t. t\<lparr>t_one_time_tokens := insert_row r (t_one_time_tokens t)\<rparr>)"

section \<open>Sessions\<close>

record token_pair =
  tp_access :: string
  tp_refresh :: string
  tp_expires_in :: int

definition new_session :: "settings \<Rightarrow> string option \<Rightarrow> string option \<Rightarrow> user \<Rightarrow> session \<Rightarrow> user_session" where
  "new_session cfg agent host u s =
     \<lparr>us_id = fresh s, us_user_id = u_id u, us_refresh_token_hash = ''pending'',
      us_user_agent = Some (take 500 (or_else agent [])), us_ip_address = host,
      us_expires_at = clock s + refresh_token_days cfg * 86400000000, us_last_seen_at = clock s,
      us_revoked_at = None\<rparr>"

definition role_value :: "role \<Rightarrow> string" where
  "role_value r = (case r of ADMIN \<Rightarrow> ''ADMIN'' | RETAIL \<Rightarrow> ''RETAIL'')"

text \<open>\<^verbatim>\<open>TokenPair\<close> of a session whose refresh secret is drawn, and the session with its digest.\<close>

definition renew :: "crypto \<Rightarrow> settings \<Rightarrow> user \<Rightarrow> user_session \<Rightarrow> session \<Rightarrow> token_pair \<times> session" where
  "renew cr cfg u r s =
     (let (refresh_token, digest) = new_refresh_token cr (us_id r) (fresh s) in
      (\<lparr>tp_access = create_access_token cr cfg (clock s) (u_id u) (us_id r) (role_value (u_role u)),
        tp_refresh = refresh_token, tp_expires_in = access_token_minutes cfg * 60\<rparr>,
       put_user_session (r\<lparr>us_refresh_token_hash := digest\<rparr>) (draw s)))"

definition issue :: "crypto \<Rightarrow> settings \<Rightarrow> string option \<Rightarrow> string option \<Rightarrow> user \<Rightarrow> session
   \<Rightarrow> (exn + token_pair) \<times> session" where
  "issue cr cfg agent host u s =
     (let r = new_session cfg agent host u s in
      sbind (flush_session (add_session r (draw s))) (\<lambda>_ s.
        case renew cr cfg u r s of (pair, s) \<Rightarrow> (Inr pair, s)))"

section \<open>Registration\<close>

definition new_user :: "string \<Rightarrow> string \<Rightarrow> string \<Rightarrow> user" where
  "new_user uid email hashed =
     \<lparr>u_id = uid, u_email = email, u_password_hash = hashed, u_role = RETAIL, u_is_verified = False,
      u_is_active = True, u_mfa_enabled = False, u_mfa_secret_encrypted = None, u_recovery_code_hashes = [],
      u_failed_login_count = 0, u_locked_until = None\<rparr>"

definition one_time :: "crypto \<Rightarrow> string \<Rightarrow> string \<Rightarrow> instant \<Rightarrow> string \<Rightarrow> one_time_token" where
  "one_time cr uid purpose expires raw =
     \<lparr>ot_user_id = uid, ot_purpose = purpose, ot_token_hash = snd (new_one_time_token cr raw),
      ot_expires_at = expires, ot_used_at = None\<rparr>"

text \<open>The salt of the password, the id of the user and the token are drawn in this order.\<close>

definition register :: "crypto \<Rightarrow> settings \<Rightarrow> bool \<Rightarrow> string \<Rightarrow> string \<Rightarrow> session
   \<Rightarrow> (exn + string option) \<times> session" where
  "register cr cfg accepted email password s =
     (let mail = normal_email email in
      if user_by_email (cur s) mail \<noteq> None
      then (Inl (HTTPException 409 ''An account with this email already exists''), s)
      else if validate_password password \<noteq> None
      then (Inl (HTTPException 422 ''Password must be 12+ characters and include upper, lower, number, and symbol''), s)
      else
        let salted = draw s; u = new_user (fresh salted) mail (cr_hash_password cr (fresh s) password) in
        sbind (flush_session (add_user u (draw salted))) (\<lambda>_ s.
          let raw = fresh s;
              s = add_one_time (one_time cr (u_id u) ''VERIFY_EMAIL''
                    (clock s + verification_token_hours cfg * 3600000000) raw) (draw s)
          in if mail_sent cfg accepted then commit_return (shown cfg (Some raw)) s
             else (Inl (HTTPException 503 ''Verification email is temporarily unavailable. Please try again shortly.''),
                   rollback s)))"

text \<open>A token that is there, unused and not expired, with its user.\<close>

definition find_one_time :: "crypto \<Rightarrow> db \<Rightarrow> string \<Rightarrow> string \<Rightarrow> one_time_token option" where
  "find_one_time cr d purpose raw =
     List.find (\<lambda>r. ot_token_hash r = cr_sha256 cr raw \<and> ot_purpose r = purpose)
       (rows (t_one_time_tokens (t_identity d)))"

definition redeem :: "crypto \<Rightarrow> string \<Rightarrow> string \<Rightarrow> session \<Rightarrow> (one_time_token \<times> user option) option" where
  "redeem cr purpose raw s =
     (case find_one_time cr (cur s) purpose raw of
        None \<Rightarrow> None
      | Some r \<Rightarrow>
          if ot_used_at r \<noteq> None \<or> ot_expires_at r \<le> clock s then None
          else Some (r, find_user (cur s) (ot_user_id r)))"

definition used_now :: "one_time_token \<Rightarrow> session \<Rightarrow> session" where
  "used_now r s = put_one_time (r\<lparr>ot_used_at := Some (clock s)\<rparr>) s"

definition verify_email :: "crypto \<Rightarrow> string \<Rightarrow> session \<Rightarrow> (exn + unit) \<times> session" where
  "verify_email cr raw s =
     (case redeem cr ''VERIFY_EMAIL'' raw s of
        None \<Rightarrow> (Inl (HTTPException 400 ''Invalid or expired verification link''), s)
      | Some (r, None) \<Rightarrow> (Inl (PyError ''AttributeError''), s)
      | Some (r, Some u) \<Rightarrow> commit_return () (used_now r (put_user (u\<lparr>u_is_verified := True\<rparr>) s)))"

section \<open>Login\<close>

text \<open>The fifth wrong password in a row locks the account for a quarter of an hour.\<close>

definition failed_login :: "instant \<Rightarrow> user \<Rightarrow> user" where
  "failed_login now u =
     (let n = u_failed_login_count u + 1 in
      if 5 \<le> n then u\<lparr>u_locked_until := Some (now + 900000000), u_failed_login_count := 0\<rparr>
      else u\<lparr>u_failed_login_count := n\<rparr>)"

definition locked :: "instant \<Rightarrow> user \<Rightarrow> bool" where
  "locked now u \<longleftrightarrow> (case u_locked_until u of None \<Rightarrow> False | Some t \<Rightarrow> now < t)"

text \<open>\<^verbatim>\<open>decrypt_text\<close> of a column that may be null; the key is looked up first.\<close>

definition decrypt_column :: "crypto \<Rightarrow> settings \<Rightarrow> string option \<Rightarrow> exn + string" where
  "decrypt_column cr cfg value =
     (case (fernet_key cr cfg, value) of
        (Inl e, _) \<Rightarrow> Inl e
      | (Inr _, None) \<Rightarrow> Inl (PyError ''AttributeError'')
      | (Inr _, Some t) \<Rightarrow> decrypt_text cr cfg t)"

text \<open>
  The second factor: the user with the recovery codes that are left.  \<open>None\<close> is a code that is neither the one-time
  password nor a recovery code.
\<close>

definition second_factor :: "crypto \<Rightarrow> settings \<Rightarrow> instant \<Rightarrow> user \<Rightarrow> string option \<Rightarrow> exn + user option" where
  "second_factor cr cfg now u code =
     (if \<not> u_mfa_enabled u then Inr (Some u)
      else case code of
        None \<Rightarrow> Inl (HTTPException 401 ''MFA_REQUIRED'')
      | Some [] \<Rightarrow> Inl (HTTPException 401 ''MFA_REQUIRED'')
      | Some (c # cs) \<Rightarrow>
          (case decrypt_column cr cfg (u_mfa_secret_encrypted u) of
             Inl e \<Rightarrow> Inl e
           | Inr secret \<Rightarrow>
               Inr (if cr_totp cr now secret (c # cs) then Some u
                    else map_option (\<lambda>rest. u\<lparr>u_recovery_code_hashes := rest\<rparr>)
                           (consume_recovery_code cr (c # cs) (u_recovery_code_hashes u)))))"

definition login :: "crypto \<Rightarrow> settings \<Rightarrow> string option \<Rightarrow> string option \<Rightarrow> string \<Rightarrow> string \<Rightarrow> string option \<Rightarrow> session
   \<Rightarrow> (exn + token_pair) \<times> session" where
  "login cr cfg agent host email password code s =
     (case user_by_email (cur s) (normal_email email) of
        None \<Rightarrow> (Inl invalid_credentials, s)
      | Some u \<Rightarrow>
          if locked (clock s) u then (Inl (HTTPException 423 ''Account is temporarily locked''), s)
          else (case verify_password cr password (u_password_hash u) of
            Inl e \<Rightarrow> (Inl e, s)
          | Inr False \<Rightarrow> commit_raise_exn invalid_credentials (put_user (failed_login (clock s) u) s)
          | Inr True \<Rightarrow>
              if \<not> u_is_active u then (Inl (HTTPException 403 ''Account is unavailable''), s)
              else if \<not> u_is_verified u then (Inl (HTTPException 403 ''Email verification required''), s)
              else (case second_factor cr cfg (clock s) u code of
                Inl e \<Rightarrow> (Inl e, s)
              | Inr None \<Rightarrow> commit_raise_exn invalid_credentials s
              | Inr (Some u') \<Rightarrow>
                  let u'' = u'\<lparr>u_failed_login_count := 0, u_locked_until := None\<rparr> in
                  sbind (issue cr cfg agent host u'' (put_user u'' s)) commit_return)))"

section \<open>Refreshing and ending sessions\<close>

text \<open>
  \<^verbatim>\<open>refresh\<close>: a token that does not fit its session, or comes too late, revokes the session.
\<close>

definition refresh_fits :: "crypto \<Rightarrow> instant \<Rightarrow> string \<Rightarrow> user_session \<Rightarrow> bool" where
  "refresh_fits cr now secret r \<longleftrightarrow> live_session now r \<and> cr_sha256 cr secret = us_refresh_token_hash r"

definition refresh :: "crypto \<Rightarrow> settings \<Rightarrow> string \<Rightarrow> session \<Rightarrow> (exn + token_pair) \<times> session" where
  "refresh cr cfg token s =
     (case split_dot token of
        None \<Rightarrow> (Inl invalid_credentials, s)
      | Some (sid, secret) \<Rightarrow>
          (case find_user_session (cur s) sid of
             None \<Rightarrow> (Inl invalid_credentials, s)
           | Some r \<Rightarrow>
               if \<not> refresh_fits cr (clock s) secret r then
                 (if us_revoked_at r = None
                  then commit_raise_exn invalid_credentials (put_user_session (r\<lparr>us_revoked_at := Some (clock s)\<rparr>) s)
                  else (Inl invalid_credentials, s))
               else (case find_user (cur s) (us_user_id r) of
                 None \<Rightarrow> (Inl invalid_credentials, s)
               | Some u \<Rightarrow>
                   if \<not> u_is_active u then (Inl invalid_credentials, s)
                   else (case renew cr cfg u (r\<lparr>us_last_seen_at := clock s\<rparr>) s of
                     (pair, s') \<Rightarrow> commit_return pair s'))))"

definition logout :: "principal \<Rightarrow> session \<Rightarrow> (exn + unit) \<times> session" where
  "logout p s =
     (case pn_session_id p of
        None \<Rightarrow> (Inr (), s)
      | Some sid \<Rightarrow>
          (case find_user_session (cur s) sid of
             None \<Rightarrow> (Inl (PyError ''AttributeError''), s)
           | Some r \<Rightarrow> commit_return () (put_user_session (r\<lparr>us_revoked_at := Some (clock s)\<rparr>) s)))"

definition logout_all :: "principal \<Rightarrow> session \<Rightarrow> (exn + unit) \<times> session" where
  "logout_all p s = commit_return () (revoke_sessions (\<lambda>r. us_user_id r = u_id (pn_user p)) s)"

section \<open>Resetting the password\<close>

definition forgot :: "crypto \<Rightarrow> settings \<Rightarrow> bool \<Rightarrow> string \<Rightarrow> session \<Rightarrow> (exn + string option) \<times> session" where
  "forgot cr cfg accepted email s =
     (case user_by_email (cur s) (normal_email email) of
        None \<Rightarrow> (Inr None, s)
      | Some u \<Rightarrow>
          let raw = fresh s;
              s = add_one_time (one_time cr (u_id u) ''RESET_PASSWORD''
                    (clock s + reset_token_minutes cfg * 60000000) raw) (draw s)
          in if mail_sent cfg accepted then commit_return (shown cfg (if raw = [] then None else Some raw)) s
             else (Inr None, rollback s))"

definition reset :: "crypto \<Rightarrow> string \<Rightarrow> string \<Rightarrow> session \<Rightarrow> (exn + unit) \<times> session" where
  "reset cr raw password s =
     (if validate_password password \<noteq> None
      then (Inl (HTTPException 422 ''Password must be 12+ characters and include upper, lower, number, and symbol''), s)
      else case redeem cr ''RESET_PASSWORD'' raw s of
        None \<Rightarrow> (Inl (HTTPException 400 ''Invalid or expired reset link''), s)
      | Some (r, None) \<Rightarrow> (Inl (PyError ''AttributeError''), s)
      | Some (r, Some u) \<Rightarrow>
          commit_return () (revoke_sessions (\<lambda>r. us_user_id r = u_id u)
            (used_now r (put_user (u\<lparr>u_password_hash := cr_hash_password cr (fresh s) password\<rparr>) (draw s)))))"

section \<open>The second factor\<close>

definition mfa_setup :: "crypto \<Rightarrow> settings \<Rightarrow> principal \<Rightarrow> session \<Rightarrow> (exn + string) \<times> session" where
  "mfa_setup cr cfg p s =
     (if u_mfa_enabled (pn_user p) then (Inl (HTTPException 409 ''MFA is already enabled''), s)
      else case encrypt_text cr cfg (fresh s) of
        Inl e \<Rightarrow> (Inl e, draw s)
      | Inr secret \<Rightarrow> commit_return (fresh s) (put_user ((pn_user p)\<lparr>u_mfa_secret_encrypted := Some secret\<rparr>) (draw s)))"

text \<open>\<open>None\<close> when the user has no secret, or an empty one.\<close>

definition mfa_code_fits :: "crypto \<Rightarrow> settings \<Rightarrow> instant \<Rightarrow> user \<Rightarrow> string \<Rightarrow> exn + bool" where
  "mfa_code_fits cr cfg now u code =
     (case u_mfa_secret_encrypted u of
        Some (c # cs) \<Rightarrow> map_sum id (\<lambda>secret. cr_totp cr now secret code) (decrypt_text cr cfg (c # cs))
      | _ \<Rightarrow> Inr False)"

definition mfa_verify :: "crypto \<Rightarrow> settings \<Rightarrow> principal \<Rightarrow> string \<Rightarrow> session \<Rightarrow> (exn + string list) \<times> session" where
  "mfa_verify cr cfg p code s =
     (case mfa_code_fits cr cfg (clock s) (pn_user p) code of
        Inl e \<Rightarrow> (Inl e, s)
      | Inr False \<Rightarrow> (Inl (HTTPException 400 ''Invalid MFA code''), s)
      | Inr True \<Rightarrow>
          let (raws, s) = draws 8 s; (codes, hashes) = new_recovery_codes cr raws in
          commit_return codes (put_user ((pn_user p)\<lparr>u_mfa_enabled := True, u_recovery_code_hashes := hashes\<rparr>) s))"

definition mfa_disable :: "crypto \<Rightarrow> settings \<Rightarrow> principal \<Rightarrow> string \<Rightarrow> string \<Rightarrow> session \<Rightarrow> (exn + unit) \<times> session" where
  "mfa_disable cr cfg p password code s =
     (case verify_password cr password (u_password_hash (pn_user p)) of
        Inl e \<Rightarrow> (Inl e, s)
      | Inr False \<Rightarrow> (Inl invalid_credentials, s)
      | Inr True \<Rightarrow>
          (case mfa_code_fits cr cfg (clock s) (pn_user p) code of
             Inl e \<Rightarrow> (Inl e, s)
           | Inr fits \<Rightarrow>
               if \<not> fits \<and> consume_recovery_code cr code (u_recovery_code_hashes (pn_user p)) = None
               then (Inl invalid_credentials, s)
               else commit_return () (put_user ((pn_user p)\<lparr>u_mfa_enabled := False, u_mfa_secret_encrypted := None,
                      u_recovery_code_hashes := []\<rparr>) s)))"

end
