(* ===== verification/AccountsApi.thy ===== *)
theory AccountsApi
  imports AuthApi "HOL-Library.Char_ord" "HOL-Library.List_Lexorder"
begin

text \<open>
  \<^verbatim>\<open>routers/api_keys.py\<close>, \<^verbatim>\<open>routers/sessions.py\<close>, \<^verbatim>\<open>routers/users.py\<close> and \<^verbatim>\<open>routers/admin.py\<close>: the keys and
  sessions of a user, the password, and what an administrator may change.  As in \<open>AuthApi\<close> a handler takes the
  principal of its request.
\<close>

section \<open>API keys\<close>

definition RETAIL_SCOPES :: "string list" where
  "RETAIL_SCOPES = [''profile:read'', ''broker:read'', ''broker:write'', ''account:read'', ''market:read'',
     ''orders:read'', ''strategies:read'']"

definition ALL_SCOPES :: "string list" where
  "ALL_SCOPES = RETAIL_SCOPES @ [''orders:write'', ''strategies:write'', ''admin:read'', ''admin:write'']"

definition owned_key :: "db \<Rightarrow> string \<Rightarrow> principal \<Rightarrow> exn + api_key" where
  "owned_key d kid p =
     (case find_key d kid of
        None \<Rightarrow> Inl (HTTPException 404 ''API key not found'')
      | Some k \<Rightarrow> if ak_user_id k = u_id (pn_user p) then Inr k else Inl (HTTPException 404 ''API key not found''))"

definition allowed_scopes :: "user \<Rightarrow> string list" where
  "allowed_scopes u = (if u_role u = ADMIN then ALL_SCOPES else RETAIL_SCOPES)"

definition add_key :: "api_key \<Rightarrow> session \<Rightarrow> session" where
  "add_key k = on_identity (\<lambda>t. t\<lparr>t_api_keys := insert_row k (t_api_keys t)\<rparr>)"

text \<open>\<^verbatim>\<open>sorted(set(scopes))\<close>.\<close>

definition sorted_scopes :: "string list \<Rightarrow> string list" where
  "sorted_scopes scopes = sort (remdups scopes)"

text \<open>The public id, the secret and the row's id are drawn in this order; the result is the row and the key.\<close>

definition fresh_key :: "crypto \<Rightarrow> settings \<Rightarrow> string \<Rightarrow> string \<Rightarrow> string list \<Rightarrow> instant option \<Rightarrow> string option \<Rightarrow> session
   \<Rightarrow> (api_key \<times> string) \<times> session" where
  "fresh_key cr cfg uid name scopes expires rotated s =
     (let (full, public_id, digest) = new_api_key cr cfg (fresh s) (fresh (draw s)); s' = draw (draw s) in
      ((\<lparr>ak_id = fresh s', ak_user_id = uid, ak_name = name, ak_public_id = public_id, ak_secret_hash = digest,
         ak_scopes = scopes, ak_status = KeyACTIVE, ak_expires_at = expires, ak_last_used_at = None,
         ak_revoked_at = None, ak_rotated_from_id = rotated\<rparr>, full), draw s'))"

definition create_key :: "crypto \<Rightarrow> settings \<Rightarrow> principal \<Rightarrow> string \<Rightarrow> string list \<Rightarrow> instant option \<Rightarrow> session
   \<Rightarrow> (exn + api_key \<times> string) \<times> session" where
  "create_key cr cfg p name scopes expires s =
     (if \<not> set scopes \<subseteq> set (allowed_scopes (pn_user p))
      then (Inl (HTTPException 403 ''One or more scopes are not permitted''), s)
      else if (case expires of None \<Rightarrow> False | Some t \<Rightarrow> t \<le> clock s)
      then (Inl (HTTPException 422 ''Expiration must be in the future''), s)
      else case fresh_key cr cfg (u_id (pn_user p)) (py_strip name) (sorted_scopes scopes) expires None s of
        ((k, full), s') \<Rightarrow> sbind (flush_session (add_key k s')) (\<lambda>_. commit_return (k, full)))"

text \<open>Rotation ends the old key in the transaction that makes the new one.\<close>

definition rotate :: "crypto \<Rightarrow> settings \<Rightarrow> principal \<Rightarrow> string \<Rightarrow> session \<Rightarrow> (exn + api_key \<times> string) \<times> session" where
  "rotate cr cfg p kid s =
     (case owned_key (cur s) kid p of
        Inl e \<Rightarrow> (Inl e, s)
      | Inr old \<Rightarrow>
          if ak_status old \<noteq> KeyACTIVE then (Inl (HTTPException 409 ''Only active keys can be rotated''), s)
          else case fresh_key cr cfg (ak_user_id old) (ak_name old) (ak_scopes old) (ak_expires_at old)
                 (Some (ak_id old)) s of
            ((k, full), s') \<Rightarrow>
              sbind (flush_session (add_key k
                  (put_key (old\<lparr>ak_status := KeyREVOKED, ak_revoked_at := Some (clock s)\<rparr>) s')))
                (\<lambda>_. commit_return (k, full)))"

definition revoked_key :: "instant \<Rightarrow> api_key \<Rightarrow> api_key" where
  "revoked_key now k =
     (if ak_status k = KeyACTIVE then k\<lparr>ak_status := KeyREVOKED, ak_revoked_at := Some now\<rparr> else k)"

definition revoke_key :: "principal \<Rightarrow> string \<Rightarrow> session \<Rightarrow> (exn + unit) \<times> session" where
  "revoke_key p kid s =
     (case owned_key (cur s) kid p of
        Inl e \<Rightarrow> (Inl e, s)
      | Inr k \<Rightarrow> commit_return () (put_key (revoked_key (clock s) k) s))"

definition delete_key :: "principal \<Rightarrow> string \<Rightarrow> session \<Rightarrow> (exn + unit) \<times> session" where
  "delete_key p kid s =
     (case owned_key (cur s) kid p of
        Inl e \<Rightarrow> (Inl e, s)
      | Inr k \<Rightarrow>
          if ak_status k = KeyACTIVE then (Inl (HTTPException 409 ''Revoke the key before deletion''), s)
          else commit_return () (on_identity (\<lambda>t. t\<lparr>t_api_keys := (t_api_keys t)
            \<lparr>rows := filter (\<lambda>x. ak_id x \<noteq> kid) (rows (t_api_keys t))\<rparr>\<rparr>) s))"

section \<open>Sessions\<close>

text \<open>The sessions of the user that are not revoked, and which of them the request came with.\<close>

definition list_sessions :: "principal \<Rightarrow> session \<Rightarrow> (user_session \<times> bool) list" where
  "list_sessions p s =
     map (\<lambda>r. (r, Some (us_id r) = pn_session_id p))
       (filter (\<lambda>r. us_user_id r = u_id (pn_user p) \<and> us_revoked_at r = None) (rows (t_sessions (t_identity (cur s)))))"

definition revoke_session :: "principal \<Rightarrow> string \<Rightarrow> session \<Rightarrow> (exn + unit) \<times> session" where
  "revoke_session p sid s =
     (case find_user_session (cur s) sid of
        None \<Rightarrow> (Inl (HTTPException 404 ''Session not found''), s)
      | Some r \<Rightarrow>
          if us_user_id r \<noteq> u_id (pn_user p) then (Inl (HTTPException 404 ''Session not found''), s)
          else commit_return () (if us_revoked_at r = None
            then put_user_session (r\<lparr>us_revoked_at := Some (clock s)\<rparr>) s else s))"

section \<open>The user\<close>

definition security_view :: "principal \<Rightarrow> session \<Rightarrow> bool \<times> nat" where
  "security_view p s =
     (u_mfa_enabled (pn_user p),
      length (filter (\<lambda>r. us_user_id r = u_id (pn_user p) \<and> live_session (clock s) r)
        (rows (t_sessions (t_identity (cur s))))))"

text \<open>Changing the password ends every other session of the user.\<close>

definition change_password :: "crypto \<Rightarrow> principal \<Rightarrow> string \<Rightarrow> string \<Rightarrow> session \<Rightarrow> (exn + unit) \<times> session" where
  "change_password cr p old new s =
     (case verify_password cr old (u_password_hash (pn_user p)) of
        Inl e \<Rightarrow> (Inl e, s)
      | Inr False \<Rightarrow> (Inl invalid_credentials, s)
      | Inr True \<Rightarrow>
          if validate_password new \<noteq> None
          then (Inl (HTTPException 422 ''Password must be 12+ characters and include upper, lower, number, and symbol''), s)
          else commit_return ()
            (revoke_sessions (\<lambda>r. us_user_id r = u_id (pn_user p) \<and> Some (us_id r) \<noteq> pn_session_id p)
              (put_user ((pn_user p)\<lparr>u_password_hash := cr_hash_password cr (fresh s) new\<rparr>) (draw s))))"

section \<open>Administration\<close>

definition apply_admin :: "role option \<Rightarrow> bool option \<Rightarrow> user \<Rightarrow> user" where
  "apply_admin r active u = u\<lparr>u_role := or_else r (u_role u), u_is_active := or_else active (u_is_active u)\<rparr>"

definition admin_update_user :: "user \<Rightarrow> string \<Rightarrow> role option \<Rightarrow> bool option \<Rightarrow> session \<Rightarrow> (exn + user) \<times> session" where
  "admin_update_user admin uid r active s =
     (case find_user (cur s) uid of
        None \<Rightarrow> (Inl (HTTPException 404 ''User not found''), s)
      | Some u \<Rightarrow>
          if u_id u = u_id admin \<and> active = Some False
          then (Inl (HTTPException 409 ''You cannot disable your own account''), s)
          else let u' = apply_admin r active u in commit_return u' (put_user u' s))"

end
