(* ===== verification/MarketAccess.thy ===== *)
theory MarketAccess
  imports AccountsApi Config
begin

text \<open>
  The tickets of \<^verbatim>\<open>routers/market.py\<close>: a short-lived, single-use credential with which a WebSocket is opened, made
  for the principal of a request and bound to its session or API key.
\<close>

definition add_ticket :: "market_ws_ticket \<Rightarrow> session \<Rightarrow> session" where
  "add_ticket r = on_identity (\<lambda>t. t\<lparr>t_tickets := insert_row r (t_tickets t)\<rparr>)"

text \<open>The ticket's text is drawn first, the id of its row when it is flushed.\<close>

definition new_ticket :: "crypto \<Rightarrow> settings \<Rightarrow> principal \<Rightarrow> session \<Rightarrow> market_ws_ticket" where
  "new_ticket cr cfg p s =
     \<lparr>wt_id = fresh (draw s), wt_token_hash = snd (new_one_time_token cr (fresh s)), wt_user_id = u_id (pn_user p),
      wt_session_id = pn_session_id p, wt_api_key_id = pn_api_key_id p,
      wt_expires_at = clock s + market_ws_ticket_seconds cfg * 1000000, wt_used_at = None\<rparr>"

definition websocket_ticket :: "crypto \<Rightarrow> settings \<Rightarrow> principal \<Rightarrow> session \<Rightarrow> (exn + string \<times> int) \<times> session" where
  "websocket_ticket cr cfg p s =
     commit_return (fresh s, market_ws_ticket_seconds cfg) (add_ticket (new_ticket cr cfg p s) (draw (draw s)))"

text \<open>The credential a ticket was made for: a session that is live, or an API key that may read the market.\<close>

definition ticket_backed :: "db \<Rightarrow> instant \<Rightarrow> market_ws_ticket \<Rightarrow> bool" where
  "ticket_backed d now r \<longleftrightarrow>
     (case (wt_session_id r, wt_api_key_id r) of
        (Some (c # cs), _) \<Rightarrow>
          (case find_user_session d (c # cs) of None \<Rightarrow> False | Some x \<Rightarrow> live_session now x)
      | (_, Some (c # cs)) \<Rightarrow>
          (case find_key d (c # cs) of
             None \<Rightarrow> False | Some k \<Rightarrow> ak_status k = KeyACTIVE \<and> ''market:read'' \<in> set (ak_scopes k))
      | _ \<Rightarrow> False)"

definition find_ticket :: "crypto \<Rightarrow> db \<Rightarrow> string \<Rightarrow> market_ws_ticket option" where
  "find_ticket cr d raw =
     List.find (\<lambda>r. wt_token_hash r = cr_sha256 cr raw) (rows (t_tickets (t_identity d)))"

definition consume_ticket :: "crypto \<Rightarrow> string \<Rightarrow> session \<Rightarrow> (exn + user option) \<times> session" where
  "consume_ticket cr raw s =
     (case find_ticket cr (cur s) raw of
        None \<Rightarrow> (Inr None, s)
      | Some r \<Rightarrow>
          if wt_used_at r \<noteq> None \<or> wt_expires_at r \<le> clock s then (Inr None, s)
          else (case find_user (cur s) (wt_user_id r) of
            None \<Rightarrow> (Inr None, s)
          | Some u \<Rightarrow>
              if \<not> u_is_active u \<or> \<not> ticket_backed (cur s) (clock s) r then (Inr None, s)
              else commit_return (Some u) (put_ticket (r\<lparr>wt_used_at := Some (clock s)\<rparr>) s)))"

end
