(* ===== verification/Brokers.thy ===== *)
theory Brokers
  imports AccountsApi Reconcile
begin

text \<open>
  \<^verbatim>\<open>brokers/adapters.py\<close>: how each broker authorizes the platform, exchanges the code of a callback for credentials,
  and tests them.  A request to a broker is a value; \<open>oauth\<close> answers it at an instant with the JSON of a
  successful response, or \<open>None\<close> for any \<^verbatim>\<open>httpx.HTTPError\<close> or \<^verbatim>\<open>ValueError\<close>.  \<open>pr\<close> is \<^verbatim>\<open>str\<close> of the values
  that are not texts.
\<close>

section \<open>Requests\<close>

record oauth_call =
  oc_verb :: string
  oc_url :: string
  oc_params :: "(string \<times> string) list"
  oc_body :: "(string \<times> string) list"
  oc_headers :: "(string \<times> string) list"

type_synonym oauth = "instant \<Rightarrow> oauth_call \<Rightarrow> json option"

definition broker_request :: "oauth \<Rightarrow> instant \<Rightarrow> oauth_call \<Rightarrow> exn + json" where
  "broker_request oauth now call =
     (case oauth now call of None \<Rightarrow> Inl (BrokerError ''BROKER_AUTH_FAILED'') | Some j \<Rightarrow> Inr j)"

text \<open>\<^verbatim>\<open>urllib.parse.urlencode\<close>: UTF-8, a plus for a space, and percent escapes in upper case.\<close>

definition url_safe :: "char \<Rightarrow> bool" where
  "url_safe c \<longleftrightarrow> is_upper_char c \<or> is_lower_char c \<or> is_digit_char c \<or> c \<in> {CHR ''_'', CHR ''.'', CHR ''-'', CHR ''~''}"

definition hex_digit :: "nat \<Rightarrow> char" where
  "hex_digit n = (if n < 10 then char_of (48 + n) else char_of (55 + n))"

definition escaped :: "nat \<Rightarrow> string" where
  "escaped n = [CHR ''%'', hex_digit (n div 16), hex_digit (n mod 16)]"

definition quote_char :: "char \<Rightarrow> string" where
  "quote_char c =
     (let n = code_of c in
      if url_safe c then [c] else if c = CHR '' '' then ''+''
      else if n < 128 then escaped n else escaped (192 + n div 64) @ escaped (128 + n mod 64))"

definition quote_plus :: "string \<Rightarrow> string" where
  "quote_plus t = concat (map quote_char t)"

fun urlencode :: "(string \<times> string) list \<Rightarrow> string" where
  "urlencode [] = []"
| "urlencode [(k, v)] = quote_plus k @ ''='' @ quote_plus v"
| "urlencode ((k, v) # p # ps) = quote_plus k @ ''='' @ quote_plus v @ ''&'' @ urlencode (p # ps)"

definition is_set :: "string option \<Rightarrow> bool" where
  "is_set v \<longleftrightarrow> (case v of None \<Rightarrow> False | Some t \<Rightarrow> t \<noteq> [])"

text \<open>A nullable text in an f-string.\<close>

definition str_or_none :: "string option \<Rightarrow> string" where
  "str_or_none v = or_else v ''None''"

definition configured :: "string option list \<Rightarrow> exn + 'a \<Rightarrow> exn + 'a" where
  "configured vs r = (if list_all is_set vs then r else Inl (BrokerError ''BROKER_NOT_CONFIGURED''))"

text \<open>The value of a key of a response that has to be a non-empty object value.\<close>

definition granted :: "json \<Rightarrow> string \<Rightarrow> exn + (string \<times> json) list" where
  "granted data name =
     and_then (as_object data) (\<lambda>fs. if jtruthy (jfield fs name) then Inr fs else Inl (BrokerError ''BROKER_AUTH_FAILED''))"

section \<open>Authorization\<close>

definition dhan_app_headers :: "settings \<Rightarrow> (string \<times> string) list" where
  "dhan_app_headers cfg =
     [(''app_id'', or_else (dhan_app_id cfg) []), (''app_secret'', or_else (dhan_app_secret cfg) [])]"

definition code_query :: "string option \<Rightarrow> string \<Rightarrow> string \<Rightarrow> string" where
  "code_query client uri state =
     urlencode [(''client_id'', str_or_none client), (''redirect_uri'', uri), (''response_type'', ''code''), (''state'', state)]"

definition dhan_authorization :: "(json \<Rightarrow> string) \<Rightarrow> settings \<Rightarrow> oauth \<Rightarrow> instant \<Rightarrow> exn + string \<times> json" where
  "dhan_authorization pr cfg oauth now =
     configured [dhan_client_id cfg, dhan_app_id cfg, dhan_app_secret cfg]
       (and_then (broker_request oauth now \<lparr>oc_verb = ''POST'', oc_url = ''https://auth.dhan.co/app/generate-consent'',
           oc_params = [(''client_id'', or_else (dhan_client_id cfg) [])], oc_body = [],
           oc_headers = dhan_app_headers cfg\<rparr>) (\<lambda>data.
        and_then (granted data ''consentAppId'') (\<lambda>fs.
        let consent = jfield fs ''consentAppId'' in
        Inr (''https://auth.dhan.co/login/consentApp-login?'' @ urlencode [(''consentAppId'', jstr pr consent)],
             JObj [(''consent_id'', consent)]))))"

definition authorization_url ::
  "(json \<Rightarrow> string) \<Rightarrow> settings \<Rightarrow> oauth \<Rightarrow> instant \<Rightarrow> broker_name \<Rightarrow> string \<Rightarrow> exn + string \<times> json" where
  "authorization_url pr cfg oauth now b state =
     (case b of
        DHAN \<Rightarrow> dhan_authorization pr cfg oauth now
      | FYERS \<Rightarrow> configured [fyers_client_id cfg, fyers_client_secret cfg]
          (Inr (''https://api-t1.fyers.in/api/v3/generate-authcode?'' @
             code_query (fyers_client_id cfg) (fyers_redirect_uri cfg) state, JObj []))
      | UPSTOX \<Rightarrow> configured [upstox_client_id cfg, upstox_client_secret cfg]
          (Inr (''https://api.upstox.com/v2/login/authorization/dialog?'' @
             code_query (upstox_client_id cfg) (upstox_redirect_uri cfg) state, JObj [])))"

section \<open>Exchange\<close>

definition option_json :: "string option \<Rightarrow> json" where
  "option_json v = (case v of None \<Rightarrow> JNull | Some t \<Rightarrow> JStr t)"

definition dhan_exchange :: "settings \<Rightarrow> oauth \<Rightarrow> instant \<Rightarrow> string \<Rightarrow> exn + (string \<times> json) list" where
  "dhan_exchange cfg oauth now code =
     and_then (broker_request oauth now \<lparr>oc_verb = ''GET'', oc_url = ''https://auth.dhan.co/app/consumeApp-consent'',
       oc_params = [(''tokenId'', code)], oc_body = [], oc_headers = dhan_app_headers cfg\<rparr>) (\<lambda>data.
     and_then (granted data ''accessToken'') (\<lambda>fs.
       Inr [(''access_token'', jfield fs ''accessToken''), (''client_id'', jfield fs ''dhanClientId''),
            (''expires_at'', jfield fs ''expiryTime'')]))"

definition fyers_exchange ::
  "crypto \<Rightarrow> settings \<Rightarrow> oauth \<Rightarrow> instant \<Rightarrow> string \<Rightarrow> exn + (string \<times> json) list" where
  "fyers_exchange cr cfg oauth now code =
     (let app_hash = cr_sha256 cr (str_or_none (fyers_client_id cfg) @ '':'' @ str_or_none (fyers_client_secret cfg)) in
      and_then (broker_request oauth now \<lparr>oc_verb = ''POST'', oc_url = ''https://api-t1.fyers.in/api/v3/validate-authcode'',
        oc_params = [], oc_body = [(''grant_type'', ''authorization_code''), (''appIdHash'', app_hash), (''code'', code)],
        oc_headers = []\<rparr>) (\<lambda>data.
      and_then (granted data ''access_token'') (\<lambda>fs.
        Inr [(''access_token'', jfield fs ''access_token''), (''refresh_token'', jfield fs ''refresh_token''),
             (''client_id'', option_json (fyers_client_id cfg))])))"

definition upstox_exchange :: "settings \<Rightarrow> oauth \<Rightarrow> instant \<Rightarrow> string \<Rightarrow> exn + (string \<times> json) list" where
  "upstox_exchange cfg oauth now code =
     and_then (broker_request oauth now \<lparr>oc_verb = ''POST'', oc_url = ''https://api.upstox.com/v2/login/authorization/token'',
       oc_params = [], oc_body = [(''code'', code), (''client_id'', or_else (upstox_client_id cfg) []),
         (''client_secret'', or_else (upstox_client_secret cfg) []), (''redirect_uri'', upstox_redirect_uri cfg),
         (''grant_type'', ''authorization_code'')],
       oc_headers = [(''accept'', ''application/json'')]\<rparr>) (\<lambda>data.
     and_then (granted data ''access_token'') (\<lambda>fs.
       Inr [(''access_token'', jfield fs ''access_token''),
            (''client_id'', jor (jfield fs ''user_id'') (option_json (upstox_client_id cfg)))]))"

definition exchange ::
  "crypto \<Rightarrow> settings \<Rightarrow> oauth \<Rightarrow> instant \<Rightarrow> broker_name \<Rightarrow> string \<Rightarrow> exn + (string \<times> json) list" where
  "exchange cr cfg oauth now b code =
     (case b of DHAN \<Rightarrow> dhan_exchange cfg oauth now code | FYERS \<Rightarrow> fyers_exchange cr cfg oauth now code
      | UPSTOX \<Rightarrow> upstox_exchange cfg oauth now code)"

section \<open>Test\<close>

text \<open>The profile request of a broker with an access token; Dhan's token is a header value and has to be a text.\<close>

definition profile_call :: "(json \<Rightarrow> string) \<Rightarrow> settings \<Rightarrow> broker_name \<Rightarrow> json \<Rightarrow> exn + oauth_call" where
  "profile_call pr cfg b token =
     (let get = (\<lambda>url headers. Inr \<lparr>oc_verb = ''GET'', oc_url = url, oc_params = [], oc_body = [], oc_headers = headers\<rparr>) in
      case b of
        DHAN \<Rightarrow> (case token of
            JStr t \<Rightarrow> get ''https://api.dhan.co/v2/profile'' [(''access-token'', t)]
          | _ \<Rightarrow> Inl (PyError ''TypeError''))
      | FYERS \<Rightarrow> get ''https://api-t1.fyers.in/api/v3/profile''
          [(''Authorization'', str_or_none (fyers_client_id cfg) @ '':'' @ jstr pr token)]
      | UPSTOX \<Rightarrow> get ''https://api.upstox.com/v2/user/profile''
          [(''Authorization'', ''Bearer '' @ jstr pr token), (''Accept'', ''application/json'')])"

definition demand_field :: "(string \<times> json) list \<Rightarrow> string \<Rightarrow> exn + json" where
  "demand_field fs name = (case map_of fs name of None \<Rightarrow> Inl (PyError ''KeyError'') | Some v \<Rightarrow> Inr v)"

definition test_credentials ::
  "(json \<Rightarrow> string) \<Rightarrow> settings \<Rightarrow> oauth \<Rightarrow> instant \<Rightarrow> broker_name \<Rightarrow> (string \<times> json) list \<Rightarrow> exn + unit" where
  "test_credentials pr cfg oauth now b credentials =
     and_then (demand_field credentials ''access_token'') (\<lambda>token.
     and_then (profile_call pr cfg b token) (\<lambda>call.
     and_then (broker_request oauth now call) (\<lambda>_. Inr ())))"

end
