(* ===== verification/BrokerApi.thy ===== *)
theory BrokerApi
  imports Brokers
begin

text \<open>
  \<^verbatim>\<open>routers/brokers.py\<close>: connecting an account at a broker.  A connection starts with a stored, hashed state and
  the broker's page; the broker's callback names the state, which is used up, and brings the code the credentials
  are exchanged for.
\<close>

section \<open>Connections\<close>

definition owned_connection :: "db \<Rightarrow> string \<Rightarrow> principal \<Rightarrow> exn + broker_connection" where
  "owned_connection d bid p =
     (case List.find (\<lambda>b. b_id b = bid) (rows (t_connections d)) of
        None \<Rightarrow> Inl (HTTPException 404 ''Broker connection not found'')
      | Some b \<Rightarrow> if b_user_id b = u_id (pn_user p) then Inr b else Inl (HTTPException 404 ''Broker connection not found''))"

definition scope_check :: "principal \<Rightarrow> string \<Rightarrow> exn option" where
  "scope_check p needed =
     (if is_set (pn_api_key_id p) \<and> needed \<notin> set (or_else (pn_scopes p) [])
      then Some (HTTPException 403 ''Insufficient API key scope'') else None)"

definition save_connection :: "broker_connection \<Rightarrow> session \<Rightarrow> session" where
  "save_connection b s = s\<lparr>cur := put_connection b (cur s)\<rparr>"

definition add_oauth_state :: "oauth_state \<Rightarrow> session \<Rightarrow> session" where
  "add_oauth_state r = on_identity (\<lambda>t. t\<lparr>t_oauth_states := insert_row r (t_oauth_states t)\<rparr>)"

definition put_oauth_state :: "oauth_state \<Rightarrow> session \<Rightarrow> session" where
  "put_oauth_state r = on_identity (\<lambda>t. t\<lparr>t_oauth_states := put_row os_state_hash r (t_oauth_states t)\<rparr>)"

definition scoped :: "principal \<Rightarrow> string \<Rightarrow> (session \<Rightarrow> (exn + 'a) \<times> session) \<Rightarrow> session \<Rightarrow> (exn + 'a) \<times> session" where
  "scoped p needed f s = (case scope_check p needed of Some e \<Rightarrow> (Inl e, s) | None \<Rightarrow> f s)"

section \<open>Connecting\<close>

text \<open>The page of the broker and the cookie with the state.  A broker that refuses is a 503 with its code.\<close>

definition connect_broker ::
  "crypto \<Rightarrow> (json \<Rightarrow> string) \<Rightarrow> settings \<Rightarrow> oauth \<Rightarrow> broker_name \<Rightarrow> principal \<Rightarrow> session
   \<Rightarrow> (exn + string \<times> string) \<times> session" where
  "connect_broker cr pr cfg oauth b p =
     scoped p ''broker:write'' (\<lambda>s.
       let raw = fresh s; s = draw s in
       case authorization_url pr cfg oauth (clock s) b raw of
         Inl e \<Rightarrow> (Inl (case e of BrokerError code \<Rightarrow> HTTPException 503 code | _ \<Rightarrow> e), s)
       | Inr (url, ctx) \<Rightarrow>
           (case encrypt_json cr cfg ctx of
              Inl e \<Rightarrow> (Inl e, s)
            | Inr secret \<Rightarrow> commit_return (url, raw)
                (add_oauth_state \<lparr>os_user_id = u_id (pn_user p), os_broker = b, os_state_hash = cr_sha256 cr raw,
                   os_context_encrypted = Some secret, os_expires_at = clock s + 600000000, os_used_at = None\<rparr> s)))"

section \<open>The callback\<close>

text \<open>What the browser is sent to.\<close>

datatype callback_result = CallbackFailed string | BrokerConnected

definition callback_code :: "broker_name \<Rightarrow> string option \<Rightarrow> string option \<Rightarrow> string option \<Rightarrow> string option" where
  "callback_code b code auth_code token_id =
     (case b of FYERS \<Rightarrow> auth_code | DHAN \<Rightarrow> token_id | UPSTOX \<Rightarrow> code)"

definition find_oauth_state :: "crypto \<Rightarrow> db \<Rightarrow> string \<Rightarrow> broker_name \<Rightarrow> oauth_state option" where
  "find_oauth_state cr d raw b =
     List.find (\<lambda>r. os_state_hash r = cr_sha256 cr raw \<and> os_broker r = b) (rows (t_oauth_states (t_identity d)))"

text \<open>The credentials of the code, tested; the context is decrypted first, as the argument of the call.\<close>

definition callback_credentials ::
  "crypto \<Rightarrow> (json \<Rightarrow> string) \<Rightarrow> settings \<Rightarrow> oauth \<Rightarrow> instant \<Rightarrow> oauth_state \<Rightarrow> string \<Rightarrow> exn + (string \<times> json) list" where
  "callback_credentials cr pr cfg oauth now r code =
     and_then (case os_context_encrypted r of Some (c # cs) \<Rightarrow> Inr (c # cs) | _ \<Rightarrow> encrypt_json cr cfg (JObj [])) (\<lambda>ctx.
     and_then (decrypt_json cr cfg ctx) (\<lambda>_.
     and_then (exchange cr cfg oauth now (os_broker r) code) (\<lambda>credentials.
     and_then (test_credentials pr cfg oauth now (os_broker r) credentials) (\<lambda>_. Inr credentials))))"

text \<open>
  \<^verbatim>\<open>expires_at\<close> of the credentials, when there is one: an ISO text, or null when it cannot be read.  Without one
  the expiry of the row stays what it was.
\<close>

definition callback_expiry ::
  "(string \<Rightarrow> (int \<times> int option) option) \<Rightarrow> (string \<times> json) list \<Rightarrow> instant option \<Rightarrow> exn + instant option" where
  "callback_expiry parse_iso credentials old =
     (if \<not> jtruthy (jfield credentials ''expires_at'') then Inr old
      else case jfield credentials ''expires_at'' of
        JStr t \<Rightarrow> Inr (map_option (\<lambda>(wall, offset). wall - or_else offset 0) (parse_iso (replace_z t)))
      | _ \<Rightarrow> Inl (PyError ''AttributeError''))"

definition json_column :: "(json \<Rightarrow> string) \<Rightarrow> json \<Rightarrow> string option" where
  "json_column pr v = (if v = JNull then None else Some (jstr pr v))"

definition connected_row ::
  "(json \<Rightarrow> string) \<Rightarrow> instant \<Rightarrow> (string \<times> json) list \<Rightarrow> string \<Rightarrow> broker_connection \<Rightarrow> broker_connection" where
  "connected_row pr now credentials secret b =
     b\<lparr>b_encrypted_credentials := secret, b_broker_client_id := json_column pr (jfield credentials ''client_id''),
       b_status := CONNECTED, b_last_connected_at := Some now, b_last_checked_at := Some now, b_error_code := None\<rparr>"

definition new_connection :: "string \<Rightarrow> string \<Rightarrow> broker_name \<Rightarrow> string \<Rightarrow> broker_connection" where
  "new_connection bid uid b secret =
     \<lparr>b_id = bid, b_user_id = uid, b_broker = b, b_broker_client_id = None, b_encrypted_credentials = secret,
      b_status = BrokerPENDING, b_token_expires_at = None, b_last_connected_at = None, b_last_checked_at = None,
      b_error_code = None\<rparr>"

text \<open>The account of the user at the broker, made when there is none.\<close>

definition account_for :: "oauth_state \<Rightarrow> string \<Rightarrow> session \<Rightarrow> broker_connection \<times> session" where
  "account_for r secret s =
     (case List.find (\<lambda>b. b_user_id b = os_user_id r \<and> b_broker b = os_broker r) (rows (t_connections (cur s))) of
        Some b \<Rightarrow> (b, s)
      | None \<Rightarrow>
          let b = new_connection (fresh s) (os_user_id r) (os_broker r) secret in
          (b, (draw s)\<lparr>cur := (cur s)\<lparr>t_connections := insert_row b (t_connections (cur s))\<rparr>\<rparr>))"

definition store_credentials ::
  "crypto \<Rightarrow> (json \<Rightarrow> string) \<Rightarrow> (string \<Rightarrow> (int \<times> int option) option) \<Rightarrow> settings \<Rightarrow> oauth_state
   \<Rightarrow> (string \<times> json) list \<Rightarrow> session \<Rightarrow> (exn + callback_result) \<times> session" where
  "store_credentials cr pr parse_iso cfg r credentials s =
     (case encrypt_json cr cfg (JObj credentials) of
        Inl e \<Rightarrow> (Inl e, s)
      | Inr secret \<Rightarrow>
          (case account_for r secret s of (b, s) \<Rightarrow>
          (case callback_expiry parse_iso credentials (b_token_expires_at b) of
             Inl e \<Rightarrow> (Inl e, s)
           | Inr expires \<Rightarrow>
               sbind (flush_session (save_connection
                   ((connected_row pr (clock s) credentials secret b)\<lparr>b_token_expires_at := expires\<rparr>) s))
                 (\<lambda>_. commit_return BrokerConnected))))"

definition broker_callback ::
  "crypto \<Rightarrow> (json \<Rightarrow> string) \<Rightarrow> (string \<Rightarrow> (int \<times> int option) option) \<Rightarrow> settings \<Rightarrow> oauth \<Rightarrow> broker_name
   \<Rightarrow> string option \<Rightarrow> string option \<Rightarrow> string option \<Rightarrow> string option \<Rightarrow> string option \<Rightarrow> session
   \<Rightarrow> (exn + callback_result) \<times> session" where
  "broker_callback cr pr parse_iso cfg oauth b state code auth_code token_id cookie s =
     (let raw = (if is_set state then state else cookie); given = callback_code b code auth_code token_id in
      if \<not> is_set raw \<or> \<not> is_set given then (Inr (CallbackFailed ''invalid_callback''), s)
      else (case find_oauth_state cr (cur s) (the raw) b of
        None \<Rightarrow> (Inr (CallbackFailed ''invalid_state''), s)
      | Some r \<Rightarrow>
          if os_used_at r \<noteq> None \<or> os_expires_at r \<le> clock s then (Inr (CallbackFailed ''invalid_state''), s)
          else
            let s = put_oauth_state (r\<lparr>os_used_at := Some (clock s)\<rparr>) s in
            (case callback_credentials cr pr cfg oauth (clock s) r (the given) of
               Inl e \<Rightarrow> (case e of BrokerError why \<Rightarrow> commit_return (CallbackFailed ''authentication_failed'') s
                                | _ \<Rightarrow> (Inl e, s))
             | Inr credentials \<Rightarrow> store_credentials cr pr parse_iso cfg r credentials s)))"

section \<open>Keeping a connection\<close>

definition tested :: "instant \<Rightarrow> exn + unit \<Rightarrow> broker_connection \<Rightarrow> exn + broker_connection" where
  "tested now r b =
     (case r of
        Inr _ \<Rightarrow> Inr (b\<lparr>b_status := CONNECTED, b_error_code := None, b_last_checked_at := Some now\<rparr>)
      | Inl e \<Rightarrow> (case e of
          BrokerError code \<Rightarrow> Inr (b\<lparr>b_status := REAUTH_REQUIRED, b_error_code := Some code, b_last_checked_at := Some now\<rparr>)
        | _ \<Rightarrow> Inl e))"

definition test_connection ::
  "crypto \<Rightarrow> (json \<Rightarrow> string) \<Rightarrow> settings \<Rightarrow> oauth \<Rightarrow> string \<Rightarrow> principal \<Rightarrow> session
   \<Rightarrow> (exn + broker_connection) \<times> session" where
  "test_connection cr pr cfg oauth bid p =
     scoped p ''broker:read'' (\<lambda>s.
       case owned_connection (cur s) bid p of
         Inl e \<Rightarrow> (Inl e, s)
       | Inr b \<Rightarrow>
           if b_status b = DISCONNECTED then (Inl (HTTPException 409 ''Broker is disconnected''), s)
           else (case tested (clock s) (and_then (decrypt_json cr cfg (b_encrypted_credentials b)) (\<lambda>j.
                   case j of JObj credentials \<Rightarrow> test_credentials pr cfg oauth (clock s) (b_broker b) credentials
                   | _ \<Rightarrow> Inl (PyError ''TypeError''))) b of
               Inl e \<Rightarrow> (Inl e, s)
             | Inr b' \<Rightarrow> commit_return b' (save_connection b' s)))"

definition reconnect ::
  "crypto \<Rightarrow> (json \<Rightarrow> string) \<Rightarrow> settings \<Rightarrow> oauth \<Rightarrow> string \<Rightarrow> principal \<Rightarrow> session
   \<Rightarrow> (exn + string \<times> string) \<times> session" where
  "reconnect cr pr cfg oauth bid p =
     scoped p ''broker:write'' (\<lambda>s.
       case owned_connection (cur s) bid p of
         Inl e \<Rightarrow> (Inl e, s)
       | Inr b \<Rightarrow> sbind (connect_broker cr pr cfg oauth (b_broker b) p s) commit_return)"

definition disconnect :: "crypto \<Rightarrow> settings \<Rightarrow> string \<Rightarrow> principal \<Rightarrow> session \<Rightarrow> (exn + unit) \<times> session" where
  "disconnect cr cfg bid p =
     scoped p ''broker:write'' (\<lambda>s.
       case owned_connection (cur s) bid p of
         Inl e \<Rightarrow> (Inl e, s)
       | Inr b \<Rightarrow>
           (case encrypt_json cr cfg (JObj []) of
              Inl e \<Rightarrow> (Inl e, s)
            | Inr secret \<Rightarrow> commit_return () (save_connection
                (b\<lparr>b_status := DISCONNECTED, b_encrypted_credentials := secret, b_token_expires_at := None\<rparr>) s)))"

end
