(* ===== verification/RateLimit.thy ===== *)
theory RateLimit
  imports PyFloat Prelude
begin

text \<open>
  \<^verbatim>\<open>rate_limit.py\<close>: the sliding window of accepted requests per key, and the two limits of the authentication
  endpoints.  Times are readings of the monotonic clock.  A check is one step, the reading of the clock included: the
  code reads the clock before it takes the lock, so two threads may enter with their times exchanged, by the time one
  of them waits for the lock, which the model leaves out.
\<close>

type_synonym limiter = "string \<Rightarrow> pyfloat list"

definition empty_limiter :: limiter where
  "empty_limiter key = []"

definition limiter_check :: "string \<Rightarrow> nat \<Rightarrow> pyfloat \<Rightarrow> pyfloat \<Rightarrow> limiter \<Rightarrow> (exn + unit) \<times> limiter" where
  "limiter_check key limit window now events =
     (let bucket = dropWhile (\<lambda>t. t \<le> fsub now window) (events key) in
      if limit \<le> length bucket then (Inl (HTTPException 429 ''Too many requests''), events(key := bucket))
      else (Inr (), events(key := bucket @ [now])))"

definition client_host :: "string option \<Rightarrow> string" where
  "client_host client = (case client of None \<Rightarrow> ''unknown'' | Some host \<Rightarrow> host)"

definition limit_login :: "string option \<Rightarrow> pyfloat \<Rightarrow> limiter \<Rightarrow> (exn + unit) \<times> limiter" where
  "limit_login client now = limiter_check (''login:'' @ client_host client) 10 60 now"

definition limit_sensitive :: "string option \<Rightarrow> pyfloat \<Rightarrow> limiter \<Rightarrow> (exn + unit) \<times> limiter" where
  "limit_sensitive client now = limiter_check (''sensitive:'' @ client_host client) 20 60 now"

section \<open>The window\<close>

text \<open>
  The times a bucket accepted, oldest first, with those it still holds: what it has dropped is a prefix, older
  than a window before a time that has passed.
\<close>

definition window_of :: "nat \<Rightarrow> pyfloat \<Rightarrow> pyfloat \<Rightarrow> pyfloat list \<Rightarrow> pyfloat list \<Rightarrow> bool" where
  "window_of limit window now accepted bucket \<longleftrightarrow>
     (\<exists>gone. accepted = gone @ bucket \<and> (\<forall>t \<in> set gone. t \<le> fsub now window)) \<and>
     sorted accepted \<and> (\<forall>t \<in> set accepted. t \<le> now) \<and>
     (\<forall>i. i + limit < length accepted \<longrightarrow> accepted ! i \<le> fsub (accepted ! (i + limit)) window)"

lemma fsub_mono: "a \<le> b \<Longrightarrow> fsub a c \<le> fsub b c"
  by (simp add: fsub_def fl.mono)

lemma window_of_start: "window_of limit window now [] []"
  by (simp add: window_of_def)

lemma window_of_drop:
  assumes "window_of limit window now accepted bucket" "now \<le> now'"
  shows "window_of limit window now' accepted (dropWhile (\<lambda>t. t \<le> fsub now' window) bucket)"
proof -
  obtain gone where g: "accepted = gone @ bucket" "\<forall>t \<in> set gone. t \<le> fsub now window"
    using assms(1) by (auto simp: window_of_def)
  let ?P = "\<lambda>t. t \<le> fsub now' window"
  have "accepted = (gone @ takeWhile ?P bucket) @ dropWhile ?P bucket" using g(1) by simp
  moreover have "\<forall>t \<in> set (gone @ takeWhile ?P bucket). ?P t"
    using g(2) fsub_mono [OF assms(2), of window] by (auto dest: set_takeWhileD intro: order_trans)
  ultimately show ?thesis using assms unfolding window_of_def by (blast intro: order_trans)
qed

lemma window_of_accept:
  assumes "window_of limit window now accepted bucket" "length bucket < limit"
  shows "window_of limit window now (accepted @ [now]) (bucket @ [now])"
proof -
  obtain gone where g: "accepted = gone @ bucket" "\<forall>t \<in> set gone. t \<le> fsub now window"
    using assms(1) by (auto simp: window_of_def)
  have "(accepted @ [now]) ! i \<le> fsub ((accepted @ [now]) ! (i + limit)) window"
    if i: "i + limit < length (accepted @ [now])" for i
  proof (cases "i + limit = length accepted")
    case True
    then have "i < length gone" using g(1) assms(2) by simp
    with g have "accepted ! i \<le> fsub now window" by (simp add: nth_append)
    with True assms(2) show ?thesis by (simp add: nth_append)
  next
    case False
    with i assms show ?thesis by (auto simp: window_of_def nth_append)
  qed
  moreover have "sorted (accepted @ [now])" "\<forall>t \<in> set (accepted @ [now]). t \<le> now"
    using assms(1) by (auto simp: window_of_def sorted_append)
  moreover have "accepted @ [now] = gone @ (bucket @ [now])" using g(1) by simp
  ultimately show ?thesis using g(2) unfolding window_of_def by blast
qed

lemma dropWhile_sorted:
  assumes "sorted xs"
  shows "dropWhile (\<lambda>x. x \<le> a) xs = filter (\<lambda>x. a < x) (xs :: pyfloat list)"
  using assms
proof (induction xs)
  case (Cons x xs)
  then have "filter (\<lambda>y. a < y) xs = xs" if "a < x" using that by (auto simp: filter_id_conv)
  with Cons show ?case by (auto simp: not_less)
qed simp

text \<open>With a window the bucket is exactly what was accepted inside it.\<close>

lemma window_of_exact:
  assumes "window_of limit window now accepted bucket" "now \<le> t"
  shows "dropWhile (\<lambda>x. x \<le> fsub t window) bucket = filter (\<lambda>x. fsub t window < x) accepted"
proof -
  obtain gone where g: "accepted = gone @ bucket" "\<forall>x \<in> set gone. x \<le> fsub now window" "sorted accepted"
    using assms(1) by (auto simp: window_of_def)
  have "filter (\<lambda>x. fsub t window < x) gone = []"
    using g(2) fsub_mono [OF assms(2), of window] by (auto simp: filter_empty_conv not_less intro: order_trans)
  moreover have "dropWhile (\<lambda>x. x \<le> fsub t window) bucket = filter (\<lambda>x. fsub t window < x) bucket"
    using g(1,3) by (simp add: sorted_append dropWhile_sorted)
  ultimately show ?thesis by (simp add: g(1))
qed

section \<open>Requests\<close>

datatype limited_request = Login "string option" | Sensitive "string option"

fun limited_step :: "limited_request \<Rightarrow> pyfloat \<Rightarrow> limiter \<Rightarrow> (exn + unit) \<times> limiter" where
  "limited_step (Login client) = limit_login client"
| "limited_step (Sensitive client) = limit_sensitive client"

fun request_key :: "limited_request \<Rightarrow> string" where
  "request_key (Login client) = ''login:'' @ client_host client"
| "request_key (Sensitive client) = ''sensitive:'' @ client_host client"

fun request_limit :: "limited_request \<Rightarrow> nat" where
  "request_limit (Login client) = 10"
| "request_limit (Sensitive client) = 20"

lemma limited_step_check: "limited_step r = limiter_check (request_key r) (request_limit r) 60"
  by (cases r) (auto simp: limit_login_def limit_sensitive_def)

lemma request_key_limit: "request_key r = request_key r' \<Longrightarrow> request_limit r = request_limit r'"
  by (cases r; cases r') auto

text \<open>The requests a history admits, oldest first, and the limiter after it; the times of those of one key.\<close>

fun admit :: "limited_request \<times> pyfloat \<Rightarrow> (limited_request \<times> pyfloat) list \<times> limiter
   \<Rightarrow> (limited_request \<times> pyfloat) list \<times> limiter" where
  "admit (r, now) (admitted, events) =
     (case limited_step r now events of
        (Inl e, events') \<Rightarrow> (admitted, events')
      | (Inr _, events') \<Rightarrow> (admitted @ [(r, now)], events'))"

definition admissions :: "(limited_request \<times> pyfloat) list \<Rightarrow> (limited_request \<times> pyfloat) list \<times> limiter" where
  "admissions reqs = fold admit reqs ([], empty_limiter)"

definition times_of :: "limited_request \<Rightarrow> (limited_request \<times> pyfloat) list \<Rightarrow> pyfloat list" where
  "times_of r admitted = map snd (filter (\<lambda>a. request_key (fst a) = request_key r) admitted)"

definition windows :: "pyfloat \<Rightarrow> (limited_request \<times> pyfloat) list \<times> limiter \<Rightarrow> bool" where
  "windows now st \<longleftrightarrow>
     (\<forall>r. window_of (request_limit r) 60 now (times_of r (fst st)) (snd st (request_key r)))"

lemma window_of_later:
  assumes "window_of limit window now accepted bucket" "now \<le> now'"
  shows "window_of limit window now' accepted bucket"
proof -
  obtain gone where "accepted = gone @ bucket" "\<forall>t \<in> set gone. t \<le> fsub now window"
    using assms(1) by (auto simp: window_of_def)
  then have "accepted = gone @ bucket \<and> (\<forall>t \<in> set gone. t \<le> fsub now' window)"
    using fsub_mono [OF assms(2), of window] by (auto intro: order_trans)
  with assms show ?thesis unfolding window_of_def by (blast intro: order_trans)
qed

lemma windows_admit:
  assumes "windows now st" "now \<le> now'"
  shows "windows now' (admit (r, now') st)"
proof -
  obtain admitted events where st: "st = (admitted, events)" by (cases st)
  let ?bucket = "dropWhile (\<lambda>t. t \<le> fsub now' 60) (events (request_key r))"
  have old: "window_of (request_limit r') 60 now' (times_of r' admitted) (events (request_key r'))" for r'
    using window_of_later [OF _ assms(2)] assms(1) by (simp add: windows_def st)
  have drop: "window_of (request_limit r) 60 now' (times_of r admitted) ?bucket"
    using window_of_drop [OF _ assms(2)] assms(1) by (simp add: windows_def st)
  have kept: "window_of (request_limit r') 60 now' (times_of r' (fst (admit (r, now') st)))
      (snd (admit (r, now') st) (request_key r'))" if "request_key r' \<noteq> request_key r" for r'
    using that old [of r'] by (simp add: st limited_step_check limiter_check_def Let_def times_of_def)
  have new: "window_of (request_limit r) 60 now' (times_of r (fst (admit (r, now') st)))
      (snd (admit (r, now') st) (request_key r))"
  proof (cases "request_limit r \<le> length ?bucket")
    case True
    with drop show ?thesis by (simp add: st limited_step_check limiter_check_def Let_def)
  next
    case False
    then have "window_of (request_limit r) 60 now' (times_of r (admitted @ [(r, now')])) (?bucket @ [now'])"
      using window_of_accept [OF drop] by (simp add: times_of_def)
    with False show ?thesis by (simp add: st limited_step_check limiter_check_def Let_def)
  qed
  have "window_of (request_limit r') 60 now' (times_of r' (fst (admit (r, now') st)))
      (snd (admit (r, now') st) (request_key r'))" if same: "request_key r' = request_key r" for r'
    using new by (simp only: times_of_def same request_key_limit [OF same])
  with kept show ?thesis unfolding windows_def by metis
qed

lemma windows_run:
  "windows now st \<Longrightarrow> sorted (now # map snd reqs) \<Longrightarrow> windows (last (now # map snd reqs)) (fold admit reqs st)"
proof (induction reqs arbitrary: now st)
  case (Cons req reqs)
  obtain r t where req: "req = (r, t)" by (cases req)
  have "windows t (admit req st)" using windows_admit [OF Cons.prems(1)] Cons.prems(2) by (simp add: req)
  from Cons.IH [OF this] Cons.prems(2) show ?case by (simp add: req)
qed simp

section \<open>Properties\<close>

text \<open>
  C38. The limiter is the sliding window of the requests it admitted.  After any history of login and other
  sensitive requests, whose times do not go back, a request is admitted exactly when fewer than its limit of the
  requests admitted for the same client and kind lie within the last 60 seconds; of any eleven logins of a client
  that are admitted (21 other requests) the first is at least 60 seconds older than the last.
\<close>

theorem limiter_is_a_sliding_window:
  assumes "sorted (map snd reqs)" "\<forall>a \<in> set reqs. snd a \<le> now"
    "admissions reqs = (admitted, events)"
  shows "(fst (limited_step r now events) = Inr () \<longleftrightarrow>
      length (filter (\<lambda>t. fsub now 60 < t) (times_of r admitted)) < request_limit r) \<and>
    (\<forall>i. i + request_limit r < length (times_of r admitted) \<longrightarrow>
      times_of r admitted ! i \<le> fsub (times_of r admitted ! (i + request_limit r)) 60)"
proof (cases reqs)
  case Nil
  then show ?thesis using assms(3)
    by (cases r) (simp_all add: admissions_def times_of_def empty_limiter_def limited_step_check limiter_check_def)
next
  case (Cons a rest)
  have "windows (snd a) ([], empty_limiter)" by (simp add: windows_def times_of_def empty_limiter_def window_of_start)
  from windows_run [OF this, of reqs] assms Cons
  have w: "windows (last (snd a # map snd reqs)) (admitted, events)" by (simp add: admissions_def)
  have before: "last (snd a # map snd reqs) \<le> now" using assms(2) Cons by (simp add: last_map)
  have "window_of (request_limit r) 60 (last (snd a # map snd reqs)) (times_of r admitted) (events (request_key r))"
    using w by (simp add: windows_def)
  note exact = window_of_exact [OF this before]
  have "fst (limited_step r now events) = Inr () \<longleftrightarrow>
      length (dropWhile (\<lambda>t. t \<le> fsub now 60) (events (request_key r))) < request_limit r"
    by (auto simp: limited_step_check limiter_check_def Let_def)
  then show ?thesis using w by (simp add: windows_def window_of_def flip: exact)
qed

definition ex_requests :: "(limited_request \<times> pyfloat) list" where
  "ex_requests = replicate 9 (Login (Some ''a''), 0) @ [(Login (Some ''b''), 5), (Login (Some ''a''), 30)]"

lemma limiter_is_a_sliding_window_witness:
  "fst (limited_step (Login (Some ''a'')) 59 (snd (admissions ex_requests))) \<noteq> Inr () \<and>
   fst (limited_step (Login (Some ''a'')) 60 (snd (admissions ex_requests))) = Inr () \<and>
   fst (limited_step (Login (Some ''b'')) 59 (snd (admissions ex_requests))) = Inr ()"
proof -
  have s: "sorted (map snd ex_requests)" "\<forall>a \<in> set ex_requests. snd a \<le> 59" "\<forall>a \<in> set ex_requests. snd a \<le> 60"
    by (simp_all add: ex_requests_def sorted_append)
  have n: "length (filter (\<lambda>t. fsub 59 60 < t) (times_of (Login (Some ''a'')) (fst (admissions ex_requests)))) = 10"
    "length (filter (\<lambda>t. fsub 60 60 < t) (times_of (Login (Some ''a'')) (fst (admissions ex_requests)))) = 1"
    "length (filter (\<lambda>t. fsub 59 60 < t) (times_of (Login (Some ''b'')) (fst (admissions ex_requests)))) = 1"
    by code_simp+
  show ?thesis
    using limiter_is_a_sliding_window [OF s(1,2) prod.collapse [symmetric], of "Login (Some ''a'')"]
      limiter_is_a_sliding_window [OF s(1,3) prod.collapse [symmetric], of "Login (Some ''a'')"]
      limiter_is_a_sliding_window [OF s(1,2) prod.collapse [symmetric], of "Login (Some ''b'')"] n by simp
qed

end
