(* ===== verification/IdentityEvents.thy ===== *)
theory IdentityEvents
  imports MarketAccess BrokerApi RateLimit TradingApi
begin

text \<open>
  The identity endpoints as events on one database, beside the trading events: what a request may do before and
  after it is authenticated, with the limiter in front of registration, login and the password reset.  Closing a
  session without a commit is a rollback.
\<close>

section \<open>Requests\<close>

text \<open>Requests that need no credentials; \<open>accepted\<close> says whether the mail server takes the message.\<close>

datatype public_call =
    Register "string option" bool string string
  | VerifyEmail string
  | LogIn "string option" "string option" string string "string option"
  | Refresh string
  | Forgot "string option" bool string
  | ResetPassword string string
  | BrokerCallback broker_name "string option" "string option" "string option" "string option" "string option"
  | OpenStream string

text \<open>Requests of an interactive session.\<close>

datatype session_call =
    Logout
  | LogoutAll
  | MfaSetup
  | MfaVerify string
  | MfaDisable string string
  | CreateKey string "string list" "instant option"
  | RotateKey string
  | RevokeKey string
  | DeleteKey string
  | RevokeSession string
  | ChangePassword string string

text \<open>Requests of a session or an API key.\<close>

datatype api_call =
    WebsocketTicket
  | ConnectBroker broker_name
  | TestConnection string
  | Reconnect string
  | DisconnectBroker string

datatype identity_event =
    Public public_call pyfloat
  | SessionRequest credentials session_call
  | ApiRequest credentials api_call
  | AdminRequest credentials string "role option" "bool option"
  | Trade event

section \<open>Steps\<close>

definition discard :: "(exn + 'a) \<times> session \<Rightarrow> (exn + unit) \<times> session" where
  "discard r = (map_sum id (\<lambda>_. ()) (fst r), snd r)"

text \<open>What a request runs after the limiter, and what limits it.\<close>

fun public_op :: "crypto \<Rightarrow> settings \<Rightarrow> oauth \<Rightarrow> world \<Rightarrow> public_call \<Rightarrow> session \<Rightarrow> (exn + unit) \<times> session" where
  "public_op cr cfg oauth w (Register host accepted email password) s = discard (register cr cfg accepted email password s)"
| "public_op cr cfg oauth w (VerifyEmail raw) s = verify_email cr raw s"
| "public_op cr cfg oauth w (LogIn host agent email password code) s =
     discard (login cr cfg agent host email password code s)"
| "public_op cr cfg oauth w (Refresh token) s = discard (refresh cr cfg token s)"
| "public_op cr cfg oauth w (Forgot host accepted email) s = discard (forgot cr cfg accepted email s)"
| "public_op cr cfg oauth w (ResetPassword raw password) s = reset cr raw password s"
| "public_op cr cfg oauth w (BrokerCallback b state code auth_code token_id cookie) s =
     discard (broker_callback cr (w_repr w) (w_isoformat w) cfg oauth b state code auth_code token_id cookie s)"
| "public_op cr cfg oauth w (OpenStream raw) s = discard (consume_ticket cr raw s)"

fun public_limit :: "public_call \<Rightarrow> limited_request option" where
  "public_limit (Register host _ _ _) = Some (Sensitive host)"
| "public_limit (LogIn host _ _ _ _) = Some (Login host)"
| "public_limit (Forgot host _ _) = Some (Sensitive host)"
| "public_limit _ = None"

fun session_op :: "crypto \<Rightarrow> settings \<Rightarrow> session_call \<Rightarrow> principal \<Rightarrow> session \<Rightarrow> (exn + unit) \<times> session" where
  "session_op cr cfg Logout p s = logout p s"
| "session_op cr cfg LogoutAll p s = logout_all p s"
| "session_op cr cfg MfaSetup p s = discard (mfa_setup cr cfg p s)"
| "session_op cr cfg (MfaVerify code) p s = discard (mfa_verify cr cfg p code s)"
| "session_op cr cfg (MfaDisable password code) p s = mfa_disable cr cfg p password code s"
| "session_op cr cfg (CreateKey name scopes expires) p s = discard (create_key cr cfg p name scopes expires s)"
| "session_op cr cfg (RotateKey kid) p s = discard (rotate cr cfg p kid s)"
| "session_op cr cfg (RevokeKey kid) p s = revoke_key p kid s"
| "session_op cr cfg (DeleteKey kid) p s = delete_key p kid s"
| "session_op cr cfg (RevokeSession sid) p s = revoke_session p sid s"
| "session_op cr cfg (ChangePassword old new) p s = change_password cr p old new s"

fun api_op :: "crypto \<Rightarrow> settings \<Rightarrow> oauth \<Rightarrow> world \<Rightarrow> api_call \<Rightarrow> principal \<Rightarrow> session \<Rightarrow> (exn + unit) \<times> session" where
  "api_op cr cfg oauth w WebsocketTicket p s = discard (websocket_ticket cr cfg p s)"
| "api_op cr cfg oauth w (ConnectBroker b) p s = discard (connect_broker cr (w_repr w) cfg oauth b p s)"
| "api_op cr cfg oauth w (TestConnection bid) p s = discard (test_connection cr (w_repr w) cfg oauth bid p s)"
| "api_op cr cfg oauth w (Reconnect bid) p s = discard (reconnect cr (w_repr w) cfg oauth bid p s)"
| "api_op cr cfg oauth w (DisconnectBroker bid) p s = disconnect cr cfg bid p s"

text \<open>The scopes the route asks the principal for; the broker routes test theirs in the handler.\<close>

fun api_scopes :: "api_call \<Rightarrow> string list" where
  "api_scopes WebsocketTicket = [''market:read'']"
| "api_scopes _ = []"

text \<open>A request with what it answers; the times of public requests are those of the monotonic clock.\<close>

fun identity_request ::
  "crypto \<Rightarrow> settings \<Rightarrow> oauth \<Rightarrow> world \<Rightarrow> identity_event \<Rightarrow> limiter \<times> session \<Rightarrow> (exn + unit) \<times> limiter \<times> session"
where
  "identity_request cr cfg oauth w (Public c tick) (lmt, s) =
     (let (admitted, lmt') = (case public_limit c of None \<Rightarrow> (Inr (), lmt) | Some r \<Rightarrow> limited_step r tick lmt) in
      case admitted of
        Inl e \<Rightarrow> (Inl e, lmt', s)
      | Inr _ \<Rightarrow> (case public_op cr cfg oauth w c s of (r, s') \<Rightarrow> (r, lmt', rollback s')))"
| "identity_request cr cfg oauth w (SessionRequest creds c) (lmt, s) =
     (case sbind (require_session cr cfg creds s) (session_op cr cfg c) of (r, s') \<Rightarrow> (r, lmt, rollback s'))"
| "identity_request cr cfg oauth w (ApiRequest creds c) (lmt, s) =
     (case sbind (get_principal cr cfg (api_scopes c) creds s) (api_op cr cfg oauth w c) of (r, s') \<Rightarrow> (r, lmt, rollback s'))"
| "identity_request cr cfg oauth w (AdminRequest creds uid r active) (lmt, s) =
     (case sbind (require_admin cr cfg creds s) (\<lambda>admin s. discard (admin_update_user admin uid r active s)) of
        (r, s') \<Rightarrow> (r, lmt, rollback s'))"
| "identity_request cr cfg oauth w (Trade ev) (lmt, s) = (Inr (), lmt, system_step w cfg ev s)"

definition identity_step ::
  "crypto \<Rightarrow> settings \<Rightarrow> oauth \<Rightarrow> world \<Rightarrow> identity_event \<Rightarrow> limiter \<times> session \<Rightarrow> limiter \<times> session" where
  "identity_step cr cfg oauth w ev st = snd (identity_request cr cfg oauth w ev st)"

end
