(* ===== verification/CredentialMoves.thy ===== *)
theory CredentialMoves
  imports IdentityEvents Frames
begin

text \<open>
  The identity endpoints as one state machine: \<open>move\<close> lists the writes to users, sessions, tokens, tickets and keys
  that are legal (a row that is spent stays spent, a lock that runs is kept, digests come from drawn texts), and
  every handler is shown to be a sequence of such moves.  What all moves keep, every sequence of requests keeps.
\<close>

section \<open>The moves\<close>

inductive move :: "crypto \<Rightarrow> session \<Rightarrow> session \<Rightarrow> bool" for cr where
  draws_text: "move cr s (draw s)"
| flushes: "constraints (cur s) \<Longrightarrow> move cr s (s\<lparr>cur := flush_all (cur s)\<rparr>)"
| commits: "constraints (cur s) \<Longrightarrow> move cr s (s\<lparr>cur := flush_all (cur s), saved := flush_all (cur s)\<rparr>)"
| rolls_back: "move cr s (rollback s)"
| elsewhere: "t_users d = t_users (cur s) \<Longrightarrow> t_identity d = t_identity (cur s) \<Longrightarrow> move cr s (s\<lparr>cur := d\<rparr>)"
| adds_user: "move cr s (add_user u s)"
| writes_user: "u0 \<in> set (rows (t_users (cur s))) \<Longrightarrow> u_id u = u_id u0 \<Longrightarrow> u_email u = u_email u0 \<Longrightarrow>
    (locked (clock s) u0 \<Longrightarrow> u_locked_until u = u_locked_until u0) \<Longrightarrow>
    set (u_recovery_code_hashes u) \<subseteq> set (u_recovery_code_hashes u0) \<Longrightarrow> move cr s (put_user u s)"
| new_codes: "u0 \<in> set (rows (t_users (cur s))) \<Longrightarrow> u_id u = u_id u0 \<Longrightarrow> u_email u = u_email u0 \<Longrightarrow>
    u_locked_until u = u_locked_until u0 \<Longrightarrow>
    u_recovery_code_hashes u = map (\<lambda>t. cr_sha256 cr (py_upper t)) (fst (draws n s)) \<Longrightarrow>
    move cr s (put_user u (snd (draws n s)))"
| adds_session: "move cr s (add_session r s)"
| writes_session: "r0 \<in> set (rows (t_sessions (t_identity (cur s)))) \<Longrightarrow> us_id r = us_id r0 \<Longrightarrow>
    us_user_id r = us_user_id r0 \<Longrightarrow> (us_revoked_at r0 \<noteq> None \<Longrightarrow> us_revoked_at r \<noteq> None) \<Longrightarrow>
    us_refresh_token_hash r = us_refresh_token_hash r0 \<Longrightarrow> move cr s (put_user_session r s)"
| rotates_session: "r0 \<in> set (rows (t_sessions (t_identity (cur s)))) \<Longrightarrow> us_id r = us_id r0 \<Longrightarrow>
    us_user_id r = us_user_id r0 \<Longrightarrow> us_revoked_at r = us_revoked_at r0 \<Longrightarrow>
    us_refresh_token_hash r = cr_sha256 cr (fresh s) \<Longrightarrow> move cr s (put_user_session r (draw s))"
| revokes: "move cr s (revoke_sessions P s)"
| adds_token: "move cr s (add_one_time r s)"
| uses_token: "r0 \<in> set (rows (t_one_time_tokens (t_identity (cur s)))) \<Longrightarrow> ot_token_hash r = ot_token_hash r0 \<Longrightarrow>
    ot_used_at r \<noteq> None \<Longrightarrow> move cr s (put_one_time r s)"
| adds_state: "move cr s (add_oauth_state r s)"
| uses_state: "r0 \<in> set (rows (t_oauth_states (t_identity (cur s)))) \<Longrightarrow> os_state_hash r = os_state_hash r0 \<Longrightarrow>
    os_used_at r \<noteq> None \<Longrightarrow> move cr s (put_oauth_state r s)"
| adds_ticket: "move cr s (add_ticket r s)"
| uses_ticket: "r0 \<in> set (rows (t_tickets (t_identity (cur s)))) \<Longrightarrow> wt_token_hash r = wt_token_hash r0 \<Longrightarrow>
    wt_used_at r \<noteq> None \<Longrightarrow> move cr s (put_ticket r s)"
| adds_key: "ak_public_id k = fresh s \<Longrightarrow> move cr s (add_key k (draw (draw (draw s))))"
| writes_key: "k0 \<in> set (rows (t_api_keys (t_identity (cur s)))) \<Longrightarrow> ak_public_id k = ak_public_id k0 \<Longrightarrow>
    (ak_status k0 \<noteq> KeyACTIVE \<Longrightarrow> ak_status k \<noteq> KeyACTIVE) \<Longrightarrow> move cr s (put_key k s)"
| deletes_key: "move cr s (on_identity (\<lambda>t. t\<lparr>t_api_keys := (t_api_keys t)\<lparr>rows := filter P (rows (t_api_keys t))\<rparr>\<rparr>) s)"

abbreviation moves :: "crypto \<Rightarrow> session \<Rightarrow> session \<Rightarrow> bool" where
  "moves cr \<equiv> (move cr)\<^sup>*\<^sup>*"

lemma moves_refl: "moves cr s s"
  by simp

lemmas moves_then = rtranclp_trans [of "move cr" for cr]
lemmas moves_step = rtranclp.rtrancl_into_rtrancl [of "move cr" for cr]

lemma moves_commit: "moves cr s s1 \<Longrightarrow> moves cr s (snd (commit s1))"
  by (cases "constraints (cur s1)") (auto simp: commit_def flush_def intro: moves_step commits)

lemma moves_commit_return: "moves cr s s1 \<Longrightarrow> moves cr s (snd (commit_return x s1))"
  by (cases rule: commit_return_cases [of x s1]) (auto intro: moves_step commits)

lemma moves_sbind:
  assumes "moves cr s (snd called)" "\<And>x s1. called = (Inr x, s1) \<Longrightarrow> moves cr s1 (snd (f x s1))"
  shows "moves cr s (snd (sbind called f))"
  using assms by (cases called) (auto simp: sbind_def split: sum.splits intro: moves_then)

lemma moves_commit_raise: "moves cr s s1 \<Longrightarrow> moves cr s (snd (commit_raise_exn e s1))"
  unfolding commit_raise_exn_def by (rule moves_sbind [OF moves_commit]) simp_all

lemma moves_flush: "moves cr s s1 \<Longrightarrow> moves cr s (snd (flush_session s1))"
  by (cases "constraints (cur s1)") (auto simp: flush_session_def flush_def intro: moves_step flushes)

lemma moves_draw: "moves cr s s1 \<Longrightarrow> moves cr s (draw s1)"
  by (rule moves_step [OF _ draws_text])

lemma snd_discard [simp]: "snd (discard r) = snd r"
  by (simp add: discard_def)

lemma moves_add_token: "moves cr s (add_one_time r (draw s))"
  by (rule moves_step [OF moves_draw [OF moves_refl] adds_token])

lemmas moves_ends = moves_refl moves_commit_return moves_commit_raise moves_flush moves_draw

text \<open>A row that a query found is in the table.\<close>

lemma found:
  "find_user d uid = Some u \<Longrightarrow> u \<in> set (rows (t_users d)) \<and> u_id u = uid"
  "user_by_email d email = Some u \<Longrightarrow> u \<in> set (rows (t_users d)) \<and> u_email u = email"
  "find_user_session d sid = Some r \<Longrightarrow> r \<in> set (rows (t_sessions (t_identity d))) \<and> us_id r = sid"
  "find_key d kid = Some k \<Longrightarrow> k \<in> set (rows (t_api_keys (t_identity d))) \<and> ak_id k = kid"
  "owned_key d kid p = Inr k \<Longrightarrow> k \<in> set (rows (t_api_keys (t_identity d))) \<and> ak_id k = kid"
  "redeem cr purpose raw s = Some (t, ou) \<Longrightarrow> t \<in> set (rows (t_one_time_tokens (t_identity (cur s)))) \<and>
     ot_token_hash t = cr_sha256 cr raw \<and> ot_used_at t = None \<and> ou = find_user (cur s) (ot_user_id t) \<and>
     (\<forall>u. ou = Some u \<longrightarrow> u \<in> set (rows (t_users (cur s))) \<and> u_id u = ot_user_id t)"
  "find_ticket cr d raw = Some x \<Longrightarrow> x \<in> set (rows (t_tickets (t_identity d))) \<and> wt_token_hash x = cr_sha256 cr raw"
  "find_oauth_state cr d raw b = Some y \<Longrightarrow> y \<in> set (rows (t_oauth_states (t_identity d))) \<and> os_state_hash y = cr_sha256 cr raw"
  by (auto simp: find_user_def user_by_email_def find_user_session_def find_key_def owned_key_def redeem_def
      find_one_time_def find_ticket_def find_oauth_state_def split: option.splits if_splits dest: find_SomeD)

section \<open>Who a request comes from\<close>

text \<open>The user of a principal is a row of the database.\<close>

definition present :: "principal \<Rightarrow> session \<Rightarrow> bool" where
  "present p s \<longleftrightarrow> pn_user p \<in> set (rows (t_users (cur s)))"

lemma put_frames [simp]:
  "t_users (cur (on_identity f s)) = t_users (cur s)" "t_identity (cur (put_user u s)) = t_identity (cur s)"
  "t_identity (cur (on_identity f s)) = f (t_identity (cur s))" "saved (on_identity f s) = saved s"
  "saved (put_user u s) = saved s" "clock (on_identity f s) = clock s" "clock (put_user u s) = clock s"
  "t_users (cur (put_user u s)) = put_row u_id u (t_users (cur s))"
  "on_identity f (draw s) = draw (on_identity f s)"
  by (simp_all add: on_identity_def put_user_def draw_def)

lemma commit_return_users:
  "commit_return x s = (Inr y, s') \<Longrightarrow> u \<in> set (rows (t_users (cur s))) \<Longrightarrow> u \<in> set (rows (t_users (cur s'))) \<and> y = x"
  by (auto simp: commit_return_Inr objs_def)

lemma sbind_Inr: "sbind called f = (Inr y, s') \<longleftrightarrow> (\<exists>x s1. called = (Inr x, s1) \<and> f x s1 = (Inr y, s'))"
  by (cases called) (auto simp: sbind_def split: sum.splits)

lemma moves_expire_key:
  assumes "k \<in> set (rows (t_api_keys (t_identity (cur s))))"
  shows "moves cr s (snd (expire_key k s))"
    "expire_key k s = (Inr k', s1) \<Longrightarrow> k' \<in> set (rows (t_api_keys (t_identity (cur s1)))) \<and> ak_status k' \<in> {ak_status k, KeyEXPIRED}"
proof -
  have "move cr s (put_key (k\<lparr>ak_status := KeyEXPIRED\<rparr>) s)" using assms by (auto intro: writes_key)
  then show "moves cr s (snd (expire_key k s))" by (auto simp: expire_key_def Let_def intro: moves_commit_return)
  show "expire_key k s = (Inr k', s1) \<Longrightarrow> k' \<in> set (rows (t_api_keys (t_identity (cur s1)))) \<and> ak_status k' \<in> {ak_status k, KeyEXPIRED}"
    using assms
    by (auto simp: expire_key_def Let_def commit_return_Inr put_key_def objs_def in_upd_by_self split: if_splits)
qed

lemma moves_authenticate:
  "moves cr s (snd (get_principal cr cfg scopes creds s))"
  "get_principal cr cfg scopes creds s = (Inr p, s1) \<Longrightarrow> present p s1"
proof -
  have key: "moves cr s (snd (key_principal cr cfg scopes secret k s)) \<and>
      (key_principal cr cfg scopes secret k s = (Inr p, s1) \<longrightarrow> present p s1)"
    if "k \<in> set (rows (t_api_keys (t_identity (cur s))))" for secret k s s1
  proof -
    have "move cr s (put_key (k\<lparr>ak_last_used_at := Some (clock s)\<rparr>) s)" using that by (auto intro: writes_key)
    then show ?thesis
      by (auto simp: key_principal_def present_def put_key_def commit_return_Inr objs_def
          intro!: moves_commit_return split: option.splits dest!: found)
  qed
  have keys: "moves cr s (snd (authenticate_key cr cfg scopes raw s))"
    "authenticate_key cr cfg scopes raw s = (Inr p, s1) \<Longrightarrow> present p s1" for raw
    using moves_expire_key key
    by (auto simp: authenticate_key_def sbind_Inr split: option.splits dest!: find_SomeD intro!: moves_sbind)
       blast+
  have token: "moves cr s (snd (authenticate_token cr cfg t s))"
    "authenticate_token cr cfg t s = (Inr p, s1) \<Longrightarrow> present p s1" for t
  proof -
    have "move cr s (put_user_session (r\<lparr>us_last_seen_at := clock s\<rparr>) s)"
      if "r \<in> set (rows (t_sessions (t_identity (cur s))))" for r
      using that by (auto intro: writes_session)
    then show "moves cr s (snd (authenticate_token cr cfg t s))"
      by (auto simp: authenticate_token_def split: option.splits dest!: found intro!: moves_commit_return)
    show "authenticate_token cr cfg t s = (Inr p, s1) \<Longrightarrow> present p s1"
      by (auto simp: authenticate_token_def present_def put_user_session_def commit_return_Inr objs_def
          split: option.splits if_splits dest!: found)
  qed
  show "moves cr s (snd (get_principal cr cfg scopes creds s))"
    using keys(1) token(1) by (auto simp: get_principal_def split: prod.splits option.splits list.splits)
  show "get_principal cr cfg scopes creds s = (Inr p, s1) \<Longrightarrow> present p s1"
    using keys(2) token(2) by (auto simp: get_principal_def split: prod.splits option.splits list.splits)
qed

section \<open>Public requests\<close>

lemma moves_register: "moves cr s (snd (register cr cfg accepted email password s))"
proof -
  have "moves cr s (add_user u (draw (draw s)))" for u
    by (rule moves_step [OF moves_draw [OF moves_draw [OF moves_refl]] adds_user])
  then have flushed: "moves cr s (snd (flush_session (add_user u (draw (draw s)))))" for u by (rule moves_flush)
  have ended: "moves cr s1 (snd (commit_return x (add_one_time r (draw s1))))" "moves cr s1 (rollback (add_one_time r (draw s1)))"
    for s1 r and x :: "string option"
    by (rule moves_commit_return [OF moves_add_token], rule moves_step [OF moves_add_token rolls_back])
  show ?thesis
    by (auto simp: register_def Let_def intro!: moves_sbind flushed ended)
qed

lemma moves_redeemed:
  assumes "redeem cr purpose raw s = Some (r, Some u)" "clock s1 = clock s" "t_identity (cur s1) = t_identity (cur s)"
  shows "move cr s1 (used_now r s1)"
  using assms by (auto simp: used_now_def dest!: found intro: uses_token)

lemma moves_verify_email: "moves cr s (snd (verify_email cr raw s))"
proof -
  have "moves cr s (used_now r (put_user (u\<lparr>u_is_verified := True\<rparr>) s))"
    if f: "redeem cr ''VERIFY_EMAIL'' raw s = Some (r, Some u)" for r u
  proof -
    have "move cr s (put_user (u\<lparr>u_is_verified := True\<rparr>) s)"
      by (rule writes_user [of u]) (use found(6) [OF f] in simp_all)
    then show ?thesis using moves_redeemed [OF f] by (auto intro: moves_step)
  qed
  then show ?thesis by (auto simp: verify_email_def split: option.splits intro!: moves_commit_return)
qed

lemma moves_renew:
  assumes "r0 \<in> set (rows (t_sessions (t_identity (cur s))))" "us_id r = us_id r0" "us_user_id r = us_user_id r0"
    "us_revoked_at r = us_revoked_at r0"
  shows "moves cr s (snd (renew cr cfg u r s))"
  using assms by (auto simp: renew_def new_refresh_token_def Let_def intro!: moves_step [OF moves_refl] rotates_session)

lemma moves_issue: "moves cr s (snd (issue cr cfg agent host u s))"
proof -
  have "moves cr s (add_session r (draw s))" for r by (rule moves_step [OF moves_draw [OF moves_refl] adds_session])
  then have flushed: "moves cr s (snd (flush_session (add_session r (draw s))))" for r by (rule moves_flush)
  have row: "r \<in> set (rows (t_sessions (t_identity (cur s1))))"
    if "flush_session (add_session r (draw s)) = (Inr x, s1)" for r x s1
    using that by (auto simp: flush_session_def add_session_def flush_def objs_def split: sum.splits if_splits)
  have "moves cr s1 (snd (renew cr cfg u r s1))" if "flush_session (add_session r (draw s)) = (Inr x, s1)" for r x s1
    by (rule moves_renew [OF row [OF that]]) simp_all
  then show ?thesis
    by (auto simp: issue_def Let_def split_beta intro!: moves_sbind flushed)
qed

lemma second_factor_keeps:
  "second_factor cr cfg now u code = Inr (Some u') \<Longrightarrow>
   u_id u' = u_id u \<and> u_email u' = u_email u \<and> u_locked_until u' = u_locked_until u \<and>
   set (u_recovery_code_hashes u') \<subseteq> set (u_recovery_code_hashes u)"
  by (auto simp: second_factor_def consume_recovery_code_def Let_def split: if_splits option.splits list.splits sum.splits)

lemma moves_login: "moves cr s (snd (login cr cfg agent host email password code s))"
proof -
  have written: "moves cr s (put_user u' s)"
    if "user_by_email (cur s) e = Some u" "\<not> locked (clock s) u" "u_id u' = u_id u" "u_email u' = u_email u"
      "set (u_recovery_code_hashes u') \<subseteq> set (u_recovery_code_hashes u)" for e u u'
    by (rule moves_step [OF moves_refl], rule writes_user [of u]) (use that in \<open>auto dest: found\<close>)
  have failed: "u_id (failed_login now u) = u_id u \<and> u_email (failed_login now u) = u_email u \<and>
      u_recovery_code_hashes (failed_login now u) = u_recovery_code_hashes u" for now u
    by (simp add: failed_login_def Let_def)
  show ?thesis
    by (auto simp: login_def Let_def failed split: option.splits sum.splits bool.splits dest!: second_factor_keeps
        intro!: moves_commit_raise moves_sbind moves_commit_return written moves_then [OF written moves_issue])
qed

lemma moves_refresh: "moves cr s (snd (refresh cr cfg token s))"
proof -
  have "move cr s (put_user_session (r\<lparr>us_revoked_at := Some (clock s)\<rparr>) s)" if "find_user_session (cur s) sid = Some r" for r sid
    using found(3) [OF that] by (auto intro: writes_session)
  moreover have "moves cr s (snd (renew cr cfg u (r\<lparr>us_last_seen_at := now\<rparr>) s))" if "find_user_session (cur s) sid = Some r" for r u sid now
    using found(3) [OF that] by (auto intro: moves_renew)
  ultimately show ?thesis
    by (auto simp: refresh_def split_beta split: option.splits intro!: moves_commit_raise moves_commit_return)
qed

lemma moves_forgot: "moves cr s (snd (forgot cr cfg accepted email s))"
proof -
  have "moves cr s (snd (commit_return x (add_one_time r (draw s))))" "moves cr s (rollback (add_one_time r (draw s)))"
    for r and x :: "string option"
    by (rule moves_commit_return [OF moves_add_token], rule moves_step [OF moves_add_token rolls_back])
  then show ?thesis by (auto simp: forgot_def Let_def split: option.splits)
qed

lemma moves_reset: "moves cr s (snd (reset cr raw password s))"
proof -
  have "moves cr s (revoke_sessions P (used_now r (put_user (u\<lparr>u_password_hash := h\<rparr>) (draw s))))"
    if f: "redeem cr ''RESET_PASSWORD'' raw s = Some (r, Some u)" for r u P h
  proof -
    have "move cr (draw s) (put_user (u\<lparr>u_password_hash := h\<rparr>) (draw s))"
      by (rule writes_user [of u]) (use found(6) [OF f] in simp_all)
    moreover have "move cr (put_user (u\<lparr>u_password_hash := h\<rparr>) (draw s)) (used_now r (put_user (u\<lparr>u_password_hash := h\<rparr>) (draw s)))"
      by (rule moves_redeemed [OF f]) simp_all
    ultimately show ?thesis by (rule moves_step [OF moves_step [OF moves_step [OF moves_draw [OF moves_refl]]] revokes])
  qed
  then show ?thesis by (auto simp: reset_def split: option.splits intro!: moves_commit_return)
qed

lemma moves_consume_ticket: "moves cr s (snd (consume_ticket cr raw s))"
proof -
  have "move cr s (put_ticket (r\<lparr>wt_used_at := Some (clock s)\<rparr>) s)" if "find_ticket cr (cur s) raw = Some r" for r
    using found(7) [OF that] by (auto intro: uses_ticket)
  then show ?thesis by (auto simp: consume_ticket_def split: option.splits intro!: moves_commit_return)
qed

section \<open>Connecting a broker\<close>

lemma moves_elsewhere:
  "t_users d = t_users (cur s) \<Longrightarrow> t_identity d = t_identity (cur s) \<Longrightarrow> moves cr s (s\<lparr>cur := d\<rparr>)"
  by (rule moves_step [OF moves_refl elsewhere])

lemma moves_save_connection: "moves cr s (save_connection b s)"
  unfolding save_connection_def by (rule moves_elsewhere) (simp_all add: put_connection_def)

lemma moves_scoped: "(\<And>s. moves cr s (snd (f s))) \<Longrightarrow> moves cr s (snd (scoped p needed f s))"
  by (simp add: scoped_def split: option.splits)

lemma moves_connect_broker: "moves cr s (snd (connect_broker cr pr cfg oauth b p s))"
proof -
  have "moves cr s (add_oauth_state r (draw s))" for r s
    by (rule moves_step [OF moves_draw [OF moves_refl] adds_state])
  then show ?thesis
    unfolding connect_broker_def Let_def
    by (intro moves_scoped) (auto intro: moves_commit_return moves_draw split: sum.splits prod.splits)
qed

lemma moves_account_for: "moves cr s (snd (account_for r secret s))"
  by (auto simp: account_for_def Let_def split: option.splits
      intro!: moves_then [OF moves_draw [OF moves_refl] moves_elsewhere])

lemma moves_store_credentials: "moves cr s (snd (store_credentials cr pr parse_iso cfg r credentials s))"
proof -
  have "moves cr s1 (snd (sbind (flush_session (save_connection b s1)) (\<lambda>_. commit_return BrokerConnected)))" for b s1
    by (rule moves_sbind [OF moves_flush [OF moves_save_connection]]) (rule moves_commit_return [OF moves_refl])
  then have "moves cr s (snd (sbind (flush_session (save_connection b (snd (account_for r secret s)))) (\<lambda>_. commit_return BrokerConnected)))"
    for b secret
    by (rule moves_then [OF moves_account_for])
  then show ?thesis
    by (simp add: store_credentials_def split_beta moves_account_for split: sum.split)
qed

lemma moves_broker_callback:
  "moves cr s (snd (broker_callback cr pr parse_iso cfg oauth b state code auth_code token_id cookie s))"
proof -
  have used: "moves cr s (put_oauth_state (r\<lparr>os_used_at := Some (clock s)\<rparr>) s)"
    if "find_oauth_state cr (cur s) raw b = Some r" for r raw
    by (rule moves_step [OF moves_refl], rule uses_state [of r]) (use found(8) [OF that] in simp_all)
  have stored: "moves cr s (snd (store_credentials cr pr parse_iso cfg r credentials (put_oauth_state (r\<lparr>os_used_at := Some (clock s)\<rparr>) s)))"
    if "find_oauth_state cr (cur s) raw b = Some r" for r raw credentials
    by (rule moves_then [OF used [OF that] moves_store_credentials])
  show ?thesis
    by (simp add: broker_callback_def Let_def used stored moves_commit_return split: option.split sum.split exn.split)
qed

lemma moves_connection_requests:
  "moves cr s (snd (test_connection cr pr cfg oauth bid p s))"
  "moves cr s (snd (reconnect cr pr cfg oauth bid p s))"
  "moves cr s (snd (disconnect cr cfg bid p s))"
proof -
  show "moves cr s (snd (test_connection cr pr cfg oauth bid p s))"
    unfolding test_connection_def
    by (rule moves_scoped) (auto intro!: moves_commit_return moves_save_connection split: sum.splits)
  show "moves cr s (snd (reconnect cr pr cfg oauth bid p s))"
    unfolding reconnect_def
    by (rule moves_scoped)
      (auto intro!: moves_sbind moves_connect_broker moves_commit_return split: sum.splits)
  show "moves cr s (snd (disconnect cr cfg bid p s))"
    unfolding disconnect_def
    by (rule moves_scoped) (auto intro!: moves_commit_return moves_save_connection split: sum.splits)
qed

section \<open>Requests of a principal\<close>

text \<open>A change of the user's own row that leaves the identity, the lock and no new recovery code.\<close>

lemma moves_own_row:
  assumes "present p s" "u_id u = u_id (pn_user p)" "u_email u = u_email (pn_user p)"
    "u_locked_until u = u_locked_until (pn_user p)"
    "set (u_recovery_code_hashes u) \<subseteq> set (u_recovery_code_hashes (pn_user p))"
  shows "moves cr s (put_user u s)"
  by (rule moves_step [OF moves_refl], rule writes_user [of "pn_user p"]) (use assms in \<open>simp_all add: present_def\<close>)

lemma present_draw: "present p s \<Longrightarrow> present p (draw s)"
  by (simp add: present_def)

lemma moves_mfa:
  assumes "present p s"
  shows "moves cr s (snd (mfa_setup cr cfg p s))" "moves cr s (snd (mfa_verify cr cfg p code s))"
    "moves cr s (snd (mfa_disable cr cfg p password code s))"
proof -
  note own = moves_own_row [OF assms] moves_then [OF moves_draw [OF moves_refl] moves_own_row [OF present_draw [OF assms]]]
  show "moves cr s (snd (mfa_setup cr cfg p s))"
    by (auto simp: mfa_setup_def intro!: moves_commit_return moves_draw own split: sum.splits)
  show "moves cr s (snd (mfa_disable cr cfg p password code s))"
    by (auto simp: mfa_disable_def intro!: moves_commit_return own split: sum.splits bool.splits)
  have "move cr s (put_user u (snd (draws 8 s)))"
    if "u = (pn_user p)\<lparr>u_mfa_enabled := True, u_recovery_code_hashes := snd (new_recovery_codes cr (fst (draws 8 s)))\<rparr>" for u
    using assms that
    by (auto simp: present_def new_recovery_codes_def Let_def intro: new_codes [of "pn_user p"])
  then show "moves cr s (snd (mfa_verify cr cfg p code s))"
    by (auto simp: mfa_verify_def split_beta Let_def intro!: moves_commit_return split: sum.splits bool.splits)
qed

lemma moves_change_password:
  assumes "present p s"
  shows "moves cr s (snd (change_password cr p old new s))"
proof -
  have "moves cr s (revoke_sessions P (put_user ((pn_user p)\<lparr>u_password_hash := h\<rparr>) (draw s)))" for P h
    by (rule moves_step [OF moves_then [OF moves_draw [OF moves_refl] moves_own_row [OF present_draw [OF assms]]] revokes])
      simp_all
  then show ?thesis
    by (auto simp: change_password_def intro!: moves_commit_return split: sum.splits bool.splits)
qed

lemma moves_new_key:
  assumes "fresh_key cr cfg uid name scopes expires rotated s = ((k, full), s')"
  shows "moves cr s (add_key k s')"
    "k0 \<in> set (rows (t_api_keys (t_identity (cur s)))) \<Longrightarrow> ak_public_id old = ak_public_id k0 \<Longrightarrow>
     ak_status old \<noteq> KeyACTIVE \<Longrightarrow> moves cr s (add_key k (put_key old s'))"
proof -
  have k: "ak_public_id k = fresh s" "s' = draw (draw (draw s))"
    using assms by (auto simp: fresh_key_def new_api_key_def Let_def)
  show "moves cr s (add_key k s')" unfolding k(2) by (rule moves_step [OF moves_refl adds_key]) (rule k(1))
  assume old: "k0 \<in> set (rows (t_api_keys (t_identity (cur s))))" "ak_public_id old = ak_public_id k0" "ak_status old \<noteq> KeyACTIVE"
  have "move cr s (put_key old s)" using old by (auto intro: writes_key)
  moreover have "move cr (put_key old s) (add_key k (draw (draw (draw (put_key old s)))))"
    by (rule adds_key) (simp add: k fresh_def put_key_def on_identity_def)
  moreover have "draw (draw (draw (put_key old s))) = put_key old s'" by (simp add: k put_key_def)
  ultimately show "moves cr s (add_key k (put_key old s'))" by (auto intro: moves_step)
qed

lemma moves_keys:
  "moves cr s (snd (create_key cr cfg p name scopes expires s))" "moves cr s (snd (rotate cr cfg p kid s))"
  "moves cr s (snd (revoke_key p kid s))" "moves cr s (snd (delete_key p kid s))"
proof -
  have flushed: "moves cr s (snd (sbind (flush_session s1) (\<lambda>_. commit_return x)))" if "moves cr s s1"
    for s1 and x :: "api_key \<times> string"
    by (rule moves_sbind [OF moves_flush [OF that]]) (rule moves_commit_return [OF moves_refl])
  show "moves cr s (snd (create_key cr cfg p name scopes expires s))"
    by (auto simp: create_key_def intro!: flushed moves_new_key(1) split: prod.splits)
  show "moves cr s (snd (rotate cr cfg p kid s))"
    by (auto simp: rotate_def dest!: found(5) intro!: flushed moves_new_key(2) split: prod.splits sum.splits)
  show "moves cr s (snd (revoke_key p kid s))"
    by (auto simp: revoke_key_def revoked_key_def dest!: found(5) split: sum.splits
        intro!: moves_commit_return moves_step [OF moves_refl writes_key])
  show "moves cr s (snd (delete_key p kid s))"
    by (auto simp: delete_key_def split: sum.splits intro!: moves_commit_return moves_step [OF moves_refl deletes_key])
qed

lemma moves_sessions:
  "moves cr s (snd (logout p s))" "moves cr s (snd (logout_all p s))" "moves cr s (snd (revoke_session p sid s))"
proof -
  have revoked: "moves cr s (put_user_session (r\<lparr>us_revoked_at := Some (clock s)\<rparr>) s)"
    if "find_user_session (cur s) x = Some r" for r x
    by (rule moves_step [OF moves_refl], rule writes_session [of r]) (use found(3) [OF that] in simp_all)
  show "moves cr s (snd (logout p s))"
    by (auto simp: logout_def split: option.splits intro!: moves_commit_return intro: revoked)
  show "moves cr s (snd (logout_all p s))"
    by (auto simp: logout_all_def intro!: moves_commit_return moves_step [OF moves_refl revokes])
  show "moves cr s (snd (revoke_session p sid s))"
    by (auto simp: revoke_session_def split: option.splits intro!: moves_commit_return intro: revoked)
qed

lemma moves_websocket_ticket: "moves cr s (snd (websocket_ticket cr cfg p s))"
  unfolding websocket_ticket_def
  by (rule moves_commit_return, rule moves_step [OF moves_draw [OF moves_draw [OF moves_refl]] adds_ticket])

lemma moves_admin_update: "moves cr s (snd (admin_update_user admin uid r active s))"
proof -
  have "moves cr s (put_user (apply_admin r active u) s)" if "find_user (cur s) uid = Some u" for u
    by (rule moves_step [OF moves_refl], rule writes_user [of u])
      (use found(1) [OF that] in \<open>simp_all add: apply_admin_def\<close>)
  then show ?thesis
    by (auto simp: admin_update_user_def Let_def split: option.splits intro!: moves_commit_return)
qed

section \<open>Every request is a sequence of moves\<close>

lemma moves_public: "moves cr s (snd (public_op cr cfg oauth w c s))"
  by (cases c) (simp_all add: moves_register moves_verify_email moves_login moves_refresh moves_forgot moves_reset
      moves_broker_callback moves_consume_ticket)

lemma moves_session_op: "present p s \<Longrightarrow> moves cr s (snd (session_op cr cfg c p s))"
  by (cases c) (simp_all add: moves_sessions moves_mfa moves_keys moves_change_password)

lemma moves_api_op: "moves cr s (snd (api_op cr cfg oauth w c p s))"
  by (cases c) (simp_all add: moves_websocket_ticket moves_connect_broker moves_connection_requests)

lemma moves_require_session:
  "moves cr s (snd (require_session cr cfg creds s))"
  "require_session cr cfg creds s = (Inr p, s1) \<Longrightarrow> present p s1"
  by (auto simp: require_session_def sbind_Inr split: if_splits
      intro!: moves_sbind moves_authenticate(1) dest: moves_authenticate(2))

lemma moves_require_admin: "moves cr s (snd (require_admin cr cfg creds s))"
  by (auto simp: require_admin_def intro!: moves_sbind moves_authenticate(1))

theorem moves_request:
  assumes "\<And>ev'. ev \<noteq> Trade ev'"
  shows "moves cr s (snd (snd (identity_request cr cfg oauth w ev (lmt, s))))"
proof -
  have closed_after: "moves cr s (rollback s1)" if "moves cr s s1" for s1
    by (rule moves_step [OF that rolls_back])
  show ?thesis
  proof (cases ev)
    case (Public c tick)
    then show ?thesis
      by (auto simp: Let_def split_beta moves_public split: sum.splits intro!: closed_after)
  next
    case (SessionRequest creds c)
    have "moves cr s (snd (sbind (require_session cr cfg creds s) (session_op cr cfg c)))"
      by (rule moves_sbind [OF moves_require_session(1)]) (simp add: moves_session_op moves_require_session(2))
    then show ?thesis by (simp add: SessionRequest split_beta closed_after)
  next
    case (ApiRequest creds c)
    have "moves cr s (snd (sbind (get_principal cr cfg (api_scopes c) creds s) (api_op cr cfg oauth w c)))"
      by (rule moves_sbind [OF moves_authenticate(1) moves_api_op])
    then show ?thesis by (simp add: ApiRequest split_beta closed_after)
  next
    case (AdminRequest creds uid r active)
    have "moves cr s (snd (sbind (require_admin cr cfg creds s) (\<lambda>admin s. discard (admin_update_user admin uid r active s))))"
      by (rule moves_sbind [OF moves_require_admin]) (simp add: moves_admin_update)
    then show ?thesis by (simp add: AdminRequest split_beta closed_after)
  qed (use assms in blast)
qed

end
