(* ===== verification/CredentialFacts.thy ===== *)
theory CredentialFacts
  imports CredentialMoves
begin

text \<open>
  What stays true of a credential once it is true: a revoked session, a used token, OAuth state or ticket, a key that
  is not active, a recovery code or refresh digest that is gone, and a lock until its time.  Every move of
  \<open>CredentialMoves\<close> keeps these facts and trading does not touch them, so every run of requests keeps them.
\<close>

section \<open>Facts\<close>

datatype fact =
    Revoked string
  | TokenUsed string
  | StateUsed string
  | TicketUsed string
  | KeyDead string
  | CodeGone string string
  | Rotated string string
  | LockedUntil string instant

text \<open>Sessions by id, tokens, states and tickets by digest, keys by public id, users by id or email.\<close>

fun holds :: "db \<Rightarrow> fact \<Rightarrow> bool" where
  "holds d (Revoked sid) =
     (\<exists>r \<in> set (rows (t_sessions (t_identity d))). us_id r = sid \<and> us_revoked_at r \<noteq> None)"
| "holds d (TokenUsed h) =
     (\<exists>r \<in> set (rows (t_one_time_tokens (t_identity d))). ot_token_hash r = h \<and> ot_used_at r \<noteq> None)"
| "holds d (StateUsed h) =
     (\<exists>r \<in> set (rows (t_oauth_states (t_identity d))). os_state_hash r = h \<and> os_used_at r \<noteq> None)"
| "holds d (TicketUsed h) =
     (\<exists>r \<in> set (rows (t_tickets (t_identity d))). wt_token_hash r = h \<and> wt_used_at r \<noteq> None)"
| "holds d (KeyDead pid) =
     (\<forall>k \<in> set (objs (t_api_keys (t_identity d))). ak_public_id k = pid \<longrightarrow> ak_status k \<noteq> KeyACTIVE)"
| "holds d (CodeGone uid h) =
     (\<exists>u \<in> set (rows (t_users d)). u_id u = uid \<and> h \<notin> set (u_recovery_code_hashes u))"
| "holds d (Rotated sid h) =
     (\<exists>r \<in> set (rows (t_sessions (t_identity d))). us_id r = sid \<and> us_refresh_token_hash r \<noteq> h)"
| "holds d (LockedUntil email t) =
     (\<exists>u \<in> set (rows (t_users d)). u_email u = email \<and> u_locked_until u = Some t)"

text \<open>The texts still to be drawn do not collide with what is spent; a lock counts until its time.\<close>

fun unrepeated :: "crypto \<Rightarrow> session \<Rightarrow> fact \<Rightarrow> bool" where
  "unrepeated cr s (KeyDead pid) = (\<forall>n\<ge>drawn s. uuids s n \<noteq> pid)"
| "unrepeated cr s (CodeGone uid h) = (\<forall>n\<ge>drawn s. cr_sha256 cr (py_upper (uuids s n)) \<noteq> h)"
| "unrepeated cr s (Rotated sid h) = (\<forall>n\<ge>drawn s. cr_sha256 cr (uuids s n) \<noteq> h)"
| "unrepeated cr s _ = True"

fun in_time :: "session \<Rightarrow> fact \<Rightarrow> bool" where
  "in_time s (LockedUntil email t) = (clock s < t)"
| "in_time s _ = True"

definition keyed :: "db \<Rightarrow> bool" where
  "keyed d \<longleftrightarrow>
     distinct (map us_id (rows (t_sessions (t_identity d)))) \<and>
     distinct (map ot_token_hash (rows (t_one_time_tokens (t_identity d)))) \<and>
     distinct (map os_state_hash (rows (t_oauth_states (t_identity d)))) \<and>
     distinct (map wt_token_hash (rows (t_tickets (t_identity d)))) \<and>
     distinct (map u_id (rows (t_users d))) \<and> distinct (map u_email (rows (t_users d)))"

lemma keyed_flush: "constraints d \<Longrightarrow> keyed (flush_all d)"
  by (simp add: keyed_def constraints_def identity_constraints_def)

lemma holds_flush: "holds d f \<Longrightarrow> holds (flush_all d) f"
  by (cases f) (auto simp: objs_def)

lemma same_tables:
  "t_users d' = t_users d \<Longrightarrow> t_identity d' = t_identity d \<Longrightarrow> keyed d' = keyed d"
  "t_users d' = t_users d \<Longrightarrow> t_identity d' = t_identity d \<Longrightarrow> holds d' f = holds d f"
  by (simp add: keyed_def) (cases f; simp)

section \<open>A move keeps a fact\<close>

text \<open>A row with a property is still there after an update that keeps the property of the row it replaces.\<close>

lemma stays_put:
  assumes "\<exists>x \<in> set xs. P x" "distinct (map key xs)" "r0 \<in> set xs" "key r = key r0" "P r0 \<Longrightarrow> P r"
  shows "\<exists>x \<in> set (upd_by key r xs). P x"
proof -
  obtain x where x: "x \<in> set xs" "P x" using assms(1) by blast
  show ?thesis
  proof (cases "key x = key r")
    case True
    then have "x = r0" using distinct_map_eqD [OF assms(2) x(1) assms(3)] assms(4) by simp
    then show ?thesis using x assms(5) in_upd_by_self [OF x(1) True] by blast
  next
    case False
    then show ?thesis using x in_upd_by_other [OF x(1) False] by blast
  qed
qed

lemma users_keyed:
  assumes "keyed d" "u0 \<in> set (rows (t_users d))" "u_id u = u_id u0" "u_email u = u_email u0"
  shows "keyed (d\<lparr>t_users := put_row u_id u (t_users d)\<rparr>)"
proof -
  have "map u_email (upd_by u_id u (rows (t_users d))) = map u_email (rows (t_users d))"
    using assms distinct_map_eqD [of u_id "rows (t_users d)"] by (intro map_upd_by_cong) (auto simp: keyed_def)
  then show ?thesis using assms(1) by (simp add: keyed_def)
qed

definition kept :: "crypto \<Rightarrow> fact \<Rightarrow> session \<Rightarrow> bool" where
  "kept cr f s \<longleftrightarrow>
     keyed (cur s) \<and> keyed (saved s) \<and> unrepeated cr s f \<and>
     flush_identity (t_identity (saved s)) = t_identity (saved s) \<and> flush_table (t_users (saved s)) = t_users (saved s) \<and>
     (in_time s f \<longrightarrow> holds (cur s) f \<and> holds (saved s) f)"

lemma move_supplied: "move cr s s' \<Longrightarrow> supplied s s'"
  by (induction rule: move.induct)
    (auto simp: supplied_def draws_def add_user_def put_user_def on_identity_def add_session_def put_user_session_def
      revoke_sessions_def add_one_time_def put_one_time_def add_oauth_state_def put_oauth_state_def add_ticket_def
      put_ticket_def add_key_def put_key_def rollback_def draw_def)

lemma supplied_facts:
  assumes "supplied s s'"
  shows "unrepeated cr s f \<Longrightarrow> unrepeated cr s' f" "in_time s' f = in_time s f"
  using assms by (cases f; auto simp: supplied_def)+

text \<open>A move that leaves the durable state.\<close>

lemma kept_write:
  assumes "kept cr f s" "supplied s s'" "saved s' = saved s"
    and "keyed (cur s) \<Longrightarrow> keyed (cur s')"
    and "keyed (cur s) \<Longrightarrow> in_time s f \<Longrightarrow> unrepeated cr s f \<Longrightarrow> holds (cur s) f \<Longrightarrow> holds (cur s') f"
  shows "kept cr f s'"
  using assms supplied_facts [OF assms(2)] by (auto simp: kept_def)

lemmas written_rows = add_user_def put_user_def on_identity_def add_session_def put_user_session_def
  revoke_sessions_def add_one_time_def put_one_time_def add_oauth_state_def put_oauth_state_def add_ticket_def
  put_ticket_def add_key_def put_key_def

text \<open>The writes that leave the rows with a spent credential alone.\<close>

lemma holds_other:
  assumes "t_users d' = t_users d"
    "rows (t_sessions (t_identity d')) = rows (t_sessions (t_identity d))"
    "rows (t_one_time_tokens (t_identity d')) = rows (t_one_time_tokens (t_identity d))"
    "rows (t_oauth_states (t_identity d')) = rows (t_oauth_states (t_identity d))"
    "rows (t_tickets (t_identity d')) = rows (t_tickets (t_identity d))"
    "t_api_keys (t_identity d') = t_api_keys (t_identity d)"
  shows "keyed d' = keyed d" "holds d' f = holds d f"
  using assms by (simp add: keyed_def) (cases f; simp add: assms)

lemma user_write_holds:
  assumes "keyed d" "u0 \<in> set (rows (t_users d))" "u_id u = u_id u0" "u_email u = u_email u0" "holds d f"
    and "\<And>email t. f = LockedUntil email t \<Longrightarrow> u_locked_until u0 = Some t \<Longrightarrow> u_locked_until u = Some t"
    and "\<And>uid h. f = CodeGone uid h \<Longrightarrow> h \<notin> set (u_recovery_code_hashes u0) \<Longrightarrow> h \<notin> set (u_recovery_code_hashes u)"
  shows "holds (d\<lparr>t_users := put_row u_id u (t_users d)\<rparr>) f"
proof (cases f)
  case (CodeGone uid h)
  have "\<exists>x\<in>set (upd_by u_id u (rows (t_users d))). u_id x = uid \<and> h \<notin> set (u_recovery_code_hashes x)"
    by (rule stays_put [of _ _ _ u0]) (use assms CodeGone in \<open>auto simp: keyed_def\<close>)
  then show ?thesis by (simp add: CodeGone)
next
  case (LockedUntil email t)
  have "\<exists>x\<in>set (upd_by u_id u (rows (t_users d))). u_email x = email \<and> u_locked_until x = Some t"
    by (rule stays_put [of _ _ _ u0]) (use assms LockedUntil in \<open>auto simp: keyed_def\<close>)
  then show ?thesis by (simp add: LockedUntil)
qed (use assms(5) in simp_all)

lemma session_write_holds:
  assumes "keyed d" "r0 \<in> set (rows (t_sessions (t_identity d)))" "us_id r = us_id r0" "holds d f"
    and "us_revoked_at r0 \<noteq> None \<Longrightarrow> us_revoked_at r \<noteq> None"
    and "\<And>sid h. f = Rotated sid h \<Longrightarrow> us_refresh_token_hash r0 \<noteq> h \<Longrightarrow> us_refresh_token_hash r \<noteq> h"
  shows "holds (d\<lparr>t_identity := (t_identity d)\<lparr>t_sessions := put_row us_id r (t_sessions (t_identity d))\<rparr>\<rparr>) f"
proof (cases f)
  case (Revoked sid)
  have "\<exists>x\<in>set (upd_by us_id r (rows (t_sessions (t_identity d)))). us_id x = sid \<and> us_revoked_at x \<noteq> None"
    by (rule stays_put [of _ _ _ r0]) (use assms Revoked in \<open>auto simp: keyed_def\<close>)
  then show ?thesis by (simp add: Revoked)
next
  case (Rotated sid h)
  have "\<exists>x\<in>set (upd_by us_id r (rows (t_sessions (t_identity d)))). us_id x = sid \<and> us_refresh_token_hash x \<noteq> h"
    by (rule stays_put [of _ _ _ r0]) (use assms Rotated in \<open>auto simp: keyed_def\<close>)
  then show ?thesis by (simp add: Rotated)
qed (use assms(4) in simp_all)

lemma revoke_holds:
  assumes "holds d f"
  shows "holds (d\<lparr>t_identity := (t_identity d)\<lparr>t_sessions := (t_sessions (t_identity d))\<lparr>rows :=
    map (\<lambda>r. if us_revoked_at r = None \<and> P r then r\<lparr>us_revoked_at := Some now\<rparr> else r)
      (rows (t_sessions (t_identity d)))\<rparr>\<rparr>\<rparr>) f"
proof -
  let ?g = "\<lambda>r. if us_revoked_at r = None \<and> P r then r\<lparr>us_revoked_at := Some now\<rparr> else r"
  have some: "\<exists>x\<in>set (map ?g xs). Q x" if q: "\<exists>x\<in>set xs. Q x" "\<And>x. Q x \<Longrightarrow> Q (?g x)" for Q xs
  proof -
    obtain x where "x \<in> set xs" "Q x" using q(1) by blast
    then show ?thesis using q(2) by (intro bexI [of _ "?g x"]) simp_all
  qed
  show ?thesis
  proof (cases f)
    case (Revoked sid)
    then show ?thesis using assms some [of _ "\<lambda>x. us_id x = sid \<and> us_revoked_at x \<noteq> None"] by simp
  next
    case (Rotated sid h)
    then show ?thesis using assms some [of _ "\<lambda>x. us_id x = sid \<and> us_refresh_token_hash x \<noteq> h"] by simp
  qed (use assms in simp_all)
qed

lemma used_holds:
  fixes key :: "'r \<Rightarrow> string" and dead :: "'r \<Rightarrow> bool"
  assumes "\<exists>x\<in>set xs. key x = h \<and> dead x" "dead r"
  shows "\<exists>x\<in>set (upd_by key r xs). key x = h \<and> dead x"
proof -
  obtain x where x: "x \<in> set xs" "key x = h" "dead x" using assms(1) by blast
  show ?thesis
  proof (cases "key x = key r")
    case True
    then show ?thesis using x assms(2) in_upd_by_self [OF x(1) True] by auto
  next
    case False
    then show ?thesis using x in_upd_by_other [OF x(1) False] by blast
  qed
qed

lemma move_kept:
  assumes "move cr s s'" "kept cr f s"
  shows "kept cr f s'"
proof -
  note written = kept_write [OF assms(2) move_supplied [OF assms(1)]]
  have other: ?thesis
    if "saved s' = saved s" "t_users (cur s') = t_users (cur s)"
      "rows (t_sessions (t_identity (cur s'))) = rows (t_sessions (t_identity (cur s)))"
      "rows (t_one_time_tokens (t_identity (cur s'))) = rows (t_one_time_tokens (t_identity (cur s)))"
      "rows (t_oauth_states (t_identity (cur s'))) = rows (t_oauth_states (t_identity (cur s)))"
      "rows (t_tickets (t_identity (cur s'))) = rows (t_tickets (t_identity (cur s)))"
      "t_api_keys (t_identity (cur s')) = t_api_keys (t_identity (cur s))"
    by (rule written) (use holds_other [OF that(2-7)] that(1) in simp_all)
  from assms(1) show ?thesis
  proof cases
    case flushes
    show ?thesis by (rule written) (simp_all add: flushes keyed_flush holds_flush)
  next
    case commits
    then show ?thesis
      using assms(2) supplied_facts [OF move_supplied [OF assms(1)]]
      by (simp add: kept_def keyed_flush holds_flush)
  next
    case rolls_back
    then show ?thesis
      using assms(2) supplied_facts [OF move_supplied [OF assms(1)]] by (simp add: kept_def)
  next
    case (adds_user u)
    show ?thesis by (rule written; cases f; simp add: adds_user add_user_def keyed_def)
  next
    case (writes_user u0 u)
    show ?thesis
    proof (rule written)
      show "saved s' = saved s" by (simp add: writes_user)
      show "keyed (cur s')" if "keyed (cur s)"
        using users_keyed [OF that writes_user(2-4)] by (simp add: writes_user put_user_def)
      show "holds (cur s') f" if "keyed (cur s)" "in_time s f" "unrepeated cr s f" "holds (cur s) f"
        using user_write_holds [OF that(1) writes_user(2-4) that(4)] writes_user(5,6) that(2)
        by (simp add: writes_user(1) put_user_def locked_def) (metis (no_types) in_time.simps(1) option.simps(5) subsetD)
    qed
  next
    case (new_codes u0 u n)
    have cur: "cur s' = (cur s)\<lparr>t_users := put_row u_id u (t_users (cur s))\<rparr>"
      by (simp add: new_codes put_user_def draws_def)
    show ?thesis
    proof (rule written)
      show "saved s' = saved s" by (simp add: new_codes draws_def)
      show "keyed (cur s')" if "keyed (cur s)" using users_keyed [OF that new_codes(2-4)] by (simp add: cur)
      show "holds (cur s') f" if "keyed (cur s)" "in_time s f" "unrepeated cr s f" "holds (cur s) f"
        unfolding cur by (rule user_write_holds [OF that(1) new_codes(2-4) that(4)])
          (use new_codes(5,6) that(3) in \<open>auto simp: draws_def\<close>)
    qed
  next
    case (writes_session r0 r)
    have cur: "cur s' = (cur s)\<lparr>t_identity := (t_identity (cur s))\<lparr>t_sessions := put_row us_id r (t_sessions (t_identity (cur s)))\<rparr>\<rparr>"
      by (simp add: writes_session put_user_session_def on_identity_def)
    show ?thesis
    proof (rule written)
      show "saved s' = saved s" by (simp add: writes_session put_user_session_def)
      show "keyed (cur s')" if "keyed (cur s)" using that by (simp add: cur keyed_def)
      show "holds (cur s') f" if "keyed (cur s)" "in_time s f" "unrepeated cr s f" "holds (cur s) f"
        unfolding cur by (rule session_write_holds [OF that(1) writes_session(2,3) that(4)])
          (use writes_session(5,6) in simp_all)
    qed
  next
    case (rotates_session r0 r)
    have cur: "cur s' = (cur s)\<lparr>t_identity := (t_identity (cur s))\<lparr>t_sessions := put_row us_id r (t_sessions (t_identity (cur s)))\<rparr>\<rparr>"
      by (simp add: rotates_session put_user_session_def on_identity_def draw_def)
    show ?thesis
    proof (rule written)
      show "saved s' = saved s" by (simp add: rotates_session put_user_session_def)
      show "keyed (cur s')" if "keyed (cur s)" using that by (simp add: cur keyed_def)
      show "holds (cur s') f" if "keyed (cur s)" "in_time s f" "unrepeated cr s f" "holds (cur s) f"
        unfolding cur by (rule session_write_holds [OF that(1) rotates_session(2,3) that(4)])
          (use rotates_session(5,6) that(3) in \<open>auto simp: fresh_def\<close>)
    qed
  next
    case (revokes P)
    show ?thesis
      by (rule written) (simp_all add: revokes revoke_sessions_def on_identity_def revoke_holds keyed_def o_def
          if_distrib cong: if_cong)
  next
    case (uses_token r0 r)
    show ?thesis
      by (rule written; cases f; simp add: uses_token(1,4) put_one_time_def on_identity_def keyed_def used_holds del: not_None_eq)
  next
    case (uses_state r0 r)
    show ?thesis
      by (rule written; cases f; simp add: uses_state(1,4) put_oauth_state_def on_identity_def keyed_def used_holds del: not_None_eq)
  next
    case (uses_ticket r0 r)
    show ?thesis
      by (rule written; cases f; simp add: uses_ticket(1,4) put_ticket_def on_identity_def keyed_def used_holds del: not_None_eq)
  next
    case (adds_key k)
    show ?thesis
      by (rule written; cases f; use adds_key(2) in \<open>auto simp: adds_key(1) add_key_def on_identity_def keyed_def fresh_def\<close>)
  next
    case (writes_key k0 k)
    show ?thesis
      by (rule written; cases f; use writes_key(2-4) in
          \<open>auto simp: writes_key(1) put_key_def on_identity_def keyed_def upd_by_def objs_def\<close>)
  next
    case (deletes_key P)
    show ?thesis
      by (rule written; cases f; auto simp: deletes_key(1) on_identity_def keyed_def objs_def)
  qed (rule other; simp add: written_rows draw_def)+
qed

lemma moves_kept: "moves cr s s' \<Longrightarrow> kept cr f s \<Longrightarrow> kept cr f s'"
  by (induction rule: rtranclp_induct) (auto intro: move_kept)

section \<open>Trading leaves users and credentials alone\<close>

definition accounts :: "db \<Rightarrow> user table \<times> identity_tables" where
  "accounts d = (t_users d, t_identity d)"

interpretation account_tables: order_frame accounts "map_prod flush_table flush_identity"
proof unfold_locales
  show "map_prod flush_table flush_identity (map_prod flush_table flush_identity v) = map_prod flush_table flush_identity v"
    for v by (cases v) simp
qed (simp_all add: accounts_def apply_execution_frame put_connection_def)

text \<open>Between two requests nothing is open; \<open>resting\<close> is what every request keeps.\<close>

definition resting :: "crypto \<Rightarrow> fact \<Rightarrow> session \<Rightarrow> bool" where
  "resting cr f s \<longleftrightarrow> kept cr f s \<and> accounts (cur s) = accounts (saved s)"

lemma kept_later:
  assumes "kept cr f s" "accounts (cur s') = accounts (cur s)" "accounts (saved s') = accounts (saved s)"
    "runs_on s s'"
  shows "kept cr f s'"
proof -
  have "unrepeated cr s f" using assms(1) by (simp add: kept_def)
  then have "unrepeated cr s' f" using assms(4) by (cases f) (auto simp: runs_on_def dest: le_trans)
  moreover have "in_time s' f \<Longrightarrow> in_time s f" using assms(4) by (cases f) (simp_all add: runs_on_def)
  moreover have "t_users (cur s') = t_users (cur s)" "t_identity (cur s') = t_identity (cur s)"
    "t_users (saved s') = t_users (saved s)" "t_identity (saved s') = t_identity (saved s)"
    using assms(2,3) by (simp_all add: accounts_def)
  moreover note same_tables [OF this(1,2)] same_tables [OF this(3,4)]
  ultimately show ?thesis using assms(1) unfolding kept_def by presburger
qed

lemma resting_request:
  assumes "resting cr f (snd st)"
  shows "resting cr f (snd (identity_step cr cfg oauth w ev st))"
proof -
  obtain lmt s where st: "st = (lmt, s)" by (cases st)
  show ?thesis
  proof (cases "\<exists>ev'. ev = Trade ev'")
    case True
    then obtain ev' where ev: "ev = Trade ev'" by blast
    have "calm accounts (map_prod flush_table flush_identity) (accounts (saved s)) s"
      using assms by (simp add: st resting_def kept_def calm_def accounts_def)
    from account_tables.calm_system_step [OF this, of w cfg ev'] assms show ?thesis
      by (auto simp: st ev identity_step_def resting_def calm_def intro: kept_later [of cr f s])
  next
    case False
    then have "moves cr s (snd (snd (identity_request cr cfg oauth w ev (lmt, s))))" by (intro moves_request) blast
    then have "kept cr f (snd (identity_step cr cfg oauth w ev st))"
      using assms by (auto simp: st identity_step_def resting_def dest: moves_kept)
    moreover have "accounts (cur (snd (identity_step cr cfg oauth w ev st))) = accounts (saved (snd (identity_step cr cfg oauth w ev st)))"
      using False assms
      by (cases ev) (auto simp: st identity_step_def resting_def Let_def split_beta split: sum.splits)
    ultimately show ?thesis by (simp add: resting_def)
  qed
qed

interpretation identity_system: preserving "identity_step cr cfg oauth w" "resting cr f \<circ> snd" for cr cfg oauth w f
  by unfold_locales (simp add: resting_request)

text \<open>A durable state with no transaction open: where every run of requests starts and ends.\<close>

definition at_rest :: "session \<Rightarrow> bool" where
  "at_rest s \<longleftrightarrow> cur s = saved s \<and> clean (saved s) \<and> constraints (saved s)"

lemma moves_supplied: "moves cr s s' \<Longrightarrow> supplied s s'"
  by (induction rule: rtranclp_induct) (auto intro: supplied_trans move_supplied)

lemma moves_at_rest: "at_rest s \<Longrightarrow> moves cr s s' \<Longrightarrow> at_rest (rollback s')"
  using moves_supplied [of cr s s'] by (simp add: at_rest_def supplied_def)

lemma at_rest_request:
  assumes "at_rest (snd st)"
  shows "at_rest (snd (identity_step cr cfg oauth w ev st))"
proof -
  obtain lmt s where st: "st = (lmt, s)" by (cases st)
  show ?thesis
  proof (cases "\<exists>ev'. ev = Trade ev'")
    case True
    then obtain ev' where ev: "ev = Trade ev'" by blast
    have "calm accounts (map_prod flush_table flush_identity) (accounts (saved s)) s"
      using assms by (simp add: st at_rest_def clean_def calm_def accounts_def flush_table_fix)
    from account_tables.calm_system_step [OF this, of w cfg ev'] assms
    have "clean (saved (system_step w cfg ev' s)) \<and> constraints (saved (system_step w cfg ev' s))"
      by (simp add: st runs_on_def at_rest_def)
    moreover have "cur (system_step w cfg ev' s) = saved (system_step w cfg ev' s)"
      using assms by (cases ev') (auto simp: st at_rest_def)
    ultimately show ?thesis by (simp add: st ev identity_step_def at_rest_def)
  next
    case False
    then have "moves cr s (snd (snd (identity_request cr cfg oauth w ev (lmt, s))))" by (intro moves_request) blast
    from moves_supplied [OF this]
    have "clean (saved (snd (identity_step cr cfg oauth w ev st))) \<and> constraints (saved (snd (identity_step cr cfg oauth w ev st)))"
      using assms by (simp add: st identity_step_def at_rest_def supplied_def)
    moreover have "cur (snd (identity_step cr cfg oauth w ev st)) = saved (snd (identity_step cr cfg oauth w ev st))"
      using False assms
      by (cases ev) (auto simp: st identity_step_def at_rest_def Let_def split_beta split: sum.splits)
    ultimately show ?thesis by (simp add: at_rest_def)
  qed
qed

interpretation rests: preserving "identity_step cr cfg oauth w" "at_rest \<circ> snd" for cr cfg oauth w
  by unfold_locales (simp add: at_rest_request)

lemma at_rest_keyed: "at_rest s \<Longrightarrow> keyed (saved s)"
  using keyed_flush [of "saved s"] by (simp add: at_rest_def clean_def flush_all_def flush_table_fix [THEN iffD2])

lemma at_rest_resting: "at_rest s \<Longrightarrow> holds (saved s) f \<Longrightarrow> unrepeated cr s f \<Longrightarrow> resting cr f s"
  using at_rest_keyed [of s] by (simp add: resting_def kept_def at_rest_def clean_def flush_table_fix)

lemma fact_after_run:
  assumes "at_rest s" "holds (saved s) f" "unrepeated cr s f"
    and "run_ops (identity_step cr cfg oauth w) evs (lmt, s) = (lmt', s')"
  shows "at_rest s'" "in_time s' f \<Longrightarrow> holds (cur s') f"
  using identity_system.run_keeps [of cr f "(lmt, s)" cfg oauth w evs] at_rest_resting [OF assms(1-3)]
    rests.run_keeps [of "(lmt, s)" cr cfg oauth w evs] assms(1,4)
  by (auto simp: resting_def kept_def)

end
