(* ===== verification/Refusals.thy ===== *)
theory Refusals
  imports CredentialFacts
begin

text \<open>
  What the endpoints answer to a credential of which a fact of \<open>CredentialFacts\<close> holds: \<open>refused\<close>, shown for each
  kind of credential.
\<close>

section \<open>What is answered\<close>

text \<open>How the endpoints treat a credential of which a fact holds, whatever else they are given.\<close>

fun refused ::
  "crypto \<Rightarrow> settings \<Rightarrow> oauth \<Rightarrow> world \<Rightarrow> fact \<Rightarrow> session \<Rightarrow> bool"
where
  "refused cr cfg oauth w (Revoked sid) s \<longleftrightarrow>
     (\<forall>token c. decode_access_token cr cfg (clock s) token = Some c \<longrightarrow> cl_sid c = sid \<longrightarrow>
        authenticate_token cr cfg token s = (Inl (HTTPException 401 ''Session is expired or revoked''), s)) \<and>
     (\<forall>token secret. split_dot token = Some (sid, secret) \<longrightarrow>
        refresh cr cfg token s = (Inl invalid_credentials, s))"
| "refused cr cfg oauth w (TokenUsed h) s \<longleftrightarrow>
     (\<forall>raw. cr_sha256 cr raw = h \<longrightarrow>
        verify_email cr raw s = (Inl (HTTPException 400 ''Invalid or expired verification link''), s) \<and>
        (\<forall>password. validate_password password = None \<longrightarrow>
          reset cr raw password s = (Inl (HTTPException 400 ''Invalid or expired reset link''), s)))"
| "refused cr cfg oauth w (StateUsed h) s \<longleftrightarrow>
     (\<forall>b raw code auth_code token_id cookie. raw \<noteq> [] \<longrightarrow> cr_sha256 cr raw = h \<longrightarrow>
        (\<exists>why. broker_callback cr (w_repr w) (w_isoformat w) cfg oauth b (Some raw) code auth_code token_id cookie s =
          (Inr (CallbackFailed why), s)))"
| "refused cr cfg oauth w (TicketUsed h) s \<longleftrightarrow>
     (\<forall>raw. cr_sha256 cr raw = h \<longrightarrow> consume_ticket cr raw s = (Inr None, s))"
| "refused cr cfg oauth w (KeyDead pid) s \<longleftrightarrow>
     (\<forall>raw before secret scopes. split_dot raw = Some (before, secret) \<longrightarrow> drop_prefix key_prefix before = pid \<longrightarrow>
        authenticate_key cr cfg scopes raw s = (Inl invalid_credentials, s))"
| "refused cr cfg oauth w (CodeGone uid h) s \<longleftrightarrow>
     (\<forall>u code. find_user (cur s) uid = Some u \<longrightarrow> cr_sha256 cr (py_upper code) = h \<longrightarrow>
        consume_recovery_code cr code (u_recovery_code_hashes u) = None)"
| "refused cr cfg oauth w (Rotated sid h) s \<longleftrightarrow>
     (\<forall>token secret. split_dot token = Some (sid, secret) \<longrightarrow> cr_sha256 cr secret = h \<longrightarrow>
        fst (refresh cr cfg token s) = Inl invalid_credentials \<and>
        holds (saved (snd (refresh cr cfg token s))) (Revoked sid))"
| "refused cr cfg oauth w (LockedUntil email t) s \<longleftrightarrow>
     (\<forall>agent host given password code. normal_email given = email \<longrightarrow>
        login cr cfg agent host given password code s = (Inl (HTTPException 423 ''Account is temporarily locked''), s))"

lemma find_only:
  assumes "x \<in> set xs" "P x" "\<And>y. y \<in> set xs \<Longrightarrow> P y \<Longrightarrow> y = x"
  shows "List.find P xs = Some x"
proof (cases "List.find P xs")
  case None
  then show ?thesis using assms(1,2) by (auto dest: find_NoneD)
next
  case (Some y)
  then show ?thesis using assms(3) find_SomeD [OF Some] by simp
qed

lemma find_keyed: "distinct (map key xs) \<Longrightarrow> x \<in> set xs \<Longrightarrow> List.find (\<lambda>y. key y = key x) xs = Some x"
  by (rule find_only) (auto dest: distinct_map_eqD)

lemma find_keyed_not:
  assumes "distinct (map key xs)" "x \<in> set xs" "List.find (\<lambda>y. key y = key x \<and> Q y) xs = Some y"
  shows "y = x"
  using find_SomeD [OF assms(3)] assms(1,2) by (auto dest: distinct_map_eqD)

lemma constraints_put_session [simp]: "constraints (cur (put_user_session r s)) = constraints (cur s)"
  by (simp add: constraints_def identity_constraints_def put_user_session_def on_identity_def)

lemma refused_session:
  assumes "keyed (cur s)" "holds (cur s) (Revoked sid)"
  shows "refused cr cfg oauth w (Revoked sid) s"
proof -
  obtain r where "r \<in> set (rows (t_sessions (t_identity (cur s))))" "us_id r = sid" "us_revoked_at r \<noteq> None"
    using assms(2) by auto
  then have "find_user_session (cur s) sid = Some r" "\<not> live_session (clock s) r" "us_revoked_at r \<noteq> None"
    using assms(1) find_keyed [of us_id _ r] by (auto simp: keyed_def find_user_session_def live_session_def)
  then show ?thesis by (auto simp: authenticate_token_def refresh_def refresh_fits_def split: option.split)
qed

lemma refused_rotated:
  assumes "at_rest s" "holds (cur s) (Rotated sid h)"
  shows "refused cr cfg oauth w (Rotated sid h) s"
proof -
  obtain r where r: "r \<in> set (rows (t_sessions (t_identity (cur s))))" "us_id r = sid" "us_refresh_token_hash r \<noteq> h"
    using assms(2) by auto
  have found: "find_user_session (cur s) sid = Some r"
    using at_rest_keyed [OF assms(1)] r find_keyed [of us_id _ r] assms(1)
    by (auto simp: keyed_def find_user_session_def at_rest_def)
  have ok: "constraints (cur s)" using assms(1) by (simp add: at_rest_def)
  let ?r = "r\<lparr>us_revoked_at := Some (clock s)\<rparr>"
  let ?final = "commit_raise_exn invalid_credentials (put_user_session ?r s) :: (exn + token_pair) \<times> session"
  have ended: "?final =
      (Inl invalid_credentials, (put_user_session ?r s)\<lparr>cur := flush_all (cur (put_user_session ?r s)),
        saved := flush_all (cur (put_user_session ?r s))\<rparr>)"
    by (simp add: commit_raise_exn_def commit_def flush_def ok sbind_def)
  have row: "?r \<in> set (upd_by us_id ?r (rows (t_sessions (t_identity (cur s)))))"
    using r(1) by (intro in_upd_by_self) simp_all
  have "holds (saved (snd ?final)) (Revoked sid)"
    using row r(2) unfolding ended by (auto simp: put_user_session_def objs_def intro!: bexI [of _ ?r])
  moreover have "holds (saved s) (Revoked sid)" if "us_revoked_at r \<noteq> None"
    using that r assms(1) by (auto simp: at_rest_def)
  ultimately show ?thesis
    using found r(3) ended by (auto simp del: holds.simps simp: refresh_def refresh_fits_def)
qed

lemma refused_key:
  assumes "holds (cur s) (KeyDead pid)"
  shows "refused cr cfg oauth w (KeyDead pid) s"
proof -
  have "ak_status k \<noteq> KeyACTIVE"
    if "List.find (\<lambda>k. ak_public_id k = pid) (rows (t_api_keys (t_identity (cur s)))) = Some k" for k
    using find_SomeD [OF that] assms by (auto dest: rows_in_objs)
  then show ?thesis
    by (auto simp: authenticate_key_def expire_key_def key_expired_def key_principal_def sbind_def split: option.split)
qed

lemma refused_state:
  assumes "keyed (cur s)" "holds (cur s) (StateUsed h)"
  shows "refused cr cfg oauth w (StateUsed h) s"
proof -
  obtain r where r: "r \<in> set (rows (t_oauth_states (t_identity (cur s))))" "os_state_hash r = h" "os_used_at r \<noteq> None"
    using assms(2) by auto
  have "x = r" if "find_oauth_state cr (cur s) raw b = Some x" "cr_sha256 cr raw = h" for raw b x
    using find_keyed_not [of os_state_hash "rows (t_oauth_states (t_identity (cur s)))" r "\<lambda>x. os_broker x = b" x] that r assms(1)
    by (simp add: find_oauth_state_def keyed_def)
  with r(3) show ?thesis
    by (auto simp: broker_callback_def Let_def is_set_def split: option.split)
qed

lemma refused_token:
  assumes "keyed (cur s)" "holds (cur s) (TokenUsed h)"
  shows "refused cr cfg oauth w (TokenUsed h) s"
proof -
  obtain r where r: "r \<in> set (rows (t_one_time_tokens (t_identity (cur s))))" "ot_token_hash r = h" "ot_used_at r \<noteq> None"
    using assms(2) by auto
  have "x = r" if "find_one_time cr (cur s) purpose raw = Some x" "cr_sha256 cr raw = h" for raw purpose x
    using find_keyed_not [of ot_token_hash "rows (t_one_time_tokens (t_identity (cur s)))" r "\<lambda>x. ot_purpose x = purpose" x] that r assms(1)
    by (simp add: find_one_time_def keyed_def)
  with r(3) have "redeem cr purpose raw s = None" if "cr_sha256 cr raw = h" for raw purpose
    using that by (auto simp: redeem_def split: option.split)
  then show ?thesis by (simp add: verify_email_def reset_def)
qed

lemma refused_others:
  "keyed (cur s) \<Longrightarrow> holds (cur s) (TicketUsed h) \<Longrightarrow> refused cr cfg oauth w (TicketUsed h) s"
  "keyed (cur s) \<Longrightarrow> holds (cur s) (CodeGone uid h) \<Longrightarrow> refused cr cfg oauth w (CodeGone uid h) s"
  "keyed (cur s) \<Longrightarrow> holds (cur s) (LockedUntil email t) \<Longrightarrow> clock s < t \<Longrightarrow> refused cr cfg oauth w (LockedUntil email t) s"
proof -
  assume keyed: "keyed (cur s)"
  show "refused cr cfg oauth w (TicketUsed h) s" if "holds (cur s) (TicketUsed h)"
    using that keyed find_keyed [of wt_token_hash "rows (t_tickets (t_identity (cur s)))"]
    by (auto simp: keyed_def consume_ticket_def find_ticket_def)
  show "refused cr cfg oauth w (CodeGone uid h) s" if "holds (cur s) (CodeGone uid h)"
    using that keyed find_keyed [of u_id "rows (t_users (cur s))"]
    by (auto simp: keyed_def find_user_def consume_recovery_code_def)
  show "refused cr cfg oauth w (LockedUntil email t) s" if "holds (cur s) (LockedUntil email t)" "clock s < t"
    using that keyed find_keyed [of u_email "rows (t_users (cur s))"]
    by (auto simp: keyed_def login_def user_by_email_def locked_def)
qed

lemma holds_refused:
  assumes "at_rest s" "holds (cur s) f" "in_time s f"
  shows "refused cr cfg oauth w f s"
proof -
  have "keyed (cur s)" using at_rest_keyed [OF assms(1)] assms(1) by (simp add: at_rest_def)
  then show ?thesis
    using assms by (cases f) (simp_all del: refused.simps holds.simps add: refused_session refused_rotated refused_key
        refused_state refused_token refused_others)
qed

lemma refused_after_run:
  assumes "at_rest s" "holds (saved s) f" "unrepeated cr s f"
    and "run_ops (identity_step cr cfg oauth w) evs (lmt, s) = (lmt', s')" "in_time s' f"
  shows "refused cr cfg oauth w f s'"
  using fact_after_run [OF assms(1-4)] assms(5) by (intro holds_refused)

end
