(* ===== verification/IdentityProps.thy ===== *)
theory IdentityProps
  imports Refusals Scenario
begin

text \<open>
  What holds of accounts and credentials over every run of requests and trading events: what is spent stays spent, a
  refresh token works once, a password reset ends the sessions before it, and a lock holds its time.
\<close>

section \<open>What the handlers establish\<close>

lemma commit_done: "commit_return x s = (Inr y, s') \<Longrightarrow> saved s' = flush_all (cur s) \<and> cur s' = flush_all (cur s) \<and> clock s' = clock s \<and> drawn s' = drawn s \<and> uuids s' = uuids s"
  by (simp add: commit_return_Inr)

lemma refresh_rotates:
  assumes "refresh cr cfg token s = (Inr pair, s1)" "split_dot token = Some (sid, secret)"
    and "\<forall>n\<ge>drawn s. cr_sha256 cr (uuids s n) \<noteq> cr_sha256 cr secret"
  shows "holds (saved s1) (Rotated sid (cr_sha256 cr secret)) \<and>
    unrepeated cr (rollback s1) (Rotated sid (cr_sha256 cr secret))"
proof -
  obtain r u where r: "find_user_session (cur s) sid = Some r"
    and committed: "commit_return pair (snd (renew cr cfg u (r\<lparr>us_last_seen_at := clock s\<rparr>) s)) = (Inr pair, s1)"
    using assms(1,2)
    by (auto simp: refresh_def commit_raise_exn_def sbind_def split_beta commit_return_Inr split: option.splits if_splits prod.splits sum.splits)
  let ?r = "r\<lparr>us_last_seen_at := clock s, us_refresh_token_hash := cr_sha256 cr (fresh s)\<rparr>"
  have after: "snd (renew cr cfg u (r\<lparr>us_last_seen_at := clock s\<rparr>) s) = put_user_session ?r (draw s)"
    by (simp add: renew_def new_refresh_token_def Let_def)
  have "?r \<in> set (upd_by us_id ?r (rows (t_sessions (t_identity (cur s)))))"
    by (rule in_upd_by_self [of r]) (use found(3) [OF r] in simp_all)
  moreover have "cr_sha256 cr (fresh s) \<noteq> cr_sha256 cr secret" using assms(3) by (simp add: fresh_def)
  ultimately have "holds (saved s1) (Rotated sid (cr_sha256 cr secret))"
    using found(3) [OF r] commit_done [OF committed]
    by (auto simp: after put_user_session_def objs_def intro!: bexI [of _ ?r])
  moreover have "supplied s s1" using moves_supplied [OF moves_refresh [of cr s cfg token]] assms(1) by simp
  ultimately show ?thesis using assms(3) by (auto simp: supplied_def rollback_def)
qed

lemma reset_revokes:
  assumes "reset cr raw password s = (Inr (), s1)" "find_one_time cr (cur s) ''RESET_PASSWORD'' raw = Some t"
  shows "holds (saved s1) (TokenUsed (cr_sha256 cr raw))"
    "r \<in> set (rows (t_sessions (t_identity (cur s)))) \<Longrightarrow> us_user_id r = ot_user_id t \<Longrightarrow> holds (saved s1) (Revoked (us_id r))"
proof -
  let ?hash = "cr_hash_password cr (fresh s) password"
  obtain u where f: "redeem cr ''RESET_PASSWORD'' raw s = Some (t, Some u)"
    and committed: "commit_return () (revoke_sessions (\<lambda>r. us_user_id r = u_id u)
      (used_now t (put_user (u\<lparr>u_password_hash := ?hash\<rparr>) (draw s)))) = (Inr (), s1)"
    using assms by (auto simp: reset_def redeem_def split: option.splits if_splits)
  have u: "u_id u = ot_user_id t" using found(6) [OF f] by simp
  let ?t = "t\<lparr>ot_used_at := Some (clock s)\<rparr>"
  have "?t \<in> set (upd_by ot_token_hash ?t (rows (t_one_time_tokens (t_identity (cur s)))))"
    by (rule in_upd_by_self [of t]) (use found(6) [OF f] in simp_all)
  then show "holds (saved s1) (TokenUsed (cr_sha256 cr raw))"
    using found(6) [OF f] commit_done [OF committed]
    by (auto simp: revoke_sessions_def used_now_def put_one_time_def objs_def intro!: bexI [of _ ?t])
  let ?ended = "\<lambda>x. if us_revoked_at x = None \<and> us_user_id x = u_id u then x\<lparr>us_revoked_at := Some (clock s)\<rparr> else x"
  have after: "rows (t_sessions (t_identity (saved s1))) =
      map ?ended (rows (t_sessions (t_identity (cur s)))) @ added (t_sessions (t_identity (cur s)))"
    using commit_done [OF committed] by (simp add: revoke_sessions_def used_now_def put_one_time_def objs_def)
  show "holds (saved s1) (Revoked (us_id r))"
    if r: "r \<in> set (rows (t_sessions (t_identity (cur s))))" "us_user_id r = ot_user_id t"
  proof -
    have "?ended r \<in> set (rows (t_sessions (t_identity (saved s1))))" using r(1) unfolding after by simp
    moreover have "us_id (?ended r) = us_id r" "us_revoked_at (?ended r) \<noteq> None" using r(2) u by simp_all
    ultimately show ?thesis by (metis holds.simps(1))
  qed
qed

lemma fifth_failure_locks:
  assumes "at_rest s" "user_by_email (cur s) (normal_email email) = Some u" "\<not> locked (clock s) u"
    "4 \<le> u_failed_login_count u" "verify_password cr password (u_password_hash u) = Inr False"
  shows "fst (login cr cfg agent host email password code s) = Inl invalid_credentials"
    "holds (saved (snd (login cr cfg agent host email password code s))) (LockedUntil (normal_email email) (clock s + 900000000))"
proof -
  let ?u = "failed_login (clock s) u"
  let ?final = "commit_raise_exn invalid_credentials (put_user ?u s) :: (exn + token_pair) \<times> session"
  have u: "u \<in> set (rows (t_users (cur s)))" "u_email u = normal_email email" using found(2) [OF assms(2)] by auto
  have locks: "u_id ?u = u_id u" "u_email ?u = u_email u" "u_locked_until ?u = Some (clock s + 900000000)"
    using assms(4) by (simp_all add: failed_login_def Let_def)
  have "distinct (map u_id (rows (t_users (cur s))))"
    using at_rest_keyed [OF assms(1)] assms(1) by (simp add: keyed_def at_rest_def)
  then have "map u_email (upd_by u_id ?u (objs (t_users (cur s)))) = map u_email (objs (t_users (cur s)))"
    using u(1) locks assms(1) distinct_map_eqD [of u_id "rows (t_users (cur s))"]
    by (intro map_upd_by_cong) (auto simp: at_rest_def clean_def objs_def)
  then have ok: "constraints (cur (put_user ?u s))"
    using assms(1) by (simp add: put_user_def constraints_def at_rest_def)
  have ended: "?final = (Inl invalid_credentials, (put_user ?u s)\<lparr>cur := flush_all (cur (put_user ?u s)),
      saved := flush_all (cur (put_user ?u s))\<rparr>)"
    by (simp add: commit_raise_exn_def commit_def flush_def ok sbind_def)
  have login: "login cr cfg agent host email password code s = ?final"
    using assms(2,3,5) by (simp add: login_def)
  show "fst (login cr cfg agent host email password code s) = Inl invalid_credentials" by (simp add: login ended)
  have "?u \<in> set (upd_by u_id ?u (rows (t_users (cur s))))" 
    by (rule in_upd_by_self [of u]) (use u(1) locks(1) in simp_all)
  then show "holds (saved (snd (login cr cfg agent host email password code s))) (LockedUntil (normal_email email) (clock s + 900000000))"
    unfolding login ended using locks u(2) by (auto simp: objs_def intro!: bexI [of _ ?u])
qed

section \<open>A small platform\<close>

text \<open>
  The witnesses run on one user with four failed logins, one session, and a reset link; digests put a mark before the
  text, a password is its own hash, and a token is the id of its session.
\<close>

definition ex_crypto :: crypto where
  "ex_crypto = \<lparr>cr_sha256 = (\<lambda>t. CHR ''#'' # t), cr_hmac = (\<lambda>_ t. t), cr_hash_password = (\<lambda>_ p. p),
     cr_verify_password = (\<lambda>encoded p. Inr (encoded = p)), cr_derive_key = id, cr_encrypt = (\<lambda>_ t. t),
     cr_decrypt = (\<lambda>_ t. Inr t), cr_jwt_encode = (\<lambda>_ c. cl_sid c),
     cr_jwt_decode = (\<lambda>_ now t. Some \<lparr>cl_sub = ''u'', cl_sid = t, cl_role = ''RETAIL'', cl_typ = ''access'', cl_iat = 0,
       cl_exp = now\<rparr>),
     cr_dumps = (\<lambda>_. []), cr_loads = (\<lambda>_. Inr JNull), cr_totp = (\<lambda>_ _ _. False)\<rparr>"

definition ex_user :: user where
  "ex_user = (new_user ''u'' ''e'' ''Secret-Phrase-1'')\<lparr>u_is_verified := True, u_failed_login_count := 4\<rparr>"

definition ex_login :: "instant option \<Rightarrow> user_session" where
  "ex_login revoked = \<lparr>us_id = ''s'', us_user_id = ''u'', us_refresh_token_hash = ''#x'', us_user_agent = None,
     us_ip_address = None, us_expires_at = 1000, us_last_seen_at = 0, us_revoked_at = revoked\<rparr>"

definition ex_link :: one_time_token where
  "ex_link = one_time ex_crypto ''u'' ''RESET_PASSWORD'' 1000 ''link''"

definition ex_members :: "instant option \<Rightarrow> session" where
  "ex_members revoked =
     (let d = empty_db\<lparr>t_users := \<lparr>rows = [ex_user], added = []\<rparr>,
        t_identity := empty_identity_tables\<lparr>t_sessions := \<lparr>rows = [ex_login revoked], added = []\<rparr>,
          t_one_time_tokens := \<lparr>rows = [ex_link], added = []\<rparr>\<rparr>\<rparr>
      in \<lparr>cur = d, saved = d, clock = 10, uuids = (\<lambda>n. CHR ''d'' # str_of_int (int n)), drawn = 0, wire = []\<rparr>)"

lemma succeeds:
  assumes "\<not> isl (fst called)"
  obtains x s where "called = (Inr x, s)"
  using assms by (cases called, cases "fst called") auto

lemma ex_members_rest: "at_rest (ex_members revoked)"
  by (simp add: at_rest_def ex_members_def Let_def clean_def constraints_def identity_constraints_def empty_db_def
      empty_identity_tables_def flush_identity_def flush_table_def objs_def strategy_constraints_def
      empty_strategy_tables_def flush_strategy_def empty_table_def)

section \<open>The properties\<close>

text \<open>
  C5. Spent credentials stay refused.  Take a durable state in which a session is revoked, a one-time token, an OAuth
  state or a stream ticket is used, an API key is revoked or expired, a recovery code is consumed, a refresh digest has
  been replaced, or an account is locked until a time.  After any sequence of requests (registration, login, refresh,
  reset, MFA, keys, sessions, tickets, broker connections, administration) and of trading events, the endpoints refuse
  it: no token authenticates with the session, no request redeems the token, the state, the ticket, the key or the
  code, the old refresh token is refused and ends its session, and the locked account cannot log in before the time.
  The random texts still to be drawn are assumed not to repeat the ones the fact is about.
\<close>

theorem spent_credentials_are_refused:
  assumes "at_rest s" "holds (saved s) f" "unrepeated cr s f"
    and "run_ops (identity_step cr cfg oauth w) evs (lmt, s) = (lmt', s')" "in_time s' f"
  shows "refused cr cfg oauth w f s'"
  by (rule refused_after_run [OF assms])

definition ex_step :: "identity_event \<Rightarrow> limiter \<times> session \<Rightarrow> limiter \<times> session" where
  "ex_step = identity_step ex_crypto default_settings (\<lambda>_ _. None) (ex_world NoReply NoReply)"

text \<open>Later: time passes, and somebody guesses.\<close>

definition ex_events :: "identity_event list" where
  "ex_events = [Trade (TimePasses 5), Public (VerifyEmail ''guess'') 0]"

lemma spent_credentials_are_refused_witness:
  "refused ex_crypto default_settings (\<lambda>_ _. None) (ex_world NoReply NoReply) (Revoked ''s'')
     (snd (run_ops ex_step ex_events (empty_limiter, ex_members (Some 3))))"
proof -
  have "holds (saved (ex_members (Some 3))) (Revoked ''s'')" by (simp add: ex_members_def Let_def ex_login_def)
  from spent_credentials_are_refused [OF ex_members_rest this _ surjective_pairing] show ?thesis
    by (simp del: refused.simps add: ex_step_def)
qed

text \<open>
  C6. A refresh token works once.  After a refresh succeeds, presenting the same token again, whatever requests and
  trading events came in between, is answered with 401 and leaves its session revoked: the theft of a refresh token ends
  the session as soon as both its holders have used it.  The random texts still to be drawn are assumed not to have the
  digest of the old token.
\<close>

theorem refresh_token_works_once:
  assumes "at_rest s" "split_dot token = Some (sid, secret)" "refresh cr cfg token s = (Inr pair, s1)"
    and "\<forall>n\<ge>drawn s. cr_sha256 cr (uuids s n) \<noteq> cr_sha256 cr secret"
    and "run_ops (identity_step cr cfg oauth w) evs (lmt, rollback s1) = (lmt', s')"
  shows "fst (refresh cr cfg token s') = Inl invalid_credentials \<and>
    holds (saved (snd (refresh cr cfg token s'))) (Revoked sid)"
proof -
  have "at_rest (rollback s1)" using moves_at_rest [OF assms(1) moves_refresh, of cr cfg token] assms(3) by simp
  moreover have "holds (saved (rollback s1)) (Rotated sid (cr_sha256 cr secret))"
    "unrepeated cr (rollback s1) (Rotated sid (cr_sha256 cr secret))"
    using refresh_rotates [OF assms(3,2,4)] by (simp_all only: session_simps)
  ultimately have "refused cr cfg oauth w (Rotated sid (cr_sha256 cr secret)) s'"
    by (rule refused_after_run [OF _ _ _ assms(5)]) simp
  then show ?thesis using assms(2) by simp
qed

lemma refresh_token_works_once_witness:
  "fst (refresh ex_crypto default_settings ''s.x'' (snd (run_ops ex_step ex_events
      (empty_limiter, rollback (snd (refresh ex_crypto default_settings ''s.x'' (ex_members None))))))) = Inl invalid_credentials"
proof -
  have token: "split_dot ''s.x'' = Some (''s'', ''x'')" by (simp add: split_dot_def)
  have "\<not> isl (fst (refresh ex_crypto default_settings ''s.x'' (ex_members None)))" by code_simp
  then obtain pair s1 where ok: "refresh ex_crypto default_settings ''s.x'' (ex_members None) = (Inr pair, s1)"
    by (rule succeeds)
  have "\<forall>n\<ge>drawn (ex_members None). cr_sha256 ex_crypto (uuids (ex_members None) n) \<noteq> cr_sha256 ex_crypto ''x''"
    by (simp add: ex_crypto_def ex_members_def Let_def)
  from refresh_token_works_once [OF ex_members_rest token ok this surjective_pairing] show ?thesis
    by (simp add: ok ex_step_def)
qed

text \<open>
  C34. The fifth wrong password in a row locks the account for a quarter of an hour.  In a durable state with four
  failures already counted, a login with a wrong password is answered with 401, and after any requests and trading
  events that take less than fifteen minutes every login to the account is answered with 423 and changes nothing,
  whatever the password, the code and the host: no other request lifts the lock.
\<close>

theorem fifth_wrong_password_locks_the_account:
  assumes "at_rest s" "user_by_email (cur s) (normal_email email) = Some u" "\<not> locked (clock s) u"
    and "4 \<le> u_failed_login_count u" "verify_password cr password (u_password_hash u) = Inr False"
    and "run_ops (identity_step cr cfg oauth w) evs
      (lmt, rollback (snd (login cr cfg agent host email password code s))) = (lmt', s')"
    and "clock s' < clock s + 900000000" "normal_email email' = normal_email email"
  shows "fst (login cr cfg agent host email password code s) = Inl invalid_credentials \<and>
    login cr cfg agent' host' email' password' code' s' =
      (Inl (HTTPException 423 ''Account is temporarily locked''), s')"
proof -
  let ?s1 = "rollback (snd (login cr cfg agent host email password code s))"
  let ?f = "LockedUntil (normal_email email) (clock s + 900000000)"
  have "at_rest ?s1" by (rule moves_at_rest [OF assms(1) moves_login])
  moreover have "holds (saved ?s1) ?f" using fifth_failure_locks(2) [OF assms(1-5)] by (simp only: session_simps)
  ultimately have "refused cr cfg oauth w ?f s'"
    by (rule refused_after_run [OF _ _ _ assms(6)]) (use assms(7) in simp_all)
  then show ?thesis using fifth_failure_locks(1) [OF assms(1-5)] assms(8) by simp
qed

lemma fifth_wrong_password_locks_the_account_witness:
  "login ex_crypto default_settings None None ''E '' ''Secret-Phrase-1'' None
     (snd (run_ops ex_step [Trade (TimePasses 5)]
       (empty_limiter, rollback (snd (login ex_crypto default_settings None None ''e'' ''wrong'' None (ex_members None)))))) =
   (Inl (HTTPException 423 ''Account is temporarily locked''),
     snd (run_ops ex_step [Trade (TimePasses 5)]
       (empty_limiter, rollback (snd (login ex_crypto default_settings None None ''e'' ''wrong'' None (ex_members None))))))"
    (is "_ = (_, snd ?later)")
proof -
  have email: "normal_email ''E '' = ''e''" "normal_email ''e'' = ''e''" by code_simp+
  have found: "user_by_email (cur (ex_members None)) (normal_email ''e'') = Some ex_user" "\<not> locked (clock (ex_members None)) ex_user"
    "4 \<le> u_failed_login_count ex_user" "verify_password ex_crypto ''wrong'' (u_password_hash ex_user) = Inr False"
    by (simp_all add: email user_by_email_def ex_members_def Let_def ex_user_def new_user_def locked_def verify_password_def ex_crypto_def)
  have "clock (snd ?later) = clock (rollback (snd (login ex_crypto default_settings None None ''e'' ''wrong'' None (ex_members None)))) + 5"
    by (simp add: ex_step_def identity_step_def)
  then have "clock (snd ?later) < clock (ex_members None) + 900000000"
    using moves_supplied [OF moves_login [of ex_crypto "ex_members None" default_settings None None "''e''" "''wrong''" None]]
    by (simp add: supplied_def rollback_def)
  from fifth_wrong_password_locks_the_account [OF ex_members_rest found surjective_pairing this [unfolded ex_step_def]]
  show ?thesis by (simp add: email ex_step_def)
qed

text \<open>
  C39. A password reset ends what came before it.  After a reset succeeds, whatever requests and trading events follow,
  the link works no second time, and no session the user had can be used: an access token of it does not authenticate
  and its refresh token is refused.
\<close>

theorem password_reset_ends_sessions:
  assumes "at_rest s" "reset cr raw password s = (Inr (), s1)"
    and "find_one_time cr (cur s) ''RESET_PASSWORD'' raw = Some t"
    and "r \<in> set (rows (t_sessions (t_identity (cur s))))" "us_user_id r = ot_user_id t"
    and "run_ops (identity_step cr cfg oauth w) evs (lmt, rollback s1) = (lmt', s')"
  shows "(validate_password password' = None \<longrightarrow>
      reset cr raw password' s' = (Inl (HTTPException 400 ''Invalid or expired reset link''), s')) \<and>
    (\<forall>c. decode_access_token cr cfg (clock s') token = Some c \<longrightarrow> cl_sid c = us_id r \<longrightarrow>
      authenticate_token cr cfg token s' = (Inl (HTTPException 401 ''Session is expired or revoked''), s')) \<and>
    (\<forall>secret. split_dot token = Some (us_id r, secret) \<longrightarrow>
      refresh cr cfg token s' = (Inl invalid_credentials, s'))"
proof -
  have rest: "at_rest (rollback s1)" using moves_at_rest [OF assms(1) moves_reset, of cr raw password] assms(2) by simp
  have "refused cr cfg oauth w (TokenUsed (cr_sha256 cr raw)) s'"
    using rest reset_revokes(1) [OF assms(2,3)]
    by (intro refused_after_run [OF _ _ _ assms(6)]) (simp_all del: holds.simps)
  moreover have "refused cr cfg oauth w (Revoked (us_id r)) s'"
    using rest reset_revokes(2) [OF assms(2-5)]
    by (intro refused_after_run [OF _ _ _ assms(6)]) (simp_all del: holds.simps)
  ultimately show ?thesis by simp
qed

lemma password_reset_ends_sessions_witness:
  "authenticate_token ex_crypto default_settings ''s''
     (snd (run_ops ex_step ex_events (empty_limiter, rollback (snd (reset ex_crypto ''link'' ''Better-Phrase-2'' (ex_members None)))))) =
   (Inl (HTTPException 401 ''Session is expired or revoked''),
     snd (run_ops ex_step ex_events (empty_limiter, rollback (snd (reset ex_crypto ''link'' ''Better-Phrase-2'' (ex_members None))))))"
proof -
  have link: "find_one_time ex_crypto (cur (ex_members None)) ''RESET_PASSWORD'' ''link'' = Some ex_link"
    by (simp add: find_one_time_def ex_members_def Let_def ex_link_def one_time_def new_one_time_token_def)
  have "\<not> isl (fst (reset ex_crypto ''link'' ''Better-Phrase-2'' (ex_members None)))" by code_simp
  then obtain s1 where ok: "reset ex_crypto ''link'' ''Better-Phrase-2'' (ex_members None) = (Inr (), s1)"
    by (rule succeeds) simp
  have "decode_access_token ex_crypto default_settings now ''s'' = Some \<lparr>cl_sub = ''u'', cl_sid = ''s'', cl_role = ''RETAIL'',
      cl_typ = ''access'', cl_iat = 0, cl_exp = now\<rparr>" for now
    by (simp add: decode_access_token_def ex_crypto_def)
  moreover have "ex_login None \<in> set (rows (t_sessions (t_identity (cur (ex_members None)))))"
    "us_user_id (ex_login None) = ot_user_id ex_link" "us_id (ex_login None) = ''s''"
    by (simp_all add: ex_members_def Let_def ex_login_def ex_link_def one_time_def)
  moreover note password_reset_ends_sessions [OF ex_members_rest ok link this(1,2) surjective_pairing,
      of "''s''" default_settings "\<lambda>_ _. None" "ex_world NoReply NoReply" ex_events empty_limiter]
  ultimately show ?thesis by (simp add: ok ex_step_def)
qed

end
