(* ===== verification/InstrumentImport.thy ===== *)
theory InstrumentImport
  imports Store PyNumbers "HOL-Library.AList"
begin

text \<open>
  \<^verbatim>\<open>market/instruments.py\<close>: Dhan's instrument master, row by row, into the instrument table.  A row is the dictionary
  that \<^verbatim>\<open>csv.DictReader\<close> yields, without the columns that are missing in it; reading the file is left out.
\<close>

section \<open>Values of a row\<close>

type_synonym csv_row = "(string \<times> string) list"

text \<open>The first of the columns that holds more than white space.\<close>

fun value_of :: "csv_row \<Rightarrow> string list \<Rightarrow> string" where
  "value_of row [] = []"
| "value_of row (name # names) =
     (case map_of row name of
        Some value \<Rightarrow> if py_strip value \<noteq> [] then py_strip value else value_of row names
      | None \<Rightarrow> value_of row names)"

declare value_of.simps [simp del]

definition no_number :: "string \<Rightarrow> bool" where
  "no_number value \<longleftrightarrow> value = [] \<or> py_upper value \<in> {''NA'', ''N/A'', ''NULL'', ''NAN''}"

definition float_number :: "string \<Rightarrow> exn + pyfloat option" where
  "float_number value = (if no_number value then Inr None else map_sum id Some (py_float (JStr value)))"

definition int_number :: "string \<Rightarrow> exn + int option" where
  "int_number value =
     (if no_number value then Inr None else map_sum id (\<lambda>x. Some (truncate_rat x)) (py_float (JStr value)))"

section \<open>Dates\<close>

text \<open>
  \<^verbatim>\<open>datetime.strptime\<close> for the four patterns: each directive takes the longest text its regular expression allows,
  nothing may be left over, and the fields must be a date of the calendar.
\<close>

definition is_leap :: "int \<Rightarrow> bool" where
  "is_leap y \<longleftrightarrow> y mod 4 = 0 \<and> (y mod 100 \<noteq> 0 \<or> y mod 400 = 0)"

definition days_in_month :: "int \<Rightarrow> int \<Rightarrow> int" where
  "days_in_month y m = (if m = 2 then if is_leap y then 29 else 28 else if m \<in> {4, 6, 9, 11} then 30 else 31)"

definition days_before_year :: "int \<Rightarrow> int" where
  "days_before_year y = 365 * (y - 1) + (y - 1) div 4 - (y - 1) div 100 + (y - 1) div 400"

definition day_number :: "int \<Rightarrow> int \<Rightarrow> int \<Rightarrow> int" where
  "day_number y m d = days_before_year y + sum_list (map (days_in_month y) [1..m - 1]) + d"

text \<open>\<^verbatim>\<open>datetime(...).replace(tzinfo=timezone.utc)\<close>; the epoch is day 719163.\<close>

definition utc_instant :: "int \<Rightarrow> int \<Rightarrow> int \<Rightarrow> int \<Rightarrow> int \<Rightarrow> int \<Rightarrow> instant option" where
  "utc_instant y m d h mi sec =
     (if 1 \<le> y \<and> 1 \<le> m \<and> m \<le> 12 \<and> 1 \<le> d \<and> d \<le> days_in_month y m \<and> h < 24 \<and> mi < 60 \<and> sec < 60
      then Some (((day_number y m d - 719163) * 86400 + h * 3600 + mi * 60 + sec) * 1000000) else None)"

text \<open>One or two digits up to a largest value; two when they are not beyond it.\<close>

fun read_field :: "int \<Rightarrow> int \<Rightarrow> string \<Rightarrow> (int \<times> string) option" where
  "read_field least most [] = None"
| "read_field least most [c] =
     (if is_digit_char c \<and> least \<le> digit_value c then Some (digit_value c, []) else None)"
| "read_field least most (c # d # cs) =
     (if is_digit_char c \<and> is_digit_char d \<and> least \<le> 10 * digit_value c + digit_value d \<and>
         10 * digit_value c + digit_value d \<le> most
      then Some (10 * digit_value c + digit_value d, cs)
      else if is_digit_char c \<and> least \<le> digit_value c then Some (digit_value c, d # cs)
      else None)"

text \<open>The day may also be a blank and a digit.\<close>

definition read_day :: "string \<Rightarrow> (int \<times> string) option" where
  "read_day t =
     (case t of
        c # d # cs \<Rightarrow>
          if c = CHR '' '' then (if is_digit_char d \<and> d \<noteq> CHR ''0'' then Some (digit_value d, cs) else None)
          else read_field 1 31 t
      | _ \<Rightarrow> read_field 1 31 t)"

definition read_year :: "string \<Rightarrow> (int \<times> string) option" where
  "read_year t =
     (if 4 \<le> length t \<and> list_all is_digit_char (take 4 t)
      then Some (foldl (\<lambda>a c. 10 * a + digit_value c) 0 (take 4 t), drop 4 t) else None)"

definition literal :: "char \<Rightarrow> string \<Rightarrow> string option" where
  "literal c t = (case t of x # xs \<Rightarrow> if x = c then Some xs else None | [] \<Rightarrow> None)"

definition blanks :: "string \<Rightarrow> string option" where
  "blanks t = (if t \<noteq> [] \<and> is_space_char (hd t) then Some (dropWhile is_space_char t) else None)"

definition ymd :: "string \<Rightarrow> ((int \<times> int \<times> int) \<times> string) option" where
  "ymd t =
     Option.bind (read_year t) (\<lambda>(y, t). Option.bind (literal (CHR ''-'') t) (\<lambda>t.
     Option.bind (read_field 1 12 t) (\<lambda>(m, t). Option.bind (literal (CHR ''-'') t) (\<lambda>t.
     map_option (\<lambda>(d, t). ((y, m, d), t)) (read_day t)))))"

definition dmy :: "char \<Rightarrow> string \<Rightarrow> ((int \<times> int \<times> int) \<times> string) option" where
  "dmy sep t =
     Option.bind (read_day t) (\<lambda>(d, t). Option.bind (literal sep t) (\<lambda>t.
     Option.bind (read_field 1 12 t) (\<lambda>(m, t). Option.bind (literal sep t) (\<lambda>t.
     map_option (\<lambda>(y, t). ((y, m, d), t)) (read_year t)))))"

definition hms :: "string \<Rightarrow> ((int \<times> int \<times> int) \<times> string) option" where
  "hms t =
     Option.bind (read_field 0 23 t) (\<lambda>(h, t). Option.bind (literal (CHR '':'') t) (\<lambda>t.
     Option.bind (read_field 0 59 t) (\<lambda>(mi, t). Option.bind (literal (CHR '':'') t) (\<lambda>t.
     map_option (\<lambda>(sec, t). ((h, mi, sec), t)) (read_field 0 61 t)))))"

definition whole_date :: "((int \<times> int \<times> int) \<times> string) option \<Rightarrow> instant option" where
  "whole_date r = (case r of Some ((y, m, d), []) \<Rightarrow> utc_instant y m d 0 0 0 | _ \<Rightarrow> None)"

definition date_and_time :: "string \<Rightarrow> instant option" where
  "date_and_time t =
     (case ymd t of
        Some ((y, m, d), rest) \<Rightarrow>
          (case Option.bind (blanks rest) hms of
             Some ((h, mi, sec), []) \<Rightarrow> utc_instant y m d h mi sec
           | _ \<Rightarrow> None)
      | None \<Rightarrow> None)"

definition first_some :: "'a option list \<Rightarrow> 'a option" where
  "first_some xs = Option.bind (List.find (\<lambda>x. x \<noteq> None) xs) id"

definition expiry_of :: "string \<Rightarrow> instant option" where
  "expiry_of value =
     (if value = [] \<or> take 4 value = ''0000'' then None
      else first_some [whole_date (ymd value), whole_date (dmy (CHR ''-'') value), whole_date (dmy (CHR ''/'') value),
             date_and_time value])"

section \<open>A row of the master\<close>

record instrument_values =
  iv_exchange :: string
  iv_segment :: string
  iv_symbol :: string
  iv_trading_symbol :: string
  iv_name :: string
  iv_instrument_type :: string
  iv_expiry_at :: "instant option"
  iv_strike :: "pyfloat option"
  iv_option_type :: "string option"
  iv_lot_size :: "int option"
  iv_tick_size :: "pyfloat option"
  iv_security_id :: string
  iv_feed_segment :: string
  iv_metadata :: "(string \<times> json) list"

definition segment_mapping :: "((string \<times> string) \<times> string \<times> string \<times> string) list" where
  "segment_mapping =
     [((''NSE'', ''E''), ''NSE'', ''EQ'', ''NSE_EQ''), ((''NSE'', ''D''), ''NSE'', ''FNO'', ''NSE_FNO''),
      ((''NSE'', ''C''), ''NSE'', ''CURRENCY'', ''NSE_CURRENCY''), ((''BSE'', ''E''), ''BSE'', ''EQ'', ''BSE_EQ''),
      ((''BSE'', ''D''), ''BSE'', ''FNO'', ''BSE_FNO''), ((''BSE'', ''C''), ''BSE'', ''CURRENCY'', ''BSE_CURRENCY''),
      ((''MCX'', ''M''), ''MCX'', ''COMM'', ''MCX_COMM'')]"

definition text_or_none :: "string \<Rightarrow> json" where
  "text_or_none t = (if t = [] then JNull else JStr t)"

definition option_type_of :: "string \<Rightarrow> string option" where
  "option_type_of t =
     (if t = [] then None else if t = ''CALL'' then Some ''CE'' else if t = ''PUT'' then Some ''PE'' else Some t)"

text \<open>The canonical exchange and segment and the segment of the feed.\<close>

definition canonical :: "csv_row \<Rightarrow> (string \<times> string \<times> string) option" where
  "canonical row =
     (if py_upper (value_of row [''INSTRUMENT'', ''SEM_INSTRUMENT_NAME'']) = ''INDEX''
      then Some (''IDX'', ''INDEX'', ''IDX_I'')
      else map_of segment_mapping
        (py_upper (value_of row [''EXCH_ID'', ''SEM_EXM_EXCH_ID'']), py_upper (value_of row [''SEGMENT'', ''SEM_SEGMENT''])))"

definition parse_dhan_instrument :: "csv_row \<Rightarrow> exn + instrument_values option" where
  "parse_dhan_instrument row =
     (let exchange = py_upper (value_of row [''EXCH_ID'', ''SEM_EXM_EXCH_ID'']);
          security_id = value_of row [''SECURITY_ID'', ''SEM_SMST_SECURITY_ID''];
          instrument_type = py_upper (value_of row [''INSTRUMENT'', ''SEM_INSTRUMENT_NAME'']);
          display = value_of row [''DISPLAY_NAME'', ''SEM_CUSTOM_SYMBOL'', ''SEM_TRADING_SYMBOL'', ''SYMBOL_NAME'', ''SM_SYMBOL_NAME''];
          symbol = value_of row [''SYMBOL_NAME'', ''SM_SYMBOL_NAME'', ''SEM_TRADING_SYMBOL'', ''DISPLAY_NAME'', ''SEM_CUSTOM_SYMBOL''];
          named = (if symbol = [] then display else symbol)
      in if exchange = [] \<or> security_id = [] \<or> instrument_type = [] then Inr None
      else case canonical row of
        None \<Rightarrow> Inr None
      | Some (canonical_exchange, segment, feed) \<Rightarrow>
          if display = [] then Inr None
          else
            and_then (float_number (value_of row [''STRIKE_PRICE'', ''SEM_STRIKE_PRICE''])) (\<lambda>strike.
            and_then (int_number (value_of row [''LOT_SIZE'', ''SEM_LOT_UNITS''])) (\<lambda>lot.
            and_then (float_number (value_of row [''TICK_SIZE'', ''SEM_TICK_SIZE''])) (\<lambda>tick.
              Inr (Some \<lparr>iv_exchange = canonical_exchange, iv_segment = segment, iv_symbol = named,
                iv_trading_symbol = display, iv_name = named, iv_instrument_type = instrument_type,
                iv_expiry_at = expiry_of (value_of row [''SM_EXPIRY_DATE'', ''SEM_EXPIRY_DATE'']), iv_strike = strike,
                iv_option_type = option_type_of (py_upper (value_of row [''OPTION_TYPE'', ''SEM_OPTION_TYPE''])),
                iv_lot_size = lot, iv_tick_size = tick, iv_security_id = security_id, iv_feed_segment = feed,
                iv_metadata = [(''isin'', text_or_none (value_of row [''ISIN''])),
                  (''series'', text_or_none (value_of row [''SERIES'', ''SEM_SERIES''])),
                  (''underlying_symbol'', text_or_none (value_of row [''UNDERLYING_SYMBOL''])),
                  (''source'', JStr ''DHAN_INSTRUMENT_MASTER'')]\<rparr>)))))"
section \<open>The tokens of an instrument\<close>

text \<open>
  What \<^verbatim>\<open>broker_tokens["DHAN"]\<close> says: a dictionary with the segment and the id, an older plain token, or nothing.
\<close>

datatype dhan_token = TokenOf string string | LegacyToken string | NoToken

definition token_of :: "(json \<Rightarrow> string) \<Rightarrow> instrument \<Rightarrow> dhan_token" where
  "token_of pr ins =
     (let token = jfield (i_broker_tokens ins) ''DHAN'';
          fs = (case token of JObj fs \<Rightarrow> fs | _ \<Rightarrow> []);
          security_id = jfield fs ''security_id''; segment = jfield fs ''exchange_segment'' in
      if jtruthy security_id \<and> jtruthy segment then TokenOf (jstr pr segment) (jstr pr security_id)
      else if jtruthy token then LegacyToken (jstr pr token)
      else NoToken)"

text \<open>
  The dictionaries built from the table: from segment and id to the instrument, and from an older token to the one
  instrument that has it (two make it ambiguous).  An instrument is referred to by its id.
\<close>

type_synonym token_map = "string \<times> string \<Rightarrow> string option"

fun tokens_of :: "(json \<Rightarrow> string) \<Rightarrow> instrument list \<Rightarrow> token_map \<Rightarrow> token_map" where
  "tokens_of pr [] m = m"
| "tokens_of pr (x # xs) m =
     tokens_of pr xs (case token_of pr x of
       TokenOf segment sid \<Rightarrow> m((segment, sid) \<mapsto> i_id x)
     | LegacyToken t \<Rightarrow> m(([], t) \<mapsto> i_id x)
     | NoToken \<Rightarrow> m)"

fun legacy_of :: "(json \<Rightarrow> string) \<Rightarrow> instrument list \<Rightarrow> (string \<times> string option) list \<Rightarrow> (string \<times> string option) list" where
  "legacy_of pr [] l = l"
| "legacy_of pr (x # xs) l =
     legacy_of pr xs (case token_of pr x of
       LegacyToken t \<Rightarrow> AList.update t (if map_of l t = None then Some (i_id x) else None) l
     | _ \<Rightarrow> l)"

section \<open>New instruments\<close>

definition identity_of :: "instrument \<Rightarrow> string \<times> string \<times> string" where
  "identity_of x = (i_exchange x, i_segment x, i_symbol x)"

text \<open>The symbol with the n-th suffix, and the first one that is free.\<close>

definition suffixed :: "instrument_values \<Rightarrow> nat \<Rightarrow> string" where
  "suffixed v n =
     (if n = 0 then iv_symbol v
      else iv_symbol v @ '':'' @ iv_security_id v @ (if 1 < n then '':'' @ str_of_int (int n) else []))"

lemma str_of_int_inject: "str_of_int a = str_of_int b \<Longrightarrow> a = b"
  by (metis int_of_text_str_of_int option.inject)

lemma suffixed_inject:
  assumes "suffixed v m = suffixed v n"
  shows "m = n"
proof -
  consider "m = 0 \<or> n = 0" | "m = 1 \<or> n = 1" "m \<noteq> 0" "n \<noteq> 0" | "1 < m" "1 < n" by linarith
  then show ?thesis
  proof cases
    case 1
    with assms show ?thesis by (cases "m = 0"; cases "n = 0") (auto simp: suffixed_def split: if_splits)
  next
    case 2
    with assms show ?thesis by (cases "1 < m"; cases "1 < n") (auto simp: suffixed_def)
  next
    case 3
    with assms have "str_of_int (int m) = str_of_int (int n)" by (simp add: suffixed_def)
    then show ?thesis by (auto dest: str_of_int_inject)
  qed
qed

function free_symbol :: "(string \<times> string \<times> string) list \<Rightarrow> instrument_values \<Rightarrow> nat \<Rightarrow> string" where
  "free_symbol taken v n =
     (if (iv_exchange v, iv_segment v, suffixed v n) \<in> set taken then free_symbol taken v (Suc n) else suffixed v n)"
  by auto
termination
proof (relation "measure (\<lambda>(taken, v, n). card {m. n \<le> m \<and> (iv_exchange v, iv_segment v, suffixed v m) \<in> set taken})")
  fix taken :: "(string \<times> string \<times> string) list" and v n
  assume used: "(iv_exchange v, iv_segment v, suffixed v n) \<in> set taken"
  let ?from = "\<lambda>n. {m. n \<le> m \<and> (iv_exchange v, iv_segment v, suffixed v m) \<in> set taken}"
  have "inj (\<lambda>m. (iv_exchange v, iv_segment v, suffixed v m))" by (rule injI) (auto dest: suffixed_inject)
  then have "finite ((\<lambda>m. (iv_exchange v, iv_segment v, suffixed v m)) -` set taken)" by (simp add: finite_vimageI)
  then have "finite (?from n)" by (rule rev_finite_subset) auto
  have "n \<in> ?from n" "n \<notin> ?from (Suc n)" "?from (Suc n) \<subseteq> ?from n" using used by auto
  then have "?from (Suc n) \<subset> ?from n" by blast
  with \<open>finite (?from n)\<close> have "card (?from (Suc n)) < card (?from n)" by (rule psubset_card_mono)
  then show "((taken, v, Suc n), taken, v, n)
    \<in> measure (\<lambda>(taken, v, n). card {m. n \<le> m \<and> (iv_exchange v, iv_segment v, suffixed v m) \<in> set taken})"
    by simp
qed simp

declare free_symbol.simps [simp del]

definition new_instrument :: "string \<Rightarrow> instrument_values \<Rightarrow> string \<Rightarrow> instrument" where
  "new_instrument iid v symbol =
     \<lparr>i_id = iid, i_exchange = iv_exchange v, i_segment = iv_segment v, i_symbol = symbol,
      i_trading_symbol = iv_trading_symbol v, i_name = None, i_instrument_type = iv_instrument_type v,
      i_expiry_at = None, i_strike = None, i_option_type = None, i_lot_size = None, i_tick_size = None,
      i_broker_tokens = [], i_metadata_json = [], i_is_active = True\<rparr>"

text \<open>What a row writes to its instrument; exchange, segment and symbol stay.\<close>

definition written_instrument :: "instrument_values \<Rightarrow> instrument \<Rightarrow> instrument" where
  "written_instrument v x =
     x\<lparr>i_trading_symbol := iv_trading_symbol v, i_name := Some (iv_name v), i_instrument_type := iv_instrument_type v,
       i_expiry_at := iv_expiry_at v, i_strike := iv_strike v, i_option_type := iv_option_type v,
       i_lot_size := iv_lot_size v, i_tick_size := iv_tick_size v,
       i_broker_tokens := AList.update ''DHAN'' (JObj [(''security_id'', JStr (iv_security_id v)),
         (''exchange_segment'', JStr (iv_feed_segment v))]) (i_broker_tokens x),
       i_metadata_json := AList.update ''dhan'' (JObj (iv_metadata v)) (i_metadata_json x), i_is_active := True\<rparr>"

section \<open>The import\<close>

text \<open>
  Between rows: the instruments, the two dictionaries, the identities in use, and the counts of created, updated and
  skipped rows.  The older tokens are not added to.
\<close>

record import_state =
  im_session :: session
  im_tokens :: token_map
  im_identities :: "(string \<times> string \<times> string) list"
  im_created :: int
  im_updated :: int
  im_skipped :: int

definition on_instruments :: "(instrument table \<Rightarrow> instrument table) \<Rightarrow> session \<Rightarrow> session" where
  "on_instruments f s = s\<lparr>cur := (cur s)\<lparr>t_instruments := f (t_instruments (cur s))\<rparr>\<rparr>"

definition write_instrument :: "string \<Rightarrow> instrument_values \<Rightarrow> session \<Rightarrow> session" where
  "write_instrument iid v s =
     on_instruments (\<lambda>t. \<lparr>rows = map (\<lambda>x. if i_id x = iid then written_instrument v x else x) (rows t),
       added = map (\<lambda>x. if i_id x = iid then written_instrument v x else x) (added t)\<rparr>) s"

definition target_of :: "(string \<times> string option) list \<Rightarrow> import_state \<Rightarrow> instrument_values \<Rightarrow> string option" where
  "target_of legacy st v =
     (case im_tokens st (iv_feed_segment v, iv_security_id v) of
        Some iid \<Rightarrow> Some iid
      | None \<Rightarrow> or_else (map_of legacy (iv_security_id v)) None)"

definition import_values :: "(string \<times> string option) list \<Rightarrow> instrument_values \<Rightarrow> import_state \<Rightarrow> import_state" where
  "import_values legacy v st =
     (case target_of legacy st v of
        Some iid \<Rightarrow> st\<lparr>im_session := write_instrument iid v (im_session st), im_updated := im_updated st + 1\<rparr>
      | None \<Rightarrow>
          let iid = fresh (im_session st); x = new_instrument iid v (free_symbol (im_identities st) v 0);
              s = on_instruments (insert_row x) (draw (im_session st))
          in st\<lparr>im_session := write_instrument iid v s,
                im_tokens := (im_tokens st)((iv_feed_segment v, iv_security_id v) \<mapsto> iid),
                im_identities := identity_of x # im_identities st, im_created := im_created st + 1\<rparr>)"

fun import_rows :: "(string \<times> string option) list \<Rightarrow> csv_row list \<Rightarrow> import_state \<Rightarrow> exn + import_state" where
  "import_rows legacy [] st = Inr st"
| "import_rows legacy (row # csv) st =
     (case parse_dhan_instrument row of
        Inl e \<Rightarrow> Inl e
      | Inr None \<Rightarrow> import_rows legacy csv (st\<lparr>im_skipped := im_skipped st + 1\<rparr>)
      | Inr (Some v) \<Rightarrow> import_rows legacy csv (import_values legacy v st))"

definition import_start :: "(json \<Rightarrow> string) \<Rightarrow> session \<Rightarrow> import_state" where
  "import_start pr s =
     (let instruments = rows (t_instruments (cur s)) in
      \<lparr>im_session = s, im_tokens = tokens_of pr instruments (\<lambda>_. None), im_identities = map identity_of instruments,
       im_created = 0, im_updated = 0, im_skipped = 0\<rparr>)"

text \<open>\<open>header\<close> holds the field names of the file, none when it is empty.  What is not committed is gone.\<close>

definition import_dhan_instruments ::
  "(json \<Rightarrow> string) \<Rightarrow> string list \<Rightarrow> csv_row list \<Rightarrow> session \<Rightarrow> (exn + int \<times> int \<times> int) \<times> session" where
  "import_dhan_instruments pr header csv s =
     (if header = [] then (Inl (PyError ''SystemExit''), s)
      else case import_rows (legacy_of pr (rows (t_instruments (cur s))) []) csv (import_start pr s) of
        Inl e \<Rightarrow> (Inl e, s)
      | Inr st \<Rightarrow> commit_return (im_created st, im_updated st, im_skipped st) (im_session st))"

end
