(* ===== verification/InstrumentProps.thy ===== *)
theory InstrumentProps
  imports InstrumentImport DhanInstruments CredentialFacts Scenario
begin

text \<open>
  What the import of \<open>InstrumentImport\<close> guarantees: an instrument that was written can be subscribed to in the segment
  of its row, and a second import of the same file creates nothing and changes nothing, as long as the table has no
  tokens of the older form.
\<close>

section \<open>Rows one after the other\<close>

abbreviation key_of_values :: "instrument_values \<Rightarrow> string \<times> string" where
  "key_of_values v \<equiv> (iv_feed_segment v, iv_security_id v)"

fun values_in :: "csv_row list \<Rightarrow> instrument_values list" where
  "values_in [] = []"
| "values_in (row # csv) = (case parse_dhan_instrument row of Inr (Some v) \<Rightarrow> v # values_in csv | _ \<Rightarrow> values_in csv)"

fun import_all :: "(string \<times> string option) list \<Rightarrow> instrument_values list \<Rightarrow> import_state \<Rightarrow> import_state" where
  "import_all legacy [] st = st"
| "import_all legacy (v # vs) st = import_all legacy vs (import_values legacy v st)"

lemma import_values_skipped:
  "import_values legacy v (st\<lparr>im_skipped := n\<rparr>) = (import_values legacy v st)\<lparr>im_skipped := n\<rparr>"
  "im_skipped (import_values legacy v st) = im_skipped st"
  by (simp_all add: import_values_def target_of_def Let_def split: option.split)

lemma import_all_skipped: "import_all legacy vs (st\<lparr>im_skipped := n\<rparr>) = (import_all legacy vs st)\<lparr>im_skipped := n\<rparr>"
  by (induction vs arbitrary: st) (simp_all add: import_values_skipped)

lemma import_all_skips: "im_skipped (import_all legacy vs st) = im_skipped st"
  by (induction vs arbitrary: st) (simp_all add: import_values_skipped)

text \<open>The rows that cannot be parsed decide whether the import succeeds, the others what it does.\<close>

lemma import_rows_all:
  assumes "import_rows legacy csv st = Inr st'"
  shows "import_rows legacy' csv st2 =
    Inr ((import_all legacy' (values_in csv) st2)\<lparr>im_skipped := im_skipped st2 + (im_skipped st' - im_skipped st)\<rparr>)"
  using assms
proof (induction csv arbitrary: st st2)
  case Nil
  then show ?case by simp
next
  case (Cons row csv)
  show ?case
  proof (cases "parse_dhan_instrument row")
    case (Inl e)
    then show ?thesis using Cons.prems by simp
  next
    case (Inr parsed)
    then show ?thesis
      using Cons.prems Cons.IH
      by (cases parsed) (auto simp: import_all_skipped import_values_skipped)
  qed
qed

section \<open>The dictionary of tokens\<close>

lemma tokens_of_append: "tokens_of pr (xs @ ys) m = tokens_of pr ys (tokens_of pr xs m)"
  by (induction xs arbitrary: m) simp_all

lemma tokens_of_cong:
  "map (\<lambda>x. (i_id x, token_of pr x)) xs = map (\<lambda>x. (i_id x, token_of pr x)) ys \<Longrightarrow> tokens_of pr xs m = tokens_of pr ys m"
proof (induction xs arbitrary: ys m)
  case (Cons x xs)
  then obtain y zs where ys: "ys = y # zs" "i_id x = i_id y" "token_of pr x = token_of pr y"
    "map (\<lambda>x. (i_id x, token_of pr x)) xs = map (\<lambda>x. (i_id x, token_of pr x)) zs"
    by (cases ys) simp_all
  show ?case unfolding ys(1) tokens_of.simps ys(2,3) by (rule Cons.IH [OF ys(4)])
qed simp

definition modern :: "(json \<Rightarrow> string) \<Rightarrow> instrument list \<Rightarrow> bool" where
  "modern pr xs \<longleftrightarrow> (\<forall>x \<in> set xs. \<forall>t. token_of pr x \<noteq> LegacyToken t)"

lemma legacy_of_modern: "modern pr xs \<Longrightarrow> legacy_of pr xs l = l"
  by (induction xs) (auto simp: modern_def split: dhan_token.split)

lemma tokens_of_Some:
  assumes "tokens_of pr xs (\<lambda>_. None) k = Some iid" "modern pr xs"
  shows "\<exists>x \<in> set xs. i_id x = iid \<and> token_of pr x = TokenOf (fst k) (snd k)"
  using assms
proof (induction xs rule: rev_induct)
  case (snoc x xs)
  then have "modern pr xs" "\<And>t. token_of pr x \<noteq> LegacyToken t" by (auto simp: modern_def)
  with snoc show ?case
    by (auto simp: tokens_of_append split: dhan_token.splits if_splits)
qed simp

lemma tokens_of_dom: "tokens_of pr xs m k = None \<Longrightarrow> x \<in> set xs \<Longrightarrow> token_of pr x \<noteq> TokenOf (fst k) (snd k)"
proof (induction xs rule: rev_induct)
  case (snoc x xs)
  then show ?case by (auto simp: tokens_of_append split: dhan_token.splits if_splits)
qed simp

section \<open>Writing a row twice\<close>

lemma update_again: "AList.update k a (AList.update k b l) = AList.update k a l"
  by (induction l) auto

lemma written_again: "written_instrument v (written_instrument w x) = written_instrument v x"
  by (simp add: written_instrument_def update_again)

lemma written_id [simp]: "i_id (written_instrument v x) = i_id x"
  by (simp add: written_instrument_def)

lemma jfield_update: "jfield (AList.update k v l) k = v"
  by (simp add: jfield_def update_conv')

text \<open>The texts of a row are not empty.\<close>

lemma value_of_strip: "value_of row names \<noteq> [] \<Longrightarrow> \<exists>t. value_of row names = py_strip t"
  by (induction row names rule: value_of.induct) (auto simp: value_of.simps split: option.splits if_splits)

lemma values_in_parsed: "v \<in> set (values_in csv) \<Longrightarrow> \<exists>row. parse_dhan_instrument row = Inr (Some v)"
  by (induction csv) (auto split: sum.splits option.splits)

lemma dropWhile_keeps: "x \<in> set xs \<Longrightarrow> \<not> P x \<Longrightarrow> x \<in> set (dropWhile P xs)"
  by (induction xs) auto

lemma py_strip_again: "py_strip t \<noteq> [] \<Longrightarrow> py_strip (py_strip t) \<noteq> []"
proof -
  assume "py_strip t \<noteq> []"
  then have "dropWhile is_space_char (rev (dropWhile is_space_char t)) \<noteq> []" by (simp add: py_strip_def)
  from hd_dropWhile [OF this] hd_in_set [OF this] obtain c where "c \<in> set (py_strip t)" "\<not> is_space_char c"
    unfolding py_strip_def by (metis set_rev)
  then have "c \<in> set (py_strip (py_strip t))"
    unfolding py_strip_def [of "py_strip t"] by (simp add: dropWhile_keeps)
  then show ?thesis by auto
qed

lemma canonical_feed:
  assumes "canonical row = Some (place, segment, feed)"
  shows "feed \<in> fst ` set SEGMENT_CODES" "py_upper feed = feed" "feed \<noteq> []"
proof -
  have "feed \<in> {''IDX_I'', ''NSE_EQ'', ''NSE_FNO'', ''NSE_CURRENCY'', ''BSE_EQ'', ''BSE_FNO'', ''BSE_CURRENCY'', ''MCX_COMM''}"
    using assms by (auto simp: canonical_def segment_mapping_def split: if_splits dest!: map_of_SomeD)
  then show "feed \<in> fst ` set SEGMENT_CODES" "py_upper feed = feed" "feed \<noteq> []"
    by (auto simp: SEGMENT_CODES_def py_upper_def is_lower_char_def code_of_def)
qed

lemma parsed_keys:
  assumes "parse_dhan_instrument row = Inr (Some v)"
  shows "iv_feed_segment v \<in> fst ` set SEGMENT_CODES" "py_upper (iv_feed_segment v) = iv_feed_segment v"
    "iv_feed_segment v \<noteq> []" "py_strip (iv_security_id v) \<noteq> []"
proof -
  obtain place segment where c: "canonical row = Some (place, segment, iv_feed_segment v)"
    using assms by (auto simp: parse_dhan_instrument_def Let_def and_then_def split: if_splits option.splits sum.splits prod.splits)
  from assms have "iv_security_id v = value_of row [''SECURITY_ID'', ''SEM_SMST_SECURITY_ID'']" "iv_security_id v \<noteq> []"
    by (auto simp: parse_dhan_instrument_def Let_def and_then_def split: if_splits option.splits sum.splits prod.splits)
  then show "py_strip (iv_security_id v) \<noteq> []" using value_of_strip py_strip_again by metis
  show "iv_feed_segment v \<in> fst ` set SEGMENT_CODES" "py_upper (iv_feed_segment v) = iv_feed_segment v"
    "iv_feed_segment v \<noteq> []"
    by (rule canonical_feed [OF c])+
qed

text \<open>An instrument that a row was written to has the token of the row, and can be subscribed to.\<close>

definition listed :: "(json \<Rightarrow> string) \<Rightarrow> instrument_values \<Rightarrow> instrument \<Rightarrow> bool" where
  "listed pr v x \<longleftrightarrow> i_is_active x \<and>
     (\<exists>code. map_of SEGMENT_CODES (iv_feed_segment v) = Some code \<and>
        dhan_subscription pr x = Inr \<lparr>sub_instrument_id = i_id x, sub_segment = iv_feed_segment v, sub_code = code,
          sub_security_id = iv_security_id v, sub_instrument = x\<rparr>)"

lemma written_token:
  assumes "parse_dhan_instrument row = Inr (Some v)"
  shows "token_of pr (written_instrument v x) = TokenOf (iv_feed_segment v) (iv_security_id v)"
    "listed pr v (written_instrument v x)"
proof -
  have "iv_security_id v \<noteq> []" using parsed_keys(4) [OF assms] by (auto simp: py_strip_def)
  then show "token_of pr (written_instrument v x) = TokenOf (iv_feed_segment v) (iv_security_id v)"
    using parsed_keys(3) [OF assms]
    by (simp add: token_of_def written_instrument_def jfield_update Let_def) (simp add: jfield_def)
  obtain code where "map_of SEGMENT_CODES (iv_feed_segment v) = Some code"
    using parsed_keys(1) [OF assms] by (metis map_of_eq_None_iff not_None_eq)
  then show "listed pr v (written_instrument v x)"
    using parsed_keys [OF assms] \<open>iv_security_id v \<noteq> []\<close>
    by (simp add: listed_def dhan_subscription_def subscription_token_def token_segment_def written_instrument_def jfield_update)
      (simp add: jfield_def jor_def)
qed

section \<open>What an import has done\<close>

abbreviation listing :: "import_state \<Rightarrow> instrument list" where
  "listing st \<equiv> objs (t_instruments (cur (im_session st)))"

text \<open>The last of the rows for an instrument, when the dictionary sends any to it.\<close>

definition rows_for :: "token_map \<Rightarrow> instrument_values list \<Rightarrow> string \<Rightarrow> instrument_values list" where
  "rows_for m vs iid = filter (\<lambda>v. m (key_of_values v) = Some iid) vs"

text \<open>
  After the rows \<open>vs\<close>: the dictionary is the one the table gives, it knows every row, and each instrument is as the
  last of its rows leaves it.
\<close>

definition imported :: "(json \<Rightarrow> string) \<Rightarrow> instrument_values list \<Rightarrow> import_state \<Rightarrow> bool" where
  "imported pr vs st \<longleftrightarrow>
     modern pr (listing st) \<and> im_tokens st = tokens_of pr (listing st) (\<lambda>_. None) \<and>
     (\<forall>v \<in> set vs. im_tokens st (key_of_values v) \<noteq> None) \<and>
     (\<forall>x \<in> set (listing st). \<forall>ws v. rows_for (im_tokens st) vs (i_id x) = ws @ [v] \<longrightarrow> written_instrument v x = x)"

definition write_row :: "string \<Rightarrow> instrument_values \<Rightarrow> instrument \<Rightarrow> instrument" where
  "write_row iid v x = (if i_id x = iid then written_instrument v x else x)"

lemma write_row_id [simp]: "i_id (write_row iid v x) = i_id x"
  by (simp add: write_row_def)

lemma listing_write: "objs (t_instruments (cur (write_instrument iid v s))) = map (write_row iid v) (objs (t_instruments (cur s)))"
  by (simp add: write_instrument_def on_instruments_def objs_def write_row_def)

lemma imported_update:
  assumes "imported pr vs st" "im_tokens st (key_of_values v) = Some iid" "parse_dhan_instrument row = Inr (Some v)"
    and "distinct (map i_id (listing st))"
  shows "imported pr (vs @ [v]) (st\<lparr>im_session := write_instrument iid v (im_session st), im_updated := n\<rparr>)"
proof -
  let ?xs = "listing st"
  obtain y where y: "y \<in> set ?xs" "i_id y = iid" "token_of pr y = TokenOf (iv_feed_segment v) (iv_security_id v)"
    using tokens_of_Some [of pr ?xs "key_of_values v" iid] assms(1,2) by (auto simp: imported_def)
  have same: "token_of pr (write_row iid v x) = token_of pr x" if "x \<in> set ?xs" for x
    using that y written_token(1) [OF assms(3), of pr x] distinct_map_eqD [OF assms(4) that y(1)]
    by (auto simp: write_row_def)
  have "map (\<lambda>x. (i_id x, token_of pr x)) (map (write_row iid v) ?xs) = map (\<lambda>x. (i_id x, token_of pr x)) ?xs"
    using same by simp
  then have "tokens_of pr (map (write_row iid v) ?xs) (\<lambda>_. None) = im_tokens st"
    using tokens_of_cong assms(1) by (metis imported_def)
  moreover have "modern pr (map (write_row iid v) ?xs)" using assms(1) same by (auto simp: modern_def imported_def)
  moreover have "written_instrument u (write_row iid v x) = write_row iid v x"
    if x: "x \<in> set ?xs" and ws: "rows_for (im_tokens st) (vs @ [v]) (i_id x) = ws @ [u]" for x ws u
  proof (cases "i_id x = iid")
    case True
    then have "u = v" using ws assms(2) by (simp add: rows_for_def)
    then show ?thesis by (simp add: True write_row_def written_again)
  next
    case False
    then have "rows_for (im_tokens st) vs (i_id x) = ws @ [u]" using ws assms(2) by (simp add: rows_for_def)
    then show ?thesis using False x assms(1) by (simp add: write_row_def imported_def)
  qed
  ultimately show ?thesis
    using assms(1,2) by (auto simp: imported_def listing_write)
qed

lemma imported_create:
  assumes "imported pr vs st" "im_tokens st (key_of_values v) = None" "parse_dhan_instrument row = Inr (Some v)"
    and "i_id x = iid" "iid \<notin> i_id ` set (listing st)"
    and "im_tokens st' = (im_tokens st)(key_of_values v \<mapsto> iid)"
    and "listing st' = map (write_row iid v) (listing st @ [x])"
  shows "imported pr (vs @ [v]) st'"
proof -
  have others: "map (write_row iid v) (listing st) = listing st"
    using assms(5) by (intro map_idI) (auto simp: write_row_def)
  have listing: "listing st' = listing st @ [written_instrument v x]"
    using assms(4,7) others by (simp add: write_row_def)
  have "modern pr (listing st')"
    using assms(1) written_token(1) [OF assms(3), of pr x] by (auto simp: listing modern_def imported_def)
  moreover have "im_tokens st' = tokens_of pr (listing st') (\<lambda>_. None)"
    using assms(1,4,6) written_token(1) [OF assms(3), of pr x] by (simp add: listing tokens_of_append imported_def)
  moreover have "written_instrument u y = y"
    if y: "y \<in> set (listing st')" and ws: "rows_for (im_tokens st') (vs @ [v]) (i_id y) = ws @ [u]" for y ws u
  proof (cases "i_id y = iid")
    case True
    then have "u = v" using ws assms(6) by (simp add: rows_for_def)
    moreover have "y = written_instrument v x" using y True assms(5) by (auto simp: listing)
    ultimately show ?thesis by (simp add: written_again)
  next
    case False
    then have y: "y \<in> set (listing st)" using y assms(4) by (auto simp: listing)
    have "rows_for (im_tokens st') vs (i_id y) = ws @ [u]" using False ws assms(6) by (simp add: rows_for_def)
    moreover have "rows_for (im_tokens st') vs (i_id y) = rows_for (im_tokens st) vs (i_id y)"
      unfolding rows_for_def using assms(1,2,6) False by (intro filter_cong) (auto simp: imported_def)
    ultimately show ?thesis using y assms(1) by (simp add: imported_def)
  qed
  moreover have "\<forall>u \<in> set (vs @ [v]). im_tokens st' (key_of_values u) \<noteq> None"
    using assms(1,6) by (auto simp: imported_def)
  ultimately show ?thesis unfolding imported_def by blast
qed

lemma imported_step:
  assumes "imported pr vs st" "parse_dhan_instrument row = Inr (Some v)" "distinct (map i_id (listing (import_values [] v st)))"
  shows "imported pr (vs @ [v]) (import_values [] v st)"
proof (cases "im_tokens st (key_of_values v)")
  case None
  let ?iid = "fresh (im_session st)"
  have made: "import_values [] v st = st\<lparr>im_session := write_instrument ?iid v (on_instruments (insert_row
      (new_instrument ?iid v (free_symbol (im_identities st) v 0))) (draw (im_session st))),
      im_tokens := (im_tokens st)(key_of_values v \<mapsto> ?iid),
      im_identities := identity_of (new_instrument ?iid v (free_symbol (im_identities st) v 0)) # im_identities st,
      im_created := im_created st + 1\<rparr>"
    using None by (simp add: import_values_def target_of_def Let_def)
  have listing: "listing (import_values [] v st) =
      map (write_row ?iid v) (listing st @ [new_instrument ?iid v (free_symbol (im_identities st) v 0)])"
    by (simp add: made listing_write on_instruments_def)
  have "?iid \<notin> i_id ` set (listing st)"
    using assms(3) unfolding listing by (auto simp: o_def new_instrument_def)
  then show ?thesis
    by (intro imported_create [OF assms(1) None assms(2) _ _ _ listing]) (simp_all add: made new_instrument_def)
next
  case (Some iid)
  then have "import_values [] v st = st\<lparr>im_session := write_instrument iid v (im_session st), im_updated := im_updated st + 1\<rparr>"
    by (simp add: import_values_def target_of_def)
  then show ?thesis
    using imported_update [OF assms(1) Some assms(2)] assms(3) by (simp add: listing_write o_def)
qed

lemma listing_prefix: "\<exists>more. map i_id (listing (import_all legacy vs st)) = map i_id (listing st) @ more"
proof (induction vs arbitrary: st)
  case (Cons v vs)
  have "\<exists>more. map i_id (listing (import_values legacy v st)) = map i_id (listing st) @ more"
    by (auto simp: import_values_def Let_def listing_write on_instruments_def o_def split: option.split)
  with Cons [of "import_values legacy v st"] show ?case by auto
qed simp

lemma imported_all:
  assumes "imported pr us st" "\<forall>v \<in> set vs. \<exists>row. parse_dhan_instrument row = Inr (Some v)"
    and "distinct (map i_id (listing (import_all [] vs st)))"
  shows "imported pr (us @ vs) (import_all [] vs st)"
  using assms
proof (induction vs arbitrary: us st)
  case (Cons v vs)
  obtain row where row: "parse_dhan_instrument row = Inr (Some v)" using Cons.prems(2) by auto
  have "distinct (map i_id (listing (import_values [] v st)))"
    using Cons.prems(3) listing_prefix [of "[]" vs "import_values [] v st"] by auto
  from Cons.IH [OF imported_step [OF Cons.prems(1) row this]] Cons.prems(2,3) show ?case by simp
qed simp

section \<open>The second time\<close>

text \<open>What known rows do to an instrument.\<close>

fun rewritten :: "token_map \<Rightarrow> instrument_values list \<Rightarrow> instrument \<Rightarrow> instrument" where
  "rewritten m [] x = x"
| "rewritten m (v # vs) x = rewritten m vs (if m (key_of_values v) = Some (i_id x) then written_instrument v x else x)"

lemma rewritten_rows_for:
  "rewritten m vs x = foldl (\<lambda>x v. written_instrument v x) x (rows_for m vs (i_id x))"
  by (induction m vs x rule: rewritten.induct) (simp_all add: rows_for_def)

lemma written_fold: "written_instrument v (foldl (\<lambda>x v. written_instrument v x) x ws) = written_instrument v x"
  by (induction ws arbitrary: x) (simp_all add: written_again)

lemma rewritten_same:
  assumes "\<forall>ws v. rows_for m vs (i_id x) = ws @ [v] \<longrightarrow> written_instrument v x = x"
  shows "rewritten m vs x = x"
proof (cases "rows_for m vs (i_id x)" rule: rev_cases)
  case (snoc ws v)
  then have "written_instrument v x = x" using assms by blast
  then show ?thesis by (simp add: rewritten_rows_for snoc written_fold)
qed (simp add: rewritten_rows_for)

lemma known_rows:
  assumes "\<forall>v \<in> set vs. m (key_of_values v) \<noteq> None" "im_tokens st = m"
  shows "import_all [] vs st = st\<lparr>im_updated := im_updated st + int (length vs),
    im_session := on_instruments (\<lambda>t. \<lparr>rows = map (rewritten m vs) (rows t), added = map (rewritten m vs) (added t)\<rparr>)
      (im_session st)\<rparr>"
  using assms
proof (induction vs arbitrary: st)
  case Nil
  have "map (rewritten m []) xs = xs" for xs by (simp add: map_idI)
  then show ?case by (simp add: on_instruments_def)
next
  case (Cons v vs)
  then obtain iid where iid: "m (key_of_values v) = Some iid" by auto
  have "map (rewritten m vs) (map (write_row iid v) xs) = map (rewritten m (v # vs)) xs" for xs
    using iid by (auto simp: write_row_def)
  then show ?case
    using Cons iid by (simp add: import_values_def target_of_def write_instrument_def on_instruments_def write_row_def o_def)
qed

lemma import_counts:
  "im_created (import_all legacy vs st) + im_updated (import_all legacy vs st) =
   im_created st + im_updated st + int (length vs)"
  by (induction vs arbitrary: st) (simp_all add: import_values_def Let_def split: option.split)

lemma import_frame:
  "saved (im_session (import_all legacy vs st)) = saved (im_session st)"
  by (induction vs arbitrary: st)
    (simp_all add: import_values_def Let_def write_instrument_def on_instruments_def split: option.split)

text \<open>The state an import leaves, of a table without older tokens.\<close>

lemma import_result:
  assumes "at_rest s" "modern pr (rows (t_instruments (cur s)))"
    and "import_dhan_instruments pr header csv s = (Inr (created, updated, skipped), s1)"
  obtains st where "imported pr (values_in csv) st" "constraints (cur (im_session st))"
    "created + updated = int (length (values_in csv))"
    "s1 = (im_session st)\<lparr>cur := flush_all (cur (im_session st)), saved := flush_all (cur (im_session st))\<rparr>"
    "\<And>st2. import_rows [] csv st2 = Inr ((import_all [] (values_in csv) st2)\<lparr>im_skipped := im_skipped st2 + skipped\<rparr>)"
proof -
  let ?start = "import_start pr s"
  let ?st = "import_all [] (values_in csv) ?start"
  obtain stf where run: "import_rows [] csv ?start = Inr stf"
    and ends: "commit_return (im_created stf, im_updated stf, im_skipped stf) (im_session stf) = (Inr (created, updated, skipped), s1)"
    using assms(2,3) by (auto simp: import_dhan_instruments_def legacy_of_modern split: if_splits sum.splits)
  have skipped: "im_skipped stf = skipped" using ends by (simp add: commit_return_Inr)
  have all: "import_rows [] csv st2 = Inr ((import_all [] (values_in csv) st2)\<lparr>im_skipped := im_skipped st2 + skipped\<rparr>)" for st2
    using import_rows_all [OF run, of "[]" st2] skipped by (simp add: import_start_def Let_def)
  from all [of ?start] run have stf: "stf = ?st\<lparr>im_skipped := im_skipped ?start + skipped\<rparr>" by simp
  have ok: "constraints (cur (im_session ?st))" using ends by (simp add: commit_return_Inr stf)
  then have "distinct (map i_id (listing ?st))" by (simp add: constraints_def)
  moreover have "listing ?start = rows (t_instruments (cur s))"
    using assms(1) by (simp add: import_start_def Let_def objs_def at_rest_def clean_def)
  then have "imported pr [] ?start"
    using assms(2) by (simp add: imported_def rows_for_def) (simp add: import_start_def Let_def)
  ultimately have "imported pr (values_in csv) ?st"
    using imported_all [of pr "[]" ?start "values_in csv"] values_in_parsed by auto
  moreover have "created + updated = int (length (values_in csv))"
    using ends import_counts [of "[]" "values_in csv" ?start] by (simp add: commit_return_Inr stf import_start_def Let_def)
  moreover have "s1 = (im_session ?st)\<lparr>cur := flush_all (cur (im_session ?st)), saved := flush_all (cur (im_session ?st))\<rparr>"
    using ends by (simp add: commit_return_Inr stf)
  ultimately show ?thesis using that ok all by blast
qed

lemma flush_all_again: "flush_all (flush_all d) = flush_all d"
  by (simp add: flush_all_def)

section \<open>The properties\<close>

text \<open>
  C7. What was imported can be subscribed to, when no instrument of the table carries a Dhan token of the older form, a
  plain security id without a segment (\<open>modern\<close>).  Then a successful import leaves for every row it took an active
  instrument to which the market feed and the order adapter give exactly the exchange segment, the segment code and the
  security id of the row.  The condition is needed: an instrument with an older token takes every row with its security
  id, whatever the segment, and of two such rows the first is left without an instrument
  (\<open>older_token_loses_a_segment\<close>).
\<close>

theorem imported_rows_can_be_subscribed:
  assumes "at_rest s" "modern pr (rows (t_instruments (cur s)))"
    and "import_dhan_instruments pr header csv s = (Inr (created, updated, skipped), s1)"
    and "row \<in> set csv" "parse_dhan_instrument row = Inr (Some v)"
  shows "\<exists>x \<in> set (rows (t_instruments (saved s1))). listed pr v x"
proof -
  obtain st where st: "imported pr (values_in csv) st"
    "s1 = (im_session st)\<lparr>cur := flush_all (cur (im_session st)), saved := flush_all (cur (im_session st))\<rparr>"
    by (rule import_result [OF assms(1-3)])
  have v: "v \<in> set (values_in csv)" using assms(4,5) by (induction csv) (auto split: sum.splits option.splits)
  then obtain iid where "im_tokens st (key_of_values v) = Some iid" using st(1) by (auto simp: imported_def)
  then obtain x where x: "x \<in> set (listing st)" "i_id x = iid" "token_of pr x = TokenOf (iv_feed_segment v) (iv_security_id v)"
    and m: "im_tokens st (key_of_values v) = Some (i_id x)"
    using tokens_of_Some [of pr "listing st" "key_of_values v" iid] st(1) by (auto simp: imported_def)
  then have "v \<in> set (rows_for (im_tokens st) (values_in csv) (i_id x))" using v by (simp add: rows_for_def)
  then obtain ws u where ws: "rows_for (im_tokens st) (values_in csv) (i_id x) = ws @ [u]"
    by (cases "rows_for (im_tokens st) (values_in csv) (i_id x)" rule: rev_cases) auto
  then have "u \<in> set (rows_for (im_tokens st) (values_in csv) (i_id x))" by simp
  then obtain row' where u: "parse_dhan_instrument row' = Inr (Some u)"
    using values_in_parsed by (auto simp: rows_for_def)
  have same: "written_instrument u x = x" using st(1) x(1) ws by (auto simp: imported_def)
  have "iv_feed_segment u = iv_feed_segment v" "iv_security_id u = iv_security_id v"
    using written_token(1) [OF u, of pr x] x(3) same by simp_all
  then have "listed pr v x" using written_token(2) [OF u, of pr x] same by (simp add: listed_def)
  then show ?thesis using x(1) st(2) by auto
qed

text \<open>
  C40. The import is idempotent when no instrument of the table carries a Dhan token of the older form, a plain security
  id without a segment (\<open>modern\<close>): once an import has succeeded, importing the same file again creates nothing, updates
  as many rows as the first import created and updated, skips the same, and leaves the database as it was, down to the
  ids it would draw.  With a token of the older form it is not idempotent, although the module says so without a
  condition: in \<open>older_token_breaks_idempotence\<close> the second import of a file creates an instrument.
\<close>

theorem second_import_changes_nothing:
  assumes "at_rest s" "modern pr (rows (t_instruments (cur s)))"
    and "import_dhan_instruments pr header csv s = (Inr (created, updated, skipped), s1)"
  shows "import_dhan_instruments pr header csv (rollback s1) = (Inr (0, created + updated, skipped), rollback s1)"
proof -
  obtain st where st: "imported pr (values_in csv) st" "constraints (cur (im_session st))"
    "created + updated = int (length (values_in csv))"
    "s1 = (im_session st)\<lparr>cur := flush_all (cur (im_session st)), saved := flush_all (cur (im_session st))\<rparr>"
    "\<And>st2. import_rows [] csv st2 = Inr ((import_all [] (values_in csv) st2)\<lparr>im_skipped := im_skipped st2 + skipped\<rparr>)"
    by (rule import_result [OF assms]) blast
  let ?s = "rollback s1"
  have cur: "cur ?s = flush_all (cur (im_session st))" "saved ?s = flush_all (cur (im_session st))" by (simp_all add: st(4))
  have table: "rows (t_instruments (saved s1)) = listing st" "added (t_instruments (saved s1)) = []" by (simp_all add: st(4))
  have same: "map (rewritten (im_tokens st) (values_in csv)) (listing st) = listing st"
    using st(1) by (intro map_idI rewritten_same) (auto simp: imported_def)
  have "on_instruments (\<lambda>t. \<lparr>rows = map (rewritten (im_tokens st) (values_in csv)) (rows t),
      added = map (rewritten (im_tokens st) (values_in csv)) (added t)\<rparr>) ?s = ?s"
  proof -
    have "\<lparr>rows = listing st, added = []\<rparr> = t_instruments (saved s1)" using table by simp
    then show ?thesis by (simp add: on_instruments_def table same rollback_def)
  qed
  moreover have start: "im_tokens (import_start pr ?s) = im_tokens st" "im_session (import_start pr ?s) = ?s"
    "im_created (import_start pr ?s) = 0" "im_updated (import_start pr ?s) = 0" "im_skipped (import_start pr ?s) = 0"
    using st(1) table by (simp_all add: import_start_def Let_def imported_def)
  moreover have "\<forall>v \<in> set (values_in csv). im_tokens st (key_of_values v) \<noteq> None"
    using st(1) unfolding imported_def by blast
  ultimately have run: "import_rows [] csv (import_start pr ?s) = Inr ((import_start pr ?s)\<lparr>im_updated := created + updated,
      im_skipped := skipped\<rparr>)"
    using known_rows [of "values_in csv" "im_tokens st" "import_start pr ?s"] st(3,5) by simp
  have "legacy_of pr (rows (t_instruments (cur ?s))) [] = []"
    using st(1) table legacy_of_modern by (simp add: imported_def)
  moreover have "header \<noteq> []" using assms(3) by (auto simp: import_dhan_instruments_def)
  moreover have "commit_return x ?s = (Inr x, ?s)" for x :: "int \<times> int \<times> int"
    using st(2) by (simp add: commit_return_Inr cur flush_all_again rollback_def st(4))
  ultimately show ?thesis using start by (simp add: import_dhan_instruments_def run)
qed

section \<open>Witnesses\<close>

definition ex_csv :: "csv_row list" where
  "ex_csv = [[(''EXCH_ID'', ''NSE''), (''SEGMENT'', ''E''), (''SECURITY_ID'', ''1333''), (''INSTRUMENT'', ''EQUITY''),
      (''SYMBOL_NAME'', ''STATE BANK OF INDIA''), (''DISPLAY_NAME'', ''SBIN''), (''LOT_SIZE'', ''1'')],
    [(''EXCH_ID'', ''NSE''), (''SEGMENT'', ''M''), (''SECURITY_ID'', ''1''), (''INSTRUMENT'', ''OPTFUT'')]]"

definition ex_empty :: session where
  "ex_empty = \<lparr>cur = empty_db, saved = empty_db, clock = 0, uuids = (\<lambda>n. CHR ''d'' # str_of_int (int n)), drawn = 0,
     wire = []\<rparr>"

lemma ex_empty_rest: "at_rest ex_empty" "modern pr (rows (t_instruments (cur ex_empty)))"
  by (simp_all add: at_rest_def ex_empty_def clean_def constraints_def empty_db_def modern_def
      objs_def empty_table_def)

lemma ex_import: "\<exists>s1. import_dhan_instruments (\<lambda>_. []) [''EXCH_ID''] ex_csv ex_empty = (Inr (1, 0, 1), s1)"
proof -
  have "fst (import_dhan_instruments (\<lambda>_. []) [''EXCH_ID''] ex_csv ex_empty) = Inr (1, 0, 1)" by code_simp
  then show ?thesis by (metis prod.collapse)
qed

lemma imported_rows_can_be_subscribed_witness:
  "\<exists>x v. parse_dhan_instrument (hd ex_csv) = Inr (Some v) \<and> listed (\<lambda>_. []) v x"
proof -
  obtain s1 where "import_dhan_instruments (\<lambda>_. []) [''EXCH_ID''] ex_csv ex_empty = (Inr (1, 0, 1), s1)"
    using ex_import by blast
  note imported = imported_rows_can_be_subscribed [OF ex_empty_rest this, of "hd ex_csv"]
  have "(case parse_dhan_instrument (hd ex_csv) of Inr (Some v) \<Rightarrow> True | _ \<Rightarrow> False)" by code_simp
  then obtain v where "parse_dhan_instrument (hd ex_csv) = Inr (Some v)" by (auto split: sum.splits option.splits)
  with imported [OF _ this] show ?thesis by (auto simp: ex_csv_def)
qed

lemma second_import_changes_nothing_witness:
  "\<exists>s1. import_dhan_instruments (\<lambda>_. []) [''EXCH_ID''] ex_csv ex_empty = (Inr (1, 0, 1), s1) \<and>
     import_dhan_instruments (\<lambda>_. []) [''EXCH_ID''] ex_csv (rollback s1) = (Inr (0, 1, 1), rollback s1)"
proof -
  obtain s1 where s1: "import_dhan_instruments (\<lambda>_. []) [''EXCH_ID''] ex_csv ex_empty = (Inr (1, 0, 1), s1)"
    using ex_import by blast
  from second_import_changes_nothing [OF ex_empty_rest this] s1 show ?thesis by auto
qed

text \<open>
  With a token of the older form, two rows with one security id in two segments are written to the same instrument,
  and a second import makes another: the import is not idempotent then.
\<close>

definition ex_older :: session where
  "ex_older = (let d = empty_db\<lparr>t_instruments := \<lparr>rows = [ex_instrument], added = []\<rparr>\<rparr> in ex_empty\<lparr>cur := d, saved := d\<rparr>)"

definition ex_two_segments :: "csv_row list" where
  "ex_two_segments = map (\<lambda>place. [(''EXCH_ID'', place), (''SEGMENT'', ''E''), (''SECURITY_ID'', ''1594''),
     (''INSTRUMENT'', ''EQUITY''), (''SYMBOL_NAME'', ''INFY''), (''DISPLAY_NAME'', ''INFY'')]) [''NSE'', ''BSE'']"

lemma older_token_breaks_idempotence:
  "fst (import_dhan_instruments (\<lambda>_. []) [''EXCH_ID''] ex_two_segments ex_older) = Inr (0, 2, 0)"
  "fst (import_dhan_instruments (\<lambda>_. []) [''EXCH_ID''] ex_two_segments
     (snd (import_dhan_instruments (\<lambda>_. []) [''EXCH_ID''] ex_two_segments ex_older))) = Inr (1, 1, 0)"
  by code_simp+

text \<open>After the first of these imports the row of NSE has no instrument: the only one is that of BSE.\<close>

lemma older_token_loses_a_segment:
  "map (token_of (\<lambda>_. [])) (rows (t_instruments (saved (snd (import_dhan_instruments (\<lambda>_. []) [''EXCH_ID'']
     ex_two_segments ex_older))))) = [TokenOf ''BSE_EQ'' ''1594'']"
  by code_simp

lemma date_examples:
  "expiry_of ''2026-09-30'' = Some (1790726400 * 1000000)" "expiry_of ''30-09-2026'' = expiry_of ''2026-09-30''"
  "expiry_of ''30/9/2026'' = expiry_of ''2026-09-30''" "expiry_of ''2024-02-29 15:30:00'' = Some (1709220600 * 1000000)"
  "expiry_of ''2023-02-29'' = None" "expiry_of ''0000-00-00'' = None" "expiry_of ''2026-09-301'' = None"
  by code_simp+

end
