(* ===== verification/RedisBus.thy ===== *)
theory RedisBus
  imports MarketBus "HOL-Library.Char_ord" "HOL-Library.List_Lexorder"
begin

text \<open>
  \<^verbatim>\<open>market/bus.py\<close> when a Redis server answers: the commands each operation sends, as values, in the order the code
  sends them (the members of a Python set are taken in the order of the list that stands for it).  The server is the
  parameter \<open>redis_server\<close>; what is assumed of it is the documented effect of the commands, \<open>redis_laws\<close>.  The texts of
  quotes and of instants are parameters too.
\<close>

section \<open>Commands and keys\<close>

datatype redis_cmd =
    CmdSet string string int
  | CmdPublish string string
  | CmdHset string "(string \<times> json) list"
  | CmdHincrby string string int
  | CmdExpire string int
  | CmdDel string
  | CmdSadd string "string list"
  | CmdSrem string string

fun joined :: "string \<Rightarrow> string list \<Rightarrow> string" where
  "joined sep [] = []"
| "joined sep [x] = x"
| "joined sep (x # y # xs) = x @ sep @ joined sep (y # xs)"

definition redis_key :: "settings \<Rightarrow> string list \<Rightarrow> string" where
  "redis_key cfg parts = joined '':'' (market_redis_prefix cfg # parts)"

text \<open>
  \<^verbatim>\<open>redis()\<close>: whether a client is at hand, made and pinged when there is none; a failure is not tried again for five
  seconds of the monotonic clock.  \<open>answers\<close> says whether the server answers the ping.
\<close>

record redis_link =
  rl_connected :: bool
  rl_retry_at :: pyfloat

definition redis_client :: "settings \<Rightarrow> pyfloat \<Rightarrow> bool \<Rightarrow> redis_link \<Rightarrow> bool \<times> redis_link" where
  "redis_client cfg now answers l =
     (if redis_url cfg = None \<or> redis_url cfg = Some [] \<or> now < rl_retry_at l then (False, l)
      else if rl_connected l \<or> answers then (True, l\<lparr>rl_connected := True\<rparr>)
      else (False, l\<lparr>rl_connected := False, rl_retry_at := fadd now 5\<rparr>))"

section \<open>Quotes\<close>

text \<open>The texts of a quote (\<^verbatim>\<open>wire()\<close>) and of an instant (\<^verbatim>\<open>isoformat()\<close>), and the reading of a quote.\<close>

record bus_texts =
  bt_wire :: "quote \<Rightarrow> string"
  bt_iso :: "instant \<Rightarrow> string"
  bt_from_wire :: "string \<Rightarrow> exn + quote"

definition published_health :: "bus_texts \<Rightarrow> instant \<Rightarrow> quote \<Rightarrow> (string \<times> json) list" where
  "published_health tx now q =
     [(''state'', JStr ''connected''), (''last_tick_at'', JStr (bt_iso tx now)),
      (''last_exchange_timestamp'', JStr (bt_iso tx (q_exchange_timestamp q))),
      (''quote_latency_ms'', JFloat (quote_latency q)), (''last_error'', JStr []),
      (''updated_at'', JStr (bt_iso tx now))]"

definition redis_publish :: "settings \<Rightarrow> bus_texts \<Rightarrow> instant \<Rightarrow> string \<Rightarrow> quote \<Rightarrow> bus \<Rightarrow> bus \<times> redis_cmd list" where
  "redis_publish cfg tx now uid q b =
     (publish_health now uid q b,
      [CmdSet (redis_key cfg [''latest'', uid, q_instrument_id q]) (bt_wire tx q) (market_quote_ttl_seconds cfg),
       CmdPublish (redis_key cfg [''quote'', uid, q_instrument_id q]) (bt_wire tx q),
       CmdHset (redis_key cfg [''health'', uid]) (published_health tx now q),
       CmdHincrby (redis_key cfg [''health'', uid]) ''tick_count'' 1,
       CmdExpire (redis_key cfg [''health'', uid]) (market_feed_health_ttl_seconds cfg)])"

text \<open>\<open>mget\<close> answers one value for each key; a value that is missing or empty is passed over.\<close>

fun read_quotes :: "bus_texts \<Rightarrow> string option list \<Rightarrow> exn + quote list" where
  "read_quotes tx [] = Inr []"
| "read_quotes tx (v # vs) =
     (case v of
        Some (c # cs) \<Rightarrow> and_then (bt_from_wire tx (c # cs)) (\<lambda>q. map_sum id ((#) q) (read_quotes tx vs))
      | _ \<Rightarrow> read_quotes tx vs)"

definition redis_latest ::
  "settings \<Rightarrow> bus_texts \<Rightarrow> (string list \<Rightarrow> string option list) \<Rightarrow> bus \<Rightarrow> string \<Rightarrow> string list \<Rightarrow> exn + quote list" where
  "redis_latest cfg tx mget b uid iids =
     (if iids = [] then Inr (latest b uid iids)
      else read_quotes tx (mget (map (\<lambda>i. redis_key cfg [''latest'', uid, i]) iids)))"

text \<open>One turn of the loop of \<^verbatim>\<open>listen\<close>: a message of a pattern is a quote, anything else is passed over.\<close>

definition redis_message :: "bus_texts \<Rightarrow> (string \<times> string) option \<Rightarrow> exn + quote option" where
  "redis_message tx m =
     (case m of
        None \<Rightarrow> Inr None
      | Some (kind, data) \<Rightarrow> if kind = ''pmessage'' then map_sum id Some (bt_from_wire tx data) else Inr None)"

section \<open>Subscriptions\<close>

definition subscriber_key :: "settings \<Rightarrow> string \<Rightarrow> string \<Rightarrow> string" where
  "subscriber_key cfg uid iid = redis_key cfg [''subscribers'', uid, iid]"

definition held :: "bus \<Rightarrow> string \<times> string \<Rightarrow> string list" where
  "held b k = or_else (map_of (bus_clients b) k) []"

text \<open>\<^verbatim>\<open>SubscriptionCommand\<close>, the message on the control channel; \<open>dump\<close> is its \<^verbatim>\<open>model_dump_json\<close>.\<close>

record subscription_command =
  cmd_action :: string
  cmd_user_id :: string
  cmd_instrument_ids :: "string list"
  cmd_mode :: string
  cmd_client_id :: string
  cmd_emitted_at :: instant

definition control_command ::
  "settings \<Rightarrow> (subscription_command \<Rightarrow> string) \<Rightarrow> instant \<Rightarrow> string \<Rightarrow> string \<Rightarrow> string list \<Rightarrow> string \<Rightarrow> string
   \<Rightarrow> redis_cmd list" where
  "control_command cfg dump now action uid iids mode client =
     (if iids = [] then []
      else [CmdPublish (redis_key cfg [''control'']) (dump \<lparr>cmd_action = action, cmd_user_id = uid,
        cmd_instrument_ids = sort iids, cmd_mode = mode, cmd_client_id = client, cmd_emitted_at = now\<rparr>)])"

definition subscription_commands ::
  "settings \<Rightarrow> (subscription_command \<Rightarrow> string) \<Rightarrow> instant \<Rightarrow> string \<Rightarrow> string \<Rightarrow> string list \<Rightarrow> string list \<Rightarrow> string
   \<Rightarrow> redis_cmd list" where
  "subscription_commands cfg dump now uid client old iids mode =
     (let new = filter (\<lambda>i. i \<notin> set old) iids; gone = filter (\<lambda>i. i \<notin> set iids) old;
          key = redis_key cfg [''client'', uid, client] in
      CmdDel key # (if iids = [] then [] else [CmdSadd key iids, CmdExpire key 120]) @
      concat (map (\<lambda>i. [CmdSadd (subscriber_key cfg uid i) [client], CmdExpire (subscriber_key cfg uid i) 120]) new) @
      map (\<lambda>i. CmdSrem (subscriber_key cfg uid i) client) gone @
      control_command cfg dump now ''subscribe'' uid new mode client @
      control_command cfg dump now ''unsubscribe'' uid gone mode client)"

definition redis_replace ::
  "settings \<Rightarrow> (subscription_command \<Rightarrow> string) \<Rightarrow> instant \<Rightarrow> string \<Rightarrow> string \<Rightarrow> string list \<Rightarrow> string \<Rightarrow> bus
   \<Rightarrow> bus \<times> redis_cmd list" where
  "redis_replace cfg dump now uid client iids mode b =
     (replace_subscriptions uid client iids b,
      subscription_commands cfg dump now uid client (held b (uid, client)) iids mode)"

definition redis_disconnect ::
  "settings \<Rightarrow> (subscription_command \<Rightarrow> string) \<Rightarrow> instant \<Rightarrow> string \<Rightarrow> string \<Rightarrow> bus \<Rightarrow> bus \<times> redis_cmd list" where
  "redis_disconnect cfg dump now uid client b =
     (disconnect_client uid client b, snd (redis_replace cfg dump now uid client [] ''quote'' b))"

text \<open>The keys found by the scan are read back: what follows the prefix is split at the first colon.\<close>

definition removeprefix :: "string \<Rightarrow> string \<Rightarrow> string" where
  "removeprefix p t = (if take (length p) t = p then drop (length p) t else t)"

definition split_colon :: "string \<Rightarrow> exn + string \<times> string" where
  "split_colon t =
     (case dropWhile (\<lambda>c. c \<noteq> CHR '':'') t of
        [] \<Rightarrow> Inl (PyError ''ValueError'')
      | _ # rest \<Rightarrow> Inr (takeWhile (\<lambda>c. c \<noteq> CHR '':'') t, rest))"

fun redis_active :: "settings \<Rightarrow> (string \<Rightarrow> nat) \<Rightarrow> string list \<Rightarrow> exn + (string \<times> string) list" where
  "redis_active cfg scard [] = Inr []"
| "redis_active cfg scard (k # ks) =
     (if scard k = 0 then redis_active cfg scard ks
      else and_then (split_colon (removeprefix (redis_key cfg [''subscribers''] @ '':'') k))
        (\<lambda>p. map_sum id ((#) p) (redis_active cfg scard ks)))"

section \<open>Health\<close>

definition field_if :: "string \<Rightarrow> json option \<Rightarrow> (string \<times> json) list" where
  "field_if name v = (case v of None \<Rightarrow> [] | Some j \<Rightarrow> [(name, j)])"

definition redis_feed_health ::
  "settings \<Rightarrow> bus_texts \<Rightarrow> instant \<Rightarrow> string \<Rightarrow> string option \<Rightarrow> int option \<Rightarrow> instant option \<Rightarrow> instant option
   \<Rightarrow> string option \<Rightarrow> int \<Rightarrow> int \<Rightarrow> bus \<Rightarrow> bus \<times> redis_cmd list" where
  "redis_feed_health cfg tx now uid state subscriptions up_at down_at error reconnects errors b =
     (let key = redis_key cfg [''health'', uid] in
      (update_feed_health now uid state subscriptions up_at down_at error reconnects errors b,
       CmdHset key ((''updated_at'', JStr (bt_iso tx now)) # field_if ''state'' (map_option JStr state) @
         field_if ''subscription_count'' (map_option JInt subscriptions) @
         field_if ''connected_at'' (map_option (JStr \<circ> bt_iso tx) up_at) @
         field_if ''disconnected_at'' (map_option (JStr \<circ> bt_iso tx) down_at) @
         field_if ''last_error'' (map_option JStr error)) #
       (if reconnects = 0 then [] else [CmdHincrby key ''reconnect_count'' reconnects]) @
       (if errors = 0 then [] else [CmdHincrby key ''decode_errors'' errors]) @
       [CmdExpire key (market_feed_health_ttl_seconds cfg)]))"

end
