(* ===== verification/RedisProps.thy ===== *)
theory RedisProps
  imports RedisBus BusProps
begin

text \<open>
  What several processes share through the server: the API servers and the workers each have a bus of their own, and
  the sets they keep in Redis stand for all of their subscriptions, as long as no key expires.  The expiry of the keys
  is looked at separately, in the log of the commands.
\<close>

section \<open>The server\<close>

record 'r redis_server =
  rs_run :: "redis_cmd \<Rightarrow> 'r \<Rightarrow> 'r"
  rs_members :: "'r \<Rightarrow> string \<Rightarrow> string set"
  rs_scard :: "'r \<Rightarrow> string \<Rightarrow> nat"
  rs_scan :: "string \<Rightarrow> 'r \<Rightarrow> string list"

text \<open>
  The commands on sets, the keys other commands leave alone, and the keys a scan for \<^verbatim>\<open>prefix:*:*\<close> returns when the
  prefix has no characters that mean something in a pattern.
\<close>

definition plain :: "string \<Rightarrow> bool" where
  "plain p \<longleftrightarrow> (\<forall>c \<in> set p. c \<notin> set ''*?[]^-'' \<and> code_of c \<noteq> 92)"

definition redis_laws :: "'r redis_server \<Rightarrow> bool" where
  "redis_laws srv \<longleftrightarrow>
     (\<forall>k ms r. rs_members srv (rs_run srv (CmdSadd k ms) r) = (rs_members srv r)(k := rs_members srv r k \<union> set ms)) \<and>
     (\<forall>k m r. rs_members srv (rs_run srv (CmdSrem k m) r) = (rs_members srv r)(k := rs_members srv r k - {m})) \<and>
     (\<forall>k r. rs_members srv (rs_run srv (CmdDel k) r) = (rs_members srv r)(k := {})) \<and>
     (\<forall>k n r. rs_members srv (rs_run srv (CmdExpire k n) r) = rs_members srv r) \<and>
     (\<forall>c t r. rs_members srv (rs_run srv (CmdPublish c t) r) = rs_members srv r) \<and>
     (\<forall>k t n r k'. k' \<noteq> k \<longrightarrow> rs_members srv (rs_run srv (CmdSet k t n) r) k' = rs_members srv r k') \<and>
     (\<forall>k fs r k'. k' \<noteq> k \<longrightarrow> rs_members srv (rs_run srv (CmdHset k fs) r) k' = rs_members srv r k') \<and>
     (\<forall>k f n r k'. k' \<noteq> k \<longrightarrow> rs_members srv (rs_run srv (CmdHincrby k f n) r) k' = rs_members srv r k') \<and>
     (\<forall>r k. rs_scard srv r k = 0 \<longleftrightarrow> rs_members srv r k = {}) \<and>
     (\<forall>p r k. plain p \<longrightarrow> k \<in> set (rs_scan srv p r) \<longrightarrow> (\<exists>u i. k = p @ '':'' @ u @ '':'' @ i)) \<and>
     (\<forall>p r u i. plain p \<longrightarrow> rs_members srv r (p @ '':'' @ u @ '':'' @ i) \<noteq> {} \<longrightarrow> p @ '':'' @ u @ '':'' @ i \<in> set (rs_scan srv p r))"

lemma redis_lawsD:
  assumes "redis_laws srv"
  shows "rs_members srv (rs_run srv (CmdSadd k ms) r) = (rs_members srv r)(k := rs_members srv r k \<union> set ms)"
    "rs_members srv (rs_run srv (CmdSrem k m) r) = (rs_members srv r)(k := rs_members srv r k - {m})"
    "rs_members srv (rs_run srv (CmdDel k) r) = (rs_members srv r)(k := {})"
    "rs_members srv (rs_run srv (CmdExpire k n) r) = rs_members srv r"
    "rs_members srv (rs_run srv (CmdPublish k t) r) = rs_members srv r"
    "k' \<noteq> k \<Longrightarrow> rs_members srv (rs_run srv (CmdSet k t n) r) k' = rs_members srv r k'"
    "k' \<noteq> k \<Longrightarrow> rs_members srv (rs_run srv (CmdHset k fs) r) k' = rs_members srv r k'"
    "k' \<noteq> k \<Longrightarrow> rs_members srv (rs_run srv (CmdHincrby k f n) r) k' = rs_members srv r k'"
    "rs_scard srv r k = 0 \<longleftrightarrow> rs_members srv r k = {}"
    "plain p \<Longrightarrow> k \<in> set (rs_scan srv p r) \<Longrightarrow> \<exists>u i. k = p @ '':'' @ u @ '':'' @ i"
    "plain p \<Longrightarrow> rs_members srv r (p @ '':'' @ u @ '':'' @ i) \<noteq> {} \<Longrightarrow> p @ '':'' @ u @ '':'' @ i \<in> set (rs_scan srv p r)"
  using assms unfolding redis_laws_def by simp_all

section \<open>Keys\<close>

definition no_colon :: "string \<Rightarrow> bool" where
  "no_colon t \<longleftrightarrow> CHR '':'' \<notin> set t"

lemma subscriber_key_shape: "subscriber_key cfg u i = redis_key cfg [''subscribers''] @ '':'' @ u @ '':'' @ i"
  by (simp add: subscriber_key_def redis_key_def)

lemma append_colon_eq:
  "no_colon u \<Longrightarrow> no_colon v \<Longrightarrow> u @ CHR '':'' # i = v @ CHR '':'' # j \<longleftrightarrow> u = v \<and> i = j"
  by (auto simp: no_colon_def append_eq_append_conv2 Cons_eq_append_conv append_eq_Cons_conv)

lemma subscriber_key_eq:
  "no_colon u \<Longrightarrow> no_colon v \<Longrightarrow> subscriber_key cfg u i = subscriber_key cfg v j \<longleftrightarrow> u = v \<and> i = j"
  using append_colon_eq [of u v i j] by (simp add: subscriber_key_shape)

lemma other_keys:
  "subscriber_key cfg u i \<noteq> redis_key cfg [''client'', v, c]"
  "subscriber_key cfg u i \<noteq> redis_key cfg [''latest'', v, j]"
  "subscriber_key cfg u i \<noteq> redis_key cfg [''health'', v]"
  by (simp_all add: subscriber_key_def redis_key_def)

lemma before_colon:
  "no_colon u \<Longrightarrow> takeWhile (\<lambda>c. c \<noteq> CHR '':'') (u @ CHR '':'' # i) = u"
  "no_colon u \<Longrightarrow> dropWhile (\<lambda>c. c \<noteq> CHR '':'') (u @ CHR '':'' # i) = CHR '':'' # i"
  by (induction u) (auto simp: no_colon_def)

lemma split_colon_append: "no_colon u \<Longrightarrow> split_colon (u @ CHR '':'' # i) = Inr (u, i)"
  by (simp add: split_colon_def before_colon)

lemma colon_cases: "\<exists>v j. no_colon v \<and> u @ CHR '':'' # i = v @ CHR '':'' # j"
proof (induction u)
  case (Cons c u)
  then obtain v j where "no_colon v" "u @ CHR '':'' # i = v @ CHR '':'' # j" by blast
  then show ?case
    by (cases "c = CHR '':''") (auto simp: no_colon_def intro: exI [of _ "[]"] exI [of _ "c # v"])
qed (auto simp: no_colon_def intro: exI [of _ "[]"])

lemma redis_active_Inr:
  assumes "\<And>k. k \<in> set ks \<Longrightarrow> \<exists>v j. no_colon v \<and> k = subscriber_key cfg v j"
  shows "\<exists>xs. redis_active cfg scard ks = Inr xs \<and>
    set xs = {(v, j). no_colon v \<and> subscriber_key cfg v j \<in> set ks \<and> scard (subscriber_key cfg v j) \<noteq> 0}"
  using assms
proof (induction ks)
  case (Cons k ks)
  obtain v j where k: "no_colon v" "k = subscriber_key cfg v j" using Cons.prems [of k] by auto
  obtain xs where xs: "redis_active cfg scard ks = Inr xs"
    "set xs = {(v, j). no_colon v \<and> subscriber_key cfg v j \<in> set ks \<and> scard (subscriber_key cfg v j) \<noteq> 0}"
    using Cons by auto
  have "split_colon (removeprefix (redis_key cfg [''subscribers''] @ '':'') k) = Inr (v, j)"
    using k by (simp add: removeprefix_def subscriber_key_shape split_colon_append)
  then show ?case using xs k by (auto simp: subscriber_key_eq)
qed simp

section \<open>One process\<close>

definition sub_members :: "'r redis_server \<Rightarrow> settings \<Rightarrow> 'r \<Rightarrow> string \<Rightarrow> string \<Rightarrow> string set" where
  "sub_members srv cfg r u i = rs_members srv r (subscriber_key cfg u i)"

lemma sub_members_run:
  assumes "redis_laws srv" "no_colon u" "no_colon v"
  shows "sub_members srv cfg (rs_run srv (CmdSadd (subscriber_key cfg v j) ms) r) u i =
      (if u = v \<and> i = j then sub_members srv cfg r u i \<union> set ms else sub_members srv cfg r u i)"
    "sub_members srv cfg (rs_run srv (CmdSrem (subscriber_key cfg v j) m) r) u i =
      (if u = v \<and> i = j then sub_members srv cfg r u i - {m} else sub_members srv cfg r u i)"
    "sub_members srv cfg (rs_run srv (CmdExpire k n) r) u i = sub_members srv cfg r u i"
    "sub_members srv cfg (rs_run srv (CmdPublish k t) r) u i = sub_members srv cfg r u i"
  using subscriber_key_eq [OF assms(2,3)]
  by (auto simp: sub_members_def redis_lawsD [OF assms(1)])

text \<open>Commands that are not about sets of subscribers.\<close>

definition elsewhere :: "settings \<Rightarrow> redis_cmd \<Rightarrow> bool" where
  "elsewhere cfg c \<longleftrightarrow>
     (case c of
        CmdSet k _ _ \<Rightarrow> \<forall>u i. subscriber_key cfg u i \<noteq> k
      | CmdHset k _ \<Rightarrow> \<forall>u i. subscriber_key cfg u i \<noteq> k
      | CmdHincrby k _ _ \<Rightarrow> \<forall>u i. subscriber_key cfg u i \<noteq> k
      | CmdDel k \<Rightarrow> \<forall>u i. subscriber_key cfg u i \<noteq> k
      | CmdSadd k _ \<Rightarrow> \<forall>u i. subscriber_key cfg u i \<noteq> k
      | CmdSrem k _ \<Rightarrow> \<forall>u i. subscriber_key cfg u i \<noteq> k
      | CmdExpire _ _ \<Rightarrow> True
      | CmdPublish _ _ \<Rightarrow> True)"

lemma fold_elsewhere:
  assumes "redis_laws srv" "\<forall>c \<in> set cs. elsewhere cfg c"
  shows "sub_members srv cfg (fold (rs_run srv) cs r) u i = sub_members srv cfg r u i"
  using assms(2)
proof (induction cs arbitrary: r)
  case (Cons c cs)
  then have "sub_members srv cfg (rs_run srv c r) u i = sub_members srv cfg r u i"
    by (cases c) (auto simp: elsewhere_def sub_members_def redis_lawsD [OF assms(1)])
  with Cons show ?case by simp
qed simp

lemma fold_added:
  assumes "redis_laws srv" "no_colon u" "no_colon v"
  shows "sub_members srv cfg (fold (rs_run srv) (concat (map (\<lambda>i. [CmdSadd (subscriber_key cfg v i) [c],
      CmdExpire (subscriber_key cfg v i) 120]) js)) r) u i =
    sub_members srv cfg r u i \<union> (if u = v \<and> i \<in> set js then {c} else {})"
  by (induction js arbitrary: r) (auto simp: sub_members_run [OF assms])

lemma fold_removed:
  assumes "redis_laws srv" "no_colon u" "no_colon v"
  shows "sub_members srv cfg (fold (rs_run srv) (map (\<lambda>i. CmdSrem (subscriber_key cfg v i) c) js) r) u i =
    sub_members srv cfg r u i - (if u = v \<and> i \<in> set js then {c} else {})"
  by (induction js arbitrary: r) (auto simp: sub_members_run [OF assms])

lemma commands_members:
  assumes "redis_laws srv" "no_colon u" "no_colon v"
  shows "sub_members srv cfg (fold (rs_run srv) (subscription_commands cfg dump now v c old js mode) r) u i =
    sub_members srv cfg r u i \<union> (if u = v \<and> i \<in> set js - set old then {c} else {})
      - (if u = v \<and> i \<in> set old - set js then {c} else {})"
proof -
  define own where "own = CmdDel (redis_key cfg [''client'', v, c]) # (if js = [] then [] else
      [CmdSadd (redis_key cfg [''client'', v, c]) js, CmdExpire (redis_key cfg [''client'', v, c]) 120])"
  then have *: "\<forall>x \<in> set own. elsewhere cfg x" by (simp add: elsewhere_def other_keys)
  have control: "\<forall>x \<in> set (control_command cfg dump now a v ks mode c). elsewhere cfg x" for a ks
    by (simp add: control_command_def elsewhere_def)
  show ?thesis
    unfolding subscription_commands_def Let_def append_Cons [symmetric] own_def [symmetric] fold_append o_def
    by (simp add: fold_elsewhere [OF assms(1) control] fold_removed [OF assms] fold_added [OF assms]
        fold_elsewhere [OF assms(1) *])
qed

lemma publish_members:
  assumes "redis_laws srv"
  shows "sub_members srv cfg (fold (rs_run srv) (snd (redis_publish cfg tx now v q b)) r) u i = sub_members srv cfg r u i"
  by (rule fold_elsewhere [OF assms]) (simp add: redis_publish_def elsewhere_def other_keys)

section \<open>Several processes\<close>

text \<open>
  An operation with the process that does it.  \<open>lone_step\<close> is the same operation on one bus without Redis, as if all
  processes shared it.
\<close>

datatype shared_event =
    SharedReplace nat instant string string "string list" string
  | SharedDisconnect nat instant string string
  | SharedPublish nat instant string quote

definition in_process :: "nat \<Rightarrow> (bus \<Rightarrow> bus \<times> redis_cmd list) \<Rightarrow> 'r redis_server \<Rightarrow> (nat \<Rightarrow> bus) \<times> 'r \<Rightarrow> (nat \<Rightarrow> bus) \<times> 'r" where
  "in_process p f srv st =
     (case f (fst st p) of (b, cs) \<Rightarrow> ((fst st)(p := b), fold (rs_run srv) cs (snd st)))"

fun shared_step ::
  "'r redis_server \<Rightarrow> settings \<Rightarrow> (subscription_command \<Rightarrow> string) \<Rightarrow> bus_texts \<Rightarrow> shared_event
   \<Rightarrow> (nat \<Rightarrow> bus) \<times> 'r \<Rightarrow> (nat \<Rightarrow> bus) \<times> 'r" where
  "shared_step srv cfg dump tx (SharedReplace p now u c is mode) st =
     in_process p (redis_replace cfg dump now u c is mode) srv st"
| "shared_step srv cfg dump tx (SharedDisconnect p now u c) st = in_process p (redis_disconnect cfg dump now u c) srv st"
| "shared_step srv cfg dump tx (SharedPublish p now u q) st = in_process p (redis_publish cfg tx now u q) srv st"

fun lone_step :: "shared_event \<Rightarrow> bus \<Rightarrow> bus" where
  "lone_step (SharedReplace p now u c is mode) b = replace_subscriptions u c is b"
| "lone_step (SharedDisconnect p now u c) b = disconnect_client u c b"
| "lone_step (SharedPublish p now u q) b = publish now u q b"

text \<open>A client belongs to one process, and the id of a user has no colon.\<close>

fun well_named :: "(string \<times> string \<Rightarrow> nat) \<Rightarrow> shared_event \<Rightarrow> bool" where
  "well_named owner (SharedReplace p now u c is mode) \<longleftrightarrow> owner (u, c) = p \<and> no_colon u"
| "well_named owner (SharedDisconnect p now u c) \<longleftrightarrow> owner (u, c) = p \<and> no_colon u"
| "well_named owner (SharedPublish p now u q) \<longleftrightarrow> True"

lemma held_simps [simp]:
  "held (replace_subscriptions u c is b) k = (if k = (u, c) then is else held b k)"
  "held (disconnect_client u c b) k = (if k = (u, c) then [] else held b k)"
  "held (publish now u q b) k = held b k" "held (publish_health now u q b) k = held b k" "held empty_bus k = []"
  by (auto simp: held_def replace_subscriptions_def disconnect_client_def publish_def publish_health_def deliver_def
      merge_health_def Let_def empty_bus_def update_conv' delete_conv')

definition one_entry :: "bus \<Rightarrow> bool" where
  "one_entry b \<longleftrightarrow> distinct (map fst (bus_clients b))"

lemma one_entry_simps [simp]:
  "one_entry b \<Longrightarrow> one_entry (replace_subscriptions u c is b)"
  "one_entry b \<Longrightarrow> one_entry (disconnect_client u c b)"
  "one_entry b \<Longrightarrow> one_entry (publish now u q b)" "one_entry empty_bus"
  by (auto simp: one_entry_def replace_subscriptions_def disconnect_client_def publish_def publish_health_def deliver_def
      merge_health_def Let_def empty_bus_def distinct_update distinct_delete)

lemma in_active_subscriptions:
  assumes "one_entry b"
  shows "(u, i) \<in> set (active_subscriptions b) \<longleftrightarrow> (\<exists>c. i \<in> set (held b (u, c)))"
proof -
  have "held b (u, c) = is" if "((u, c), is) \<in> set (bus_clients b)" for c "is"
    using that assms by (simp add: held_def one_entry_def)
  moreover have "((u, c), held b (u, c)) \<in> set (bus_clients b)" if "held b (u, c) \<noteq> []" for c
    using that by (auto simp: held_def or_else_def map_of_SomeD split: option.splits)
  moreover have "(u, i) \<in> set (active_subscriptions b) \<longleftrightarrow> (\<exists>c js. ((u, c), js) \<in> set (bus_clients b) \<and> i \<in> set js)"
    by (auto simp: active_subscriptions_def)
  ultimately show ?thesis by (metis empty_iff empty_set)
qed

text \<open>The simulation: the server and the buses of the processes against the one bus.\<close>

definition shares :: "'r redis_server \<Rightarrow> settings \<Rightarrow> (string \<times> string \<Rightarrow> nat) \<Rightarrow> (nat \<Rightarrow> bus) \<times> 'r \<Rightarrow> bus \<Rightarrow> bool" where
  "shares srv cfg owner st b \<longleftrightarrow>
     one_entry b \<and> (\<forall>u c. held b (u, c) \<noteq> [] \<longrightarrow> no_colon u) \<and> (\<forall>u c p. owner (u, c) = p \<longrightarrow> held (fst st p) (u, c) = held b (u, c)) \<and>
     (\<forall>u i c. no_colon u \<longrightarrow> (c \<in> sub_members srv cfg (snd st) u i \<longleftrightarrow> i \<in> set (held b (u, c))))"

lemma shares_subscribers:
  assumes "shares srv cfg owner (bs, r) b"
  shows "(v, j) \<in> set (active_subscriptions b) \<longleftrightarrow> no_colon v \<and> sub_members srv cfg r v j \<noteq> {}"
proof -
  have *: "\<And>c. held b (v, c) \<noteq> [] \<Longrightarrow> no_colon v" "one_entry b"
    "\<And>c. no_colon v \<Longrightarrow> c \<in> sub_members srv cfg r v j \<longleftrightarrow> j \<in> set (held b (v, c))"
    using assms unfolding shares_def by auto
  then show ?thesis unfolding in_active_subscriptions [OF *(2)] by (metis all_not_in_conv empty_set)
qed

lemma shares_step:
  assumes "redis_laws srv" "shares srv cfg owner st b" "well_named owner ev"
  shows "shares srv cfg owner (shared_step srv cfg dump tx ev st) (lone_step ev b)"
proof (cases ev)
  case (SharedReplace p now v c js mode)
  then show ?thesis using assms
    by (auto simp: shares_def in_process_def redis_replace_def commands_members [OF assms(1)]) metis+
next
  case (SharedDisconnect p now v c)
  then show ?thesis using assms
    by (auto simp: shares_def in_process_def redis_disconnect_def redis_replace_def commands_members [OF assms(1)]) metis+
next
  case (SharedPublish p now v q)
  then show ?thesis using assms publish_members [OF assms(1), of cfg tx now v q]
    by (auto simp: shares_def in_process_def redis_publish_def)
qed

lemma shares_run:
  assumes "redis_laws srv" "shares srv cfg owner st b" "\<forall>ev \<in> set evs. well_named owner ev"
  shows "shares srv cfg owner (run_ops (shared_step srv cfg dump tx) evs st) (run_ops lone_step evs b)"
  using assms(2,3)
proof (induction evs arbitrary: st b)
  case (Cons ev evs)
  show ?case using Cons.IH [OF shares_step [OF assms(1) Cons.prems(1)]] Cons.prems(2) by simp
qed simp

section \<open>When the keys expire\<close>

text \<open>
  The deadline of a key after the commands in a log with the instants they were sent at: \<^verbatim>\<open>EXPIRE\<close> sets it, and
  \<^verbatim>\<open>DEL\<close> and \<^verbatim>\<open>SET\<close> start afresh.
\<close>

fun deadline_after :: "string \<Rightarrow> instant \<times> redis_cmd \<Rightarrow> instant option \<Rightarrow> instant option" where
  "deadline_after k (t, CmdExpire k' n) old = (if k' = k then Some (t + n * 1000000) else old)"
| "deadline_after k (t, CmdSet k' text n) old = (if k' = k then Some (t + n * 1000000) else old)"
| "deadline_after k (t, CmdDel k') old = (if k' = k then None else old)"
| "deadline_after k _ old = old"

definition deadline :: "string \<Rightarrow> (instant \<times> redis_cmd) list \<Rightarrow> instant option" where
  "deadline k sent = fold (deadline_after k) sent None"

text \<open>The log of a client that presents the same instruments at each of the given times.\<close>

fun renewals ::
  "settings \<Rightarrow> (subscription_command \<Rightarrow> string) \<Rightarrow> string \<Rightarrow> string \<Rightarrow> string list \<Rightarrow> string \<Rightarrow> instant list \<Rightarrow> bus
   \<Rightarrow> (instant \<times> redis_cmd) list" where
  "renewals cfg dump u c is mode [] b = []"
| "renewals cfg dump u c is mode (t # ts) b =
     (case redis_replace cfg dump t u c is mode b of
        (b', cs) \<Rightarrow> map (Pair t) cs @ renewals cfg dump u c is mode ts b')"

lemma unchanged_commands:
  "is \<noteq> [] \<Longrightarrow> subscription_commands cfg dump now u c is is mode =
     [CmdDel (redis_key cfg [''client'', u, c]), CmdSadd (redis_key cfg [''client'', u, c]) is,
      CmdExpire (redis_key cfg [''client'', u, c]) 120]"
  by (simp add: subscription_commands_def Let_def control_command_def)

lemma deadline_renewed:
  assumes "held b (u, c) = is" "is \<noteq> []" "ts \<noteq> []"
  shows "fold (deadline_after (subscriber_key cfg u i)) (renewals cfg dump u c is mode ts b) old = old"
    "fold (deadline_after (redis_key cfg [''client'', u, c])) (renewals cfg dump u c is mode ts b) old =
       Some (List.last ts + 120000000)"
  using assms(1,3)
proof (induction ts arbitrary: b old)
  case (Cons t ts)
  {
    case 1
    then show ?case using Cons.IH(1) [of "replace_subscriptions u c is b" old] assms(2) other_keys(1) [of cfg u i u c]
      by (cases "ts = []") (simp_all add: redis_replace_def unchanged_commands)
  next
    case 2
    then show ?case using Cons.IH(2) [of "replace_subscriptions u c is b"] assms(2)
      by (cases "ts = []") (simp_all add: redis_replace_def unchanged_commands)
  }
qed simp_all

lemma deadline_subscribed:
  assumes "held b (u, c) = []" "i \<in> set is" "no_colon u"
  shows "fold (deadline_after (subscriber_key cfg u i)) (map (Pair t) (snd (redis_replace cfg dump t u c is mode b))) old =
    Some (t + 120000000)"
proof -
  let ?k = "subscriber_key cfg u i"
  have own: "?k \<noteq> redis_key cfg [''client'', u, c]" by (rule other_keys)
  have control: "fold (deadline_after ?k) (map (Pair t) (control_command cfg dump t a u js mode c)) old = old" for a js old
    by (simp add: control_command_def)
  have set: "fold (deadline_after ?k) (map (Pair t) (concat (map (\<lambda>j. [CmdSadd (subscriber_key cfg u j) [c],
      CmdExpire (subscriber_key cfg u j) 120]) js))) old = (if i \<in> set js then Some (t + 120000000) else old)" for js old
    by (induction js arbitrary: old) (auto simp: subscriber_key_eq [OF assms(3) assms(3)])
  show ?thesis using assms(2) own
    by (auto simp: redis_replace_def assms(1) subscription_commands_def Let_def control set)
qed

section \<open>Properties\<close>

text \<open>
  C33. Through Redis all processes share one set of subscriptions.  Whatever replacements, disconnections and quotes
  the buses of several processes send to a server that starts without subscribers, in any order, what any of them reads
  back with \<^verbatim>\<open>active_subscriptions\<close> is what a single bus without Redis holds after the same operations, as long as no
  key expires: no subscription is lost, none is left over, and every key is read back as the user and instrument it was
  made of.  A client belongs to one process and user ids contain no colon.
\<close>

theorem processes_share_one_bus:
  assumes "redis_laws srv" "plain (market_redis_prefix cfg)" "\<forall>u i. rs_members srv r0 (subscriber_key cfg u i) = {}"
    and "\<forall>ev \<in> set evs. well_named owner ev"
    and "run_ops (shared_step srv cfg dump tx) evs (\<lambda>_. empty_bus, r0) = (bs, r)"
  shows "\<exists>xs. redis_active cfg (rs_scard srv r) (rs_scan srv (redis_key cfg [''subscribers'']) r) = Inr xs \<and>
    set xs = set (active_subscriptions (run_ops lone_step evs empty_bus))"
proof -
  let ?b = "run_ops lone_step evs empty_bus" and ?keys = "rs_scan srv (redis_key cfg [''subscribers'']) r"
  have "shares srv cfg owner (\<lambda>_. empty_bus, r0) empty_bus" using assms(3) by (simp add: shares_def sub_members_def)
  from shares_run [OF assms(1) this assms(4), of dump tx] have sim: "shares srv cfg owner (bs, r) ?b" by (simp add: assms(5))
  have subscribers: "(v, j) \<in> set (active_subscriptions ?b) \<longleftrightarrow> no_colon v \<and> sub_members srv cfg r v j \<noteq> {}" for v j
    by (rule shares_subscribers [OF sim])
  have plain: "plain (redis_key cfg [''subscribers''])" using assms(2) by (auto simp: plain_def redis_key_def code_of_def)
  have "\<exists>v j. no_colon v \<and> k = subscriber_key cfg v j" if "k \<in> set ?keys" for k
    using redis_lawsD(10) [OF assms(1) plain that] colon_cases by (fastforce simp: subscriber_key_shape)
  then obtain xs where xs: "redis_active cfg (rs_scard srv r) ?keys = Inr xs" "set xs = {(v, j). no_colon v \<and>
      subscriber_key cfg v j \<in> set ?keys \<and> rs_scard srv r (subscriber_key cfg v j) \<noteq> 0}"
    using redis_active_Inr by blast
  have "(v, j) \<in> set xs \<longleftrightarrow> no_colon v \<and> sub_members srv cfg r v j \<noteq> {}" for v j
    using redis_lawsD(11) [OF assms(1) plain, of r v j] xs(2) redis_lawsD(9) [OF assms(1), of r]
    by (auto simp: sub_members_def subscriber_key_shape)
  then have "(v, j) \<in> set xs \<longleftrightarrow> (v, j) \<in> set (active_subscriptions ?b)" for v j
    using subscribers [of v j] by simp
  then show ?thesis using xs(1) by auto
qed

text \<open>A server on association lists, for the witness.\<close>

fun ex_redis_run :: "redis_cmd \<Rightarrow> (string \<times> string list) list \<Rightarrow> (string \<times> string list) list" where
  "ex_redis_run (CmdSadd k ms) r = AList.update k (or_else (map_of r k) [] @ ms) r"
| "ex_redis_run (CmdSrem k m) r = AList.update k (filter (\<lambda>x. x \<noteq> m) (or_else (map_of r k) [])) r"
| "ex_redis_run (CmdDel k) r = AList.delete k r"
| "ex_redis_run _ r = r"

definition ex_redis :: "(string \<times> string list) list redis_server" where
  "ex_redis = \<lparr>rs_run = ex_redis_run, rs_members = (\<lambda>r k. set (or_else (map_of r k) [])),
     rs_scard = (\<lambda>r k. length (remdups (or_else (map_of r k) []))),
     rs_scan = (\<lambda>p r. filter (\<lambda>k. take (length p + 1) k = p @ '':'' \<and> CHR '':'' \<in> set (drop (length p + 1) k)) (map fst r))\<rparr>"

lemma ex_scan_shape:
  assumes "take (length p + 1) k = p @ '':''" "CHR '':'' \<in> set (drop (length p + 1) k)"
  shows "\<exists>u i. k = p @ '':'' @ u @ '':'' @ i"
  using assms split_list [OF assms(2)] append_take_drop_id [of "length p + 1" k] by (metis append.assoc append_Cons append_Nil)

lemma ex_redis_laws: "redis_laws ex_redis"
proof -
  have "k \<in> fst ` set r" if "or_else (map_of r k) [] \<noteq> []" for k and r :: "(string \<times> string list) list"
    using that by (cases "map_of r k") (auto dest: map_of_SomeD intro: rev_image_eqI)
  then show ?thesis using ex_scan_shape
    by (fastforce simp: redis_laws_def ex_redis_def update_conv' delete_conv' fun_eq_iff)
qed

definition ex_texts :: bus_texts where
  "ex_texts = \<lparr>bt_wire = (\<lambda>_. []), bt_iso = (\<lambda>_. []), bt_from_wire = (\<lambda>_. Inl (PyError ''ValidationError''))\<rparr>"

lemma processes_share_one_bus_witness:
  "\<exists>xs. redis_active default_settings (rs_scard ex_redis (snd (run_ops (shared_step ex_redis default_settings (\<lambda>_. []) ex_texts)
      [SharedReplace 0 0 ''u'' ''tab'' [''a'', ''b''] ''quote'', SharedReplace 1 0 ''u'' ''strategy-worker'' [''b''] ''quote'',
       SharedDisconnect 0 0 ''u'' ''tab''] (\<lambda>_. empty_bus, []))))
    (rs_scan ex_redis (redis_key default_settings [''subscribers'']) (snd (run_ops (shared_step ex_redis default_settings (\<lambda>_. []) ex_texts)
      [SharedReplace 0 0 ''u'' ''tab'' [''a'', ''b''] ''quote'', SharedReplace 1 0 ''u'' ''strategy-worker'' [''b''] ''quote'',
       SharedDisconnect 0 0 ''u'' ''tab''] (\<lambda>_. empty_bus, [])))) = Inr xs \<and> set xs = {(''u'', ''b'')}"
    (is "\<exists>xs. redis_active _ (rs_scard _ (snd (run_ops ?step ?evs _))) _ = _ \<and> _")
proof -
  have plain: "plain (market_redis_prefix default_settings)" by code_simp
  have empty: "\<forall>u i. rs_members ex_redis [] (subscriber_key default_settings u i) = {}" by (simp add: ex_redis_def)
  have named: "\<forall>ev \<in> set ?evs. well_named (\<lambda>k. if k = (''u'', ''tab'') then 0 else 1) ev" by (simp add: no_colon_def)
  have "set (active_subscriptions (run_ops lone_step ?evs empty_bus)) = {(''u'', ''b'')}" by code_simp
  with processes_share_one_bus [OF ex_redis_laws plain empty named surjective_pairing, of "\<lambda>_. []" ex_texts] show ?thesis
    by simp
qed

text \<open>
  C4. Renewing a subscription does not keep it alive.  A client that subscribes and then presents the same instruments
  again and again, as a ping of the stream and every pass of the strategy worker do, renews the expiry of its own key
  each time, but the expiry of the sets of subscribers stays where the first command put it: two minutes after the
  subscription the keys the market worker reads are due to expire, however often the client has renewed.
\<close>

theorem renewals_do_not_extend_subscriptions:
  assumes "held b (u, c) = []" "no_colon u" "i \<in> set is"
  shows "deadline (subscriber_key cfg u i) (renewals cfg dump u c is mode (t # ts) b) = Some (t + 120000000) \<and>
    deadline (redis_key cfg [''client'', u, c]) (renewals cfg dump u c is mode (t # ts @ [t']) b) = Some (t' + 120000000)"
proof -
  have "is \<noteq> []" using assms(3) by auto
  note again = deadline_renewed [of "replace_subscriptions u c is b" u c "is", OF _ this]
  have "fold (deadline_after (subscriber_key cfg u i)) (renewals cfg dump u c is mode ts (replace_subscriptions u c is b)) old = old" for old
    using again(1) [of ts] by (cases "ts = []") simp_all
  then show ?thesis
    using deadline_subscribed [OF assms(1,3,2)] again(2) [of "ts @ [t']"]
    by (simp add: deadline_def redis_replace_def split: prod.splits)
qed

lemma renewals_do_not_extend_subscriptions_witness:
  "deadline (subscriber_key default_settings ''u'' ''i'')
     (renewals default_settings (\<lambda>_. []) ''u'' ''strategy-worker'' [''i''] ''quote'' [0, 60000000, 119000000] empty_bus) =
   Some 120000000"
  using renewals_do_not_extend_subscriptions [of empty_bus "''u''" "''strategy-worker''" "''i''" "[''i'']" default_settings
      "\<lambda>_. []" "''quote''" 0 "[60000000, 119000000]" 0] by (simp add: no_colon_def)

end
