(* ===== verification/MarketStream.thy ===== *)
theory MarketStream
  imports MarketAccess TradingApi MarketBus
begin

text \<open>
  \<^verbatim>\<open>routers/market.py\<close>: the quotes and candles of a user, the status of the bus, and the WebSocket stream, a state
  machine over the commands of the client, the turns of the task that forwards quotes, and what others do with the bus
  meanwhile.  The bus is the one without Redis, whose operations do not suspend, so a command is one step; the user of a request is an argument, as in \<open>TradingApi\<close>.
\<close>

section \<open>Quotes and candles\<close>

text \<open>\<^verbatim>\<open>list(dict.fromkeys(xs))\<close>: without repetitions, in the order of the first occurrences.\<close>

definition py_unique :: "'a list \<Rightarrow> 'a list" where
  "py_unique xs = rev (remdups (rev xs))"

definition all_active :: "db \<Rightarrow> string list \<Rightarrow> bool" where
  "all_active d iids \<longleftrightarrow> (\<forall>i \<in> set iids. active_instrument d i \<noteq> None)"

definition market_quotes :: "settings \<Rightarrow> string \<Rightarrow> string list \<Rightarrow> db \<Rightarrow> bus \<Rightarrow> exn + quote list" where
  "market_quotes cfg uid iids d b =
     (let ids = py_unique iids in
      if ids = [] \<or> market_max_subscriptions cfg < int (length ids)
      then Inl (HTTPException 422 (''Request between 1 and '' @ str_of_int (market_max_subscriptions cfg) @ '' instruments''))
      else if \<not> all_active d ids then Inl (HTTPException 404 ''One or more instruments were not found'')
      else Inr (latest b uid ids))"

text \<open>One end of the range: absent or empty, or a time that has to be readable; \<open>fromiso\<close> is \<^verbatim>\<open>datetime.fromisoformat\<close>.\<close>

definition zulu :: "string \<Rightarrow> string" where
  "zulu t = concat (map (\<lambda>c. if c = CHR ''Z'' then ''+00:00'' else [c]) t)"

definition range_end :: "(string \<Rightarrow> instant option) \<Rightarrow> string option \<Rightarrow> exn + instant option" where
  "range_end fromiso v =
     (case v of
        Some (c # cs) \<Rightarrow>
          (case fromiso (zulu (c # cs)) of
             None \<Rightarrow> Inl (HTTPException 422 ''Invalid candle time range'')
           | Some t \<Rightarrow> Inr (Some t))
      | _ \<Rightarrow> Inr None)"

definition in_range :: "instant option \<Rightarrow> instant option \<Rightarrow> market_candle \<Rightarrow> bool" where
  "in_range from to k \<longleftrightarrow> (\<forall>t. from = Some t \<longrightarrow> t \<le> k_start_at k) \<and> (\<forall>t. to = Some t \<longrightarrow> k_start_at k \<le> t)"

lemma in_range_code [code]:
  "in_range from to k \<longleftrightarrow> (case from of None \<Rightarrow> True | Some t \<Rightarrow> t \<le> k_start_at k) \<and>
     (case to of None \<Rightarrow> True | Some t \<Rightarrow> k_start_at k \<le> t)"
  by (auto simp: in_range_def split: option.splits)

text \<open>The newest candles of the range, the oldest of them first.\<close>

definition market_candles ::
  "(string \<Rightarrow> instant option) \<Rightarrow> settings \<Rightarrow> string \<Rightarrow> string \<Rightarrow> int \<Rightarrow> string option \<Rightarrow> string option \<Rightarrow> nat \<Rightarrow> db
   \<Rightarrow> exn + market_candle list" where
  "market_candles fromiso cfg uid iid n start_at end_at limit d =
     and_then (candle_intervals cfg) (\<lambda>ns.
       if n \<notin> set ns then Inl (HTTPException 422 ''Unsupported candle interval'')
       else if \<forall>i \<in> set (rows (t_instruments d)). i_id i \<noteq> iid then Inl (HTTPException 404 ''Instrument not found'')
       else and_then (range_end fromiso start_at) (\<lambda>from. and_then (range_end fromiso end_at) (\<lambda>to.
         Inr (rev (take limit (sort_key (\<lambda>k. - k_start_at k)
           (filter (\<lambda>k. k_user_id k = uid \<and> k_instrument_id k = iid \<and> k_interval_seconds k = n \<and> in_range from to k)
             (rows (t_candles (t_strategy d))))))))))"

section \<open>The stream\<close>

datatype stream_reply =
    Ready string int
  | Pong
  | CommandError string
  | Subscribed "string list" "quote list"
  | QuoteSent quote

text \<open>
  A connection: its subscriptions, the bus, what was sent to the client, whether its handler still reads commands, and
  whether its forwarding task runs.
\<close>

record stream =
  sm_subscriptions :: "string list"
  sm_bus :: bus
  sm_sent :: "stream_reply list"
  sm_open :: bool
  sm_sender :: bool

definition send_json :: "stream_reply \<Rightarrow> stream \<Rightarrow> stream" where
  "send_json r st = st\<lparr>sm_sent := sm_sent st @ [r]\<rparr>"

text \<open>
  The start of a connection with the client id \<open>client\<close>: the forwarding task is created, and listens as the listener \<open>l\<close>,
  before the first message is sent.  When that message cannot be \<open>delivered\<close>, its exception leaves the handler before the
  \<^verbatim>\<open>try\<close> whose \<^verbatim>\<open>finally\<close> would end the task.
\<close>

definition started_stream :: "settings \<Rightarrow> string \<Rightarrow> string \<Rightarrow> nat \<Rightarrow> bool \<Rightarrow> bus \<Rightarrow> stream" where
  "started_stream cfg uid client l delivered b =
     (let st = \<lparr>sm_subscriptions = [], sm_bus = listen uid l b, sm_sent = [], sm_open = True, sm_sender = True\<rparr>
      in if delivered then send_json (Ready client (market_max_subscriptions cfg)) st else st\<lparr>sm_open := False\<rparr>)"

text \<open>The upgrade: a foreign origin or a ticket that cannot be used closes the connection with the reason.\<close>

definition open_stream ::
  "crypto \<Rightarrow> settings \<Rightarrow> string option \<Rightarrow> string \<Rightarrow> nat \<Rightarrow> bool \<Rightarrow> bus \<Rightarrow> session
   \<Rightarrow> (exn + (string + user \<times> stream)) \<times> session" where
  "open_stream cr cfg origin ticket l delivered b s =
     (if length ticket < 20 then (Inl (PyError ''RequestValidationError''), s)
      else if (case origin of None \<Rightarrow> False | Some site \<Rightarrow> site \<noteq> [] \<and> site \<notin> set (cors_origins cfg))
      then (Inr (Inl ''Origin is not allowed''), s)
      else case consume_ticket cr ticket s of
        (Inl e, s) \<Rightarrow> (Inl e, s)
      | (Inr None, s) \<Rightarrow> (Inr (Inl ''Invalid or expired ticket''), s)
      | (Inr (Some u), s) \<Rightarrow> (Inr (Inr (u, started_stream cfg (u_id u) (fresh s) l delivered b)), draw s))"

text \<open>\<^verbatim>\<open>v in {...}\<close> for a set of texts: a list or a dict cannot be looked up.\<close>

definition one_of :: "json \<Rightarrow> string list \<Rightarrow> exn + bool" where
  "one_of v ts =
     (case v of
        JList xs \<Rightarrow> Inl (PyError ''TypeError'')
      | JObj fs \<Rightarrow> Inl (PyError ''TypeError'')
      | JStr t \<Rightarrow> Inr (t \<in> set ts)
      | _ \<Rightarrow> Inr False)"

definition next_subscriptions :: "string \<Rightarrow> string list \<Rightarrow> string list \<Rightarrow> string list" where
  "next_subscriptions action requested old =
     (if action = ''subscribe'' then old @ filter (\<lambda>i. i \<notin> set old) requested
      else filter (\<lambda>i. i \<notin> set requested) old)"

text \<open>The accepted command: the new set, the bus told of it, and the latest quotes of what was asked for.\<close>

definition accept_command :: "string \<Rightarrow> string \<Rightarrow> string list \<Rightarrow> string list \<Rightarrow> stream \<Rightarrow> stream" where
  "accept_command uid client requested new st =
     (let b = replace_subscriptions uid client new (sm_bus st);
          shown = sort (filter (\<lambda>i. i \<in> set new) requested)
      in send_json (Subscribed (sort new) (latest b uid shown)) (st\<lparr>sm_subscriptions := new, sm_bus := b\<rparr>))"

definition change_subscriptions ::
  "settings \<Rightarrow> string \<Rightarrow> string \<Rightarrow> db \<Rightarrow> string \<Rightarrow> string list \<Rightarrow> stream \<Rightarrow> stream" where
  "change_subscriptions cfg uid client d action requested st =
     (let new = next_subscriptions action requested (sm_subscriptions st) in
      if market_max_subscriptions cfg < int (length new) then send_json (CommandError ''SUBSCRIPTION_LIMIT'') st
      else if \<not> all_active d new then send_json (CommandError ''INSTRUMENT_NOT_FOUND'') st
      else accept_command uid client requested new st)"

definition stream_command ::
  "(json \<Rightarrow> string) \<Rightarrow> settings \<Rightarrow> string \<Rightarrow> string \<Rightarrow> db \<Rightarrow> json \<Rightarrow> stream \<Rightarrow> exn + stream" where
  "stream_command pr cfg uid client d message st =
     and_then (as_object message) (\<lambda>fs.
       if jfield fs ''action'' = JStr ''ping''
       then Inr (send_json Pong (st\<lparr>sm_bus := replace_subscriptions uid client (sm_subscriptions st) (sm_bus st)\<rparr>))
       else and_then (one_of (jfield fs ''action'') [''subscribe'', ''unsubscribe'']) (\<lambda>known.
         case (known, jfield fs ''action'', jfield fs ''instrument_ids'') of
           (True, JStr action, JList items) \<Rightarrow>
             and_then (one_of (or_else (map_of fs ''mode'') (JStr ''quote'')) [''ltp'', ''quote'', ''depth'']) (\<lambda>allowed.
               if \<not> allowed then Inr (send_json (CommandError ''INVALID_MODE'') st)
               else Inr (change_subscriptions cfg uid client d action (remdups (map (jstr pr) items)) st))
         | _ \<Rightarrow> Inr (send_json (CommandError ''INVALID_COMMAND'') st)))"

text \<open>A turn of \<^verbatim>\<open>_send_quotes\<close>, and the \<^verbatim>\<open>finally\<close> of a connection.\<close>

definition forward_quote :: "string \<Rightarrow> nat \<Rightarrow> stream \<Rightarrow> stream" where
  "forward_quote uid l st =
     (case next_quote uid l (sm_bus st) of
        (None, b) \<Rightarrow> st\<lparr>sm_bus := b\<rparr>
      | (Some q, b) \<Rightarrow>
          (if q_instrument_id q \<in> set (sm_subscriptions st) then send_json (QuoteSent q) (st\<lparr>sm_bus := b\<rparr>)
           else st\<lparr>sm_bus := b\<rparr>))"

definition close_stream :: "string \<Rightarrow> string \<Rightarrow> nat \<Rightarrow> stream \<Rightarrow> stream" where
  "close_stream uid client l st =
     st\<lparr>sm_bus := disconnect_client uid client (stop_listening uid l (sm_bus st)), sm_open := False,
       sm_sender := False\<rparr>"

end
