(* ===== verification/StreamProps.thy ===== *)
theory StreamProps
  imports MarketStream RedisProps
begin

text \<open>
  What a client of the stream can rely on: the invariant of a connection under every interleaving of its commands, the
  turns of the forwarding task and what others do with the bus.
\<close>

section \<open>Runs of a connection\<close>

text \<open>
  A command meets the database as it is when it arrives; an exception ends the connection, as leaving does.  The
  forwarding task has its turns as long as it runs.
\<close>

datatype stream_event =
    ClientSays db json
  | SenderTurn
  | ClientLeaves
  | Others bus_event

fun stream_step ::
  "(json \<Rightarrow> string) \<Rightarrow> settings \<Rightarrow> string \<Rightarrow> string \<Rightarrow> nat \<Rightarrow> stream_event \<Rightarrow> stream \<Rightarrow> stream" where
  "stream_step pr cfg uid client l (ClientSays d message) st =
     (if \<not> sm_open st then st
      else case stream_command pr cfg uid client d message st of
        Inl e \<Rightarrow> close_stream uid client l st
      | Inr st' \<Rightarrow> st')"
| "stream_step pr cfg uid client l SenderTurn st = (if sm_sender st then forward_quote uid l st else st)"
| "stream_step pr cfg uid client l ClientLeaves st = (if sm_open st then close_stream uid client l st else st)"
| "stream_step pr cfg uid client l (Others ev) st = st\<lparr>sm_bus := fst (bus_step (uid, l) ev (sm_bus st, []))\<rparr>"

fun event_published :: "string \<Rightarrow> stream_event \<Rightarrow> quote list" where
  "event_published uid (Others ev) = step_published uid ev"
| "event_published uid _ = []"

text \<open>Nobody else uses the client id of the connection or its queue.\<close>

fun stays_away :: "string \<Rightarrow> string \<Rightarrow> nat \<Rightarrow> stream_event \<Rightarrow> bool" where
  "stays_away uid client l (Others ev) \<longleftrightarrow> \<not> opens_or_closes (uid, l) ev \<and>
     (case ev of ReplaceSubscriptions u c _ \<Rightarrow> (u, c) \<noteq> (uid, client)
      | DisconnectClient u c \<Rightarrow> (u, c) \<noteq> (uid, client)
      | NextQuote u n \<Rightarrow> (u, n) \<noteq> (uid, l)
      | _ \<Rightarrow> True)"
| "stays_away uid client l _ \<longleftrightarrow> True"

section \<open>What the client sees\<close>

text \<open>
  The replies of a connection, read in their order: what is subscribed after them, the quotes among them, and the
  promise that a confirmation keeps the limit and shows quotes of confirmed instruments only, and that a quote is of
  an instrument of the last confirmation.
\<close>

fun subscribed :: "string list \<Rightarrow> stream_reply list \<Rightarrow> string list" where
  "subscribed ids [] = ids"
| "subscribed ids (Subscribed new snaps # rs) = subscribed new rs"
| "subscribed ids (_ # rs) = subscribed ids rs"

fun streamed :: "stream_reply list \<Rightarrow> quote list" where
  "streamed [] = []"
| "streamed (QuoteSent q # rs) = q # streamed rs"
| "streamed (_ # rs) = streamed rs"

fun honest :: "int \<Rightarrow> string list \<Rightarrow> stream_reply list \<Rightarrow> bool" where
  "honest limit ids [] \<longleftrightarrow> True"
| "honest limit ids (Subscribed new snaps # rs) \<longleftrightarrow>
     int (length new) \<le> limit \<and> distinct new \<and> (\<forall>q \<in> set snaps. q_instrument_id q \<in> set new) \<and> honest limit new rs"
| "honest limit ids (QuoteSent q # rs) \<longleftrightarrow> q_instrument_id q \<in> set ids \<and> honest limit ids rs"
| "honest limit ids (_ # rs) \<longleftrightarrow> honest limit ids rs"

lemma replies_append [simp]:
  "subscribed ids (rs @ rs') = subscribed (subscribed ids rs) rs'"
  "streamed (rs @ rs') = streamed rs @ streamed rs'"
  "honest limit ids (rs @ rs') \<longleftrightarrow> honest limit ids rs \<and> honest limit (subscribed ids rs) rs'"
  by (induction rs arbitrary: ids rule: list.induct; simp; case_tac x1; simp)+

section \<open>The bus under a connection\<close>

definition filed :: "bus \<Rightarrow> bool" where
  "filed b \<longleftrightarrow> (\<forall>u i q. bus_latest b (u, i) = Some q \<longrightarrow> q_instrument_id q = i)"

lemma latest_ids: "filed b \<Longrightarrow> q \<in> set (latest b uid is) \<Longrightarrow> q_instrument_id q \<in> set is"
  by (auto simp: filed_def latest_def map_filter_def)

lemma merge_health_sel [simp]:
  "bus_latest (merge_health uid f r e t b) = bus_latest b" "bus_clients (merge_health uid f r e t b) = bus_clients b"
  by (simp_all add: merge_health_def Let_def)

lemmas bus_op_defs = publish_def publish_health_def deliver_def listen_def next_quote_def stop_listening_def
  replace_subscriptions_def disconnect_client_def update_feed_health_def Let_def

lemma filed_simps [simp]:
  "filed (replace_subscriptions u c is b) = filed b" "filed (disconnect_client u c b) = filed b"
  "filed (listen u l b) = filed b" "filed (stop_listening u l b) = filed b" "filed (snd (next_quote u l b)) = filed b"
  by (auto simp: filed_def bus_op_defs split: option.splits list.splits)

lemma filed_step: "filed b \<Longrightarrow> filed (fst (bus_step k ev (b, seen)))"
  by (cases ev) (auto simp: filed_def bus_op_defs split: option.splits list.splits prod.splits)

lemma queues_simps [simp]:
  "bus_queues (replace_subscriptions u c is b) = bus_queues b" "bus_queues (disconnect_client u c b) = bus_queues b"
  "bus_queues (stop_listening u l b) = (bus_queues b)((u, l) := None)"
  "held (stop_listening u l b) = held b" "held (listen u l b) = held b" "held (snd (next_quote u l b)) = held b"
  by (auto simp: bus_op_defs held_def fun_eq_iff split: option.splits list.splits)

lemma others_step:
  assumes "stays_away uid client l (Others ev)"
  shows "held (fst (bus_step (uid, l) ev (b, seen))) (uid, client) = held b (uid, client)"
    "snd (bus_step (uid, l) ev (b, seen)) = seen"
  using assms by (cases ev; auto simp: held_def bus_op_defs update_conv' delete_conv' split: option.splits list.splits prod.splits)+

section \<open>The invariant of a connection\<close>

definition stream_ok :: "settings \<Rightarrow> string \<Rightarrow> string \<Rightarrow> nat \<Rightarrow> quote list \<Rightarrow> stream \<Rightarrow> bool" where
  "stream_ok cfg uid client l hist st \<longleftrightarrow>
     filed (sm_bus st) \<and> honest (market_max_subscriptions cfg) [] (sm_sent st) \<and>
     sm_sender st = sm_open st \<and>
     (if sm_open st
      then distinct (sm_subscriptions st) \<and> set (subscribed [] (sm_sent st)) = set (sm_subscriptions st) \<and>
        held (sm_bus st) (uid, client) = sm_subscriptions st \<and>
        (\<exists>seen queue. bus_queues (sm_bus st) (uid, l) = Some queue \<and> subseq (streamed (sm_sent st)) seen \<and> follows hist seen queue)
      else held (sm_bus st) (uid, client) = [] \<and> bus_queues (sm_bus st) (uid, l) = None \<and>
        subseq (streamed (sm_sent st)) hist)"

lemma stream_okD:
  assumes "stream_ok cfg uid client l hist st" "sm_open st"
  obtains seen queue where "bus_queues (sm_bus st) (uid, l) = Some queue" "follows hist seen queue"
    "subseq (streamed (sm_sent st)) seen"
  using assms unfolding stream_ok_def by auto

lemma bus_step_seen: "fst (bus_step k ev (b, seen)) = fst (bus_step k ev (b, seen'))"
  by (cases ev) (auto split: prod.splits)

lemma queue_stays_gone:
  "stays_away uid client l (Others ev) \<Longrightarrow> bus_queues b (uid, l) = None \<Longrightarrow>
   bus_queues (fst (bus_step (uid, l) ev (b, seen))) (uid, l) = None"
  by (cases ev) (auto simp: bus_op_defs split: option.splits list.splits prod.splits)

lemma ok_others:
  assumes "stream_ok cfg uid client l hist st" "stays_away uid client l (Others ev)"
  shows "stream_ok cfg uid client l (hist @ step_published uid ev) (stream_step pr cfg uid client l (Others ev) st)"
proof -
  let ?b = "fst (bus_step (uid, l) ev (sm_bus st, []))"
  have same: "held ?b (uid, client) = held (sm_bus st) (uid, client)" by (rule others_step(1) [OF assms(2)])
  have "filed ?b" using assms(1) by (intro filed_step) (simp add: stream_ok_def)
  moreover have "\<exists>seen queue. bus_queues ?b (uid, l) = Some queue \<and> subseq (streamed (sm_sent st)) seen \<and>
      follows (hist @ step_published uid ev) seen queue" if up: "sm_open st"
  proof -
    obtain seen queue where q: "bus_queues (sm_bus st) (uid, l) = Some queue" "follows hist seen queue"
      and sub: "subseq (streamed (sm_sent st)) seen"
      by (rule stream_okD [OF assms(1) up])
    have "bus_step (uid, l) ev (sm_bus st, seen) = (?b, seen)"
      using others_step(2) [OF assms(2), of "sm_bus st" seen] bus_step_seen [of "(uid, l)" ev "sm_bus st" seen "[]"]
      by (metis prod.collapse)
    from follows_step [OF q _ this] assms(2) sub show ?thesis by auto
  qed
  moreover have "bus_queues ?b (uid, l) = None" if "\<not> sm_open st"
    using queue_stays_gone [OF assms(2)] assms(1) that by (simp add: stream_ok_def)
  ultimately show ?thesis using assms(1) same by (auto simp: stream_ok_def intro: list_emb_append2)
qed

lemma ok_forward:
  assumes "stream_ok cfg uid client l hist st" "sm_open st"
  shows "stream_ok cfg uid client l hist (forward_quote uid l st)"
proof -
  obtain seen queue where q: "bus_queues (sm_bus st) (uid, l) = Some queue" "follows hist seen queue"
    "subseq (streamed (sm_sent st)) seen" by (rule stream_okD [OF assms])
  show ?thesis
  proof (cases queue)
    case Nil
    then have "next_quote uid l (sm_bus st) = (None, sm_bus st)" using q(1) by (simp add: next_quote_def)
    then show ?thesis using assms by (simp add: forward_quote_def)
  next
    case (Cons x rest)
    define b where "b = (sm_bus st)\<lparr>bus_queues := (bus_queues (sm_bus st))((uid, l) \<mapsto> rest)\<rparr>"
    have b: "next_quote uid l (sm_bus st) = (Some x, b)" using q(1) Cons by (simp add: next_quote_def b_def)
    then have "filed b" "held b (uid, client) = held (sm_bus st) (uid, client)"
      using filed_simps(5) [of uid l "sm_bus st"] queues_simps(6) [of uid l "sm_bus st"] assms(1) by (simp_all add: stream_ok_def)
    moreover have "bus_queues b (uid, l) = Some rest" by (simp add: b_def)
    moreover have "follows hist (seen @ [x]) rest" using follows_take q(2) Cons by blast
    moreover have "subseq (streamed (sm_sent st)) (seen @ [x])" "subseq (streamed (sm_sent st) @ [x]) (seen @ [x])"
      using q(3) by (auto intro: list_emb_append2 list_emb_append_mono)
    ultimately have "\<exists>seen. subseq (streamed (sm_sent st)) seen \<and> follows hist seen rest"
      "\<exists>seen. subseq (streamed (sm_sent st) @ [x]) seen \<and> follows hist seen rest" by blast+
    then show ?thesis using assms b \<open>filed b\<close> \<open>held b _ = _\<close> \<open>bus_queues b _ = _\<close>
      by (simp add: stream_ok_def forward_quote_def send_json_def)
  qed
qed

lemma ok_close:
  assumes "stream_ok cfg uid client l hist st" "sm_open st"
  shows "stream_ok cfg uid client l hist (close_stream uid client l st)"
proof -
  obtain seen queue where "subseq (streamed (sm_sent st)) seen" "subseq (seen @ queue) hist"
    by (rule stream_okD [OF assms]) (auto simp: follows_def)
  moreover have "subseq seen (seen @ queue)" using subseq_append' [of seen "[]" queue] by simp
  ultimately have "subseq (streamed (sm_sent st)) hist" by (blast intro: subseq_order.trans)
  then show ?thesis using assms by (simp add: stream_ok_def close_stream_def)
qed

lemma ok_send:
  assumes "stream_ok cfg uid client l hist st" "honest (market_max_subscriptions cfg) (subscribed [] (sm_sent st)) [r]"
    "streamed [r] = []" "set (subscribed (subscribed [] (sm_sent st)) [r]) = set (subscribed [] (sm_sent st))"
  shows "stream_ok cfg uid client l hist (send_json r st)"
  using assms by (simp add: stream_ok_def send_json_def)

lemma distinct_next: "distinct old \<Longrightarrow> distinct requested \<Longrightarrow> distinct (next_subscriptions action requested old)"
  by (auto simp: next_subscriptions_def)

lemma ok_accept:
  assumes "stream_ok cfg uid client l hist st" "sm_open st" "distinct new"
    "int (length new) \<le> market_max_subscriptions cfg"
  shows "stream_ok cfg uid client l hist (accept_command uid client requested new st)"
proof -
  let ?b = "replace_subscriptions uid client new (sm_bus st)"
  have "filed ?b" using assms(1) by (simp add: stream_ok_def)
  from latest_ids [OF this] have "q_instrument_id q \<in> set new"
    if "q \<in> set (latest ?b uid (sort (filter (\<lambda>i. i \<in> set new) requested)))" for q
    using that by fastforce
  then show ?thesis using assms by (simp add: stream_ok_def accept_command_def send_json_def Let_def)
qed

lemma ok_command:
  assumes "stream_ok cfg uid client l hist st" "sm_open st" "stream_command pr cfg uid client d message st = Inr st'"
  shows "stream_ok cfg uid client l hist st'"
proof -
  have error: "stream_ok cfg uid client l hist (send_json (CommandError code) st)" for code
    using assms(1) by (rule ok_send) simp_all
  have "stream_ok cfg uid client l hist (st\<lparr>sm_bus := replace_subscriptions uid client (sm_subscriptions st) (sm_bus st)\<rparr>)"
    using assms(1,2) by (simp add: stream_ok_def)
  then have ping: "stream_ok cfg uid client l hist
      (send_json Pong (st\<lparr>sm_bus := replace_subscriptions uid client (sm_subscriptions st) (sm_bus st)\<rparr>))"
    by (rule ok_send) simp_all
  have "distinct (sm_subscriptions st)" using assms(1,2) by (simp add: stream_ok_def)
  then have change: "stream_ok cfg uid client l hist (change_subscriptions cfg uid client d action (remdups ids) st)" for action ids
    using ok_accept [OF assms(1,2) distinct_next] error by (simp add: change_subscriptions_def Let_def)
  show ?thesis using assms(3) error ping change
    by (auto simp: stream_command_def and_then_def split: sum.splits if_splits json.splits bool.splits)
qed

lemma stream_ok_step:
  assumes "stream_ok cfg uid client l hist st" "stays_away uid client l ev"
  shows "stream_ok cfg uid client l (hist @ event_published uid ev) (stream_step pr cfg uid client l ev st)"
proof (cases ev)
  case SenderTurn
  then show ?thesis using assms(1) ok_forward [OF assms(1)] by (simp add: stream_ok_def [of _ _ _ _ _ st])
next
  case (Others e)
  then show ?thesis using ok_others [OF assms(1), of e pr] assms(2) by simp
qed (use assms ok_command ok_forward ok_close in \<open>auto split: sum.splits\<close>)

lemma stream_ok_run:
  "stream_ok cfg uid client l hist st \<Longrightarrow> \<forall>ev \<in> set evs. stays_away uid client l ev \<Longrightarrow>
   stream_ok cfg uid client l (hist @ concat (map (event_published uid) evs)) (run_ops (stream_step pr cfg uid client l) evs st)"
proof (induction evs arbitrary: hist st)
  case (Cons ev evs)
  show ?case using Cons.IH [OF stream_ok_step [OF Cons.prems(1)]] Cons.prems(2) by simp
qed simp

lemma started_ok:
  "filed b \<Longrightarrow> held b (uid, client) = [] \<Longrightarrow> stream_ok cfg uid client l [] (started_stream cfg uid client l True b)"
  using follows_start by (auto simp: stream_ok_def started_stream_def send_json_def listen_def filed_def held_def)

text \<open>
  The connection whose first message failed: nobody reads its commands, but its task runs, and keeps a queue on the bus
  although it never finds anything to forward.
\<close>

definition orphaned :: "string \<Rightarrow> string \<Rightarrow> nat \<Rightarrow> stream \<Rightarrow> bool" where
  "orphaned uid client l st \<longleftrightarrow> \<not> sm_open st \<and> sm_sender st \<and> sm_sent st = [] \<and> sm_subscriptions st = [] \<and>
     held (sm_bus st) (uid, client) = [] \<and> bus_queues (sm_bus st) (uid, l) \<noteq> None"

lemma queue_stays:
  "stays_away uid client l (Others ev) \<Longrightarrow> bus_queues b (uid, l) \<noteq> None \<Longrightarrow>
   bus_queues (fst (bus_step (uid, l) ev (b, seen))) (uid, l) \<noteq> None"
  by (cases ev) (auto simp: bus_op_defs split: option.splits list.splits prod.splits)

lemma orphaned_step:
  assumes "orphaned uid client l st" "stays_away uid client l ev"
  shows "orphaned uid client l (stream_step pr cfg uid client l ev st)"
proof (cases ev)
  case SenderTurn
  obtain oq b where n: "next_quote uid l (sm_bus st) = (oq, b)" by (cases "next_quote uid l (sm_bus st)")
  have "bus_queues b (uid, l) \<noteq> None"
    using assms(1) n by (auto simp: orphaned_def next_quote_def split: option.splits list.splits)
  moreover have "held b (uid, client) = []"
    using assms(1) queues_simps(6) [of uid l "sm_bus st"] by (simp add: n orphaned_def)
  ultimately show ?thesis using SenderTurn assms(1) n by (auto simp: orphaned_def forward_quote_def split: option.split)
next
  case (Others e)
  have "stays_away uid client l (Others e)" using assms(2) Others by simp
  from others_step(1) [OF this] queue_stays [OF this] show ?thesis
    using assms(1) unfolding Others stream_step.simps orphaned_def by simp
qed (use assms in \<open>simp_all add: orphaned_def\<close>)

lemma orphaned_run:
  "orphaned uid client l st \<Longrightarrow> \<forall>ev \<in> set evs. stays_away uid client l ev \<Longrightarrow>
   orphaned uid client l (run_ops (stream_step pr cfg uid client l) evs st)"
  by (induction evs arbitrary: st) (simp_all add: orphaned_step)

section \<open>The property\<close>

text \<open>
  C8. A stream sends exactly what was subscribed.  On the bus of one process, whatever the client sends and in whatever
  order its commands, the forwarding task and everybody else's work with the bus are interleaved: every quote on the
  socket is of an instrument in the last confirmation before it; the quotes are quotes published for this user while the
  connection listened, in the order they were published and none twice; a confirmation never exceeds the limit, and its
  snapshots are of confirmed instruments.  While the connection is open the bus holds for it the instruments last
  confirmed.  Once it is closed, the bus holds no subscription of it; and it holds no queue of it either, exactly if the
  first message of the connection could be delivered: when that message fails, nothing is ever sent, but the forwarding
  task and its queue are left behind, for good.
\<close>

theorem stream_sends_what_was_subscribed:
  assumes "filed b" "held b (uid, client) = []" "\<forall>ev \<in> set evs. stays_away uid client l ev"
    and "st = run_ops (stream_step pr cfg uid client l) evs (started_stream cfg uid client l delivered b)"
  shows "honest (market_max_subscriptions cfg) [] (sm_sent st) \<and>
    subseq (streamed (sm_sent st)) (concat (map (event_published uid) evs)) \<and>
    (if sm_open st then set (held (sm_bus st) (uid, client)) = set (subscribed [] (sm_sent st))
     else held (sm_bus st) (uid, client) = [] \<and> (bus_queues (sm_bus st) (uid, l) = None \<longleftrightarrow> delivered)) \<and>
    (\<not> delivered \<longrightarrow> sm_sent st = [] \<and> \<not> sm_open st)"
proof (cases delivered)
  case True
  let ?hist = "concat (map (event_published uid) evs)"
  have ok: "stream_ok cfg uid client l ?hist st"
    using stream_ok_run [OF started_ok [OF assms(1,2)] assms(3), of cfg pr] assms(4) True by simp
  have "subseq (streamed (sm_sent st)) ?hist"
    using ok ok_close [OF ok] by (cases "sm_open st") (simp_all add: stream_ok_def close_stream_def)
  then show ?thesis using ok True by (auto simp: stream_ok_def)
next
  case False
  then have "orphaned uid client l (started_stream cfg uid client l delivered b)"
    using assms(2) by (simp add: orphaned_def started_stream_def listen_def held_def)
  from orphaned_run [OF this assms(3)] show ?thesis using False assms(4) by (simp add: orphaned_def)
qed

definition ex_stream_db :: db where
  "ex_stream_db = empty_db\<lparr>t_instruments := \<lparr>rows = [ex_instrument], added = []\<rparr>\<rparr>"

definition ex_stream_events :: "stream_event list" where
  "ex_stream_events =
     [Others (Publish 0 ''u'' (ex_quote 99)), SenderTurn,
      ClientSays ex_stream_db (JObj [(''action'', JStr ''subscribe''), (''instrument_ids'', JList [JStr (i_id ex_instrument)])]),
      Others (Publish 0 ''u'' (ex_quote 100)), Others (Publish 0 ''v'' (ex_quote 7)), SenderTurn, SenderTurn,
      ClientSays ex_stream_db (JList [])]"

lemma stream_sends_what_was_subscribed_witness:
  "let st = run_ops (stream_step (\<lambda>_. []) default_settings ''u'' ''tab'' 1) ex_stream_events
       (started_stream default_settings ''u'' ''tab'' 1 True empty_bus)
   in streamed (sm_sent st) = [ex_quote 100] \<and> subseq [ex_quote 100] [ex_quote 99, ex_quote 100] \<and>
     \<not> sm_open st \<and> bus_queues (sm_bus st) (''u'', 1) = None"
proof -
  let ?st = "run_ops (stream_step (\<lambda>_. []) default_settings ''u'' ''tab'' 1) ex_stream_events
       (started_stream default_settings ''u'' ''tab'' 1 True empty_bus)"
  have empty: "filed empty_bus" "held empty_bus (''u'', ''tab'') = []" by (simp add: filed_def empty_bus_def) simp
  have away: "\<forall>ev \<in> set ex_stream_events. stays_away ''u'' ''tab'' 1 ev" by (simp add: ex_stream_events_def)
  have "streamed (sm_sent ?st) = [ex_quote 100]" "\<not> sm_open ?st" by code_simp+
  then show ?thesis
    using stream_sends_what_was_subscribed [OF empty away refl, of default_settings "\<lambda>_. []" True]
    by (simp add: Let_def ex_stream_events_def)
qed

end
