(* ===== verification/Views.thy ===== *)
theory Views
  imports StrategyApi BrokerApi MarketStream "HOL-Library.Product_Lexorder"
begin

text \<open>
  The reading endpoints, with the response models of \<^verbatim>\<open>schemas.py\<close> that FastAPI fills from the rows: one record per
  model and one function from the row to it.  The \<^verbatim>\<open>created_at\<close> and \<^verbatim>\<open>updated_at\<close> columns, which only these endpoints
  read, are the parameter \<open>stamps\<close>, by the id of the row (of a position its unique key, of a version its
  strategy and number); rows with equal stamps keep the
  order of the table.  The ids of executions, positions and versions are not columns of this model.
\<close>

section \<open>Response models\<close>

record stamps =
  sp_created :: "string \<Rightarrow> instant"
  sp_updated :: "string \<Rightarrow> instant"
  sp_moved :: "string \<times> string \<times> string \<times> product_type \<Rightarrow> instant"
  sp_versioned :: "string \<times> int \<Rightarrow> instant"

definition unrealized :: "trading_position \<Rightarrow> pyfloat" where
  "unrealized p =
     fmul (float_of_int (p_quantity p)) (fsub (or_else (p_last_price p) (p_average_price p)) (p_average_price p))"

record user_out =
  vu_id :: string
  vu_email :: string
  vu_role :: role
  vu_is_verified :: bool
  vu_is_active :: bool
  vu_mfa_enabled :: bool
  vu_created_at :: instant

definition user_view :: "stamps \<Rightarrow> user \<Rightarrow> user_out" where
  "user_view sp r =
     \<lparr>vu_id = u_id r, vu_email = u_email r, vu_role = u_role r, vu_is_verified = u_is_verified r,
      vu_is_active = u_is_active r, vu_mfa_enabled = u_mfa_enabled r,
      vu_created_at = sp_created sp (u_id r)\<rparr>"

record session_out =
  vs_id :: string
  vs_user_agent :: "string option"
  vs_ip_address :: "string option"
  vs_expires_at :: instant
  vs_last_seen_at :: instant
  vs_created_at :: instant
  vs_current :: bool

definition session_view :: "stamps \<Rightarrow> principal \<Rightarrow> user_session \<Rightarrow> session_out" where
  "session_view sp p r =
     \<lparr>vs_id = us_id r, vs_user_agent = us_user_agent r, vs_ip_address = us_ip_address r,
      vs_expires_at = us_expires_at r, vs_last_seen_at = us_last_seen_at r,
      vs_created_at = sp_created sp (us_id r), vs_current = (Some (us_id r) = pn_session_id p)\<rparr>"

record broker_out =
  vb_id :: string
  vb_broker :: broker_name
  vb_broker_client_id :: "string option"
  vb_status :: broker_status
  vb_token_expires_at :: "instant option"
  vb_last_connected_at :: "instant option"
  vb_last_checked_at :: "instant option"
  vb_created_at :: instant

definition broker_view :: "stamps \<Rightarrow> broker_connection \<Rightarrow> broker_out" where
  "broker_view sp r =
     \<lparr>vb_id = b_id r, vb_broker = b_broker r, vb_broker_client_id = b_broker_client_id r,
      vb_status = b_status r, vb_token_expires_at = b_token_expires_at r,
      vb_last_connected_at = b_last_connected_at r, vb_last_checked_at = b_last_checked_at r,
      vb_created_at = sp_created sp (b_id r)\<rparr>"

record key_out =
  vk_id :: string
  vk_name :: string
  vk_public_id :: string
  vk_scopes :: "string list"
  vk_status :: api_key_status
  vk_expires_at :: "instant option"
  vk_last_used_at :: "instant option"
  vk_created_at :: instant

definition key_view :: "stamps \<Rightarrow> api_key \<Rightarrow> key_out" where
  "key_view sp r =
     \<lparr>vk_id = ak_id r, vk_name = ak_name r, vk_public_id = ak_public_id r, vk_scopes = ak_scopes r,
      vk_status = ak_status r, vk_expires_at = ak_expires_at r, vk_last_used_at = ak_last_used_at r,
      vk_created_at = sp_created sp (ak_id r)\<rparr>"

record order_out =
  vo_id :: string
  vo_instrument_id :: string
  vo_client_order_id :: string
  vo_broker_order_id :: "string option"
  vo_mode :: string
  vo_side :: order_side
  vo_order_type :: order_type
  vo_product_type :: product_type
  vo_validity :: order_validity
  vo_quantity :: int
  vo_filled_quantity :: int
  vo_limit_price :: "pyfloat option"
  vo_trigger_price :: "pyfloat option"
  vo_average_fill_price :: "pyfloat option"
  vo_status :: order_status
  vo_rejection_reason :: "string option"
  vo_version :: int
  vo_submitted_at :: "instant option"
  vo_completed_at :: "instant option"
  vo_created_at :: instant
  vo_updated_at :: instant

definition order_view :: "stamps \<Rightarrow> trading_order \<Rightarrow> order_out" where
  "order_view sp r =
     \<lparr>vo_id = o_id r, vo_instrument_id = o_instrument_id r, vo_client_order_id = o_client_order_id r,
      vo_broker_order_id = o_broker_order_id r, vo_mode = o_mode r, vo_side = o_side r,
      vo_order_type = o_order_type r, vo_product_type = o_product_type r, vo_validity = o_validity r,
      vo_quantity = o_quantity r, vo_filled_quantity = o_filled_quantity r, vo_limit_price = o_limit_price r,
      vo_trigger_price = o_trigger_price r, vo_average_fill_price = o_average_fill_price r,
      vo_status = o_status r, vo_rejection_reason = o_rejection_reason r, vo_version = o_version r,
      vo_submitted_at = o_submitted_at r, vo_completed_at = o_completed_at r,
      vo_created_at = sp_created sp (o_id r), vo_updated_at = sp_updated sp (o_id r)\<rparr>"

record execution_out =
  vx_order_id :: string
  vx_instrument_id :: string
  vx_broker_execution_id :: "string option"
  vx_mode :: string
  vx_side :: order_side
  vx_quantity :: int
  vx_price :: pyfloat
  vx_source :: string
  vx_executed_at :: instant

definition execution_view :: "trade_execution \<Rightarrow> execution_out" where
  "execution_view r =
     \<lparr>vx_order_id = x_order_id r, vx_instrument_id = x_instrument_id r,
      vx_broker_execution_id = x_broker_execution_id r, vx_mode = x_mode r, vx_side = x_side r,
      vx_quantity = x_quantity r, vx_price = x_price r, vx_source = x_source r,
      vx_executed_at = x_executed_at r\<rparr>"

record position_out =
  vp_instrument_id :: string
  vp_mode :: string
  vp_product_type :: product_type
  vp_quantity :: int
  vp_average_price :: pyfloat
  vp_realized_pnl :: pyfloat
  vp_last_price :: "pyfloat option"
  vp_unrealized_pnl :: pyfloat
  vp_updated_at :: instant

definition position_view :: "stamps \<Rightarrow> trading_position \<Rightarrow> position_out" where
  "position_view sp r =
     \<lparr>vp_instrument_id = p_instrument_id r, vp_mode = p_mode r, vp_product_type = p_product_type r,
      vp_quantity = p_quantity r, vp_average_price = p_average_price r, vp_realized_pnl = p_realized_pnl r,
      vp_last_price = p_last_price r, vp_unrealized_pnl = unrealized r,
      vp_updated_at = sp_moved sp (position_key r)\<rparr>"

record strategy_out =
  vt_id :: string
  vt_instrument_id :: string
  vt_name :: string
  vt_kind :: string
  vt_status :: strategy_status
  vt_execution_mode :: string
  vt_timeframe_seconds :: int
  vt_fast_period :: int
  vt_slow_period :: int
  vt_quantity :: int
  vt_product_type :: product_type
  vt_order_type :: order_type
  vt_limit_offset_bps :: pyfloat
  vt_max_orders_per_day :: int
  vt_version :: int
  vt_last_evaluated_at :: "instant option"
  vt_activated_at :: "instant option"
  vt_paused_at :: "instant option"
  vt_last_error :: "string option"
  vt_created_at :: instant
  vt_updated_at :: instant

definition strategy_view :: "stamps \<Rightarrow> strategy \<Rightarrow> strategy_out" where
  "strategy_view sp r =
     \<lparr>vt_id = st_id r, vt_instrument_id = st_instrument_id r, vt_name = st_name r, vt_kind = st_kind r,
      vt_status = st_status r, vt_execution_mode = st_execution_mode r,
      vt_timeframe_seconds = st_timeframe_seconds r, vt_fast_period = st_fast_period r,
      vt_slow_period = st_slow_period r, vt_quantity = st_quantity r, vt_product_type = st_product_type r,
      vt_order_type = st_order_type r, vt_limit_offset_bps = st_limit_offset_bps r,
      vt_max_orders_per_day = st_max_orders_per_day r, vt_version = st_version r,
      vt_last_evaluated_at = st_last_evaluated_at r, vt_activated_at = st_activated_at r,
      vt_paused_at = st_paused_at r, vt_last_error = st_last_error r, vt_created_at = sp_created sp (st_id r),
      vt_updated_at = sp_updated sp (st_id r)\<rparr>"

record version_out =
  vv_strategy_id :: string
  vv_version :: int
  vv_definition_json :: json
  vv_created_at :: instant

definition version_view :: "stamps \<Rightarrow> strategy_version \<Rightarrow> version_out" where
  "version_view sp r =
     \<lparr>vv_strategy_id = sv_strategy_id r, vv_version = sv_version r,
      vv_definition_json = sv_definition_json r,
      vv_created_at = sp_versioned sp (sv_strategy_id r, sv_version r)\<rparr>"

record run_out =
  vr_id :: string
  vr_strategy_id :: string
  vr_strategy_version :: int
  vr_candle_start_at :: instant
  vr_status :: strategy_run_status
  vr_diagnostics_json :: "(string \<times> json) list"
  vr_started_at :: instant
  vr_finished_at :: "instant option"

definition run_view :: "strategy_run \<Rightarrow> run_out" where
  "run_view r =
     \<lparr>vr_id = sr_id r, vr_strategy_id = sr_strategy_id r, vr_strategy_version = sr_strategy_version r,
      vr_candle_start_at = sr_candle_start_at r, vr_status = sr_status r,
      vr_diagnostics_json = sr_diagnostics_json r, vr_started_at = sr_started_at r,
      vr_finished_at = sr_finished_at r\<rparr>"

record signal_out =
  vg_id :: string
  vg_strategy_id :: string
  vg_run_id :: string
  vg_instrument_id :: string
  vg_order_id :: "string option"
  vg_action :: order_side
  vg_status :: strategy_signal_status
  vg_quantity :: int
  vg_reference_price :: pyfloat
  vg_client_order_id :: string
  vg_reason :: "string option"
  vg_generated_at :: instant

definition signal_view :: "strategy_signal \<Rightarrow> signal_out" where
  "signal_view r =
     \<lparr>vg_id = sg_id r, vg_strategy_id = sg_strategy_id r, vg_run_id = sg_run_id r,
      vg_instrument_id = sg_instrument_id r, vg_order_id = sg_order_id r, vg_action = sg_action r,
      vg_status = sg_status r, vg_quantity = sg_quantity r, vg_reference_price = sg_reference_price r,
      vg_client_order_id = sg_client_order_id r, vg_reason = sg_reason r,
      vg_generated_at = sg_generated_at r\<rparr>"

record candle_out =
  vc_instrument_id :: string
  vc_interval_seconds :: int
  vc_start_at :: instant
  vc_open :: pyfloat
  vc_high :: pyfloat
  vc_low :: pyfloat
  vc_close :: pyfloat
  vc_volume :: pyfloat
  vc_open_interest :: "pyfloat option"
  vc_source :: string
  vc_is_complete :: bool

definition candle_view :: "market_candle \<Rightarrow> candle_out" where
  "candle_view r =
     \<lparr>vc_instrument_id = k_instrument_id r, vc_interval_seconds = k_interval_seconds r,
      vc_start_at = k_start_at r, vc_open = k_open r, vc_high = k_high r, vc_low = k_low r,
      vc_close = k_close r, vc_volume = k_volume r, vc_open_interest = k_open_interest r,
      vc_source = k_source r, vc_is_complete = k_is_complete r\<rparr>"

record instrument_out =
  vi_id :: string
  vi_exchange :: string
  vi_segment :: string
  vi_symbol :: string
  vi_trading_symbol :: string
  vi_name :: "string option"
  vi_instrument_type :: string
  vi_expiry_at :: "instant option"
  vi_strike :: "pyfloat option"
  vi_option_type :: "string option"
  vi_lot_size :: "int option"
  vi_tick_size :: "pyfloat option"

definition instrument_view :: "instrument \<Rightarrow> instrument_out" where
  "instrument_view r =
     \<lparr>vi_id = i_id r, vi_exchange = i_exchange r, vi_segment = i_segment r, vi_symbol = i_symbol r,
      vi_trading_symbol = i_trading_symbol r, vi_name = i_name r, vi_instrument_type = i_instrument_type r,
      vi_expiry_at = i_expiry_at r, vi_strike = i_strike r, vi_option_type = i_option_type r,
      vi_lot_size = i_lot_size r, vi_tick_size = i_tick_size r\<rparr>"

section \<open>Orders, executions and positions\<close>

text \<open>\<^verbatim>\<open>order_by(column.desc())\<close>.\<close>

definition newest :: "('r \<Rightarrow> instant) \<Rightarrow> 'r list \<Rightarrow> 'r list" where
  "newest stamp xs = sort_key (\<lambda>r. - stamp r) xs"

definition list_orders :: "stamps \<Rightarrow> string \<Rightarrow> nat \<Rightarrow> db \<Rightarrow> order_out list" where
  "list_orders sp uid limit d =
     map (order_view sp) (take limit (newest (\<lambda>r. sp_created sp (o_id r))
       (filter (\<lambda>r. o_user_id r = uid) (rows (t_orders d)))))"

definition get_order :: "stamps \<Rightarrow> string \<Rightarrow> string \<Rightarrow> db \<Rightarrow> exn + order_out" where
  "get_order sp uid oid d = map_sum id (order_view sp) (owned_order d uid oid)"

definition list_executions :: "string \<Rightarrow> nat \<Rightarrow> db \<Rightarrow> execution_out list" where
  "list_executions uid limit d =
     map execution_view (take limit (newest x_executed_at (filter (\<lambda>x. x_user_id x = uid) (rows (t_executions d)))))"

definition list_positions :: "stamps \<Rightarrow> string \<Rightarrow> db \<Rightarrow> position_out list" where
  "list_positions sp uid d =
     map (position_view sp) (newest (\<lambda>p. sp_moved sp (position_key p))
       (filter (\<lambda>p. p_user_id p = uid) (rows (t_positions d))))"

section \<open>Strategies\<close>

definition list_strategies :: "stamps \<Rightarrow> string \<Rightarrow> db \<Rightarrow> strategy_out list" where
  "list_strategies sp uid d =
     map (strategy_view sp) (newest (\<lambda>r. sp_created sp (st_id r))
       (filter (\<lambda>r. st_user_id r = uid) (rows (t_strategies (t_strategy d)))))"

definition get_strategy :: "stamps \<Rightarrow> string \<Rightarrow> string \<Rightarrow> db \<Rightarrow> exn + strategy_out" where
  "get_strategy sp uid sid d = map_sum id (strategy_view sp) (owned_strategy d uid sid)"

section \<open>The account\<close>

definition me :: "stamps \<Rightarrow> principal \<Rightarrow> user_out" where
  "me sp p = user_view sp (pn_user p)"

definition validate_scoped_key :: "principal \<Rightarrow> string \<times> string" where
  "validate_scoped_key p = (u_id (pn_user p), if is_set (pn_api_key_id p) then ''api_key'' else ''session'')"

definition sessions_listing :: "stamps \<Rightarrow> principal \<Rightarrow> db \<Rightarrow> session_out list" where
  "sessions_listing sp p d =
     map (session_view sp p) (newest (\<lambda>r. sp_created sp (us_id r))
       (filter (\<lambda>r. us_user_id r = u_id (pn_user p) \<and> us_revoked_at r = None) (rows (t_sessions (t_identity d)))))"

definition keys_listing :: "stamps \<Rightarrow> principal \<Rightarrow> db \<Rightarrow> key_out list" where
  "keys_listing sp p d =
     map (key_view sp) (newest (\<lambda>r. sp_created sp (ak_id r))
       (filter (\<lambda>r. ak_user_id r = u_id (pn_user p)) (rows (t_api_keys (t_identity d)))))"

definition get_key :: "stamps \<Rightarrow> principal \<Rightarrow> string \<Rightarrow> db \<Rightarrow> exn + key_out" where
  "get_key sp p kid d = map_sum id (key_view sp) (owned_key d kid p)"

definition raise_or :: "exn option \<Rightarrow> exn + 'a \<Rightarrow> exn + 'a" where
  "raise_or e r = (case e of None \<Rightarrow> r | Some e \<Rightarrow> Inl e)"

definition connections_listing :: "stamps \<Rightarrow> principal \<Rightarrow> db \<Rightarrow> exn + broker_out list" where
  "connections_listing sp p d =
     raise_or (scope_check p ''broker:read'') (Inr (map (broker_view sp) (newest (\<lambda>r. sp_created sp (b_id r))
       (filter (\<lambda>r. b_user_id r = u_id (pn_user p)) (rows (t_connections d))))))"

definition get_connection :: "stamps \<Rightarrow> principal \<Rightarrow> string \<Rightarrow> db \<Rightarrow> exn + broker_out" where
  "get_connection sp p bid d =
     raise_or (scope_check p ''broker:read'') (map_sum id (broker_view sp) (owned_connection d bid p))"

text \<open>What an administrator sees of the users.\<close>

definition users_listing :: "stamps \<Rightarrow> db \<Rightarrow> user_out list" where
  "users_listing sp d = map (user_view sp) (take 500 (newest (\<lambda>r. sp_created sp (u_id r)) (rows (t_users d))))"

section \<open>The instruments\<close>

text \<open>The search; \<open>ilike\<close> is the database's pattern match without regard to case.\<close>

definition search_instruments ::
  "(string \<Rightarrow> string \<Rightarrow> bool) \<Rightarrow> string option \<Rightarrow> string option \<Rightarrow> string option \<Rightarrow> nat \<Rightarrow> db \<Rightarrow> instrument_out list" where
  "search_instruments ilike query exch segment limit d =
     (let matches = (\<lambda>i. case query of
            Some (c # cs) \<Rightarrow> (let pattern = ''%'' @ py_strip (c # cs) @ ''%'' in
              ilike pattern (i_trading_symbol i) \<or> ilike pattern (i_symbol i) \<or>
              (case i_name i of None \<Rightarrow> False | Some n \<Rightarrow> ilike pattern n))
          | _ \<Rightarrow> True);
          given = (\<lambda>v column. case v of Some (c # cs) \<Rightarrow> column = py_upper (c # cs) | _ \<Rightarrow> True)
      in map instrument_view (take limit (sort_key (\<lambda>i. (i_exchange i, i_trading_symbol i))
           (filter (\<lambda>i. i_is_active i \<and> matches i \<and> given exch (i_exchange i) \<and> given segment (i_segment i))
             (rows (t_instruments d))))))"

end
