(* ===== verification/ViewProps.thy ===== *)
theory ViewProps
  imports Views
begin

text \<open>
  What a reading endpoint answers depends on what the user may see and on nothing else: two databases that agree on the
  public columns of the user's own rows give the same answers, so that neither other users' rows nor password hashes,
  token digests, encrypted credentials and the like can be read off them.
\<close>

section \<open>Listings and the columns they show\<close>

lemma map_insort_key: "map f (insort_key (\<lambda>x. g (f x)) x xs) = insort_key g (f x) (map f xs)"
  by (induction xs) auto

lemma map_sort_key: "map f (sort_key (\<lambda>x. g (f x)) xs) = sort_key g (map f xs)"
  by (induction xs) (auto simp: map_insort_key)

lemma map_newest: "map f (newest (\<lambda>x. g (f x)) xs) = newest g (map f xs)"
  unfolding newest_def using map_sort_key [of f "\<lambda>y. - g y"] by simp

lemma map_find: "(\<And>x. P x = Q (f x)) \<Longrightarrow> map_option f (List.find P xs) = List.find Q (map f xs)"
  by (induction xs) auto

lemma find_filter: "List.find (\<lambda>x. P x \<and> Q x) xs = List.find P (filter Q xs)"
  by (induction xs) auto

text \<open>A row found by its id and then checked for its owner is one found among the rows of the owner.\<close>

definition found_own :: "exn \<Rightarrow> 'r option \<Rightarrow> exn + 'r" where
  "found_own e r = (case r of None \<Rightarrow> Inl e | Some x \<Rightarrow> Inr x)"

lemma found_own_view: "map_sum id f (found_own e r) = found_own e (map_option f r)"
  by (simp add: found_own_def split: option.splits)

lemma find_checked:
  assumes "distinct (map key xs)"
  shows "(case List.find (\<lambda>x. key x = k) xs of None \<Rightarrow> Inl e | Some x \<Rightarrow> if own x then Inr x else Inl e) =
    found_own e (List.find (\<lambda>x. key x = k) (filter own xs))"
  using assms
proof (induction xs)
  case (Cons x xs)
  then show ?case
  proof (cases "key x = k")
    case True
    with Cons.prems have "List.find (\<lambda>x. key x = k) (filter own xs) = None" by (auto simp: find_None_iff) (metis imageI)
    then show ?thesis using True by (simp add: found_own_def)
  qed simp
qed (simp add: found_own_def)

section \<open>What a user may see\<close>

text \<open>The public columns of the rows of a user, of each table.\<close>

record visible =
  see_me :: user_out
  see_orders :: "order_out list"
  see_executions :: "execution_out list"
  see_positions :: "position_out list"
  see_controls :: "(bool \<times> string option) list"
  see_strategies :: "strategy_out list"
  see_versions :: "version_out list"
  see_runs :: "run_out list"
  see_signals :: "signal_out list"
  see_candles :: "candle_out list"
  see_sessions :: "session_out list"
  see_keys :: "key_out list"
  see_connections :: "broker_out list"
  see_instruments :: "(instrument_out \<times> bool) list"

definition own_strategies :: "string \<Rightarrow> db \<Rightarrow> string set" where
  "own_strategies uid d = st_id ` {st \<in> set (rows (t_strategies (t_strategy d))). st_user_id st = uid}"

definition visible_to :: "stamps \<Rightarrow> principal \<Rightarrow> db \<Rightarrow> visible" where
  "visible_to sp p d =
     (let uid = u_id (pn_user p); t = t_strategy d; i = t_identity d in
      \<lparr>see_me = user_view sp (pn_user p),
       see_orders = map (order_view sp) (filter (\<lambda>r. o_user_id r = uid) (rows (t_orders d))),
       see_executions = map execution_view (filter (\<lambda>r. x_user_id r = uid) (rows (t_executions d))),
       see_positions = map (position_view sp) (filter (\<lambda>r. p_user_id r = uid) (rows (t_positions d))),
       see_controls = map (\<lambda>c. (c_is_halted c, c_reason c))
         (filter (\<lambda>c. c_scope_key c \<in> {''GLOBAL'', user_scope uid}) (rows (t_controls d))),
       see_strategies = map (strategy_view sp) (filter (\<lambda>r. st_user_id r = uid) (rows (t_strategies t))),
       see_versions = map (version_view sp) (filter (\<lambda>r. sv_strategy_id r \<in> own_strategies uid d) (rows (t_versions t))),
       see_runs = map run_view (filter (\<lambda>r. sr_strategy_id r \<in> own_strategies uid d) (rows (t_runs t))),
       see_signals = map signal_view (filter (\<lambda>r. sg_strategy_id r \<in> own_strategies uid d) (rows (t_signals t))),
       see_candles = map candle_view (filter (\<lambda>r. k_user_id r = uid) (rows (t_candles t))),
       see_sessions = map (session_view sp p) (filter (\<lambda>r. us_user_id r = uid \<and> us_revoked_at r = None) (rows (t_sessions i))),
       see_keys = map (key_view sp) (filter (\<lambda>r. ak_user_id r = uid) (rows (t_api_keys i))),
       see_connections = map (broker_view sp) (filter (\<lambda>r. b_user_id r = uid) (rows (t_connections d))),
       see_instruments = map (\<lambda>r. (instrument_view r, i_is_active r)) (rows (t_instruments d))\<rparr>)"

text \<open>What of the market bus is a user's: its latest quotes, its clients and subscriptions counted, its feed's health.\<close>

record visible_bus =
  see_latest :: "string \<Rightarrow> quote option"
  see_clients :: nat
  see_subscriptions :: nat
  see_health :: "feed_health option"

definition bus_visible_to :: "string \<Rightarrow> bus \<Rightarrow> visible_bus" where
  "bus_visible_to uid b =
     \<lparr>see_latest = (\<lambda>i. bus_latest b (uid, i)), see_clients = length (filter (\<lambda>c. fst (fst c) = uid) (bus_clients b)),
      see_subscriptions = length (filter (\<lambda>x. fst x = uid) (active_subscriptions b)), see_health = bus_health b uid\<rparr>"

section \<open>The reading endpoints\<close>

text \<open>Every reading endpoint of the API but those of administrators and the liveness check, which shows settings only.\<close>

datatype reading =
    ReadOrders nat
  | ReadOrder string
  | ReadExecutions nat
  | ReadPositions
  | ReadTradingStatus
  | ReadStrategies
  | ReadStrategy string
  | ReadVersions string
  | ReadRuns string nat
  | ReadSignals string nat
  | ReadCandles string int "string option" "string option" nat
  | ReadMe
  | ReadSecurity
  | ReadSessions
  | ReadKeys
  | ReadKey string
  | ReadConnections
  | ReadConnection string
  | ReadPreview string nat
  | ReadInstruments "string option" "string option" "string option" nat
  | ReadQuotes "string list"
  | ReadMarketStatus
  | ReadCredential

datatype answer =
    Orders "order_out list"
  | OneOrder "exn + order_out"
  | Executions "execution_out list"
  | Positions "position_out list"
  | TradingStatus trading_status
  | StrategyList "strategy_out list"
  | OneStrategy "exn + strategy_out"
  | Versions "exn + version_out list"
  | Runs "exn + run_out list"
  | Signals "exn + signal_out list"
  | CandleList "exn + candle_out list"
  | Me user_out
  | SecurityState "bool \<times> nat"
  | Sessions "session_out list"
  | Keys "key_out list"
  | OneKey "exn + key_out"
  | Connections "exn + broker_out list"
  | OneConnection "exn + broker_out"
  | Preview "exn + preview_row list"
  | Instruments "instrument_out list"
  | Quotes "exn + quote list"
  | MarketStatus "nat \<times> nat \<times> health_report"
  | Credential "string \<times> string"

text \<open>
  The endpoint on the database of the session \<open>s\<close> and the bus \<open>b\<close>, for the principal of the request; \<open>ilike\<close> is the
  pattern match of the database.
\<close>

fun read_endpoint ::
  "stamps \<Rightarrow> (string \<Rightarrow> instant option) \<Rightarrow> (string \<Rightarrow> string \<Rightarrow> bool) \<Rightarrow> settings \<Rightarrow> principal \<Rightarrow> reading
   \<Rightarrow> session \<Rightarrow> bus \<Rightarrow> answer" where
  "read_endpoint sp fromiso ilike cfg p (ReadOrders n) s b = Orders (list_orders sp (u_id (pn_user p)) n (cur s))"
| "read_endpoint sp fromiso ilike cfg p (ReadOrder oid) s b = OneOrder (get_order sp (u_id (pn_user p)) oid (cur s))"
| "read_endpoint sp fromiso ilike cfg p (ReadExecutions n) s b = Executions (list_executions (u_id (pn_user p)) n (cur s))"
| "read_endpoint sp fromiso ilike cfg p ReadPositions s b = Positions (list_positions sp (u_id (pn_user p)) (cur s))"
| "read_endpoint sp fromiso ilike cfg p ReadTradingStatus s b = TradingStatus (status_view cfg (cur s) (u_id (pn_user p)))"
| "read_endpoint sp fromiso ilike cfg p ReadStrategies s b = StrategyList (list_strategies sp (u_id (pn_user p)) (cur s))"
| "read_endpoint sp fromiso ilike cfg p (ReadStrategy sid) s b = OneStrategy (get_strategy sp (u_id (pn_user p)) sid (cur s))"
| "read_endpoint sp fromiso ilike cfg p (ReadVersions sid) s b =
     Versions (map_sum id (map (version_view sp)) (versions (cur s) (u_id (pn_user p)) sid))"
| "read_endpoint sp fromiso ilike cfg p (ReadRuns sid n) s b = Runs (map_sum id (map run_view) (runs (cur s) (u_id (pn_user p)) sid n))"
| "read_endpoint sp fromiso ilike cfg p (ReadSignals sid n) s b =
     Signals (map_sum id (map signal_view) (signals (cur s) (u_id (pn_user p)) sid n))"
| "read_endpoint sp fromiso ilike cfg p (ReadCandles iid width start_at end_at n) s b =
     CandleList (map_sum id (map candle_view)
       (market_candles fromiso cfg (u_id (pn_user p)) iid width start_at end_at n (cur s)))"
| "read_endpoint sp fromiso ilike cfg p ReadMe s b = Me (me sp p)"
| "read_endpoint sp fromiso ilike cfg p ReadSecurity s b = SecurityState (security_view p s)"
| "read_endpoint sp fromiso ilike cfg p ReadSessions s b = Sessions (sessions_listing sp p (cur s))"
| "read_endpoint sp fromiso ilike cfg p ReadKeys s b = Keys (keys_listing sp p (cur s))"
| "read_endpoint sp fromiso ilike cfg p (ReadKey kid) s b = OneKey (get_key sp p kid (cur s))"
| "read_endpoint sp fromiso ilike cfg p ReadConnections s b = Connections (connections_listing sp p (cur s))"
| "read_endpoint sp fromiso ilike cfg p (ReadConnection bid) s b = OneConnection (get_connection sp p bid (cur s))"
| "read_endpoint sp fromiso ilike cfg p (ReadPreview sid n) s b = Preview (preview (cur s) (u_id (pn_user p)) sid n)"
| "read_endpoint sp fromiso ilike cfg p (ReadInstruments query exch segment n) s b =
     Instruments (search_instruments ilike query exch segment n (cur s))"
| "read_endpoint sp fromiso ilike cfg p (ReadQuotes iids) s b =
     Quotes (market_quotes cfg (u_id (pn_user p)) iids (cur s) b)"
| "read_endpoint sp fromiso ilike cfg p ReadMarketStatus s b =
     MarketStatus (bus_status cfg (clock s) (u_id (pn_user p)) b)"
| "read_endpoint sp fromiso ilike cfg p ReadCredential s b = Credential (validate_scoped_key p)"

section \<open>Every endpoint in terms of what may be seen\<close>

lemma view_sel [simp]:
  "vo_created_at (order_view sp r) = sp_created sp (o_id r)" "vo_id (order_view sp r) = o_id r"
  "vx_executed_at (execution_view x) = x_executed_at x"
  "vp_updated_at (position_view sp q) = sp_moved sp (position_key q)"
  "vt_created_at (strategy_view sp st) = sp_created sp (st_id st)" "vt_id (strategy_view sp st) = st_id st"
  "vv_version (version_view sp v) = sv_version v" "vv_strategy_id (version_view sp v) = sv_strategy_id v"
  "vr_started_at (run_view u) = sr_started_at u" "vr_strategy_id (run_view u) = sr_strategy_id u"
  "vg_generated_at (signal_view g) = sg_generated_at g" "vg_strategy_id (signal_view g) = sg_strategy_id g"
  "vs_created_at (session_view sp p x') = sp_created sp (us_id x')" "vs_expires_at (session_view sp p x') = us_expires_at x'"
  "vk_created_at (key_view sp k) = sp_created sp (ak_id k)" "vk_id (key_view sp k) = ak_id k"
  "vb_created_at (broker_view sp b) = sp_created sp (b_id b)" "vb_id (broker_view sp b) = b_id b"
  "vu_id (user_view sp usr) = u_id usr" "vu_mfa_enabled (user_view sp usr) = u_mfa_enabled usr"
  by (simp_all add: order_view_def execution_view_def position_view_def strategy_view_def version_view_def run_view_def
      signal_view_def session_view_def key_view_def broker_view_def user_view_def)

lemma instrument_view_sel [simp]:
  "vi_id (instrument_view i) = i_id i" "vi_exchange (instrument_view i) = i_exchange i"
  "vi_segment (instrument_view i) = i_segment i" "vi_symbol (instrument_view i) = i_symbol i"
  "vi_trading_symbol (instrument_view i) = i_trading_symbol i" "vi_name (instrument_view i) = i_name i"
  by (simp_all add: instrument_view_def)

lemma listings_seen:
  "list_orders sp (u_id (pn_user p)) n d = take n (newest vo_created_at (see_orders (visible_to sp p d)))"
  "list_executions (u_id (pn_user p)) n d = take n (newest vx_executed_at (see_executions (visible_to sp p d)))"
  "list_positions sp (u_id (pn_user p)) d = newest vp_updated_at (see_positions (visible_to sp p d))"
  "list_strategies sp (u_id (pn_user p)) d = newest vt_created_at (see_strategies (visible_to sp p d))"
  "sessions_listing sp p d = newest vs_created_at (see_sessions (visible_to sp p d))"
  "keys_listing sp p d = newest vk_created_at (see_keys (visible_to sp p d))"
  "connections_listing sp p d =
     raise_or (scope_check p ''broker:read'') (Inr (newest vb_created_at (see_connections (visible_to sp p d))))"
  using map_newest [of "order_view sp" vo_created_at] map_newest [of execution_view vx_executed_at]
    map_newest [of "position_view sp" vp_updated_at] map_newest [of "strategy_view sp" vt_created_at]
    map_newest [of "session_view sp p" vs_created_at] map_newest [of "key_view sp" vk_created_at]
    map_newest [of "broker_view sp" vb_created_at]
  by (simp_all add: list_orders_def list_executions_def list_positions_def list_strategies_def sessions_listing_def
      keys_listing_def connections_listing_def visible_to_def Let_def flip: take_map)

lemma rows_seen:
  "get_order sp (u_id (pn_user p)) oid d =
     found_own (HTTPException 404 ''Order not found'') (List.find (\<lambda>v. vo_id v = oid) (see_orders (visible_to sp p d)))"
  "get_strategy sp (u_id (pn_user p)) sid d =
     found_own (HTTPException 404 ''Strategy not found'') (List.find (\<lambda>v. vt_id v = sid) (see_strategies (visible_to sp p d)))"
  "distinct (map ak_id (rows (t_api_keys (t_identity d)))) \<Longrightarrow> get_key sp p kid d =
     found_own (HTTPException 404 ''API key not found'') (List.find (\<lambda>v. vk_id v = kid) (see_keys (visible_to sp p d)))"
  "distinct (map b_id (rows (t_connections d))) \<Longrightarrow> get_connection sp p bid d =
     raise_or (scope_check p ''broker:read'') (found_own (HTTPException 404 ''Broker connection not found'')
       (List.find (\<lambda>v. vb_id v = bid) (see_connections (visible_to sp p d))))"
  using map_find [of "\<lambda>r. o_id r = oid" "\<lambda>v. vo_id v = oid" "order_view sp"]
    map_find [of "\<lambda>r. st_id r = sid" "\<lambda>v. vt_id v = sid" "strategy_view sp"]
    map_find [of "\<lambda>r. ak_id r = kid" "\<lambda>v. vk_id v = kid" "key_view sp"]
    map_find [of "\<lambda>r. b_id r = bid" "\<lambda>v. vb_id v = bid" "broker_view sp"]
  by (simp_all add: get_order_def owned_order_def get_strategy_def owned_strategy_def get_key_def owned_key_def find_key_def
      get_connection_def owned_connection_def find_checked find_filter found_own_view visible_to_def Let_def
      flip: found_own_def)

text \<open>The rows of one strategy of the user, newest first.\<close>

lemma own_rows:
  assumes "\<And>r. vkey (view r) = key r" "\<And>r. vowner (view r) = owner r" "sid \<in> own"
  shows "map view (rev (sort_key key (filter (\<lambda>r. owner r = sid) xs))) =
    rev (sort_key vkey (filter (\<lambda>v. vowner v = sid) (map view (filter (\<lambda>r. owner r \<in> own) xs))))"
proof -
  have "filter (\<lambda>r. owner r = sid) xs = filter (\<lambda>r. owner r = sid) (filter (\<lambda>r. owner r \<in> own) xs)"
    using assms(3) by (auto simp: filter_filter intro!: filter_cong)
  moreover have "sort_key vkey (map view ys) = map view (sort_key key ys)" for ys
    using map_sort_key [of view vkey ys] by (simp add: assms(1))
  ultimately show ?thesis by (simp add: assms(2) rev_map filter_map o_def)
qed

definition for_own_strategy :: "string \<Rightarrow> visible \<Rightarrow> 'a \<Rightarrow> exn + 'a" where
  "for_own_strategy sid v x =
     (if List.find (\<lambda>st. vt_id st = sid) (see_strategies v) = None
      then Inl (HTTPException 404 ''Strategy not found'') else Inr x)"

lemma owned_strategy_seen:
  "(case owned_strategy d (u_id (pn_user p)) sid of Inl e \<Rightarrow> Inl e | Inr _ \<Rightarrow> Inr x) =
     for_own_strategy sid (visible_to sp p d) x"
  "\<not> isl (for_own_strategy sid (visible_to sp p d) x) \<Longrightarrow> sid \<in> own_strategies (u_id (pn_user p)) d"
  using map_find [of "\<lambda>r. st_id r = sid" "\<lambda>v. vt_id v = sid" "strategy_view sp", symmetric]
  by (auto simp: owned_strategy_def for_own_strategy_def find_filter visible_to_def Let_def own_strategies_def
      find_None_iff split: option.splits if_splits dest!: find_SomeD)

lemma for_own_strategy_cong:
  "(sid \<in> own_strategies (u_id (pn_user p)) d \<Longrightarrow> x = y) \<Longrightarrow>
   for_own_strategy sid (visible_to sp p d) x = for_own_strategy sid (visible_to sp p d) y"
  using owned_strategy_seen(2) [of sid sp p d x] by (simp add: for_own_strategy_def split: if_splits)

lemma map_sum_own: "map_sum id f (for_own_strategy sid v x) = for_own_strategy sid v (f x)"
  by (simp add: for_own_strategy_def)

lemma strategy_rows_seen:
  "map_sum id (map (version_view sp)) (versions d (u_id (pn_user p)) sid) =
     for_own_strategy sid (visible_to sp p d)
       (rev (sort_key vv_version (filter (\<lambda>v. vv_strategy_id v = sid) (see_versions (visible_to sp p d)))))"
  "map_sum id (map run_view) (runs d (u_id (pn_user p)) sid n) =
     for_own_strategy sid (visible_to sp p d)
       (take n (rev (sort_key vr_started_at (filter (\<lambda>v. vr_strategy_id v = sid) (see_runs (visible_to sp p d))))))"
  "map_sum id (map signal_view) (signals d (u_id (pn_user p)) sid n) =
     for_own_strategy sid (visible_to sp p d)
       (take n (rev (sort_key vg_generated_at (filter (\<lambda>v. vg_strategy_id v = sid) (see_signals (visible_to sp p d))))))"
  unfolding versions_def runs_def signals_def owned_strategy_seen(1) [where sp = sp] map_sum_own
  by (rule for_own_strategy_cong,
      simp add: own_rows [where vkey = vv_version and vowner = vv_strategy_id and own = "own_strategies (u_id (pn_user p)) d"]
        own_rows [where vkey = vr_started_at and vowner = vr_strategy_id and own = "own_strategies (u_id (pn_user p)) d"]
        own_rows [where vkey = vg_generated_at and vowner = vg_strategy_id and own = "own_strategies (u_id (pn_user p)) d"]
        visible_to_def Let_def flip: take_map)+

lemma status_seen:
  "status_view cfg d (u_id (pn_user p)) =
     (let halting = List.find fst (see_controls (visible_to sp p d)) in
      \<lparr>ts_mode = trading_mode cfg, ts_live_ready = (trading_mode cfg = ''live'' \<and>
         trading_live_confirmation cfg = ''ENABLE_DHAN_LIVE_ORDERS'' \<and> dhan_static_ip_confirmed cfg),
       ts_halted = (halting \<noteq> None), ts_halt_reason = Option.bind halting snd\<rparr>)"
proof -
  have "List.find fst (map (\<lambda>c. (c_is_halted c, c_reason c)) xs) =
      map_option (\<lambda>c. (c_is_halted c, c_reason c)) (List.find c_is_halted xs)" for xs
    by (rule map_find [symmetric]) simp
  then have "List.find fst (see_controls (visible_to sp p d)) = map_option (\<lambda>c. (c_is_halted c, c_reason c))
      (List.find c_is_halted (filter (\<lambda>c. c_scope_key c \<in> {''GLOBAL'', user_scope (u_id (pn_user p))}) (rows (t_controls d))))"
    by (simp add: visible_to_def Let_def)
  then show ?thesis
    by (cases "List.find c_is_halted (filter (\<lambda>c. c_scope_key c \<in> {''GLOBAL'', user_scope (u_id (pn_user p))})
      (rows (t_controls d)))") (simp_all add: status_view_def)
qed

lemma security_seen:
  "security_view p s = (vu_mfa_enabled (see_me (visible_to sp p (cur s))),
     length (filter (\<lambda>v. clock s < vs_expires_at v) (see_sessions (visible_to sp p (cur s)))))"
proof -
  have "filter (\<lambda>r. us_user_id r = u_id (pn_user p) \<and> live_session (clock s) r) xs =
      filter (\<lambda>r. clock s < us_expires_at r) (filter (\<lambda>r. us_user_id r = u_id (pn_user p) \<and> us_revoked_at r = None) xs)" for xs
    by (auto simp: live_session_def filter_filter intro!: filter_cong)
  then show ?thesis by (simp add: security_view_def visible_to_def Let_def filter_map o_def)
qed

lemma candle_view_sel [simp]:
  "vc_instrument_id (candle_view k) = k_instrument_id k" "vc_interval_seconds (candle_view k) = k_interval_seconds k"
  "vc_start_at (candle_view k) = k_start_at k"
  by (simp_all add: candle_view_def)

definition shown_candles :: "nat \<Rightarrow> string \<Rightarrow> int \<Rightarrow> instant option \<Rightarrow> instant option \<Rightarrow> visible \<Rightarrow> candle_out list" where
  "shown_candles n iid width from to v =
     rev (take n (sort_key (\<lambda>k. - vc_start_at k) (filter (\<lambda>k. vc_instrument_id k = iid \<and> vc_interval_seconds k = width \<and>
       (\<forall>t. from = Some t \<longrightarrow> t \<le> vc_start_at k) \<and> (\<forall>t. to = Some t \<longrightarrow> vc_start_at k \<le> t)) (see_candles v))))"

lemma candles_shown:
  "map candle_view (rev (take n (sort_key (\<lambda>k. - k_start_at k) (filter (\<lambda>k. k_user_id k = u_id (pn_user p) \<and>
      k_instrument_id k = iid \<and> k_interval_seconds k = width \<and> in_range from to k) (rows (t_candles (t_strategy d))))))) =
   shown_candles n iid width from to (visible_to sp p d)"
proof -
  let ?own = "filter (\<lambda>k. k_user_id k = u_id (pn_user p)) (rows (t_candles (t_strategy d)))"
  let ?P = "\<lambda>k. k_instrument_id k = iid \<and> k_interval_seconds k = width \<and> in_range from to k"
  have "filter (\<lambda>k. k_user_id k = u_id (pn_user p) \<and> ?P k) (rows (t_candles (t_strategy d))) = filter ?P ?own"
    by (simp add: conj_commute conj_left_commute)
  moreover have "map candle_view (rev (take n (sort_key (\<lambda>k. - k_start_at k) (filter ?P ?own)))) =
      rev (take n (sort_key (\<lambda>v. - vc_start_at v) (map candle_view (filter ?P ?own))))"
    using map_sort_key [of candle_view "\<lambda>v. - vc_start_at v" "filter ?P ?own", symmetric] by (simp add: rev_map take_map)
  moreover have "map candle_view (filter ?P ?own) = filter (\<lambda>v. vc_instrument_id v = iid \<and> vc_interval_seconds v = width \<and>
      (\<forall>t. from = Some t \<longrightarrow> t \<le> vc_start_at v) \<and> (\<forall>t. to = Some t \<longrightarrow> vc_start_at v \<le> t)) (map candle_view ?own)"
    by (simp add: filter_map o_def in_range_def)
  ultimately show ?thesis by (simp add: shown_candles_def visible_to_def Let_def)
qed

lemma map_and_then: "map_sum id f (and_then r g) = and_then r (\<lambda>x. map_sum id f (g x))"
  by (cases r) simp_all

lemma candles_seen:
  "map_sum id (map candle_view) (market_candles fromiso cfg (u_id (pn_user p)) iid width start_at end_at n d) =
     and_then (candle_intervals cfg) (\<lambda>ns.
       if width \<notin> set ns then Inl (HTTPException 422 ''Unsupported candle interval'')
       else if iid \<notin> (vi_id \<circ> fst) ` set (see_instruments (visible_to sp p d)) then Inl (HTTPException 404 ''Instrument not found'')
       else and_then (range_end fromiso start_at) (\<lambda>from. and_then (range_end fromiso end_at) (\<lambda>to.
         Inr (shown_candles n iid width from to (visible_to sp p d)))))"
proof -
  have "(\<forall>i \<in> set (rows (t_instruments d)). i_id i \<noteq> iid) \<longleftrightarrow> iid \<notin> (vi_id \<circ> fst) ` set (see_instruments (visible_to sp p d))"
    by (auto simp: visible_to_def Let_def image_image o_def)
  then show ?thesis
    unfolding market_candles_def map_and_then if_distrib [of "map_sum id (map candle_view)"] map_sum.simps candles_shown [where sp = sp]
    by (simp only: id_apply)
qed

text \<open>The search reads the active instruments' public columns.\<close>

definition search_shown ::
  "(string \<Rightarrow> string \<Rightarrow> bool) \<Rightarrow> string option \<Rightarrow> string option \<Rightarrow> string option \<Rightarrow> nat \<Rightarrow> visible \<Rightarrow> instrument_out list" where
  "search_shown ilike query exch segment n v =
     (let matches = (\<lambda>i. case query of
            Some (c # cs) \<Rightarrow> (let pattern = ''%'' @ py_strip (c # cs) @ ''%'' in
              ilike pattern (vi_trading_symbol i) \<or> ilike pattern (vi_symbol i) \<or>
              (case vi_name i of None \<Rightarrow> False | Some nm \<Rightarrow> ilike pattern nm))
          | _ \<Rightarrow> True);
          given = (\<lambda>w column. case w of Some (c # cs) \<Rightarrow> column = py_upper (c # cs) | _ \<Rightarrow> True)
      in map fst (take n (sort_key (\<lambda>(i, _). (vi_exchange i, vi_trading_symbol i))
           (filter (\<lambda>(i, active). active \<and> matches i \<and> given exch (vi_exchange i) \<and> given segment (vi_segment i))
             (see_instruments v)))))"

lemma search_seen: "search_instruments ilike query exch segment n d = search_shown ilike query exch segment n (visible_to sp p d)"
proof -
  let ?view = "\<lambda>r. (instrument_view r, i_is_active r)" and ?key = "\<lambda>(i, _). (vi_exchange i, vi_trading_symbol i)"
  have key: "(\<lambda>i. (i_exchange i, i_trading_symbol i)) = (\<lambda>r. ?key (?view r))" by simp
  have "map instrument_view (take n (sort_key (\<lambda>i. (i_exchange i, i_trading_symbol i)) xs)) =
      map fst (take n (sort_key ?key (map ?view xs)))" for xs
    unfolding key map_sort_key [symmetric] by (simp add: take_map o_def)
  then show ?thesis
    by (simp add: search_instruments_def search_shown_def visible_to_def Let_def filter_map o_def)
      (unfold instrument_view_sel, rule refl)
qed

lemma quotes_seen:
  "market_quotes cfg (u_id (pn_user p)) iids d b =
     (let ids = py_unique iids in
      if ids = [] \<or> market_max_subscriptions cfg < int (length ids)
      then Inl (HTTPException 422 (''Request between 1 and '' @ str_of_int (market_max_subscriptions cfg) @ '' instruments''))
      else if \<exists>i \<in> set ids. (i, True) \<notin> (\<lambda>(x, active). (vi_id x, active)) ` set (see_instruments (visible_to sp p d))
      then Inl (HTTPException 404 ''One or more instruments were not found'')
      else Inr (List.map_filter (see_latest (bus_visible_to (u_id (pn_user p)) b)) ids))"
proof -
  have "active_instrument d i = None \<longleftrightarrow>
      (i, True) \<notin> (\<lambda>(x, active). (vi_id x, active)) ` set (see_instruments (visible_to sp p d))" for i
    by (auto simp: active_instrument_def find_None_iff visible_to_def Let_def image_iff)
  then have "all_active d ids \<longleftrightarrow>
      \<not> (\<exists>i \<in> set ids. (i, True) \<notin> (\<lambda>(x, active). (vi_id x, active)) ` set (see_instruments (visible_to sp p d)))" for ids
    by (simp add: all_active_def)
  then show ?thesis by (simp add: market_quotes_def latest_def bus_visible_to_def Let_def)
qed

lemma market_status_seen:
  "bus_status cfg now uid b =
     (let v = bus_visible_to uid b in
      (see_clients v, see_subscriptions v, feed_health_report cfg now uid (see_subscriptions v)
         (empty_bus\<lparr>bus_health := (\<lambda>_. see_health v)\<rparr>)))"
  by (simp add: bus_status_def bus_visible_to_def Let_def feed_health_report_def)

text \<open>The preview reads the periods of the caller's strategy and the caller's complete candles.\<close>

lemma preview_loop_cong:
  "map (\<lambda>k. (k_start_at k, k_close k)) ks = map (\<lambda>k. (k_start_at k, k_close k)) ks' \<Longrightarrow>
   preview_loop fast slow closes ks = preview_loop fast slow closes ks'"
proof (induction ks arbitrary: closes ks')
  case (Cons k ks)
  then obtain k' rest where k': "ks' = k' # rest" "k_start_at k = k_start_at k'" "k_close k = k_close k'"
    "map (\<lambda>k. (k_start_at k, k_close k)) ks = map (\<lambda>k. (k_start_at k, k_close k)) rest"
    by (cases ks') auto
  then show ?case using Cons.IH [of rest] by (simp add: Let_def preview_entry_def split: option.split)
qed simp

lemma complete_candles_seen:
  assumes "st_user_id st = u_id (pn_user p)"
  shows "map candle_view (complete_candles d st) =
    sort_key vc_start_at (filter (\<lambda>k. vc_instrument_id k = vt_instrument_id (strategy_view sp st) \<and>
      vc_interval_seconds k = vt_timeframe_seconds (strategy_view sp st) \<and> vc_is_complete k) (see_candles (visible_to sp p d)))"
proof -
  let ?own = "filter (\<lambda>k. k_user_id k = u_id (pn_user p)) (rows (t_candles (t_strategy d)))"
  let ?P = "\<lambda>k. k_instrument_id k = st_instrument_id st \<and> k_interval_seconds k = st_timeframe_seconds st \<and> k_is_complete k"
  have "complete_candles d st = sort_key k_start_at (filter ?P ?own)"
    by (simp add: complete_candles_def assms conj_ac)
  then have "map candle_view (complete_candles d st) = sort_key vc_start_at (map candle_view (filter ?P ?own))"
    using map_sort_key [of candle_view vc_start_at "filter ?P ?own"] by simp
  moreover have "vc_is_complete (candle_view k) = k_is_complete k" for k by (simp add: candle_view_def)
  ultimately show ?thesis by (simp add: visible_to_def Let_def filter_map o_def strategy_view_def)
qed

lemma preview_seen:
  assumes "visible_to sp p d = visible_to sp p' d'"
  shows "preview d (u_id (pn_user p)) sid n = preview d' (u_id (pn_user p')) sid n"
proof -
  have same: "map_sum id (strategy_view sp) (owned_strategy d (u_id (pn_user p)) sid) =
      map_sum id (strategy_view sp) (owned_strategy d' (u_id (pn_user p')) sid)"
    using rows_seen(2) [where sp = sp, unfolded get_strategy_def] assms by simp
  show ?thesis
  proof (cases "owned_strategy d (u_id (pn_user p)) sid")
    case (Inl e)
    with same show ?thesis by (cases "owned_strategy d' (u_id (pn_user p')) sid") (simp_all add: preview_def)
  next
    case (Inr st)
    with same obtain st' where st': "owned_strategy d' (u_id (pn_user p')) sid = Inr st'"
      "strategy_view sp st = strategy_view sp st'"
      by (cases "owned_strategy d' (u_id (pn_user p')) sid") auto
    have owner: "st_user_id st = u_id (pn_user p)" "st_user_id st' = u_id (pn_user p')"
      using Inr st'(1) by (auto simp: owned_strategy_def dest!: find_SomeD split: option.splits)
    have "map candle_view (complete_candles d st) = map candle_view (complete_candles d' st')"
      using complete_candles_seen [OF owner(1), of d sp] complete_candles_seen [OF owner(2), of d' sp]
      by (simp add: st'(2) assms)
    then have "map (\<lambda>v. (vc_start_at v, vc_close v)) (map candle_view (complete_candles d st)) =
        map (\<lambda>v. (vc_start_at v, vc_close v)) (map candle_view (complete_candles d' st'))"
      by (rule arg_cong)
    then have points: "map (\<lambda>k. (k_start_at k, k_close k)) (complete_candles d st) =
        map (\<lambda>k. (k_start_at k, k_close k)) (complete_candles d' st')"
      by (simp add: candle_view_def o_def)
    have "map (\<lambda>k. (k_start_at k, k_close k)) (rev (take n (rev (complete_candles d st)))) =
        map (\<lambda>k. (k_start_at k, k_close k)) (rev (take n (rev (complete_candles d' st'))))"
      using points by (simp add: rev_map [symmetric] take_map [symmetric])
    note loop = preview_loop_cong [OF this]
    have "st_fast_period st = st_fast_period st'" "st_slow_period st = st_slow_period st'"
      using arg_cong [OF st'(2), of vt_fast_period] arg_cong [OF st'(2), of vt_slow_period]
      by (simp_all add: strategy_view_def)
    then show ?thesis using loop by (simp add: preview_def Inr st'(1))
  qed
qed

section \<open>The property\<close>

text \<open>
  C13. Nobody reads what is not theirs.  Take two databases in which the rows of the caller agree in the public columns,
  and so do the instruments and the global halt, which are everybody's, and two market buses that agree in what is the
  caller's.  They may differ in any other way: in other users' orders, positions, candles, strategies, keys, sessions
  and quotes, in password hashes, token digests, encrypted credentials, second factor secrets.  Every reading endpoint
  other than the administrators' listings answers the same in both, errors included, so that an id of somebody else's
  row is answered like an id that does not exist.
\<close>

theorem readings_show_only_the_own_rows:
  assumes "visible_to sp p (cur s) = visible_to sp p' (cur s')" "clock s = clock s'"
    and "bus_visible_to (u_id (pn_user p)) b = bus_visible_to (u_id (pn_user p')) b'"
    and "pn_session_id p = pn_session_id p'" "pn_api_key_id p = pn_api_key_id p'" "pn_scopes p = pn_scopes p'"
    and "constraints (cur s)" "constraints (cur s')"
  shows "read_endpoint sp fromiso ilike cfg p rd s b = read_endpoint sp fromiso ilike cfg p' rd s' b'"
proof -
  have ids: "distinct (map ak_id (rows (t_api_keys (t_identity (cur s)))))" "distinct (map b_id (rows (t_connections (cur s))))"
    "distinct (map ak_id (rows (t_api_keys (t_identity (cur s')))))" "distinct (map b_id (rows (t_connections (cur s'))))"
    using assms(7,8) by (simp_all add: constraints_def identity_constraints_def objs_def)
  have scope: "scope_check p needed = scope_check p' needed" for needed using assms(5,6) by (simp add: scope_check_def)
  have view: "user_view sp (pn_user p) = user_view sp (pn_user p')"
    using arg_cong [OF assms(1), of see_me] by (simp add: visible_to_def Let_def)
  have who: "u_id (pn_user p) = u_id (pn_user p')" using arg_cong [OF view, of vu_id] by simp
  note seen = listings_seen [where sp = sp] rows_seen [where sp = sp] strategy_rows_seen [where sp = sp] status_seen [where sp = sp]
    security_seen [where sp = sp] candles_seen [where sp = sp] quotes_seen [where sp = sp]
  show ?thesis
  proof (cases rd)
    case ReadMarketStatus
    then show ?thesis
      using market_status_seen [of cfg "clock s" "u_id (pn_user p)" b] market_status_seen [of cfg "clock s'" "u_id (pn_user p')" b']
      by (simp add: assms(2,3) feed_health_report_def Let_def)
  next
    case (ReadInstruments query exch segment n)
    then show ?thesis
      using search_seen [of ilike query exch segment n "cur s" sp p] search_seen [of ilike query exch segment n "cur s'" sp p']
      by (simp add: assms(1))
  next
    case (ReadPreview sid n)
    then show ?thesis using preview_seen [OF assms(1)] by simp
  next
    case ReadCredential
    then show ?thesis using who assms(5) by (simp add: validate_scoped_key_def)
  qed (use view assms(2,4) in \<open>simp_all add: seen ids scope assms(1,3) me_def cong: if_cong\<close>)
qed

definition ex_key :: "string \<Rightarrow> string \<Rightarrow> string \<Rightarrow> api_key" where
  "ex_key uid kid secret =
     \<lparr>ak_id = kid, ak_user_id = uid, ak_name = ''bot'', ak_public_id = kid, ak_secret_hash = secret, ak_scopes = [],
      ak_status = KeyACTIVE, ak_expires_at = None, ak_last_used_at = None, ak_revoked_at = None, ak_rotated_from_id = None\<rparr>"

definition ex_reader :: "string \<Rightarrow> principal" where
  "ex_reader h = \<lparr>pn_user = new_user ''u'' ''e'' h, pn_session_id = Some ''s'', pn_api_key_id = None, pn_scopes = None\<rparr>"

definition ex_keys :: "api_key list \<Rightarrow> session" where
  "ex_keys ks =
     (let d = empty_db\<lparr>t_identity := empty_identity_tables\<lparr>t_api_keys := \<lparr>rows = ks, added = []\<rparr>\<rparr>\<rparr> in
      \<lparr>cur = d, saved = d, clock = 0, uuids = (\<lambda>_. []), drawn = 0, wire = []\<rparr>)"

definition ex_stamps :: stamps where
  "ex_stamps = \<lparr>sp_created = (\<lambda>_. 0), sp_updated = (\<lambda>_. 0), sp_moved = (\<lambda>_. 0),
    sp_versioned = (\<lambda>_. 0)\<rparr>"

lemma readings_show_only_the_own_rows_witness:
  "read_endpoint ex_stamps (\<lambda>_. None) (\<lambda>_ _. False) default_settings (ex_reader ''h'') (ReadKey ''k2'') (ex_keys [ex_key ''u'' ''k1'' ''x'', ex_key ''v'' ''k2'' ''y'']) empty_bus =
   read_endpoint ex_stamps (\<lambda>_. None) (\<lambda>_ _. False) default_settings (ex_reader ''i'') (ReadKey ''k2'') (ex_keys [ex_key ''u'' ''k1'' ''z'']) empty_bus"
proof (rule readings_show_only_the_own_rows)
  show "visible_to ex_stamps (ex_reader ''h'') (cur (ex_keys [ex_key ''u'' ''k1'' ''x'', ex_key ''v'' ''k2'' ''y''])) =
      visible_to ex_stamps (ex_reader ''i'') (cur (ex_keys [ex_key ''u'' ''k1'' ''z'']))"
    by (simp add: visible_to_def ex_keys_def Let_def ex_reader_def ex_key_def empty_db_def empty_identity_tables_def
        empty_strategy_tables_def own_strategies_def user_view_def new_user_def key_view_def)
qed (simp_all add: ex_keys_def Let_def ex_reader_def new_user_def ex_key_def constraints_def identity_constraints_def
    empty_db_def empty_identity_tables_def empty_strategy_tables_def strategy_constraints_def objs_def)

end
