(* ===== verification/OperatorCli.thy ===== *)
theory OperatorCli
  imports InstrumentImport AuthApi
begin

text \<open>
  \<^verbatim>\<open>cli.py\<close>: the commands of the operator, on one database session that is closed when the command ends.  The typed
  passwords and the rows of the file are arguments; \<^verbatim>\<open>SystemExit\<close> stands for every refusal with a message.
\<close>

section \<open>Creating an administrator\<close>

definition create_admin :: "crypto \<Rightarrow> string \<Rightarrow> string \<Rightarrow> string \<Rightarrow> session \<Rightarrow> (exn + unit) \<times> session" where
  "create_admin cr email password confirmation s =
     (if password \<noteq> confirmation \<or> validate_password password \<noteq> None then (Inl (PyError ''SystemExit''), s)
      else if user_by_email (cur s) (py_lower email) \<noteq> None then (Inl (PyError ''SystemExit''), s)
      else
        let salted = draw s in
        commit_return () (add_user ((new_user (fresh salted) (py_lower email) (cr_hash_password cr (fresh s) password))
          \<lparr>u_role := ADMIN, u_is_verified := True\<rparr>) (draw salted)))"

section \<open>Importing instruments\<close>

text \<open>A cell of a row, stripped; a missing one is empty.\<close>

definition cell :: "csv_row \<Rightarrow> string \<Rightarrow> string" where
  "cell row name = py_strip (or_else (map_of row name) [])"

definition cell_or_none :: "csv_row \<Rightarrow> string \<Rightarrow> string option" where
  "cell_or_none row name = (if cell row name = [] then None else Some (cell row name))"

definition required_columns :: "string list" where
  "required_columns = [''exchange'', ''segment'', ''symbol'', ''trading_symbol'', ''instrument_type'']"

definition row_identity :: "csv_row \<Rightarrow> string \<times> string \<times> string" where
  "row_identity row = (py_upper (cell row ''exchange''), py_upper (cell row ''segment''), cell row ''symbol'')"

definition int_cell :: "csv_row \<Rightarrow> string \<Rightarrow> exn + int option" where
  "int_cell row name =
     (if cell row name = [] then Inr None else map_sum id Some (py_int (JStr (cell row name))))"

definition float_cell :: "csv_row \<Rightarrow> string \<Rightarrow> exn + pyfloat option" where
  "float_cell row name =
     (if cell row name = [] then Inr None else map_sum id Some (py_float (JStr (cell row name))))"

definition row_tokens :: "csv_row \<Rightarrow> (string \<times> json) list" where
  "row_tokens row =
     map (\<lambda>(name, column). (name, JStr (cell row column)))
       (filter (\<lambda>(name, column). cell row column \<noteq> [])
         [(''DHAN'', ''dhan_token''), (''FYERS'', ''fyers_token''), (''UPSTOX'', ''upstox_token'')])"

definition row_instrument :: "string \<Rightarrow> csv_row \<Rightarrow> instrument" where
  "row_instrument iid row =
     (let (ex, seg, symbol) = row_identity row in
      \<lparr>i_id = iid, i_exchange = ex, i_segment = seg, i_symbol = symbol, i_trading_symbol = cell row ''trading_symbol'',
       i_name = None, i_instrument_type = py_upper (cell row ''instrument_type''), i_expiry_at = None, i_strike = None,
       i_option_type = None, i_lot_size = None, i_tick_size = None, i_broker_tokens = [], i_metadata_json = [],
       i_is_active = True\<rparr>)"

text \<open>What a row writes to its instrument.\<close>

definition write_cells :: "csv_row \<Rightarrow> instrument \<Rightarrow> exn + instrument" where
  "write_cells row x =
     and_then (int_cell row ''lot_size'') (\<lambda>lot.
     and_then (float_cell row ''tick_size'') (\<lambda>tick.
     and_then (float_cell row ''strike'') (\<lambda>strike.
       Inr (x\<lparr>i_trading_symbol := cell row ''trading_symbol'', i_name := cell_or_none row ''name'',
         i_instrument_type := py_upper (cell row ''instrument_type''), i_lot_size := lot, i_tick_size := tick,
         i_option_type := cell_or_none row ''option_type'', i_strike := strike, i_broker_tokens := row_tokens row\<rparr>))))"

text \<open>The query sees the flushed rows only: an instrument added by an earlier row of the file is not found.\<close>

definition import_row :: "csv_row \<Rightarrow> session \<Rightarrow> exn + session" where
  "import_row row s =
     (case List.find (\<lambda>x. (i_exchange x, i_segment x, i_symbol x) = row_identity row) (rows (t_instruments (cur s))) of
        Some x \<Rightarrow> map_sum id (\<lambda>x. on_instruments (put_row i_id x) s) (write_cells row x)
      | None \<Rightarrow> map_sum id (\<lambda>x. on_instruments (insert_row x) (draw s)) (write_cells row (row_instrument (fresh s) row)))"

fun import_csv :: "csv_row list \<Rightarrow> session \<Rightarrow> exn + session" where
  "import_csv [] s = Inr s"
| "import_csv (row # csv) s = and_then (import_row row s) (import_csv csv)"

definition import_instruments :: "string list \<Rightarrow> csv_row list \<Rightarrow> session \<Rightarrow> (exn + nat) \<times> session" where
  "import_instruments names csv s =
     (if \<not> set required_columns \<subseteq> set names then (Inl (PyError ''SystemExit''), s)
      else case import_csv csv s of
        Inl e \<Rightarrow> (Inl e, s)
      | Inr s' \<Rightarrow> commit_return (length csv) s')"

end
