(* ===== verification/OperatorProps.thy ===== *)
theory OperatorProps
  imports OperatorCli CredentialFacts
begin

text \<open>What the operator's import does to the table: one new row for each new line, all of them or none.\<close>

definition instrument_identity :: "instrument \<Rightarrow> string \<times> string \<times> string" where
  "instrument_identity x = (i_exchange x, i_segment x, i_symbol x)"

lemma identity_columns: "(\<lambda>x. (i_exchange x, i_segment x, i_symbol x)) = instrument_identity"
  by (rule ext) (simp add: instrument_identity_def)

definition readable :: "csv_row \<Rightarrow> bool" where
  "readable row \<longleftrightarrow> \<not> isl (int_cell row ''lot_size'') \<and> \<not> isl (float_cell row ''tick_size'') \<and> \<not> isl (float_cell row ''strike'')"

lemma write_cells_Inr:
  "write_cells row x = Inr y \<Longrightarrow> i_id y = i_id x \<and> instrument_identity y = instrument_identity x"
  by (auto simp: write_cells_def and_then_def instrument_identity_def split: sum.splits)

lemma write_cells_readable: "readable row \<longleftrightarrow> (\<exists>y. write_cells row x = Inr y)"
  by (auto simp: write_cells_def and_then_def readable_def split: sum.splits)

text \<open>The lines of the file that name no instrument of the table.\<close>

definition new_lines :: "instrument list \<Rightarrow> csv_row list \<Rightarrow> csv_row list" where
  "new_lines xs csv = filter (\<lambda>row. row_identity row \<notin> instrument_identity ` set xs) csv"

text \<open>Between the lines: the table as it was, up to the values of its instruments, and the new instruments.\<close>

definition partway :: "session \<Rightarrow> csv_row list \<Rightarrow> session \<Rightarrow> bool" where
  "partway s seen s' \<longleftrightarrow>
     map i_id (rows (t_instruments (cur s'))) = map i_id (rows (t_instruments (cur s))) \<and>
     map instrument_identity (rows (t_instruments (cur s'))) = map instrument_identity (rows (t_instruments (cur s))) \<and>
     map instrument_identity (added (t_instruments (cur s'))) = map row_identity (new_lines (rows (t_instruments (cur s))) seen) \<and>
     map i_id (added (t_instruments (cur s'))) =
       map (uuids s) [drawn s ..< drawn s + length (new_lines (rows (t_instruments (cur s))) seen)] \<and>
     drawn s' = drawn s + length (new_lines (rows (t_instruments (cur s))) seen) \<and> uuids s' = uuids s \<and> saved s' = saved s \<and>
     (cur s')\<lparr>t_instruments := t_instruments (cur s)\<rparr> = cur s"

lemma partway_identities:
  "partway s seen s' \<Longrightarrow> instrument_identity ` set (rows (t_instruments (cur s'))) =
     instrument_identity ` set (rows (t_instruments (cur s)))"
  by (metis list.set_map partway_def)

lemma on_instruments_simps [simp]:
  "t_instruments (cur (on_instruments f s)) = f (t_instruments (cur s))" "saved (on_instruments f s) = saved s"
  "uuids (on_instruments f s) = uuids s" "drawn (on_instruments f s) = drawn s"
  "(cur (on_instruments f s))\<lparr>t_instruments := t\<rparr> = (cur s)\<lparr>t_instruments := t\<rparr>"
  by (simp_all add: on_instruments_def)

lemma same_identities: "map instrument_identity ys = map instrument_identity xs \<Longrightarrow> new_lines ys csv = new_lines xs csv"
  unfolding new_lines_def by (metis (mono_tags) image_set)

lemma map_put:
  assumes "\<And>y. y \<in> set xs \<Longrightarrow> i_id y = i_id x \<Longrightarrow> instrument_identity y = instrument_identity x"
  shows "map instrument_identity (upd_by i_id x xs) = map instrument_identity xs"
  using assms by (intro map_upd_by_cong) metis

definition fresh_ids :: "session \<Rightarrow> bool" where
  "fresh_ids s \<longleftrightarrow> inj_on (uuids s) {drawn s..} \<and>
     (\<forall>n\<ge>drawn s. uuids s n \<notin> i_id ` set (rows (t_instruments (cur s))))"

lemma partway_row:
  assumes "partway s seen s'" "distinct (map i_id (rows (t_instruments (cur s))))" "fresh_ids s" "import_row row s' = Inr s''"
  shows "partway s (seen @ [row]) s''"
proof (cases "List.find (\<lambda>x. (i_exchange x, i_segment x, i_symbol x) = row_identity row) (rows (t_instruments (cur s')))")
  case None
  then obtain y where y: "write_cells row (row_instrument (fresh s') row) = Inr y"
    and s'': "s'' = on_instruments (insert_row y) (draw s')"
    using assms(4) by (auto simp: import_row_def map_sum_def split: sum.splits)
  have "row_identity row \<notin> set (map instrument_identity (rows (t_instruments (cur s'))))"
    using None by (auto simp: find_None_iff instrument_identity_def)
  then have "row_identity row \<notin> instrument_identity ` set (rows (t_instruments (cur s)))"
    using partway_identities [OF assms(1)] by simp
  moreover have "instrument_identity y = row_identity row" "i_id y = uuids s (drawn s')"
    using write_cells_Inr [OF y] assms(1)
    by (auto simp: instrument_identity_def row_instrument_def Let_def fresh_def partway_def split: prod.splits)
  ultimately show ?thesis
    using assms(1) by (simp add: partway_def s'' new_lines_def draw_def)
next
  case (Some x)
  then obtain y where y: "write_cells row x = Inr y" and s'': "s'' = on_instruments (put_row i_id y) s'"
    using assms(4) by (auto simp: import_row_def map_sum_def split: sum.splits)
  let ?old = "rows (t_instruments (cur s'))" and ?new = "added (t_instruments (cur s'))"
  have x: "x \<in> set ?old" "instrument_identity x = row_identity row"
    using find_SomeD [OF Some] by (simp_all add: instrument_identity_def)
  have xy: "i_id y = i_id x" "instrument_identity y = instrument_identity x" using write_cells_Inr [OF y] by simp_all
  have ids: "map i_id ?old = map i_id (rows (t_instruments (cur s)))"
    "map i_id ?new = map (uuids s) [drawn s ..< drawn s + length (new_lines (rows (t_instruments (cur s))) seen)]"
    using assms(1) by (simp_all add: partway_def)
  have "i_id y \<in> i_id ` set (rows (t_instruments (cur s)))"
    using x(1) xy(1) ids(1) by (metis image_eqI list.set_map)
  then have "i_id y \<notin> set (map i_id ?new)" using assms(3) unfolding ids(2) fresh_ids_def by auto
  then have "upd_by i_id y ?new = ?new" by (intro upd_by_other) simp
  moreover have "map instrument_identity (upd_by i_id y ?old) = map instrument_identity ?old"
  proof (rule map_put)
    fix z assume "z \<in> set ?old" "i_id z = i_id y"
    then have "z = x" using x(1) xy(1) assms(2) ids(1) distinct_map_eqD [of i_id ?old z x] by simp
    then show "instrument_identity z = instrument_identity y" using xy(2) by simp
  qed
  moreover have "row_identity row \<in> instrument_identity ` set (rows (t_instruments (cur s)))"
    using x partway_identities [OF assms(1)] by (metis image_eqI)
  ultimately show ?thesis using assms(1) by (simp add: partway_def s'' new_lines_def)
qed

lemma partway_csv:
  assumes "distinct (map i_id (rows (t_instruments (cur s))))" "fresh_ids s"
  shows "partway s seen s' \<Longrightarrow> import_csv csv s' = Inr s'' \<Longrightarrow> partway s (seen @ csv) s''"
proof (induction csv arbitrary: seen s')
  case (Cons row csv)
  then obtain s1 where "import_row row s' = Inr s1" "import_csv csv s1 = Inr s''"
    by (auto simp: and_then_def split: sum.splits)
  then show ?case using Cons.IH [OF partway_row [OF Cons.prems(1) assms]] by simp
qed simp

lemma import_csv_readable:
  "\<forall>row \<in> set csv. readable row \<Longrightarrow> \<exists>s'. import_csv csv s = Inr s'"
proof (induction csv arbitrary: s)
  case (Cons row csv)
  then have "\<exists>y. write_cells row x = Inr y" for x using write_cells_readable [of row x] by simp
  then have "\<exists>s1. import_row row s = Inr s1"
    by (auto simp: import_row_def map_sum_def split: option.splits sum.splits) (metis sum.distinct(1))+
  with Cons show ?case by auto
qed simp

lemma constraints_instruments:
  assumes "constraints d"
  shows "constraints (d\<lparr>t_instruments := t\<rparr>) \<longleftrightarrow> distinct (map i_id (objs t)) \<and> distinct (map instrument_identity (objs t))"
  using assms by (simp add: constraints_def identity_columns)

text \<open>
  C18. The operator's import is all or nothing, and a new instrument may stand in the file once.  When every line can
  be read, the import succeeds exactly if no two lines name the same instrument that the table does not have yet; then
  the table has one more row for each such line and every other row is still there.  If an instrument is new and named
  twice, the second line does not find what the first one added (the session does not flush before a query), the commit
  fails and the whole file is refused, with the database as it was.  The ids drawn are assumed to be new.
\<close>

theorem operator_import_is_all_or_nothing:
  assumes "at_rest s" "set required_columns \<subseteq> set names" "\<forall>row \<in> set csv. readable row" "fresh_ids s"
  shows "if distinct (map row_identity (new_lines (rows (t_instruments (cur s))) csv))
    then \<exists>s1. import_instruments names csv s = (Inr (length csv), s1) \<and>
      map instrument_identity (rows (t_instruments (saved s1))) =
        map instrument_identity (rows (t_instruments (saved s))) @
        map row_identity (new_lines (rows (t_instruments (cur s))) csv)
    else \<exists>s1. import_instruments names csv s = (Inl IntegrityError, s1) \<and> saved s1 = saved s"
proof -
  let ?t = "t_instruments (cur s)" and ?new = "map row_identity (new_lines (rows (t_instruments (cur s))) csv)"
  have rest: "cur s = saved s" "added ?t = []" "constraints (cur s)" using assms(1) by (simp_all add: at_rest_def clean_def)
  then have ids: "distinct (map i_id (rows ?t))" "distinct (map instrument_identity (rows ?t))"
    by (simp_all only: constraints_def objs_def identity_columns append_Nil2)
  obtain s' where s': "import_csv csv s = Inr s'" using import_csv_readable [OF assms(3)] by blast
  have "partway s [] s" using rest(2) by (simp add: partway_def new_lines_def)
  from partway_csv [OF ids(1) assms(4) this s'] have p: "partway s csv s'" by simp
  then have others: "(cur s')\<lparr>t_instruments := ?t\<rparr> = cur s" unfolding partway_def by blast
  have "set (map (uuids s) [drawn s ..< drawn s + k]) \<inter> set (map i_id (rows ?t)) = {}" for k
    using assms(4) by (auto simp: fresh_ids_def)
  moreover have "distinct (map (uuids s) [drawn s ..< drawn s + k])" for k
    using assms(4) by (auto simp: fresh_ids_def distinct_map intro: inj_on_subset)
  ultimately have "distinct (map i_id (objs (t_instruments (cur s'))))"
    using p ids(1) by (simp add: partway_def objs_def Int_commute)
  moreover have names': "map instrument_identity (objs (t_instruments (cur s'))) = map instrument_identity (rows ?t) @ ?new"
    using p by (simp add: partway_def objs_def)
  moreover have "set (map instrument_identity (rows ?t)) \<inter> set ?new = {}" by (auto simp: new_lines_def)
  moreover have "cur s' = (cur s)\<lparr>t_instruments := t_instruments (cur s')\<rparr>"
    using arg_cong [OF others, of "\<lambda>d. d\<lparr>t_instruments := t_instruments (cur s')\<rparr>"] by simp
  ultimately have valid: "constraints (cur s') \<longleftrightarrow> distinct ?new"
    using constraints_instruments [OF rest(3), of "t_instruments (cur s')"] ids(2) by (metis distinct_append)
  have "map instrument_identity (rows (t_instruments (flush_all (cur s')))) = map instrument_identity (rows ?t) @ ?new"
    using names' by simp
  moreover have "saved s' = saved s" using p by (simp add: partway_def)
  moreover have "import_instruments names csv s = (if distinct ?new
      then (Inr (length csv), s'\<lparr>cur := flush_all (cur s'), saved := flush_all (cur s')\<rparr>) else (Inl IntegrityError, s'))"
    using assms(2) by (simp add: import_instruments_def s' commit_return_def commit_def flush_def valid)
  ultimately show ?thesis by (simp add: rest(1))
qed

definition ex_operator_row :: "string \<Rightarrow> csv_row" where
  "ex_operator_row symbol = [(''exchange'', ''nse''), (''segment'', ''eq''), (''symbol'', symbol),
     (''trading_symbol'', symbol), (''instrument_type'', ''equity''), (''lot_size'', ''1'')]"

definition ex_operator :: session where
  "ex_operator = \<lparr>cur = empty_db, saved = empty_db, clock = 0, uuids = (\<lambda>n. replicate n CHR ''d''), drawn = 0, wire = []\<rparr>"

lemma ex_operator_ready: "at_rest ex_operator" "fresh_ids ex_operator" "readable (ex_operator_row t)"
proof -
  show "at_rest ex_operator"
    by (simp add: at_rest_def ex_operator_def clean_def constraints_def empty_db_def objs_def empty_table_def)
  show "fresh_ids ex_operator"
    by (auto simp: fresh_ids_def ex_operator_def empty_db_def inj_on_def)
  have one: "int_of_text ''1'' = Some 1" "py_strip ''1'' = ''1''" "py_strip [] = []" by code_simp+
  then show "readable (ex_operator_row t)"
    by (simp add: readable_def int_cell_def float_cell_def cell_def ex_operator_row_def or_value_error_def)
qed

lemma operator_import_is_all_or_nothing_witness:
  "(\<exists>s1. import_instruments required_columns (map ex_operator_row [''INFY'', ''TCS'']) ex_operator = (Inr 2, s1)) \<and>
   (\<exists>s1. import_instruments required_columns (map ex_operator_row [''INFY'', ''INFY'']) ex_operator =
     (Inl IntegrityError, s1) \<and> saved s1 = empty_db)"
proof -
  have ready: "\<forall>row \<in> set (map ex_operator_row ts). readable row" for ts by (simp add: ex_operator_ready(3))
  have "distinct (map row_identity (new_lines (rows (t_instruments (cur ex_operator))) (map ex_operator_row [''INFY'', ''TCS''])))"
    "\<not> distinct (map row_identity (new_lines (rows (t_instruments (cur ex_operator))) (map ex_operator_row [''INFY'', ''INFY''])))"
    by code_simp+
  then show ?thesis
    using operator_import_is_all_or_nothing [OF ex_operator_ready(1) order_refl ready ex_operator_ready(2), of "[''INFY'', ''TCS'']"]
      operator_import_is_all_or_nothing [OF ex_operator_ready(1) order_refl ready ex_operator_ready(2), of "[''INFY'', ''INFY'']"]
    by (auto simp: ex_operator_def)
qed

end
