(* ===== verification/StrategyFeed.thy ===== *)
theory StrategyFeed
  imports StrategyProps RedisProps
begin

text \<open>
  The strategy worker's side of the market bus, \<^verbatim>\<open>StrategyWorker\<close> of \<^verbatim>\<open>strategies/worker.py\<close>: each pass subscribes the
  worker, for every user, to the instruments of the strategies it is about to evaluate, and the end of the worker takes
  all of it back.
\<close>

section \<open>The worker\<close>










section \<open>Its subscriptions\<close>












end
