(* ===== verification/FeedConnection.thy ===== *)
theory FeedConnection
  imports DhanFeed Brokers
begin

text \<open>
  One connection to the Dhan feed as it lives (\<^verbatim>\<open>DhanFeedSession.run\<close> and \<^verbatim>\<open>_connected\<close> of \<^verbatim>\<open>market/dhan.py\<close>): a state
  machine whose steps are the stretches between two points where the task waits, so that the supervisor's calls may come
  between any two of them.  A step that does not fit the phase changes nothing.
\<close>

section \<open>The address\<close>

definition feed_url :: "string \<Rightarrow> string \<Rightarrow> string" where
  "feed_url cid access =
     ''wss://api-feed.dhan.co?'' @
     urlencode [(''version'', ''2''), (''token'', access), (''clientId'', cid), (''authType'', ''2'')]"

section \<open>State\<close>

text \<open>
  \<open>Offline\<close>: before an attempt to connect.  \<open>Looping\<close>: at the head of the inner loop.  \<open>SentChanges\<close>: the messages are
  sent, the event of a change not yet cleared.  \<open>Waiting\<close>: for a message, a change or the end.  \<open>Over\<close>: the task is done.
\<close>

datatype feed_phase = Offline | Looping | SentChanges | Waiting | Over

record feed_link =
  lk_phase :: feed_phase
  lk_desired :: desired
  lk_changed :: bool
  lk_stopping :: bool
  lk_active :: desired
  lk_sent :: "json list"
  lk_partials :: partial_packets
  lk_delay :: pyfloat
  lk_reports :: "health_update list"

definition new_link :: feed_link where
  "new_link = \<lparr>lk_phase = Offline, lk_desired = [], lk_changed = False, lk_stopping = False, lk_active = [], lk_sent = [],
     lk_partials = [], lk_delay = 1, lk_reports = []\<rparr>"

text \<open>What the session is made with: its user, the code of its requests, the longest delay, and the two callbacks.\<close>

record 'w feed_config =
  fc_user :: string
  fc_request_code :: int
  fc_reconnect_max :: pyfloat
  fc_on_packet :: "dhan_subscription \<Rightarrow> packet \<Rightarrow> 'w \<Rightarrow> (exn + unit) \<times> 'w"
  fc_on_fatal :: "int \<Rightarrow> 'w \<Rightarrow> 'w"

definition report :: "health_update \<Rightarrow> feed_link \<Rightarrow> feed_link" where
  "report h l = l\<lparr>lk_reports := lk_reports l @ [h]\<rparr>"

section \<open>Steps\<close>

text \<open>\<^verbatim>\<open>replace_subscriptions\<close> and \<^verbatim>\<open>stop\<close>, called from outside.\<close>

definition replace_desired :: "dhan_subscription list \<Rightarrow> feed_link \<Rightarrow> feed_link" where
  "replace_desired us l = l\<lparr>lk_desired := keyed us, lk_changed := True\<rparr>"

definition stop_link :: "feed_link \<Rightarrow> feed_link" where
  "stop_link l = l\<lparr>lk_stopping := True, lk_changed := True\<rparr>"

definition connecting_health :: "string \<Rightarrow> health_update" where
  "connecting_health uid = (uid, [(''state'', JStr ''connecting'')])"

definition connected_health :: "string \<Rightarrow> health_update" where
  "connected_health uid = (uid, [(''state'', JStr ''connected''), (''last_error'', JStr [])])"

text \<open>The exception \<open>e\<close> leaves the connection, or the attempt to connect; \<open>jitter\<close> is the draw of the random delay.\<close>

definition link_lost :: "'w feed_config \<Rightarrow> exn \<Rightarrow> pyfloat \<Rightarrow> feed_link \<times> 'w \<Rightarrow> feed_link \<times> 'w" where
  "link_lost c e jitter st =
     (let (l, w) = st in
      case feed_turn (fc_reconnect_max c) False (Raised e) (lk_stopping l) jitter (lk_delay l) of
        Fatal code \<Rightarrow> (l\<lparr>lk_phase := Over\<rparr>, fc_on_fatal c code w)
      | Waits t d \<Rightarrow> (report (lost_health (fc_user c) e) (l\<lparr>lk_phase := Offline, lk_delay := d\<rparr>), w)
      | _ \<Rightarrow> (report (lost_health (fc_user c) e) (l\<lparr>lk_phase := Over\<rparr>), w))"

definition link_up :: "'w feed_config \<Rightarrow> feed_link \<Rightarrow> feed_link" where
  "link_up c l =
     (if lk_stopping l then l\<lparr>lk_phase := Over\<rparr>
      else report (connected_health (fc_user c)) (report (connecting_health (fc_user c))
        (l\<lparr>lk_phase := Looping, lk_delay := 1, lk_active := [], lk_sent := []\<rparr>)))"

definition link_refused :: "'w feed_config \<Rightarrow> exn \<Rightarrow> pyfloat \<Rightarrow> feed_link \<times> 'w \<Rightarrow> feed_link \<times> 'w" where
  "link_refused c e jitter st =
     (let (l, w) = st in
      if lk_stopping l then (l\<lparr>lk_phase := Over\<rparr>, w)
      else link_lost c e jitter (report (connecting_health (fc_user c)) l, w))"

text \<open>The head of the inner loop: the messages are for what is desired now.\<close>

definition send_desired :: "'w feed_config \<Rightarrow> pyfloat \<Rightarrow> feed_link \<times> 'w \<Rightarrow> feed_link \<times> 'w" where
  "send_desired c jitter st =
     (let (l, w) = st in
      if lk_stopping l then (l\<lparr>lk_phase := Over\<rparr>, w)
      else case send_changes (fc_request_code c) (lk_active l) (lk_desired l) of
        Inl e \<Rightarrow> link_lost c e jitter (l, w)
      | Inr ms \<Rightarrow> (l\<lparr>lk_phase := SentChanges, lk_active := lk_desired l, lk_sent := lk_sent l @ ms\<rparr>, w))"

definition clear_changed :: "feed_link \<Rightarrow> feed_link" where
  "clear_changed l = l\<lparr>lk_phase := Waiting, lk_changed := False\<rparr>"

text \<open>The wait ends because of a change or of the stop, if there is one, or with a message; the stop comes first.\<close>

definition wake :: "feed_link \<Rightarrow> feed_link" where
  "wake l = (if lk_stopping l then l\<lparr>lk_phase := Over\<rparr> else if lk_changed l then l\<lparr>lk_phase := Looping\<rparr> else l)"

definition receive_message :: "'w feed_config \<Rightarrow> bytes option \<Rightarrow> pyfloat \<Rightarrow> feed_link \<times> 'w \<Rightarrow> feed_link \<times> 'w" where
  "receive_message c message jitter st =
     (let (l, w) = st in
      if lk_stopping l then (l\<lparr>lk_phase := Over\<rparr>, w)
      else case message of
        None \<Rightarrow> (l\<lparr>lk_phase := Looping\<rparr>, w)
      | Some bs \<Rightarrow>
          (case handle_message (fc_on_packet c) (lk_active l) bs (lk_partials l) w of
             (Inl e, partials, w) \<Rightarrow> link_lost c e jitter (l\<lparr>lk_partials := partials\<rparr>, w)
           | (Inr _, partials, w) \<Rightarrow> (l\<lparr>lk_phase := Looping, lk_partials := partials\<rparr>, w)))"

text \<open>\<open>Message None\<close> is a text message; \<open>Drops\<close> is an exception of the socket; \<open>Cancels\<close> that of the task.\<close>

datatype link_event =
    Replaces "dhan_subscription list"
  | Stops
  | Connects
  | Refuses exn pyfloat
  | Sends pyfloat
  | Clears
  | Wakes
  | Message "bytes option" pyfloat
  | Drops exn pyfloat
  | Cancels

fun link_step :: "'w feed_config \<Rightarrow> link_event \<Rightarrow> feed_link \<times> 'w \<Rightarrow> feed_link \<times> 'w" where
  "link_step c (Replaces us) (l, w) = (replace_desired us l, w)"
| "link_step c Stops (l, w) = (stop_link l, w)"
| "link_step c Connects (l, w) = (if lk_phase l = Offline then link_up c l else l, w)"
| "link_step c (Refuses e jitter) (l, w) = (if lk_phase l = Offline then link_refused c e jitter (l, w) else (l, w))"
| "link_step c (Sends jitter) (l, w) = (if lk_phase l = Looping then send_desired c jitter (l, w) else (l, w))"
| "link_step c Clears (l, w) = (if lk_phase l = SentChanges then clear_changed l else l, w)"
| "link_step c Wakes (l, w) = (if lk_phase l = Waiting then wake l else l, w)"
| "link_step c (Message m jitter) (l, w) = (if lk_phase l = Waiting then receive_message c m jitter (l, w) else (l, w))"
| "link_step c (Drops e jitter) (l, w) =
     (if lk_phase l \<in> {Looping, SentChanges, Waiting} then link_lost c e jitter (l, w) else (l, w))"
| "link_step c Cancels (l, w) = (l\<lparr>lk_phase := Over\<rparr>, w)"

end
