(* ===== verification/FeedConnectionProps.thy ===== *)
theory FeedConnectionProps
  imports FeedConnection DhanFeedProps
begin

text \<open>
  What the broker has been told by a connection is what the session wants: the set of instruments that follows from the
  messages sent since the connection was made, read the way the protocol defines them, against the set the supervisor
  last asked for, however changes, messages, losses and reconnections interleave.
\<close>

section \<open>What the broker has been told\<close>

text \<open>The instruments subscribed after a list of messages: one request code adds, the next one takes away.\<close>

fun told :: "int \<Rightarrow> json set \<Rightarrow> json list \<Rightarrow> json set" where
  "told rc S [] = S"
| "told rc S (m # ms) =
     told rc (if message_code m = JInt rc then S \<union> set (message_entries m)
              else if message_code m = JInt (rc + 1) then S - set (message_entries m) else S) ms"

text \<open>The instruments of a set of subscriptions, as the messages name them.\<close>

definition entries :: "desired \<Rightarrow> json set" where
  "entries d = subscription_entry ` snd ` set d"

text \<open>Subscriptions as \<^verbatim>\<open>dhan_subscription\<close> makes them: the code is that of the segment.\<close>

definition coded :: "dhan_subscription \<Rightarrow> bool" where
  "coded u \<longleftrightarrow> map_of SEGMENT_CODES (sub_segment u) = Some (sub_code u)"

definition well_keyed :: "desired \<Rightarrow> bool" where
  "well_keyed d \<longleftrightarrow> (\<forall>(k, u) \<in> set d. k = subscription_key u \<and> coded u)"

lemma told_append [simp]: "told rc S (ms @ ns) = told rc (told rc S ms) ns"
  by (induction ms arbitrary: S) auto

lemma told_adds: "\<forall>m \<in> set ms. message_code m = JInt rc \<Longrightarrow> told rc S ms = S \<union> set (concat (map message_entries ms))"
  by (induction ms arbitrary: S) auto

lemma told_removes:
  "\<forall>m \<in> set ms. message_code m = JInt (rc + 1) \<Longrightarrow> told rc S ms = S - set (concat (map message_entries ms))"
  by (induction ms arbitrary: S) auto

lemma entry_eq_iff: "coded u \<Longrightarrow> coded v \<Longrightarrow> subscription_entry u = subscription_entry v \<longleftrightarrow> subscription_key u = subscription_key v"
  using SEGMENT_CODES_inj by (auto simp: subscription_entry_def subscription_key_def coded_def)

lemma set_alist_update: "set (AList.update k v d) \<subseteq> insert (k, v) (set d)"
  by (induction d) auto

lemma well_keyed_update: "well_keyed d \<Longrightarrow> coded u \<Longrightarrow> well_keyed (AList.update (subscription_key u) u d)"
  using set_alist_update [of "subscription_key u" u d] by (fastforce simp: well_keyed_def)

lemma well_keyed_keyed: "\<forall>u \<in> set us. coded u \<Longrightarrow> well_keyed (keyed us)"
proof -
  have "well_keyed d \<Longrightarrow> \<forall>u \<in> set us. coded u \<Longrightarrow> well_keyed (foldl (\<lambda>d u. AList.update (subscription_key u) u d) d us)" for d
    by (induction us arbitrary: d) (simp_all add: well_keyed_update)
  from this [of "[]"] show "\<forall>u \<in> set us. coded u \<Longrightarrow> well_keyed (keyed us)" by (simp add: keyed_def well_keyed_def)
qed

text \<open>What the supervisor asks for is coded.\<close>

lemma feed_subscriptions_coded: "feed_subscriptions pr ins = Inr us \<Longrightarrow> \<forall>u \<in> set us. coded u"
  by (induction ins arbitrary: us)
    (auto simp: coded_def dest: dhan_subscription_Inr(3) split: sum.splits exn.splits)

text \<open>An entry is a function of the key, one to one on the keys of coded subscriptions.\<close>

definition key_entry :: "feed_key \<Rightarrow> json" where
  "key_entry k = subscription_entry (SOME u. coded u \<and> subscription_key u = k)"

lemma key_entry:
  assumes "coded u"
  shows "key_entry (subscription_key u) = subscription_entry u"
proof -
  define v where "v = (SOME v. coded v \<and> subscription_key v = subscription_key u)"
  have "coded v \<and> subscription_key v = subscription_key u"
    unfolding v_def by (rule someI [where P = "\<lambda>v. coded v \<and> subscription_key v = subscription_key u" and x = u]) (simp add: assms)
  then have "subscription_entry v = subscription_entry u" using entry_eq_iff [of v u] assms by blast
  then show ?thesis by (simp only: key_entry_def v_def)
qed

lemma well_keyedD: "well_keyed d \<Longrightarrow> p \<in> set d \<Longrightarrow> coded (snd p) \<and> fst p = subscription_key (snd p)"
  by (auto simp: well_keyed_def)

lemma entries_of_keys: "well_keyed d \<Longrightarrow> entries d = key_entry ` fst ` set d"
  unfolding entries_def image_image by (intro image_cong) (auto dest!: well_keyedD simp: key_entry)

lemma image_outside: "f ` A - S = f ` {x \<in> A. f x \<notin> S}"
  by auto

lemma only_in_of_keys:
  assumes "well_keyed a"
  shows "subscription_entry ` set (only_in a d) = key_entry ` (fst ` set a - fst ` set d)"
proof -
  let ?ps = "{p \<in> set a. fst p \<notin> fst ` set d}"
  have "set (only_in a d) = snd ` ?ps" by (simp add: only_in_def split_beta)
  moreover have "fst ` set a - fst ` set d = fst ` ?ps" by (rule image_outside)
  moreover have "(subscription_entry \<circ> snd) ` ?ps = (key_entry \<circ> fst) ` ?ps"
  proof (rule image_cong)
    show "(subscription_entry \<circ> snd) p = (key_entry \<circ> fst) p" if "p \<in> ?ps" for p
      using well_keyedD [OF assms, of p] that key_entry [of "snd p"] by simp
  qed simp
  ultimately show ?thesis by (simp only: image_comp)
qed

lemma key_entry_inj:
  assumes "well_keyed a" "well_keyed d"
  shows "inj_on key_entry (fst ` set a \<union> fst ` set d)"
proof (rule inj_onI)
  have coded: "\<exists>u. coded u \<and> k = subscription_key u" if "k \<in> fst ` set a \<union> fst ` set d" for k
    using that well_keyedD [OF assms(1)] well_keyedD [OF assms(2)] by blast
  fix k k' assume "k \<in> fst ` set a \<union> fst ` set d" "k' \<in> fst ` set a \<union> fst ` set d" and same: "key_entry k = key_entry k'"
  then obtain u v where uv: "coded u" "k = subscription_key u" "coded v" "k' = subscription_key v" using coded by metis
  then show "k = k'" using same entry_eq_iff [OF uv(1,3)] by (simp only: key_entry)
qed

lemma entries_difference:
  assumes "well_keyed a" "well_keyed d"
  shows "entries a - subscription_entry ` set (only_in a d) \<union> subscription_entry ` set (only_in d a) = entries d"
proof -
  let ?A = "fst ` set a" and ?D = "fst ` set d"
  have "key_entry ` ?A - key_entry ` (?A - ?D) = key_entry ` (?A - (?A - ?D))"
    using inj_on_image_set_diff [OF key_entry_inj [OF assms], of ?A "?A - ?D"] by blast
  moreover have "?A - (?A - ?D) \<union> (?D - ?A) = ?D" by blast
  ultimately show ?thesis
    unfolding only_in_of_keys [OF assms(1)] only_in_of_keys [OF assms(2)] entries_of_keys [OF assms(1)]
      entries_of_keys [OF assms(2)] by (simp only: flip: image_Un)
qed

lemma send_tells:
  assumes "rc \<in> {15, 17, 21}" "well_keyed a" "well_keyed d"
  shows "\<exists>ms. send_changes rc a d = Inr ms \<and> told rc (entries a) ms = entries d"
proof -
  obtain gone come where g: "send_changes rc a d = Inr (gone @ come)"
    and codes: "\<forall>m \<in> set gone. message_code m = JInt (rc + 1)" "\<forall>m \<in> set come. message_code m = JInt rc"
    and listed: "mset (concat (map message_entries gone)) = mset (map (subscription_entry \<circ> snd) (filter (\<lambda>(k, u). k \<notin> fst ` set d) a))"
      "mset (concat (map message_entries come)) = mset (map (subscription_entry \<circ> snd) (filter (\<lambda>(k, u). k \<notin> fst ` set a) d))"
    using subscription_changes_are_the_difference [OF assms(1), of a d] by metis
  have "set (concat (map message_entries gone)) = subscription_entry ` set (only_in a d)"
    "set (concat (map message_entries come)) = subscription_entry ` set (only_in d a)"
    using mset_eq_setD [OF listed(1)] mset_eq_setD [OF listed(2)] by (simp_all only: only_in_def set_map image_comp)
  then have "told rc (entries a) (gone @ come) = entries d"
    using entries_difference [OF assms(2,3)] by (simp only: told_append told_adds [OF codes(2)] told_removes [OF codes(1)])
  with g show ?thesis by blast
qed

section \<open>The invariant of a connection\<close>

definition link_ok :: "int \<Rightarrow> feed_link \<Rightarrow> bool" where
  "link_ok rc l \<longleftrightarrow> well_keyed (lk_desired l) \<and> well_keyed (lk_active l) \<and>
     (lk_phase l \<in> {Looping, SentChanges, Waiting} \<longrightarrow> told rc {} (lk_sent l) = entries (lk_active l))"

text \<open>The supervisor asks for coded subscriptions, \<open>feed_subscriptions_coded\<close>.\<close>

fun asks_coded :: "link_event \<Rightarrow> bool" where
  "asks_coded (Replaces us) \<longleftrightarrow> (\<forall>u \<in> set us. coded u)"
| "asks_coded _ \<longleftrightarrow> True"

lemma link_lost_keeps:
  assumes "link_ok rc l"
  shows "link_ok rc (fst (link_lost c e jitter (l, w)))" "lk_phase (fst (link_lost c e jitter (l, w))) \<in> {Offline, Over}"
  using assms by (auto simp: link_lost_def link_ok_def report_def Let_def split: feed_next.splits)

lemma report_fields [simp]:
  "lk_phase (report h l) = lk_phase l" "lk_desired (report h l) = lk_desired l" "lk_active (report h l) = lk_active l"
  "lk_sent (report h l) = lk_sent l" "lk_stopping (report h l) = lk_stopping l"
  by (simp_all add: report_def)

lemma link_ok_report [simp]: "link_ok rc (report h l) = link_ok rc l"
  by (simp add: link_ok_def)

lemma link_ok_phases:
  "link_ok rc (l\<lparr>lk_partials := partials\<rparr>) = link_ok rc l"
  "link_ok rc l \<Longrightarrow> link_ok rc (l\<lparr>lk_phase := Over\<rparr>)"
  "link_ok rc l \<Longrightarrow> lk_phase l = Waiting \<Longrightarrow> link_ok rc (l\<lparr>lk_phase := Looping\<rparr>)"
  "link_ok rc l \<Longrightarrow> lk_phase l = Waiting \<Longrightarrow> link_ok rc (l\<lparr>lk_phase := Looping, lk_partials := partials\<rparr>)"
  by (simp_all add: link_ok_def)

lemma link_up_ok: "link_ok rc l \<Longrightarrow> link_ok rc (link_up c l)"
  by (simp add: link_up_def link_ok_def entries_def well_keyed_def)

lemma sends_what_is_desired:
  assumes "link_ok rc l" "rc = fc_request_code c" "rc \<in> {15, 17, 21}" "lk_phase l = Looping" "\<not> lk_stopping l"
  shows "\<exists>ms. send_desired c jitter (l, w) =
      (l\<lparr>lk_phase := SentChanges, lk_active := lk_desired l, lk_sent := lk_sent l @ ms\<rparr>, w) \<and>
    told rc {} (lk_sent l @ ms) = entries (lk_desired l)"
  using send_tells [OF assms(3), of "lk_active l" "lk_desired l"] assms
  by (auto simp: send_desired_def link_ok_def)

lemma send_desired_ok:
  assumes "link_ok rc l" "rc = fc_request_code c" "rc \<in> {15, 17, 21}" "lk_phase l = Looping"
  shows "link_ok rc (fst (send_desired c jitter (l, w)))"
proof (cases "lk_stopping l")
  case True
  then show ?thesis using assms(1) by (simp add: send_desired_def link_ok_def)
next
  case False
  then show ?thesis using sends_what_is_desired [OF assms False, of jitter w] assms(1) by (auto simp: link_ok_def)
qed

lemma receive_message_ok:
  assumes "link_ok rc l" "lk_phase l = Waiting"
  shows "link_ok rc (fst (receive_message c m jitter (l, w)))"
  using assms by (auto simp: receive_message_def link_lost_keeps(1) link_ok_phases split: option.splits sum.splits prod.splits)

lemma link_step_ok:
  assumes "link_ok rc l" "rc = fc_request_code c" "rc \<in> {15, 17, 21}" "asks_coded ev"
  shows "link_ok rc (fst (link_step c ev (l, w)))"
proof (cases ev)
  case (Replaces us)
  then show ?thesis using assms well_keyed_keyed [of us] by (simp add: link_ok_def replace_desired_def)
next
  case (Refuses e jitter)
  then show ?thesis using assms(1) link_lost_keeps(1) [of rc "report (connecting_health (fc_user c)) l" c e jitter w]
    by (simp add: link_refused_def link_ok_phases)
next
  case (Sends jitter)
  then show ?thesis using send_desired_ok [OF assms(1-3)] assms(1) by simp
next
  case (Message m jitter)
  then show ?thesis using receive_message_ok [OF assms(1), of c m jitter w] assms(1) by simp
next
  case (Drops e jitter)
  then show ?thesis using link_lost_keeps(1) [OF assms(1), of c e jitter w] assms(1) by simp
qed (use assms(1) in \<open>simp_all add: link_up_ok stop_link_def clear_changed_def wake_def link_ok_def [of rc]
    link_up_ok [unfolded link_ok_def]\<close>)

lemma link_run_ok:
  assumes "link_ok rc (fst st)" "rc = fc_request_code c" "rc \<in> {15, 17, 21}" "\<forall>ev \<in> set evs. asks_coded ev"
  shows "link_ok rc (fst (run_ops (link_step c) evs st))"
  using assms(1,4)
proof (induction evs arbitrary: st)
  case (Cons ev evs)
  then show ?case using link_step_ok [of rc "fst st" c ev "snd st"] assms(2,3) by simp
qed simp

section \<open>The property\<close>

text \<open>
  C27. The broker is told exactly what is wanted.  Whatever changes, messages, losses, reconnections and refusals came
  before: while a connection stands, the instruments the broker has been asked for on it are those of the set the
  session took up last; sending never fails and brings them to the set desired at that moment, on a connection that
  was just made as well; a change made while the session waits is taken up with the next wake.  Only a change made while messages are
  being sent is not noticed: the event is cleared after the messages, and the session waits on with the former set until
  the next message or the next change.
\<close>

theorem broker_is_told_what_is_wanted:
  assumes "fc_request_code c \<in> {15, 17, 21}" "\<forall>ev \<in> set evs. asks_coded ev" "\<forall>u \<in> set us. coded u"
    and "(l, w) = run_ops (link_step c) evs (new_link, w0)" "\<not> lk_stopping l"
  defines "after \<equiv> \<lambda>more. fst (run_ops (link_step c) more (l, w))"
    and "asked \<equiv> \<lambda>k. told (fc_request_code c) {} (lk_sent k)"
  shows "(lk_phase l \<in> {Looping, SentChanges, Waiting} \<longrightarrow> asked l = entries (lk_active l)) \<and>
    (lk_phase l = Looping \<longrightarrow> lk_phase (after [Sends j]) = SentChanges \<and> asked (after [Sends j]) = entries (lk_desired l)) \<and>
    (lk_phase l = Offline \<longrightarrow> asked (after [Connects, Sends j]) = entries (lk_desired l)) \<and>
    (lk_phase l = Waiting \<longrightarrow> asked (after [Replaces us, Wakes, Sends j]) = entries (keyed us)) \<and>
    (lk_phase l = SentChanges \<longrightarrow> lk_phase (after [Replaces us, Clears, Wakes]) = Waiting \<and>
       asked (after [Replaces us, Clears, Wakes, Sends j]) = asked l)"
proof -
  let ?rc = "fc_request_code c"
  have "link_ok ?rc new_link" by (simp add: link_ok_def new_link_def well_keyed_def)
  then have ok: "link_ok ?rc l"
    using link_run_ok [of ?rc "(new_link, w0)" c evs] assms(1,2) assms(4) [symmetric] by simp
  have sends: "lk_phase (fst (send_desired c j (k, w))) = SentChanges \<and> asked (fst (send_desired c j (k, w))) = entries (lk_desired k)"
    if "link_ok ?rc k" "lk_phase k = Looping" "\<not> lk_stopping k" for k
    using sends_what_is_desired [OF that(1) refl assms(1) that(2,3), of j w] unfolding asked_def by fastforce
  have "lk_phase (after [Sends j]) = SentChanges \<and> asked (after [Sends j]) = entries (lk_desired l)" if "lk_phase l = Looping"
    using sends [OF ok that assms(5)] that unfolding after_def by simp
  moreover have "asked (after [Connects, Sends j]) = entries (lk_desired l)" if "lk_phase l = Offline"
  proof -
    have "lk_phase (link_up c l) = Looping" "\<not> lk_stopping (link_up c l)" "lk_desired (link_up c l) = lk_desired l"
      using assms(5) by (simp_all add: link_up_def)
    then show ?thesis
      using sends [OF link_up_ok [OF ok, of c]] that unfolding after_def by simp
  qed
  moreover have "asked (after [Replaces us, Wakes, Sends j]) = entries (keyed us)" if "lk_phase l = Waiting"
  proof -
    let ?l = "(replace_desired us l)\<lparr>lk_phase := Looping\<rparr>"
    have "link_ok ?rc ?l" "wake (replace_desired us l) = ?l" "lk_phase (replace_desired us l) = Waiting" "\<not> lk_stopping ?l"
      using ok that assms(5) well_keyed_keyed [OF assms(3)] by (simp_all add: link_ok_def replace_desired_def wake_def)
    then show ?thesis
      using sends [of ?l] unfolding after_def by (simp add: replace_desired_def)
  qed
  moreover have "lk_phase (after [Replaces us, Clears, Wakes]) = Waiting \<and>
      asked (after [Replaces us, Clears, Wakes, Sends j]) = asked l" if "lk_phase l = SentChanges"
    using that assms(5) unfolding after_def asked_def by (simp add: wake_def replace_desired_def clear_changed_def)
  ultimately show ?thesis using ok unfolding link_ok_def asked_def by blast
qed

text \<open>A connection that was lost once, with one subscription, is asked for another one.\<close>

definition ex_feed_config :: "unit feed_config" where
  "ex_feed_config = \<lparr>fc_user = ''u'', fc_request_code = 17, fc_reconnect_max = 30, fc_on_packet = (\<lambda>_ _ w. (Inr (), w)),
     fc_on_fatal = (\<lambda>_ w. w)\<rparr>"

definition ex_link_events :: "link_event list" where
  "ex_link_events =
     [Replaces [ex_sub ''1''], Connects, Sends 0, Clears, Drops (PyError ''ConnectionClosed'') 0, Connects, Sends 0, Clears]"

lemma ex_link_waits:
  "lk_phase (fst (run_ops (link_step ex_feed_config) ex_link_events (new_link, ()))) = Waiting \<and>
   \<not> lk_stopping (fst (run_ops (link_step ex_feed_config) ex_link_events (new_link, ())))"
  by code_simp

lemma broker_is_told_what_is_wanted_witness:
  "told 17 {} (lk_sent (fst (run_ops (link_step ex_feed_config) [Replaces [ex_sub ''2''], Wakes, Sends 0]
     (run_ops (link_step ex_feed_config) ex_link_events (new_link, ()))))) = {subscription_entry (ex_sub ''2'')}"
proof -
  let ?st = "run_ops (link_step ex_feed_config) ex_link_events (new_link, ())"
  have coded: "coded (ex_sub a)" for a by (simp add: coded_def ex_sub_def SEGMENT_CODES_def)
  have facts: "fc_request_code ex_feed_config \<in> {15, 17, 21}" "\<forall>ev \<in> set ex_link_events. asks_coded ev"
    "\<forall>u \<in> set [ex_sub ''2'']. coded u" by (simp_all add: ex_feed_config_def ex_link_events_def coded)
  have "told (fc_request_code ex_feed_config) {}
      (lk_sent (fst (run_ops (link_step ex_feed_config) [Replaces [ex_sub ''2''], Wakes, Sends 0] ?st))) =
    entries (keyed [ex_sub ''2''])"
    using broker_is_told_what_is_wanted [OF facts prod.collapse conjunct2 [OF ex_link_waits], of 0] conjunct1 [OF ex_link_waits]
    unfolding prod.collapse by blast
  moreover have "entries (keyed [ex_sub ''2'']) = {subscription_entry (ex_sub ''2'')}" by (simp add: entries_def keyed_def)
  moreover have "fc_request_code ex_feed_config = 17" by (simp add: ex_feed_config_def)
  ultimately show ?thesis by (simp only:)
qed

end
