(* ===== verification/MarketRun.thy ===== *)
theory MarketRun
  imports MarketWorker FeedConnection
begin

text \<open>
  \<^verbatim>\<open>MarketWorker.run\<close> of \<^verbatim>\<open>market/worker.py\<close>: what the process does for each provider of the settings, one turn of its
  loop at a time.  With Dhan it hands over to the supervisor, whose settings are the result.
\<close>

datatype market_next = Supervises int pyfloat | Sleeps pyfloat | Fails exn

definition market_turn ::
  "(pyfloat \<Rightarrow> pyfloat) \<Rightarrow> settings \<Rightarrow> int list \<Rightarrow> market_worker \<Rightarrow> market_next \<times> market_worker" where
  "market_turn sine cfg ns w =
     (if market_feed_provider cfg = ''dhan''
      then (Supervises (dhan_market_request_code cfg) (dhan_market_reconnect_max_seconds cfg), w)
      else if market_feed_provider cfg = ''disabled'' then (Sleeps 5, w)
      else if market_feed_provider cfg = ''broker'' then (Fails (PyError ''RuntimeError''), w)
      else case simulate_once sine cfg ns w of
        (Inl e, w) \<Rightarrow> (Fails e, w)
      | (Inr _, w) \<Rightarrow> (Sleeps (market_simulated_interval_seconds cfg), w))"

text \<open>Nothing but the simulated feed makes quotes here, and it makes none without subscriptions.\<close>

lemma market_turn_idle:
  assumes "market_feed_provider cfg \<in> {''dhan'', ''disabled'', ''broker''} \<or> active_subscriptions (mw_bus w) = []"
  shows "snd (market_turn sine cfg ns w) = w"
  using assms by (auto simp: market_turn_def simulate_once_def Let_def)

text \<open>Production never simulates: a setting that starts in production makes no quotes of its own.\<close>

lemma production_does_not_simulate:
  assumes "environment cfg = ''production''" "validate_production valid_key cfg = None"
    and "market_feed_provider cfg \<in> {''disabled'', ''simulated'', ''dhan'', ''broker''}"
  shows "snd (market_turn sine cfg ns w) = w"
  using assms by (intro market_turn_idle) (auto simp: validate_production_def split: if_splits)

end
