(* ===== verification/AppShell.thy ===== *)
theory AppShell
  imports AuthApi Brokers Config
begin

text \<open>
  What surrounds the endpoints: the audit entries (\<^verbatim>\<open>audit.py\<close>), the headers and the health answer of the application
  (\<^verbatim>\<open>main.py\<close>), the fields of the settings that are read from a text
  (\<^verbatim>\<open>config.py\<close>) and the messages of \<^verbatim>\<open>mailer.py\<close>.  The lemmas show that no value
  under a sensitive name is left in an audit entry, however deep it lies.
\<close>

section \<open>Audit entries\<close>

definition SENSITIVE_KEYS :: "string list" where
  "SENSITIVE_KEYS = [''password'', ''token'', ''secret'', ''authorization'', ''refresh_token'', ''access_token'', ''totp'']"

definition sensitive :: "string \<Rightarrow> bool" where
  "sensitive name \<longleftrightarrow> list_ex (\<lambda>s. contains s (py_lower name)) SENSITIVE_KEYS"

fun sanitize :: "json \<Rightarrow> json" where
  "sanitize (JObj fs) = JObj (map (\<lambda>(k, v). (k, if sensitive k then JStr ''[REDACTED]'' else sanitize v)) fs)"
| "sanitize (JList xs) = JList (map sanitize xs)"
| "sanitize v = v"

record audit_log =
  al_user_id :: "string option"
  al_event :: string
  al_target_type :: "string option"
  al_target_id :: "string option"
  al_ip_address :: "string option"
  al_metadata_json :: json

text \<open>The request's host is absent without a request or without a client; no metadata is an empty dict.\<close>

definition audit ::
  "string \<Rightarrow> string option \<Rightarrow> string option option \<Rightarrow> string option \<Rightarrow> string option \<Rightarrow> (string \<times> json) list option
   \<Rightarrow> audit_log list \<Rightarrow> audit_log list" where
  "audit event uid request target_type target_id metadata entries =
     entries @ [\<lparr>al_user_id = uid, al_event = event, al_target_type = target_type, al_target_id = target_id,
       al_ip_address = or_else request None, al_metadata_json = sanitize (JObj (or_else metadata []))\<rparr>]"

text \<open>A sensitive name with a value that is still readable, at any depth.\<close>

fun leaks :: "json \<Rightarrow> bool" where
  "leaks (JObj fs) \<longleftrightarrow> (\<exists>(k, v) \<in> set fs. if sensitive k then v \<noteq> JStr ''[REDACTED]'' else leaks v)"
| "leaks (JList xs) \<longleftrightarrow> (\<exists>x \<in> set xs. leaks x)"
| "leaks v \<longleftrightarrow> False"

lemma sanitize_fixes: "\<not> leaks v \<Longrightarrow> sanitize v = v"
  by (induction v rule: sanitize.induct) (force intro!: map_idI)+

lemma sanitize_hides: "\<not> leaks (sanitize v)"
  by (induction v rule: sanitize.induct) (auto split: if_splits)

lemma sanitize_idem [simp]: "sanitize (sanitize v) = sanitize v"
  by (rule sanitize_fixes [OF sanitize_hides])

lemma sanitize_keeps_names: "sanitize (JObj fs) = JObj gs \<Longrightarrow> map fst gs = map fst fs"
  by auto

lemma audit_hides: "\<forall>e \<in> set entries. \<not> leaks (al_metadata_json e) \<Longrightarrow>
    \<forall>e \<in> set (audit event uid request kind target metadata entries). \<not> leaks (al_metadata_json e)"
  using sanitize_hides by (auto simp: audit_def simp del: sanitize.simps leaks.simps)

lemma credentials_are_sensitive:
  "sensitive ''Password'' \<and> sensitive ''new_password_confirmation'' \<and> sensitive ''X-Authorization'' \<and>
   sensitive ''mfa_secret_encrypted'' \<and> sensitive ''totp_code'' \<and> \<not> sensitive ''client_order_id'' \<and> \<not> sensitive ''status''"
  by code_simp

section \<open>The application\<close>

definition security_headers :: "settings \<Rightarrow> (string \<rightharpoonup> string) \<Rightarrow> (string \<rightharpoonup> string)" where
  "security_headers cfg headers =
     (let common = headers(''X-Content-Type-Options'' \<mapsto> ''nosniff'', ''X-Frame-Options'' \<mapsto> ''DENY'',
        ''Referrer-Policy'' \<mapsto> ''same-origin'', ''Permissions-Policy'' \<mapsto> ''camera=(), microphone=(), geolocation=()'')
      in if environment cfg = ''production''
         then common(''Strict-Transport-Security'' \<mapsto> ''max-age=31536000; includeSubDomains'') else common)"

definition health :: "settings \<Rightarrow> (string \<times> json) list" where
  "health cfg =
     [(''status'', JStr ''ok''), (''phase'', JInt 8), (''trading_enabled'', JBool (trading_mode cfg \<noteq> ''disabled'')),
      (''trading_mode'', JStr (trading_mode cfg)), (''strategy_engine_enabled'', JBool (strategy_engine_enabled cfg)),
      (''market_data_enabled'', JBool (market_feed_provider cfg \<noteq> ''disabled''))]"

text \<open>The origins come as one text from the environment, or as the list itself.\<close>

definition split_origins :: "string + string list \<Rightarrow> string list" where
  "split_origins value =
     (case value of
        Inl t \<Rightarrow> map py_strip (filter (\<lambda>x. py_strip x \<noteq> []) (py_split (CHR '','') t))
      | Inr origins \<Rightarrow> origins)"

text \<open>The request code of the Dhan feed comes as a text from the environment, or as a number.\<close>

definition parse_request_code :: "string + int \<Rightarrow> exn + int" where
  "parse_request_code value = (case value of Inl t \<Rightarrow> py_int (JStr t) | Inr n \<Rightarrow> Inr n)"

section \<open>Messages\<close>

text \<open>
  \<^verbatim>\<open>urllib.parse.quote\<close> differs from the encoding of a query (\<open>quote_char\<close>) in two characters: a slash stays, a blank is
  escaped.
\<close>

definition url_quote :: "string \<Rightarrow> string" where
  "url_quote t = concat (map (\<lambda>c. if c = CHR ''/'' then [c] else if c = CHR '' '' then escaped 32 else quote_char c) t)"

record message =
  ms_to :: string
  ms_subject :: string
  ms_text :: string

definition blank_line :: string where "blank_line = [CHR 0x0A, CHR 0x0A]"

definition verification_message :: "settings \<Rightarrow> string \<Rightarrow> string \<Rightarrow> message" where
  "verification_message cfg recipient token =
     (let url = frontend_url cfg @ ''/verify-email?token='' @ url_quote token in
      \<lparr>ms_to = recipient, ms_subject = ''Verify your GnKAlgo account'',
       ms_text = ''Verify your account using this link (expires soon):'' @ blank_line @ url @ blank_line @
         ''If you did not register, ignore this message.''\<rparr>)"

definition reset_message :: "settings \<Rightarrow> string \<Rightarrow> string \<Rightarrow> message" where
  "reset_message cfg recipient token =
     (let url = frontend_url cfg @ ''/reset-password?token='' @ url_quote token in
      \<lparr>ms_to = recipient, ms_subject = ''Reset your GnKAlgo password'',
       ms_text = ''Reset your password using this link (expires soon):'' @ blank_line @ url @ blank_line @
         ''If you did not request this, ignore this message.''\<rparr>)"

text \<open>The tokens the platform makes are URL-safe texts, which stand in the link as they are.\<close>

lemma url_quote_plain: "\<forall>c \<in> set t. url_safe c \<Longrightarrow> url_quote t = t"
proof -
  have "\<not> url_safe CHR '' ''" by code_simp
  then show "\<forall>c \<in> set t. url_safe c \<Longrightarrow> url_quote t = t"
    by (induction t) (auto simp: url_quote_def quote_char_def Let_def)
qed

end
