(* ===== verification/Requests.thy ===== *)
theory Requests
  imports IdentityEvents
begin

text \<open>
  The bodies of the identity requests, \<^verbatim>\<open>schemas.py\<close>, and what their models refuse before the endpoint runs: a refused
  body is answered with the validation error of FastAPI, and neither the limiter nor the database sees the request.
  \<open>mailbox\<close> stands for \<^verbatim>\<open>EmailStr\<close>: the normalized form of an address, or its refusal.
\<close>

section \<open>Bodies\<close>

definition between :: "nat \<Rightarrow> nat \<Rightarrow> string \<Rightarrow> bool" where
  "between a b t \<longleftrightarrow> a \<le> length t \<and> length t \<le> b"

definition some_between :: "nat \<Rightarrow> nat \<Rightarrow> string option \<Rightarrow> bool" where
  "some_between a b v \<longleftrightarrow> (case v of None \<Rightarrow> True | Some t \<Rightarrow> between a b t)"

text \<open>A new password with its repetition.\<close>

definition new_password_ok :: "string \<Rightarrow> string \<Rightarrow> bool" where
  "new_password_ok password confirmation \<longleftrightarrow> between 12 128 password \<and> password = confirmation"

record register_request =
  rr_email :: string
  rr_password :: string
  rr_password_confirmation :: string

record login_request =
  lr_email :: string
  lr_password :: string
  lr_totp_code :: "string option"

record reset_request =
  pr_token :: string
  pr_password :: string
  pr_password_confirmation :: string

record change_password_request =
  cp_current_password :: string
  cp_new_password :: string
  cp_new_password_confirmation :: string

record api_key_create =
  kc_name :: string
  kc_scopes :: "string list"
  kc_expires_at :: "instant option"

definition invalid :: "exn + 'a" where
  "invalid = Inl (PyError ''RequestValidationError'')"

definition valid_if :: "bool \<Rightarrow> 'a \<Rightarrow> exn + 'a" where
  "valid_if ok x = (if ok then Inr x else invalid)"

definition token_ok :: "string \<Rightarrow> bool" where
  "token_ok = between 20 500"

definition mfa_code_ok :: "string \<Rightarrow> bool" where
  "mfa_code_ok code \<longleftrightarrow> between 6 6 code \<and> list_all is_digit_char code"

definition api_key_create_ok :: "api_key_create \<Rightarrow> bool" where
  "api_key_create_ok b \<longleftrightarrow> between 1 100 (kc_name b) \<and> length (kc_scopes b) \<le> 20"

text \<open>The reason of a kill switch.\<close>

definition kill_switch_ok :: "string option \<Rightarrow> bool" where
  "kill_switch_ok reason \<longleftrightarrow> some_between 0 255 reason"

section \<open>From bodies to calls\<close>

text \<open>\<open>host\<close> and \<open>agent\<close> are those of the connection, \<open>accepted\<close> is the mail server's answer.\<close>

definition register_call ::
  "(string \<Rightarrow> string option) \<Rightarrow> string option \<Rightarrow> bool \<Rightarrow> register_request \<Rightarrow> exn + public_call" where
  "register_call mailbox host accepted b =
     (case mailbox (rr_email b) of
        None \<Rightarrow> invalid
      | Some email \<Rightarrow> valid_if (new_password_ok (rr_password b) (rr_password_confirmation b))
          (Register host accepted email (rr_password b)))"

definition verify_call :: "string \<Rightarrow> exn + public_call" where
  "verify_call token = valid_if (token_ok token) (VerifyEmail token)"

definition login_call ::
  "(string \<Rightarrow> string option) \<Rightarrow> string option \<Rightarrow> string option \<Rightarrow> login_request \<Rightarrow> exn + public_call" where
  "login_call mailbox host agent b =
     (case mailbox (lr_email b) of
        None \<Rightarrow> invalid
      | Some email \<Rightarrow> valid_if (some_between 6 20 (lr_totp_code b))
          (LogIn host agent email (lr_password b) (lr_totp_code b)))"

definition forgot_call ::
  "(string \<Rightarrow> string option) \<Rightarrow> string option \<Rightarrow> bool \<Rightarrow> string \<Rightarrow> exn + public_call" where
  "forgot_call mailbox host accepted email =
     (case mailbox email of None \<Rightarrow> invalid | Some email \<Rightarrow> Inr (Forgot host accepted email))"

definition reset_call :: "reset_request \<Rightarrow> exn + public_call" where
  "reset_call b =
     valid_if (token_ok (pr_token b) \<and> new_password_ok (pr_password b) (pr_password_confirmation b))
       (ResetPassword (pr_token b) (pr_password b))"

definition mfa_verify_call :: "string \<Rightarrow> exn + session_call" where
  "mfa_verify_call code = valid_if (mfa_code_ok code) (MfaVerify code)"

definition change_password_call :: "change_password_request \<Rightarrow> exn + session_call" where
  "change_password_call b =
     valid_if (new_password_ok (cp_new_password b) (cp_new_password_confirmation b))
       (ChangePassword (cp_current_password b) (cp_new_password b))"

definition create_key_call :: "api_key_create \<Rightarrow> exn + session_call" where
  "create_key_call b = valid_if (api_key_create_ok b) (CreateKey (kc_name b) (kc_scopes b) (kc_expires_at b))"

text \<open>
  A public request with its body.  The body of an authenticated request is looked at after its credentials: a request
  with wrong credentials is answered with 401 whatever its body.
\<close>

definition public_request ::
  "crypto \<Rightarrow> settings \<Rightarrow> oauth \<Rightarrow> world \<Rightarrow> exn + public_call \<Rightarrow> pyfloat \<Rightarrow> limiter \<times> session
   \<Rightarrow> (exn + unit) \<times> limiter \<times> session" where
  "public_request cr cfg oauth w c tick st =
     (case c of Inl e \<Rightarrow> (Inl e, st) | Inr c \<Rightarrow> identity_request cr cfg oauth w (Public c tick) st)"

definition session_body :: "exn + session_call \<Rightarrow> (session_call \<Rightarrow> principal \<Rightarrow> session \<Rightarrow> (exn + unit) \<times> session)
   \<Rightarrow> principal \<Rightarrow> session \<Rightarrow> (exn + unit) \<times> session" where
  "session_body c run p s = (case c of Inl e \<Rightarrow> (Inl e, s) | Inr c \<Rightarrow> run c p s)"

definition session_request ::
  "crypto \<Rightarrow> settings \<Rightarrow> credentials \<Rightarrow> exn + session_call \<Rightarrow> limiter \<times> session \<Rightarrow> (exn + unit) \<times> limiter \<times> session" where
  "session_request cr cfg creds c st =
     (case sbind (require_session cr cfg creds (snd st)) (session_body c (session_op cr cfg)) of
        (r, s') \<Rightarrow> (r, fst st, rollback s'))"

section \<open>What the endpoints may rely on\<close>

named_theorems bodies

lemmas [bodies] = register_call_def verify_call_def login_call_def forgot_call_def reset_call_def mfa_verify_call_def
  change_password_call_def create_key_call_def valid_if_def invalid_def new_password_ok_def

text \<open>A request with a valid body is the request of the model; one with a refused body changes nothing.\<close>

lemma session_request_valid:
  "session_request cr cfg creds (Inr c) st = identity_request cr cfg oauth w (SessionRequest creds c) st"
  by (cases st) (simp add: session_request_def session_body_def [abs_def])

lemma public_request_refused:
  assumes "public_request cr cfg oauth w (Inl e) tick st = (r, st')"
  shows "r = Inl e \<and> st' = st"
  using assms by (simp add: public_request_def)

lemma calls_carry_checked_passwords:
  "register_call mailbox host accepted b = Inr (Register h a email password) \<Longrightarrow>
     between 12 128 password \<and> password = rr_password_confirmation b \<and> mailbox (rr_email b) = Some email"
  "reset_call p = Inr (ResetPassword token password) \<Longrightarrow>
     between 12 128 password \<and> password = pr_password_confirmation p \<and> between 20 500 token"
  "change_password_call q = Inr (ChangePassword old password) \<Longrightarrow>
     between 12 128 password \<and> password = cp_new_password_confirmation q"
  by (auto simp: bodies token_ok_def split: option.splits if_splits)

end
