(* ===== verification/Spec2Isabelle.thy ===== *)
theory Spec2Isabelle
  imports LiveProps StrategyProps CandleProps DhanFeedProps MarketWorkerProps BusProps IdentityProps
    InstrumentProps RedisProps StreamProps ViewProps OperatorProps StrategyFeed FeedConnectionProps MarketRun
    AppShell Requests
begin

text \<open>
  A verification of the GnKAlgo trading platform (\<^verbatim>\<open>backend/app\<close>): paper and live order execution, the
  reconciliation of live orders, the moving-average strategies, the market data that feeds them, and the accounts,
  sessions, keys and broker authorizations that decide who may trade.

  \<^bold>\<open>The program.\<close>  Users place orders through \<^verbatim>\<open>routers/trading.py\<close>; the order manager
  (\<^verbatim>\<open>trading/service.py\<close>) sends them to the paper engine (\<^verbatim>\<open>trading/engine.py\<close>) or, behind a live gate, to the
  Dhan broker (\<^verbatim>\<open>trading/dhan.py\<close>), whose order and trade books a worker (\<^verbatim>\<open>trading/reconcile.py\<close>) reads back.  The
  market worker (\<^verbatim>\<open>market/worker.py\<close>) keeps one connection to the Dhan feed per user (\<^verbatim>\<open>market/dhan.py\<close>), turns
  packets into quotes (\<^verbatim>\<open>market/adapters.py\<close>), publishes them on a bus (\<^verbatim>\<open>market/bus.py\<close>), aggregates them into
  candles (\<^verbatim>\<open>market/candles.py\<close>) and fills resting paper orders.  The strategy worker (\<^verbatim>\<open>strategies/worker.py\<close>)
  evaluates strategies on closed candles (\<^verbatim>\<open>strategies/evaluator.py\<close>, \<^verbatim>\<open>strategies/service.py\<close>) and trades through
  the same order manager.  Who a request belongs to is decided by \<^verbatim>\<open>routers/auth.py\<close>,
  \<^verbatim>\<open>dependencies.py\<close> and \<^verbatim>\<open>security.py\<close>; \<^verbatim>\<open>routers/api_keys.py\<close> and \<^verbatim>\<open>routers/brokers.py\<close> give out keys and broker authorizations, and
  \<^verbatim>\<open>market/instruments.py\<close> fills the table of instruments.  All share one database, whose rows are the state of the
  model.

  \<^bold>\<open>Shared theories.\<close>  \<open>PyFloat\<close> is Python's float as rationals rounded to 53 bits, with the locales
  \<open>monotone_rounding\<close> and \<open>rounding\<close>; \<open>Prelude\<close> has the exceptions (\<open>exn + 'a\<close>), instants, runs of operations and
  the locale \<open>preserving\<close> (an invariant every step keeps holds after every run); \<open>Models\<close> holds the tables, enums,
  JSON values and settings; \<open>Config\<close> the checks of the settings; \<open>PyNumbers\<close> \<^verbatim>\<open>int()\<close> and \<^verbatim>\<open>float()\<close>.  \<open>Store\<close> is
  the SQLAlchemy session of \<^verbatim>\<open>database.py\<close>: flushed rows and objects still pending (autoflush is off), flush, commit
  with the unique constraints, and the rollback that closing a session is; its locales \<open>row_updates\<close> and \<open>row_store\<close>
  are interpreted on the order, execution and position tables.

  \<^bold>\<open>Trading.\<close>  \<open>Engine\<close>, \<open>DhanInstruments\<close>, \<open>DhanOrders\<close>, \<open>OrderService\<close>, \<open>Reconcile\<close> and \<open>TradingApi\<close> are the
  modules of the same names, one definition per function or handler.  \<open>Ledger\<close> states the invariant of orders,
  executions and positions and that booking keeps it; \<open>Books\<close> adds the life cycle of paper orders and makes the
  contract a locale, \<open>order_invariant\<close>, which \<open>PaperEngine\<close>, \<open>LiveBooks\<close>, \<open>ReconcileBooks\<close> and \<open>TradingApi\<close> prove
  for every operation; \<open>History\<close> interprets it a second time for the growth of the ledger.  \<open>Accounting\<close> bounds
  what a fill does to the value of a position.  The properties are C2 and C3 in \<open>EngineProps\<close> (with the average price of a position), C9 and C10 in
  \<open>FillProps\<close> (with the direction of the slippage), C11 and C12 in \<open>RiskProps\<close> (with a proof that modification is not limited),
  C14 to C17, C19 and C20 in \<open>LiveProps\<close> (with a proof that an unsupported instrument leaves a pending row), and C1 and C21 here.

  \<^bold>\<open>Strategies.\<close>  \<open>Sma\<close>, \<open>Strategies\<close>, \<open>StrategyRun\<close> and \<open>StrategyApi\<close> model the evaluator, the executor with its
  worker, and the endpoints.  \<open>Frames\<close> (locale \<open>order_frame\<close>) says which tables trading leaves alone;
  \<open>StrategyBooks\<close> (locales \<open>strategy_part\<close> and \<open>strategy_invariant\<close>) what an evaluation keeps, in particular that a
  claimed candle stays claimed.  \<open>Platform\<close> composes trading requests, quotes, strategy passes and strategy edits into
  \<open>platform_step\<close> and proves its invariant \<open>platform_ok\<close>.  \<open>RunEnds\<close> interprets the two locales again to show how every
  evaluation ends: its row is finished and durable, whatever is raised on the way, and its signals have the side that was
  decided.  C25, C26, C28 and C29 are in \<open>StrategyProps\<close> (with the order of claim and trade), C30 is here.
  \<open>StrategyFeed\<close> adds what the worker subscribes to on the bus, pass by pass (C24).

  \<^bold>\<open>Market data.\<close>  \<open>Candles\<close> is the aggregator (C22 and C23 in \<open>CandleProps\<close>, with a proof that a late tick rewrites a
  completed candle).  \<open>DhanFrames\<close> is the binary protocol;
  \<open>DhanFrameProps\<close> gives an encoder, the specification of the format, and proves that decoding ends, accounts for
  every byte (C31) and inverts it (C32).  \<open>DhanFeed\<close> has what a connection sends when its subscriptions change, the
  loop over a message, the reconnection and the supervisor (C35 in \<open>DhanFeedProps\<close>, with the messages of a change).
  \<open>FeedConnection\<close> puts the steps of a connection into a state machine between the points where its task waits;
  \<open>FeedConnectionProps\<close> follows what the broker has been asked for through changes, losses and reconnections (C27).  \<open>MarketAdapters\<close> and
  \<open>MarketWorker\<close> lead from a packet to the event of the platform; \<open>MarketWorkerProps\<close> composes all of it, from the
  bytes to the database (C36); \<open>MarketRun\<close> is the turn of the worker for each provider.
  \<open>MarketBus\<close> is the bus of one process, \<open>BusProps\<close> what it promises a listener (C37).  \<open>RedisBus\<close> has the commands the bus
  sends to a Redis server and what it reads back; \<open>RedisProps\<close> shows, from the laws of the commands, that processes which
  share a server share one set of subscriptions (C33), and that renewals do not keep a subscription alive (C4).
  \<open>MarketStream\<close> is the rest of \<^verbatim>\<open>routers/market.py\<close>, with the WebSocket stream as a state machine; \<open>StreamProps\<close> is what
  its client may rely on on the bus of one process, and what is left behind when its first message fails (C8).  \<open>RateLimit\<close>
  is the limiter of the authentication endpoints (C38).  \<open>Scenario\<close> is the account the witnesses are evaluated on.
  \<open>InstrumentImport\<close> is the import of instruments from a CSV file; \<open>InstrumentProps\<close> shows that what it leaves can be
  subscribed to (C7) and that importing the same file again changes nothing (C40), both for a table without Dhan tokens of
  the older form, and that both fail when there is one.  \<open>OperatorCli\<close> has the commands of
  \<^verbatim>\<open>cli.py\<close>, \<open>OperatorProps\<close> when the other import succeeds (C18).

  \<^bold>\<open>Identity.\<close>  \<open>Security\<close> is \<^verbatim>\<open>security.py\<close> (digests, tokens, API keys, one-time codes), \<open>Identity\<close> is
  \<^verbatim>\<open>dependencies.py\<close> (who a request is), \<open>AuthApi\<close>, \<open>AccountsApi\<close> and \<open>BrokerApi\<close> are the routers, \<open>Brokers\<close> the
  authorization flow of \<^verbatim>\<open>brokers/adapters.py\<close>, \<open>MarketAccess\<close> the tickets of the market router.  \<open>IdentityEvents\<close> composes every handler into \<open>identity_step\<close>, one request with its rollback.
  \<open>CredentialMoves\<close> shows that a handler is a sequence of a few kinds of write, an inductive relation \<open>move\<close>;
  \<open>CredentialFacts\<close> that the facts which rule a credential out (a session revoked, a token or state or ticket used, a
  refresh token rotated, an account locked until an instant) outlive every move, of these requests and of the whole
  platform; \<open>Refusals\<close> that each such fact makes the handler refuse the credential.  C5, C6, C34 and C39 in
  \<open>IdentityProps\<close> join the two for arbitrary later events.  They assume with \<open>unrepeated\<close> that
  what is asked about is not drawn again later: no later secret has the digest, and no later key has the identifier.

  \<^bold>\<open>Readings and the shell.\<close>  \<open>Views\<close> has the response models of \<^verbatim>\<open>schemas.py\<close> and the endpoints that list and show
  rows; \<open>ViewProps\<close> shows that what they answer, and what the preview, the quotes and the status of the market answer, depends
  on nothing of other users and on no secret (C13).  \<open>Requests\<close>
  has the bodies of the identity requests and what their models refuse; \<open>AppShell\<close> the redaction of audit entries, the
  headers and the health answer, and the messages of the mailer.

  \<^bold>\<open>Correspondence.\<close>  Operations run in one session at a time and return \<open>(exn + 'a) \<times> session\<close>: an exception keeps
  the state it was raised in, and the caller rolls back what was not committed, as the request handler does.  An
  operation reads one instant of the clock.  Identifiers and random draws come from a stream of the session.  What
  is sent to the broker is logged in \<open>wire\<close>, and the broker, the decryption of credentials and CPython's \<^verbatim>\<open>repr\<close> are
  the parameter \<open>world\<close>; SHA-256 and \<^verbatim>\<open>math.sin\<close> are parameters too.  Argon2, Fernet, HMAC and TOTP are the record
  \<open>crypto\<close>, the token endpoints of the brokers the parameter \<open>oauth\<close>, and the rows of an instrument file are those
  \<^verbatim>\<open>csv.DictReader\<close> yields.  Times are microseconds since the epoch in UTC,
  so the handling of naive timestamps has nothing to do.

  \<^bold>\<open>Bounds.\<close>  No definition needs fuel: loops are structural recursions on lists, and the decoder of frames has a
  measure.  Floats are exact up to 53 bits with an unbounded exponent (no infinities, NaN or subnormal numbers);
  prices of the feed are the bit patterns of binary32, and a packet with a number that is not finite leaves the
  model through a parameter.  Frame fields are \<open>8 word\<close>s and \<open>32 word\<close>s.

  \<^bold>\<open>Not modelled.\<close>  Two sessions at once (the row locks have nothing to do), foreign keys, column lengths and log
  lines.  The stamps of rows are a parameter of the listings, and the audit table with its listing is not part of the
  database.  Outside are the Redis server (the parameter \<open>redis_server\<close> with the laws \<open>redis_laws\<close>), the WebSockets, the
  scheduling of tasks and the sleeping of loops, the SQL pattern match of the instrument search, SMTP, files, prompts,
  the command line, cookies, CORS and the routing of FastAPI.  The bus a request uses is the one of its process without
  Redis, where a command of a stream is one step, for nothing but the socket is awaited.  A client may be lost at the first
  message and between two steps of a stream; that the sending of a quote fails, which ends the forwarding task before the
  connection, is left out.
\<close>

section \<open>Properties of the whole trading system\<close>

text \<open>
  C1. The books always balance.  Whatever requests, quotes, reconciliations and pauses follow one
  another, and whatever the broker answers, in the database every order's filled quantity lies between
  zero and its quantity and is the sum of the executions booked for it; a paper order is open and
  unfilled, filled in full, or cancelled and unfilled; every execution belongs to an order and agrees
  with it; and the position of a user in an instrument is the sum of the signed fills of the orders.
\<close>

theorem books_always_balance:
  assumes "between_events s"
  shows "let d = saved (run_ops (system_step w cfg) evs s) in
    (\<forall>r \<in> set (rows (t_orders d)).
       0 \<le> o_filled_quantity r \<and> o_filled_quantity r \<le> o_quantity r \<and>
       o_filled_quantity r = exec_sum d (o_id r) \<and> lifecycle r) \<and>
    (\<forall>x \<in> set (rows (t_executions d)). \<exists>r \<in> set (rows (t_orders d)). execution_of_order r x) \<and>
    (\<forall>k. position_sum d k = fill_sum d k)"
proof -
  define d where "d = saved (run_ops (system_step w cfg) evs s)"
  have later: "durable book d"
    using trading_system.run_keeps [OF assms] by (simp add: d_def between_events_def)
  then have rows: "objs (t_orders d) = rows (t_orders d)" "objs (t_executions d) = rows (t_executions d)"
    by (simp_all add: durable_def clean_def objs_def)
  have L: "ledger d" and B: "book d" using later by (simp_all add: durable_def book_def)
  show ?thesis
    using ledgerD(3-5) [OF L] bookD(2) [OF B]
    unfolding Let_def rows order_booked_def d_def [symmetric] by blast
qed

lemma books_always_balance_witness:
  "let d = saved (run_ops (system_step (ex_world NoReply NoReply) paper_settings)
       [QuoteArrives ''u'' (ex_quote 100), Reconcile] (ex_resting 105 95)) in
    (\<forall>r \<in> set (rows (t_orders d)).
       0 \<le> o_filled_quantity r \<and> o_filled_quantity r \<le> o_quantity r \<and>
       o_filled_quantity r = exec_sum d (o_id r) \<and> lifecycle r) \<and>
    (\<forall>x \<in> set (rows (t_executions d)). \<exists>r \<in> set (rows (t_orders d)). execution_of_order r x) \<and>
    (\<forall>k. position_sum d k = fill_sum d k)"
  by (rule books_always_balance [OF between_ex_resting])

text \<open>
  C21. The ledger only grows.  No event loses an order or an execution: every order of an earlier state
  is still there, with the same owner, instrument, client order id, side, type and mode, its filled
  quantity has not gone down, and a paper order that was filled or cancelled has not changed at all;
  every execution is there unchanged.
\<close>

theorem ledger_only_grows:
  assumes "between_events s"
  shows "let d = saved (run_ops (system_step w cfg) evs s) in
    (\<forall>r \<in> set (objs (t_orders (saved s))). \<exists>r' \<in> set (objs (t_orders d)).
       o_id r' = o_id r \<and> o_user_id r' = o_user_id r \<and> o_instrument_id r' = o_instrument_id r \<and>
       o_client_order_id r' = o_client_order_id r \<and> o_mode r' = o_mode r \<and> o_side r' = o_side r \<and>
       o_order_type r' = o_order_type r \<and> o_filled_quantity r \<le> o_filled_quantity r' \<and>
       (o_mode r = ''PAPER'' \<and> o_status r \<notin> open_order_statuses \<longrightarrow> r' = r)) \<and>
    set (objs (t_executions (saved s))) \<subseteq> set (objs (t_executions d))"
  using run_history [OF assms, of w cfg evs]
  unfolding history_def order_evolves_def Let_def by meson

lemma ledger_only_grows_witness:
  "set (objs (t_executions (saved (ex_resting 105 95)))) \<subseteq>
     set (objs (t_executions (saved (run_ops (system_step (ex_world NoReply NoReply) paper_settings)
       [CancelOrder ''u'' ''a''] (ex_resting 105 95)))))"
  using ledger_only_grows [OF between_ex_resting,
      of "ex_world NoReply NoReply" paper_settings "[CancelOrder ''u'' ''a'']" 105 95]
  by (simp add: Let_def)

section \<open>Properties of the whole platform\<close>

text \<open>
  C30. The books balance while strategies trade.  Whatever trading requests, market quotes, strategy
  passes, strategy edits, activations and reconciliations follow one another on one database, every
  order's filled quantity lies between zero and its quantity and is the sum of its executions, every
  execution belongs to an order, each position is the sum of the signed fills, and no strategy has a
  quantity that is not positive.
\<close>

theorem books_balance_while_strategies_trade:
  assumes "platform_ok {} (vs, s)"
  shows "let d = saved (snd (run_ops (platform_step w cfg ns) evs (vs, s))) in
    (\<forall>r \<in> set (objs (t_orders d)).
       0 \<le> o_filled_quantity r \<and> o_filled_quantity r \<le> o_quantity r \<and> o_filled_quantity r = exec_sum d (o_id r)) \<and>
    (\<forall>x \<in> set (objs (t_executions d)). \<exists>r \<in> set (objs (t_orders d)). execution_of_order r x) \<and>
    (\<forall>k. position_sum d k = fill_sum d k) \<and>
    (\<forall>st \<in> set (objs (t_strategies (t_strategy d))). 0 < st_quantity st)"
proof -
  define d where "d = saved (snd (run_ops (platform_step w cfg ns) evs (vs, s)))"
  have later: "platform_ok {} (run_ops (platform_step w cfg ns) evs (vs, s))"
    using assms by (rule platform.run_keeps)
  then have L: "ledger d" and S: "strategies_valid (t_strategy d)"
    by (simp_all add: d_def platform_ok_def between_events_def durable_def book_def claim_kept_def)
  show ?thesis
    using ledgerD(3-5) [OF L] S
    unfolding Let_def order_booked_def d_def [symmetric] strategies_valid_def by blast
qed

lemma books_balance_while_strategies_trade_witness:
  "\<forall>k. position_sum (saved (snd (run_ops (platform_step (ex_world NoReply NoReply) strategy_settings [60])
       [MarketQuote ''u'' (ex_quote 18), StrategyPass ex_quotes] (Map.empty, ex_run_session)))) k =
     fill_sum (saved (snd (run_ops (platform_step (ex_world NoReply NoReply) strategy_settings [60])
       [MarketQuote ''u'' (ex_quote 18), StrategyPass ex_quotes] (Map.empty, ex_run_session)))) k"
  using books_balance_while_strategies_trade [OF platform_ok_ex_run, of "ex_world NoReply NoReply" strategy_settings
      "[60]" "[MarketQuote ''u'' (ex_quote 18), StrategyPass ex_quotes]"]
  unfolding Let_def by blast

end
